(* ===== verification/Go_Prelude.thy ===== *)
theory Go_Prelude
  imports Complex_Main "HOL-Library.Word" "HOL-Library.Char_ord" "HOL-Library.List_Lexorder"
    "HOL-Library.Product_Lexorder" "HOL-Library.Sublist" "HOL-Library.Multiset"
begin

text \<open>
  What every other theory of the development shares: the types that stand for Go's types, the
  part of Go's standard library that the repository calls on strings and slices
  (\<^verbatim>\<open>strings\<close>, \<^verbatim>\<open>sort\<close>), the
  repository's error values with \<^verbatim>\<open>errors.Is\<close> and \<^verbatim>\<open>errors.As\<close>, and the lemma
  collections the component proofs use.

  Conventions. A Go \<^verbatim>\<open>string\<close> is a \<^typ>\<open>string\<close>: a list of 8-bit characters, so its
  length counts bytes, as Go's does. A \<^verbatim>\<open>[]byte\<close> is a \<^typ>\<open>8 word list\<close>. An instant is an
  \<^typ>\<open>int\<close>, counted in microseconds, the resolution of a \<^verbatim>\<open>timestamptz\<close> column; a
  duration is counted in the same unit. A \<^verbatim>\<open>uuid.UUID\<close> is a \<^typ>\<open>128 word\<close>. A pointer that
  may be nil is an \<^verbatim>\<open>option\<close>. A call that can fail returns a sum, \<^verbatim>\<open>Inl\<close> the error.
\<close>

named_theorems err_simps \<open>facts on Go error values and their unwrapping\<close>
named_theorems str_simps \<open>facts on the modelled string functions\<close>

type_synonym byte = "8 word"
type_synonym uuid = "128 word"
type_synonym time = int
type_synonym duration = int

abbreviation Second :: duration where "Second \<equiv> 1000000"
abbreviation Minute :: duration where "Minute \<equiv> 60 * Second"
abbreviation Hour :: duration where "Hour \<equiv> 60 * Minute"

section \<open>Floating-point numbers\<close>

text \<open>
  A \<^verbatim>\<open>float64\<close> as the repository uses it: compared, never computed with. A comparison with NaN
  is false whichever way round it is written.
\<close>

datatype float64 = NaN | NegInf | Finite rat | PosInf

instantiation float64 :: ord
begin

fun less_float64 :: "float64 \<Rightarrow> float64 \<Rightarrow> bool" where
  "less_float64 NegInf (Finite y) = True"
| "less_float64 NegInf PosInf = True"
| "less_float64 (Finite x) (Finite y) = (x < y)"
| "less_float64 (Finite x) PosInf = True"
| "less_float64 x y = False"

definition less_eq_float64 :: "float64 \<Rightarrow> float64 \<Rightarrow> bool" where
  "less_eq_float64 x y \<longleftrightarrow> x \<noteq> NaN \<and> y \<noteq> NaN \<and> (x < y \<or> x = y)"

instance ..

end

section \<open>Errors\<close>

text \<open>An argument of a formatting verb.\<close>

datatype fmt_arg = ArgString string | ArgInt int | ArgID uuid | ArgFloat float64

text \<open>
  One constructor per error the repository declares, plus the errors of the libraries it
  inspects: \<^verbatim>\<open>pgx.ErrNoRows\<close>, \<^verbatim>\<open>pgconn.PgError\<close> (its SQLSTATE and constraint name, the only
  fields read) and any other library error, which is opaque and carries a text.
  \<^verbatim>\<open>fmt.Errorf("m: %w", e)\<close> is \<^verbatim>\<open>Wrap m e\<close>; \<^verbatim>\<open>fmt.Errorf("%w: ...", e)\<close> with a format and
  its arguments is \<^verbatim>\<open>WrapFmt e format args\<close>, the text left unformatted. \<^verbatim>\<open>Panic\<close> stands for a panic that unwinds the request: no branch of the
  modelled code that tests an error ever catches it.
\<close>

datatype go_error =
    ErrNoRows
  | PgError string string
  | LibError string
  | Panic string
  | ErrInvalid
  | ErrBadCredentials
  | ErrLocked
  | LockoutError time
  | ErrNoSession
  | ErrEmailTaken
  | ErrInvalidInput
  | ErrPasswordMismatch
  | ErrNotFound
  | ErrLastProvider
  | ErrProviderNotConfigured
  | ErrStateMismatch
  | ErrNoEmailFromProvider
  | ErrSlugTaken
  | ErrNoParent
  | ErrContextNotFound
  | ErrSelfParent
  | ErrCycle
  | ErrTooDeep
  | LiveChildrenError int
  | Wrap string go_error
  | WrapFmt go_error string "fmt_arg list"

text \<open>The chain \<^verbatim>\<open>errors.Is\<close> and \<^verbatim>\<open>errors.As\<close> walk: the error, then what it wraps.\<close>

fun unwrap_chain :: "go_error \<Rightarrow> go_error list" where
  "unwrap_chain (Wrap m e) = Wrap m e # unwrap_chain e"
| "unwrap_chain (WrapFmt e f as) = WrapFmt e f as # unwrap_chain e"
| "unwrap_chain e = [e]"

text \<open>The one \<^verbatim>\<open>Is\<close> method of the repository is \<^verbatim>\<open>LockoutError.Is\<close>.\<close>

fun LockoutError_Is :: "go_error \<Rightarrow> go_error \<Rightarrow> bool" where
  "LockoutError_Is (LockoutError t) target = (target = ErrLocked)"
| "LockoutError_Is e target = False"

definition errors_Is :: "go_error \<Rightarrow> go_error \<Rightarrow> bool" where
  "errors_Is err target =
     list_ex (\<lambda>e. e = target \<or> LockoutError_Is e target) (unwrap_chain err)"

fun is_panic :: "go_error \<Rightarrow> bool" where
  "is_panic (Panic s) = True"
| "is_panic e = False"

fun is_PgError :: "go_error \<Rightarrow> bool" where
  "is_PgError (PgError code con) = True"
| "is_PgError e = False"

text \<open>\<^verbatim>\<open>errors.As(err, &pgErr)\<close>: the first \<^verbatim>\<open>PgError\<close> of the chain.\<close>

definition errors_As_PgError :: "go_error \<Rightarrow> go_error option" where
  "errors_As_PgError err = find is_PgError (unwrap_chain err)"

lemma errors_Is_Wrap [simp, err_simps]:
  "target \<noteq> Wrap m e \<Longrightarrow> errors_Is (Wrap m e) target = errors_Is e target"
  by (auto simp: errors_Is_def)

lemma errors_As_Wrap [simp, err_simps]:
  "errors_As_PgError (Wrap m e) = errors_As_PgError e"
  by (simp add: errors_As_PgError_def)

lemma errors_As_PgError_PgError [simp, err_simps]:
  "errors_As_PgError (PgError code con) = Some (PgError code con)"
  by (simp add: errors_As_PgError_def)

lemma errors_As_NoRows [simp, err_simps]: "errors_As_PgError ErrNoRows = None"
  by (simp add: errors_As_PgError_def)

lemma errors_As_LibError [simp, err_simps]: "errors_As_PgError (LibError s) = None"
  by (simp add: errors_As_PgError_def)

section \<open>Strings\<close>

text \<open>
  Go's string functions take an ASCII fast path and fall back to the Unicode tables of package
  \<^verbatim>\<open>unicode\<close> at the first byte that is not ASCII. The tables are data of the toolchain: the
  fall-backs are the fields of a record that the definitions take as a parameter.
\<close>

record unicode =
  uc_ToLower :: "string \<Rightarrow> string"
  uc_EqualFold :: "string \<Rightarrow> string \<Rightarrow> bool"
  uc_TrimFunc :: "string \<Rightarrow> string"
  uc_TrimRightFunc :: "string \<Rightarrow> string"

definition ascii_char :: "char \<Rightarrow> bool" where
  "ascii_char c \<longleftrightarrow> (of_char c :: nat) < 128"

definition ascii :: "string \<Rightarrow> bool" where
  "ascii s \<longleftrightarrow> list_all ascii_char s"

definition upper_char :: "char \<Rightarrow> bool" where
  "upper_char c \<longleftrightarrow> 65 \<le> (of_char c :: nat) \<and> (of_char c :: nat) \<le> 90"

definition lower_char :: "char \<Rightarrow> char" where
  "lower_char c = (if upper_char c then char_of ((of_char c :: nat) + 32) else c)"

definition ascii_space :: "char \<Rightarrow> bool" where
  "ascii_space c \<longleftrightarrow> (of_char c :: nat) \<in> {9, 10, 11, 12, 13, 32}"

text \<open>\<^verbatim>\<open>strings.ToLower\<close>.\<close>

definition ToLower :: "unicode \<Rightarrow> string \<Rightarrow> string" where
  "ToLower U s = (if ascii s then map lower_char s else uc_ToLower U s)"

text \<open>\<^verbatim>\<open>strings.TrimSpace\<close>: ASCII from the front, then from the back.\<close>

definition TrimSpace :: "unicode \<Rightarrow> string \<Rightarrow> string" where
  "TrimSpace U s =
     (case dropWhile ascii_space s of
        [] \<Rightarrow> []
      | c # cs \<Rightarrow>
          if \<not> ascii_char c then uc_TrimFunc U (c # cs)
          else (let t = rev (dropWhile ascii_space (rev (c # cs)))
                in if \<not> ascii_char (last t) then uc_TrimRightFunc U t else t))"

text \<open>\<^verbatim>\<open>strings.EqualFold\<close>.\<close>

fun EqualFold :: "unicode \<Rightarrow> string \<Rightarrow> string \<Rightarrow> bool" where
  "EqualFold U (s # ss) (t # ts) =
     (if \<not> ascii_char s \<or> \<not> ascii_char t then uc_EqualFold U (s # ss) (t # ts)
      else if s = t then EqualFold U ss ts
      else (let lo = min s t; hi = max s t
            in if upper_char lo \<and> (of_char hi :: nat) = of_char lo + 32
               then EqualFold U ss ts else False))"
| "EqualFold U ss ts = (length ss = length ts)"

text \<open>\<^verbatim>\<open>strings.Contains\<close>, \<^verbatim>\<open>strings.Cut\<close> and \<^verbatim>\<open>strings.Split\<close> at a one-byte separator.\<close>

fun Contains :: "string \<Rightarrow> string \<Rightarrow> bool" where
  "Contains [] sub = (sub = [])"
| "Contains (c # s) sub = (prefix sub (c # s) \<or> Contains s sub)"

definition Cut :: "string \<Rightarrow> char \<Rightarrow> string \<times> string \<times> bool" where
  "Cut s sep =
     (if sep \<in> set s
      then (takeWhile (\<lambda>c. c \<noteq> sep) s, tl (dropWhile (\<lambda>c. c \<noteq> sep) s), True)
      else (s, [], False))"

fun Split :: "string \<Rightarrow> char \<Rightarrow> string list" where
  "Split [] sep = [[]]"
| "Split (c # s) sep =
     (if c = sep then [] # Split s sep
      else (case Split s sep of [] \<Rightarrow> [[c]] | p # ps \<Rightarrow> (c # p) # ps))"

text \<open>A concrete instance of the tables, for evaluation: text outside ASCII is left as it is.\<close>

definition plain_unicode :: unicode where
  "plain_unicode = \<lparr>uc_ToLower = (\<lambda>s. s), uc_EqualFold = (=), uc_TrimFunc = (\<lambda>s. s),
     uc_TrimRightFunc = (\<lambda>s. s)\<rparr>"

subsection \<open>Facts on strings\<close>

lemma char_cases: "P c" if "\<And>n. n < 256 \<Longrightarrow> P (char_of (n :: nat))" for c
proof -
  have "P (char_of (of_char c :: nat))" by (rule that) (rule nat_of_char_less_256)
  then show ?thesis by simp
qed

lemma of_char_lower [str_simps]:
  "(of_char (lower_char c) :: nat) = (if upper_char c then of_char c + 32 else of_char c)"
  by (simp add: lower_char_def upper_char_def)

lemma ascii_lower_char [simp]: "ascii_char (lower_char c) = ascii_char c"
  by (auto simp: ascii_char_def of_char_lower upper_char_def)

lemma lower_char_not_upper [simp]: "\<not> upper_char (lower_char c)"
  by (auto simp: upper_char_def of_char_lower)

lemma lower_char_idem [simp]: "lower_char (lower_char c) = lower_char c"
  by (simp add: lower_char_def [of "lower_char c"])

lemma ascii_space_ascii [simp]: "ascii_space c \<Longrightarrow> ascii_char c"
  by (auto simp: ascii_space_def ascii_char_def)

lemma ascii_space_lower [simp]: "ascii_space (lower_char c) = ascii_space c"
  by (auto simp: ascii_space_def of_char_lower upper_char_def)

lemma ascii_Nil [simp]: "ascii []"
  by (simp add: ascii_def)

lemma ascii_Cons [simp]: "ascii (c # s) \<longleftrightarrow> ascii_char c \<and> ascii s"
  by (simp add: ascii_def)

lemma ascii_append [simp]: "ascii (s @ t) \<longleftrightarrow> ascii s \<and> ascii t"
  by (simp add: ascii_def)

lemma ascii_map_lower [simp]: "ascii (map lower_char s) = ascii s"
  by (simp add: ascii_def list_all_iff)

lemma lower_char_eq_iff:
  "lower_char s = lower_char t \<longleftrightarrow>
     s = t \<or> (upper_char (min s t) \<and> (of_char (max s t) :: nat) = of_char (min s t) + 32)"
proof -
  have eq: "x = y \<longleftrightarrow> (of_char x :: nat) = of_char y" for x y :: char
    by simp
  show ?thesis
    unfolding eq of_char_lower
    by (auto simp: upper_char_def min_def max_def less_eq_char_def)
qed

lemma EqualFold_ascii:
  "ascii s \<Longrightarrow> ascii t \<Longrightarrow> EqualFold U s t \<longleftrightarrow> map lower_char s = map lower_char t"
proof (induction U s t rule: EqualFold.induct)
  case (1 U s ss t ts)
  then show ?case by (auto simp: Let_def lower_char_eq_iff)
qed auto

lemma Contains_sublist: "Contains s sub = sublist sub s"
  by (induction s) (auto simp: sublist_Cons_right)

lemma Contains_Nil [simp]: "Contains s []"
  by (simp add: Contains_sublist)

lemma Split_not_Nil [simp]: "Split s sep \<noteq> []"
  by (cases s) (auto split: list.splits)

lemma Split_no_sep: "sep \<notin> set s \<Longrightarrow> Split s sep = [s]"
  by (induction s) auto

lemma Split_append: "sep \<notin> set p \<Longrightarrow> Split (p @ sep # s) sep = p # Split s sep"
  by (induction p) auto

lemma ascii_iff: "ascii s \<longleftrightarrow> (\<forall>c \<in> set s. ascii_char c)"
  by (simp add: ascii_def list_all_iff)

lemma ascii_dropWhile [simp]: "ascii s \<Longrightarrow> ascii (dropWhile p s)"
  by (auto simp: ascii_iff dest: set_dropWhileD)

lemma ascii_rev [simp]: "ascii (rev s) = ascii s"
  by (simp add: ascii_iff)

lemma dropWhile_end_not_Nil:
  "dropWhile p s = c # cs \<Longrightarrow> dropWhile p (rev (c # cs)) \<noteq> []"
  by (metis dropWhile_eq_Cons_conv dropWhile_eq_Nil_conv list.set_intros(1) set_rev)

lemma TrimSpace_ascii [str_simps]:
  assumes "ascii s"
  shows "TrimSpace U s = rev (dropWhile ascii_space (rev (dropWhile ascii_space s)))"
proof (cases "dropWhile ascii_space s")
  case Nil
  show ?thesis unfolding TrimSpace_def Nil by simp
next
  case (Cons c cs)
  let ?t = "rev (dropWhile ascii_space (rev (c # cs)))"
  have a: "ascii (c # cs)" using assms Cons by (metis ascii_dropWhile)
  have "?t \<noteq> []" using dropWhile_end_not_Nil [OF Cons] by simp
  moreover have "ascii ?t" using a by (simp only: ascii_rev ascii_dropWhile)
  ultimately have "ascii_char (last ?t)" by (meson ascii_iff last_in_set)
  with a Cons show ?thesis by (simp add: TrimSpace_def Let_def del: rev.simps)
qed

lemma TrimSpace_spaces: "list_all ascii_space s \<Longrightarrow> TrimSpace U s = []"
  by (simp add: TrimSpace_def list_all_iff dropWhile_eq_Nil_conv [THEN iffD2])

lemma ToLower_ascii [str_simps]: "ascii s \<Longrightarrow> ToLower U s = map lower_char s"
  by (simp add: ToLower_def)

lemma ascii_TrimSpace [simp]: "ascii s \<Longrightarrow> ascii (TrimSpace U s)"
  by (simp add: TrimSpace_ascii)

lemma TrimSpace_lower [str_simps]:
  "ascii s \<Longrightarrow> TrimSpace U (map lower_char s) = map lower_char (TrimSpace U s)"
  by (simp add: TrimSpace_ascii dropWhile_map rev_map comp_def)

lemma dropWhile_trimmed:
  "dropWhile p (rev (dropWhile p (rev (dropWhile p s)))) = rev (dropWhile p (rev (dropWhile p s)))"
proof (cases "dropWhile p s")
  case Nil
  show ?thesis unfolding Nil by simp
next
  case (Cons c cs)
  have "\<not> p c" using Cons by (simp add: dropWhile_eq_Cons_conv)
  then have "dropWhile p (rev cs @ [c]) = dropWhile p (rev cs) @ [c]"
    by (simp add: dropWhile_append)
  with \<open>\<not> p c\<close> Cons show ?thesis by simp
qed

lemma TrimSpace_idem [str_simps]: "ascii s \<Longrightarrow> TrimSpace U (TrimSpace U s) = TrimSpace U s"
  by (simp add: TrimSpace_ascii dropWhile_trimmed)

section \<open>Stable sorting\<close>

text \<open>
  \<^verbatim>\<open>sort.SliceStable(x, less)\<close>: sorted by \<^verbatim>\<open>less\<close>, elements that compare equal kept in their
  original order. \<^verbatim>\<open>ORDER BY\<close> is modelled by the same function.
\<close>

fun insert_stable :: "('a \<Rightarrow> 'a \<Rightarrow> bool) \<Rightarrow> 'a \<Rightarrow> 'a list \<Rightarrow> 'a list" where
  "insert_stable lt x [] = [x]"
| "insert_stable lt x (y # ys) =
     (if lt y x then y # insert_stable lt x ys else x # y # ys)"

fun SliceStable :: "('a \<Rightarrow> 'a \<Rightarrow> bool) \<Rightarrow> 'a list \<Rightarrow> 'a list" where
  "SliceStable lt [] = []"
| "SliceStable lt (x # xs) = insert_stable lt x (SliceStable lt xs)"

text \<open>
  What a client of a sort relies on: the result is a permutation, no element comes before one
  that is less, and equal elements keep their order.
\<close>

locale stable_sorter =
  fixes srt :: "('a \<Rightarrow> 'a \<Rightarrow> bool) \<Rightarrow> 'a list \<Rightarrow> 'a list"
  assumes srt_mset: "mset (srt lt xs) = mset xs"
    and srt_by_key:
      "(\<And>a b. lt a b \<longleftrightarrow> (f a :: 'k :: linorder) < f b) \<Longrightarrow> sorted (map f (srt lt xs))"
    and srt_stable:
      "(\<And>a b. lt a b \<longleftrightarrow> (f a :: 'k :: linorder) < f b) \<Longrightarrow>
         filter (\<lambda>y. k = f y) (srt lt xs) = filter (\<lambda>y. k = f y) xs"
begin

lemma set_srt [simp]: "set (srt lt xs) = set xs"
  using srt_mset [of lt xs] by (metis set_mset_mset)

lemma srt_eq_sort_key:
  assumes "\<And>a b. lt a b \<longleftrightarrow> (f a :: 'k) < f b"
  shows "srt lt xs = sort_key f xs"
  by (rule sym, rule properties_for_sort_key)
    (simp_all add: srt_mset srt_by_key [OF assms] srt_stable [OF assms])

text \<open>Distinct keys: the result depends on the elements, not on the order they came in.\<close>

lemma srt_perm:
  assumes "\<And>a b. lt a b \<longleftrightarrow> (f a :: 'k) < f b" and "mset xs = mset ys" and "inj_on f (set xs)"
  shows "srt lt xs = srt lt ys"
  by (simp add: srt_eq_sort_key [OF assms(1)] sort_key_eq_sort_key [OF assms(2,3)])

end

lemma insert_stable_insort_key:
  "(\<And>a b. lt a b \<longleftrightarrow> f a < f b) \<Longrightarrow> insert_stable lt x ys = insort_key f x ys"
  by (induction ys) auto

lemma SliceStable_sort_key:
  "(\<And>a b. lt a b \<longleftrightarrow> f a < f b) \<Longrightarrow> SliceStable lt xs = sort_key f xs"
  by (induction xs) (simp_all add: insert_stable_insort_key)

lemma mset_insert_stable: "mset (insert_stable lt x ys) = add_mset x (mset ys)"
  by (induction ys) auto

lemma mset_SliceStable [simp]: "mset (SliceStable lt xs) = mset xs"
  by (induction xs) (simp_all add: mset_insert_stable)

interpretation slice: stable_sorter SliceStable
proof unfold_locales
  show "sorted (map f (SliceStable lt xs))" if "\<And>a b. lt a b = (f a < f b)"
    for f :: "'a \<Rightarrow> 'k :: linorder" and lt xs
    by (simp add: SliceStable_sort_key [OF that])
  show "filter (\<lambda>y. k = f y) (SliceStable lt xs) = filter (\<lambda>y. k = f y) xs"
    if "\<And>a b. lt a b = (f a < f b)" for f :: "'a \<Rightarrow> 'k :: linorder" and lt k xs
    by (simp add: SliceStable_sort_key [OF that] eq_commute [of k] sort_key_stable)
qed simp

section \<open>Lists as tables\<close>

text \<open>
  A table is a list of rows. \<^verbatim>\<open>UPDATE ... WHERE\<close> is \<open>update_where\<close>, \<^verbatim>\<open>DELETE ... WHERE\<close> keeps
  the other rows, \<^verbatim>\<open>SELECT ... WHERE\<close> of a \<^verbatim>\<open>:one\<close> query takes the first row that matches.
\<close>

definition update_where :: "('r \<Rightarrow> bool) \<Rightarrow> ('r \<Rightarrow> 'r) \<Rightarrow> 'r list \<Rightarrow> 'r list" where
  "update_where p f rows = map (\<lambda>r. if p r then f r else r) rows"

definition delete_where :: "('r \<Rightarrow> bool) \<Rightarrow> 'r list \<Rightarrow> 'r list" where
  "delete_where p rows = filter (\<lambda>r. \<not> p r) rows"

lemma update_where_simps [simp]:
  "update_where p f [] = []"
  "update_where p f (r # rs) = (if p r then f r else r) # update_where p f rs"
  "update_where p f (rs @ rs') = update_where p f rs @ update_where p f rs'"
  "length (update_where p f rs) = length rs"
  by (simp_all add: update_where_def)

lemma update_where_none: "\<forall>r \<in> set rows. \<not> p r \<Longrightarrow> update_where p f rows = rows"
  by (induction rows) auto

lemma set_update_where:
  "set (update_where p f rows) = {if p r then f r else r | r. r \<in> set rows}"
  by (auto simp: update_where_def)

lemma map_update_where [simp]:
  "(\<And>r. p r \<Longrightarrow> g (f r) = g r) \<Longrightarrow> map g (update_where p f rows) = map g rows"
  by (induction rows) auto

lemma delete_where_simps [simp]:
  "delete_where p [] = []"
  "delete_where p (r # rs) = (if p r then delete_where p rs else r # delete_where p rs)"
  "set (delete_where p rs) = {r \<in> set rs. \<not> p r}"
  by (auto simp: delete_where_def)

lemma distinct_map_delete_where [simp]:
  "distinct (map g rows) \<Longrightarrow> distinct (map g (delete_where p rows))"
  by (auto simp: delete_where_def distinct_map_filter)

lemma find_unique:
  "distinct (map key rows) \<Longrightarrow> r \<in> set rows \<Longrightarrow> find (\<lambda>x. key x = key r) rows = Some r"
  by (induction rows) (auto simp: image_iff)

lemma find_update_where:
  "(\<And>r. p r \<Longrightarrow> q (f r) = q r) \<Longrightarrow>
     find q (update_where p f rows) = map_option (\<lambda>r. if p r then f r else r) (find q rows)"
  by (induction rows) auto

lemma find_append: "find p (xs @ ys) = (case find p xs of None \<Rightarrow> find p ys | Some x \<Rightarrow> Some x)"
  by (induction xs) auto

lemma find_cong_filter: "(\<And>r. r \<in> set rows \<Longrightarrow> q r \<Longrightarrow> \<not> p r) \<Longrightarrow> find q (delete_where p rows) = find q rows"
  by (induction rows) auto

lemma find_Some_in: "find p xs = Some x \<Longrightarrow> x \<in> set xs \<and> p x"
  by (induction xs) (auto split: if_splits)

lemma foldl_max_upper: "(\<forall>x \<in> set xs. x \<le> foldl max m xs) \<and> (m :: int) \<le> foldl max m xs"
proof (induction xs arbitrary: m)
  case (Cons x xs)
  from Cons [of "max m x"] show ?case by auto
qed simp

lemma foldl_max_in: "foldl max (m :: int) xs \<in> set (m # xs)"
proof (induction xs arbitrary: m)
  case (Cons x xs)
  from Cons [of "max m x"] show ?case by (auto simp: max_def split: if_splits)
qed simp

end
