(* ===== verification/Go_Encoding.thy ===== *)
theory Go_Encoding
  imports Go_Prelude
begin

text \<open>
  The encodings of Go's standard library that the repository calls: \<^verbatim>\<open>crypto/sha256\<close>,
  \<^verbatim>\<open>encoding/hex\<close>, \<^verbatim>\<open>encoding/base64\<close>, the verb \<^verbatim>\<open>%d\<close> of \<^verbatim>\<open>fmt.Sprintf\<close> and of
  \<^verbatim>\<open>fmt.Sscanf\<close>. Each encoder that has a decoder is shown to be inverted by it; the interface
  they share is the locale \<open>codec\<close>.
\<close>

unbundle bit_operations_syntax

section \<open>Codecs\<close>

locale codec =
  fixes enc :: "'a \<Rightarrow> 'b" and dec :: "'b \<Rightarrow> 'a option" and ok :: "'a \<Rightarrow> bool"
  assumes dec_enc [simp]: "ok x \<Longrightarrow> dec (enc x) = Some x"
begin

lemma enc_inj: "inj_on enc {x. ok x}"
  by (rule inj_onI) (metis dec_enc mem_Collect_eq option.inject)

lemma enc_eq_iff: "ok x \<Longrightarrow> ok y \<Longrightarrow> enc x = enc y \<longleftrightarrow> x = y"
  by (metis dec_enc option.inject)

end

section \<open>SHA-256\<close>

definition sha_K :: "32 word list" where
  "sha_K =
     [1116352408, 1899447441, 3049323471, 3921009573, 961987163, 1508970993,
      2453635748, 2870763221, 3624381080, 310598401, 607225278, 1426881987,
      1925078388, 2162078206, 2614888103, 3248222580, 3835390401, 4022224774,
      264347078, 604807628, 770255983, 1249150122, 1555081692, 1996064986,
      2554220882, 2821834349, 2952996808, 3210313671, 3336571891, 3584528711,
      113926993, 338241895, 666307205, 773529912, 1294757372, 1396182291,
      1695183700, 1986661051, 2177026350, 2456956037, 2730485921, 2820302411,
      3259730800, 3345764771, 3516065817, 3600352804, 4094571909, 275423344,
      430227734, 506948616, 659060556, 883997877, 958139571, 1322822218,
      1537002063, 1747873779, 1955562222, 2024104815, 2227730452, 2361852424,
      2428436474, 2756734187, 3204031479, 3329325298]"

definition sha_H0 :: "32 word list" where
  "sha_H0 =
     [1779033703, 3144134277, 1013904242, 2773480762,
      1359893119, 2600822924, 528734635, 1541459225]"

definition sha_Ch :: "32 word \<Rightarrow> 32 word \<Rightarrow> 32 word \<Rightarrow> 32 word" where
  "sha_Ch e f g = (e AND f) XOR (NOT e AND g)"

definition sha_Maj :: "32 word \<Rightarrow> 32 word \<Rightarrow> 32 word \<Rightarrow> 32 word" where
  "sha_Maj a b c = (a AND b) XOR (a AND c) XOR (b AND c)"

definition sha_rot3 :: "nat \<Rightarrow> nat \<Rightarrow> nat \<Rightarrow> 32 word \<Rightarrow> 32 word" where
  "sha_rot3 i j k x = word_rotr i x XOR word_rotr j x XOR word_rotr k x"

definition sha_shift3 :: "nat \<Rightarrow> nat \<Rightarrow> nat \<Rightarrow> 32 word \<Rightarrow> 32 word" where
  "sha_shift3 i j k x = word_rotr i x XOR word_rotr j x XOR drop_bit k x"

text \<open>Message schedule: sixteen words of the block, then forty-eight computed ones.\<close>

fun sha_extend :: "nat \<Rightarrow> 32 word list \<Rightarrow> 32 word list" where
  "sha_extend 0 ws = ws"
| "sha_extend (Suc n) ws =
     (let t = length ws
      in sha_extend n
        (ws @ [sha_shift3 17 19 10 (ws ! (t - 2)) + ws ! (t - 7)
               + sha_shift3 7 18 3 (ws ! (t - 15)) + ws ! (t - 16)]))"

fun sha_round :: "32 word list \<Rightarrow> 32 word \<times> 32 word \<Rightarrow> 32 word list" where
  "sha_round [a, b, c, d, e, f, g, h] (k, w) =
     (let t1 = h + sha_rot3 6 11 25 e + sha_Ch e f g + k + w;
          t2 = sha_rot3 2 13 22 a + sha_Maj a b c
      in [t1 + t2, a, b, c, d + t1, e, f, g])"
| "sha_round st kw = st"

fun be_words :: "byte list \<Rightarrow> 32 word list" where
  "be_words (a # b # c # d # bs) =
     (push_bit 24 (ucast a) OR push_bit 16 (ucast b) OR push_bit 8 (ucast c) OR ucast d)
       # be_words bs"
| "be_words bs = []"

definition be_bytes32 :: "32 word \<Rightarrow> byte list" where
  "be_bytes32 w = [ucast (drop_bit 24 w), ucast (drop_bit 16 w), ucast (drop_bit 8 w), ucast w]"

definition be_bytes64 :: "64 word \<Rightarrow> byte list" where
  "be_bytes64 w = map (\<lambda>i. ucast (drop_bit i w)) [56, 48, 40, 32, 24, 16, 8, 0]"

definition sha_block :: "32 word list \<Rightarrow> byte list \<Rightarrow> 32 word list" where
  "sha_block st blk =
     map2 (+) st (foldl sha_round st (zip sha_K (sha_extend 48 (be_words blk))))"

definition sha_pad :: "byte list \<Rightarrow> byte list" where
  "sha_pad bs =
     bs @ 128 # replicate ((119 - length bs mod 64) mod 64) 0
       @ be_bytes64 (of_nat (8 * length bs))"

function sha_chunks :: "byte list \<Rightarrow> byte list list" where
  "sha_chunks bs = (if bs = [] then [] else take 64 bs # sha_chunks (drop 64 bs))"
  by pat_completeness auto
termination
  by (relation "measure length") auto

declare sha_chunks.simps [simp del]

text \<open>\<^verbatim>\<open>sha256.Sum256\<close>.\<close>

definition Sum256 :: "byte list \<Rightarrow> byte list" where
  "Sum256 bs = concat (map be_bytes32 (foldl sha_block sha_H0 (sha_chunks (sha_pad bs))))"

lemma length_sha_round [simp]: "length (sha_round st kw) = length st"
proof (cases "length st = 8")
  case True
  then obtain a b c d e f g h where st: "st = [a, b, c, d, e, f, g, h]"
    by (auto simp: length_Suc_conv numeral_eq_Suc)
  show ?thesis unfolding st by (cases kw) (simp add: Let_def)
next
  case False
  then show ?thesis by (induction st kw rule: sha_round.induct) (auto simp: Let_def)
qed

lemma length_foldl_sha_round [simp]: "length (foldl sha_round st kws) = length st"
  by (induction kws arbitrary: st) simp_all

lemma length_sha_block [simp]: "length (sha_block st blk) = length st"
  by (simp add: sha_block_def)

lemma length_foldl_sha_block [simp]: "length (foldl sha_block st blks) = length st"
  by (induction blks arbitrary: st) simp_all

lemma length_concat_be_bytes32: "length (concat (map be_bytes32 ws)) = 4 * length ws"
  by (induction ws) (simp_all add: be_bytes32_def)

lemma length_Sum256 [simp]: "length (Sum256 bs) = 32"
  by (simp add: Sum256_def length_concat_be_bytes32 sha_H0_def)

section \<open>Hexadecimal\<close>

definition hex_digits :: string where
  "hex_digits = ''0123456789abcdef''"

text \<open>\<^verbatim>\<open>hex.EncodeToString\<close>.\<close>

definition hex_EncodeToString :: "byte list \<Rightarrow> string" where
  "hex_EncodeToString bs =
     concat (map (\<lambda>b. [hex_digits ! (unat b div 16), hex_digits ! (unat b mod 16)]) bs)"

lemma unat_byte_less [simp]: "unat (b :: byte) < 256"
  using unsigned_less [of b] by simp

lemma length_hex [simp]: "length (hex_EncodeToString bs) = 2 * length bs"
  by (induction bs) (simp_all add: hex_EncodeToString_def)

lemma set_hex: "set (hex_EncodeToString bs) \<subseteq> set hex_digits"
proof -
  have "hex_digits ! n \<in> set hex_digits" if "n < 16" for n
    by (rule nth_mem) (use that in \<open>simp add: hex_digits_def\<close>)
  moreover have "unat b div 16 < 16" for b :: byte
    using unat_byte_less [of b] by (simp add: div_less_iff_less_mult)
  ultimately show ?thesis
    by (auto simp: hex_EncodeToString_def)
qed

section \<open>Base64\<close>

definition std_alphabet :: string where
  "std_alphabet = ''ABCDEFGHIJKLMNOPQRSTUVWXYZabcdefghijklmnopqrstuvwxyz0123456789+/''"

definition url_alphabet :: string where
  "url_alphabet = ''ABCDEFGHIJKLMNOPQRSTUVWXYZabcdefghijklmnopqrstuvwxyz0123456789-_''"

text \<open>\<^verbatim>\<open>Encoding.EncodeToString\<close> without padding (\<^verbatim>\<open>RawStdEncoding\<close>, \<^verbatim>\<open>RawURLEncoding\<close>).\<close>

fun b64_encode :: "string \<Rightarrow> byte list \<Rightarrow> string" where
  "b64_encode al [] = []"
| "b64_encode al [a] = [al ! (unat a div 4), al ! (unat a mod 4 * 16)]"
| "b64_encode al [a, b] =
     [al ! (unat a div 4), al ! (unat a mod 4 * 16 + unat b div 16), al ! (unat b mod 16 * 4)]"
| "b64_encode al (a # b # c # bs) =
     [al ! (unat a div 4), al ! (unat a mod 4 * 16 + unat b div 16),
      al ! (unat b mod 16 * 4 + unat c div 64), al ! (unat c mod 64)] @ b64_encode al bs"

fun alphabet_index :: "string \<Rightarrow> char \<Rightarrow> nat option" where
  "alphabet_index [] c = None"
| "alphabet_index (x # al) c = (if x = c then Some 0 else map_option Suc (alphabet_index al c))"

text \<open>
  \<^verbatim>\<open>Encoding.DecodeString\<close>, unpadded: carriage returns and line feeds are skipped, a character
  outside the alphabet or a lone one is an error, and under \<^verbatim>\<open>Strict()\<close> so are trailing bits
  that are not zero.
\<close>

fun b64_quanta :: "bool \<Rightarrow> nat option list \<Rightarrow> byte list option" where
  "b64_quanta strict [] = Some []"
| "b64_quanta strict [Some p, Some q] =
     (if strict \<and> q mod 16 \<noteq> 0 then None else Some [of_nat (p * 4 + q div 16)])"
| "b64_quanta strict [Some p, Some q, Some r] =
     (if strict \<and> r mod 4 \<noteq> 0 then None
      else Some [of_nat (p * 4 + q div 16), of_nat (q mod 16 * 16 + r div 4)])"
| "b64_quanta strict (Some p # Some q # Some r # Some s # ds) =
     map_option (\<lambda>bs. [of_nat (p * 4 + q div 16), of_nat (q mod 16 * 16 + r div 4),
                       of_nat (r mod 4 * 64 + s)] @ bs)
       (b64_quanta strict ds)"
| "b64_quanta strict ds = None"

definition b64_decode :: "bool \<Rightarrow> string \<Rightarrow> string \<Rightarrow> byte list option" where
  "b64_decode strict al s =
     b64_quanta strict
       (map (alphabet_index al) (filter (\<lambda>c. (of_char c :: nat) \<notin> {10, 13}) s))"

lemma alphabet_index_nth:
  "distinct al \<Longrightarrow> n < length al \<Longrightarrow> alphabet_index al (al ! n) = Some n"
proof (induction al arbitrary: n)
  case (Cons x al)
  then show ?case by (cases n) (auto simp: nth_mem)
qed simp

definition b64_alphabet :: "string \<Rightarrow> bool" where
  "b64_alphabet al \<longleftrightarrow> distinct al \<and> length al = 64
     \<and> list_all (\<lambda>c. (of_char c :: nat) \<notin> {10, 13}) al"

lemma byte_div_less [simp]:
  fixes b :: byte
  shows "unat b div 4 < 64" "unat b div 16 < 16" "unat b div 64 < 4"
  using unat_byte_less [of b] by (simp_all add: div_less_iff_less_mult del: unat_byte_less)

lemma b64_byte_bounds:
  fixes a b c :: byte
  shows "unat a div 4 < 64" "unat a mod 4 * 16 < 64"
    "unat a mod 4 * 16 + unat b div 16 < 64" "unat b mod 16 * 4 < 64"
    "unat b mod 16 * 4 + unat c div 64 < 64" "unat c mod 64 < 64"
proof -
  have m: "unat a mod 4 < 4" "unat b mod 16 < 16" "unat c mod 64 < 64" by simp_all
  have d: "unat a div 4 < 64" "unat b div 16 < 16" "unat c div 64 < 4" by simp_all
  show "unat a div 4 < 64" "unat c mod 64 < 64" by (rule d m)+
  show "unat a mod 4 * 16 < 64" "unat b mod 16 * 4 < 64" using m by linarith+
  show "unat a mod 4 * 16 + unat b div 16 < 64" "unat b mod 16 * 4 + unat c div 64 < 64"
    using m d by linarith+
qed

lemma byte_div_div [simp]:
  fixes b :: byte
  shows "unat b div 16 div 16 = 0" "unat b div 16 mod 16 = unat b div 16"
    "unat b div 64 div 4 = 0" "unat b div 64 mod 4 = unat b div 64"
  by (simp_all add: div_less mod_less del: div_mult2_eq)

lemma b64_encode_set:
  "length al = 64 \<Longrightarrow> set (b64_encode al bs) \<subseteq> set al"
  by (induction al bs rule: b64_encode.induct) (auto simp: b64_byte_bounds)

lemma b64_quanta_encode:
  "distinct al \<Longrightarrow> length al = 64 \<Longrightarrow>
     b64_quanta strict (map (alphabet_index al) (b64_encode al bs)) = Some bs"
proof (induction al bs rule: b64_encode.induct)
  case (2 al a)
  then show ?case by (simp add: alphabet_index_nth b64_byte_bounds)
next
  case (3 al a b)
  then show ?case by (simp add: alphabet_index_nth b64_byte_bounds)
next
  case (4 al a b c bs)
  then show ?case by (simp add: alphabet_index_nth b64_byte_bounds)
qed simp

lemma b64_decode_encode:
  assumes "b64_alphabet al"
  shows "b64_decode strict al (b64_encode al bs) = Some bs"
proof -
  have "filter (\<lambda>c. (of_char c :: nat) \<notin> {10, 13}) (b64_encode al bs) = b64_encode al bs"
    using assms b64_encode_set [of al bs]
    by (intro filter_True) (auto simp: b64_alphabet_def list_all_iff)
  with assms show ?thesis
    by (simp add: b64_decode_def b64_quanta_encode b64_alphabet_def)
qed

lemma std_alphabet_ok: "b64_alphabet std_alphabet"
  by code_simp

lemma url_alphabet_ok: "b64_alphabet url_alphabet"
  by code_simp

abbreviation RawStd_EncodeToString :: "byte list \<Rightarrow> string" where
  "RawStd_EncodeToString \<equiv> b64_encode std_alphabet"

abbreviation RawStd_Strict_DecodeString :: "string \<Rightarrow> byte list option" where
  "RawStd_Strict_DecodeString \<equiv> b64_decode True std_alphabet"

abbreviation RawURL_EncodeToString :: "byte list \<Rightarrow> string" where
  "RawURL_EncodeToString \<equiv> b64_encode url_alphabet"

abbreviation RawURL_DecodeString :: "string \<Rightarrow> byte list option" where
  "RawURL_DecodeString \<equiv> b64_decode False url_alphabet"

interpretation rawstd: codec RawStd_EncodeToString RawStd_Strict_DecodeString "\<lambda>_. True"
  by unfold_locales (rule b64_decode_encode [OF std_alphabet_ok])

interpretation rawurl: codec RawURL_EncodeToString RawURL_DecodeString "\<lambda>_. True"
  by unfold_locales (rule b64_decode_encode [OF url_alphabet_ok])

section \<open>Strings and bytes\<close>

text \<open>The conversions \<^verbatim>\<open>[]byte(s)\<close> and \<^verbatim>\<open>string(b)\<close>.\<close>

definition string_to_bytes :: "string \<Rightarrow> byte list" where
  "string_to_bytes s = map (\<lambda>c. word_of_nat (of_char c)) s"

definition bytes_to_string :: "byte list \<Rightarrow> string" where
  "bytes_to_string bs = map (\<lambda>b. char_of (unat b)) bs"

lemma bytes_to_string_to_bytes [simp]: "bytes_to_string (string_to_bytes s) = s"
  by (induction s) (simp_all add: bytes_to_string_def string_to_bytes_def unat_of_nat
      nat_of_char_less_256 take_bit_nat_eq_self_iff)

interpretation str_bytes: codec string_to_bytes "\<lambda>b. Some (bytes_to_string b)" "\<lambda>_. True"
  by unfold_locales simp

section \<open>Decimal numbers\<close>

definition digit_char :: "nat \<Rightarrow> char" where
  "digit_char n = char_of (48 + n)"

definition is_digit :: "char \<Rightarrow> bool" where
  "is_digit c \<longleftrightarrow> 48 \<le> (of_char c :: nat) \<and> (of_char c :: nat) \<le> 57"

text \<open>The verb \<^verbatim>\<open>%d\<close> of \<^verbatim>\<open>Sprintf\<close> on an unsigned value.\<close>

fun Sprintf_d :: "nat \<Rightarrow> string" where
  "Sprintf_d n = (if n < 10 then [digit_char n] else Sprintf_d (n div 10) @ [digit_char (n mod 10)])"

declare Sprintf_d.simps [simp del]

definition digits_value :: "string \<Rightarrow> nat" where
  "digits_value s = foldl (\<lambda>v c. v * 10 + (of_char c - 48)) 0 s"

text \<open>
  \<^verbatim>\<open>Sscanf\<close> from a string: a literal of the format must be next in the input; before a verb
  spaces are skipped, and a line feed there is an error; input after the last verb is left
  unread. Spaces outside ASCII are not modelled.
\<close>

definition scan_lit :: "string \<Rightarrow> string \<Rightarrow> string option" where
  "scan_lit lit s = (if prefix lit s then Some (drop (length lit) s) else None)"

definition scan_SkipSpace :: "string \<Rightarrow> string option" where
  "scan_SkipSpace s =
     (let t = dropWhile (\<lambda>c. (of_char c :: nat) \<in> {9, 11, 12, 13, 32}) s
      in case t of c # _ \<Rightarrow> if (of_char c :: nat) = 10 then None else Some t | [] \<Rightarrow> Some [])"

definition scan_digits :: "string \<Rightarrow> (nat \<times> string) option" where
  "scan_digits s =
     (if takeWhile is_digit s = [] then None
      else Some (digits_value (takeWhile is_digit s), dropWhile is_digit s))"

definition scan_uint :: "nat \<Rightarrow> string \<Rightarrow> (nat \<times> string) option" where
  "scan_uint bits s =
     (case scan_SkipSpace s of
        None \<Rightarrow> None
      | Some t \<Rightarrow> (case scan_digits t of
           None \<Rightarrow> None
         | Some (n, rest) \<Rightarrow> if n < 2 ^ bits then Some (n, rest) else None))"

definition scan_int :: "string \<Rightarrow> (int \<times> string) option" where
  "scan_int s =
     (case scan_SkipSpace s of
        None \<Rightarrow> None
      | Some t \<Rightarrow>
          (let neg = (case t of c # _ \<Rightarrow> c = CHR ''-'' | [] \<Rightarrow> False);
               t' = (case t of c # cs \<Rightarrow> if c = CHR ''-'' \<or> c = CHR ''+'' then cs else t | [] \<Rightarrow> [])
           in case scan_digits t' of
                None \<Rightarrow> None
              | Some (n, rest) \<Rightarrow>
                  (let v = (if neg then - int n else int n)
                   in if - (2 ^ 63) \<le> v \<and> v < 2 ^ 63 then Some (v, rest) else None)))"

lemma of_char_digit: "n < 10 \<Longrightarrow> (of_char (digit_char n) :: nat) = 48 + n"
  by (simp add: digit_char_def)

lemma is_digit_digit_char: "n < 10 \<Longrightarrow> is_digit (digit_char n)"
  by (simp add: is_digit_def of_char_digit)

lemma Sprintf_d_digits: "list_all is_digit (Sprintf_d n)"
proof (induction n rule: Sprintf_d.induct)
  case (1 n)
  then show ?case by (subst Sprintf_d.simps) (auto simp: is_digit_digit_char)
qed

lemma Sprintf_d_not_Nil [simp]: "Sprintf_d n \<noteq> []"
  by (subst Sprintf_d.simps) simp

lemma digits_value_snoc: "digits_value (s @ [c]) = digits_value s * 10 + (of_char c - 48)"
  by (simp add: digits_value_def)

lemma digits_value_Sprintf_d [simp]: "digits_value (Sprintf_d n) = n"
proof (induction n rule: Sprintf_d.induct)
  case (1 n)
  show ?case
  proof (cases "n < 10")
    case True
    then show ?thesis by (subst Sprintf_d.simps) (simp add: digits_value_def of_char_digit)
  next
    case False
    with "1.IH" have "digits_value (Sprintf_d (n div 10)) = n div 10" by simp
    with False show ?thesis
      by (subst Sprintf_d.simps) (simp add: digits_value_snoc of_char_digit)
  qed
qed

lemma scan_digits_Sprintf_d:
  assumes "\<And>c cs. rest = c # cs \<Longrightarrow> \<not> is_digit c"
  shows "scan_digits (Sprintf_d n @ rest) = Some (n, rest)"
proof -
  have d: "\<And>c. c \<in> set (Sprintf_d n) \<Longrightarrow> is_digit c"
    using Sprintf_d_digits [of n] by (simp add: list_all_iff)
  have "takeWhile is_digit rest = []" and "dropWhile is_digit rest = rest"
    using assms by (cases rest; simp)+
  with d have "takeWhile is_digit (Sprintf_d n @ rest) = Sprintf_d n"
    and "dropWhile is_digit (Sprintf_d n @ rest) = rest"
    by (simp_all add: takeWhile_append2 dropWhile_append2)
  then show ?thesis by (simp add: scan_digits_def)
qed

lemma scan_SkipSpace_digit: "is_digit c \<Longrightarrow> scan_SkipSpace (c # s) = Some (c # s)"
  by (auto simp: scan_SkipSpace_def is_digit_def Let_def)

lemma scan_SkipSpace_Sprintf_d: "scan_SkipSpace (Sprintf_d n @ rest) = Some (Sprintf_d n @ rest)"
proof (cases "Sprintf_d n")
  case (Cons c s)
  moreover from Cons Sprintf_d_digits [of n] have "is_digit c" by simp
  ultimately show ?thesis by (simp add: scan_SkipSpace_digit)
qed simp

lemma scan_uint_Sprintf_d:
  assumes "n < 2 ^ bits" and "\<And>c cs. rest = c # cs \<Longrightarrow> \<not> is_digit c"
  shows "scan_uint bits (Sprintf_d n @ rest) = Some (n, rest)"
  using assms by (simp add: scan_uint_def scan_SkipSpace_Sprintf_d scan_digits_Sprintf_d)

lemma scan_int_Sprintf_d:
  assumes "n < 2 ^ 63" and "\<And>c cs. rest = c # cs \<Longrightarrow> \<not> is_digit c"
  shows "scan_int (Sprintf_d n @ rest) = Some (int n, rest)"
proof -
  obtain c s where cs: "Sprintf_d n = c # s" by (cases "Sprintf_d n") auto
  moreover from cs Sprintf_d_digits [of n] have "is_digit c" by simp
  ultimately have "c \<noteq> CHR ''-''" and "c \<noteq> CHR ''+''" by (auto simp: is_digit_def)
  moreover have "scan_SkipSpace ((c # s) @ rest) = Some ((c # s) @ rest)"
    using scan_SkipSpace_Sprintf_d [of n rest] by (simp add: cs)
  moreover have "scan_digits ((c # s) @ rest) = Some (n, rest)"
    using scan_digits_Sprintf_d [of rest n] assms(2) by (simp add: cs)
  moreover have "int n < 2 ^ 63" using assms(1) by (simp add: of_nat_less_iff flip: of_nat_power)
  ultimately show ?thesis by (simp add: scan_int_def cs)
qed

interpretation decimal: codec Sprintf_d "\<lambda>s. map_option fst (scan_uint 64 s)" "\<lambda>n. n < 2 ^ 64"
proof unfold_locales
  fix n :: nat
  assume "n < 2 ^ 64"
  then show "map_option fst (scan_uint 64 (Sprintf_d n)) = Some n"
    using scan_uint_Sprintf_d [of n 64 "[]"] by simp
qed

end
