(* ===== verification/Domain_Model.thy ===== *)
theory Domain_Model
  imports Go_Encoding
begin

text \<open>
  Package \<^verbatim>\<open>internal/domain\<close> without the router: accounts, contexts and their active hours,
  people and identities, signals. The string types of the package (\<^verbatim>\<open>Reliability\<close>,
  \<^verbatim>\<open>Provider\<close>, ...) hold any string, as Go's do, and their \<^verbatim>\<open>Valid\<close> methods tell the declared
  values apart. A \<^verbatim>\<open>Valid\<close> method returns \<^verbatim>\<open>None\<close> for nil.
\<close>

named_theorems domain_defs \<open>definitions of the validity checks\<close>

section \<open>domain.go\<close>

definition invalidf :: "string \<Rightarrow> fmt_arg list \<Rightarrow> go_error" where
  "invalidf format args = WrapFmt ErrInvalid format args"

lemma errors_Is_invalidf [simp, err_simps]: "errors_Is (invalidf f as) ErrInvalid"
  by (simp add: errors_Is_def invalidf_def)

section \<open>account.go\<close>

type_synonym Reliability = string

abbreviation ReliabilityOfficial :: Reliability where "ReliabilityOfficial \<equiv> ''official''"
abbreviation ReliabilityUnofficial :: Reliability where "ReliabilityUnofficial \<equiv> ''unofficial''"
abbreviation ReliabilityManual :: Reliability where "ReliabilityManual \<equiv> ''manual''"

definition Reliability_Valid :: "Reliability \<Rightarrow> go_error option" where
  [domain_defs]: "Reliability_Valid r =
     (if r = ReliabilityOfficial \<or> r = ReliabilityUnofficial \<or> r = ReliabilityManual then None
      else Some (invalidf ''reliability %q'' [ArgString r]))"

definition Reliability_Complete :: "Reliability \<Rightarrow> bool" where
  "Reliability_Complete r = (r = ReliabilityOfficial)"

type_synonym Provider = string

abbreviation ProviderGmail :: Provider where "ProviderGmail \<equiv> ''gmail''"
abbreviation ProviderGCalendar :: Provider where "ProviderGCalendar \<equiv> ''google_calendar''"
abbreviation ProviderGDrive :: Provider where "ProviderGDrive \<equiv> ''google_drive''"
abbreviation ProviderZaloOA :: Provider where "ProviderZaloOA \<equiv> ''zalo_oa''"
abbreviation ProviderManual :: Provider where "ProviderManual \<equiv> ''manual''"

definition Provider_Valid :: "Provider \<Rightarrow> go_error option" where
  [domain_defs]: "Provider_Valid p =
     (if p = ProviderGmail \<or> p = ProviderGCalendar \<or> p = ProviderGDrive \<or> p = ProviderZaloOA
         \<or> p = ProviderManual then None
      else Some (invalidf ''provider %q'' [ArgString p]))"

definition Provider_Reliability :: "Provider \<Rightarrow> Reliability" where
  "Provider_Reliability p =
     (if p = ProviderGmail \<or> p = ProviderGCalendar \<or> p = ProviderGDrive \<or> p = ProviderZaloOA
      then ReliabilityOfficial
      else if p = ProviderManual then ReliabilityManual
      else ReliabilityUnofficial)"

type_synonym AccountStatus = string

abbreviation AccountConnected :: AccountStatus where "AccountConnected \<equiv> ''connected''"
abbreviation AccountError :: AccountStatus where "AccountError \<equiv> ''error''"
abbreviation AccountDisconnected :: AccountStatus where "AccountDisconnected \<equiv> ''disconnected''"

definition AccountStatus_Valid :: "AccountStatus \<Rightarrow> go_error option" where
  [domain_defs]: "AccountStatus_Valid s =
     (if s = AccountConnected \<or> s = AccountError \<or> s = AccountDisconnected then None
      else Some (invalidf ''account status %q'' [ArgString s]))"

record Account =
  acc_ID :: uuid
  acc_UserID :: uuid
  acc_Provider :: Provider
  acc_Reliability :: Reliability
  acc_DisplayName :: string
  acc_Status :: AccountStatus
  acc_LastSyncAt :: "time option"
  acc_LastError :: string
  acc_CreatedAt :: time
  acc_UpdatedAt :: time

definition Account_Valid :: "Account \<Rightarrow> go_error option" where
  [domain_defs]: "Account_Valid a =
     (if acc_DisplayName a = [] then Some (invalidf ''account display name is empty'' [])
      else case Provider_Valid (acc_Provider a) of Some e \<Rightarrow> Some e
      | None \<Rightarrow> (case Reliability_Valid (acc_Reliability a) of Some e \<Rightarrow> Some e
      | None \<Rightarrow>
          if acc_Reliability a = ReliabilityUnofficial
          then Some (invalidf ''account %q uses an unofficial API; Warp does not build these''
                       [ArgString (acc_DisplayName a)])
          else AccountStatus_Valid (acc_Status a)))"

definition Account_Healthy :: "Account \<Rightarrow> bool" where
  "Account_Healthy a = (acc_Status a = AccountConnected)"

section \<open>context.go\<close>

type_synonym ContextColor = string

abbreviation ContextSlate :: ContextColor where "ContextSlate \<equiv> ''slate''"
abbreviation ContextBlue :: ContextColor where "ContextBlue \<equiv> ''blue''"
abbreviation ContextViolet :: ContextColor where "ContextViolet \<equiv> ''violet''"
abbreviation ContextGreen :: ContextColor where "ContextGreen \<equiv> ''green''"
abbreviation ContextTeal :: ContextColor where "ContextTeal \<equiv> ''teal''"
abbreviation ContextRose :: ContextColor where "ContextRose \<equiv> ''rose''"

definition ContextColor_Valid :: "ContextColor \<Rightarrow> go_error option" where
  [domain_defs]: "ContextColor_Valid c =
     (if c = [] \<or> c = ContextSlate \<or> c = ContextBlue \<or> c = ContextViolet \<or> c = ContextGreen
         \<or> c = ContextTeal \<or> c = ContextRose then None
      else Some (invalidf ''context color %q'' [ArgString c]))"

record HourRange =
  StartMinute :: int
  EndMinute :: int

definition HourRange_Valid :: "HourRange \<Rightarrow> go_error option" where
  [domain_defs]: "HourRange_Valid r =
     (let minutesPerDay = 24 * 60
      in if StartMinute r < 0 \<or> StartMinute r \<ge> minutesPerDay
         then Some (invalidf ''hour range start %d out of bounds'' [ArgInt (StartMinute r)])
         else if EndMinute r \<le> StartMinute r \<or> EndMinute r > minutesPerDay
         then Some (invalidf ''hour range end %d out of bounds'' [ArgInt (EndMinute r)])
         else None)"

text \<open>
  \<^verbatim>\<open>ActiveHours\<close> is a Go map from weekdays to ranges: here its entries, each weekday at most
  once. A time is read through its weekday, hour and minute in the presentation timezone.
\<close>

type_synonym ActiveHours = "(nat \<times> HourRange list) list"

record ClockReading =
  t_Weekday :: nat
  t_Hour :: int
  t_Minute :: int

definition ActiveHours_Active :: "ActiveHours \<Rightarrow> ClockReading \<Rightarrow> bool" where
  "ActiveHours_Active a t =
     (if length a = 0 then True
      else case map_of a (t_Weekday t) of
        None \<Rightarrow> False
      | Some ranges \<Rightarrow>
          (let minute = t_Hour t * 60 + t_Minute t
           in list_ex (\<lambda>r. minute \<ge> StartMinute r \<and> minute < EndMinute r) ranges))"

record Context =
  ctx_ID :: uuid
  ctx_UserID :: uuid
  ctx_ParentID :: "uuid option"
  ctx_Name :: string
  ctx_Color :: ContextColor
  ctx_ActiveHours :: ActiveHours
  ctx_ToneProfile :: string
  ctx_IsArchived :: bool
  ctx_CreatedAt :: time
  ctx_UpdatedAt :: time

definition Context_Valid :: "Context \<Rightarrow> go_error option" where
  [domain_defs]: "Context_Valid c =
     (if ctx_Name c = [] then Some (invalidf ''context name is empty'' [])
      else if ctx_ParentID c = Some (ctx_ID c)
      then Some (invalidf ''context %s is its own parent'' [ArgID (ctx_ID c)])
      else ContextColor_Valid (ctx_Color c))"

section \<open>person.go\<close>

record Person =
  person_ID :: uuid
  person_UserID :: uuid
  person_DisplayName :: string
  person_Notes :: string
  person_CreatedAt :: time
  person_UpdatedAt :: time

definition Person_Valid :: "Person \<Rightarrow> go_error option" where
  [domain_defs]: "Person_Valid p =
     (if person_DisplayName p = [] then Some (invalidf ''person display name is empty'' [])
      else None)"

record Identity =
  ident_ID :: uuid
  ident_PersonID :: uuid
  ident_Provider :: Provider
  ident_Handle :: string
  ident_Verified :: bool

definition Identity_Valid :: "Identity \<Rightarrow> go_error option" where
  [domain_defs]: "Identity_Valid i =
     (if ident_Handle i = [] then Some (invalidf ''identity handle is empty'' [])
      else Provider_Valid (ident_Provider i))"

section \<open>signal.go\<close>

type_synonym SignalKind = string

abbreviation SignalEmail :: SignalKind where "SignalEmail \<equiv> ''email''"
abbreviation SignalMessage :: SignalKind where "SignalMessage \<equiv> ''message''"
abbreviation SignalCalendarEvent :: SignalKind where "SignalCalendarEvent \<equiv> ''calendar_event''"
abbreviation SignalFile :: SignalKind where "SignalFile \<equiv> ''file''"

definition SignalKind_Valid :: "SignalKind \<Rightarrow> go_error option" where
  [domain_defs]: "SignalKind_Valid k =
     (if k = SignalEmail \<or> k = SignalMessage \<or> k = SignalCalendarEvent \<or> k = SignalFile then None
      else Some (invalidf ''signal kind %q'' [ArgString k]))"

record Signal =
  sig_ID :: uuid
  sig_AccountID :: uuid
  sig_ExternalID :: string
  sig_Kind :: SignalKind
  sig_Payload :: "byte list"
  sig_ContentHash :: string
  sig_OccurredAt :: time
  sig_IngestedAt :: time
  sig_ProcessedAt :: "time option"

definition HashPayload :: "byte list \<Rightarrow> string" where
  "HashPayload payload = hex_EncodeToString (Sum256 payload)"

text \<open>\<^verbatim>\<open>time.Time.IsZero\<close>: January 1, year 1, counted from the Unix epoch.\<close>

definition zero_time :: time where
  "zero_time = - 62135596800 * Second"

definition Signal_Valid :: "Signal \<Rightarrow> go_error option" where
  [domain_defs]: "Signal_Valid s =
     (if sig_ExternalID s = [] then Some (invalidf ''signal external id is empty'' [])
      else if length (sig_Payload s) = 0
      then Some (invalidf ''signal %s has an empty payload'' [ArgString (sig_ExternalID s)])
      else if sig_ContentHash s \<noteq> HashPayload (sig_Payload s)
      then Some (invalidf ''signal %s content hash does not match its payload''
                   [ArgString (sig_ExternalID s)])
      else if sig_OccurredAt s = zero_time
      then Some (invalidf ''signal %s has no occurrence time'' [ArgString (sig_ExternalID s)])
      else SignalKind_Valid (sig_Kind s))"

definition Signal_Processed :: "Signal \<Rightarrow> bool" where
  "Signal_Processed s = (sig_ProcessedAt s \<noteq> None)"

definition NewSignal ::
  "uuid \<Rightarrow> uuid \<Rightarrow> SignalKind \<Rightarrow> string \<Rightarrow> byte list \<Rightarrow> time \<Rightarrow> time \<Rightarrow> go_error + Signal" where
  "NewSignal sid accountID kind externalID payload occurredAt now =
     (let s = \<lparr>sig_ID = sid, sig_AccountID = accountID, sig_ExternalID = externalID,
               sig_Kind = kind, sig_Payload = payload, sig_ContentHash = HashPayload payload,
               sig_OccurredAt = occurredAt, sig_IngestedAt = now, sig_ProcessedAt = None\<rparr>
      in case Signal_Valid s of Some e \<Rightarrow> Inl e | None \<Rightarrow> Inr s)"

section \<open>Properties\<close>

text \<open>Every failure of a \<^verbatim>\<open>Valid\<close> method is in the class \<^verbatim>\<open>ErrInvalid\<close>, which the API answers
  with 422 instead of 500.\<close>

lemma Valid_errors_are_ErrInvalid:
  "Reliability_Valid r = Some e \<Longrightarrow> errors_Is e ErrInvalid"
  "Provider_Valid p = Some e \<Longrightarrow> errors_Is e ErrInvalid"
  "AccountStatus_Valid st = Some e \<Longrightarrow> errors_Is e ErrInvalid"
  "ContextColor_Valid c = Some e \<Longrightarrow> errors_Is e ErrInvalid"
  "HourRange_Valid h = Some e \<Longrightarrow> errors_Is e ErrInvalid"
  "Person_Valid pe = Some e \<Longrightarrow> errors_Is e ErrInvalid"
  "SignalKind_Valid k = Some e \<Longrightarrow> errors_Is e ErrInvalid"
  by (auto simp: domain_defs Let_def split: if_splits)

lemma Identity_Valid_ErrInvalid: "Identity_Valid i = Some e \<Longrightarrow> errors_Is e ErrInvalid"
  by (auto simp: Identity_Valid_def Valid_errors_are_ErrInvalid split: if_splits)

lemma Account_Valid_ErrInvalid: "Account_Valid a = Some e \<Longrightarrow> errors_Is e ErrInvalid"
  by (auto simp: Account_Valid_def Valid_errors_are_ErrInvalid split: if_splits option.splits)

lemma Context_Valid_ErrInvalid: "Context_Valid c = Some e \<Longrightarrow> errors_Is e ErrInvalid"
  by (auto simp: Context_Valid_def Valid_errors_are_ErrInvalid split: if_splits)

lemma Signal_Valid_ErrInvalid: "Signal_Valid s = Some e \<Longrightarrow> errors_Is e ErrInvalid"
  by (auto simp: Signal_Valid_def Valid_errors_are_ErrInvalid split: if_splits)

lemma Account_Valid_iff:
  "Account_Valid a = None \<longleftrightarrow>
     acc_DisplayName a \<noteq> [] \<and> Provider_Valid (acc_Provider a) = None
     \<and> acc_Reliability a \<in> {ReliabilityOfficial, ReliabilityManual}
     \<and> AccountStatus_Valid (acc_Status a) = None"
  by (auto simp: Account_Valid_def Reliability_Valid_def split: option.splits)

lemma Provider_Reliability_of_valid:
  "Provider_Valid p = None \<Longrightarrow>
     Provider_Reliability p = (if p = ProviderManual then ReliabilityManual else ReliabilityOfficial)"
  by (auto simp: Provider_Valid_def Provider_Reliability_def split: if_splits)

lemma HourRange_Valid_iff:
  "HourRange_Valid r = None \<longleftrightarrow>
     0 \<le> StartMinute r \<and> StartMinute r < EndMinute r \<and> EndMinute r \<le> 1440"
  by (auto simp: HourRange_Valid_def Let_def)

lemma Active_iff:
  assumes "a \<noteq> []"
  shows "ActiveHours_Active a t \<longleftrightarrow>
    (\<exists>ranges r. map_of a (t_Weekday t) = Some ranges \<and> r \<in> set ranges
       \<and> t_Hour t * 60 + t_Minute t \<in> {StartMinute r ..< EndMinute r})"
  using assms by (auto simp: ActiveHours_Active_def Let_def list_ex_iff split: option.splits)

lemma HashPayload_format:
  "length (HashPayload payload) = 64 \<and> set (HashPayload payload) \<subseteq> set hex_digits"
  using set_hex by (simp add: HashPayload_def)

lemma NewSignal_Inr_iff:
  "NewSignal sid acc kind ext payload occ now = Inr s \<longleftrightarrow>
     s = \<lparr>sig_ID = sid, sig_AccountID = acc, sig_ExternalID = ext, sig_Kind = kind,
          sig_Payload = payload, sig_ContentHash = HashPayload payload, sig_OccurredAt = occ,
          sig_IngestedAt = now, sig_ProcessedAt = None\<rparr>
     \<and> ext \<noteq> [] \<and> payload \<noteq> [] \<and> occ \<noteq> zero_time \<and> SignalKind_Valid kind = None"
  by (auto simp: NewSignal_def Signal_Valid_def Let_def split: option.splits)

end
