(* ===== verification/Domain_Routing.thy ===== *)
theory Domain_Routing
  imports Domain_Model
begin

text \<open>
  \<^verbatim>\<open>internal/domain/routing.go\<close>: the rules that assign a signal to contexts without a model
  call. \<^verbatim>\<open>uuid.UUID.String\<close> belongs to a third-party package and is the parameter \<open>ids\<close>;
  the lemmas that need it to tell identifiers apart assume \<open>inj ids\<close>.
\<close>

type_synonym MatchType = string

abbreviation MatchSender :: MatchType where "MatchSender \<equiv> ''sender''"
abbreviation MatchDomain :: MatchType where "MatchDomain \<equiv> ''domain''"
abbreviation MatchThread :: MatchType where "MatchThread \<equiv> ''thread''"
abbreviation MatchKeyword :: MatchType where "MatchKeyword \<equiv> ''keyword''"

definition MatchType_Valid :: "MatchType \<Rightarrow> go_error option" where
  [domain_defs]: "MatchType_Valid m =
     (if m = MatchSender \<or> m = MatchDomain \<or> m = MatchThread \<or> m = MatchKeyword then None
      else Some (invalidf ''match type %q'' [ArgString m]))"

definition MatchType_cost :: "MatchType \<Rightarrow> int" where
  "MatchType_cost m =
     (if m = MatchSender then 0
      else if m = MatchDomain then 1
      else if m = MatchThread then 2
      else if m = MatchKeyword then 3
      else 4)"

record RoutingRule =
  rule_ID :: uuid
  rule_ContextID :: uuid
  rule_MatchType :: MatchType
  rule_MatchValue :: string
  rule_Priority :: int
  rule_IsActive :: bool
  rule_CreatedAt :: time
  rule_UpdatedAt :: time

definition RoutingRule_Valid :: "RoutingRule \<Rightarrow> go_error option" where
  [domain_defs]: "RoutingRule_Valid r =
     (if rule_MatchValue r = []
      then Some (invalidf ''routing rule %s has an empty match value'' [ArgID (rule_ID r)])
      else MatchType_Valid (rule_MatchType r))"

record SignalFacts =
  Sender :: string
  SenderDomain :: string
  ThreadID :: string
  Subject :: string
  Body :: string

definition RoutingRule_Matches :: "unicode \<Rightarrow> RoutingRule \<Rightarrow> SignalFacts \<Rightarrow> bool" where
  "RoutingRule_Matches U r f =
     (if \<not> rule_IsActive r then False
      else let want = ToLower U (TrimSpace U (rule_MatchValue r))
      in if rule_MatchType r = MatchSender then EqualFold U (Sender f) want
         else if rule_MatchType r = MatchDomain then EqualFold U (SenderDomain f) want
         else if rule_MatchType r = MatchThread
         then ThreadID f \<noteq> [] \<and> EqualFold U (ThreadID f) want
         else if rule_MatchType r = MatchKeyword
         then Contains (ToLower U (Subject f @ '' '' @ Body f)) want
         else False)"

type_synonym AssignedBy = string

abbreviation AssignedByRule :: AssignedBy where "AssignedByRule \<equiv> ''rule''"
abbreviation AssignedByModel :: AssignedBy where "AssignedByModel \<equiv> ''model''"
abbreviation AssignedByManual :: AssignedBy where "AssignedByManual \<equiv> ''manual''"

definition AssignedBy_Valid :: "AssignedBy \<Rightarrow> go_error option" where
  [domain_defs]: "AssignedBy_Valid a =
     (if a = AssignedByRule \<or> a = AssignedByModel \<or> a = AssignedByManual then None
      else Some (invalidf ''assigned by %q'' [ArgString a]))"

record Assignment =
  asg_SignalID :: uuid
  asg_ContextID :: uuid
  asg_Confidence :: float64
  asg_AssignedBy :: AssignedBy

definition Assignment_Valid :: "Assignment \<Rightarrow> go_error option" where
  [domain_defs]: "Assignment_Valid a =
     (if asg_Confidence a < Finite 0 \<or> Finite 1 < asg_Confidence a
      then Some (invalidf ''confidence %v is outside [0,1]'' [ArgFloat (asg_Confidence a)])
      else AssignedBy_Valid (asg_AssignedBy a))"

text \<open>The comparison passed to \<^verbatim>\<open>sort.SliceStable\<close>.\<close>

definition rule_less :: "(uuid \<Rightarrow> string) \<Rightarrow> RoutingRule \<Rightarrow> RoutingRule \<Rightarrow> bool" where
  "rule_less ids a b =
     (if MatchType_cost (rule_MatchType a) \<noteq> MatchType_cost (rule_MatchType b)
      then MatchType_cost (rule_MatchType a) < MatchType_cost (rule_MatchType b)
      else if rule_Priority a \<noteq> rule_Priority b then rule_Priority a < rule_Priority b
      else ids (rule_ID a) < ids (rule_ID b))"

text \<open>The loop: \<open>seen\<close> holds the contexts that already have an assignment.\<close>

fun match_loop ::
  "unicode \<Rightarrow> SignalFacts \<Rightarrow> uuid \<Rightarrow> uuid list \<Rightarrow> RoutingRule list \<Rightarrow> Assignment list" where
  "match_loop U facts signalID seen [] = []"
| "match_loop U facts signalID seen (r # rs) =
     (if rule_ContextID r \<in> set seen \<or> \<not> RoutingRule_Matches U r facts
      then match_loop U facts signalID seen rs
      else \<lparr>asg_SignalID = signalID, asg_ContextID = rule_ContextID r,
            asg_Confidence = Finite 1, asg_AssignedBy = AssignedByRule\<rparr>
           # match_loop U facts signalID (rule_ContextID r # seen) rs)"

definition MatchRules ::
  "unicode \<Rightarrow> (uuid \<Rightarrow> string) \<Rightarrow> SignalFacts \<Rightarrow> uuid \<Rightarrow> RoutingRule list \<Rightarrow> Assignment list" where
  "MatchRules U ids facts signalID rules =
     match_loop U facts signalID [] (SliceStable (rule_less ids) rules)"

section \<open>The order of the rules\<close>

definition rule_key :: "(uuid \<Rightarrow> string) \<Rightarrow> RoutingRule \<Rightarrow> int \<times> int \<times> string" where
  "rule_key ids r = (MatchType_cost (rule_MatchType r), rule_Priority r, ids (rule_ID r))"

lemma rule_less_key: "rule_less ids a b \<longleftrightarrow> rule_key ids a < rule_key ids b"
  by (auto simp: rule_less_def rule_key_def less_prod_def')

lemma inj_on_rule_key:
  assumes "inj ids" and "distinct (map rule_ID rules)"
  shows "inj_on (rule_key ids) (set rules)"
proof (rule inj_onI)
  fix a b assume "a \<in> set rules" "b \<in> set rules" "rule_key ids a = rule_key ids b"
  moreover from this have "rule_ID a = rule_ID b"
    using assms(1) by (auto simp: rule_key_def dest: injD)
  ultimately show "a = b" using assms(2) by (metis distinct_map inj_onD)
qed

lemmas ordered_rules = slice.srt_eq_sort_key [where f = "rule_key ids" for ids, OF rule_less_key]

section \<open>What the loop produces\<close>

abbreviation assigns :: "unicode \<Rightarrow> SignalFacts \<Rightarrow> RoutingRule list \<Rightarrow> uuid set" where
  "assigns U facts rules \<equiv>
     rule_ContextID ` {r \<in> set rules. RoutingRule_Matches U r facts}"

lemma match_loop_contexts:
  "asg_ContextID ` set (match_loop U facts sid seen rules) = assigns U facts rules - set seen"
  by (induction rules arbitrary: seen) auto

lemma match_loop_distinct: "distinct (map asg_ContextID (match_loop U facts sid seen rules))"
proof (induction rules arbitrary: seen)
  case (Cons r rs)
  have "rule_ContextID r \<notin> asg_ContextID ` set (match_loop U facts sid (rule_ContextID r # seen) rs)"
    by (simp add: match_loop_contexts)
  with Cons show ?case by auto
qed simp

lemma match_loop_fields:
  "a \<in> set (match_loop U facts sid seen rules) \<Longrightarrow>
     asg_SignalID a = sid \<and> asg_Confidence a = Finite 1 \<and> asg_AssignedBy a = AssignedByRule"
  by (induction rules arbitrary: seen) (auto split: if_splits)

lemma match_loop_Nil_iff:
  "match_loop U facts sid seen rules = [] \<longleftrightarrow> assigns U facts rules \<subseteq> set seen"
proof -
  have "match_loop U facts sid seen rules = []
      \<longleftrightarrow> asg_ContextID ` set (match_loop U facts sid seen rules) = {}"
    by simp
  then show ?thesis by (auto simp: match_loop_contexts)
qed

text \<open>
  The assignments come in the order of the first matching rule of each context: the rule that
  justifies an assignment precedes, among the ordered rules, every rule that justifies a later
  one.
\<close>

fun first_match :: "unicode \<Rightarrow> SignalFacts \<Rightarrow> RoutingRule list \<Rightarrow> uuid \<Rightarrow> RoutingRule option" where
  "first_match U facts rules c =
     find (\<lambda>r. rule_ContextID r = c \<and> RoutingRule_Matches U r facts) rules"

lemma match_loop_by_first_match:
  assumes "sorted (map key rules)"
  shows "sorted (map (\<lambda>a. key (the (first_match U facts rules (asg_ContextID a))))
           (match_loop U facts sid seen rules))"
  using assms
proof (induction rules arbitrary: seen)
  case (Cons r rs)
  define L where "L s = match_loop U facts sid s rs" for s
  define K where "K rules a = key (the (first_match U facts rules (asg_ContextID a)))"
    for rules and a :: Assignment
  have keep: "K (r # rs) a = K rs a" if "a \<in> set (L s)"
    "rule_ContextID r \<in> set s \<or> \<not> RoutingRule_Matches U r facts" for a s
  proof -
    have "asg_ContextID a \<in> assigns U facts rs - set s"
      using that(1) match_loop_contexts [of U facts sid s rs] by (auto simp: L_def)
    then show ?thesis using that(2) by (auto simp: K_def)
  qed
  have above: "key r \<le> K rs a" if "a \<in> set (L s)" for a s
  proof -
    have "asg_ContextID a \<in> assigns U facts rs"
      using that match_loop_contexts [of U facts sid s rs] by (auto simp: L_def)
    then have "first_match U facts rs (asg_ContextID a) \<noteq> None"
      by (auto simp: find_None_iff)
    then obtain q where q: "first_match U facts rs (asg_ContextID a) = Some q" by blast
    then have "q \<in> set rs" by (auto dest: find_Some_in)
    with q Cons.prems show ?thesis by (auto simp: K_def)
  qed
  have IH: "sorted (map (K rs) (L s))" for s
    using Cons.IH [of s] Cons.prems unfolding K_def [abs_def] L_def by simp
  have "sorted (map (K (r # rs)) (match_loop U facts sid seen (r # rs)))"
  proof (cases "rule_ContextID r \<in> set seen \<or> \<not> RoutingRule_Matches U r facts")
    case True
    have "map (K (r # rs)) (L seen) = map (K rs) (L seen)" using keep [OF _ True] by simp
    with IH [of seen] have "sorted (map (K (r # rs)) (L seen))" by (simp only:)
    with True show ?thesis by (auto simp: L_def)
  next
    case False
    let ?s = "rule_ContextID r # seen" and ?a = "\<lparr>asg_SignalID = sid, asg_ContextID = rule_ContextID r,
      asg_Confidence = Finite 1, asg_AssignedBy = AssignedByRule\<rparr>"
    have "map (K (r # rs)) (L ?s) = map (K rs) (L ?s)" using keep [of _ ?s] by simp
    moreover have "\<forall>x \<in> set (map (K rs) (L ?s)). key r \<le> x" using above by auto
    moreover have "K (r # rs) ?a = key r" using False by (simp add: K_def)
    ultimately have "sorted (map (K (r # rs)) (?a # L ?s))"
      using IH [of ?s] by (simp only: list.map sorted_simps)
    with False show ?thesis by (simp add: L_def)
  qed
  then show ?case unfolding K_def [abs_def] .
qed simp

section \<open>The router\<close>

text \<open>A rule and the facts with every ASCII letter in lower case.\<close>

definition lower_rule :: "RoutingRule \<Rightarrow> RoutingRule" where
  "lower_rule r = r\<lparr>rule_MatchValue := map lower_char (rule_MatchValue r)\<rparr>"

definition lower_facts :: "SignalFacts \<Rightarrow> SignalFacts" where
  "lower_facts f = \<lparr>Sender = map lower_char (Sender f),
     SenderDomain = map lower_char (SenderDomain f), ThreadID = map lower_char (ThreadID f),
     Subject = map lower_char (Subject f), Body = map lower_char (Body f)\<rparr>"

definition ascii_facts :: "SignalFacts \<Rightarrow> bool" where
  "ascii_facts f \<longleftrightarrow> ascii (Sender f) \<and> ascii (SenderDomain f) \<and> ascii (ThreadID f)
     \<and> ascii (Subject f) \<and> ascii (Body f)"

lemma lower_char_space [simp]: "lower_char (CHR '' '') = CHR '' ''"
  by (simp add: lower_char_def upper_char_def)

lemma ascii_char_space [simp]: "ascii_char (CHR '' '')"
  by (simp add: ascii_char_def)

lemma MatchRules_contexts:
  "asg_ContextID ` set (MatchRules U ids facts sid rules) = assigns U facts rules"
  by (simp add: MatchRules_def match_loop_contexts)

text \<open>
  The outcome of \<^verbatim>\<open>MatchRules\<close> does not depend on the order in which the rules came back
  from the database: two listings of the same rules (distinct identifiers) give the same
  assignments in the same order.
\<close>

theorem MatchRules_order_independent:
  assumes "inj ids" and "distinct (map rule_ID rules)" and "mset rules = mset rules'"
  shows "MatchRules U ids facts sid rules = MatchRules U ids facts sid rules'"
proof -
  have "SliceStable (rule_less ids) rules = SliceStable (rule_less ids) rules'"
    by (rule slice.srt_perm [OF rule_less_key assms(3) inj_on_rule_key [OF assms(1,2)]])
  then show ?thesis by (simp add: MatchRules_def)
qed

text \<open>An injective rendering of identifiers and two rules, for evaluation.\<close>

definition decimal_ids :: "uuid \<Rightarrow> string" where
  "decimal_ids u = Sprintf_d (unat u)"

lemma inj_decimal_ids: "inj decimal_ids"
  by (rule injI) (metis decimal_ids_def digits_value_Sprintf_d word_unat_eq_iff)

definition sample_rule :: "uuid \<Rightarrow> uuid \<Rightarrow> MatchType \<Rightarrow> string \<Rightarrow> RoutingRule" where
  "sample_rule i c mt v = \<lparr>rule_ID = i, rule_ContextID = c, rule_MatchType = mt,
     rule_MatchValue = v, rule_Priority = 100, rule_IsActive = True, rule_CreatedAt = 0,
     rule_UpdatedAt = 0\<rparr>"

definition sample_facts :: SignalFacts where
  "sample_facts = \<lparr>Sender = ''Ann@X.org'', SenderDomain = ''X.org'', ThreadID = [],
     Subject = ''Re: Invoice'', Body = ''hi''\<rparr>"

theorem MatchRules_order_independent_witness:
  "MatchRules plain_unicode decimal_ids sample_facts 9
     [sample_rule 1 5 MatchKeyword ''invoice'', sample_rule 2 6 MatchSender ''ann@x.org'']
   = MatchRules plain_unicode decimal_ids sample_facts 9
     [sample_rule 2 6 MatchSender ''ann@x.org'', sample_rule 1 5 MatchKeyword ''invoice'']"
  by (rule MatchRules_order_independent [OF inj_decimal_ids])
    (simp_all add: sample_rule_def add_mset_commute)

text \<open>
  C32. \<^verbatim>\<open>MatchRules\<close> is sound and complete: a context is assigned exactly when some rule of that
  context matches the facts, no context is assigned twice, and each assignment is of the signal,
  made by a rule with confidence 1, and valid.
\<close>

theorem MatchRules_correct:
  "asg_ContextID ` set (MatchRules U ids facts sid rules) =
     {rule_ContextID r | r. r \<in> set rules \<and> RoutingRule_Matches U r facts}
   \<and> distinct (map asg_ContextID (MatchRules U ids facts sid rules))
   \<and> set (MatchRules U ids facts sid rules) \<subseteq>
       {a. asg_SignalID a = sid \<and> asg_Confidence a = Finite 1 \<and> asg_AssignedBy a = AssignedByRule
           \<and> Assignment_Valid a = None}"
proof (intro conjI subsetI)
  show "asg_ContextID ` set (MatchRules U ids facts sid rules) =
      {rule_ContextID r | r. r \<in> set rules \<and> RoutingRule_Matches U r facts}"
    by (auto simp: MatchRules_contexts)
  show "distinct (map asg_ContextID (MatchRules U ids facts sid rules))"
    by (simp add: MatchRules_def match_loop_distinct)
next
  fix a assume "a \<in> set (MatchRules U ids facts sid rules)"
  then show "a \<in> {a. asg_SignalID a = sid \<and> asg_Confidence a = Finite 1
      \<and> asg_AssignedBy a = AssignedByRule \<and> Assignment_Valid a = None}"
    by (auto simp: MatchRules_def Assignment_Valid_def AssignedBy_Valid_def
        dest!: match_loop_fields)
qed

text \<open>
  The router tries the cheapest rules first: in the result, the rule that first justifies an
  assignment (by match cost, then priority, then identifier) never comes after the one that
  first justifies a later assignment.
\<close>

theorem MatchRules_cheapest_first:
  "sorted (map (\<lambda>a. rule_key ids (the (first_match U facts
       (SliceStable (rule_less ids) rules) (asg_ContextID a))))
     (MatchRules U ids facts sid rules))"
  unfolding MatchRules_def
  by (rule match_loop_by_first_match) (simp add: ordered_rules)

text \<open>
  Matching ignores the case of the rule and of the facts: on ASCII text, changing the
  letters of the match value and of every fact to lower case changes no answer.
\<close>

theorem Matches_case_insensitive:
  assumes "ascii (rule_MatchValue r)" and "ascii_facts f"
  shows "RoutingRule_Matches U (lower_rule r) (lower_facts f) = RoutingRule_Matches U r f"
  using assms
  by (simp add: RoutingRule_Matches_def lower_rule_def lower_facts_def ascii_facts_def
      TrimSpace_lower ToLower_ascii EqualFold_ascii Let_def comp_def)

theorem Matches_case_insensitive_witness:
  "RoutingRule_Matches plain_unicode
     (lower_rule (sample_rule 1 5 MatchKeyword '' INVOICE '')) (lower_facts sample_facts)
   = RoutingRule_Matches plain_unicode (sample_rule 1 5 MatchKeyword '' INVOICE '') sample_facts"
  by (rule Matches_case_insensitive)
    (simp_all add: sample_rule_def sample_facts_def ascii_facts_def ascii_char_def)

end
