(* ===== verification/Store_Models.thy ===== *)
theory Store_Models
  imports Go_Encoding
begin

text \<open>
  \<^verbatim>\<open>internal/store/models.go\<close>: the enumerations sqlc generates from the schema, with their
  \<^verbatim>\<open>Scan\<close> and \<^verbatim>\<open>Value\<close> methods, and the row types of the tables the services read and write.

  The generated code repeats one template per enumeration: a string type, its constants, a
  \<^verbatim>\<open>Scan\<close> method and a nullable wrapper. The template is modelled once, over a descriptor that
  holds what differs, the type's name and its constants; each enumeration is one descriptor. The
  constants are the labels of the enumerated type of the schema, which is how a write of any
  other string is refused.
\<close>

named_theorems row_simps \<open>facts on rows and their columns\<close>

section \<open>Enumerations\<close>

record EnumType =
  enum_name :: string
  enum_values :: "string list"

text \<open>What the driver hands to \<^verbatim>\<open>Scan\<close>: an \<^verbatim>\<open>interface{}\<close>, told apart by its dynamic type.\<close>

datatype driver_value = SrcNil | SrcBytes "byte list" | SrcString string | SrcOther string

text \<open>\<^verbatim>\<open>func (e *T) Scan(src interface{}) error\<close>: the new value of the receiver and the error.\<close>

definition Enum_Scan :: "EnumType \<Rightarrow> string \<Rightarrow> driver_value \<Rightarrow> string \<times> go_error option" where
  "Enum_Scan E e src =
     (case src of
        SrcBytes s \<Rightarrow> (bytes_to_string s, None)
      | SrcString s \<Rightarrow> (s, None)
      | _ \<Rightarrow> (e, Some (LibError (''unsupported scan type for '' @ enum_name E))))"

record NullEnum =
  ne_Enum :: string
  ne_Valid :: bool

definition NullEnum_Scan :: "EnumType \<Rightarrow> NullEnum \<Rightarrow> driver_value \<Rightarrow> NullEnum \<times> go_error option" where
  "NullEnum_Scan E ns value =
     (if value = SrcNil then (\<lparr>ne_Enum = [], ne_Valid = False\<rparr>, None)
      else case Enum_Scan E (ne_Enum ns) value of
        (e, err) \<Rightarrow> (\<lparr>ne_Enum = e, ne_Valid = True\<rparr>, err))"

definition NullEnum_Value :: "NullEnum \<Rightarrow> driver_value" where
  "NullEnum_Value ns = (if \<not> ne_Valid ns then SrcNil else SrcString (ne_Enum ns))"

definition AccountProvider_enum :: EnumType where
  "AccountProvider_enum = \<lparr>enum_name = ''AccountProvider'',
     enum_values = [''gmail'', ''gcalendar'', ''gdrive'', ''zalo_oa'',
       ''facebook_page'', ''instagram_business'', ''manual'']\<rparr>"

definition AccountReliability_enum :: EnumType where
  "AccountReliability_enum = \<lparr>enum_name = ''AccountReliability'',
     enum_values = [''official'', ''unofficial'', ''manual'']\<rparr>"

definition AccountStatus_enum :: EnumType where
  "AccountStatus_enum = \<lparr>enum_name = ''AccountStatus'',
     enum_values = [''active'', ''needs_reauth'', ''disabled'', ''error'']\<rparr>"

definition ActionRisk_enum :: EnumType where
  "ActionRisk_enum = \<lparr>enum_name = ''ActionRisk'',
     enum_values = [''low'', ''medium'', ''high'']\<rparr>"

definition AssignmentSource_enum :: EnumType where
  "AssignmentSource_enum = \<lparr>enum_name = ''AssignmentSource'',
     enum_values = [''rule'', ''model'', ''manual'']\<rparr>"

definition AuditActor_enum :: EnumType where
  "AuditActor_enum = \<lparr>enum_name = ''AuditActor'',
     enum_values = [''user'', ''agent'', ''system'']\<rparr>"

definition AuthProviderKind_enum :: EnumType where
  "AuthProviderKind_enum = \<lparr>enum_name = ''AuthProviderKind'',
     enum_values = [''google'', ''zalo'', ''facebook'', ''passkey'', ''password'']\<rparr>"

definition AutonomyLevel_enum :: EnumType where
  "AutonomyLevel_enum = \<lparr>enum_name = ''AutonomyLevel'',
     enum_values = [''ask'', ''draft'', ''auto'']\<rparr>"

definition AutonomyOutcome_enum :: EnumType where
  "AutonomyOutcome_enum = \<lparr>enum_name = ''AutonomyOutcome'',
     enum_values = [''approved_unchanged'', ''edited'', ''rejected'']\<rparr>"

definition CommitmentDirection_enum :: EnumType where
  "CommitmentDirection_enum = \<lparr>enum_name = ''CommitmentDirection'',
     enum_values = [''i_owe'', ''owed_to_me'']\<rparr>"

definition CommitmentStatus_enum :: EnumType where
  "CommitmentStatus_enum = \<lparr>enum_name = ''CommitmentStatus'',
     enum_values = [''open'', ''fulfilled'', ''waived'', ''dropped'']\<rparr>"

definition EventStatus_enum :: EnumType where
  "EventStatus_enum = \<lparr>enum_name = ''EventStatus'',
     enum_values = [''confirmed'', ''tentative'', ''cancelled'']\<rparr>"

definition ExecutionResult_enum :: EnumType where
  "ExecutionResult_enum = \<lparr>enum_name = ''ExecutionResult'',
     enum_values = [''success'', ''failed'']\<rparr>"

definition IdentityProvider_enum :: EnumType where
  "IdentityProvider_enum = \<lparr>enum_name = ''IdentityProvider'',
     enum_values = [''email'', ''phone'', ''zalo'',
       ''facebook'', ''instagram'', ''other'']\<rparr>"

definition MemorySubjectType_enum :: EnumType where
  "MemorySubjectType_enum = \<lparr>enum_name = ''MemorySubjectType'',
     enum_values = [''person'', ''project'', ''context'', ''self'']\<rparr>"

definition MetricSource_enum :: EnumType where
  "MetricSource_enum = \<lparr>enum_name = ''MetricSource'',
     enum_values = [''manual'', ''import'', ''derived'']\<rparr>"

definition ProposedActionStatus_enum :: EnumType where
  "ProposedActionStatus_enum = \<lparr>enum_name = ''ProposedActionStatus'',
     enum_values = [''pending'', ''approved'', ''edited'', ''rejected'', ''expired'']\<rparr>"

definition ReminderChannel_enum :: EnumType where
  "ReminderChannel_enum = \<lparr>enum_name = ''ReminderChannel'',
     enum_values = [''app'', ''email'', ''push'']\<rparr>"

definition ReminderStatus_enum :: EnumType where
  "ReminderStatus_enum = \<lparr>enum_name = ''ReminderStatus'',
     enum_values = [''scheduled'', ''sent'', ''cancelled'', ''failed'']\<rparr>"

definition ReportKind_enum :: EnumType where
  "ReportKind_enum = \<lparr>enum_name = ''ReportKind'',
     enum_values = [''session'', ''daily'', ''weekly'']\<rparr>"

definition RoutingMatchType_enum :: EnumType where
  "RoutingMatchType_enum = \<lparr>enum_name = ''RoutingMatchType'',
     enum_values = [''sender'', ''domain'', ''keyword'', ''subject'', ''thread'']\<rparr>"

definition RunStatus_enum :: EnumType where
  "RunStatus_enum = \<lparr>enum_name = ''RunStatus'',
     enum_values = [''queued'', ''running'', ''succeeded'', ''failed'', ''cancelled'']\<rparr>"

definition SignalDirection_enum :: EnumType where
  "SignalDirection_enum = \<lparr>enum_name = ''SignalDirection'',
     enum_values = [''inbound'', ''outbound'', ''internal'']\<rparr>"

definition SignalKind_enum :: EnumType where
  "SignalKind_enum = \<lparr>enum_name = ''SignalKind'',
     enum_values = [''email'', ''message'', ''calendar_event'', ''file'', ''note'']\<rparr>"

definition TaskOwner_enum :: EnumType where
  "TaskOwner_enum = \<lparr>enum_name = ''TaskOwner'',
     enum_values = [''me'', ''agent'']\<rparr>"

definition TaskStatus_enum :: EnumType where
  "TaskStatus_enum = \<lparr>enum_name = ''TaskStatus'',
     enum_values = [''open'', ''in_progress'', ''blocked'', ''done'', ''dropped'']\<rparr>"

definition all_enums :: "EnumType list" where
  "all_enums =
     [AccountProvider_enum, AccountReliability_enum, AccountStatus_enum, ActionRisk_enum,
      AssignmentSource_enum, AuditActor_enum, AuthProviderKind_enum, AutonomyLevel_enum,
      AutonomyOutcome_enum, CommitmentDirection_enum, CommitmentStatus_enum,
      EventStatus_enum, ExecutionResult_enum, IdentityProvider_enum,
      MemorySubjectType_enum, MetricSource_enum, ProposedActionStatus_enum,
      ReminderChannel_enum, ReminderStatus_enum, ReportKind_enum, RoutingMatchType_enum,
      RunStatus_enum, SignalDirection_enum, SignalKind_enum, TaskOwner_enum,
      TaskStatus_enum]"

lemmas enum_defs = AccountProvider_enum_def AccountReliability_enum_def AccountStatus_enum_def
  ActionRisk_enum_def AssignmentSource_enum_def AuditActor_enum_def
  AuthProviderKind_enum_def AutonomyLevel_enum_def AutonomyOutcome_enum_def
  CommitmentDirection_enum_def CommitmentStatus_enum_def EventStatus_enum_def
  ExecutionResult_enum_def IdentityProvider_enum_def MemorySubjectType_enum_def
  MetricSource_enum_def ProposedActionStatus_enum_def ReminderChannel_enum_def
  ReminderStatus_enum_def ReportKind_enum_def RoutingMatchType_enum_def
  RunStatus_enum_def SignalDirection_enum_def SignalKind_enum_def
  TaskOwner_enum_def TaskStatus_enum_def

section \<open>Rows\<close>

record User =
  u_ID :: uuid
  u_CreatedAt :: time
  u_UpdatedAt :: time

record UserProfile =
  up_UserID :: uuid
  up_Email :: string
  up_DisplayName :: string
  up_Timezone :: string
  up_CreatedAt :: time
  up_UpdatedAt :: time

type_synonym AuthProviderKind = string

abbreviation AuthProviderKindGoogle :: AuthProviderKind where "AuthProviderKindGoogle \<equiv> ''google''"
abbreviation AuthProviderKindPassword :: AuthProviderKind where
  "AuthProviderKindPassword \<equiv> ''password''"

record AuthProvider =
  ap_ID :: uuid
  ap_UserID :: uuid
  ap_Kind :: AuthProviderKind
  ap_Subject :: string
  ap_Email :: "string option"
  ap_IsPrimary :: bool
  ap_LinkedAt :: time
  ap_LastLoginAt :: "time option"

record AuthPassword =
  aw_AuthProviderID :: uuid
  aw_Kind :: AuthProviderKind
  aw_Hash :: string
  aw_FailedAttempts :: int
  aw_LockedUntil :: "time option"
  aw_UpdatedAt :: time

text \<open>An address (\<^verbatim>\<open>netip.Addr\<close>) is kept as its text.\<close>

record AuthSession =
  as_ID :: uuid
  as_UserID :: uuid
  as_AuthProviderID :: "uuid option"
  as_TokenHash :: "byte list"
  as_IssuedAt :: time
  as_LastSeenAt :: time
  as_ExpiresAt :: time
  as_RevokedAt :: "time option"
  as_UserAgent :: string
  as_Ip :: "string option"

record ContextRow =
  cx_ID :: uuid
  cx_UserID :: uuid
  cx_ParentID :: "uuid option"
  cx_Slug :: string
  cx_Name :: string
  cx_Color :: "string option"
  cx_ActiveHours :: "byte list"
  cx_ToneProfile :: "string option"
  cx_Position :: int
  cx_IsArchived :: bool
  cx_CreatedAt :: time
  cx_UpdatedAt :: time

text \<open>A row of the view \<^verbatim>\<open>context_tree\<close>.\<close>

record ContextTree =
  ct_ID :: uuid
  ct_UserID :: uuid
  ct_RootID :: uuid
  ct_Path :: string
  ct_Depth :: int
  ct_Ancestry :: "uuid list"
  ct_SortPath :: "(int \<times> string) list"

record AccountRow =
  ac_ID :: uuid
  ac_UserID :: uuid
  ac_Provider :: string
  ac_Reliability :: string
  ac_DisplayName :: string
  ac_ExternalAccountID :: "string option"
  ac_CredentialsEnc :: "byte list option"
  ac_Scopes :: "string list"
  ac_SyncCursor :: "byte list"
  ac_Status :: string
  ac_LastSyncAt :: "time option"
  ac_LastError :: "string option"
  ac_CreatedAt :: time
  ac_UpdatedAt :: time

record AccountContext =
  acx_AccountID :: uuid
  acx_ContextID :: uuid
  acx_CreatedAt :: time

record RoutingRuleRow =
  rr_ID :: uuid
  rr_UserID :: uuid
  rr_ContextID :: uuid
  rr_MatchType :: string
  rr_MatchValue :: string
  rr_Priority :: int
  rr_IsActive :: bool
  rr_CreatedAt :: time
  rr_UpdatedAt :: time

record SignalRow =
  sg_ID :: uuid
  sg_AccountID :: uuid
  sg_ExternalID :: string
  sg_ExternalThreadID :: "string option"
  sg_Kind :: string
  sg_Direction :: string
  sg_Subject :: "string option"
  sg_Snippet :: "string option"
  sg_Payload :: "byte list"
  sg_ContentHash :: "string option"
  sg_OccurredAt :: time
  sg_IngestedAt :: time
  sg_ProcessedAt :: "time option"
  sg_ProcessingError :: "string option"

record SignalContext =
  sx_SignalID :: uuid
  sx_ContextID :: uuid
  sx_Confidence :: rat
  sx_AssignedBy :: string
  sx_CreatedAt :: time

record TaskRow =
  tk_ID :: uuid
  tk_UserID :: uuid
  tk_ContextID :: uuid
  tk_SourceSignalID :: "uuid option"
  tk_ParentTaskID :: "uuid option"
  tk_Title :: string
  tk_Detail :: "string option"
  tk_Status :: string
  tk_Owner :: string
  tk_Priority :: int
  tk_DueAt :: "time option"
  tk_EstimatedMinutes :: "int option"
  tk_BlockedReason :: "string option"
  tk_CreatedAt :: time
  tk_UpdatedAt :: time
  tk_CompletedAt :: "time option"
  tk_CommitmentID :: "uuid option"

section \<open>Facts on enumerations\<close>

definition enum_ok :: "EnumType \<Rightarrow> string \<Rightarrow> bool" where
  "enum_ok E s \<longleftrightarrow> s \<in> set (enum_values E)"

lemma NullEnum_Scan_Value:
  "ne_Valid ns \<or> ne_Enum ns = [] \<Longrightarrow> NullEnum_Scan E old (NullEnum_Value ns) = (ns, None)"
  by (cases ns) (auto simp: NullEnum_Scan_def NullEnum_Value_def Enum_Scan_def)

interpretation null_enum: codec NullEnum_Value "\<lambda>v. Some (fst (NullEnum_Scan E old v))"
  "\<lambda>ns. ne_Valid ns \<or> ne_Enum ns = []" for E old
  by unfold_locales (simp add: NullEnum_Scan_Value)

lemma enums_well_formed:
  "list_all (\<lambda>E. enum_values E \<noteq> [] \<and> distinct (enum_values E)) all_enums"
  by (simp add: all_enums_def enum_defs)

end
