(* ===== verification/Store_DB.thy ===== *)
theory Store_DB
  imports Store_Models
begin

text \<open>
  How the services reach the database: the tables, the running of a statement
  (\<^verbatim>\<open>internal/store/db.go\<close>), transactions (\<open>InTx\<close> of \<^verbatim>\<open>internal/auth/store.go\<close>), and the other sources of
  effects the services draw on (random bytes, fresh identifiers).

  A statement is a function of the database's clock reading and of the tables: it either raises
  an error, which leaves the tables as they were, or yields its result and the new tables. What
  is outside the repository is the record \<open>env\<close>, a parameter of every effectful definition: which
  calls fail and how, the readings of the database's clock, the identifiers and random bytes
  handed out, the case folding of \<^verbatim>\<open>citext\<close>, the collation of \<^verbatim>\<open>ORDER BY\<close>, and argon2. Calls are
  numbered in the order they are made, so the environment may answer each one differently.

  A call to the database may fail before it takes effect, or after (the connection is lost while
  the answer travels): \<open>FailBefore\<close> and \<open>FailAfter\<close>. Failures the tables do not decide, such as a
  text that is not valid in the database's encoding, are failures of this kind.

  Every function run inside a transaction returns the error of a failed statement, the absence
  of a row apart, which is no error to the server. So no statement ever follows a failed one in
  the same transaction, and the aborted state of a transaction is not modelled.
\<close>

named_theorems keeps_intro \<open>rules that show a call keeps a property of the tables\<close>
named_theorems sql_simps \<open>definitions of the statements\<close>

section \<open>Tables\<close>

record db =
  users :: "User list"
  user_profiles :: "UserProfile list"
  auth_providers :: "AuthProvider list"
  auth_passwords :: "AuthPassword list"
  auth_sessions :: "AuthSession list"
  contexts :: "ContextRow list"
  accounts :: "AccountRow list"
  account_contexts :: "AccountContext list"
  routing_rules :: "RoutingRuleRow list"
  signals :: "SignalRow list"
  signal_contexts :: "SignalContext list"
  tasks :: "TaskRow list"

definition empty_db :: db where
  "empty_db = \<lparr>users = [], user_profiles = [], auth_providers = [], auth_passwords = [],
     auth_sessions = [], contexts = [], accounts = [], account_contexts = [],
     routing_rules = [], signals = [], signal_contexts = [], tasks = []\<rparr>"

text \<open>A statement: the clock of its transaction, the tables, and what it answers.\<close>

type_synonym 'a query = "time \<Rightarrow> db \<Rightarrow> go_error + 'a \<times> db"

section \<open>The environment and the world\<close>

datatype fault = FailBefore go_error | FailAfter go_error

record env =
  e_fault :: "nat \<Rightarrow> fault option"
  e_now :: "nat \<Rightarrow> time"
  e_uuid :: "nat \<Rightarrow> uuid option"
  e_rand :: "nat \<Rightarrow> nat \<Rightarrow> byte list option"
  e_unicode :: unicode
  e_citext :: "string \<Rightarrow> string"
  e_collate :: "string \<Rightarrow> string"
  e_argon2 :: "byte list \<Rightarrow> byte list \<Rightarrow> nat \<Rightarrow> nat \<Rightarrow> nat \<Rightarrow> nat \<Rightarrow> byte list option"

text \<open>
  The world a call runs in: the tables, the number of the next call, the start of the open
  transaction if there is one, and whether the process has already discovered Google's
  endpoints (\<^verbatim>\<open>GoogleProvider.provider\<close>).
\<close>

record world =
  w_db :: db
  w_tick :: nat
  w_tx :: "time option"
  w_google :: bool

type_synonym 'a io = "world \<Rightarrow> (go_error + 'a) \<times> world"

definition tick :: "world \<Rightarrow> world" where
  "tick w = w\<lparr>w_tick := Suc (w_tick w)\<rparr>"

text \<open>\<^verbatim>\<open>now()\<close>: the start of the transaction, or of the statement when it is its own.\<close>

definition db_now :: "env \<Rightarrow> world \<Rightarrow> time" where
  "db_now E w = (case w_tx w of Some t \<Rightarrow> t | None \<Rightarrow> e_now E (w_tick w))"

section \<open>Calls\<close>

definition run_query :: "env \<Rightarrow> 'a query \<Rightarrow> 'a io" where
  "run_query E q w =
     (case e_fault E (w_tick w) of
        Some (FailBefore e) \<Rightarrow> (Inl e, tick w)
      | Some (FailAfter e) \<Rightarrow>
          (case q (db_now E w) (w_db w) of
             Inl e' \<Rightarrow> (Inl e, tick w)
           | Inr (x, d) \<Rightarrow> (Inl e, (tick w)\<lparr>w_db := d\<rparr>))
      | None \<Rightarrow>
          (case q (db_now E w) (w_db w) of
             Inl e' \<Rightarrow> (Inl e', tick w)
           | Inr (x, d) \<Rightarrow> (Inr x, (tick w)\<lparr>w_db := d\<rparr>)))"

text \<open>
  \<^verbatim>\<open>x, err := m; if err != nil { return onerr(err) }; k(x)\<close>, and \<^verbatim>\<open>return x, nil\<close>,
  \<^verbatim>\<open>return err\<close>.
\<close>

definition call :: "'a io \<Rightarrow> (go_error \<Rightarrow> go_error) \<Rightarrow> ('a \<Rightarrow> 'b io) \<Rightarrow> 'b io" where
  "call m onerr k w = (case m w of (Inl e, w1) \<Rightarrow> (Inl (onerr e), w1) | (Inr x, w1) \<Rightarrow> k x w1)"

definition return :: "'a \<Rightarrow> 'a io" where
  "return x w = (Inr x, w)"

definition throw :: "go_error \<Rightarrow> 'a io" where
  "throw e w = (Inl e, w)"

text \<open>\<^verbatim>\<open>_ = m\<close>: the error is dropped.\<close>

definition best_effort :: "'a io \<Rightarrow> 'b io \<Rightarrow> 'b io" where
  "best_effort m k w = k (snd (m w))"

text \<open>\<^verbatim>\<open>x, err := m\<close> where the code goes on to look at the error itself.\<close>

definition attempt :: "'a io \<Rightarrow> (go_error + 'a \<Rightarrow> 'b io) \<Rightarrow> 'b io" where
  "attempt m k w = (case m w of (r, w1) \<Rightarrow> k r w1)"

text \<open>\<^verbatim>\<open>uuid.NewV7()\<close> and \<^verbatim>\<open>rand.Read\<close> into a buffer of a given length.\<close>

definition NewV7 :: "env \<Rightarrow> uuid io" where
  "NewV7 E w =
     (case e_uuid E (w_tick w) of
        None \<Rightarrow> (Inl (LibError ''uuid.NewV7''), tick w)
      | Some u \<Rightarrow> (Inr u, tick w))"

definition rand_Read :: "env \<Rightarrow> nat \<Rightarrow> byte list io" where
  "rand_Read E n w =
     (case e_rand E (w_tick w) n of
        None \<Rightarrow> (Inl (LibError ''rand.Read''), tick w)
      | Some bs \<Rightarrow> (Inr bs, tick w))"

text \<open>
  \<^verbatim>\<open>PgxStore.InTx\<close>. The tables a failed transaction leaves are those it started from; a commit
  may fail before or after it took effect.
\<close>

definition InTx :: "env \<Rightarrow> 'a io \<Rightarrow> 'a io" where
  "InTx E fn w =
     (case e_fault E (w_tick w) of
        Some (FailBefore e) \<Rightarrow> (Inl (Wrap ''begin transaction'' e), tick w)
      | Some (FailAfter e) \<Rightarrow> (Inl (Wrap ''begin transaction'' e), tick w)
      | None \<Rightarrow>
          (case fn ((tick w)\<lparr>w_tx := Some (e_now E (w_tick w))\<rparr>) of
             (Inl e, w1) \<Rightarrow> (Inl e, w1\<lparr>w_db := w_db w, w_tx := w_tx w\<rparr>)
           | (Inr x, w1) \<Rightarrow>
               (case e_fault E (w_tick w1) of
                  Some (FailBefore e) \<Rightarrow> (Inl e, (tick w1)\<lparr>w_db := w_db w, w_tx := w_tx w\<rparr>)
                | Some (FailAfter e) \<Rightarrow> (Inl e, (tick w1)\<lparr>w_tx := w_tx w\<rparr>)
                | None \<Rightarrow> (Inr x, (tick w1)\<lparr>w_tx := w_tx w\<rparr>))))"

section \<open>SQLSTATE codes and column checks\<close>

abbreviation unique_violation :: "string \<Rightarrow> go_error" where
  "unique_violation con \<equiv> PgError ''23505'' con"
abbreviation foreign_key_violation :: "string \<Rightarrow> go_error" where
  "foreign_key_violation con \<equiv> PgError ''23503'' con"
abbreviation check_violation :: "string \<Rightarrow> go_error" where
  "check_violation con \<equiv> PgError ''23514'' con"
abbreviation not_null_violation :: "string \<Rightarrow> go_error" where
  "not_null_violation con \<equiv> PgError ''23502'' con"
abbreviation restrict_violation :: go_error where
  "restrict_violation \<equiv> PgError ''23001'' []"
abbreviation numeric_out_of_range :: go_error where
  "numeric_out_of_range \<equiv> PgError ''22003'' []"
abbreviation invalid_text_representation :: go_error where
  "invalid_text_representation \<equiv> PgError ''22P02'' []"

text \<open>\<^verbatim>\<open>length(btrim(s)) > 0\<close>: the trim removes spaces only.\<close>

definition btrim :: "string \<Rightarrow> string" where
  "btrim s = rev (dropWhile (\<lambda>c. c = CHR '' '') (rev (dropWhile (\<lambda>c. c = CHR '' '') s)))"

definition not_blank :: "string \<Rightarrow> bool" where
  "not_blank s \<longleftrightarrow> btrim s \<noteq> []"

text \<open>The first violated check, in the order the server tests them.\<close>

fun checks :: "(bool \<times> go_error) list \<Rightarrow> go_error option" where
  "checks [] = None"
| "checks ((ok, e) # cs) = (if ok then checks cs else Some e)"

lemma not_blank_iff: "not_blank s \<longleftrightarrow> (\<exists>c \<in> set s. c \<noteq> CHR '' '')"
proof (cases "dropWhile (\<lambda>c. c = CHR '' '') s")
  case Nil
  then have "\<forall>c \<in> set s. c = CHR '' ''" by (simp add: dropWhile_eq_Nil_conv)
  moreover have "btrim s = []" unfolding btrim_def Nil by simp
  ultimately show ?thesis unfolding not_blank_def by blast
next
  case (Cons c cs)
  then have "c \<noteq> CHR '' ''" and "c \<in> set s"
    by (simp add: dropWhile_eq_Cons_conv)
      (metis Cons list.set_intros(1) set_dropWhileD)
  moreover have "btrim s \<noteq> []"
    using dropWhile_end_not_Nil [OF Cons] unfolding btrim_def Cons by simp
  ultimately show ?thesis unfolding not_blank_def by blast
qed

lemma checks_None_iff: "checks cs = None \<longleftrightarrow> (\<forall>(ok, e) \<in> set cs. ok)"
  by (induction cs rule: checks.induct) auto

lemma checks_Some_in: "checks cs = Some e \<Longrightarrow> (False, e) \<in> set cs"
  by (induction cs rule: checks.induct) (auto split: if_splits)

section \<open>Facts on calls\<close>

lemma tick_simps [simp]:
  "w_db (tick w) = w_db w" "w_tick (tick w) = Suc (w_tick w)" "w_tx (tick w) = w_tx w"
  by (simp_all add: tick_def)

lemma db_now_simps [simp]:
  "w_tx w = Some t \<Longrightarrow> db_now E w = t"
  "w_tx w = None \<Longrightarrow> db_now E w = e_now E (w_tick w)"
  by (simp_all add: db_now_def)

lemma call_Inr: "m w = (Inr x, w1) \<Longrightarrow> call m h k w = k x w1"
  by (simp add: call_def)

lemma call_Inl: "m w = (Inl e, w1) \<Longrightarrow> call m h k w = (Inl (h e), w1)"
  by (simp add: call_def)

lemma call_Inr_iff:
  "call m h k w = (Inr y, w') \<longleftrightarrow> (\<exists>x w1. m w = (Inr x, w1) \<and> k x w1 = (Inr y, w'))"
  by (auto simp: call_def split: prod.splits sum.splits)

lemma run_query_ok:
  "e_fault E (w_tick w) = None \<Longrightarrow> q (db_now E w) (w_db w) = Inr (x, d) \<Longrightarrow>
     run_query E q w = (Inr x, (tick w)\<lparr>w_db := d\<rparr>)"
  by (simp add: run_query_def)

lemma run_query_err:
  "e_fault E (w_tick w) = None \<Longrightarrow> q (db_now E w) (w_db w) = Inl e \<Longrightarrow>
     run_query E q w = (Inl e, tick w)"
  by (simp add: run_query_def)

lemma run_query_Inr_iff:
  "run_query E q w = (Inr x, w') \<longleftrightarrow>
     e_fault E (w_tick w) = None
     \<and> (\<exists>d. q (db_now E w) (w_db w) = Inr (x, d) \<and> w' = (tick w)\<lparr>w_db := d\<rparr>)"
  by (auto simp: run_query_def split: option.splits fault.splits sum.splits)

text \<open>The tables after a call are those before it, or those the statement produced.\<close>

lemma run_query_db:
  "w_db (snd (run_query E q w)) = w_db w
   \<or> (\<exists>x. q (db_now E w) (w_db w) = Inr (x, w_db (snd (run_query E q w))))"
  by (auto simp: run_query_def split: option.splits fault.splits sum.splits)

subsection \<open>Keeping a property of the tables\<close>

definition keeps :: "(db \<Rightarrow> bool) \<Rightarrow> 'a io \<Rightarrow> bool" where
  "keeps P m \<longleftrightarrow> (\<forall>w. P (w_db w) \<longrightarrow> P (w_db (snd (m w))))"

definition q_keeps :: "(db \<Rightarrow> bool) \<Rightarrow> 'a query \<Rightarrow> bool" where
  "q_keeps P q \<longleftrightarrow> (\<forall>t d x d'. P d \<longrightarrow> q t d = Inr (x, d') \<longrightarrow> P d')"

lemma keepsD: "keeps P m \<Longrightarrow> P (w_db w) \<Longrightarrow> P (w_db (snd (m w)))"
  by (simp add: keeps_def)

lemma q_keepsI: "(\<And>t d x d'. P d \<Longrightarrow> q t d = Inr (x, d') \<Longrightarrow> P d') \<Longrightarrow> q_keeps P q"
  by (simp add: q_keeps_def)

lemma keeps_run_query [keeps_intro]: "q_keeps P q \<Longrightarrow> keeps P (run_query E q)"
  unfolding keeps_def q_keeps_def using run_query_db by metis

lemma keeps_call [keeps_intro]:
  "keeps P m \<Longrightarrow> (\<And>x. keeps P (k x)) \<Longrightarrow> keeps P (call m h k)"
  by (fastforce simp: keeps_def call_def split: prod.splits sum.splits)

lemma keeps_attempt [keeps_intro]:
  "keeps P m \<Longrightarrow> (\<And>r. keeps P (k r)) \<Longrightarrow> keeps P (attempt m k)"
  by (fastforce simp: keeps_def attempt_def split: prod.splits)

lemma keeps_best_effort [keeps_intro]:
  "keeps P m \<Longrightarrow> keeps P k \<Longrightarrow> keeps P (best_effort m k)"
  by (simp add: keeps_def best_effort_def)

lemma keeps_pure [keeps_intro]:
  "keeps P (return x)" "keeps P (throw e)" "keeps P (NewV7 E)" "keeps P (rand_Read E n)"
  by (simp_all add: keeps_def return_def throw_def NewV7_def rand_Read_def split: option.split)

lemma keeps_InTx: "keeps P fn \<Longrightarrow> keeps P (InTx E fn)"
  unfolding keeps_def
proof (intro allI impI)
  fix w :: world assume fn: "\<forall>w. P (w_db w) \<longrightarrow> P (w_db (snd (fn w)))" and P: "P (w_db w)"
  let ?w = "(tick w)\<lparr>w_tx := Some (e_now E (w_tick w))\<rparr>"
  have "P (w_db (snd (fn ?w)))" using fn P by simp
  with P show "P (w_db (snd (InTx E fn w)))"
    by (cases "fn ?w") (auto simp: InTx_def split: option.split fault.split sum.split)
qed

text \<open>
  A transaction is atomic whatever fails: the tables are untouched, or they are those of its
  body run to the end without an error.
\<close>

lemma InTx_atomic:
  "w_db (snd (InTx E fn w)) = w_db w
   \<or> (\<exists>x w1. fn ((tick w)\<lparr>w_tx := Some (e_now E (w_tick w))\<rparr>) = (Inr x, w1)
        \<and> w_db (snd (InTx E fn w)) = w_db w1)"
  by (auto simp: InTx_def split: option.split fault.split sum.split prod.split)

lemma InTx_Inr_iff:
  "InTx E fn w = (Inr x, w') \<longleftrightarrow>
     e_fault E (w_tick w) = None
     \<and> (\<exists>w1. fn ((tick w)\<lparr>w_tx := Some (e_now E (w_tick w))\<rparr>) = (Inr x, w1)
          \<and> e_fault E (w_tick w1) = None \<and> w' = (tick w1)\<lparr>w_tx := w_tx w\<rparr>)"
  by (auto simp: InTx_def split: option.splits fault.splits sum.splits prod.splits)

lemma InTx_err:
  "e_fault E (w_tick w) = None \<Longrightarrow>
   fn ((tick w)\<lparr>w_tx := Some (e_now E (w_tick w))\<rparr>) = (Inl e, w1) \<Longrightarrow>
     InTx E fn w = (Inl e, w1\<lparr>w_db := w_db w, w_tx := w_tx w\<rparr>)"
  by (simp add: InTx_def)

text \<open>A call that writes nothing.\<close>

definition reads_only :: "'a io \<Rightarrow> bool" where
  "reads_only m \<longleftrightarrow> (\<forall>w. w_db (snd (m w)) = w_db w)"

lemma reads_only_keeps: "reads_only m \<Longrightarrow> keeps P m"
  by (simp add: reads_only_def keeps_def)

lemma reads_only_run_query:
  "(\<And>t d x d'. q t d = Inr (x, d') \<Longrightarrow> d' = d) \<Longrightarrow> reads_only (run_query E q)"
  unfolding reads_only_def using run_query_db by metis

section \<open>Facts on transaction time\<close>

definition keeps_tx :: "'a io \<Rightarrow> bool" where
  "keeps_tx m \<longleftrightarrow> (\<forall>w. w_tx (snd (m w)) = w_tx w)"

lemma keeps_tx_intros [keeps_intro]:
  "keeps_tx (run_query E q)"
  "keeps_tx (return x)" "keeps_tx (throw e)" "keeps_tx (NewV7 E)" "keeps_tx (rand_Read E n)"
  "keeps_tx (InTx E fn)"
  by (auto simp: keeps_tx_def run_query_def return_def throw_def NewV7_def rand_Read_def InTx_def
      split: option.splits fault.splits sum.splits prod.splits)

lemma keeps_tx_call [keeps_intro]:
  "keeps_tx m \<Longrightarrow> (\<And>x. keeps_tx (k x)) \<Longrightarrow> keeps_tx (call m h k)"
  unfolding keeps_tx_def call_def
  by (auto split: prod.splits sum.splits) (metis snd_conv)+

end
