(* ===== verification/Store_Auth.thy ===== *)
theory Store_Auth
  imports Store_DB
begin

text \<open>
  \<^verbatim>\<open>internal/store/auth.sql.go\<close>: the statements of the authentication tables, each with the
  constraints, triggers and referential actions that the schema (\<^verbatim>\<open>db/migrations\<close> 00002, 00003,
  00018, 00019) runs with it. A statement tests its constraints in the server's order: row
  checks, unique keys, then foreign keys. A \<^verbatim>\<open>:one\<close> statement that finds nothing answers
  \<^verbatim>\<open>ErrNoRows\<close>; an \<^verbatim>\<open>:execrows\<close> one answers how many rows it touched.

  The theory ends with the integrity of these tables as an invariant that every statement keeps,
  and with the interface of a session store, which the statements provide.
\<close>

section \<open>Accounts and sign-in methods\<close>

definition CreateUser :: "uuid \<Rightarrow> User query" where
  "CreateUser i now d =
     (case checks [(i \<notin> u_ID ` set (users d), unique_violation ''users_pkey'')] of
        Some e \<Rightarrow> Inl e
      | None \<Rightarrow>
          (let r = \<lparr>u_ID = i, u_CreatedAt = now, u_UpdatedAt = now\<rparr>
           in Inr (r, d\<lparr>users := users d @ [r]\<rparr>)))"

record CreateUserProfileParams =
  cup_UserID :: uuid
  cup_Email :: string
  cup_DisplayName :: string

definition CreateUserProfile ::
  "(string \<Rightarrow> string) \<Rightarrow> CreateUserProfileParams \<Rightarrow> UserProfile query" where
  "CreateUserProfile cf arg now d =
     (case checks
        [(not_blank (cup_DisplayName arg), check_violation ''user_profiles_display_name_not_blank''),
         (cup_UserID arg \<notin> up_UserID ` set (user_profiles d), unique_violation ''user_profiles_pkey''),
         (cf (cup_Email arg) \<notin> (\<lambda>p. cf (up_Email p)) ` set (user_profiles d),
            unique_violation ''user_profiles_email_key''),
         (cup_UserID arg \<in> u_ID ` set (users d),
            foreign_key_violation ''user_profiles_user_id_fkey'')] of
        Some e \<Rightarrow> Inl e
      | None \<Rightarrow>
          (let r = \<lparr>up_UserID = cup_UserID arg, up_Email = cup_Email arg,
                    up_DisplayName = cup_DisplayName arg, up_Timezone = ''Asia/Ho_Chi_Minh'',
                    up_CreatedAt = now, up_UpdatedAt = now\<rparr>
           in Inr (r, d\<lparr>user_profiles := user_profiles d @ [r]\<rparr>)))"

definition GetUserProfile :: "uuid \<Rightarrow> UserProfile query" where
  "GetUserProfile userID now d =
     (case find (\<lambda>p. up_UserID p = userID) (user_profiles d) of
        None \<Rightarrow> Inl ErrNoRows | Some p \<Rightarrow> Inr (p, d))"

definition UserProfileByEmail :: "(string \<Rightarrow> string) \<Rightarrow> string \<Rightarrow> UserProfile query" where
  "UserProfileByEmail cf email now d =
     (case find (\<lambda>p. cf (up_Email p) = cf email) (user_profiles d) of
        None \<Rightarrow> Inl ErrNoRows | Some p \<Rightarrow> Inr (p, d))"

record CreateAuthProviderParams =
  cap_ID :: uuid
  cap_UserID :: uuid
  cap_Kind :: AuthProviderKind
  cap_Subject :: string
  cap_Email :: "string option"
  cap_IsPrimary :: bool

definition CreateAuthProvider :: "CreateAuthProviderParams \<Rightarrow> AuthProvider query" where
  "CreateAuthProvider arg now d =
     (case checks
        [(enum_ok AuthProviderKind_enum (cap_Kind arg), invalid_text_representation),
         (not_blank (cap_Subject arg), check_violation ''auth_providers_subject_not_blank''),
         (cap_ID arg \<notin> ap_ID ` set (auth_providers d), unique_violation ''auth_providers_pkey''),
         ((cap_Kind arg, cap_Subject arg) \<notin> (\<lambda>p. (ap_Kind p, ap_Subject p)) ` set (auth_providers d),
            unique_violation ''auth_providers_unique''),
         (\<not> (cap_IsPrimary arg
              \<and> list_ex (\<lambda>p. ap_IsPrimary p \<and> ap_UserID p = cap_UserID arg) (auth_providers d)),
            unique_violation ''auth_providers_one_primary_idx''),
         (cap_UserID arg \<in> u_ID ` set (users d),
            foreign_key_violation ''auth_providers_user_id_fkey'')] of
        Some e \<Rightarrow> Inl e
      | None \<Rightarrow>
          (let r = \<lparr>ap_ID = cap_ID arg, ap_UserID = cap_UserID arg, ap_Kind = cap_Kind arg,
                    ap_Subject = cap_Subject arg, ap_Email = cap_Email arg,
                    ap_IsPrimary = cap_IsPrimary arg, ap_LinkedAt = now, ap_LastLoginAt = None\<rparr>
           in Inr (r, d\<lparr>auth_providers := auth_providers d @ [r]\<rparr>)))"

record ProviderByKindSubjectParams =
  pks_Kind :: AuthProviderKind
  pks_Subject :: string

definition ProviderByKindSubject :: "ProviderByKindSubjectParams \<Rightarrow> AuthProvider query" where
  "ProviderByKindSubject arg now d =
     (if \<not> enum_ok AuthProviderKind_enum (pks_Kind arg) then Inl invalid_text_representation
      else case find (\<lambda>p. ap_Kind p = pks_Kind arg \<and> ap_Subject p = pks_Subject arg)
                  (auth_providers d) of
        None \<Rightarrow> Inl ErrNoRows | Some p \<Rightarrow> Inr (p, d))"

record MarkProviderUsedParams =
  mpu_ID :: uuid
  mpu_LastLoginAt :: time

definition MarkProviderUsed :: "MarkProviderUsedParams \<Rightarrow> unit query" where
  "MarkProviderUsed arg now d =
     Inr ((), d\<lparr>auth_providers :=
       update_where (\<lambda>p. ap_ID p = mpu_ID arg)
         (\<lambda>p. p\<lparr>ap_LastLoginAt := Some (mpu_LastLoginAt arg)\<rparr>) (auth_providers d)\<rparr>)"

definition CountAuthProviders :: "uuid \<Rightarrow> int query" where
  "CountAuthProviders userID now d =
     Inr (int (length (filter (\<lambda>p. ap_UserID p = userID) (auth_providers d))), d)"

text \<open>\<^verbatim>\<open>ORDER BY is_primary DESC, linked_at\<close>; rows that compare equal keep their order.\<close>

definition provider_less :: "AuthProvider \<Rightarrow> AuthProvider \<Rightarrow> bool" where
  "provider_less a b =
     (if ap_IsPrimary a \<noteq> ap_IsPrimary b then ap_IsPrimary a else ap_LinkedAt a < ap_LinkedAt b)"

definition ListAuthProviders :: "uuid \<Rightarrow> AuthProvider list query" where
  "ListAuthProviders userID now d =
     Inr (SliceStable provider_less (filter (\<lambda>p. ap_UserID p = userID) (auth_providers d)), d)"

record DeleteAuthProviderParams =
  dap_ID :: uuid
  dap_UserID :: uuid

text \<open>The trigger \<^verbatim>\<open>auth_providers_keep_one\<close>, asked before a row is deleted.\<close>

definition auth_providers_keep_one :: "db \<Rightarrow> AuthProvider \<Rightarrow> go_error option" where
  "auth_providers_keep_one d old =
     (if ap_UserID old \<notin> u_ID ` set (users d) then None
      else if \<not> list_ex (\<lambda>p. ap_UserID p = ap_UserID old \<and> ap_ID p \<noteq> ap_ID old) (auth_providers d)
      then Some restrict_violation
      else None)"

text \<open>
  The delete itself with its referential actions: a password goes with its provider, a session
  loses the reference to it.
\<close>

definition DeleteAuthProvider :: "DeleteAuthProviderParams \<Rightarrow> int query" where
  "DeleteAuthProvider arg now d =
     (let doomed = (\<lambda>p. ap_ID p = dap_ID arg \<and> ap_UserID p = dap_UserID arg)
      in case find doomed (auth_providers d) of
           None \<Rightarrow> Inr (0, d)
         | Some old \<Rightarrow>
             (case auth_providers_keep_one d old of
                Some e \<Rightarrow> Inl e
              | None \<Rightarrow>
                  Inr (int (length (filter doomed (auth_providers d))),
                    d\<lparr>auth_providers := delete_where doomed (auth_providers d),
                      auth_passwords :=
                        delete_where (\<lambda>a. aw_AuthProviderID a = ap_ID old) (auth_passwords d),
                      auth_sessions :=
                        update_where (\<lambda>s. as_AuthProviderID s = Some (ap_ID old))
                          (\<lambda>s. s\<lparr>as_AuthProviderID := None\<rparr>) (auth_sessions d)\<rparr>)))"

section \<open>Passwords\<close>

record CreateAuthPasswordParams =
  caw_AuthProviderID :: uuid
  caw_Hash :: string

definition argon2id_format :: "string \<Rightarrow> bool" where
  "argon2id_format h \<longleftrightarrow> prefix ''$argon2id$'' h"

definition CreateAuthPassword :: "CreateAuthPasswordParams \<Rightarrow> unit query" where
  "CreateAuthPassword arg now d =
     (case checks
        [(argon2id_format (caw_Hash arg), check_violation ''auth_passwords_hash_format''),
         (caw_AuthProviderID arg \<notin> aw_AuthProviderID ` set (auth_passwords d),
            unique_violation ''auth_passwords_pkey''),
         ((caw_AuthProviderID arg, AuthProviderKindPassword)
            \<in> (\<lambda>p. (ap_ID p, ap_Kind p)) ` set (auth_providers d),
            foreign_key_violation ''auth_passwords_provider_fkey'')] of
        Some e \<Rightarrow> Inl e
      | None \<Rightarrow>
          Inr ((), d\<lparr>auth_passwords := auth_passwords d @
            [\<lparr>aw_AuthProviderID = caw_AuthProviderID arg, aw_Kind = AuthProviderKindPassword,
              aw_Hash = caw_Hash arg, aw_FailedAttempts = 0, aw_LockedUntil = None,
              aw_UpdatedAt = now\<rparr>]\<rparr>))"

record GetPasswordCredentialRow =
  gpc_ProviderID :: uuid
  gpc_UserID :: uuid
  gpc_Subject :: string
  gpc_Hash :: string
  gpc_FailedAttempts :: int
  gpc_LockedUntil :: "time option"

text \<open>The join, in the order of the providers and, for each, of the passwords.\<close>

definition password_join :: "db \<Rightarrow> (AuthProvider \<times> AuthPassword) list" where
  "password_join d =
     filter (\<lambda>(p, a). aw_AuthProviderID a = ap_ID p)
       (List.product (auth_providers d) (auth_passwords d))"

definition GetPasswordCredential :: "string \<Rightarrow> GetPasswordCredentialRow query" where
  "GetPasswordCredential email now d =
     (case find (\<lambda>(p, a). ap_Kind p = AuthProviderKindPassword \<and> ap_Subject p = email)
             (password_join d) of
        None \<Rightarrow> Inl ErrNoRows
      | Some (p, a) \<Rightarrow>
          Inr (\<lparr>gpc_ProviderID = ap_ID p, gpc_UserID = ap_UserID p, gpc_Subject = ap_Subject p,
                gpc_Hash = aw_Hash a, gpc_FailedAttempts = aw_FailedAttempts a,
                gpc_LockedUntil = aw_LockedUntil a\<rparr>, d))"

record RecordFailedLoginParams =
  rfl_MaxAttempts :: int
  rfl_LockUntil :: time
  rfl_ProviderID :: uuid

record RecordFailedLoginRow =
  rflr_FailedAttempts :: int
  rflr_LockedUntil :: "time option"

text \<open>One failed attempt on a row: the sum is an integer, the column a smallint.\<close>

definition count_failure :: "RecordFailedLoginParams \<Rightarrow> time \<Rightarrow> AuthPassword \<Rightarrow> AuthPassword" where
  "count_failure arg now a =
     a\<lparr>aw_FailedAttempts := aw_FailedAttempts a + 1,
       aw_LockedUntil :=
         (if aw_FailedAttempts a + 1 \<ge> rfl_MaxAttempts arg then Some (rfl_LockUntil arg)
          else aw_LockedUntil a),
       aw_UpdatedAt := now\<rparr>"

definition RecordFailedLogin :: "RecordFailedLoginParams \<Rightarrow> RecordFailedLoginRow query" where
  "RecordFailedLogin arg now d =
     (let hit = (\<lambda>a. aw_AuthProviderID a = rfl_ProviderID arg)
      in case find hit (auth_passwords d) of
           None \<Rightarrow> Inl ErrNoRows
         | Some a \<Rightarrow>
             if aw_FailedAttempts a + 1 > 32767 then Inl numeric_out_of_range
             else
               Inr (\<lparr>rflr_FailedAttempts = aw_FailedAttempts (count_failure arg now a),
                     rflr_LockedUntil = aw_LockedUntil (count_failure arg now a)\<rparr>,
                 d\<lparr>auth_passwords := update_where hit (count_failure arg now) (auth_passwords d)\<rparr>))"

definition ClearFailedLogins :: "uuid \<Rightarrow> unit query" where
  "ClearFailedLogins authProviderID now d =
     Inr ((), d\<lparr>auth_passwords :=
       update_where (\<lambda>a. aw_AuthProviderID a = authProviderID)
         (\<lambda>a. a\<lparr>aw_FailedAttempts := 0, aw_LockedUntil := None, aw_UpdatedAt := now\<rparr>)
         (auth_passwords d)\<rparr>)"

record UpdatePasswordHashParams =
  uph_AuthProviderID :: uuid
  uph_Hash :: string

definition UpdatePasswordHash :: "UpdatePasswordHashParams \<Rightarrow> unit query" where
  "UpdatePasswordHash arg now d =
     (let hit = (\<lambda>a. aw_AuthProviderID a = uph_AuthProviderID arg)
      in if list_ex hit (auth_passwords d) \<and> \<not> argon2id_format (uph_Hash arg)
         then Inl (check_violation ''auth_passwords_hash_format'')
         else Inr ((), d\<lparr>auth_passwords :=
           update_where hit (\<lambda>a. a\<lparr>aw_Hash := uph_Hash arg, aw_UpdatedAt := now\<rparr>)
             (auth_passwords d)\<rparr>))"

section \<open>Sessions\<close>

record CreateAuthSessionParams =
  cas_ID :: uuid
  cas_UserID :: uuid
  cas_AuthProviderID :: "uuid option"
  cas_TokenHash :: "byte list"
  cas_ExpiresAt :: time
  cas_UserAgent :: string
  cas_Ip :: "string option"

definition CreateAuthSession :: "CreateAuthSessionParams \<Rightarrow> AuthSession query" where
  "CreateAuthSession arg now d =
     (case checks
        [(cas_ExpiresAt arg > now, check_violation ''auth_sessions_expires_after_issue''),
         (cas_ID arg \<notin> as_ID ` set (auth_sessions d), unique_violation ''auth_sessions_pkey''),
         (cas_TokenHash arg \<notin> as_TokenHash ` set (auth_sessions d),
            unique_violation ''auth_sessions_token_hash_unique''),
         (cas_UserID arg \<in> u_ID ` set (users d),
            foreign_key_violation ''auth_sessions_user_id_fkey''),
         (case cas_AuthProviderID arg of
            None \<Rightarrow> True | Some p \<Rightarrow> p \<in> ap_ID ` set (auth_providers d),
            foreign_key_violation ''auth_sessions_auth_provider_id_fkey'')] of
        Some e \<Rightarrow> Inl e
      | None \<Rightarrow>
          (let r = \<lparr>as_ID = cas_ID arg, as_UserID = cas_UserID arg,
                    as_AuthProviderID = cas_AuthProviderID arg, as_TokenHash = cas_TokenHash arg,
                    as_IssuedAt = now, as_LastSeenAt = now, as_ExpiresAt = cas_ExpiresAt arg,
                    as_RevokedAt = None, as_UserAgent = cas_UserAgent arg, as_Ip = cas_Ip arg\<rparr>
           in Inr (r, d\<lparr>auth_sessions := auth_sessions d @ [r]\<rparr>)))"

text \<open>A session that authenticates at an instant: the predicate of both live queries.\<close>

definition live :: "time \<Rightarrow> AuthSession \<Rightarrow> bool" where
  "live t s \<longleftrightarrow> as_RevokedAt s = None \<and> as_ExpiresAt s > t"

text \<open>The columns of a session with the kind of the provider that opened it, if it is still there.\<close>

record LiveSessionRow = AuthSession +
  ls_ProviderKind :: "AuthProviderKind option"

definition with_provider_kind :: "db \<Rightarrow> AuthSession \<Rightarrow> LiveSessionRow" where
  "with_provider_kind d s =
     AuthSession.extend s
       (LiveSessionRow.fields
          (map_option ap_Kind (find (\<lambda>p. Some (ap_ID p) = as_AuthProviderID s) (auth_providers d))))"

record LiveSessionByTokenHashParams =
  lst_TokenHash :: "byte list"
  lst_Now :: time

definition LiveSessionByTokenHash :: "LiveSessionByTokenHashParams \<Rightarrow> LiveSessionRow query" where
  "LiveSessionByTokenHash arg now d =
     (case find (\<lambda>s. as_TokenHash s = lst_TokenHash arg \<and> live (lst_Now arg) s) (auth_sessions d) of
        None \<Rightarrow> Inl ErrNoRows | Some s \<Rightarrow> Inr (with_provider_kind d s, d))"

record ListLiveSessionsParams =
  lls_UserID :: uuid
  lls_Now :: time

definition ListLiveSessions :: "ListLiveSessionsParams \<Rightarrow> LiveSessionRow list query" where
  "ListLiveSessions arg now d =
     Inr (map (with_provider_kind d)
            (SliceStable (\<lambda>a b. as_LastSeenAt a > as_LastSeenAt b)
               (filter (\<lambda>s. as_UserID s = lls_UserID arg \<and> live (lls_Now arg) s)
                 (auth_sessions d))), d)"

record TouchAuthSessionParams =
  tas_ID :: uuid
  tas_LastSeenAt :: time

definition TouchAuthSession :: "TouchAuthSessionParams \<Rightarrow> unit query" where
  "TouchAuthSession arg now d =
     Inr ((), d\<lparr>auth_sessions :=
       update_where (\<lambda>s. as_ID s = tas_ID arg) (\<lambda>s. s\<lparr>as_LastSeenAt := tas_LastSeenAt arg\<rparr>)
         (auth_sessions d)\<rparr>)"

text \<open>\<^verbatim>\<open>COALESCE(a, b)\<close> with a second argument that is not null.\<close>

definition coalesce :: "'a option \<Rightarrow> 'a \<Rightarrow> 'a option" where
  "coalesce a b = (case a of Some x \<Rightarrow> Some x | None \<Rightarrow> Some b)"

record RevokeSessionByIDParams =
  rsi_RevokedAt :: time
  rsi_SessionID :: uuid
  rsi_UserID :: uuid

definition RevokeSessionByID :: "RevokeSessionByIDParams \<Rightarrow> int query" where
  "RevokeSessionByID arg now d =
     (let hit = (\<lambda>s. as_ID s = rsi_SessionID arg \<and> as_UserID s = rsi_UserID arg)
      in Inr (int (length (filter hit (auth_sessions d))),
           d\<lparr>auth_sessions :=
             update_where hit
               (\<lambda>s. s\<lparr>as_RevokedAt := coalesce (as_RevokedAt s) (rsi_RevokedAt arg)\<rparr>)
               (auth_sessions d)\<rparr>))"

record RevokeSessionByTokenHashParams =
  rst_RevokedAt :: time
  rst_TokenHash :: "byte list"

definition RevokeSessionByTokenHash :: "RevokeSessionByTokenHashParams \<Rightarrow> int query" where
  "RevokeSessionByTokenHash arg now d =
     (let hit = (\<lambda>s. as_TokenHash s = rst_TokenHash arg \<and> as_RevokedAt s = None)
      in Inr (int (length (filter hit (auth_sessions d))),
           d\<lparr>auth_sessions :=
             update_where hit (\<lambda>s. s\<lparr>as_RevokedAt := Some (rst_RevokedAt arg)\<rparr>)
               (auth_sessions d)\<rparr>))"

definition SweepExpiredSessions :: "time \<Rightarrow> int query" where
  "SweepExpiredSessions cutoff now d =
     (let hit = (\<lambda>s. as_ExpiresAt s < cutoff
                  \<or> (case as_RevokedAt s of None \<Rightarrow> False | Some t \<Rightarrow> t < cutoff))
      in Inr (int (length (filter hit (auth_sessions d))),
           d\<lparr>auth_sessions := delete_where hit (auth_sessions d)\<rparr>))"

lemmas auth_statements [sql_simps] =
  CreateUser_def CreateUserProfile_def GetUserProfile_def UserProfileByEmail_def
  CreateAuthProvider_def ProviderByKindSubject_def MarkProviderUsed_def CountAuthProviders_def
  ListAuthProviders_def DeleteAuthProvider_def CreateAuthPassword_def GetPasswordCredential_def
  RecordFailedLogin_def ClearFailedLogins_def UpdatePasswordHash_def CreateAuthSession_def
  LiveSessionByTokenHash_def ListLiveSessions_def TouchAuthSession_def RevokeSessionByID_def
  RevokeSessionByTokenHash_def SweepExpiredSessions_def

lemma coalesce_simps [simp]:
  "coalesce (Some x) b = Some x" "coalesce None b = Some b"
  "coalesce (coalesce a b) c = coalesce a b" "coalesce a b \<noteq> None"
  by (simp_all add: coalesce_def split: option.split)

end
