(* ===== verification/Auth_Password.thy ===== *)
theory Auth_Password
  imports Store_Auth
begin

text \<open>
  \<^verbatim>\<open>internal/auth/password.go\<close>: the encoded form of an argon2id hash, hashing, verification and
  the decision to re-hash. \<^verbatim>\<open>argon2.IDKey\<close> is the field \<open>e_argon2\<close> of the environment; it answers
  \<open>None\<close> where the library panics. Its version number is 19 (0x13).
\<close>

record PasswordParams =
  Memory :: "32 word"
  Iterations :: "32 word"
  Parallelism :: "8 word"
  SaltLength :: "32 word"
  KeyLength :: "32 word"

definition DefaultPasswordParams :: PasswordParams where
  "DefaultPasswordParams = \<lparr>Memory = 19 * 1024, Iterations = 2, Parallelism = 1,
     SaltLength = 16, KeyLength = 32\<rparr>"

abbreviation argon2_Version :: nat where "argon2_Version \<equiv> 19"

text \<open>\<^verbatim>\<open>Sprintf("$argon2id$v=%d$m=%d,t=%d,p=%d$%s$%s", ...)\<close>.\<close>

definition encode_hash :: "PasswordParams \<Rightarrow> byte list \<Rightarrow> byte list \<Rightarrow> string" where
  "encode_hash p salt key =
     ''$argon2id$v='' @ Sprintf_d argon2_Version @
     ''$m='' @ Sprintf_d (unat (Memory p)) @ '',t='' @ Sprintf_d (unat (Iterations p)) @
     '',p='' @ Sprintf_d (unat (Parallelism p)) @
     ''$'' @ RawStd_EncodeToString salt @ ''$'' @ RawStd_EncodeToString key"

definition HashPassword :: "env \<Rightarrow> string \<Rightarrow> PasswordParams \<Rightarrow> string io" where
  "HashPassword E password p =
     call (rand_Read E (unat (SaltLength p))) (Wrap ''read salt'')
       (\<lambda>salt. case e_argon2 E (string_to_bytes password) salt (unat (Iterations p))
                     (unat (Memory p)) (unat (Parallelism p)) (unat (KeyLength p)) of
          None \<Rightarrow> throw (Panic ''argon2'')
        | Some key \<Rightarrow> return (encode_hash p salt key))"

text \<open>\<^verbatim>\<open>Sscanf(s, "v=%d", &version)\<close> and \<^verbatim>\<open>Sscanf(s, "m=%d,t=%d,p=%d", ...)\<close>.\<close>

definition scan_version :: "string \<Rightarrow> int option" where
  "scan_version s =
     (case scan_lit ''v='' s of None \<Rightarrow> None | Some s1 \<Rightarrow> map_option fst (scan_int s1))"

definition scan_params :: "string \<Rightarrow> (nat \<times> nat \<times> nat) option" where
  "scan_params s =
     (case scan_lit ''m='' s of None \<Rightarrow> None
      | Some s1 \<Rightarrow> (case scan_uint 32 s1 of None \<Rightarrow> None
      | Some (m, s2) \<Rightarrow> (case scan_lit '',t='' s2 of None \<Rightarrow> None
      | Some s3 \<Rightarrow> (case scan_uint 32 s3 of None \<Rightarrow> None
      | Some (t, s4) \<Rightarrow> (case scan_lit '',p='' s4 of None \<Rightarrow> None
      | Some s5 \<Rightarrow> (case scan_uint 8 s5 of None \<Rightarrow> None
      | Some (p, s6) \<Rightarrow> Some (m, t, p)))))))"

definition decodeHash :: "string \<Rightarrow> go_error + PasswordParams \<times> byte list \<times> byte list" where
  "decodeHash encoded =
     (let parts = Split encoded (CHR ''$'')
      in if length parts \<noteq> 6 \<or> parts ! 1 \<noteq> ''argon2id''
         then Inl (LibError ''password hash is not in argon2id encoded form'')
         else case scan_version (parts ! 2) of
           None \<Rightarrow> Inl (Wrap ''read hash version'' (LibError ''Sscanf''))
         | Some version \<Rightarrow>
             if version \<noteq> int argon2_Version then Inl (LibError ''unsupported argon2 version'')
             else case scan_params (parts ! 3) of
               None \<Rightarrow> Inl (Wrap ''read hash parameters'' (LibError ''Sscanf''))
             | Some (m, t, p) \<Rightarrow>
                 (case RawStd_Strict_DecodeString (parts ! 4) of
                    None \<Rightarrow> Inl (Wrap ''decode salt'' (LibError ''base64''))
                  | Some salt \<Rightarrow>
                      (case RawStd_Strict_DecodeString (parts ! 5) of
                         None \<Rightarrow> Inl (Wrap ''decode hash'' (LibError ''base64''))
                       | Some key \<Rightarrow>
                           Inr (\<lparr>Memory = word_of_nat m, Iterations = word_of_nat t,
                                 Parallelism = word_of_nat p,
                                 SaltLength = word_of_nat (length salt),
                                 KeyLength = word_of_nat (length key)\<rparr>, salt, key))))"

text \<open>
  \<^verbatim>\<open>subtle.ConstantTimeCompare\<close> answers 1 exactly when both slices have the same length and
  content. The result is \<open>None\<close> for nil; a panic of the library is passed on.
\<close>

definition VerifyPassword :: "env \<Rightarrow> string \<Rightarrow> string \<Rightarrow> go_error option" where
  "VerifyPassword E password encoded =
     (case decodeHash encoded of
        Inl e \<Rightarrow> Some e
      | Inr (p, salt, want) \<Rightarrow>
          (case e_argon2 E (string_to_bytes password) salt (unat (Iterations p)) (unat (Memory p))
                  (unat (Parallelism p)) (unat (word_of_nat (length want) :: 32 word)) of
             None \<Rightarrow> Some (Panic ''argon2'')
           | Some got \<Rightarrow> if got \<noteq> want then Some ErrPasswordMismatch else None))"

definition NeedsRehash :: "string \<Rightarrow> PasswordParams \<Rightarrow> bool" where
  "NeedsRehash encoded current =
     (case decodeHash encoded of
        Inl e \<Rightarrow> True
      | Inr (p, _, _) \<Rightarrow>
          Memory p < Memory current \<or> Iterations p < Iterations current
          \<or> Parallelism p < Parallelism current)"

section \<open>The encoded form\<close>

lemma b64_no_dollar: "CHR ''$'' \<notin> set (b64_encode std_alphabet bs)"
proof -
  have "set (b64_encode std_alphabet bs) \<subseteq> set std_alphabet"
    by (rule b64_encode_set) (simp add: std_alphabet_def)
  then show ?thesis by (auto simp: std_alphabet_def)
qed

lemma Sprintf_d_no_dollar [simp]: "CHR ''$'' \<notin> set (Sprintf_d n)"
proof
  assume "CHR ''$'' \<in> set (Sprintf_d n)"
  with Sprintf_d_digits [of n] have "is_digit (CHR ''$'')" by (auto simp: list_all_iff)
  then show False by (simp add: is_digit_def)
qed

definition params_part :: "PasswordParams \<Rightarrow> string" where
  "params_part p = ''m='' @ Sprintf_d (unat (Memory p)) @ '',t='' @ Sprintf_d (unat (Iterations p)) @
     '',p='' @ Sprintf_d (unat (Parallelism p))"

lemma params_part_no_dollar [simp]: "CHR ''$'' \<notin> set (params_part p)"
  by (simp add: params_part_def)

lemma Split_encode_hash:
  "Split (encode_hash p salt key) (CHR ''$'') =
     [[], ''argon2id'', ''v='' @ Sprintf_d argon2_Version, params_part p,
      RawStd_EncodeToString salt, RawStd_EncodeToString key]"
proof -
  have eq: "encode_hash p salt key = CHR ''$'' # (''argon2id'' @ CHR ''$'' #
      ((''v='' @ Sprintf_d argon2_Version) @ CHR ''$'' # (params_part p @ CHR ''$'' #
        (RawStd_EncodeToString salt @ CHR ''$'' # RawStd_EncodeToString key))))"
    by (simp add: encode_hash_def params_part_def)
  have v: "CHR ''$'' \<notin> set (''v='' @ Sprintf_d argon2_Version)"
    and a: "CHR ''$'' \<notin> set ''argon2id''" by simp_all
  show ?thesis
    unfolding eq Split.simps
    by (simp only: Split_append [OF a] Split_append [OF v] Split_append [OF params_part_no_dollar]
        Split_append [OF b64_no_dollar] Split_no_sep [OF b64_no_dollar] if_True simp_thms)
qed

lemma scan_lit_append [simp]: "scan_lit lit (lit @ s) = Some s"
  by (simp add: scan_lit_def)

lemma scan_version_ok: "scan_version (''v='' @ Sprintf_d argon2_Version) = Some (int argon2_Version)"
  using scan_int_Sprintf_d [of argon2_Version "[]"]
  unfolding scan_version_def scan_lit_append by simp

lemma comma_not_digit: "\<not> is_digit (CHR '','')"
  by (simp add: is_digit_def)

lemma scan_params_ok:
  "scan_params (params_part p) = Some (unat (Memory p), unat (Iterations p), unat (Parallelism p))"
proof -
  have m: "unat (Memory p) < 2 ^ 32" "unat (Iterations p) < 2 ^ 32" "unat (Parallelism p) < 2 ^ 8"
    using unsigned_less [where ?'a = nat, of "Memory p"] unsigned_less [where ?'a = nat, of "Iterations p"]
      unsigned_less [where ?'a = nat, of "Parallelism p"]
    by simp_all
  have "scan_uint 32 (Sprintf_d (unat (Memory p)) @ '',t='' @ s)
      = Some (unat (Memory p), '',t='' @ s)" for s
    by (rule scan_uint_Sprintf_d [OF m(1)]) (auto simp: comma_not_digit)
  moreover have "scan_uint 32 (Sprintf_d (unat (Iterations p)) @ '',p='' @ s)
      = Some (unat (Iterations p), '',p='' @ s)" for s
    by (rule scan_uint_Sprintf_d [OF m(2)]) (auto simp: comma_not_digit)
  moreover have "scan_uint 8 (Sprintf_d (unat (Parallelism p))) = Some (unat (Parallelism p), [])"
    using scan_uint_Sprintf_d [OF m(3), of "[]"] by simp
  ultimately show ?thesis
    unfolding scan_params_def params_part_def scan_lit_append by (simp add: scan_lit_def)
qed

lemma decodeHash_encode:
  "decodeHash (encode_hash p salt key) =
     Inr (p\<lparr>SaltLength := word_of_nat (length salt), KeyLength := word_of_nat (length key)\<rparr>, salt, key)"
proof -
  have nth: "[a, b, c, d, e, f] ! 1 = b" "[a, b, c, d, e, f] ! 2 = c" "[a, b, c, d, e, f] ! 3 = d"
    "[a, b, c, d, e, f] ! 4 = e" "[a, b, c, d, e, f] ! 5 = f" for a b c d e f :: string
    by simp_all
  show ?thesis
    unfolding decodeHash_def Split_encode_hash nth Let_def scan_version_ok scan_params_ok
    by (simp add: rawstd.dec_enc)
qed

interpretation pwhash: codec "\<lambda>(p, salt, key). encode_hash p salt key"
  "\<lambda>s. case decodeHash s of Inl e \<Rightarrow> None | Inr x \<Rightarrow> Some x"
  "\<lambda>(p, salt, key). SaltLength p = word_of_nat (length salt) \<and> KeyLength p = word_of_nat (length key)"
  by unfold_locales (auto simp: decodeHash_encode)

lemma HashPassword_Inr:
  assumes "HashPassword E password p w = (Inr h, w')"
  obtains salt key where "h = encode_hash p salt key"
    and "e_rand E (w_tick w) (unat (SaltLength p)) = Some salt"
    and "e_argon2 E (string_to_bytes password) salt (unat (Iterations p)) (unat (Memory p))
      (unat (Parallelism p)) (unat (KeyLength p)) = Some key"
    and "w' = tick w"
  using assms
  by (auto simp: HashPassword_def call_Inr_iff rand_Read_def throw_def return_def
      split: option.splits)

lemma argon2id_format_encode [simp]: "argon2id_format (encode_hash p salt key)"
  by (simp add: argon2id_format_def encode_hash_def)

lemma NeedsRehash_encode:
  "NeedsRehash (encode_hash p salt key) current \<longleftrightarrow>
     Memory p < Memory current \<or> Iterations p < Iterations current \<or> Parallelism p < Parallelism current"
  by (simp add: NeedsRehash_def decodeHash_encode)

lemma VerifyPassword_encode:
  assumes "unat (word_of_nat (length key) :: 32 word) = n"
  shows "VerifyPassword E password (encode_hash p salt key) =
    (case e_argon2 E (string_to_bytes password) salt (unat (Iterations p)) (unat (Memory p))
            (unat (Parallelism p)) n of
       None \<Rightarrow> Some (Panic ''argon2'')
     | Some got \<Rightarrow> if got \<noteq> key then Some ErrPasswordMismatch else None)"
  using assms by (simp add: VerifyPassword_def decodeHash_encode)

text \<open>What the documentation of argon2 promises: a key of the length asked for.\<close>

definition argon2_lengths :: "env \<Rightarrow> bool" where
  "argon2_lengths E \<longleftrightarrow>
     (\<forall>pw salt t m p n key. e_argon2 E pw salt t m p n = Some key \<longrightarrow> length key = n)"

section \<open>Properties\<close>

text \<open>
  C31. What \<^verbatim>\<open>HashPassword\<close> returns is accepted by the database's format check, needs no re-hash
  at the parameters it was made with, and verifies: \<^verbatim>\<open>VerifyPassword\<close> accepts a password exactly
  when argon2 derives from it the same key as from the password that was hashed, so in particular
  the password itself, and otherwise reports a mismatch (or passes on a panic of the library).
\<close>

theorem HashPassword_roundtrip:
  assumes "HashPassword E password p w = (Inr h, w')" and "argon2_lengths E"
  shows "argon2id_format h \<and> \<not> NeedsRehash h p \<and> VerifyPassword E password h = None
    \<and> (\<exists>salt. e_rand E (w_tick w) (unat (SaltLength p)) = Some salt
        \<and> (\<forall>other. VerifyPassword E other h =
             (case e_argon2 E (string_to_bytes other) salt (unat (Iterations p)) (unat (Memory p))
                     (unat (Parallelism p)) (unat (KeyLength p)) of
                None \<Rightarrow> Some (Panic ''argon2'')
              | Some key \<Rightarrow>
                  if Some key = e_argon2 E (string_to_bytes password) salt (unat (Iterations p))
                       (unat (Memory p)) (unat (Parallelism p)) (unat (KeyLength p))
                  then None else Some ErrPasswordMismatch)))"
proof -
  from assms(1) obtain salt key where h: "h = encode_hash p salt key"
    and salt: "e_rand E (w_tick w) (unat (SaltLength p)) = Some salt"
    and key: "e_argon2 E (string_to_bytes password) salt (unat (Iterations p)) (unat (Memory p))
      (unat (Parallelism p)) (unat (KeyLength p)) = Some key"
    by (rule HashPassword_Inr)
  have "length key = unat (KeyLength p)" using assms(2) key unfolding argon2_lengths_def by blast
  then have n: "unat (word_of_nat (length key) :: 32 word) = unat (KeyLength p)" by simp
  show ?thesis
    using salt key unfolding h VerifyPassword_encode [OF n] NeedsRehash_encode
    by (auto split: option.splits)
qed

text \<open>A stand-in for argon2, for evaluation: a key of zeros that starts with the password.\<close>

definition toy_argon2 :: "byte list \<Rightarrow> byte list \<Rightarrow> nat \<Rightarrow> nat \<Rightarrow> nat \<Rightarrow> nat \<Rightarrow> byte list option" where
  "toy_argon2 pw salt t m p n =
     (if t < 1 \<or> p < 1 then None else Some (take n (pw @ replicate n 0)))"

definition calm_env :: env where
  "calm_env = \<lparr>e_fault = (\<lambda>_. None), e_now = (\<lambda>_. 0), e_uuid = (\<lambda>n. Some (word_of_nat n)),
     e_rand = (\<lambda>n k. Some (replicate k (word_of_nat n))), e_unicode = plain_unicode,
     e_citext = map lower_char, e_collate = (\<lambda>s. s), e_argon2 = toy_argon2\<rparr>"

lemma calm_env_simps [simp]:
  "e_fault calm_env n = None" "e_now calm_env n = 0" "e_uuid calm_env n = Some (word_of_nat n)"
  "e_rand calm_env n k = Some (replicate k (word_of_nat n))" "e_unicode calm_env = plain_unicode"
  "e_citext calm_env = map lower_char" "e_argon2 calm_env = toy_argon2"
  by (simp_all add: calm_env_def)

lemma argon2_lengths_calm [simp]: "argon2_lengths calm_env"
  by (auto simp: argon2_lengths_def toy_argon2_def split: if_splits)

definition fresh_world :: world where
  "fresh_world = \<lparr>w_db = empty_db, w_tick = 0, w_tx = None, w_google = False\<rparr>"

theorem HashPassword_roundtrip_witness:
  "VerifyPassword calm_env ''secret''
     (encode_hash DefaultPasswordParams (replicate 16 0)
       (take 32 (string_to_bytes ''secret'' @ replicate 32 0))) = None"
proof -
  have "HashPassword calm_env ''secret'' DefaultPasswordParams fresh_world =
    (Inr (encode_hash DefaultPasswordParams (replicate 16 0)
       (take 32 (string_to_bytes ''secret'' @ replicate 32 0))), tick fresh_world)"
    by (simp add: HashPassword_def call_def rand_Read_def DefaultPasswordParams_def toy_argon2_def
        return_def fresh_world_def)
  from HashPassword_roundtrip [OF this argon2_lengths_calm] show ?thesis by blast
qed

end
