(* ===== verification/Store_Integrity.thy ===== *)
theory Store_Integrity
  imports Store_Auth
begin

text \<open>
  The integrity of the authentication tables: what the schema's keys, checks and references
  promise of them, as one predicate on the tables, and the proof that every statement of
  \<^verbatim>\<open>auth.sql.go\<close> keeps it. Then the interface of a session store, stated as a locale over what a
  token resolves to, and its interpretation on the statements.
\<close>

section \<open>Integrity\<close>

definition users_ok :: "db \<Rightarrow> bool" where
  "users_ok d \<longleftrightarrow> distinct (map u_ID (users d))"

definition profiles_ok :: "(string \<Rightarrow> string) \<Rightarrow> db \<Rightarrow> bool" where
  "profiles_ok cf d \<longleftrightarrow>
     distinct (map up_UserID (user_profiles d))
     \<and> distinct (map (\<lambda>p. cf (up_Email p)) (user_profiles d))
     \<and> (\<forall>p \<in> set (user_profiles d).
          up_UserID p \<in> u_ID ` set (users d) \<and> not_blank (up_DisplayName p))"

definition providers_ok :: "db \<Rightarrow> bool" where
  "providers_ok d \<longleftrightarrow>
     distinct (map ap_ID (auth_providers d))
     \<and> distinct (map (\<lambda>p. (ap_Kind p, ap_Subject p)) (auth_providers d))
     \<and> distinct (map ap_UserID (filter ap_IsPrimary (auth_providers d)))
     \<and> (\<forall>p \<in> set (auth_providers d).
          ap_UserID p \<in> u_ID ` set (users d) \<and> enum_ok AuthProviderKind_enum (ap_Kind p)
          \<and> not_blank (ap_Subject p))"

definition passwords_ok :: "db \<Rightarrow> bool" where
  "passwords_ok d \<longleftrightarrow>
     distinct (map aw_AuthProviderID (auth_passwords d))
     \<and> (\<forall>a \<in> set (auth_passwords d).
          aw_Kind a = AuthProviderKindPassword \<and> argon2id_format (aw_Hash a)
          \<and> 0 \<le> aw_FailedAttempts a \<and> aw_FailedAttempts a \<le> 32767
          \<and> (aw_AuthProviderID a, AuthProviderKindPassword)
              \<in> (\<lambda>p. (ap_ID p, ap_Kind p)) ` set (auth_providers d))"

definition sessions_ok :: "db \<Rightarrow> bool" where
  "sessions_ok d \<longleftrightarrow>
     distinct (map as_ID (auth_sessions d))
     \<and> distinct (map as_TokenHash (auth_sessions d))
     \<and> (\<forall>s \<in> set (auth_sessions d).
          as_UserID s \<in> u_ID ` set (users d) \<and> as_IssuedAt s < as_ExpiresAt s
          \<and> pred_option (\<lambda>p. p \<in> ap_ID ` set (auth_providers d)) (as_AuthProviderID s))"

definition auth_ok :: "(string \<Rightarrow> string) \<Rightarrow> db \<Rightarrow> bool" where
  "auth_ok cf d \<longleftrightarrow>
     users_ok d \<and> profiles_ok cf d \<and> providers_ok d \<and> passwords_ok d \<and> sessions_ok d"

lemmas integrity_defs =
  auth_ok_def users_ok_def profiles_ok_def providers_ok_def passwords_ok_def sessions_ok_def

lemma auth_ok_empty [simp]: "auth_ok cf empty_db"
  by (simp add: integrity_defs empty_db_def)

lemma key_unique:
  "distinct (map key rows) \<Longrightarrow> r \<in> set rows \<Longrightarrow> r' \<in> set rows \<Longrightarrow> key r = key r' \<Longrightarrow> r = r'"
  by (metis distinct_map inj_onD)

lemma filter_delete_where: "filter q (delete_where p rows) = delete_where p (filter q rows)"
  by (induction rows) auto

subsection \<open>Statements that write\<close>

lemma keeps_CreateUser [keeps_intro]: "q_keeps (auth_ok cf) (CreateUser i)"
  by (rule q_keepsI) (auto simp: CreateUser_def integrity_defs Let_def split: if_splits)

lemma keeps_CreateUserProfile [keeps_intro]: "q_keeps (auth_ok cf) (CreateUserProfile cf arg)"
  by (rule q_keepsI)
    (auto simp: CreateUserProfile_def integrity_defs Let_def image_iff split: if_splits)

lemma keeps_CreateAuthProvider [keeps_intro]: "q_keeps (auth_ok cf) (CreateAuthProvider arg)"
proof (rule q_keepsI)
  fix t d x d' assume ok: "auth_ok cf d" and q: "CreateAuthProvider arg t d = Inr (x, d')"
  from q have d': "d' = d\<lparr>auth_providers := auth_providers d @ [x]\<rparr>"
    and x: "ap_ID x = cap_ID arg" "ap_UserID x = cap_UserID arg" "ap_Kind x = cap_Kind arg"
      "ap_Subject x = cap_Subject arg" "ap_IsPrimary x = cap_IsPrimary arg"
    and c: "enum_ok AuthProviderKind_enum (cap_Kind arg)" "not_blank (cap_Subject arg)"
      "cap_ID arg \<notin> ap_ID ` set (auth_providers d)"
      "(cap_Kind arg, cap_Subject arg) \<notin> (\<lambda>p. (ap_Kind p, ap_Subject p)) ` set (auth_providers d)"
      "cap_UserID arg \<in> u_ID ` set (users d)"
    and prim: "cap_IsPrimary arg \<Longrightarrow> p \<in> set (auth_providers d) \<Longrightarrow> ap_IsPrimary p \<Longrightarrow>
      ap_UserID p \<noteq> cap_UserID arg" for p
    by (auto simp: CreateAuthProvider_def Let_def list_ex_iff split: if_splits)
  have "distinct (map ap_UserID (filter ap_IsPrimary (auth_providers d')))"
    using ok prim by (auto simp: d' x auth_ok_def providers_ok_def)
  moreover have "distinct (map ap_ID (auth_providers d'))"
      "distinct (map (\<lambda>p. (ap_Kind p, ap_Subject p)) (auth_providers d'))"
    using ok c(3,4) by (simp_all add: d' x auth_ok_def providers_ok_def)
  ultimately have "providers_ok d'" using ok c by (auto simp: d' x auth_ok_def providers_ok_def)
  moreover have "passwords_ok d'" "sessions_ok d'" "users_ok d'" "profiles_ok cf d'"
    using ok by (auto simp: d' integrity_defs elim!: option.pred_mono_strong)
  ultimately show "auth_ok cf d'" by (simp add: auth_ok_def)
qed

lemma update_where_all:
  "(\<And>r. r \<in> set rows \<Longrightarrow> \<not> p r \<Longrightarrow> P r) \<Longrightarrow> (\<And>r. r \<in> set rows \<Longrightarrow> p r \<Longrightarrow> P (f r)) \<Longrightarrow>
     r \<in> set (update_where p f rows) \<Longrightarrow> P r"
  by (auto simp: update_where_def)

lemma image_update_where:
  "(\<And>r. p r \<Longrightarrow> g (f r) = g r) \<Longrightarrow> g ` set (update_where p f rows) = g ` set rows"
  by (induction rows) auto

lemma filter_update_where:
  "(\<And>r. p r \<Longrightarrow> q (f r) = q r) \<Longrightarrow>
     filter q (update_where p f rows) = update_where p f (filter q rows)"
  by (induction rows) auto

lemma keeps_MarkProviderUsed [keeps_intro]: "q_keeps (auth_ok cf) (MarkProviderUsed arg)"
  by (rule q_keepsI)
    (auto simp: MarkProviderUsed_def integrity_defs image_update_where filter_update_where
      elim!: update_where_all [rotated 2])

lemma keeps_CreateAuthPassword [keeps_intro]: "q_keeps (auth_ok cf) (CreateAuthPassword arg)"
  by (rule q_keepsI) (auto simp: CreateAuthPassword_def integrity_defs split: if_splits)

text \<open>An update of password rows that keeps the key and leaves each row well-formed.\<close>

lemma auth_ok_update_passwords:
  assumes "auth_ok cf d"
    and "\<And>a. p a \<Longrightarrow> aw_AuthProviderID (f a) = aw_AuthProviderID a \<and> aw_Kind (f a) = aw_Kind a"
    and "\<And>a. a \<in> set (auth_passwords d) \<Longrightarrow> p a \<Longrightarrow> argon2id_format (aw_Hash a) \<Longrightarrow>
      0 \<le> aw_FailedAttempts a \<Longrightarrow> aw_FailedAttempts a \<le> 32767 \<Longrightarrow>
      argon2id_format (aw_Hash (f a)) \<and> 0 \<le> aw_FailedAttempts (f a) \<and> aw_FailedAttempts (f a) \<le> 32767"
  shows "auth_ok cf (d\<lparr>auth_passwords := update_where p f (auth_passwords d)\<rparr>)"
proof -
  let ?d = "d\<lparr>auth_passwords := update_where p f (auth_passwords d)\<rparr>"
  have old: "passwords_ok d" using assms(1) by (simp add: auth_ok_def)
  have "map aw_AuthProviderID (auth_passwords ?d) = map aw_AuthProviderID (auth_passwords d)"
    using assms(2) by simp
  moreover have "aw_Kind b = AuthProviderKindPassword \<and> argon2id_format (aw_Hash b)
      \<and> 0 \<le> aw_FailedAttempts b \<and> aw_FailedAttempts b \<le> 32767
      \<and> (aw_AuthProviderID b, AuthProviderKindPassword)
          \<in> (\<lambda>p. (ap_ID p, ap_Kind p)) ` set (auth_providers d)"
    if b: "b \<in> set (auth_passwords ?d)" for b
  proof -
    obtain a where a: "a \<in> set (auth_passwords d)" "b = (if p a then f a else a)"
      using b by (auto simp: update_where_def)
    with old have row: "aw_Kind a = AuthProviderKindPassword" "argon2id_format (aw_Hash a)"
      "0 \<le> aw_FailedAttempts a" "aw_FailedAttempts a \<le> 32767"
      "(aw_AuthProviderID a, AuthProviderKindPassword)
          \<in> (\<lambda>p. (ap_ID p, ap_Kind p)) ` set (auth_providers d)"
      by (simp_all add: passwords_ok_def)
    with a assms(2) [of a] assms(3) [of a] show ?thesis by (cases "p a") simp_all
  qed
  ultimately have "passwords_ok ?d" using old unfolding passwords_ok_def by simp
  with assms(1) show ?thesis by (simp add: integrity_defs)
qed

lemma keeps_RecordFailedLogin [keeps_intro]: "q_keeps (auth_ok cf) (RecordFailedLogin arg)"
proof (rule q_keepsI)
  fix t d x d' assume ok: "auth_ok cf d" and q: "RecordFailedLogin arg t d = Inr (x, d')"
  let ?hit = "\<lambda>a. aw_AuthProviderID a = rfl_ProviderID arg"
  from q obtain a where a: "find ?hit (auth_passwords d) = Some a" "aw_FailedAttempts a + 1 \<le> 32767"
    and d': "d' = d\<lparr>auth_passwords := update_where ?hit (count_failure arg t) (auth_passwords d)\<rparr>"
    by (auto simp: RecordFailedLogin_def Let_def split: option.splits if_splits)
  have "b = a" if "b \<in> set (auth_passwords d)" "?hit b" for b
    using find_Some_in [OF a(1)] ok that
    by (auto simp: auth_ok_def passwords_ok_def intro: key_unique)
  with a(2) show "auth_ok cf d'"
    unfolding d' by (intro auth_ok_update_passwords ok) (auto simp: count_failure_def)
qed

lemma keeps_ClearFailedLogins [keeps_intro]: "q_keeps (auth_ok cf) (ClearFailedLogins i)"
  by (rule q_keepsI) (auto simp: ClearFailedLogins_def intro!: auth_ok_update_passwords)

lemma keeps_UpdatePasswordHash [keeps_intro]: "q_keeps (auth_ok cf) (UpdatePasswordHash arg)"
proof (rule q_keepsI)
  fix t d x d' assume ok: "auth_ok cf d" and q: "UpdatePasswordHash arg t d = Inr (x, d')"
  then show "auth_ok cf d'"
    by (auto simp: UpdatePasswordHash_def Let_def list_ex_iff split: if_splits
        intro!: auth_ok_update_passwords)
qed

lemma keeps_CreateAuthSession [keeps_intro]: "q_keeps (auth_ok cf) (CreateAuthSession arg)"
  by (rule q_keepsI)
    (auto simp: CreateAuthSession_def integrity_defs Let_def split: if_splits option.splits)

text \<open>An update of session rows that keeps the keys, references and times.\<close>

lemma auth_ok_update_sessions:
  assumes "auth_ok cf d"
    and "\<And>s. p s \<Longrightarrow> as_ID (f s) = as_ID s \<and> as_TokenHash (f s) = as_TokenHash s
      \<and> as_UserID (f s) = as_UserID s \<and> as_AuthProviderID (f s) = as_AuthProviderID s
      \<and> as_IssuedAt (f s) = as_IssuedAt s \<and> as_ExpiresAt (f s) = as_ExpiresAt s"
  shows "auth_ok cf (d\<lparr>auth_sessions := update_where p f (auth_sessions d)\<rparr>)"
proof -
  have "sessions_ok (d\<lparr>auth_sessions := update_where p f (auth_sessions d)\<rparr>)"
    using assms by (auto simp: integrity_defs elim!: update_where_all [rotated 2])
  with assms(1) show ?thesis by (simp add: integrity_defs)
qed

lemma keeps_session_updates [keeps_intro]:
  "q_keeps (auth_ok cf) (TouchAuthSession tas)"
  "q_keeps (auth_ok cf) (RevokeSessionByID rsi)"
  "q_keeps (auth_ok cf) (RevokeSessionByTokenHash rst)"
  by (rule q_keepsI, auto simp: TouchAuthSession_def RevokeSessionByID_def
      RevokeSessionByTokenHash_def Let_def intro!: auth_ok_update_sessions)+

lemma keeps_SweepExpiredSessions [keeps_intro]: "q_keeps (auth_ok cf) (SweepExpiredSessions c)"
  by (rule q_keepsI) (auto simp: SweepExpiredSessions_def integrity_defs Let_def)

lemma keeps_DeleteAuthProvider [keeps_intro]: "q_keeps (auth_ok cf) (DeleteAuthProvider arg)"
proof (rule q_keepsI)
  fix t d x d' assume ok: "auth_ok cf d" and q: "DeleteAuthProvider arg t d = Inr (x, d')"
  let ?doomed = "\<lambda>p. ap_ID p = dap_ID arg \<and> ap_UserID p = dap_UserID arg"
  show "auth_ok cf d'"
  proof (cases "find ?doomed (auth_providers d)")
    case None
    with q ok show ?thesis by (simp add: DeleteAuthProvider_def)
  next
    case (Some old)
    then have old: "old \<in> set (auth_providers d)" "ap_ID old = dap_ID arg" "ap_UserID old = dap_UserID arg"
      using find_Some_in [OF Some] by auto
    from q Some old have d': "d' = d\<lparr>auth_providers := delete_where ?doomed (auth_providers d),
        auth_passwords := delete_where (\<lambda>a. aw_AuthProviderID a = ap_ID old) (auth_passwords d),
        auth_sessions := update_where (\<lambda>s. as_AuthProviderID s = Some (ap_ID old))
          (\<lambda>s. s\<lparr>as_AuthProviderID := None\<rparr>) (auth_sessions d)\<rparr>"
      by (simp add: DeleteAuthProvider_def Let_def split: option.splits)
    have "distinct (map ap_UserID (filter ap_IsPrimary (auth_providers d')))"
      using ok by (simp add: d' auth_ok_def providers_ok_def filter_delete_where)
    then have prov: "providers_ok d'"
      using ok by (auto simp: d' auth_ok_def providers_ok_def)
    have pass: "passwords_ok d'"
      using ok old by (fastforce simp: d' integrity_defs image_iff)
    have refs: "pred_option (\<lambda>p. p \<in> ap_ID ` set (auth_providers d')) (as_AuthProviderID s)"
      if "s \<in> set (auth_sessions d)" "as_AuthProviderID s \<noteq> Some (ap_ID old)" for s
      using ok that old by (cases "as_AuthProviderID s")
        (fastforce simp: d' auth_ok_def sessions_ok_def image_iff)+
    have sess: "sessions_ok d'"
      unfolding sessions_ok_def
    proof (intro conjI ballI)
      show "distinct (map as_ID (auth_sessions d'))" "distinct (map as_TokenHash (auth_sessions d'))"
        using ok by (simp_all add: d' auth_ok_def sessions_ok_def)
    next
      fix s assume "s \<in> set (auth_sessions d')"
      then obtain s0 where "s0 \<in> set (auth_sessions d)"
        "s = (if as_AuthProviderID s0 = Some (ap_ID old) then s0\<lparr>as_AuthProviderID := None\<rparr> else s0)"
        by (auto simp: d' update_where_def)
      then show "as_UserID s \<in> u_ID ` set (users d')" "as_IssuedAt s < as_ExpiresAt s"
        "pred_option (\<lambda>p. p \<in> ap_ID ` set (auth_providers d')) (as_AuthProviderID s)"
        using ok refs [of s0] by (auto simp: d' auth_ok_def sessions_ok_def)
    qed
    have "users_ok d'" "profiles_ok cf d'" using ok by (simp_all add: d' integrity_defs)
    with prov pass sess show ?thesis by (simp add: auth_ok_def)
  qed
qed

subsection \<open>Statements that only read\<close>

definition q_reads :: "'a query \<Rightarrow> bool" where
  "q_reads q \<longleftrightarrow> (\<forall>t d x d'. q t d = Inr (x, d') \<longrightarrow> d' = d)"

lemma q_reads_keeps: "q_reads q \<Longrightarrow> q_keeps P q"
  by (auto simp: q_reads_def q_keeps_def)

lemma q_reads_auth:
  "q_reads (GetUserProfile u)" "q_reads (UserProfileByEmail cf e)" "q_reads (ProviderByKindSubject pks)"
  "q_reads (CountAuthProviders u)" "q_reads (ListAuthProviders u)" "q_reads (GetPasswordCredential e)"
  "q_reads (LiveSessionByTokenHash lst)" "q_reads (ListLiveSessions lls)"
  by (auto simp: q_reads_def sql_simps split: option.splits if_splits)

lemmas q_keeps_auth_reads [keeps_intro] = q_reads_auth [THEN q_reads_keeps]

section \<open>Every account has a way in\<close>

definition has_way_in :: "db \<Rightarrow> bool" where
  "has_way_in d \<longleftrightarrow> u_ID ` set (users d) \<subseteq> ap_UserID ` set (auth_providers d)"

lemma has_way_in_frames [simp]:
  "has_way_in (d\<lparr>user_profiles := a\<rparr>) = has_way_in d"
  "has_way_in (d\<lparr>auth_passwords := b\<rparr>) = has_way_in d"
  "has_way_in (d\<lparr>auth_sessions := c\<rparr>) = has_way_in d"
  by (simp_all add: has_way_in_def)

lemma has_way_in_statements [keeps_intro]:
  "q_keeps has_way_in (CreateUserProfile cf cup)" "q_keeps has_way_in (CreateAuthPassword caw)"
  "q_keeps has_way_in (RecordFailedLogin rfl)" "q_keeps has_way_in (ClearFailedLogins i)"
  "q_keeps has_way_in (UpdatePasswordHash uph)" "q_keeps has_way_in (CreateAuthSession cas)"
  "q_keeps has_way_in (TouchAuthSession tas)" "q_keeps has_way_in (RevokeSessionByID rsi)"
  "q_keeps has_way_in (RevokeSessionByTokenHash rst)" "q_keeps has_way_in (SweepExpiredSessions c)"
  by (rule q_keepsI, auto simp: sql_simps Let_def split: option.splits if_splits)+

lemma has_way_in_CreateAuthProvider [keeps_intro]: "q_keeps has_way_in (CreateAuthProvider cap)"
  by (rule q_keepsI)
    (auto simp: CreateAuthProvider_def has_way_in_def Let_def split: if_splits)

lemma has_way_in_MarkProviderUsed [keeps_intro]: "q_keeps has_way_in (MarkProviderUsed mpu)"
  by (rule q_keepsI, clarsimp simp: MarkProviderUsed_def)
    (simp add: has_way_in_def image_update_where)

text \<open>The trigger is what keeps the last sign-in method of a user in place.\<close>

lemma has_way_in_DeleteAuthProvider [keeps_intro]: "q_keeps has_way_in (DeleteAuthProvider dap)"
proof (rule q_keepsI, unfold has_way_in_def, rule subsetI)
  fix t d x d' u
  assume P: "u_ID ` set (users d) \<subseteq> ap_UserID ` set (auth_providers d)"
    and q: "DeleteAuthProvider dap t d = Inr (x, d')" and u: "u \<in> u_ID ` set (users d')"
  let ?doomed = "\<lambda>p. ap_ID p = dap_ID dap \<and> ap_UserID p = dap_UserID dap"
  from q have us: "users d' = users d"
    by (auto simp: DeleteAuthProvider_def Let_def split: option.splits)
  with u P obtain p where p: "p \<in> set (auth_providers d)" "ap_UserID p = u" by auto
  show "u \<in> ap_UserID ` set (auth_providers d')"
  proof (cases "find ?doomed (auth_providers d)")
    case None
    with q p show ?thesis by (auto simp: DeleteAuthProvider_def)
  next
    case (Some old)
    then have old: "ap_ID old = dap_ID dap" "ap_UserID old = dap_UserID dap"
      using find_Some_in [OF Some] by auto
    from q Some have d': "set (auth_providers d') = {p \<in> set (auth_providers d). \<not> ?doomed p}"
      and keep: "auth_providers_keep_one d old = None"
      by (auto simp: DeleteAuthProvider_def Let_def split: option.splits)
    show ?thesis
    proof (cases "u = ap_UserID old")
      case True
      with keep u us obtain p' where "p' \<in> set (auth_providers d)" "ap_UserID p' = u" "ap_ID p' \<noteq> ap_ID old"
        by (auto simp: auth_providers_keep_one_def list_ex_iff split: if_splits)
      with old show ?thesis by (auto simp: d')
    next
      case False
      with p old show ?thesis by (auto simp: d')
    qed
  qed
qed

section \<open>The interface of a session store\<close>

text \<open>
  What the code that authenticates requests relies on. The state is opaque; \<open>lookup\<close> tells which
  session a token's hash resolves to at an instant. A session that was opened resolves until it
  expires; a revoked one never resolves again; a sweep up to a cutoff changes no answer from the
  cutoff on; every other step leaves the answers as they are.
\<close>

locale session_store =
  fixes inv :: "'s \<Rightarrow> bool"
    and lookup :: "'s \<Rightarrow> time \<Rightarrow> 'h \<Rightarrow> 'i option"
    and opened :: "'s \<Rightarrow> 'h \<Rightarrow> 'i \<Rightarrow> time \<Rightarrow> 's \<Rightarrow> bool"
    and revoked :: "'s \<Rightarrow> 'h \<Rightarrow> 's \<Rightarrow> bool"
    and revoked_id :: "'s \<Rightarrow> 'i \<Rightarrow> 's \<Rightarrow> bool"
    and swept :: "'s \<Rightarrow> time \<Rightarrow> 's \<Rightarrow> bool"
    and unrelated :: "'s \<Rightarrow> 's \<Rightarrow> bool"
  assumes inv_kept:
      "inv s \<Longrightarrow> opened s h i e s' \<Longrightarrow> inv s'" "inv s \<Longrightarrow> revoked s h s' \<Longrightarrow> inv s'"
      "inv s \<Longrightarrow> revoked_id s i s' \<Longrightarrow> inv s'" "inv s \<Longrightarrow> swept s c s' \<Longrightarrow> inv s'"
      "inv s \<Longrightarrow> unrelated s s' \<Longrightarrow> inv s'"
    and lookup_opened: "inv s \<Longrightarrow> opened s h i e s' \<Longrightarrow>
      lookup s' t k = (if k = h then (if t < e then Some i else None) else lookup s t k)"
    and lookup_revoked: "inv s \<Longrightarrow> revoked s h s' \<Longrightarrow>
      lookup s' t k = (if k = h then None else lookup s t k)"
    and lookup_revoked_id: "inv s \<Longrightarrow> revoked_id s i s' \<Longrightarrow>
      lookup s' t k = (if lookup s t k = Some i then None else lookup s t k)"
    and lookup_swept: "inv s \<Longrightarrow> swept s c s' \<Longrightarrow>
      lookup s' t k = lookup s t k \<or> (t < c \<and> lookup s' t k = None)"
    and lookup_unrelated: "inv s \<Longrightarrow> unrelated s s' \<Longrightarrow> lookup s' t k = lookup s t k"
    and lookup_until: "inv s \<Longrightarrow> lookup s t' k = Some i \<Longrightarrow> t \<le> t' \<Longrightarrow> lookup s t k = Some i"
begin

text \<open>A run of the store that opens no session for the hash \<open>h\<close>.\<close>

inductive quiet :: "'h \<Rightarrow> 's \<Rightarrow> 's \<Rightarrow> bool" for h where
  quiet_refl: "quiet h s s"
| quiet_opened: "quiet h s s1 \<Longrightarrow> opened s1 k i e s2 \<Longrightarrow> k \<noteq> h \<Longrightarrow> quiet h s s2"
| quiet_revoked: "quiet h s s1 \<Longrightarrow> revoked s1 k s2 \<Longrightarrow> quiet h s s2"
| quiet_revoked_id: "quiet h s s1 \<Longrightarrow> revoked_id s1 i s2 \<Longrightarrow> quiet h s s2"
| quiet_swept: "quiet h s s1 \<Longrightarrow> swept s1 c s2 \<Longrightarrow> quiet h s s2"
| quiet_unrelated: "quiet h s s1 \<Longrightarrow> unrelated s1 s2 \<Longrightarrow> quiet h s s2"

lemma quiet_inv: "quiet h s s' \<Longrightarrow> inv s \<Longrightarrow> inv s'"
  by (induction rule: quiet.induct) (auto intro: inv_kept)

text \<open>A dead hash stays dead.\<close>

lemma dead_stays_dead:
  "quiet h s s' \<Longrightarrow> inv s \<Longrightarrow> lookup s t h = None \<Longrightarrow> lookup s' t h = None"
proof (induction rule: quiet.induct)
  case (quiet_opened s s1 k i e s2)
  then show ?case using quiet_inv lookup_opened [of s1 k i e s2 t h] by auto
next
  case (quiet_revoked s s1 k s2)
  then show ?case using quiet_inv lookup_revoked [of s1 k s2 t h] by auto
next
  case (quiet_revoked_id s s1 i s2)
  then show ?case using quiet_inv lookup_revoked_id [of s1 i s2 t h] by auto
next
  case (quiet_swept s s1 c s2)
  then show ?case using quiet_inv lookup_swept [of s1 c s2 t h] by auto
next
  case (quiet_unrelated s s1 s2)
  then show ?case using quiet_inv lookup_unrelated [of s1 s2 t h] by auto
qed

lemma revoked_is_final:
  "inv s \<Longrightarrow> revoked s h s1 \<Longrightarrow> quiet h s1 s2 \<Longrightarrow> lookup s2 t h = None"
  using lookup_revoked [of s h s1 t h] inv_kept(2) dead_stays_dead by (metis (full_types))

lemma opened_until_expiry:
  "inv s \<Longrightarrow> opened s h i e s1 \<Longrightarrow> t < e \<Longrightarrow> lookup s1 t h = Some i"
  by (simp add: lookup_opened)

lemma swept_only_dead:
  "inv s \<Longrightarrow> swept s c s1 \<Longrightarrow> c \<le> t \<Longrightarrow> lookup s1 t h = lookup s t h"
  using lookup_swept [of s c s1 t h] by auto

end

text \<open>The interface on the statements. A token resolves to the identifier of its live session.\<close>

definition session_lookup :: "db \<Rightarrow> time \<Rightarrow> byte list \<Rightarrow> uuid option" where
  "session_lookup d t h =
     map_option as_ID (find (\<lambda>s. as_TokenHash s = h \<and> live t s) (auth_sessions d))"

definition session_opened :: "db \<Rightarrow> byte list \<Rightarrow> uuid \<Rightarrow> time \<Rightarrow> db \<Rightarrow> bool" where
  "session_opened d h i e d' \<longleftrightarrow>
     (\<exists>arg now r. cas_TokenHash arg = h \<and> cas_ID arg = i \<and> cas_ExpiresAt arg = e
        \<and> CreateAuthSession arg now d = Inr (r, d'))"

definition session_revoked :: "db \<Rightarrow> byte list \<Rightarrow> db \<Rightarrow> bool" where
  "session_revoked d h d' \<longleftrightarrow>
     (\<exists>arg now n. rst_TokenHash arg = h \<and> RevokeSessionByTokenHash arg now d = Inr (n, d'))"

definition session_revoked_id :: "db \<Rightarrow> uuid \<Rightarrow> db \<Rightarrow> bool" where
  "session_revoked_id d i d' \<longleftrightarrow>
     (\<exists>arg now n. rsi_SessionID arg = i \<and> RevokeSessionByID arg now d = Inr (n, d') \<and> n \<noteq> 0)"

definition session_swept :: "db \<Rightarrow> time \<Rightarrow> db \<Rightarrow> bool" where
  "session_swept d c d' \<longleftrightarrow> (\<exists>now n. SweepExpiredSessions c now d = Inr (n, d'))"

text \<open>The columns of a session that decide what its token resolves to.\<close>

definition session_key :: "AuthSession \<Rightarrow> uuid \<times> uuid \<times> byte list \<times> time \<times> time option" where
  "session_key s = (as_ID s, as_UserID s, as_TokenHash s, as_ExpiresAt s, as_RevokedAt s)"

definition sessions_unrelated :: "db \<Rightarrow> db \<Rightarrow> bool" where
  "sessions_unrelated d d' \<longleftrightarrow>
     map session_key (auth_sessions d') = map session_key (auth_sessions d)"

definition session_inv :: "db \<Rightarrow> bool" where
  "session_inv d \<longleftrightarrow>
     distinct (map as_ID (auth_sessions d)) \<and> distinct (map as_TokenHash (auth_sessions d))"

lemma session_lookup_Some:
  assumes "session_inv d"
  shows "session_lookup d t h = Some i \<longleftrightarrow>
    (\<exists>s \<in> set (auth_sessions d). as_TokenHash s = h \<and> live t s \<and> as_ID s = i)"
proof
  assume "session_lookup d t h = Some i"
  then show "\<exists>s \<in> set (auth_sessions d). as_TokenHash s = h \<and> live t s \<and> as_ID s = i"
    by (auto simp: session_lookup_def dest: find_Some_in)
next
  assume "\<exists>s \<in> set (auth_sessions d). as_TokenHash s = h \<and> live t s \<and> as_ID s = i"
  then obtain s where s: "s \<in> set (auth_sessions d)" "as_TokenHash s = h" "live t s" "as_ID s = i"
    by auto
  then have "find (\<lambda>s. as_TokenHash s = h \<and> live t s) (auth_sessions d) \<noteq> None"
    by (auto simp: find_None_iff)
  then obtain s' where s': "find (\<lambda>s. as_TokenHash s = h \<and> live t s) (auth_sessions d) = Some s'"
    by auto
  with s assms have "s' = s"
    by (auto simp: session_inv_def dest!: find_Some_in intro: key_unique)
  with s s' show "session_lookup d t h = Some i" by (simp add: session_lookup_def)
qed

lemma session_lookup_None:
  "session_lookup d t h = None \<longleftrightarrow> (\<forall>s \<in> set (auth_sessions d). as_TokenHash s = h \<longrightarrow> \<not> live t s)"
  by (auto simp: session_lookup_def find_None_iff)

lemma auth_ok_session_inv: "auth_ok cf d \<Longrightarrow> session_inv d"
  by (simp add: integrity_defs session_inv_def)

text \<open>
  What a token resolves to is decided by the keys of the rows; the lookups below compare option
  values by their \<open>Some\<close> cases.
\<close>

lemma lookup_eqI: "(\<And>i. a = Some i \<longleftrightarrow> b = Some i) \<Longrightarrow> a = b" for a b :: "'a option"
  by (cases a; cases b) auto

lemma session_lookup_key:
  "session_lookup d t h =
     map_option fst (find (\<lambda>(i, u, k, e, r). k = h \<and> r = None \<and> e > t) (map session_key (auth_sessions d)))"
proof -
  have "find (\<lambda>(i, u, k, e, r). k = h \<and> r = None \<and> e > t) (map session_key rows)
      = map_option session_key (find (\<lambda>s. as_TokenHash s = h \<and> live t s) rows)" for rows
    by (induction rows) (auto simp: session_key_def live_def)
  then show ?thesis by (simp add: session_lookup_def option.map_comp o_def session_key_def)
qed

lemma session_opened_db:
  "session_opened d h i e d' \<Longrightarrow>
     \<exists>r. d' = d\<lparr>auth_sessions := auth_sessions d @ [r]\<rparr> \<and> as_TokenHash r = h \<and> as_ID r = i
       \<and> as_ExpiresAt r = e \<and> as_RevokedAt r = None
       \<and> h \<notin> as_TokenHash ` set (auth_sessions d) \<and> i \<notin> as_ID ` set (auth_sessions d)"
  by (fastforce simp: session_opened_def CreateAuthSession_def Let_def split: if_splits option.splits)

lemma lookup_session_opened:
  "session_opened d h i e d' \<Longrightarrow>
     session_lookup d' t k = (if k = h then (if t < e then Some i else None) else session_lookup d t k)"
  by (drule session_opened_db, auto simp: session_lookup_def find_append live_def find_None_iff
      split: option.split dest!: find_Some_in) (metis image_eqI)+

lemma lookup_session_revoked:
  assumes "session_inv d" "session_revoked d h d'"
  shows "session_lookup d' t k = (if k = h then None else session_lookup d t k)"
proof -
  obtain n now arg where "rst_TokenHash arg = h" "RevokeSessionByTokenHash arg now d = Inr (n, d')"
    using assms(2) by (auto simp: session_revoked_def)
  then have "auth_sessions d' = update_where (\<lambda>s. as_TokenHash s = h \<and> as_RevokedAt s = None)
      (\<lambda>s. s\<lparr>as_RevokedAt := Some (rst_RevokedAt arg)\<rparr>) (auth_sessions d)"
    by (auto simp: RevokeSessionByTokenHash_def Let_def)
  moreover have "map_option as_ID (find (\<lambda>s. as_TokenHash s = k \<and> live t s)
      (update_where (\<lambda>s. as_TokenHash s = h \<and> as_RevokedAt s = None)
        (\<lambda>s. s\<lparr>as_RevokedAt := Some x\<rparr>) rows))
    = (if k = h then None else map_option as_ID (find (\<lambda>s. as_TokenHash s = k \<and> live t s) rows))"
    for rows x by (induction rows) (auto simp: live_def)
  ultimately show ?thesis by (simp add: session_lookup_def)
qed

lemma lookup_session_revoked_id:
  assumes inv: "session_inv d" and rev: "session_revoked_id d i d'"
  shows "session_lookup d' t k = (if session_lookup d t k = Some i then None else session_lookup d t k)"
proof -
  obtain n now arg where "rsi_SessionID arg = i" "RevokeSessionByID arg now d = Inr (n, d')" "n \<noteq> 0"
    using rev by (auto simp: session_revoked_id_def)
  then obtain s0 u where s0: "s0 \<in> set (auth_sessions d)" "as_ID s0 = i" "as_UserID s0 = u"
    and d': "auth_sessions d' = update_where (\<lambda>s. as_ID s = i \<and> as_UserID s = u)
      (\<lambda>s. s\<lparr>as_RevokedAt := coalesce (as_RevokedAt s) (rsi_RevokedAt arg)\<rparr>)
      (auth_sessions d)"
    by (auto simp: RevokeSessionByID_def Let_def filter_empty_conv)
  have "as_ID s = i \<and> as_UserID s = u \<longleftrightarrow> s = s0" if "s \<in> set (auth_sessions d)" for s
    using s0 that inv by (auto simp: session_inv_def intro: key_unique)
  then have "set (auth_sessions d') = (\<lambda>s. if s = s0 then s0\<lparr>as_RevokedAt :=
      coalesce (as_RevokedAt s0) (rsi_RevokedAt arg)\<rparr> else s) ` set (auth_sessions d)"
    unfolding d' update_where_def set_map by (intro image_cong refl) simp
  then have upd: "set (auth_sessions d') = insert (s0\<lparr>as_RevokedAt :=
      coalesce (as_RevokedAt s0) (rsi_RevokedAt arg)\<rparr>)
      (set (auth_sessions d) - {s0})"
    using s0(1) by auto
  have inv': "session_inv d'" using inv by (simp add: session_inv_def d')
  show ?thesis
  proof (rule lookup_eqI)
    fix j
    have "session_lookup d' t k = Some j \<longleftrightarrow> (\<exists>s \<in> set (auth_sessions d). s \<noteq> s0
        \<and> as_TokenHash s = k \<and> live t s \<and> as_ID s = j)"
      unfolding session_lookup_Some [OF inv'] using upd by (auto simp: live_def split: option.splits)
    also have "\<dots> \<longleftrightarrow> session_lookup d t k = Some j \<and> j \<noteq> i"
      unfolding session_lookup_Some [OF inv] using s0 inv
      by (auto simp: session_inv_def intro: key_unique)
    finally show "session_lookup d' t k = Some j \<longleftrightarrow>
        (if session_lookup d t k = Some i then None else session_lookup d t k) = Some j"
      by auto
  qed
qed

lemma lookup_session_swept:
  assumes "session_inv d" "session_swept d c d'"
  shows "session_lookup d' t k = session_lookup d t k \<or> (t < c \<and> session_lookup d' t k = None)"
proof -
  let ?hit = "\<lambda>s. as_ExpiresAt s < c \<or> (case as_RevokedAt s of None \<Rightarrow> False | Some t \<Rightarrow> t < c)"
  have d': "auth_sessions d' = delete_where ?hit (auth_sessions d)"
    using assms(2) by (auto simp: session_swept_def SweepExpiredSessions_def Let_def)
  have inv': "session_inv d'" using assms(1) by (simp add: session_inv_def d')
  show ?thesis
  proof (cases "session_lookup d' t k")
    case (Some i)
    then have "session_lookup d t k = Some i"
      unfolding session_lookup_Some [OF inv'] session_lookup_Some [OF assms(1)] by (auto simp: d')
    with Some show ?thesis by simp
  next
    case None
    then have "\<forall>s \<in> set (auth_sessions d). as_TokenHash s = k \<and> live t s \<longrightarrow> t < c"
      by (fastforce simp: session_lookup_None d' live_def)
    with None show ?thesis
      by (cases "session_lookup d t k") (auto simp: session_lookup_Some [OF assms(1)])
  qed
qed

lemma lookup_session_until:
  assumes "session_inv d" "session_lookup d t' k = Some i" "t \<le> t'"
  shows "session_lookup d t k = Some i"
  using assms by (fastforce simp: session_lookup_Some live_def)

interpretation pg: session_store session_inv session_lookup session_opened session_revoked
  session_revoked_id session_swept sessions_unrelated
proof unfold_locales
  fix s s' h i e assume "session_inv s" "session_opened s h i e s'"
  then show "session_inv s'" by (auto simp: session_inv_def dest: session_opened_db)
next
  fix s s' h assume "session_inv s" "session_revoked s h s'"
  then show "session_inv s'"
    by (auto simp: session_inv_def session_revoked_def RevokeSessionByTokenHash_def Let_def)
next
  fix s s' i assume "session_inv s" "session_revoked_id s i s'"
  then show "session_inv s'"
    by (auto simp: session_inv_def session_revoked_id_def RevokeSessionByID_def Let_def)
next
  fix s s' c assume "session_inv s" "session_swept s c s'"
  then show "session_inv s'"
    by (auto simp: session_inv_def session_swept_def SweepExpiredSessions_def Let_def)
next
  fix s s' assume "session_inv s" and eq: "sessions_unrelated s s'"
  then have "map fst (map session_key (auth_sessions s')) = map fst (map session_key (auth_sessions s))"
    "map (fst \<circ> snd \<circ> snd) (map session_key (auth_sessions s'))
      = map (fst \<circ> snd \<circ> snd) (map session_key (auth_sessions s))"
    by (simp_all only: sessions_unrelated_def)
  with \<open>session_inv s\<close> show "session_inv s'"
    by (simp add: session_inv_def session_key_def o_def)
next
  fix s s' t k assume "sessions_unrelated s s'"
  then show "session_lookup s' t k = session_lookup s t k"
    by (simp add: sessions_unrelated_def session_lookup_key)
qed (rule lookup_session_opened lookup_session_revoked lookup_session_revoked_id
    lookup_session_swept lookup_session_until; assumption)+

end
