(* ===== verification/Auth_Service.thy ===== *)
theory Auth_Service
  imports Auth_Password Store_Integrity
begin

text \<open>
  The authentication service: \<^verbatim>\<open>internal/auth/session.go\<close>, \<^verbatim>\<open>auth.go\<close> and \<^verbatim>\<open>sessions.go\<close>.
  Each method takes the environment, the service's configuration and, where the code reads its
  clock, the instant \<open>now\<close> that the clock returned. The world carries the tables.

  A panic of argon2 is the error \<open>Panic\<close>; it passes through every method unchanged.
\<close>

section \<open>session.go\<close>

abbreviation tokenBytes :: nat where "tokenBytes \<equiv> 32"

record Policy =
  TTL :: duration
  MaxFailedAttempts :: int
  LockDuration :: duration

definition DefaultPolicy :: Policy where
  "DefaultPolicy = \<lparr>TTL = 30 * 24 * Hour, MaxFailedAttempts = 10, LockDuration = 15 * Minute\<rparr>"

definition HashToken :: "string \<Rightarrow> byte list" where
  "HashToken token = Sum256 (string_to_bytes token)"

definition NewToken :: "env \<Rightarrow> (string \<times> byte list) io" where
  "NewToken E =
     call (rand_Read E tokenBytes) (Wrap ''read session token'')
       (\<lambda>raw. let token = RawURL_EncodeToString raw in return (token, HashToken token))"

definition Policy_ExpiresAt :: "Policy \<Rightarrow> time \<Rightarrow> time" where
  "Policy_ExpiresAt p now = now + TTL p"

definition Policy_LockedUntil :: "Policy \<Rightarrow> time \<Rightarrow> time" where
  "Policy_LockedUntil p now = now + LockDuration p"

section \<open>auth.go\<close>

text \<open>
  \<^verbatim>\<open>LockoutError.RetryAfter\<close>: \<^verbatim>\<open>Round\<close> rounds half away from zero, then the division truncates.
\<close>

definition RetryAfter :: "time \<Rightarrow> time \<Rightarrow> int" where
  "RetryAfter until now =
     (let d = until - now in if d \<le> 0 then 0 else (d + Second div 2) div Second)"

record GoogleConfig =
  ClientID :: string
  ClientSecret :: string
  RedirectURL :: string

record Service =
  svc_policy :: Policy
  svc_params :: PasswordParams
  svc_google :: "GoogleConfig option"

definition NewService :: "GoogleConfig option \<Rightarrow> Service" where
  "NewService google = \<lparr>svc_policy = DefaultPolicy, svc_params = DefaultPasswordParams,
     svc_google = google\<rparr>"

record Session =
  ses_Token :: string
  ses_ID :: uuid
  ses_UserID :: uuid
  ses_IssuedAt :: time
  ses_ExpiresAt :: time

record SignInContext =
  sic_UserAgent :: string
  sic_IP :: "string option"

definition NormaliseEmail :: "unicode \<Rightarrow> string \<Rightarrow> string" where
  "NormaliseEmail U email = ToLower U (TrimSpace U email)"

definition dummyHash :: string where
  "dummyHash = ''$argon2id$v=19$m=19456,t=2,p=1$'' @ ''AAAAAAAAAAAAAAAAAAAAAA$'' @
     ''AAAAAAAAAAAAAAAAAAAAAAAAAAAAAAAAAAAAAAAAAAA''"

definition truncate_str :: "string \<Rightarrow> nat \<Rightarrow> string" where
  "truncate_str s n = (if length s \<le> n then s else take n s)"

definition isUniqueViolation :: "go_error \<Rightarrow> bool" where
  "isUniqueViolation err =
     (case errors_As_PgError err of Some (PgError code _) \<Rightarrow> code = ''23505'' | _ \<Rightarrow> False)"

definition openSession ::
  "env \<Rightarrow> Service \<Rightarrow> uuid \<Rightarrow> uuid option \<Rightarrow> time \<Rightarrow> SignInContext \<Rightarrow> Session io" where
  "openSession E S userID providerID now sc =
     call (NewToken E) (\<lambda>e. e) (\<lambda>(token, hash).
     call (NewV7 E) (Wrap ''new session id'') (\<lambda>i.
     call (run_query E (CreateAuthSession
             \<lparr>cas_ID = i, cas_UserID = userID, cas_AuthProviderID = providerID,
              cas_TokenHash = hash, cas_ExpiresAt = Policy_ExpiresAt (svc_policy S) now,
              cas_UserAgent = truncate_str (sic_UserAgent sc) 512, cas_Ip = sic_IP sc\<rparr>))
       (Wrap ''create session'') (\<lambda>row.
     return \<lparr>ses_Token = token, ses_ID = as_ID row, ses_UserID = as_UserID row,
             ses_IssuedAt = as_IssuedAt row, ses_ExpiresAt = as_ExpiresAt row\<rparr>)))"

text \<open>A nullable instant that lies after another: \<^verbatim>\<open>t.Valid && t.Time.After(now)\<close>.\<close>

definition is_after :: "time option \<Rightarrow> time \<Rightarrow> bool" where
  "is_after t now = (case t of None \<Rightarrow> False | Some u \<Rightarrow> u > now)"

definition recordFailure :: "env \<Rightarrow> Service \<Rightarrow> uuid \<Rightarrow> time \<Rightarrow> 'a io" where
  "recordFailure E S providerID now =
     call (run_query E (RecordFailedLogin
             \<lparr>rfl_MaxAttempts = MaxFailedAttempts (svc_policy S),
              rfl_LockUntil = Policy_LockedUntil (svc_policy S) now, rfl_ProviderID = providerID\<rparr>))
       (Wrap ''record failed login'') (\<lambda>row.
     if is_after (rflr_LockedUntil row) now then throw (LockoutError (the (rflr_LockedUntil row)))
     else throw ErrBadCredentials)"

text \<open>What follows a verified password.\<close>

definition signInVerified ::
  "env \<Rightarrow> Service \<Rightarrow> time \<Rightarrow> GetPasswordCredentialRow \<Rightarrow> SignInContext \<Rightarrow> Session io" where
  "signInVerified E S now cred sc =
     call (run_query E (MarkProviderUsed
             \<lparr>mpu_ID = gpc_ProviderID cred, mpu_LastLoginAt = now\<rparr>))
       (Wrap ''mark provider used'') (\<lambda>_.
     openSession E S (gpc_UserID cred) (Some (gpc_ProviderID cred)) now sc)"

definition upgradeHash ::
  "env \<Rightarrow> Service \<Rightarrow> string \<Rightarrow> GetPasswordCredentialRow \<Rightarrow> 'a io \<Rightarrow> 'a io" where
  "upgradeHash E S password cred k =
     (if NeedsRehash (gpc_Hash cred) (svc_params S)
      then attempt (HashPassword E password (svc_params S)) (\<lambda>r.
        case r of
          Inr upgraded \<Rightarrow>
            best_effort (run_query E (UpdatePasswordHash
              \<lparr>uph_AuthProviderID = gpc_ProviderID cred, uph_Hash = upgraded\<rparr>)) k
        | Inl hashErr \<Rightarrow> if is_panic hashErr then throw hashErr else k)
      else k)"

definition SignInWithPassword ::
  "env \<Rightarrow> Service \<Rightarrow> time \<Rightarrow> string \<Rightarrow> string \<Rightarrow> SignInContext \<Rightarrow> Session io" where
  "SignInWithPassword E S now email password sc =
     attempt (run_query E (GetPasswordCredential (NormaliseEmail (e_unicode E) email))) (\<lambda>r.
     case r of
       Inl err \<Rightarrow>
         if errors_Is err ErrNoRows
         then (case VerifyPassword E password dummyHash of
                 Some err' \<Rightarrow> if is_panic err' then throw err' else throw ErrBadCredentials
               | None \<Rightarrow> throw ErrBadCredentials)
         else throw (Wrap ''read password credential'' err)
     | Inr cred \<Rightarrow>
         if is_after (gpc_LockedUntil cred) now
         then throw (LockoutError (the (gpc_LockedUntil cred)))
         else (case VerifyPassword E password (gpc_Hash cred) of
                 Some err \<Rightarrow>
                   if is_panic err then throw err
                   else if \<not> errors_Is err ErrPasswordMismatch then throw (Wrap ''verify password'' err)
                   else recordFailure E S (gpc_ProviderID cred) now
               | None \<Rightarrow>
                   call (run_query E (ClearFailedLogins (gpc_ProviderID cred)))
                     (Wrap ''clear failed logins'') (\<lambda>_.
                   upgradeHash E S password cred (signInVerified E S now cred sc))))"

definition Authenticate :: "env \<Rightarrow> time \<Rightarrow> string \<Rightarrow> LiveSessionRow io" where
  "Authenticate E now token =
     attempt (run_query E (LiveSessionByTokenHash
                \<lparr>lst_TokenHash = HashToken token, lst_Now = now\<rparr>)) (\<lambda>r.
     case r of
       Inl err \<Rightarrow>
         if errors_Is err ErrNoRows then throw ErrNoSession else throw (Wrap ''read session'' err)
     | Inr row \<Rightarrow>
         best_effort (run_query E (TouchAuthSession \<lparr>tas_ID = as_ID row, tas_LastSeenAt = now\<rparr>))
           (return row))"

definition Profile :: "env \<Rightarrow> uuid \<Rightarrow> UserProfile io" where
  "Profile E userID = run_query E (GetUserProfile userID)"

record RegisterParams =
  reg_Email :: string
  reg_Password :: string
  reg_DisplayName :: string

text \<open>The function that \<^verbatim>\<open>Register\<close> runs in a transaction.\<close>

definition registerTx ::
  "env \<Rightarrow> Service \<Rightarrow> time \<Rightarrow> string \<Rightarrow> string \<Rightarrow> string \<Rightarrow> SignInContext \<Rightarrow> Session io" where
  "registerTx E S now email displayName password sc =
     call (HashPassword E password (svc_params S)) (\<lambda>e. e) (\<lambda>hash.
     call (NewV7 E) (Wrap ''new user id'') (\<lambda>userID.
     call (NewV7 E) (Wrap ''new provider id'') (\<lambda>providerID.
     call (run_query E (CreateUser userID)) (Wrap ''create user'') (\<lambda>_.
     call (run_query E (CreateUserProfile (e_citext E)
             \<lparr>cup_UserID = userID, cup_Email = email, cup_DisplayName = displayName\<rparr>))
       (Wrap ''create profile'') (\<lambda>_.
     call (run_query E (CreateAuthProvider
             \<lparr>cap_ID = providerID, cap_UserID = userID, cap_Kind = AuthProviderKindPassword,
              cap_Subject = email, cap_Email = Some email, cap_IsPrimary = True\<rparr>))
       (Wrap ''create sign-in method'') (\<lambda>_.
     call (run_query E (CreateAuthPassword
             \<lparr>caw_AuthProviderID = providerID, caw_Hash = hash\<rparr>))
       (Wrap ''store password'') (\<lambda>_.
     openSession E S userID (Some providerID) now sc)))))))"

definition Register ::
  "env \<Rightarrow> Service \<Rightarrow> time \<Rightarrow> RegisterParams \<Rightarrow> SignInContext \<Rightarrow> Session io" where
  "Register E S now p sc =
     (let email = NormaliseEmail (e_unicode E) (reg_Email p);
          displayName = TrimSpace (e_unicode E) (reg_DisplayName p)
      in if email = [] \<or> displayName = []
         then throw (WrapFmt ErrInvalidInput ''%w: email and display name are required'' [])
         else attempt (InTx E (registerTx E S now email displayName (reg_Password p) sc)) (\<lambda>r.
           case r of
             Inl err \<Rightarrow> if isUniqueViolation err then throw ErrEmailTaken else throw err
           | Inr session \<Rightarrow> return session))"

section \<open>sessions.go\<close>

record Principal =
  pr_UserID :: uuid
  pr_SessionID :: uuid
  pr_ProviderKind :: string

record SessionSummary =
  ss_ID :: uuid
  ss_ProviderKind :: string
  ss_IssuedAt :: time
  ss_LastSeenAt :: time
  ss_ExpiresAt :: time
  ss_UserAgent :: string
  ss_IP :: "string option"

record ProviderSummary =
  ps_ID :: uuid
  ps_Kind :: string
  ps_Email :: string
  ps_IsPrimary :: bool
  ps_LinkedAt :: time
  ps_LastLoginAt :: "time option"

definition providerKind :: "AuthProviderKind option \<Rightarrow> string" where
  "providerKind k = (case k of None \<Rightarrow> [] | Some s \<Rightarrow> s)"

definition session_summary :: "LiveSessionRow \<Rightarrow> SessionSummary" where
  "session_summary r = \<lparr>ss_ID = as_ID r, ss_ProviderKind = providerKind (ls_ProviderKind r),
     ss_IssuedAt = as_IssuedAt r, ss_LastSeenAt = as_LastSeenAt r, ss_ExpiresAt = as_ExpiresAt r,
     ss_UserAgent = as_UserAgent r, ss_IP = as_Ip r\<rparr>"

definition ListSessions :: "env \<Rightarrow> time \<Rightarrow> uuid \<Rightarrow> SessionSummary list io" where
  "ListSessions E now userID =
     call (run_query E (ListLiveSessions \<lparr>lls_UserID = userID, lls_Now = now\<rparr>))
       (Wrap ''list sessions'') (\<lambda>rows. return (map session_summary rows))"

definition RevokeSession :: "env \<Rightarrow> time \<Rightarrow> uuid \<Rightarrow> uuid \<Rightarrow> unit io" where
  "RevokeSession E now userID sessionID =
     call (run_query E (RevokeSessionByID
             \<lparr>rsi_RevokedAt = now, rsi_SessionID = sessionID, rsi_UserID = userID\<rparr>))
       (Wrap ''revoke session'') (\<lambda>n. if n = 0 then throw ErrNotFound else return ())"

definition SignOut :: "env \<Rightarrow> time \<Rightarrow> string \<Rightarrow> unit io" where
  "SignOut E now token =
     call (run_query E (RevokeSessionByTokenHash
             \<lparr>rst_RevokedAt = now, rst_TokenHash = HashToken token\<rparr>))
       (Wrap ''sign out'') (\<lambda>_. return ())"

definition provider_summary :: "AuthProvider \<Rightarrow> ProviderSummary" where
  "provider_summary r = \<lparr>ps_ID = ap_ID r, ps_Kind = ap_Kind r,
     ps_Email = (case ap_Email r of None \<Rightarrow> [] | Some e \<Rightarrow> e), ps_IsPrimary = ap_IsPrimary r,
     ps_LinkedAt = ap_LinkedAt r, ps_LastLoginAt = ap_LastLoginAt r\<rparr>"

definition ListProviders :: "env \<Rightarrow> uuid \<Rightarrow> ProviderSummary list io" where
  "ListProviders E userID =
     call (run_query E (ListAuthProviders userID)) (Wrap ''list sign-in methods'')
       (\<lambda>rows. return (map provider_summary rows))"

definition isRestrictViolation :: "go_error \<Rightarrow> bool" where
  "isRestrictViolation err =
     (case errors_As_PgError err of Some (PgError code _) \<Rightarrow> code = ''23001'' | _ \<Rightarrow> False)"

definition UnlinkProvider :: "env \<Rightarrow> uuid \<Rightarrow> uuid \<Rightarrow> unit io" where
  "UnlinkProvider E userID providerID =
     call (run_query E (DeleteAuthProvider \<lparr>dap_ID = providerID, dap_UserID = userID\<rparr>))
       (\<lambda>err. if isRestrictViolation err then ErrLastProvider
              else Wrap ''unlink sign-in method'' err)
       (\<lambda>n. if n = 0 then throw ErrNotFound else return ())"

definition SweepExpired :: "env \<Rightarrow> time \<Rightarrow> duration \<Rightarrow> int io" where
  "SweepExpired E now grace =
     call (run_query E (SweepExpiredSessions (now - grace)))
       (Wrap ''sweep expired sessions'') (\<lambda>n. return n)"

definition AuthenticatePrincipal :: "env \<Rightarrow> time \<Rightarrow> string \<Rightarrow> Principal io" where
  "AuthenticatePrincipal E now token =
     call (Authenticate E now token) (\<lambda>e. e) (\<lambda>row.
     return \<lparr>pr_UserID = as_UserID row, pr_SessionID = as_ID row,
             pr_ProviderKind = providerKind (ls_ProviderKind row)\<rparr>)"

definition notFound :: "go_error \<Rightarrow> bool" where
  "notFound err = errors_Is err ErrNoRows"

end
