(* ===== verification/Auth_Federated.thy ===== *)
theory Auth_Federated
  imports Auth_Service
begin

text \<open>
  Sign-in with Google: \<^verbatim>\<open>internal/auth/google.go\<close> and \<^verbatim>\<open>federated.go\<close>. The OpenID Connect and OAuth
  libraries are the record \<open>oidc\<close>, a parameter: discovery, the authorisation address, the
  exchange of a code (which may carry no \<^verbatim>\<open>id_token\<close> string), and the verification of a token,
  which yields its nonce and, when they decode, its claims.
\<close>

section \<open>google.go\<close>

abbreviation googleIssuer :: string where "googleIssuer \<equiv> ''https://accounts.google.com''"

record claims =
  cl_Subject :: string
  cl_Email :: string
  cl_EmailVerified :: bool
  cl_Name :: string

record OAuthConfig =
  oc_ClientID :: string
  oc_ClientSecret :: string
  oc_RedirectURL :: string
  oc_Scopes :: "string list"

record oidc =
  o_NewProvider :: "nat \<Rightarrow> string \<Rightarrow> go_error option"
  o_AuthCodeURL :: "OAuthConfig \<Rightarrow> string \<Rightarrow> string \<Rightarrow> string"
  o_Exchange :: "nat \<Rightarrow> OAuthConfig \<Rightarrow> string \<Rightarrow> go_error + string option"
  o_Verify :: "nat \<Rightarrow> string \<Rightarrow> string \<Rightarrow> go_error + string \<times> (go_error + claims)"

definition GoogleConfig_configured :: "GoogleConfig \<Rightarrow> bool" where
  "GoogleConfig_configured c \<longleftrightarrow> ClientID c \<noteq> [] \<and> ClientSecret c \<noteq> [] \<and> RedirectURL c \<noteq> []"

record FederatedIdentity =
  fi_Subject :: string
  fi_Email :: string
  fi_EmailVerified :: bool
  fi_Name :: string

text \<open>A failed discovery is not cached.\<close>

definition discover :: "oidc \<Rightarrow> unit io" where
  "discover G w =
     (if w_google w then (Inr (), w)
      else case o_NewProvider G (w_tick w) googleIssuer of
        Some e \<Rightarrow> (Inl (Wrap (''discover '' @ googleIssuer) e), tick w)
      | None \<Rightarrow> (Inr (), (tick w)\<lparr>w_google := True\<rparr>))"

definition oauthConfig :: "GoogleConfig \<Rightarrow> OAuthConfig" where
  "oauthConfig c = \<lparr>oc_ClientID = ClientID c, oc_ClientSecret = ClientSecret c,
     oc_RedirectURL = RedirectURL c, oc_Scopes = [''openid'', ''email'', ''profile'']\<rparr>"

definition AuthCodeURL :: "oidc \<Rightarrow> GoogleConfig \<Rightarrow> string \<Rightarrow> string \<Rightarrow> string io" where
  "AuthCodeURL G c state nonce =
     (if \<not> GoogleConfig_configured c then throw ErrProviderNotConfigured
      else call (discover G) (\<lambda>e. e) (\<lambda>_. return (o_AuthCodeURL G (oauthConfig c) state nonce)))"

text \<open>A call to the provider: its answer, and the next call's number.\<close>

definition remote :: "(nat \<Rightarrow> go_error + 'a) \<Rightarrow> 'a io" where
  "remote f w = (f (w_tick w), tick w)"

definition Verify :: "env \<Rightarrow> oidc \<Rightarrow> GoogleConfig \<Rightarrow> string \<Rightarrow> string \<Rightarrow> FederatedIdentity io" where
  "Verify E G c code nonce =
     (if \<not> GoogleConfig_configured c then throw ErrProviderNotConfigured
      else
        call (discover G) (\<lambda>e. e) (\<lambda>_.
        call (remote (\<lambda>n. o_Exchange G n (oauthConfig c) code))
          (Wrap ''exchange authorization code'') (\<lambda>rawID.
        if rawID = None \<or> rawID = Some []
        then throw (LibError ''token response carried no id_token'')
        else
          call (remote (\<lambda>n. o_Verify G n (ClientID c) (the rawID))) (Wrap ''verify id token'')
            (\<lambda>(tokenNonce, parsed).
          if tokenNonce \<noteq> nonce then throw ErrStateMismatch
          else case parsed of
            Inl err \<Rightarrow> throw (Wrap ''read id token claims'' err)
          | Inr cl \<Rightarrow>
              if cl_Subject cl = [] then throw (LibError ''id token carried no subject'')
              else return \<lparr>fi_Subject = cl_Subject cl,
                           fi_Email = NormaliseEmail (e_unicode E) (cl_Email cl),
                           fi_EmailVerified = cl_EmailVerified cl, fi_Name = cl_Name cl\<rparr>))))"

definition randomToken :: "env \<Rightarrow> string io" where
  "randomToken E =
     call (rand_Read E 24) (Wrap ''read random token'') (\<lambda>b. return (RawURL_EncodeToString b))"

record FlowState =
  fs_State :: string
  fs_Nonce :: string
  fs_ReturnTo :: string

definition NewFlowState :: "env \<Rightarrow> string \<Rightarrow> FlowState io" where
  "NewFlowState E returnTo =
     call (randomToken E) (\<lambda>e. e) (\<lambda>state.
     call (randomToken E) (\<lambda>e. e) (\<lambda>nonce.
     return \<lparr>fs_State = state, fs_Nonce = nonce,
             fs_ReturnTo = (if returnTo = [] then ''/'' else returnTo)\<rparr>))"

section \<open>federated.go\<close>

definition GoogleEnabled :: "Service \<Rightarrow> bool" where
  "GoogleEnabled S = (case svc_google S of None \<Rightarrow> False | Some c \<Rightarrow> GoogleConfig_configured c)"

definition StartGoogleSignIn :: "env \<Rightarrow> oidc \<Rightarrow> Service \<Rightarrow> string \<Rightarrow> (string \<times> FlowState) io" where
  "StartGoogleSignIn E G S returnTo =
     (case svc_google S of
        None \<Rightarrow> throw ErrProviderNotConfigured
      | Some c \<Rightarrow>
          if \<not> GoogleConfig_configured c then throw ErrProviderNotConfigured
          else
            call (NewFlowState E returnTo) (\<lambda>e. e) (\<lambda>flow.
            call (AuthCodeURL G c (fs_State flow) (fs_Nonce flow)) (\<lambda>e. e) (\<lambda>url.
            return (url, flow))))"

definition displayNameFor :: "unicode \<Rightarrow> FederatedIdentity \<Rightarrow> string" where
  "displayNameFor U identity =
     (let name = TrimSpace U (fi_Name identity)
      in if name \<noteq> [] then name
         else case Cut (fi_Email identity) (CHR ''@'') of
           (local, _, found) \<Rightarrow> if found \<and> local \<noteq> [] then local else fi_Email identity)"

text \<open>The third outcome: a new account.\<close>

definition createAccountFor :: "env \<Rightarrow> FederatedIdentity \<Rightarrow> uuid io" where
  "createAccountFor E identity =
     call (NewV7 E) (Wrap ''new user id'') (\<lambda>userID.
     call (run_query E (CreateUser userID)) (Wrap ''create user'') (\<lambda>_.
     call (run_query E (CreateUserProfile (e_citext E)
             \<lparr>cup_UserID = userID, cup_Email = fi_Email identity,
              cup_DisplayName = displayNameFor (e_unicode E) identity\<rparr>))
       (Wrap ''create profile'') (\<lambda>_.
     return userID)))"

definition resolveAccountFor :: "env \<Rightarrow> FederatedIdentity \<Rightarrow> uuid io" where
  "resolveAccountFor E identity =
     (if fi_EmailVerified identity
      then attempt (run_query E (UserProfileByEmail (e_citext E) (fi_Email identity))) (\<lambda>r.
        case r of
          Inr profile \<Rightarrow> return (up_UserID profile)
        | Inl err \<Rightarrow>
            if \<not> notFound err then throw (Wrap ''look up profile by email'' err)
            else createAccountFor E identity)
      else createAccountFor E identity)"

definition linkIdentity ::
  "env \<Rightarrow> Service \<Rightarrow> time \<Rightarrow> FederatedIdentity \<Rightarrow> SignInContext \<Rightarrow> Session io" where
  "linkIdentity E S now identity sc =
     (if fi_Email identity = [] then throw ErrNoEmailFromProvider
      else
        call (resolveAccountFor E identity) (\<lambda>e. e) (\<lambda>userID.
        call (NewV7 E) (Wrap ''new provider id'') (\<lambda>providerID.
        call (run_query E (CreateAuthProvider
                \<lparr>cap_ID = providerID, cap_UserID = userID, cap_Kind = AuthProviderKindGoogle,
                 cap_Subject = fi_Subject identity, cap_Email = Some (fi_Email identity),
                 cap_IsPrimary = False\<rparr>))
          (Wrap ''link sign-in method'') (\<lambda>_.
        call (run_query E (MarkProviderUsed \<lparr>mpu_ID = providerID, mpu_LastLoginAt = now\<rparr>))
          (Wrap ''mark provider used'') (\<lambda>_.
        openSession E S userID (Some providerID) now sc)))))"

definition googleTx ::
  "env \<Rightarrow> Service \<Rightarrow> time \<Rightarrow> FederatedIdentity \<Rightarrow> SignInContext \<Rightarrow> Session io" where
  "googleTx E S now identity sc =
     attempt (run_query E (ProviderByKindSubject
                \<lparr>pks_Kind = AuthProviderKindGoogle, pks_Subject = fi_Subject identity\<rparr>)) (\<lambda>r.
     case r of
       Inr provider \<Rightarrow>
         call (run_query E (MarkProviderUsed \<lparr>mpu_ID = ap_ID provider, mpu_LastLoginAt = now\<rparr>))
           (Wrap ''mark provider used'') (\<lambda>_.
         openSession E S (ap_UserID provider) (Some (ap_ID provider)) now sc)
     | Inl err \<Rightarrow>
         if \<not> notFound err then throw (Wrap ''look up federated identity'' err)
         else linkIdentity E S now identity sc)"

definition CompleteGoogleSignIn ::
  "env \<Rightarrow> oidc \<Rightarrow> Service \<Rightarrow> time \<Rightarrow> string \<Rightarrow> string \<Rightarrow> FlowState \<Rightarrow> SignInContext \<Rightarrow> Session io" where
  "CompleteGoogleSignIn E G S now code stateFromCallback flow sc =
     (case svc_google S of
        None \<Rightarrow> throw ErrProviderNotConfigured
      | Some c \<Rightarrow>
          if \<not> GoogleConfig_configured c then throw ErrProviderNotConfigured
          else if fs_State flow = [] \<or> stateFromCallback = [] \<or> fs_State flow \<noteq> stateFromCallback
          then throw ErrStateMismatch
          else
            call (Verify E G c code (fs_Nonce flow)) (\<lambda>e. e) (\<lambda>identity.
            InTx E (googleTx E S now identity sc)))"

end
