(* ===== verification/Auth_Safety.thy ===== *)
theory Auth_Safety
  imports Auth_Federated
begin

text \<open>
  Safety of the authentication service whatever fails: every method keeps the integrity of the
  tables, registration and federated sign-in are all or nothing, and in every reachable state
  each account has a way to sign in.
\<close>

section \<open>Every method keeps the integrity of the tables\<close>

lemma keeps_if [keeps_intro]: "keeps P a \<Longrightarrow> keeps P b \<Longrightarrow> keeps P (if c then a else b)"
  by simp

lemma keeps_remote [keeps_intro]: "keeps P (remote f)"
  by (simp add: keeps_def remote_def)

lemma keeps_discover [keeps_intro]: "keeps P (discover G)"
  by (auto simp: keeps_def discover_def split: option.split)

lemma keeps_HashPassword [keeps_intro]: "keeps P (HashPassword E pw p)"
  unfolding HashPassword_def by (auto intro!: keeps_intro split: option.split)

lemma keeps_NewToken [keeps_intro]: "keeps P (NewToken E)"
  unfolding NewToken_def Let_def by (intro keeps_intro)

abbreviation integrity :: "env \<Rightarrow> db \<Rightarrow> bool" where
  "integrity E \<equiv> auth_ok (e_citext E)"

lemma keeps_openSession:
  "(\<And>cas. q_keeps P (CreateAuthSession cas)) \<Longrightarrow> keeps P (openSession E S u p now sc)"
  unfolding openSession_def by (auto intro!: keeps_intro)

lemma keeps_openSession_instances [keeps_intro]:
  "keeps (auth_ok cf) (openSession E S u p now sc)" "keeps has_way_in (openSession E S u p now sc)"
  by (rule keeps_openSession, intro keeps_intro)+

lemma keeps_recordFailure [keeps_intro]:
  "(\<And>rfl. q_keeps P (RecordFailedLogin rfl)) \<Longrightarrow> keeps P (recordFailure E S pid now)"
  unfolding recordFailure_def by (intro keeps_intro)

lemma keeps_signInVerified [keeps_intro]:
  "(\<And>mpu. q_keeps P (MarkProviderUsed mpu)) \<Longrightarrow> (\<And>u p. keeps P (openSession E S u p now sc)) \<Longrightarrow>
     keeps P (signInVerified E S now cred sc)"
  unfolding signInVerified_def by (intro keeps_intro)

lemma keeps_upgradeHash [keeps_intro]:
  "(\<And>uph. q_keeps P (UpdatePasswordHash uph)) \<Longrightarrow> keeps P k \<Longrightarrow>
     keeps P (upgradeHash E S pw cred k)"
  unfolding upgradeHash_def by (auto intro!: keeps_intro split: sum.split)

lemma keeps_SignIn [keeps_intro]:
  assumes "\<And>uph. q_keeps P (UpdatePasswordHash uph)" "\<And>i. q_keeps P (ClearFailedLogins i)"
    "\<And>rfl. q_keeps P (RecordFailedLogin rfl)" "\<And>mpu. q_keeps P (MarkProviderUsed mpu)"
    "\<And>u p. keeps P (openSession E S u p now sc)"
  shows "keeps P (SignInWithPassword E S now email pw sc)"
  unfolding SignInWithPassword_def using assms
  by (auto intro!: keeps_intro split: sum.split option.split)

lemma integrity_statements:
  "q_keeps (auth_ok cf) (UpdatePasswordHash uph)" "q_keeps (auth_ok cf) (ClearFailedLogins i)"
  "q_keeps (auth_ok cf) (RecordFailedLogin rfl)" "q_keeps (auth_ok cf) (MarkProviderUsed mpu)"
  "q_keeps (auth_ok cf) (CreateAuthSession cas)"
  by (intro keeps_intro)+

lemma integrity_SignIn: "keeps (integrity E) (SignInWithPassword E S now email pw sc)"
  by (intro keeps_SignIn keeps_openSession_instances integrity_statements)

lemma integrity_registerTx: "keeps (integrity E) (registerTx E S now email name pw sc)"
  unfolding registerTx_def by (intro keeps_intro)

lemma keeps_Register:
  "(\<And>email name pw. keeps P (InTx E (registerTx E S now email name pw sc))) \<Longrightarrow>
     keeps P (Register E S now p sc)"
  unfolding Register_def Let_def by (auto intro!: keeps_intro split: sum.split)

lemma integrity_Register: "keeps (integrity E) (Register E S now p sc)"
  by (intro keeps_Register keeps_InTx integrity_registerTx)

lemma keeps_Authenticate [keeps_intro]:
  "(\<And>tas. q_keeps P (TouchAuthSession tas)) \<Longrightarrow> keeps P (Authenticate E now token)"
  unfolding Authenticate_def by (auto intro!: keeps_intro split: sum.split)

lemma keeps_session_methods [keeps_intro]:
  "(\<And>tas. q_keeps P (TouchAuthSession tas)) \<Longrightarrow> keeps P (AuthenticatePrincipal E now token)"
  "(\<And>rsi. q_keeps P (RevokeSessionByID rsi)) \<Longrightarrow> keeps P (RevokeSession E now u i)"
  "(\<And>rst. q_keeps P (RevokeSessionByTokenHash rst)) \<Longrightarrow> keeps P (SignOut E now token)"
  "(\<And>dap. q_keeps P (DeleteAuthProvider dap)) \<Longrightarrow> keeps P (UnlinkProvider E u i)"
  "(\<And>c. q_keeps P (SweepExpiredSessions c)) \<Longrightarrow> keeps P (SweepExpired E now grace)"
  unfolding AuthenticatePrincipal_def RevokeSession_def SignOut_def UnlinkProvider_def SweepExpired_def
  by (auto intro!: keeps_intro)

lemma keeps_Verify [keeps_intro]: "keeps P (Verify E G c code nonce)"
  unfolding Verify_def by (auto intro!: keeps_intro split: sum.split)

lemma integrity_createAccountFor [keeps_intro]: "keeps (integrity E) (createAccountFor E identity)"
  unfolding createAccountFor_def by (intro keeps_intro)

lemma integrity_resolveAccountFor [keeps_intro]: "keeps (integrity E) (resolveAccountFor E identity)"
  unfolding resolveAccountFor_def by (auto intro!: keeps_intro split: sum.split)

lemma integrity_linkIdentity [keeps_intro]: "keeps (integrity E) (linkIdentity E S now identity sc)"
  unfolding linkIdentity_def by (intro keeps_intro)

lemma integrity_googleTx [keeps_intro]: "keeps (integrity E) (googleTx E S now identity sc)"
  unfolding googleTx_def by (auto intro!: keeps_intro split: sum.split)

lemma keeps_CompleteGoogleSignIn:
  "(\<And>identity. keeps P (InTx E (googleTx E S now identity sc))) \<Longrightarrow>
     keeps P (CompleteGoogleSignIn E G S now code state flow sc)"
  unfolding CompleteGoogleSignIn_def by (auto intro!: keeps_intro split: option.split)

lemma integrity_CompleteGoogleSignIn:
  "keeps (integrity E) (CompleteGoogleSignIn E G S now code state flow sc)"
  by (intro keeps_CompleteGoogleSignIn keeps_InTx integrity_googleTx)

section \<open>What a successful call did\<close>

text \<open>The row of a session, and the rows that a registration writes.\<close>

definition session_row :: "Session \<Rightarrow> uuid option \<Rightarrow> SignInContext \<Rightarrow> AuthSession" where
  "session_row s p sc = \<lparr>as_ID = ses_ID s, as_UserID = ses_UserID s, as_AuthProviderID = p,
     as_TokenHash = HashToken (ses_Token s), as_IssuedAt = ses_IssuedAt s,
     as_LastSeenAt = ses_IssuedAt s, as_ExpiresAt = ses_ExpiresAt s, as_RevokedAt = None,
     as_UserAgent = truncate_str (sic_UserAgent sc) 512, as_Ip = sic_IP sc\<rparr>"

definition add_session :: "Session \<Rightarrow> uuid option \<Rightarrow> SignInContext \<Rightarrow> db \<Rightarrow> db" where
  "add_session s p sc d = d\<lparr>auth_sessions := auth_sessions d @ [session_row s p sc]\<rparr>"

lemma NewToken_Inr:
  "NewToken E w = (Inr (token, hash), w') \<Longrightarrow>
     hash = HashToken token \<and> w_db w' = w_db w \<and> w_tx w' = w_tx w
     \<and> (\<exists>raw. e_rand E (w_tick w) tokenBytes = Some raw \<and> token = RawURL_EncodeToString raw)"
  by (auto simp: NewToken_def Let_def call_Inr_iff rand_Read_def return_def split: option.splits)

lemma NewV7_Inr: "NewV7 E w = (Inr i, w') \<Longrightarrow> w' = tick w \<and> e_uuid E (w_tick w) = Some i"
  by (auto simp: NewV7_def split: option.splits)

lemma CreateAuthSession_Inr:
  "CreateAuthSession arg t d = Inr (r, d') \<Longrightarrow>
     r = \<lparr>as_ID = cas_ID arg, as_UserID = cas_UserID arg, as_AuthProviderID = cas_AuthProviderID arg,
          as_TokenHash = cas_TokenHash arg, as_IssuedAt = t, as_LastSeenAt = t,
          as_ExpiresAt = cas_ExpiresAt arg, as_RevokedAt = None, as_UserAgent = cas_UserAgent arg,
          as_Ip = cas_Ip arg\<rparr>
     \<and> d' = d\<lparr>auth_sessions := auth_sessions d @ [r]\<rparr>
     \<and> cas_TokenHash arg \<notin> as_TokenHash ` set (auth_sessions d)
     \<and> cas_ID arg \<notin> as_ID ` set (auth_sessions d)"
  by (auto simp: CreateAuthSession_def Let_def split: if_splits option.splits)

lemma openSession_Inr:
  assumes "openSession E S u p now sc w = (Inr s, w')"
  shows "w_db w' = add_session s p sc (w_db w) \<and> w_tx w' = w_tx w
    \<and> ses_UserID s = u \<and> ses_ExpiresAt s = Policy_ExpiresAt (svc_policy S) now
    \<and> HashToken (ses_Token s) \<notin> as_TokenHash ` set (auth_sessions (w_db w))
    \<and> ses_ID s \<notin> as_ID ` set (auth_sessions (w_db w))"
  using assms
  by (auto simp: openSession_def call_Inr_iff return_def run_query_Inr_iff add_session_def
      session_row_def dest!: NewToken_Inr NewV7_Inr CreateAuthSession_Inr)

definition created_account ::
  "uuid \<Rightarrow> string \<Rightarrow> string \<Rightarrow> time \<Rightarrow> db \<Rightarrow> db" where
  "created_account u email name t d = d\<lparr>
     users := users d @ [\<lparr>u_ID = u, u_CreatedAt = t, u_UpdatedAt = t\<rparr>],
     user_profiles := user_profiles d @ [\<lparr>up_UserID = u, up_Email = email, up_DisplayName = name,
       up_Timezone = ''Asia/Ho_Chi_Minh'', up_CreatedAt = t, up_UpdatedAt = t\<rparr>]\<rparr>"

definition added_provider ::
  "uuid \<Rightarrow> uuid \<Rightarrow> AuthProviderKind \<Rightarrow> string \<Rightarrow> string \<Rightarrow> bool \<Rightarrow> time \<Rightarrow> time option \<Rightarrow> db \<Rightarrow> db" where
  "added_provider pid u kind subject email primary t used d = d\<lparr>
     auth_providers := auth_providers d @ [\<lparr>ap_ID = pid, ap_UserID = u, ap_Kind = kind,
       ap_Subject = subject, ap_Email = Some email, ap_IsPrimary = primary, ap_LinkedAt = t,
       ap_LastLoginAt = used\<rparr>]\<rparr>"

definition added_password :: "uuid \<Rightarrow> string \<Rightarrow> time \<Rightarrow> db \<Rightarrow> db" where
  "added_password pid hash t d = d\<lparr>auth_passwords := auth_passwords d @
     [\<lparr>aw_AuthProviderID = pid, aw_Kind = AuthProviderKindPassword, aw_Hash = hash,
       aw_FailedAttempts = 0, aw_LockedUntil = None, aw_UpdatedAt = t\<rparr>]\<rparr>"

definition registered ::
  "Session \<Rightarrow> uuid \<Rightarrow> string \<Rightarrow> string \<Rightarrow> string \<Rightarrow> SignInContext \<Rightarrow> time \<Rightarrow> db \<Rightarrow> db" where
  "registered s pid email name hash sc t d =
     add_session s (Some pid) sc
       (added_password pid hash t
         (added_provider pid (ses_UserID s) AuthProviderKindPassword email email True t None
           (created_account (ses_UserID s) email name t d)))"

lemmas rows_added_defs = registered_def add_session_def added_password_def added_provider_def
  created_account_def

lemma registerTx_Inr:
  assumes "registerTx E S now email name pw sc w = (Inr s, w')" and "w_tx w = Some t"
  shows "\<exists>pid hash wh. HashPassword E pw (svc_params S) w = (Inr hash, wh)
    \<and> w_db w' = registered s pid email name hash sc t (w_db w)
    \<and> ses_ExpiresAt s = Policy_ExpiresAt (svc_policy S) now"
  using assms
  by (auto simp: registerTx_def call_Inr_iff run_query_Inr_iff CreateUser_def CreateUserProfile_def
      CreateAuthProvider_def CreateAuthPassword_def Let_def rows_added_defs
      dest!: NewV7_Inr openSession_Inr elim!: HashPassword_Inr split: if_splits)

lemma Register_cases:
  assumes "Register E S now p sc w = (r, w')"
  shows "(w_db w' = w_db w \<and> (\<exists>e. r = Inl e))
    \<or> (\<exists>s pid hash wh wh'. HashPassword E (reg_Password p) (svc_params S) wh = (Inr hash, wh')
        \<and> w_db w' = registered s pid (NormaliseEmail (e_unicode E) (reg_Email p))
             (TrimSpace (e_unicode E) (reg_DisplayName p)) hash sc (e_now E (w_tick w)) (w_db w)
        \<and> ses_ExpiresAt s = Policy_ExpiresAt (svc_policy S) now
        \<and> (r = Inr s \<or> (\<exists>e. r = Inl e)))"
proof (cases "NormaliseEmail (e_unicode E) (reg_Email p) = [] \<or> TrimSpace (e_unicode E) (reg_DisplayName p) = []")
  case True
  with assms show ?thesis by (auto simp: Register_def throw_def Let_def)
next
  case False
  let ?tx = "registerTx E S now (NormaliseEmail (e_unicode E) (reg_Email p))
    (TrimSpace (e_unicode E) (reg_DisplayName p)) (reg_Password p) sc"
  let ?w = "(tick w)\<lparr>w_tx := Some (e_now E (w_tick w))\<rparr>"
  obtain r1 w1 where tx: "InTx E ?tx w = (r1, w1)" by fastforce
  with assms False have w': "w' = w1" and r: "r = r1 \<or> ((\<exists>e. r = Inl e) \<and> (\<exists>e. r1 = Inl e))"
    by (auto simp: Register_def Let_def attempt_def throw_def return_def split: sum.splits if_splits)
  show ?thesis
  proof (cases "\<exists>x w2. ?tx ?w = (Inr x, w2) \<and> w_db w1 = w_db w2")
    case True
    then obtain x w2 where x: "?tx ?w = (Inr x, w2)" "w_db w1 = w_db w2" by auto
    have "r1 = Inr x \<or> (\<exists>e. r1 = Inl e)"
      using tx x by (auto simp: InTx_def split: option.splits fault.splits)
    with registerTx_Inr [OF x(1)] x(2) r w' show ?thesis by fastforce
  next
    case False
    then have "w_db w1 = w_db w" using InTx_atomic [of E ?tx w] tx by auto
    moreover have "\<exists>e. r1 = Inl e"
      using tx False by (auto simp: InTx_def split: option.splits fault.splits sum.splits prod.splits)
    ultimately show ?thesis using r w' by auto
  qed
qed

text \<open>
  C8. Registration is all or nothing, whichever calls to the database fail and however: either
  the tables are untouched and an error is returned, or exactly the five rows of a complete
  registration were added (user, profile, primary password sign-in method, password hash, session).
  A returned session means the second.
\<close>

theorem Register_all_or_nothing:
  "(case Register E S now p sc w of
      (Inl e, w') \<Rightarrow>
        w_db w' = w_db w
        \<or> (\<exists>s pid hash. w_db w' = registered s pid (NormaliseEmail (e_unicode E) (reg_Email p))
             (TrimSpace (e_unicode E) (reg_DisplayName p)) hash sc (e_now E (w_tick w)) (w_db w))
    | (Inr s, w') \<Rightarrow>
        ses_ExpiresAt s = Policy_ExpiresAt (svc_policy S) now
        \<and> (\<exists>pid hash. w_db w' = registered s pid (NormaliseEmail (e_unicode E) (reg_Email p))
             (TrimSpace (e_unicode E) (reg_DisplayName p)) hash sc (e_now E (w_tick w)) (w_db w)))"
  using Register_cases [of E S now p sc w]
  by (cases "Register E S now p sc w"; cases "fst (Register E S now p sc w)") fastforce+

section \<open>Federated sign-in\<close>

lemma createAccountFor_Inr:
  "createAccountFor E identity w = (Inr u, w') \<Longrightarrow> w_tx w = Some t \<Longrightarrow>
     w_db w' = created_account u (fi_Email identity) (displayNameFor (e_unicode E) identity) t (w_db w)
     \<and> w_tx w' = Some t \<and> u \<notin> u_ID ` set (users (w_db w))
     \<and> e_citext E (fi_Email identity) \<notin> (\<lambda>p. e_citext E (up_Email p)) ` set (user_profiles (w_db w))"
  by (auto simp: createAccountFor_def call_Inr_iff run_query_Inr_iff CreateUser_def
      CreateUserProfile_def Let_def created_account_def return_def dest!: NewV7_Inr split: if_splits)

text \<open>The account of a new identity: one that has the address, if it is verified, or a new one.\<close>

definition links_existing :: "env \<Rightarrow> FederatedIdentity \<Rightarrow> uuid \<Rightarrow> db \<Rightarrow> bool" where
  "links_existing E identity u d \<longleftrightarrow>
     fi_EmailVerified identity
     \<and> (\<exists>p \<in> set (user_profiles d). up_UserID p = u
          \<and> e_citext E (up_Email p) = e_citext E (fi_Email identity))"

lemma resolveAccountFor_Inr:
  assumes "resolveAccountFor E identity w = (Inr u, w')" and "w_tx w = Some t"
  shows "(links_existing E identity u (w_db w) \<and> w_db w' = w_db w \<and> w_tx w' = Some t)
    \<or> (w_db w' = created_account u (fi_Email identity) (displayNameFor (e_unicode E) identity) t (w_db w)
        \<and> w_tx w' = Some t \<and> u \<notin> u_ID ` set (users (w_db w))
        \<and> e_citext E (fi_Email identity) \<notin> (\<lambda>p. e_citext E (up_Email p)) ` set (user_profiles (w_db w)))"
proof (cases "fi_EmailVerified identity")
  case False
  with assms createAccountFor_Inr [of E identity w u w' t] show ?thesis
    by (simp add: resolveAccountFor_def)
next
  case True
  obtain r w1 where q: "run_query E (UserProfileByEmail (e_citext E) (fi_Email identity)) w = (r, w1)"
    by fastforce
  then have w1: "w_db w1 = w_db w" "w_tx w1 = Some t"
    using assms(2) by (auto simp: run_query_def UserProfileByEmail_def
        split: option.splits fault.splits sum.splits)
  show ?thesis
  proof (cases r)
    case (Inl e)
    with True assms(1) q have "createAccountFor E identity w1 = (Inr u, w')"
      by (auto simp: resolveAccountFor_def attempt_def throw_def split: if_splits)
    from createAccountFor_Inr [OF this w1(2)] show ?thesis by (simp add: w1)
  next
    case (Inr profile)
    with True assms(1) q have u: "u = up_UserID profile" and w': "w' = w1"
      by (auto simp: resolveAccountFor_def attempt_def return_def)
    from q Inr have "profile \<in> set (user_profiles (w_db w))"
      "e_citext E (up_Email profile) = e_citext E (fi_Email identity)"
      by (auto simp: run_query_Inr_iff UserProfileByEmail_def split: option.splits dest!: find_Some_in)
    with True u w' w1 show ?thesis by (auto simp: links_existing_def)
  qed
qed

definition linked ::
  "Session \<Rightarrow> uuid \<Rightarrow> FederatedIdentity \<Rightarrow> SignInContext \<Rightarrow> time \<Rightarrow> time \<Rightarrow> db \<Rightarrow> db" where
  "linked s pid identity sc now t d =
     add_session s (Some pid) sc
       (added_provider pid (ses_UserID s) AuthProviderKindGoogle (fi_Subject identity)
         (fi_Email identity) False t (Some now) d)"

lemma update_where_snoc_fresh:
  "k \<notin> key ` set rows \<Longrightarrow> update_where (\<lambda>r. key r = k) f rows = rows"
  by (rule update_where_none) auto

lemma linkIdentity_Inr:
  assumes "linkIdentity E S now identity sc w = (Inr s, w')" and "w_tx w = Some t"
  shows "\<exists>pid d1. w_db w' = linked s pid identity sc now t d1
    \<and> ((links_existing E identity (ses_UserID s) (w_db w) \<and> d1 = w_db w)
       \<or> (d1 = created_account (ses_UserID s) (fi_Email identity)
                 (displayNameFor (e_unicode E) identity) t (w_db w)
           \<and> ses_UserID s \<notin> u_ID ` set (users (w_db w))
           \<and> e_citext E (fi_Email identity) \<notin> (\<lambda>p. e_citext E (up_Email p)) ` set (user_profiles (w_db w))))"
proof -
  from assms(1) obtain u w1 where u: "resolveAccountFor E identity w = (Inr u, w1)"
    and rest: "call (NewV7 E) (Wrap ''new provider id'') (\<lambda>providerID.
        call (run_query E (CreateAuthProvider
                \<lparr>cap_ID = providerID, cap_UserID = u, cap_Kind = AuthProviderKindGoogle,
                 cap_Subject = fi_Subject identity, cap_Email = Some (fi_Email identity),
                 cap_IsPrimary = False\<rparr>))
          (Wrap ''link sign-in method'') (\<lambda>_.
        call (run_query E (MarkProviderUsed \<lparr>mpu_ID = providerID, mpu_LastLoginAt = now\<rparr>))
          (Wrap ''mark provider used'') (\<lambda>_.
        openSession E S u (Some providerID) now sc))) w1 = (Inr s, w')"
    by (auto simp: linkIdentity_def throw_def call_Inr_iff [of "resolveAccountFor E identity"]
        split: if_splits)
  have tx: "w_tx w1 = Some t" using resolveAccountFor_Inr [OF u assms(2)] by auto
  from rest tx have "\<exists>pid. w_db w' = linked s pid identity sc now t (w_db w1) \<and> ses_UserID s = u"
    by (auto simp: call_Inr_iff run_query_Inr_iff CreateAuthProvider_def MarkProviderUsed_def
        linked_def add_session_def added_provider_def Let_def update_where_snoc_fresh
        dest!: NewV7_Inr openSession_Inr split: if_splits)
  with resolveAccountFor_Inr [OF u assms(2)] show ?thesis by auto
qed

lemma googleTx_Inr:
  assumes "googleTx E S now identity sc w = (Inr s, w')" and "w_tx w = Some t"
  shows "(\<exists>p \<in> set (auth_providers (w_db w)). ap_Kind p = AuthProviderKindGoogle
        \<and> ap_Subject p = fi_Subject identity \<and> ap_UserID p = ses_UserID s
        \<and> w_db w' = add_session s (Some (ap_ID p)) sc ((w_db w)\<lparr>auth_providers :=
            update_where (\<lambda>q. ap_ID q = ap_ID p) (\<lambda>q. q\<lparr>ap_LastLoginAt := Some now\<rparr>)
              (auth_providers (w_db w))\<rparr>))
    \<or> (\<exists>w1. w_db w1 = w_db w \<and> w_tx w1 = Some t \<and> linkIdentity E S now identity sc w1 = (Inr s, w'))"
proof -
  obtain r w1 where q: "run_query E (ProviderByKindSubject
      \<lparr>pks_Kind = AuthProviderKindGoogle, pks_Subject = fi_Subject identity\<rparr>) w = (r, w1)"
    by fastforce
  then have w1: "w_db w1 = w_db w" "w_tx w1 = Some t"
    using assms(2) by (auto simp: run_query_def ProviderByKindSubject_def
        split: option.splits fault.splits sum.splits if_splits)
  show ?thesis
  proof (cases r)
    case (Inl e)
    with assms(1) q have "linkIdentity E S now identity sc w1 = (Inr s, w')"
      by (auto simp: googleTx_def attempt_def throw_def split: if_splits)
    with w1 show ?thesis by auto
  next
    case (Inr p)
    from q Inr have "p \<in> set (auth_providers (w_db w))" "ap_Kind p = AuthProviderKindGoogle"
      "ap_Subject p = fi_Subject identity"
      by (auto simp: run_query_Inr_iff ProviderByKindSubject_def split: option.splits if_splits
          dest!: find_Some_in)
    moreover have "w_db w' = add_session s (Some (ap_ID p)) sc ((w_db w)\<lparr>auth_providers :=
            update_where (\<lambda>q. ap_ID q = ap_ID p) (\<lambda>q. q\<lparr>ap_LastLoginAt := Some now\<rparr>)
              (auth_providers (w_db w))\<rparr>)" "ap_UserID p = ses_UserID s"
      using assms(1) q Inr w1
      by (auto simp: googleTx_def attempt_def call_Inr_iff run_query_Inr_iff MarkProviderUsed_def
          dest!: openSession_Inr)
    ultimately show ?thesis by blast
  qed
qed

section \<open>Reachable states\<close>

lemma has_way_in_registered: "has_way_in d \<Longrightarrow> has_way_in (registered s pid email name hash sc t d)"
  by (auto simp: has_way_in_def rows_added_defs)

lemma has_way_in_linked:
  "has_way_in d \<Longrightarrow> has_way_in (linked s pid identity sc now t d)"
  "has_way_in d \<Longrightarrow> has_way_in (linked s pid identity sc now t (created_account (ses_UserID s) e n t d))"
  by (auto simp: has_way_in_def linked_def rows_added_defs)

lemma has_way_in_Register: "keeps has_way_in (Register E S now p sc)"
  unfolding keeps_def using Register_cases has_way_in_registered
  by (metis prod.collapse)

lemma has_way_in_googleTx:
  assumes "googleTx E S now identity sc w = (Inr s, w')" "w_tx w = Some t" "has_way_in (w_db w)"
  shows "has_way_in (w_db w')"
  using googleTx_Inr [OF assms(1,2)]
proof (elim disjE exE conjE bexE)
  fix p assume "w_db w' = add_session s (Some (ap_ID p)) sc ((w_db w)\<lparr>auth_providers :=
            update_where (\<lambda>q. ap_ID q = ap_ID p) (\<lambda>q. q\<lparr>ap_LastLoginAt := Some now\<rparr>)
              (auth_providers (w_db w))\<rparr>)"
  then show ?thesis using assms(3) by (simp add: has_way_in_def add_session_def image_update_where)
next
  fix w1 assume "w_db w1 = w_db w" "w_tx w1 = Some t" "linkIdentity E S now identity sc w1 = (Inr s, w')"
  then show ?thesis
    using linkIdentity_Inr [of E S now identity sc w1 s w' t] assms(3) has_way_in_linked by metis
qed

lemma has_way_in_CompleteGoogleSignIn:
  "keeps has_way_in (CompleteGoogleSignIn E G S now code state flow sc)"
proof (rule keeps_CompleteGoogleSignIn, unfold keeps_def, intro allI impI)
  fix identity and w :: world assume P: "has_way_in (w_db w)"
  show "has_way_in (w_db (snd (InTx E (googleTx E S now identity sc) w)))"
    using InTx_atomic [of E "googleTx E S now identity sc" w]
  proof (elim disjE exE conjE)
    fix s w1 assume tx: "googleTx E S now identity sc ((tick w)\<lparr>w_tx := Some (e_now E (w_tick w))\<rparr>) = (Inr s, w1)"
      and db: "w_db (snd (InTx E (googleTx E S now identity sc) w)) = w_db w1"
    have "has_way_in (w_db w1)" by (rule has_way_in_googleTx [OF tx]) (simp_all add: P)
    then show ?thesis by (simp add: db)
  qed (simp add: P)
qed

text \<open>
  A step of the system: one method of the service runs, in some environment of a given set, at
  any instant, with any arguments. The tables afterwards are those the method left, also when it
  failed.
\<close>

inductive auth_step :: "env set \<Rightarrow> db \<Rightarrow> db \<Rightarrow> bool" for Env where
  step_Register: "E \<in> Env \<Longrightarrow> w_db w = d \<Longrightarrow>
    auth_step Env d (w_db (snd (Register E S now p sc w)))"
| step_SignIn: "E \<in> Env \<Longrightarrow> w_db w = d \<Longrightarrow>
    auth_step Env d (w_db (snd (SignInWithPassword E S now email pw sc w)))"
| step_Google: "E \<in> Env \<Longrightarrow> w_db w = d \<Longrightarrow>
    auth_step Env d (w_db (snd (CompleteGoogleSignIn E G S now code st flow sc w)))"
| step_Authenticate: "E \<in> Env \<Longrightarrow> w_db w = d \<Longrightarrow>
    auth_step Env d (w_db (snd (AuthenticatePrincipal E now token w)))"
| step_Revoke: "E \<in> Env \<Longrightarrow> w_db w = d \<Longrightarrow>
    auth_step Env d (w_db (snd (RevokeSession E now u i w)))"
| step_SignOut: "E \<in> Env \<Longrightarrow> w_db w = d \<Longrightarrow>
    auth_step Env d (w_db (snd (SignOut E now token w)))"
| step_Unlink: "E \<in> Env \<Longrightarrow> w_db w = d \<Longrightarrow>
    auth_step Env d (w_db (snd (UnlinkProvider E u i w)))"
| step_Sweep: "E \<in> Env \<Longrightarrow> w_db w = d \<Longrightarrow>
    auth_step Env d (w_db (snd (SweepExpired E now grace w)))"

text \<open>The environments of one database: the case folding is the database's.\<close>

definition envs_of :: "(string \<Rightarrow> string) \<Rightarrow> env set" where
  "envs_of cf = {E. e_citext E = cf}"

inductive auth_reachable :: "(string \<Rightarrow> string) \<Rightarrow> db \<Rightarrow> bool" for cf where
  reach_empty: "auth_reachable cf empty_db"
| reach_step: "auth_reachable cf d \<Longrightarrow> auth_step (envs_of cf) d d' \<Longrightarrow> auth_reachable cf d'"

lemma has_way_in_empty [simp]: "has_way_in empty_db"
  by (simp add: has_way_in_def empty_db_def)

text \<open>To show that steps keep a property, show that each method does.\<close>

lemma auth_step_keeps:
  assumes "auth_step Env d d'" and "P d"
    and "\<And>E S now p sc. E \<in> Env \<Longrightarrow> keeps P (Register E S now p sc)"
    and "\<And>E S now email pw sc. E \<in> Env \<Longrightarrow> keeps P (SignInWithPassword E S now email pw sc)"
    and "\<And>E G S now code st flow sc. E \<in> Env \<Longrightarrow> keeps P (CompleteGoogleSignIn E G S now code st flow sc)"
    and "\<And>tas. q_keeps P (TouchAuthSession tas)" and "\<And>rsi. q_keeps P (RevokeSessionByID rsi)"
    and "\<And>rst. q_keeps P (RevokeSessionByTokenHash rst)" and "\<And>dap. q_keeps P (DeleteAuthProvider dap)"
    and "\<And>c. q_keeps P (SweepExpiredSessions c)"
  shows "P d'"
  using assms by (induction rule: auth_step.induct) (auto intro!: keepsD [where P = P] keeps_session_methods)

text \<open>Or that each statement does.\<close>

lemma keeps_auth_step:
  assumes step: "auth_step Env d d'" and "P d"
    and stmts [keeps_intro]: "\<And>u. q_keeps P (CreateUser u)" "\<And>cf cup. q_keeps P (CreateUserProfile cf cup)"
      "\<And>cap. q_keeps P (CreateAuthProvider cap)" "\<And>cpw. q_keeps P (CreateAuthPassword cpw)"
      "\<And>cas. q_keeps P (CreateAuthSession cas)" "\<And>mpu. q_keeps P (MarkProviderUsed mpu)"
      "\<And>uph. q_keeps P (UpdatePasswordHash uph)" "\<And>i. q_keeps P (ClearFailedLogins i)"
      "\<And>rfl. q_keeps P (RecordFailedLogin rfl)" "\<And>tas. q_keeps P (TouchAuthSession tas)"
      "\<And>rsi. q_keeps P (RevokeSessionByID rsi)" "\<And>rst. q_keeps P (RevokeSessionByTokenHash rst)"
      "\<And>dap. q_keeps P (DeleteAuthProvider dap)" "\<And>swp. q_keeps P (SweepExpiredSessions swp)"
  shows "P d'"
proof (rule auth_step_keeps [where P = P, OF assms(1,2)])
  fix E :: env and S now p sc and email pw :: string
  have ses: "keeps P (openSession E S u p now sc)" for u p by (rule keeps_openSession) (rule stmts)
  have "keeps P (registerTx E S now email name pw sc)" for email name pw
    unfolding registerTx_def by (intro ses keeps_intro)
  then show "keeps P (Register E S now p sc)" by (intro keeps_Register keeps_InTx)
  show "keeps P (SignInWithPassword E S now email pw sc)" by (intro keeps_SignIn ses stmts)
  have "keeps P (googleTx E S now identity sc)" for identity
    unfolding googleTx_def linkIdentity_def resolveAccountFor_def createAccountFor_def
    by (auto intro!: ses keeps_intro split: sum.split)
  then show "keeps P (CompleteGoogleSignIn E G S now code st flow sc)" for G code st flow
    by (intro keeps_CompleteGoogleSignIn keeps_InTx)
qed (rule stmts)+

lemma auth_step_integrity:
  assumes "auth_step Env d d'" and "auth_ok cf d" and "Env \<subseteq> envs_of cf"
  shows "auth_ok cf d'"
proof (rule auth_step_keeps [where P = "auth_ok cf", OF assms(1,2)])
  fix E assume "E \<in> Env"
  then have cf: "cf = e_citext E" using assms(3) by (auto simp: envs_of_def)
  show "keeps (auth_ok cf) (Register E S now p sc)" for S now p sc
    unfolding cf by (rule integrity_Register)
  show "keeps (auth_ok cf) (SignInWithPassword E S now email pw sc)" for S now email pw sc
    unfolding cf by (rule integrity_SignIn)
  show "keeps (auth_ok cf) (CompleteGoogleSignIn E G S now code st flow sc)" for G S now code st flow sc
    unfolding cf by (rule integrity_CompleteGoogleSignIn)
qed (intro keeps_intro)+

lemma auth_step_has_way_in: "auth_step Env d d' \<Longrightarrow> has_way_in d \<Longrightarrow> has_way_in d'"
  by (erule auth_step_keeps [where P = has_way_in])
    (auto intro: has_way_in_Register has_way_in_CompleteGoogleSignIn intro!: keeps_intro)

text \<open>
  C6. In every state the service can reach from an empty database, through any sequence of its
  methods under any failures, the tables are sound (keys, references, formats and ranges hold)
  and no account is locked out: each user has at least one sign-in method.
\<close>

theorem auth_reachable_sound:
  "auth_reachable cf d \<Longrightarrow> auth_ok cf d \<and> has_way_in d"
  by (induction rule: auth_reachable.induct)
    (auto intro: auth_step_integrity [OF _ _ subset_refl] auth_step_has_way_in)

definition sample_registration :: RegisterParams where
  "sample_registration = \<lparr>reg_Email = '' Ann@X.org'', reg_Password = ''secret'',
     reg_DisplayName = ''Ann''\<rparr>"

definition sample_sic :: SignInContext where
  "sample_sic = \<lparr>sic_UserAgent = ''curl'', sic_IP = None\<rparr>"

theorem auth_reachable_sound_witness:
  "has_way_in (w_db (snd (Register calm_env (NewService None) 0 sample_registration sample_sic fresh_world)))"
proof -
  have "auth_reachable (map lower_char)
      (w_db (snd (Register calm_env (NewService None) 0 sample_registration sample_sic fresh_world)))"
    by (intro reach_step [OF reach_empty] step_Register) (simp_all add: fresh_world_def envs_of_def)
  then show ?thesis by (rule auth_reachable_sound [THEN conjunct2])
qed

end
