(* ===== verification/Auth_Behaviour.thy ===== *)
theory Auth_Behaviour
  imports Auth_Safety
begin

text \<open>
  What the authentication service answers: tokens and sessions, sign-out, sweeping, revocation,
  the lockout of a credential, and the unlinking of sign-in methods.
\<close>

section \<open>Tokens\<close>

lemma with_provider_kind_simps [simp]:
  "as_ID (with_provider_kind d s) = as_ID s" "as_UserID (with_provider_kind d s) = as_UserID s"
  "ls_ProviderKind (with_provider_kind d s) =
     map_option ap_Kind (find (\<lambda>p. Some (ap_ID p) = as_AuthProviderID s) (auth_providers d))"
  by (simp_all add: with_provider_kind_def AuthSession.defs LiveSessionRow.defs)

lemma LiveSession_lookup:
  "(\<exists>row d'. LiveSessionByTokenHash \<lparr>lst_TokenHash = h, lst_Now = t\<rparr> now d = Inr (row, d') \<and> as_ID row = i)
     \<longleftrightarrow> session_lookup d t h = Some i"
  by (auto simp: LiveSessionByTokenHash_def session_lookup_def split: option.splits)

lemma LiveSession_lookup_None:
  "session_lookup d t h = None \<Longrightarrow>
     LiveSessionByTokenHash \<lparr>lst_TokenHash = h, lst_Now = t\<rparr> now d = Inl ErrNoRows"
  by (auto simp: LiveSessionByTokenHash_def session_lookup_def split: option.splits)

lemma errors_Is_NoRows [simp]: "errors_Is ErrNoRows ErrNoRows"
  by (simp add: errors_Is_def)

text \<open>
  Authentication follows the session table: with the database answering, a token
  authenticates at an instant exactly when its hash belongs to a session that is neither revoked
  nor expired then, as the user and session of that row; any other token gets \<^verbatim>\<open>ErrNoSession\<close>.
\<close>

theorem AuthenticatePrincipal_iff:
  assumes "\<forall>n. e_fault E n = None"
  shows "fst (AuthenticatePrincipal E t token w) =
    (case find (\<lambda>s. as_TokenHash s = HashToken token \<and> as_RevokedAt s = None \<and> t < as_ExpiresAt s)
            (auth_sessions (w_db w)) of
       None \<Rightarrow> Inl ErrNoSession
     | Some s \<Rightarrow>
         Inr \<lparr>pr_UserID = as_UserID s, pr_SessionID = as_ID s,
              pr_ProviderKind = (case as_AuthProviderID s of
                 None \<Rightarrow> []
               | Some i \<Rightarrow> (case find (\<lambda>p. ap_ID p = i) (auth_providers (w_db w)) of
                              None \<Rightarrow> [] | Some p \<Rightarrow> ap_Kind p))\<rparr>)"
proof -
  have none: "find (\<lambda>p. False) ps = None" for ps :: "AuthProvider list"
    by (simp add: find_None_iff)
  have some: "find (\<lambda>p. Some (ap_ID p) = Some i) ps = find (\<lambda>p. ap_ID p = i) ps" for i ps
    by simp
  show ?thesis
    using assms
    by (auto simp: AuthenticatePrincipal_def Authenticate_def call_def attempt_def best_effort_def
        run_query_def LiveSessionByTokenHash_def live_def TouchAuthSession_def return_def throw_def
        providerKind_def none some split: option.splits)
qed

definition one_session :: "AuthSession" where
  "one_session = \<lparr>as_ID = 7, as_UserID = 3, as_AuthProviderID = None,
     as_TokenHash = HashToken ''tok'', as_IssuedAt = 0, as_LastSeenAt = 0, as_ExpiresAt = 100,
     as_RevokedAt = None, as_UserAgent = [], as_Ip = None\<rparr>"

definition one_session_world :: world where
  "one_session_world = fresh_world\<lparr>w_db := empty_db\<lparr>
     users := [\<lparr>u_ID = 3, u_CreatedAt = 0, u_UpdatedAt = 0\<rparr>], auth_sessions := [one_session]\<rparr>\<rparr>"

lemma auth_ok_one_session: "auth_ok cf (w_db one_session_world)"
  by (simp add: one_session_world_def one_session_def integrity_defs empty_db_def)

theorem AuthenticatePrincipal_iff_witness:
  "fst (AuthenticatePrincipal calm_env 99 ''tok'' one_session_world)
     = Inr \<lparr>pr_UserID = 3, pr_SessionID = 7, pr_ProviderKind = []\<rparr>
   \<and> fst (AuthenticatePrincipal calm_env 100 ''tok'' one_session_world) = Inl ErrNoSession"
  by (subst (1 2) AuthenticatePrincipal_iff)
    (simp_all add: one_session_world_def one_session_def)

section \<open>A dead token stays dead\<close>

definition token_dead :: "byte list \<Rightarrow> db \<Rightarrow> bool" where
  "token_dead h d \<longleftrightarrow> session_inv d \<and> (\<forall>t. session_lookup d t h = None)"

text \<open>Statements that do not touch the sessions, and those that do.\<close>

lemma token_dead_quiet:
  assumes "token_dead h d" and "pg.quiet h d d'"
  shows "token_dead h d'"
  using assms pg.quiet_inv pg.dead_stays_dead unfolding token_dead_def by metis

lemma token_dead_unrelated [keeps_intro]:
  "q_keeps (token_dead h) (CreateUser u)" "q_keeps (token_dead h) (CreateUserProfile cf cup)"
  "q_keeps (token_dead h) (CreateAuthProvider cap)" "q_keeps (token_dead h) (MarkProviderUsed mpu)"
  "q_keeps (token_dead h) (CreateAuthPassword caw)" "q_keeps (token_dead h) (RecordFailedLogin rfl)"
  "q_keeps (token_dead h) (ClearFailedLogins i)" "q_keeps (token_dead h) (UpdatePasswordHash uph)"
  "q_keeps (token_dead h) (TouchAuthSession tas)" "q_keeps (token_dead h) (DeleteAuthProvider dap)"
  by (rule q_keepsI, erule token_dead_quiet,
      auto intro!: pg.quiet_unrelated [OF pg.quiet_refl]
        simp: sessions_unrelated_def sql_simps Let_def session_key_def
        split: option.splits if_splits)+

lemma token_dead_revoke [keeps_intro]:
  "q_keeps (token_dead h) (RevokeSessionByTokenHash rst)"
  by (rule q_keepsI, erule token_dead_quiet,
      rule pg.quiet_revoked [OF pg.quiet_refl, where k = "rst_TokenHash rst"])
    (unfold session_revoked_def, blast)

lemma token_dead_revoke_id [keeps_intro]: "q_keeps (token_dead h) (RevokeSessionByID rsi)"
proof (rule q_keepsI, erule token_dead_quiet)
  fix t d n d' assume q: "RevokeSessionByID rsi t d = Inr (n, d')"
  show "pg.quiet h d d'"
  proof (cases "n = 0")
    case True
    with q have "auth_sessions d' = auth_sessions d"
      by (auto simp: RevokeSessionByID_def Let_def filter_empty_conv intro!: update_where_none)
    then show ?thesis
      by (intro pg.quiet_unrelated [OF pg.quiet_refl]) (simp add: sessions_unrelated_def)
  next
    case False
    with q have "session_revoked_id d (rsi_SessionID rsi) d'" by (auto simp: session_revoked_id_def)
    then show ?thesis by (rule pg.quiet_revoked_id [OF pg.quiet_refl])
  qed
qed

lemma token_dead_sweep [keeps_intro]: "q_keeps (token_dead h) (SweepExpiredSessions c)"
  by (rule q_keepsI, erule token_dead_quiet, rule pg.quiet_swept [OF pg.quiet_refl, where c = c])
    (unfold session_swept_def, blast)

text \<open>An environment whose random bytes never give the token \<open>h\<close> again.\<close>

definition never_issues :: "byte list \<Rightarrow> env \<Rightarrow> bool" where
  "never_issues h E \<longleftrightarrow>
     (\<forall>n raw. e_rand E n tokenBytes = Some raw \<longrightarrow> HashToken (RawURL_EncodeToString raw) \<noteq> h)"

lemma never_issuesD:
  "e_rand E n tokenBytes = Some raw \<Longrightarrow> never_issues (HashToken (RawURL_EncodeToString raw)) E \<Longrightarrow> False"
  unfolding never_issues_def by blast

lemma keeps_call_dep:
  "keeps P m \<Longrightarrow> (\<And>w x w1. m w = (Inr x, w1) \<Longrightarrow> keeps P (k x)) \<Longrightarrow> keeps P (call m h k)"
  unfolding keeps_def call_def
  by (auto split: prod.splits sum.splits)

lemma token_dead_CreateAuthSession:
  "cas_TokenHash cas \<noteq> h \<Longrightarrow> q_keeps (token_dead h) (CreateAuthSession cas)"
  by (rule q_keepsI, erule token_dead_quiet, rule pg.quiet_opened [OF pg.quiet_refl,
        where k = "cas_TokenHash cas" and i = "cas_ID cas" and e = "cas_ExpiresAt cas"])
    (unfold session_opened_def, blast+)

lemma token_dead_openSession:
  "never_issues h E \<Longrightarrow> keeps (token_dead h) (openSession E S u p now sc)"
  unfolding openSession_def
  by (rule keeps_call_dep, rule keeps_NewToken)
    (auto intro!: keeps_intro token_dead_CreateAuthSession
      dest!: NewToken_Inr dest: never_issuesD)

lemma token_dead_createAccountFor: "keeps (token_dead h) (createAccountFor E identity)"
  unfolding createAccountFor_def by (intro keeps_intro)

lemma token_dead_resolveAccountFor: "keeps (token_dead h) (resolveAccountFor E identity)"
  unfolding resolveAccountFor_def
  by (auto intro!: keeps_intro token_dead_createAccountFor split: sum.split)

lemma token_dead_googleTx:
  "never_issues h E \<Longrightarrow> keeps (token_dead h) (googleTx E S now identity sc)"
  unfolding googleTx_def linkIdentity_def
  by (auto intro!: keeps_intro token_dead_openSession token_dead_resolveAccountFor split: sum.split)

lemma token_dead_registerTx:
  "never_issues h E \<Longrightarrow> keeps (token_dead h) (registerTx E S now email name pw sc)"
  unfolding registerTx_def by (auto intro!: keeps_intro token_dead_openSession)

lemma token_dead_step:
  assumes "auth_step Env d d'" and "Env \<subseteq> {E. never_issues h E}" and "token_dead h d"
  shows "token_dead h d'"
proof (rule auth_step_keeps [where P = "token_dead h", OF assms(1,3)])
  fix E assume "E \<in> Env"
  then have fresh: "never_issues h E" using assms(2) by auto
  show "keeps (token_dead h) (Register E S now p sc)" for S now p sc
    by (intro keeps_Register keeps_InTx token_dead_registerTx fresh)
  show "keeps (token_dead h) (SignInWithPassword E S now email pw sc)" for S now email pw sc
    by (intro keeps_SignIn token_dead_unrelated token_dead_openSession fresh)
  show "keeps (token_dead h) (CompleteGoogleSignIn E G S now code st flow sc)" for G S now code st flow sc
    by (intro keeps_CompleteGoogleSignIn keeps_InTx token_dead_googleTx fresh)
qed (intro keeps_intro)+

lemma token_dead_steps:
  "(auth_step Env)\<^sup>*\<^sup>* d d' \<Longrightarrow> Env \<subseteq> {E. never_issues h E} \<Longrightarrow> token_dead h d \<Longrightarrow> token_dead h d'"
  by (induction rule: rtranclp_induct) (auto intro: token_dead_step)

lemma SignOut_dead:
  assumes "SignOut E now token w = (Inr (), w')" and "auth_ok cf (w_db w)"
  shows "token_dead (HashToken token) (w_db w')"
proof -
  have "session_revoked (w_db w) (HashToken token) (w_db w')"
    using assms(1) by (force simp: SignOut_def call_Inr_iff run_query_Inr_iff return_def session_revoked_def)
  then show ?thesis
    using auth_ok_session_inv [OF assms(2)] pg.inv_kept(2) pg.lookup_revoked
    by (auto simp: token_dead_def)
qed

lemma token_dead_Authenticate:
  assumes "token_dead (HashToken token) (w_db w)"
  shows "\<exists>e. fst (AuthenticatePrincipal E t token w) = Inl e"
proof -
  have "LiveSessionByTokenHash \<lparr>lst_TokenHash = HashToken token, lst_Now = t\<rparr> n (w_db w) = Inl ErrNoRows"
    for n using assms by (intro LiveSession_lookup_None) (simp add: token_dead_def)
  then show ?thesis
    by (auto simp: AuthenticatePrincipal_def Authenticate_def call_def attempt_def run_query_def
        throw_def split: option.splits fault.splits)
qed

text \<open>
  C9. Signing out is final: once \<^verbatim>\<open>SignOut\<close> has returned, no sequence of further calls of the
  service, under any failures, makes the token authenticate again at any instant, as long as the
  random source does not produce a token with the same hash.
\<close>

theorem SignOut_is_final:
  assumes "auth_ok cf (w_db w)" and "SignOut E now token w = (Inr (), w1)"
    and "(auth_step {F. never_issues (HashToken token) F})\<^sup>*\<^sup>* (w_db w1) (w_db w2)"
  shows "\<exists>e. fst (AuthenticatePrincipal E' t token w2) = Inl e"
  using token_dead_steps [OF assms(3) subset_refl SignOut_dead [OF assms(2,1)]]
  by (rule token_dead_Authenticate)

theorem SignOut_is_final_witness:
  "\<exists>e. fst (AuthenticatePrincipal calm_env 50 ''tok''
     (snd (SweepExpired (calm_env\<lparr>e_rand := (\<lambda>_ _. None)\<rparr>) 20 0
       (snd (SignOut calm_env 10 ''tok'' one_session_world))))) = Inl e"
proof (rule SignOut_is_final [OF auth_ok_one_session])
  show "SignOut calm_env 10 ''tok'' one_session_world
      = (Inr (), snd (SignOut calm_env 10 ''tok'' one_session_world))"
    by (simp add: SignOut_def call_def run_query_def RevokeSessionByTokenHash_def return_def
        Let_def)
  show "(auth_step {F. never_issues (HashToken ''tok'') F})\<^sup>*\<^sup>*
      (w_db (snd (SignOut calm_env 10 ''tok'' one_session_world)))
      (w_db (snd (SweepExpired (calm_env\<lparr>e_rand := (\<lambda>_ _. None)\<rparr>) 20 0
        (snd (SignOut calm_env 10 ''tok'' one_session_world)))))"
    by (intro r_into_rtranclp step_Sweep refl) (simp add: never_issues_def)
qed

section \<open>Sweeping and revoking\<close>

text \<open>
  Sweeping never signs anyone out: with a grace period that is not negative, whatever the
  sweep does or fails to do, every token resolves from now on to the same session as without it.
\<close>

theorem SweepExpired_only_dead:
  assumes "auth_ok cf (w_db w)" and "0 \<le> grace" and "now \<le> t"
  shows "session_lookup (w_db (snd (SweepExpired E now grace w))) t h = session_lookup (w_db w) t h"
proof -
  let ?d = "w_db (snd (SweepExpired E now grace w))"
  have "?d = w_db (snd (run_query E (SweepExpiredSessions (now - grace)) w))"
    by (auto simp: SweepExpired_def call_def return_def split: prod.splits sum.splits)
  then consider "?d = w_db w" | "session_swept (w_db w) (now - grace) ?d"
    using run_query_db [of E "SweepExpiredSessions (now - grace)" w]
    unfolding session_swept_def by fastforce
  then show ?thesis
    using pg.swept_only_dead [OF auth_ok_session_inv [OF assms(1)]] assms(2,3) by cases auto
qed

theorem SweepExpired_only_dead_witness:
  "session_lookup (w_db (snd (SweepExpired calm_env 50 10 one_session_world))) 60 (HashToken ''tok'')
     = session_lookup (w_db one_session_world) 60 (HashToken ''tok'')"
  by (rule SweepExpired_only_dead [OF auth_ok_one_session]) simp_all

lemma ex_update_where:
  "(\<And>r. p r \<Longrightarrow> q (f r) = q r) \<Longrightarrow> (\<exists>r \<in> set (update_where p f rows). q r) \<longleftrightarrow> (\<exists>r \<in> set rows. q r)"
  by (induction rows) auto

lemma RevokeSession_calm:
  assumes "\<forall>n. e_fault E n = None"
  shows "RevokeSession E now u i w =
    (if \<exists>s \<in> set (auth_sessions (w_db w)). as_ID s = i \<and> as_UserID s = u then Inr () else Inl ErrNotFound,
     (tick w)\<lparr>w_db := (w_db w)\<lparr>auth_sessions :=
       update_where (\<lambda>s. as_ID s = i \<and> as_UserID s = u)
         (\<lambda>s. s\<lparr>as_RevokedAt := coalesce (as_RevokedAt s) now\<rparr>)
         (auth_sessions (w_db w))\<rparr>\<rparr>)"
  using assms
  by (auto simp: RevokeSession_def call_def run_query_def RevokeSessionByID_def Let_def return_def
      throw_def filter_empty_conv)

text \<open>
  Revoking a session is confined to its owner and idempotent. With the database answering:
  an identifier that is not a session of the caller gives \<^verbatim>\<open>ErrNotFound\<close> and changes no table; one
  that is succeeds, from then on no token resolves to that session, what every other token
  resolves to is unchanged, and a second call succeeds and changes nothing.
\<close>

theorem RevokeSession_confined:
  assumes "\<forall>n. e_fault E n = None" and "auth_ok cf (w_db w)"
  shows "(if \<exists>s \<in> set (auth_sessions (w_db w)). as_ID s = i \<and> as_UserID s = u
     then fst (RevokeSession E now u i w) = Inr ()
       \<and> session_lookup (w_db (snd (RevokeSession E now u i w))) t h =
           (if session_lookup (w_db w) t h = Some i then None else session_lookup (w_db w) t h)
       \<and> fst (RevokeSession E now' u i (snd (RevokeSession E now u i w))) = Inr ()
       \<and> w_db (snd (RevokeSession E now' u i (snd (RevokeSession E now u i w))))
           = w_db (snd (RevokeSession E now u i w))
     else fst (RevokeSession E now u i w) = Inl ErrNotFound
       \<and> w_db (snd (RevokeSession E now u i w)) = w_db w)"
proof (cases "\<exists>s \<in> set (auth_sessions (w_db w)). as_ID s = i \<and> as_UserID s = u")
  case False
  then have "update_where (\<lambda>s. as_ID s = i \<and> as_UserID s = u)
         (\<lambda>s. s\<lparr>as_RevokedAt := coalesce (as_RevokedAt s) now\<rparr>)
         (auth_sessions (w_db w)) = auth_sessions (w_db w)"
    by (intro update_where_none) auto
  then show ?thesis unfolding if_not_P [OF False] RevokeSession_calm [OF assms(1)] using False by simp
next
  case True
  let ?f = "\<lambda>now s. s\<lparr>as_RevokedAt := coalesce (as_RevokedAt s) now\<rparr>"
  let ?p = "\<lambda>s. as_ID s = i \<and> as_UserID s = u"
  have idem: "update_where ?p (?f now') (update_where ?p (?f now) rows) = update_where ?p (?f now) rows"
    for rows by (induction rows) (auto split: option.splits)
  have still: "\<exists>s \<in> set (update_where ?p (?f now) (auth_sessions (w_db w))). ?p s"
    using True by (simp add: ex_update_where)
  obtain n where q: "RevokeSessionByID \<lparr>rsi_RevokedAt = now, rsi_SessionID = i, rsi_UserID = u\<rparr> 0 (w_db w)
      = Inr (n, w_db (snd (RevokeSession E now u i w)))" "n \<noteq> 0"
    using True by (auto simp: RevokeSessionByID_def RevokeSession_calm [OF assms(1)] Let_def filter_empty_conv)
  then have "session_revoked_id (w_db w) i (w_db (snd (RevokeSession E now u i w)))"
    unfolding session_revoked_id_def by (metis RevokeSessionByIDParams.select_convs(2))
  from pg.lookup_revoked_id [OF auth_ok_session_inv [OF assms(2)] this]
  show ?thesis unfolding if_P [OF True] using True still by (simp add: RevokeSession_calm [OF assms(1)] idem)
qed

theorem RevokeSession_confined_witness:
  "fst (RevokeSession calm_env 5 3 7 one_session_world) = Inr ()
   \<and> fst (RevokeSession calm_env 5 4 7 one_session_world) = Inl ErrNotFound
   \<and> w_db (snd (RevokeSession calm_env 5 4 7 one_session_world)) = w_db one_session_world"
  using RevokeSession_confined [OF _ auth_ok_one_session, of calm_env 7 3 5]
    RevokeSession_confined [OF _ auth_ok_one_session, of calm_env 7 4 5]
  by (simp add: one_session_world_def one_session_def)

end
