(* ===== verification/Auth_Lockout.thy ===== *)
theory Auth_Lockout
  imports Auth_Behaviour
begin

text \<open>
  Signing in with a password: the answers to an unknown address, a wrong password, a locked
  credential and a correct password, and the lockout that a run of wrong passwords causes.
\<close>

section \<open>Credentials\<close>

definition credential :: "db \<Rightarrow> string \<Rightarrow> AuthProvider \<Rightarrow> AuthPassword \<Rightarrow> bool" where
  "credential d email p a \<longleftrightarrow>
     p \<in> set (auth_providers d) \<and> ap_Kind p = AuthProviderKindPassword \<and> ap_Subject p = email
     \<and> a \<in> set (auth_passwords d) \<and> aw_AuthProviderID a = ap_ID p"

lemma find_the_only:
  "x \<in> set xs \<Longrightarrow> P x \<Longrightarrow> (\<And>y. y \<in> set xs \<Longrightarrow> P y \<Longrightarrow> y = x) \<Longrightarrow> find P xs = Some x"
proof -
  assume x: "x \<in> set xs" "P x" and only: "\<And>y. y \<in> set xs \<Longrightarrow> P y \<Longrightarrow> y = x"
  then have "find P xs \<noteq> None" by (auto simp: find_None_iff)
  then obtain y where "find P xs = Some y" by auto
  with only show ?thesis by (metis find_Some_in)
qed

lemma tick_same_db [simp]: "(tick w)\<lparr>w_db := w_db w\<rparr> = tick w"
  by (cases w) (simp add: tick_def)

definition credential_row :: "AuthProvider \<Rightarrow> AuthPassword \<Rightarrow> GetPasswordCredentialRow" where
  "credential_row p a = \<lparr>gpc_ProviderID = ap_ID p, gpc_UserID = ap_UserID p,
     gpc_Subject = ap_Subject p, gpc_Hash = aw_Hash a, gpc_FailedAttempts = aw_FailedAttempts a,
     gpc_LockedUntil = aw_LockedUntil a\<rparr>"

lemma GetPasswordCredential_found:
  assumes "auth_ok cf d" and "credential d email p a"
  shows "GetPasswordCredential email t d = Inr (credential_row p a, d)"
proof -
  have "find (\<lambda>(p, a). ap_Kind p = AuthProviderKindPassword \<and> ap_Subject p = email) (password_join d)
      = Some (p, a)"
  proof (rule find_the_only, goal_cases)
    case 1
    then show ?case using assms(2) by (simp add: password_join_def credential_def)
  next
    case 2
    then show ?case using assms(2) by (simp add: credential_def)
  next
    case (3 y)
    obtain q b where y: "y = (q, b)" by fastforce
    with 3 have "q \<in> set (auth_providers d)" "(ap_Kind q, ap_Subject q) = (ap_Kind p, ap_Subject p)"
      and b: "b \<in> set (auth_passwords d)" "aw_AuthProviderID b = ap_ID q"
      using assms(2) by (auto simp: password_join_def credential_def)
    then have "q = p" using assms
      by (auto simp: auth_ok_def providers_ok_def credential_def
          intro: key_unique [where key = "\<lambda>p. (ap_Kind p, ap_Subject p)"])
    moreover from this b have "b = a" using assms
      by (auto simp: auth_ok_def passwords_ok_def credential_def intro: key_unique)
    ultimately show ?case using y by simp
  qed
  then show ?thesis by (simp add: GetPasswordCredential_def credential_row_def)
qed

lemma GetPasswordCredential_unknown:
  assumes "\<forall>p \<in> set (auth_providers d). \<not> (ap_Kind p = AuthProviderKindPassword \<and> ap_Subject p = email)"
  shows "GetPasswordCredential email t d = Inl ErrNoRows"
proof -
  have "find (\<lambda>(p, a). ap_Kind p = AuthProviderKindPassword \<and> ap_Subject p = email) (password_join d) = None"
    using assms by (auto simp: find_None_iff password_join_def)
  then show ?thesis by (simp add: GetPasswordCredential_def)
qed

lemma errors_Is_Mismatch [simp]: "errors_Is ErrPasswordMismatch ErrPasswordMismatch"
  by (simp add: errors_Is_def)

section \<open>Each outcome\<close>

text \<open>One failed attempt, on the tables.\<close>

definition failure_counted :: "Policy \<Rightarrow> time \<Rightarrow> time \<Rightarrow> uuid \<Rightarrow> db \<Rightarrow> db" where
  "failure_counted pol now t pid d = d\<lparr>auth_passwords :=
     update_where (\<lambda>a. aw_AuthProviderID a = pid)
       (count_failure \<lparr>rfl_MaxAttempts = MaxFailedAttempts pol,
          rfl_LockUntil = Policy_LockedUntil pol now, rfl_ProviderID = pid\<rparr> t)
       (auth_passwords d)\<rparr>"

lemma SignIn_unknown:
  assumes "\<forall>n. e_fault E n = None"
    and "\<forall>p \<in> set (auth_providers (w_db w)).
      \<not> (ap_Kind p = AuthProviderKindPassword \<and> ap_Subject p = NormaliseEmail (e_unicode E) email)"
    and "\<forall>e. VerifyPassword E pw dummyHash = Some e \<longrightarrow> \<not> is_panic e"
  shows "SignInWithPassword E S now email pw sc w = (Inl ErrBadCredentials, tick w)"
  using assms(1,3)
  by (auto simp: SignInWithPassword_def attempt_def run_query_def
      GetPasswordCredential_unknown [OF assms(2)] throw_def split: option.split)

lemma SignIn_locked:
  assumes "\<forall>n. e_fault E n = None" and "auth_ok cf (w_db w)"
    and "credential (w_db w) (NormaliseEmail (e_unicode E) email) p a"
    and "aw_LockedUntil a = Some u" and "now < u"
  shows "SignInWithPassword E S now email pw sc w = (Inl (LockoutError u), tick w)"
  using assms(1,4,5)
  by (simp add: SignInWithPassword_def attempt_def run_query_def throw_def credential_row_def
      GetPasswordCredential_found [OF assms(2,3)] is_after_def)

lemma find_password:
  assumes "auth_ok cf d" and "credential d email p a"
  shows "find (\<lambda>b. aw_AuthProviderID b = ap_ID p) (auth_passwords d) = Some a"
  using assms find_unique [of aw_AuthProviderID "auth_passwords d" a]
  by (simp add: auth_ok_def passwords_ok_def credential_def)

lemma SignIn_wrong:
  assumes calm: "\<forall>n. e_fault E n = None" and ok: "auth_ok cf (w_db w)"
    and cred: "credential (w_db w) (NormaliseEmail (e_unicode E) email) p a"
    and unlocked: "\<not> is_after (aw_LockedUntil a) now"
    and wrong: "VerifyPassword E pw (aw_Hash a) = Some ErrPasswordMismatch"
    and count: "aw_FailedAttempts a < 32767" and lock: "0 < LockDuration (svc_policy S)"
  shows "\<exists>w' t. SignInWithPassword E S now email pw sc w =
      (Inl (if aw_FailedAttempts a + 1 \<ge> MaxFailedAttempts (svc_policy S)
            then LockoutError (Policy_LockedUntil (svc_policy S) now) else ErrBadCredentials), w')
    \<and> w_db w' = failure_counted (svc_policy S) now t (ap_ID p) (w_db w)"
proof -
  have "SignInWithPassword E S now email pw sc w = recordFailure E S (ap_ID p) now (tick w)"
    using calm unlocked wrong
    by (simp add: SignInWithPassword_def attempt_def run_query_def
        GetPasswordCredential_found [OF ok cred] credential_row_def)
  then show ?thesis
    using calm count unlocked lock find_password [OF ok cred]
    by (auto simp: recordFailure_def call_def run_query_def RecordFailedLogin_def throw_def
        failure_counted_def count_failure_def is_after_def Policy_LockedUntil_def Let_def
        split: option.splits)
qed

section \<open>A run of attempts\<close>

fun sign_ins ::
  "env \<Rightarrow> Service \<Rightarrow> string \<Rightarrow> SignInContext \<Rightarrow> (time \<times> string) list \<Rightarrow> world \<Rightarrow>
     (go_error + Session) list \<times> world" where
  "sign_ins E S email sc [] w = ([], w)"
| "sign_ins E S email sc ((now, pw) # ats) w =
     (case SignInWithPassword E S now email pw sc w of
        (r, w1) \<Rightarrow> (case sign_ins E S email sc ats w1 of (rs, w2) \<Rightarrow> (r # rs, w2)))"

lemma sign_ins_append:
  "sign_ins E S email sc (as @ bs) w =
     (case sign_ins E S email sc as w of
        (rs, w1) \<Rightarrow> (case sign_ins E S email sc bs w1 of (rs', w2) \<Rightarrow> (rs @ rs', w2)))"
  by (induction as arbitrary: w) (auto split: prod.splits)

lemma credential_counted:
  "credential d email p a \<Longrightarrow> \<exists>a'. credential (failure_counted pol now t (ap_ID p) d) email p a'
     \<and> aw_Hash a' = aw_Hash a \<and> aw_FailedAttempts a' = aw_FailedAttempts a + 1
     \<and> aw_LockedUntil a' = (if aw_FailedAttempts a + 1 \<ge> MaxFailedAttempts pol
                            then Some (Policy_LockedUntil pol now) else aw_LockedUntil a)"
  by (intro exI [where x = "count_failure \<lparr>rfl_MaxAttempts = MaxFailedAttempts pol,
          rfl_LockUntil = Policy_LockedUntil pol now, rfl_ProviderID = ap_ID p\<rparr> t a"])
    (auto simp: credential_def failure_counted_def count_failure_def update_where_def)

lemma auth_ok_SignIn:
  "SignInWithPassword E S now email pw sc w = (r, w') \<Longrightarrow> auth_ok (e_citext E) (w_db w) \<Longrightarrow>
     auth_ok (e_citext E) (w_db w')"
  using integrity_SignIn [THEN keepsD, of E w S now email pw sc] by simp

text \<open>The state a run of wrong passwords works on.\<close>

definition counting :: "env \<Rightarrow> string \<Rightarrow> string \<Rightarrow> int \<Rightarrow> time option \<Rightarrow> db \<Rightarrow> bool" where
  "counting E email hash k locked d \<longleftrightarrow>
     auth_ok (e_citext E) d
     \<and> (\<exists>p a. credential d (NormaliseEmail (e_unicode E) email) p a \<and> aw_Hash a = hash
          \<and> aw_FailedAttempts a = k \<and> aw_LockedUntil a = locked)"

lemma counting_wrong:
  assumes "\<forall>n. e_fault E n = None" and "counting E email hash k locked (w_db w)"
    and "\<not> is_after locked now" and "VerifyPassword E pw hash = Some ErrPasswordMismatch"
    and "k < 32767" and "0 < LockDuration (svc_policy S)"
  shows "\<exists>w'. SignInWithPassword E S now email pw sc w =
      (Inl (if k + 1 \<ge> MaxFailedAttempts (svc_policy S)
            then LockoutError (Policy_LockedUntil (svc_policy S) now) else ErrBadCredentials), w')
    \<and> counting E email hash (k + 1)
        (if k + 1 \<ge> MaxFailedAttempts (svc_policy S)
         then Some (Policy_LockedUntil (svc_policy S) now) else locked) (w_db w')"
proof -
  obtain p a where ok: "auth_ok (e_citext E) (w_db w)"
    and cred: "credential (w_db w) (NormaliseEmail (e_unicode E) email) p a"
    and a: "aw_Hash a = hash" "aw_FailedAttempts a = k" "aw_LockedUntil a = locked"
    using assms(2) by (auto simp: counting_def)
  from SignIn_wrong [OF assms(1) ok cred, of now pw S sc] assms a
  obtain w' t where w': "SignInWithPassword E S now email pw sc w =
      (Inl (if k + 1 \<ge> MaxFailedAttempts (svc_policy S)
            then LockoutError (Policy_LockedUntil (svc_policy S) now) else ErrBadCredentials), w')"
    "w_db w' = failure_counted (svc_policy S) now t (ap_ID p) (w_db w)"
    by auto
  from credential_counted [OF cred, of "svc_policy S" now t] a
  have "counting E email hash (k + 1)
        (if k + 1 \<ge> MaxFailedAttempts (svc_policy S)
         then Some (Policy_LockedUntil (svc_policy S) now) else locked) (w_db w')"
    using auth_ok_SignIn [OF w'(1) ok] unfolding counting_def w'(2) by blast
  with w'(1) show ?thesis by blast
qed

lemma counting_run:
  assumes "\<forall>n. e_fault E n = None" and "0 < LockDuration (svc_policy S)"
    and "MaxFailedAttempts (svc_policy S) \<le> 32767"
    and "\<forall>(now, pw) \<in> set ats. VerifyPassword E pw hash = Some ErrPasswordMismatch"
    and "counting E email hash k None (w_db w)" and "k + int (length ats) < MaxFailedAttempts (svc_policy S)"
  shows "\<exists>w'. sign_ins E S email sc ats w = (replicate (length ats) (Inl ErrBadCredentials), w')
    \<and> counting E email hash (k + int (length ats)) None (w_db w')"
  using assms(4-6)
proof (induction ats arbitrary: k w)
  case (Cons x ats)
  obtain now pw where x: "x = (now, pw)" by fastforce
  with Cons.prems assms(3) have k: "k < 32767" "\<not> k + 1 \<ge> MaxFailedAttempts (svc_policy S)" by auto
  from counting_wrong [OF assms(1) Cons.prems(2), of now pw S sc] Cons.prems(1) x k assms(2)
  obtain w1 where w1: "SignInWithPassword E S now email pw sc w = (Inl ErrBadCredentials, w1)"
    "counting E email hash (k + 1) None (w_db w1)" by (auto simp: is_after_def)
  have "\<exists>w'. sign_ins E S email sc ats w1 = (replicate (length ats) (Inl ErrBadCredentials), w')
      \<and> counting E email hash (k + 1 + int (length ats)) None (w_db w')"
    using Cons.prems by (intro Cons.IH w1(2)) auto
  then show ?case using x w1(1) by (auto simp: ac_simps)
qed simp

text \<open>
  C7. The lockout, under the default policy and with the database answering. On a credential
  with no failures, nine wrong passwords each get \<^verbatim>\<open>ErrBadCredentials\<close> and the tenth, at instant
  \<open>t\<close>, gets a \<^verbatim>\<open>LockoutError\<close> until \<open>t\<close> plus 15 minutes. Until then every attempt, the correct
  password included, gets that same error and changes no table. From then on a wrong password
  locks the credential again at once.
\<close>

theorem lockout_after_ten:
  assumes calm: "\<forall>n. e_fault E n = None" and pol: "svc_policy S = DefaultPolicy"
    and start: "counting E email hash 0 None (w_db w)" and nine: "length ats = 9"
    and wrong: "\<forall>(now, pw) \<in> set (ats @ [(t, pw)]). VerifyPassword E pw hash = Some ErrPasswordMismatch"
  shows "\<exists>w'. sign_ins E S email sc (ats @ [(t, pw)]) w =
      (replicate 9 (Inl ErrBadCredentials) @ [Inl (LockoutError (t + 15 * Minute))], w')
    \<and> (\<forall>now any sc'. now < t + 15 * Minute \<longrightarrow>
         fst (SignInWithPassword E S now email any sc' w') = Inl (LockoutError (t + 15 * Minute))
         \<and> w_db (snd (SignInWithPassword E S now email any sc' w')) = w_db w')
    \<and> (\<forall>now. t + 15 * Minute \<le> now \<longrightarrow>
         fst (SignInWithPassword E S now email pw sc w') = Inl (LockoutError (now + 15 * Minute)))"
proof -
  note d = pol DefaultPolicy_def Policy_LockedUntil_def
  have "\<exists>w1. sign_ins E S email sc ats w = (replicate (length ats) (Inl ErrBadCredentials), w1)
      \<and> counting E email hash (0 + int (length ats)) None (w_db w1)"
    by (rule counting_run [OF calm _ _ _ start]) (use wrong nine in \<open>auto simp: d\<close>)
  then obtain w1 where w1: "sign_ins E S email sc ats w = (replicate 9 (Inl ErrBadCredentials), w1)"
    "counting E email hash 9 None (w_db w1)" using nine by auto
  have pw: "VerifyPassword E pw hash = Some ErrPasswordMismatch" using wrong by auto
  obtain w' where w': "SignInWithPassword E S t email pw sc w1 = (Inl (LockoutError (t + 15 * Minute)), w')"
    "counting E email hash 10 (Some (t + 15 * Minute)) (w_db w')"
    using counting_wrong [OF calm w1(2) _ pw, of t S sc] by (auto simp: is_after_def d)
  from w'(2) obtain p a where ok: "auth_ok (e_citext E) (w_db w')"
    and cred: "credential (w_db w') (NormaliseEmail (e_unicode E) email) p a"
    and a: "aw_LockedUntil a = Some (t + 15 * Minute)"
    by (auto simp: counting_def)
  have locked: "SignInWithPassword E S now email any sc' w' = (Inl (LockoutError (t + 15 * Minute)), tick w')"
    if "now < t + 15 * Minute" for now any sc'
    by (rule SignIn_locked [OF calm ok cred a that])
  have again: "\<exists>w2. SignInWithPassword E S now email pw sc w' = (Inl (LockoutError (now + 15 * Minute)), w2)"
    if "t + 15 * Minute \<le> now" for now
    using counting_wrong [OF calm w'(2) _ pw, of now S sc] that by (auto simp: is_after_def d)
  have "sign_ins E S email sc (ats @ [(t, pw)]) w =
      (replicate 9 (Inl ErrBadCredentials) @ [Inl (LockoutError (t + 15 * Minute))], w')"
    by (simp add: sign_ins_append w1(1) w'(1))
  then show ?thesis using locked again by fastforce
qed

text \<open>A database with one password account, whose password is \<open>secret\<close>.\<close>

definition secret_hash :: string where
  "secret_hash = encode_hash DefaultPasswordParams (replicate 16 0)
     (take 32 (string_to_bytes ''secret'' @ replicate 32 0))"

definition one_account :: db where
  "one_account = empty_db\<lparr>
     users := [\<lparr>u_ID = 3, u_CreatedAt = 0, u_UpdatedAt = 0\<rparr>],
     auth_providers := [\<lparr>ap_ID = 5, ap_UserID = 3, ap_Kind = AuthProviderKindPassword,
       ap_Subject = ''ann@x.org'', ap_Email = Some ''ann@x.org'', ap_IsPrimary = True,
       ap_LinkedAt = 0, ap_LastLoginAt = None\<rparr>],
     auth_passwords := [\<lparr>aw_AuthProviderID = 5, aw_Kind = AuthProviderKindPassword,
       aw_Hash = secret_hash, aw_FailedAttempts = 0, aw_LockedUntil = None, aw_UpdatedAt = 0\<rparr>]\<rparr>"

definition one_account_world :: world where
  "one_account_world = fresh_world\<lparr>w_db := one_account\<rparr>"

lemma auth_ok_one_account: "auth_ok cf one_account"
  by (simp add: one_account_def integrity_defs empty_db_def secret_hash_def not_blank_iff enum_ok_def
      AuthProviderKind_enum_def)

lemma NormaliseEmail_ann: "NormaliseEmail plain_unicode '' Ann@X.org'' = ''ann@x.org''"
  by code_simp

lemma counting_one_account: "counting calm_env '' Ann@X.org'' secret_hash 0 None (w_db one_account_world)"
  unfolding counting_def
proof (intro conjI exI)
  show "auth_ok (e_citext calm_env) (w_db one_account_world)"
    by (simp add: one_account_world_def auth_ok_one_account)
qed (auto simp: credential_def NormaliseEmail_ann one_account_world_def one_account_def)

lemma Verify_secret_hash:
  "VerifyPassword calm_env pw secret_hash =
     (if take 32 (string_to_bytes pw @ replicate 32 0) = take 32 (string_to_bytes ''secret'' @ replicate 32 0)
      then None else Some ErrPasswordMismatch)"
proof -
  have "unat (word_of_nat (length (take 32 (string_to_bytes ''secret'' @ replicate 32 0))) :: 32 word) = 32"
    by (simp add: string_to_bytes_def)
  from VerifyPassword_encode [OF this] show ?thesis
    by (simp add: secret_hash_def toy_argon2_def DefaultPasswordParams_def)
qed

lemma Verify_guess: "VerifyPassword calm_env ''guess'' secret_hash = Some ErrPasswordMismatch"
  by (simp add: Verify_secret_hash string_to_bytes_def)

theorem lockout_after_ten_witness:
  "\<exists>w'. sign_ins calm_env (NewService None) '' Ann@X.org'' sample_sic
        (replicate 9 (0, ''guess'') @ [(60, ''guess'')]) one_account_world =
      (replicate 9 (Inl ErrBadCredentials) @ [Inl (LockoutError (60 + 15 * Minute))], w')
    \<and> fst (SignInWithPassword calm_env (NewService None) 100 '' Ann@X.org'' ''secret'' sample_sic w')
        = Inl (LockoutError (60 + 15 * Minute))"
  using lockout_after_ten [where E = calm_env and S = "NewService None" and t = 60 and pw = "''guess''"
      and ats = "replicate 9 (0, ''guess'')" and sc = sample_sic, OF _ _ counting_one_account]
  by (fastforce simp: NewService_def Verify_guess)

section \<open>The correct password\<close>

lemma HashPassword_encodes:
  assumes "HashPassword E pw p w = (Inr h, w')" and "argon2_lengths E"
  shows "argon2id_format h \<and> VerifyPassword E pw h = None"
proof -
  from assms(1) obtain salt key where h: "h = encode_hash p salt key"
    and key: "e_argon2 E (string_to_bytes pw) salt (unat (Iterations p)) (unat (Memory p))
      (unat (Parallelism p)) (unat (KeyLength p)) = Some key"
    by (rule HashPassword_Inr)
  have "length key = unat (KeyLength p)" using assms(2) key unfolding argon2_lengths_def by blast
  then have n: "unat (word_of_nat (length key) :: 32 word) = unat (KeyLength p)" by simp
  show ?thesis using key unfolding h VerifyPassword_encode [OF n] by simp
qed

text \<open>The credential of an address is the only one.\<close>

lemma the_credential:
  assumes "counting E email hash k locked d" and "credential d (NormaliseEmail (e_unicode E) email) p a"
  shows "aw_Hash a = hash \<and> aw_FailedAttempts a = k \<and> aw_LockedUntil a = locked"
proof -
  obtain q b where ok: "auth_ok (e_citext E) d"
    and b: "credential d (NormaliseEmail (e_unicode E) email) q b"
      "aw_Hash b = hash" "aw_FailedAttempts b = k" "aw_LockedUntil b = locked"
    using assms(1) by (auto simp: counting_def)
  have "credential_row q b = credential_row p a"
    using GetPasswordCredential_found [OF ok b(1)] GetPasswordCredential_found [OF ok assms(2)]
    by (metis Pair_inject sum.inject(2))
  with b show ?thesis by (simp add: credential_row_def)
qed

text \<open>
  An environment that answers every call and supplies values not yet in use in the tables \<open>d\<close>; the
  database's clock is behind the instant \<open>e\<close>, and argon2 does not panic at the parameters \<open>p\<close>.
\<close>

definition supplies_fresh :: "env \<Rightarrow> db \<Rightarrow> time \<Rightarrow> PasswordParams \<Rightarrow> bool" where
  "supplies_fresh E d e p \<longleftrightarrow>
     (\<forall>n. e_fault E n = None \<and> e_now E n < e
        \<and> (\<exists>i. e_uuid E n = Some i \<and> i \<notin> as_ID ` set (auth_sessions d))
        \<and> (\<exists>raw. e_rand E n tokenBytes = Some raw
             \<and> HashToken (RawURL_EncodeToString raw) \<notin> as_TokenHash ` set (auth_sessions d)))
     \<and> argon2_lengths E
     \<and> (\<forall>pw salt. e_argon2 E pw salt (unat (Iterations p)) (unat (Memory p)) (unat (Parallelism p))
          (unat (KeyLength p)) \<noteq> None)"

lemma openSession_ok:
  assumes "supplies_fresh E d e p" and "auth_sessions (w_db w) = auth_sessions d" and "w_tx w = None"
    and "e = Policy_ExpiresAt (svc_policy S) now" and "u \<in> u_ID ` set (users (w_db w))"
    and "pid \<in> ap_ID ` set (auth_providers (w_db w))"
  shows "\<exists>s w'. openSession E S u (Some pid) now sc w = (Inr s, w')"
proof -
  obtain raw where raw: "e_rand E (w_tick w) tokenBytes = Some raw"
    "HashToken (RawURL_EncodeToString raw) \<notin> as_TokenHash ` set (auth_sessions d)"
    using assms(1) by (fastforce simp: supplies_fresh_def)
  obtain i where i: "e_uuid E (Suc (w_tick w)) = Some i" "i \<notin> as_ID ` set (auth_sessions d)"
    using assms(1) by (fastforce simp: supplies_fresh_def)
  have "e_fault E n = None" "e_now E n < e" for n using assms(1) by (auto simp: supplies_fresh_def)
  with raw i assms show ?thesis
    by (auto simp: openSession_def NewToken_def NewV7_def call_def rand_Read_def return_def
        run_query_def CreateAuthSession_def Let_def)
qed

lemma upgradeHash_ok:
  assumes fresh: "supplies_fresh E d e (svc_params S)"
    and cred: "counting E email hash 0 None (w_db w)" "gpc_ProviderID row = ap_ID p" "gpc_Hash row = hash"
      "credential (w_db w) (NormaliseEmail (e_unicode E) email) p a"
    and ver: "VerifyPassword E pw hash = None" and tx: "w_tx w = None"
  shows "\<exists>w1 hash'. upgradeHash E S pw row k w = k w1 \<and> w_tx w1 = None
    \<and> counting E email hash' 0 None (w_db w1) \<and> VerifyPassword E pw hash' = None
    \<and> users (w_db w1) = users (w_db w) \<and> auth_providers (w_db w1) = auth_providers (w_db w)
    \<and> auth_sessions (w_db w1) = auth_sessions (w_db w)"
proof (cases "NeedsRehash hash (svc_params S)")
  case False
  with cred ver tx show ?thesis by (auto simp: upgradeHash_def)
next
  case True
  obtain r w1 where h: "HashPassword E pw (svc_params S) w = (r, w1)" by fastforce
  have w1: "w_db w1 = w_db w" "w_tx w1 = None"
    using h tx by (auto simp: HashPassword_def call_def rand_Read_def throw_def return_def
        split: option.splits)
  show ?thesis
  proof (cases r)
    case (Inl err)
    have "e_argon2 E x y (unat (Iterations (svc_params S))) (unat (Memory (svc_params S)))
        (unat (Parallelism (svc_params S))) (unat (KeyLength (svc_params S))) \<noteq> None" for x y
      using fresh unfolding supplies_fresh_def by blast
    then have "\<not> is_panic err"
      using h Inl by (auto simp: HashPassword_def call_def rand_Read_def throw_def return_def
          split: option.splits) (metis option.distinct(1))
    then have "upgradeHash E S pw row k w = k w1"
      using Inl True h cred(3) by (simp add: upgradeHash_def attempt_def)
    with cred ver w1 show ?thesis by (intro exI [of _ w1] exI [of _ hash]) simp
  next
    case (Inr up)
    let ?d = "(w_db w)\<lparr>auth_passwords := update_where (\<lambda>a. aw_AuthProviderID a = ap_ID p)
      (\<lambda>a. a\<lparr>aw_Hash := up, aw_UpdatedAt := e_now E (w_tick w1)\<rparr>) (auth_passwords (w_db w))\<rparr>"
    have up: "argon2id_format up" "VerifyPassword E pw up = None"
      using HashPassword_encodes [OF h [unfolded Inr]] fresh by (auto simp: supplies_fresh_def)
    have calm: "e_fault E n = None" for n using fresh by (auto simp: supplies_fresh_def)
    have q: "UpdatePasswordHash \<lparr>uph_AuthProviderID = ap_ID p, uph_Hash = up\<rparr> (e_now E (w_tick w1)) (w_db w)
        = Inr ((), ?d)"
      using up(1) by (simp add: UpdatePasswordHash_def Let_def)
    have "auth_ok (e_citext E) ?d"
      using keeps_UpdatePasswordHash [unfolded q_keeps_def] q cred(1) unfolding counting_def by blast
    moreover have "credential ?d (NormaliseEmail (e_unicode E) email) p
        (a\<lparr>aw_Hash := up, aw_UpdatedAt := e_now E (w_tick w1)\<rparr>)"
      using cred(4) by (auto simp: credential_def update_where_def)
    moreover have "aw_FailedAttempts a = 0" "aw_LockedUntil a = None"
      using the_credential [OF cred(1,4)] by auto
    ultimately have "counting E email up 0 None ?d" unfolding counting_def
      by (intro conjI exI [of _ p] exI [of _ "a\<lparr>aw_Hash := up, aw_UpdatedAt := e_now E (w_tick w1)\<rparr>"]) simp_all
    moreover have "upgradeHash E S pw row k w = k ((tick w1)\<lparr>w_db := ?d\<rparr>)"
      using True h Inr cred(2,3) q w1 calm
      by (simp add: upgradeHash_def attempt_def best_effort_def run_query_def)
    ultimately show ?thesis using up(2) w1
      by (intro exI [of _ "(tick w1)\<lparr>w_db := ?d\<rparr>"] exI [of _ up]) simp
  qed
qed

lemma session_lookup_add:
  assumes "HashToken (ses_Token s) \<notin> as_TokenHash ` set (auth_sessions d)"
  shows "session_lookup (add_session s p sc d) t h =
    (if h = HashToken (ses_Token s) then (if t < ses_ExpiresAt s then Some (ses_ID s) else None)
     else session_lookup d t h)"
proof -
  have "find (\<lambda>s'. as_TokenHash s' = HashToken (ses_Token s) \<and> live t s') (auth_sessions d) = None"
    using assms by (auto simp: find_None_iff image_iff)
  then show ?thesis
    by (auto simp: session_lookup_def add_session_def session_row_def find_append live_def
        split: option.split)
qed

lemma counting_cleared:
  assumes "auth_ok (e_citext E) d" and "credential d (NormaliseEmail (e_unicode E) email) p a"
    and "ClearFailedLogins (ap_ID p) t d = Inr (u, d')"
  shows "counting E email (aw_Hash a) 0 None d' \<and> users d' = users d
    \<and> auth_providers d' = auth_providers d \<and> auth_sessions d' = auth_sessions d
    \<and> (\<exists>a'. credential d' (NormaliseEmail (e_unicode E) email) p a')"
proof -
  have ok: "auth_ok (e_citext E) d'"
    using keeps_ClearFailedLogins [unfolded q_keeps_def] assms(1,3) by blast
  have "credential d' (NormaliseEmail (e_unicode E) email) p
      (a\<lparr>aw_FailedAttempts := 0, aw_LockedUntil := None, aw_UpdatedAt := t\<rparr>)"
    using assms(2,3) by (auto simp: credential_def ClearFailedLogins_def update_where_def)
  with ok have "counting E email (aw_Hash a) 0 None d'" unfolding counting_def by force
  then show ?thesis using assms(3) \<open>credential d' _ _ _\<close> by (auto simp: ClearFailedLogins_def)
qed

text \<open>Marking the provider and opening the session keep the credential and make the session live.\<close>

lemma signInVerified_ok:
  assumes fresh: "supplies_fresh E d (Policy_ExpiresAt (svc_policy S) now) params"
    and cnt: "counting E email hash 0 None (w_db w)" and tx: "w_tx w = None"
    and p: "p \<in> set (auth_providers (w_db w))" "gpc_ProviderID row = ap_ID p" "gpc_UserID row = ap_UserID p"
    and sess: "auth_sessions (w_db w) = auth_sessions d"
  shows "\<exists>s w'. signInVerified E S now row sc w = (Inr s, w') \<and> ses_UserID s = ap_UserID p
    \<and> ses_ExpiresAt s = Policy_ExpiresAt (svc_policy S) now \<and> counting E email hash 0 None (w_db w')
    \<and> (\<forall>t. session_lookup (w_db w') t (HashToken (ses_Token s)) =
         (if t < ses_ExpiresAt s then Some (ses_ID s) else None))"
proof -
  have calm: "e_fault E n = None" for n using fresh by (auto simp: supplies_fresh_def)
  obtain q a where ok: "auth_ok (e_citext E) (w_db w)"
    and cred: "credential (w_db w) (NormaliseEmail (e_unicode E) email) q a"
    and a: "aw_Hash a = hash" "aw_FailedAttempts a = 0" "aw_LockedUntil a = None"
    using cnt by (auto simp: counting_def)
  let ?u = "\<lambda>p'. if ap_ID p' = ap_ID p then p'\<lparr>ap_LastLoginAt := Some now\<rparr> else p'"
  let ?w = "(tick w)\<lparr>w_db := (w_db w)\<lparr>auth_providers := update_where (\<lambda>p'. ap_ID p' = ap_ID p)
    (\<lambda>p'. p'\<lparr>ap_LastLoginAt := Some now\<rparr>) (auth_providers (w_db w))\<rparr>\<rparr>"
  have mark: "signInVerified E S now row sc w = openSession E S (ap_UserID p) (Some (ap_ID p)) now sc ?w"
    using calm p by (simp add: signInVerified_def call_def run_query_def MarkProviderUsed_def)
  have "\<exists>s w'. openSession E S (ap_UserID p) (Some (ap_ID p)) now sc ?w = (Inr s, w')"
  proof (rule openSession_ok [OF fresh _ _ refl])
    show "ap_UserID p \<in> u_ID ` set (users (w_db ?w))"
      using ok p(1) by (simp add: auth_ok_def providers_ok_def)
    show "ap_ID p \<in> ap_ID ` set (auth_providers (w_db ?w))" using p(1) by (simp add: image_update_where)
  qed (use tx sess in simp_all)
  then obtain s w' where s: "signInVerified E S now row sc w = (Inr s, w')"
    and open': "openSession E S (ap_UserID p) (Some (ap_ID p)) now sc ?w = (Inr s, w')"
    using mark by auto
  note o = openSession_Inr [OF open']
  have ok': "auth_ok (e_citext E) (w_db w')"
    using keepsD [OF keeps_signInVerified [where E = E and S = S and now = now and cred = row and sc = sc,
          OF keeps_MarkProviderUsed keeps_openSession_instances(1)] ok] s by simp
  have "credential (w_db w') (NormaliseEmail (e_unicode E) email) (?u q) a"
    using cred o by (auto simp: credential_def add_session_def set_update_where)
  with ok' a have "counting E email hash 0 None (w_db w')" unfolding counting_def by blast
  moreover have "session_lookup (w_db w') t (HashToken (ses_Token s)) =
      (if t < ses_ExpiresAt s then Some (ses_ID s) else None)" for t
    using o by (simp add: session_lookup_add)
  ultimately show ?thesis using s o by auto
qed

text \<open>
  C22. The correct password on a credential that is not locked at \<open>now\<close>, in an environment that
  answers and supplies fresh values, opens a session of the credential's user that ends one TTL
  later. The failure count and the lock are cleared, the stored hash (re-hashed when its
  parameters were weaker) still accepts the password, and the returned token resolves to the new
  session at every instant before its expiry and at none after.
\<close>

theorem SignIn_correct_password:
  assumes fresh: "supplies_fresh E (w_db w) (Policy_ExpiresAt (svc_policy S) now) (svc_params S)"
    and ok: "auth_ok (e_citext E) (w_db w)" and tx: "w_tx w = None"
    and cred: "credential (w_db w) (NormaliseEmail (e_unicode E) email) p a"
    and unlocked: "\<not> is_after (aw_LockedUntil a) now"
    and ver: "VerifyPassword E pw (aw_Hash a) = None"
  shows "\<exists>s w' hash'. SignInWithPassword E S now email pw sc w = (Inr s, w')
    \<and> ses_UserID s = ap_UserID p \<and> ses_ExpiresAt s = Policy_ExpiresAt (svc_policy S) now
    \<and> counting E email hash' 0 None (w_db w') \<and> VerifyPassword E pw hash' = None
    \<and> (\<forall>t. session_lookup (w_db w') t (HashToken (ses_Token s)) =
         (if t < ses_ExpiresAt s then Some (ses_ID s) else None))"
proof -
  have calm: "e_fault E n = None" for n using fresh by (auto simp: supplies_fresh_def)
  obtain d' where clear: "ClearFailedLogins (ap_ID p) (e_now E (Suc (w_tick w))) (w_db w) = Inr ((), d')"
    by (simp add: ClearFailedLogins_def)
  let ?w = "(tick (tick w))\<lparr>w_db := d'\<rparr>" and ?row = "credential_row p a"
  have step: "SignInWithPassword E S now email pw sc w =
      upgradeHash E S pw ?row (signInVerified E S now ?row sc) ?w"
    using calm unlocked ver clear tx
    by (simp add: SignInWithPassword_def attempt_def run_query_def call_def
        GetPasswordCredential_found [OF ok cred]) (simp add: credential_row_def db_now_def
        call_def run_query_def)
  note c = counting_cleared [OF ok cred clear]
  obtain a' where a': "credential (w_db ?w) (NormaliseEmail (e_unicode E) email) p a'" using c by auto
  obtain w1 hash' where up: "upgradeHash E S pw ?row (signInVerified E S now ?row sc) ?w
      = signInVerified E S now ?row sc w1" "w_tx w1 = None" "counting E email hash' 0 None (w_db w1)"
    "VerifyPassword E pw hash' = None" "auth_providers (w_db w1) = auth_providers d'"
    "auth_sessions (w_db w1) = auth_sessions d'"
  proof -
    have "\<exists>w1 hash'. upgradeHash E S pw ?row (signInVerified E S now ?row sc) ?w
        = signInVerified E S now ?row sc w1 \<and> w_tx w1 = None
        \<and> counting E email hash' 0 None (w_db w1) \<and> VerifyPassword E pw hash' = None
        \<and> users (w_db w1) = users (w_db ?w) \<and> auth_providers (w_db w1) = auth_providers (w_db ?w)
        \<and> auth_sessions (w_db w1) = auth_sessions (w_db ?w)"
      by (rule upgradeHash_ok [OF fresh _ _ _ a' ver]) (use c tx in \<open>simp_all add: credential_row_def\<close>)
    then show ?thesis using that by auto
  qed
  have "\<exists>s w'. signInVerified E S now ?row sc w1 = (Inr s, w') \<and> ses_UserID s = ap_UserID p
    \<and> ses_ExpiresAt s = Policy_ExpiresAt (svc_policy S) now \<and> counting E email hash' 0 None (w_db w')
    \<and> (\<forall>t. session_lookup (w_db w') t (HashToken (ses_Token s)) =
         (if t < ses_ExpiresAt s then Some (ses_ID s) else None))"
    by (rule signInVerified_ok [OF fresh up(3,2)])
      (use up c cred in \<open>auto simp: credential_row_def credential_def\<close>)
  then show ?thesis using step up(1,4) by auto
qed

lemma supplies_fresh_calm:
  assumes "0 < e"
  shows "supplies_fresh calm_env one_account e DefaultPasswordParams"
  using assms by (simp add: supplies_fresh_def one_account_def empty_db_def toy_argon2_def
      DefaultPasswordParams_def)

theorem SignIn_correct_password_witness:
  "\<exists>s w'. SignInWithPassword calm_env (NewService None) 0 '' Ann@X.org'' ''secret'' sample_sic one_account_world
     = (Inr s, w') \<and> ses_UserID s = 3 \<and> ses_ExpiresAt s = 30 * 24 * Hour
     \<and> session_lookup (w_db w') 5 (HashToken (ses_Token s)) = Some (ses_ID s)"
proof -
  let ?p = "hd (auth_providers one_account)" and ?a = "hd (auth_passwords one_account)"
  have db: "w_db one_account_world = one_account" by (simp add: one_account_world_def)
  have "\<exists>s w' hash'. SignInWithPassword calm_env (NewService None) 0 '' Ann@X.org'' ''secret'' sample_sic
        one_account_world = (Inr s, w') \<and> ses_UserID s = ap_UserID ?p
    \<and> ses_ExpiresAt s = Policy_ExpiresAt (svc_policy (NewService None)) 0
    \<and> counting calm_env '' Ann@X.org'' hash' 0 None (w_db w') \<and> VerifyPassword calm_env ''secret'' hash' = None
    \<and> (\<forall>t. session_lookup (w_db w') t (HashToken (ses_Token s)) =
         (if t < ses_ExpiresAt s then Some (ses_ID s) else None))"
  proof (rule SignIn_correct_password)
    show "supplies_fresh calm_env (w_db one_account_world)
        (Policy_ExpiresAt (svc_policy (NewService None)) 0) (svc_params (NewService None))"
      using supplies_fresh_calm by (simp add: db NewService_def Policy_ExpiresAt_def DefaultPolicy_def)
    show "auth_ok (e_citext calm_env) (w_db one_account_world)" by (simp add: db auth_ok_one_account)
    show "credential (w_db one_account_world)
        (NormaliseEmail (e_unicode calm_env) '' Ann@X.org'') ?p ?a"
      by (simp add: db credential_def NormaliseEmail_ann) (simp add: one_account_def)
    show "\<not> is_after (aw_LockedUntil ?a) 0" by (simp add: one_account_def is_after_def)
    show "VerifyPassword calm_env ''secret'' (aw_Hash ?a) = None"
      by (simp add: one_account_def Verify_secret_hash)
  qed (simp add: one_account_world_def fresh_world_def)
  then show ?thesis
    by (auto simp: one_account_def NewService_def Policy_ExpiresAt_def DefaultPolicy_def)
qed

section \<open>Unknown addresses\<close>

text \<open>
  The answer does not tell which addresses are registered: with the database answering and
  argon2 not panicking on the dummy hash, an address without a password sign-in method gets
  \<^verbatim>\<open>ErrBadCredentials\<close> and changes no table, and a wrong password for a registered, unlocked
  address gets the very same error for as long as the allowance of failures is not used up.
\<close>

theorem SignIn_does_not_disclose:
  assumes "\<forall>n. e_fault E n = None" and "0 < LockDuration (svc_policy S)"
    and "\<forall>e. VerifyPassword E pw dummyHash = Some e \<longrightarrow> \<not> is_panic e"
    and "\<forall>p \<in> set (auth_providers (w_db w)).
      \<not> (ap_Kind p = AuthProviderKindPassword \<and> ap_Subject p = NormaliseEmail (e_unicode E) unknown)"
    and "counting E known hash k None (w_db w)" and "k + 1 < MaxFailedAttempts (svc_policy S)"
    and "k < 32767" and "VerifyPassword E pw hash = Some ErrPasswordMismatch"
  shows "fst (SignInWithPassword E S now unknown pw sc w) = Inl ErrBadCredentials
    \<and> w_db (snd (SignInWithPassword E S now unknown pw sc w)) = w_db w
    \<and> fst (SignInWithPassword E S now known pw sc w) = fst (SignInWithPassword E S now unknown pw sc w)"
proof -
  have "fst (SignInWithPassword E S now known pw sc w) = Inl ErrBadCredentials"
    using counting_wrong [OF assms(1,5) _ assms(8,7,2), of now sc] assms(6) by (auto simp: is_after_def)
  then show ?thesis by (simp add: SignIn_unknown [OF assms(1,4,3)])
qed

lemma NormaliseEmail_bob: "NormaliseEmail plain_unicode ''bob@x.org'' = ''bob@x.org''"
  by code_simp

lemma VerifyPassword_no_panic:
  "\<forall>e. VerifyPassword calm_env pw dummyHash = Some e \<longrightarrow> \<not> is_panic e"
proof -
  have c: "char_of (49 :: nat) = CHR ''1''" "char_of (57 :: nat) = CHR ''9''" "char_of (52 :: nat) = CHR ''4''"
    "char_of (53 :: nat) = CHR ''5''" "char_of (54 :: nat) = CHR ''6''" "char_of (50 :: nat) = CHR ''2''"
    by code_simp+
  have d: "Sprintf_d 19456 = ''19456''" "Sprintf_d 19 = ''19''" "Sprintf_d 2 = ''2''" "Sprintf_d (Suc 0) = ''1''"
    by (simp_all add: Sprintf_d.simps digit_char_def c)
  have b: "RawStd_EncodeToString (replicate 16 0) = ''AAAAAAAAAAAAAAAAAAAAAA''"
    "RawStd_EncodeToString (replicate 32 0) = ''AAAAAAAAAAAAAAAAAAAAAAAAAAAAAAAAAAAAAAAAAAA''"
    by code_simp+
  have eq: "dummyHash = encode_hash DefaultPasswordParams (replicate 16 0) (replicate 32 0)"
    unfolding dummyHash_def encode_hash_def b by (simp add: DefaultPasswordParams_def d)
  have "VerifyPassword calm_env pw dummyHash \<in> {None, Some ErrPasswordMismatch}"
    using VerifyPassword_encode [of "replicate 32 0" 32 calm_env pw DefaultPasswordParams "replicate 16 0"]
    by (auto simp: eq toy_argon2_def DefaultPasswordParams_def)
  then show ?thesis by auto
qed

theorem SignIn_does_not_disclose_witness:
  "fst (SignInWithPassword calm_env (NewService None) 0 '' Ann@X.org'' ''guess'' sample_sic one_account_world)
   = fst (SignInWithPassword calm_env (NewService None) 0 ''bob@x.org'' ''guess'' sample_sic one_account_world)"
  by (rule SignIn_does_not_disclose [THEN conjunct2, THEN conjunct2,
        OF _ _ VerifyPassword_no_panic _ counting_one_account])
    (simp_all add: NewService_def DefaultPolicy_def Verify_guess NormaliseEmail_bob,
     simp add: one_account_world_def one_account_def)

section \<open>After a registration\<close>

lemma Register_usable:
  assumes ok: "auth_ok (e_citext E) (w_db w)" and lens: "argon2_lengths E"
    and reg: "Register E S now p sc w = (Inr s, w')"
  shows "(\<exists>hash. counting E (reg_Email p) hash 0 None (w_db w')
      \<and> VerifyPassword E (reg_Password p) hash = None)
    \<and> (\<forall>t. session_lookup (w_db w') t (HashToken (ses_Token s)) =
         (if t < ses_ExpiresAt s then Some (ses_ID s) else None))
    \<and> (\<exists>pr. GetUserProfile (ses_UserID s) 0 (w_db w') = Inr (pr, w_db w')
         \<and> up_Email pr = NormaliseEmail (e_unicode E) (reg_Email p)
         \<and> up_DisplayName pr = TrimSpace (e_unicode E) (reg_DisplayName p))"
proof -
  from Register_cases [OF reg] obtain pid hash wh wh'
    where h: "HashPassword E (reg_Password p) (svc_params S) wh = (Inr hash, wh')"
      and db: "w_db w' = registered s pid (NormaliseEmail (e_unicode E) (reg_Email p))
        (TrimSpace (e_unicode E) (reg_DisplayName p)) hash sc (e_now E (w_tick w)) (w_db w)"
    by auto
  have ok': "auth_ok (e_citext E) (w_db w')"
    using integrity_Register [THEN keepsD, of E w S now p sc] ok reg by simp
  note inv = auth_ok_session_inv [OF ok']
  have c1: "counting E (reg_Email p) hash 0 None (w_db w')"
    unfolding counting_def
  proof (intro conjI exI)
    show "credential (w_db w') (NormaliseEmail (e_unicode E) (reg_Email p))
        (last (auth_providers (w_db w'))) (last (auth_passwords (w_db w')))"
      by (simp add: db rows_added_defs credential_def)
  qed (simp_all add: ok', simp_all add: db rows_added_defs)
  have c2: "session_lookup (w_db w') t (HashToken (ses_Token s)) =
      (if t < ses_ExpiresAt s then Some (ses_ID s) else None)" for t
  proof -
    have "HashToken (ses_Token s) \<notin> as_TokenHash ` set (auth_sessions (w_db w))"
      using inv by (auto simp: db session_inv_def registered_def add_session_def added_password_def
          added_provider_def created_account_def session_row_def)
    then show ?thesis
      unfolding db registered_def
      by (subst session_lookup_add) (simp_all add: added_password_def added_provider_def created_account_def)
  qed
  have c3: "\<exists>pr. GetUserProfile (ses_UserID s) 0 (w_db w') = Inr (pr, w_db w')
         \<and> up_Email pr = NormaliseEmail (e_unicode E) (reg_Email p)
         \<and> up_DisplayName pr = TrimSpace (e_unicode E) (reg_DisplayName p)"
  proof -
    let ?pr = "last (user_profiles (w_db w'))"
    have pr: "?pr \<in> set (user_profiles (w_db w'))" "up_UserID ?pr = ses_UserID s"
      "up_Email ?pr = NormaliseEmail (e_unicode E) (reg_Email p)"
      "up_DisplayName ?pr = TrimSpace (e_unicode E) (reg_DisplayName p)"
      by (simp_all add: db rows_added_defs)
    have "find (\<lambda>p. up_UserID p = ses_UserID s) (user_profiles (w_db w')) = Some ?pr"
      using find_unique [of up_UserID "user_profiles (w_db w')" ?pr] pr(1,2) ok'
      by (simp add: auth_ok_def profiles_ok_def)
    with pr show ?thesis by (simp add: GetUserProfile_def)
  qed
  show ?thesis
    by (intro conjI exI [of _ hash] allI c1 c2 c3 HashPassword_encodes [OF h lens, THEN conjunct2])
qed

text \<open>
  A registration that returns a session leaves an account its owner can use: the session's
  token resolves to it exactly until it expires, the stored hash accepts the password, the
  credential is found under the registered address with no failures and no lock, and the account's
  profile has the normalised address and the trimmed name.
\<close>

theorem Register_gives_usable_account:
  assumes ok: "auth_ok (e_citext E) (w_db w)" and lens: "argon2_lengths E"
    and reg: "Register E S now p sc w = (Inr s, w')"
  shows "(\<exists>hash. counting E (reg_Email p) hash 0 None (w_db w')
      \<and> VerifyPassword E (reg_Password p) hash = None)
    \<and> (\<forall>t. session_lookup (w_db w') t (HashToken (ses_Token s)) =
         (if t < ses_ExpiresAt s then Some (ses_ID s) else None))
    \<and> (\<exists>pr. GetUserProfile (ses_UserID s) 0 (w_db w') = Inr (pr, w_db w')
         \<and> up_Email pr = NormaliseEmail (e_unicode E) (reg_Email p)
         \<and> up_DisplayName pr = TrimSpace (e_unicode E) (reg_DisplayName p))"
  by (rule Register_usable [OF assms])

lemma Register_calm:
  "\<exists>s w'. Register calm_env (NewService None) 0 sample_registration sample_sic fresh_world = (Inr s, w')
     \<and> ses_ExpiresAt s = 30 * 24 * Hour"
proof -
  have "TrimSpace plain_unicode ''Ann'' = ''Ann''" by code_simp
  then show ?thesis
    by (simp add: Register_def Let_def sample_registration_def NormaliseEmail_ann attempt_def InTx_def
        registerTx_def call_def HashPassword_def rand_Read_def NewService_def DefaultPasswordParams_def
        toy_argon2_def return_def NewV7_def run_query_def CreateUser_def fresh_world_def empty_db_def
        CreateUserProfile_def CreateAuthProvider_def CreateAuthPassword_def not_blank_iff enum_ok_def
        AuthProviderKind_enum_def openSession_def NewToken_def CreateAuthSession_def db_now_def
        Policy_ExpiresAt_def DefaultPolicy_def)
qed

theorem Register_gives_usable_account_witness:
  "\<exists>s w'. Register calm_env (NewService None) 0 sample_registration sample_sic fresh_world = (Inr s, w')
     \<and> session_lookup (w_db w') 5 (HashToken (ses_Token s)) = Some (ses_ID s)"
proof -
  obtain s w' where r: "Register calm_env (NewService None) 0 sample_registration sample_sic fresh_world
      = (Inr s, w')" "ses_ExpiresAt s = 30 * 24 * Hour" using Register_calm by blast
  have "auth_ok (e_citext calm_env) (w_db fresh_world)" by (simp add: fresh_world_def)
  from Register_gives_usable_account [OF this argon2_lengths_calm r(1)] r show ?thesis by auto
qed

end
