(* ===== verification/Auth_Linking.thy ===== *)
theory Auth_Linking
  imports Auth_Behaviour
begin

text \<open>
  Sign-in methods: unlinking one, and signing in with Google, where the question is which account
  a federated identity may reach.
\<close>

section \<open>Unlinking\<close>

lemma isRestrictViolation_simps [simp]: "isRestrictViolation restrict_violation"
  by (simp add: isRestrictViolation_def)

lemma UnlinkProvider_calm:
  assumes "\<forall>n. e_fault E n = None"
  shows "UnlinkProvider E u i w =
    (case DeleteAuthProvider \<lparr>dap_ID = i, dap_UserID = u\<rparr> (db_now E w) (w_db w) of
       Inl err \<Rightarrow> (Inl (if isRestrictViolation err then ErrLastProvider
                        else Wrap ''unlink sign-in method'' err), tick w)
     | Inr (n, d') \<Rightarrow> (if n = 0 then Inl ErrNotFound else Inr (), (tick w)\<lparr>w_db := d'\<rparr>))"
  using assms by (auto simp: UnlinkProvider_def call_def run_query_def throw_def return_def
      split: sum.splits)

text \<open>
  \<^verbatim>\<open>UnlinkProvider\<close>, with the database answering. An identifier that is not a sign-in method
  of the caller gives \<^verbatim>\<open>ErrNotFound\<close>, the caller's only method gives \<^verbatim>\<open>ErrLastProvider\<close>, and neither
  changes a table. Otherwise the method and its password are gone, every other method and account
  stays, and every token still resolves as before: unlinking signs nobody out.
\<close>

theorem UnlinkProvider_outcomes:
  assumes calm: "\<forall>n. e_fault E n = None" and ok: "auth_ok cf (w_db w)"
  shows "(if \<not> (\<exists>p \<in> set (auth_providers (w_db w)). ap_ID p = i \<and> ap_UserID p = u)
     then fst (UnlinkProvider E u i w) = Inl ErrNotFound
       \<and> w_db (snd (UnlinkProvider E u i w)) = w_db w
     else if \<not> (\<exists>p \<in> set (auth_providers (w_db w)). ap_ID p \<noteq> i \<and> ap_UserID p = u)
     then fst (UnlinkProvider E u i w) = Inl ErrLastProvider
       \<and> w_db (snd (UnlinkProvider E u i w)) = w_db w
     else fst (UnlinkProvider E u i w) = Inr ()
       \<and> set (auth_providers (w_db (snd (UnlinkProvider E u i w))))
           = {p \<in> set (auth_providers (w_db w)). ap_ID p \<noteq> i}
       \<and> set (auth_passwords (w_db (snd (UnlinkProvider E u i w))))
           = {a \<in> set (auth_passwords (w_db w)). aw_AuthProviderID a \<noteq> i}
       \<and> users (w_db (snd (UnlinkProvider E u i w))) = users (w_db w)
       \<and> (\<forall>t h. session_lookup (w_db (snd (UnlinkProvider E u i w))) t h
                = session_lookup (w_db w) t h))"
proof -
  let ?d = "w_db w" and ?doomed = "\<lambda>p. ap_ID p = i \<and> ap_UserID p = u"
  note run = UnlinkProvider_calm [OF calm]
  show ?thesis
  proof (cases "\<exists>p \<in> set (auth_providers ?d). ?doomed p")
    case False
    then have "find ?doomed (auth_providers ?d) = None" by (auto simp: find_None_iff)
    then have "UnlinkProvider E u i w = (Inl ErrNotFound, tick w)"
      by (simp add: run DeleteAuthProvider_def del: tick_simps) (cases w, simp add: tick_def)
    with False show ?thesis by (simp only: if_True simp_thms fst_conv snd_conv tick_simps)
  next
    case True
    then have "find ?doomed (auth_providers ?d) \<noteq> None" by (auto simp: find_None_iff)
    then obtain old where old: "find ?doomed (auth_providers ?d) = Some old" by auto
    then have o: "old \<in> set (auth_providers ?d)" "ap_ID old = i" "ap_UserID old = u"
      by (auto dest: find_Some_in)
    have user: "u \<in> u_ID ` set (users ?d)" using ok o by (auto simp: auth_ok_def providers_ok_def)
    show ?thesis
    proof (cases "\<exists>p \<in> set (auth_providers ?d). ap_ID p \<noteq> i \<and> ap_UserID p = u")
      case False
      with old o user have "DeleteAuthProvider \<lparr>dap_ID = i, dap_UserID = u\<rparr> (db_now E w) ?d
          = Inl restrict_violation"
        by (auto simp: DeleteAuthProvider_def auth_providers_keep_one_def list_ex_iff)
      then have "UnlinkProvider E u i w = (Inl ErrLastProvider, tick w)" by (simp add: run)
      with True False show ?thesis by (simp only: if_True if_False simp_thms fst_conv snd_conv tick_simps)
    next
      case other: True
      have keep: "auth_providers_keep_one ?d old = None"
        using other o by (auto simp: auth_providers_keep_one_def list_ex_iff)
      let ?d' = "?d\<lparr>auth_providers := delete_where ?doomed (auth_providers ?d),
          auth_passwords := delete_where (\<lambda>a. aw_AuthProviderID a = i) (auth_passwords ?d),
          auth_sessions := update_where (\<lambda>s. as_AuthProviderID s = Some i)
            (\<lambda>s. s\<lparr>as_AuthProviderID := None\<rparr>) (auth_sessions ?d)\<rparr>"
      have "filter ?doomed (auth_providers ?d) \<noteq> []" using True by (auto simp: filter_empty_conv)
      then have res: "UnlinkProvider E u i w = (Inr (), (tick w)\<lparr>w_db := ?d'\<rparr>)"
        using old o keep by (simp add: run DeleteAuthProvider_def Let_def)
      have "ap_UserID p = u" if "p \<in> set (auth_providers ?d)" "ap_ID p = i" for p
        using key_unique [of ap_ID "auth_providers ?d" p old] that o ok
        by (auto simp: auth_ok_def providers_ok_def)
      then have prov: "set (auth_providers ?d') = {p \<in> set (auth_providers ?d). ap_ID p \<noteq> i}"
        by auto
      have pass: "set (auth_passwords ?d') = {a \<in> set (auth_passwords ?d). aw_AuthProviderID a \<noteq> i}"
        by simp
      have look: "session_lookup ?d' t h = session_lookup ?d t h" for t h
        by (rule pg.lookup_unrelated [OF auth_ok_session_inv [OF ok]])
          (simp add: sessions_unrelated_def session_key_def)
      have w': "w_db (snd (UnlinkProvider E u i w)) = ?d'" "fst (UnlinkProvider E u i w) = Inr ()"
        by (simp_all add: res)
      show ?thesis
        unfolding if_not_P [OF not_not [THEN iffD2, OF True]] if_not_P [OF not_not [THEN iffD2, OF other]] w'
        by (intro conjI allI refl prov pass look) simp
    qed
  qed
qed

definition two_methods_world :: world where
  "two_methods_world = fresh_world\<lparr>w_db := empty_db\<lparr>
     users := [\<lparr>u_ID = 3, u_CreatedAt = 0, u_UpdatedAt = 0\<rparr>],
     auth_providers := [
       \<lparr>ap_ID = 5, ap_UserID = 3, ap_Kind = AuthProviderKindPassword, ap_Subject = ''a@x.org'',
        ap_Email = None, ap_IsPrimary = True, ap_LinkedAt = 0, ap_LastLoginAt = None\<rparr>,
       \<lparr>ap_ID = 6, ap_UserID = 3, ap_Kind = AuthProviderKindGoogle, ap_Subject = ''g-1'',
        ap_Email = None, ap_IsPrimary = False, ap_LinkedAt = 0, ap_LastLoginAt = None\<rparr>]\<rparr>\<rparr>"

lemma auth_ok_two_methods: "auth_ok cf (w_db two_methods_world)"
  by (simp add: two_methods_world_def integrity_defs empty_db_def not_blank_iff enum_ok_def
      AuthProviderKind_enum_def)

theorem UnlinkProvider_outcomes_witness:
  "fst (UnlinkProvider calm_env 3 5 two_methods_world) = Inr ()
   \<and> fst (UnlinkProvider calm_env 4 5 two_methods_world) = Inl ErrNotFound"
  using UnlinkProvider_outcomes [OF _ auth_ok_two_methods, of calm_env 5 3]
    UnlinkProvider_outcomes [OF _ auth_ok_two_methods, of calm_env 5 4]
  by (simp add: two_methods_world_def)

section \<open>Which account a Google identity reaches\<close>

lemma CompleteGoogleSignIn_Inr:
  assumes "CompleteGoogleSignIn E G S now code st flow sc w = (Inr s, w')"
  obtains c identity w1 w2 where "svc_google S = Some c" and "GoogleConfig_configured c"
    and "st \<noteq> []" and "fs_State flow = st"
    and "Verify E G c code (fs_Nonce flow) w = (Inr identity, w1)" and "w_db w1 = w_db w"
    and "googleTx E S now identity sc ((tick w1)\<lparr>w_tx := Some (e_now E (w_tick w1))\<rparr>) = (Inr s, w2)"
    and "w_db w' = w_db w2"
proof -
  from assms obtain c identity w1 where c: "svc_google S = Some c" "GoogleConfig_configured c" "st \<noteq> []"
    "fs_State flow = st" and v: "Verify E G c code (fs_Nonce flow) w = (Inr identity, w1)"
    and tx: "InTx E (googleTx E S now identity sc) w1 = (Inr s, w')"
    by (auto simp: CompleteGoogleSignIn_def throw_def call_Inr_iff split: option.splits if_splits)
  have "w_db (snd (Verify E G c code (fs_Nonce flow) w)) = w_db w"
    using keepsD [OF keeps_Verify [where P = "\<lambda>d. d = w_db w"]] by simp
  with v have "w_db w1 = w_db w" by simp
  with c v tx that show ?thesis by (auto simp: InTx_Inr_iff)
qed

text \<open>
  C21. No account takeover through Google. If sign-in with Google returns a session of an account
  that existed before, then the callback carried the state this browser was given, and the
  identity that the provider vouched for (with this flow's nonce) either already was a sign-in
  method of that account, by its immutable subject, or has an address the provider marked as
  verified and that is the account's own. An unverified address never reaches an existing account.
\<close>

theorem google_no_takeover:
  assumes "CompleteGoogleSignIn E G S now code st flow sc w = (Inr s, w')"
    and "ses_UserID s \<in> u_ID ` set (users (w_db w))"
  shows "\<exists>c identity w1. svc_google S = Some c \<and> st \<noteq> [] \<and> fs_State flow = st
    \<and> Verify E G c code (fs_Nonce flow) w = (Inr identity, w1)
    \<and> ((\<exists>p \<in> set (auth_providers (w_db w)). ap_Kind p = AuthProviderKindGoogle
          \<and> ap_Subject p = fi_Subject identity \<and> ap_UserID p = ses_UserID s)
       \<or> (fi_EmailVerified identity \<and> fi_Email identity \<noteq> []
          \<and> (\<exists>pr \<in> set (user_profiles (w_db w)). up_UserID pr = ses_UserID s
               \<and> e_citext E (up_Email pr) = e_citext E (fi_Email identity))))"
proof -
  from assms(1) obtain c identity w1 w2 where c: "svc_google S = Some c" "st \<noteq> []" "fs_State flow = st"
    and v: "Verify E G c code (fs_Nonce flow) w = (Inr identity, w1)" and db: "w_db w1 = w_db w"
    and tx: "googleTx E S now identity sc ((tick w1)\<lparr>w_tx := Some (e_now E (w_tick w1))\<rparr>) = (Inr s, w2)"
    by (rule CompleteGoogleSignIn_Inr)
  from googleTx_Inr [OF tx] consider
    (known) p where "p \<in> set (auth_providers (w_db w))" "ap_Kind p = AuthProviderKindGoogle"
      "ap_Subject p = fi_Subject identity" "ap_UserID p = ses_UserID s"
  | (link) w3 t where "w_db w3 = w_db w" "w_tx w3 = Some t"
      "linkIdentity E S now identity sc w3 = (Inr s, w2)"
    by (fastforce simp: db)
  then show ?thesis
  proof cases
    case known
    with c v show ?thesis by blast
  next
    case link
    have "fi_Email identity \<noteq> []" using link(3) by (auto simp: linkIdentity_def throw_def)
    moreover have "links_existing E identity (ses_UserID s) (w_db w)"
      using linkIdentity_Inr [OF link(3,2)] link(1) assms(2) by auto
    ultimately show ?thesis using c v unfolding links_existing_def by blast
  qed
qed

text \<open>A provider that vouches for one identity, for evaluation.\<close>

definition toy_oidc :: "string \<Rightarrow> string \<Rightarrow> bool \<Rightarrow> oidc" where
  "toy_oidc subject email verified = \<lparr>o_NewProvider = (\<lambda>_ _. None),
     o_AuthCodeURL = (\<lambda>c st n. googleIssuer @ st @ n),
     o_Exchange = (\<lambda>_ _ code. Inr (Some code)),
     o_Verify = (\<lambda>_ _ raw. Inr (raw, Inr \<lparr>cl_Subject = subject, cl_Email = email,
        cl_EmailVerified = verified, cl_Name = ''Ann''\<rparr>))\<rparr>"

definition google_service :: Service where
  "google_service = NewService (Some \<lparr>ClientID = ''id'', ClientSecret = ''s'', RedirectURL = ''/cb''\<rparr>)"

definition sample_flow :: FlowState where
  "sample_flow = \<lparr>fs_State = ''st'', fs_Nonce = ''n'', fs_ReturnTo = ''/''\<rparr>"

lemmas google_eval = CompleteGoogleSignIn_def google_service_def NewService_def sample_flow_def
  GoogleConfig_configured_def Verify_def toy_oidc_def discover_def remote_def call_def return_def
  throw_def attempt_def InTx_def googleTx_def run_query_def ProviderByKindSubject_def enum_ok_def
  AuthProviderKind_enum_def fresh_world_def

lemma google_known:
  "\<exists>s w'. CompleteGoogleSignIn calm_env (toy_oidc ''g-1'' [] False) google_service 0 ''n'' ''st'' sample_flow
     sample_sic two_methods_world = (Inr s, w') \<and> ses_UserID s = 3"
  by (simp add: google_eval two_methods_world_def empty_db_def MarkProviderUsed_def openSession_def
      NewToken_def NewV7_def rand_Read_def CreateAuthSession_def Let_def db_now_def
      Policy_ExpiresAt_def DefaultPolicy_def)

theorem google_no_takeover_witness:
  "\<exists>s w'. CompleteGoogleSignIn calm_env (toy_oidc ''g-1'' [] False) google_service 0 ''n'' ''st'' sample_flow
     sample_sic two_methods_world = (Inr s, w')
   \<and> (\<exists>c identity w1. svc_google google_service = Some c \<and> ''st'' \<noteq> [] \<and> fs_State sample_flow = ''st''
      \<and> Verify calm_env (toy_oidc ''g-1'' [] False) c ''n'' (fs_Nonce sample_flow) two_methods_world
          = (Inr identity, w1)
      \<and> ((\<exists>p \<in> set (auth_providers (w_db two_methods_world)). ap_Kind p = AuthProviderKindGoogle
            \<and> ap_Subject p = fi_Subject identity \<and> ap_UserID p = ses_UserID s)
         \<or> (fi_EmailVerified identity \<and> fi_Email identity \<noteq> []
            \<and> (\<exists>pr \<in> set (user_profiles (w_db two_methods_world)). up_UserID pr = ses_UserID s
                 \<and> e_citext calm_env (up_Email pr) = e_citext calm_env (fi_Email identity)))))"
proof -
  obtain s w' where r: "CompleteGoogleSignIn calm_env (toy_oidc ''g-1'' [] False) google_service 0 ''n'' ''st''
      sample_flow sample_sic two_methods_world = (Inr s, w')" "ses_UserID s = 3"
    using google_known by blast
  have "ses_UserID s \<in> u_ID ` set (users (w_db two_methods_world))"
    by (simp add: r(2) two_methods_world_def)
  from google_no_takeover [OF r(1) this] r(1) show ?thesis by blast
qed

text \<open>
  The flow's guards come first: without a configured provider, or when the callback's state
  is empty or not the one that was issued, \<^verbatim>\<open>CompleteGoogleSignIn\<close> answers at once, having called
  neither the provider nor the database.
\<close>

theorem google_guards_first:
  "CompleteGoogleSignIn E G S now code st flow sc w =
     (if \<not> GoogleEnabled S then (Inl ErrProviderNotConfigured, w)
      else if fs_State flow \<noteq> [] \<and> st = fs_State flow
      then call (Verify E G (the (svc_google S)) code (fs_Nonce flow)) (\<lambda>e. e)
             (\<lambda>identity. InTx E (googleTx E S now identity sc)) w
      else (Inl ErrStateMismatch, w))"
  by (auto simp: CompleteGoogleSignIn_def GoogleEnabled_def throw_def split: option.splits)

text \<open>
  An identity with a new subject whose address is unverified and already belongs to an account
  cannot sign in at all: with the database answering, the transaction fails on the unique address
  with the database's own error, wrapped, and no table changes. The service does not turn it into
  \<^verbatim>\<open>ErrEmailTaken\<close>.
\<close>

theorem google_unverified_taken:
  assumes calm: "\<forall>n. e_fault E n = None"
    and unknown: "\<forall>p \<in> set (auth_providers (w_db w)).
      \<not> (ap_Kind p = AuthProviderKindGoogle \<and> ap_Subject p = fi_Subject identity)"
    and unverified: "\<not> fi_EmailVerified identity" and email: "fi_Email identity \<noteq> []"
    and taken: "\<exists>pr \<in> set (user_profiles (w_db w)). e_citext E (up_Email pr) = e_citext E (fi_Email identity)"
    and fresh: "\<forall>n. \<exists>i. e_uuid E n = Some i \<and> i \<notin> u_ID ` set (users (w_db w))"
    and profiles: "up_UserID ` set (user_profiles (w_db w)) \<subseteq> u_ID ` set (users (w_db w))"
    and name: "not_blank (displayNameFor (e_unicode E) identity)"
  shows "\<exists>w'. InTx E (googleTx E S now identity sc) w =
      (Inl (Wrap ''create profile'' (unique_violation ''user_profiles_email_key'')), w')
    \<and> w_db w' = w_db w"
proof -
  let ?w = "(tick w)\<lparr>w_tx := Some (e_now E (w_tick w))\<rparr>"
  obtain i where i: "e_uuid E (Suc (Suc (w_tick w))) = Some i" "i \<notin> u_ID ` set (users (w_db w))"
    using fresh by blast
  then have "i \<notin> up_UserID ` set (user_profiles (w_db w))" using profiles by blast
  moreover have "find (\<lambda>p. ap_Kind p = AuthProviderKindGoogle \<and> ap_Subject p = fi_Subject identity)
      (auth_providers (w_db w)) = None" using unknown by (auto simp: find_None_iff)
  moreover have "e_citext E (fi_Email identity) \<in> (\<lambda>p. e_citext E (up_Email p)) ` set (user_profiles (w_db w))"
    using taken by force
  ultimately have "\<exists>w1. googleTx E S now identity sc ?w =
      (Inl (Wrap ''create profile'' (unique_violation ''user_profiles_email_key'')), w1)"
    using calm i unverified email name
    by (simp add: googleTx_def attempt_def run_query_def ProviderByKindSubject_def enum_ok_def
        AuthProviderKind_enum_def notFound_def linkIdentity_def resolveAccountFor_def
        createAccountFor_def call_def NewV7_def CreateUser_def CreateUserProfile_def Let_def)
  then show ?thesis using InTx_err [OF calm [rule_format]] by fastforce
qed

definition profile_world :: world where
  "profile_world = fresh_world\<lparr>w_db := empty_db\<lparr>
     users := [\<lparr>u_ID = 3, u_CreatedAt = 0, u_UpdatedAt = 0\<rparr>],
     user_profiles := [\<lparr>up_UserID = 3, up_Email = ''ann@x.org'', up_DisplayName = ''Ann'',
       up_Timezone = ''UTC'', up_CreatedAt = 0, up_UpdatedAt = 0\<rparr>]\<rparr>\<rparr>"

definition unverified_ann :: FederatedIdentity where
  "unverified_ann = \<lparr>fi_Subject = ''g-9'', fi_Email = ''ann@x.org'', fi_EmailVerified = False,
     fi_Name = ''Ann''\<rparr>"

theorem google_unverified_taken_witness:
  "\<exists>w'. InTx (calm_env\<lparr>e_uuid := \<lambda>_. Some 99\<rparr>)
       (googleTx (calm_env\<lparr>e_uuid := \<lambda>_. Some 99\<rparr>) google_service 0 unverified_ann sample_sic) profile_world =
      (Inl (Wrap ''create profile'' (unique_violation ''user_profiles_email_key'')), w')
    \<and> w_db w' = w_db profile_world"
proof (rule google_unverified_taken)
  have "displayNameFor plain_unicode unverified_ann = ''Ann''" by code_simp
  then show "not_blank (displayNameFor (e_unicode (calm_env\<lparr>e_uuid := \<lambda>_. Some 99\<rparr>)) unverified_ann)"
    by (simp add: not_blank_iff)
qed (simp_all add: profile_world_def empty_db_def unverified_ann_def)

end
