(* ===== verification/Http_Errors.thy ===== *)
theory Http_Errors
  imports Go_Prelude
begin

text \<open>
  Errors on their way out of the API: \<^verbatim>\<open>httpapi/errors.go\<close> and the classification of
  \<^verbatim>\<open>httpapi/handler.go\<close>. What \<^verbatim>\<open>err.Error()\<close> prints is put together by package \<^verbatim>\<open>fmt\<close> from texts of
  the libraries; it is the parameter \<open>txt\<close> of the definitions that return it.
\<close>

section \<open>Errors above the services\<close>

text \<open>
  An error of the services, the API's own \<^verbatim>\<open>APIError\<close> with its cause, the sentinel
  \<^verbatim>\<open>httpapi.ErrNoSession\<close>, ogen's \<^verbatim>\<open>ErrNotImplemented\<close> and \<^verbatim>\<open>SecurityError\<close>, any other error of ogen that
  carries a status (a parameter or body it could not decode), and echo's \<^verbatim>\<open>HTTPError\<close>, whose message
  may be something else than a text.
\<close>

datatype api_error =
    Plain go_error
  | APIError nat string string "go_error option"
  | HttpNoSession
  | ErrNotImplemented
  | SecurityError api_error
  | Rejected nat string
  | EchoError nat "string option"

fun api_chain :: "api_error \<Rightarrow> api_error list" where
  "api_chain (SecurityError e) = SecurityError e # api_chain e"
| "api_chain (APIError st code msg (Some e)) = [APIError st code msg (Some e), Plain e]"
| "api_chain e = [e]"

fun is_APIError :: "api_error \<Rightarrow> bool" where
  "is_APIError (APIError st code msg cause) = True"
| "is_APIError e = False"

fun is_SecurityError :: "api_error \<Rightarrow> bool" where
  "is_SecurityError (SecurityError e) = True"
| "is_SecurityError e = False"

fun is_Rejected :: "api_error \<Rightarrow> bool" where
  "is_Rejected (Rejected code msg) = True"
| "is_Rejected e = False"

fun is_EchoError :: "api_error \<Rightarrow> bool" where
  "is_EchoError (EchoError code msg) = True"
| "is_EchoError e = False"

fun plain_Is :: "go_error \<Rightarrow> api_error \<Rightarrow> bool" where
  "plain_Is target (Plain e) = errors_Is e target"
| "plain_Is target e = False"

definition isSecurityError :: "api_error \<Rightarrow> bool" where
  "isSecurityError err = list_ex is_SecurityError (api_chain err)"

section \<open>errors.go\<close>

definition NewAPIError :: "nat \<Rightarrow> string \<Rightarrow> string \<Rightarrow> api_error" where
  "NewAPIError status code message = APIError status code message None"

fun WithCause :: "api_error \<Rightarrow> go_error \<Rightarrow> api_error" where
  "WithCause (APIError st code msg cause) err = APIError st code msg (Some err)"
| "WithCause e err = e"

definition ErrBadRequest :: "string \<Rightarrow> api_error" where
  "ErrBadRequest message = NewAPIError 400 ''bad_request'' message"

definition codeForStatus :: "nat \<Rightarrow> string" where
  "codeForStatus status =
     (if status = 401 then ''unauthenticated''
      else if status = 404 then ''not_found''
      else if status = 400 then ''bad_request''
      else if status = 405 then ''method_not_allowed''
      else if status = 413 then ''payload_too_large''
      else ''error'')"

text \<open>\<^verbatim>\<open>translate\<close>, with \<^verbatim>\<open>http.StatusText\<close> as the parameter \<open>statusText\<close>.\<close>

definition translate ::
  "(api_error \<Rightarrow> string) \<Rightarrow> (nat \<Rightarrow> string) \<Rightarrow> api_error \<Rightarrow> nat \<times> string \<times> string" where
  "translate txt statusText err =
     (case find is_APIError (api_chain err) of
        Some (APIError st code msg cause) \<Rightarrow> (st, code, msg)
      | _ \<Rightarrow>
          if list_ex (plain_Is ErrInvalid) (api_chain err) then (422, ''invalid'', txt err)
          else
            (case find is_EchoError (api_chain err) of
               Some (EchoError code msg) \<Rightarrow>
                 (code, codeForStatus code, case msg of Some m \<Rightarrow> m | None \<Rightarrow> statusText code)
             | _ \<Rightarrow> (500, ''internal'', ''internal error'')))"

section \<open>handler.go\<close>

definition classify :: "(api_error \<Rightarrow> string) \<Rightarrow> api_error \<Rightarrow> nat \<times> string \<times> string" where
  "classify txt err =
     (case find is_APIError (api_chain err) of
        Some (APIError st code msg cause) \<Rightarrow> (st, code, msg)
      | _ \<Rightarrow>
          if HttpNoSession \<in> set (api_chain err) \<or> isSecurityError err
          then (401, ''unauthenticated'',
            ''this endpoint requires a session; sign in at /api/v1/auth/google/start'')
          else if ErrNotImplemented \<in> set (api_chain err)
          then (501, ''not_implemented'',
            ''this operation is described by the API contract but is not implemented yet'')
          else if list_ex (plain_Is ErrInvalid) (api_chain err) then (422, ''invalid'', txt err)
          else
            (case find is_Rejected (api_chain err) of
               Some (Rejected code msg) \<Rightarrow> (code, codeForStatus code, msg)
             | _ \<Rightarrow> (500, ''internal'', ''internal error'')))"

text \<open>What is written to the client: a status, headers, and the error envelope.\<close>

record envelope =
  en_status :: nat
  en_headers :: "(string \<times> string) list"
  en_code :: string
  en_message :: string

definition NewError :: "(api_error \<Rightarrow> string) \<Rightarrow> api_error \<Rightarrow> envelope" where
  "NewError txt err =
     (let (status, code, message) = classify txt err
      in \<lparr>en_status = status, en_headers = [], en_code = code, en_message = message\<rparr>)"

definition writeEnvelope :: "(string \<times> string) list \<Rightarrow> nat \<Rightarrow> string \<Rightarrow> string \<Rightarrow> envelope" where
  "writeEnvelope headers status code message =
     \<lparr>en_status = status, en_headers = headers @ [(''Content-Type'', ''application/json; charset=utf-8'')],
      en_code = code, en_message = message\<rparr>"

definition ogenErrorHandler :: "(api_error \<Rightarrow> string) \<Rightarrow> api_error \<Rightarrow> envelope" where
  "ogenErrorHandler txt err =
     (let (status, code, message) = classify txt err in writeEnvelope [] status code message)"

definition notFoundHandler :: envelope where
  "notFoundHandler =
     writeEnvelope [] 404 ''not_found'' ''no such endpoint; see /docs for the API contract''"

definition methodNotAllowedHandler :: "(string \<times> string) list \<Rightarrow> string \<Rightarrow> envelope" where
  "methodNotAllowedHandler headers allowed =
     writeEnvelope (headers @ [(''Allow'', allowed)]) 405 ''method_not_allowed''
       (''this endpoint accepts '' @ allowed)"

section \<open>Nothing internal gets out\<close>

text \<open>
  Errors of the services that carry something to hide: none of them is a validation error.
\<close>

lemma classify_Plain:
  "classify txt (Plain e) =
     (if errors_Is e ErrInvalid then (422, ''invalid'', txt (Plain e))
      else (500, ''internal'', ''internal error''))"
  by (simp add: classify_def isSecurityError_def)

text \<open>
  Whatever fails inside, the client learns nothing of it: the answer to an error is a
  function of the API's own errors alone. An error of the services that is not a validation
  error, and whatever an \<^verbatim>\<open>APIError\<close> or a failed security check wraps, does not reach the code or
  the message; only validation errors print their text.
\<close>

theorem classify_hides_causes:
  "classify txt (Plain e) \<in> {(500, ''internal'', ''internal error''), (422, ''invalid'', txt (Plain e))}
   \<and> (fst (classify txt (Plain e)) = 422 \<longleftrightarrow> errors_Is e ErrInvalid)
   \<and> classify txt (APIError st code msg cause) = (st, code, msg)
   \<and> classify txt (SecurityError (Plain e)) = classify txt (SecurityError HttpNoSession)
   \<and> translate txt statusText (Plain e) = classify txt (Plain e)"
  by (cases cause) (auto simp: classify_Plain classify_def translate_def isSecurityError_def)

text \<open>The two tables of codes agree: a status ogen or echo reports has the same code in both.\<close>

lemma classify_translate_agree:
  "classify txt (Rejected st m) = translate txt statusText (EchoError st (Some m))"
  by (simp add: classify_def translate_def isSecurityError_def)

end
