(* ===== verification/Api_Schemas.thy ===== *)
theory Api_Schemas
  imports Go_Prelude
begin

text \<open>
  The types of the contract that the handlers use, \<^verbatim>\<open>apps/api/internal/api/oas_schemas_gen.go\<close>. The
  generated code repeats one shape for every optional type (\<^verbatim>\<open>OptString\<close>, \<^verbatim>\<open>OptBool\<close>, ...) and one for
  every optional type that may be null (\<^verbatim>\<open>OptNilUUID\<close>, \<^verbatim>\<open>OptNilString\<close>, ...); here each shape is a
  polymorphic record, and \<open>zero\<close> is the zero value of the type.
\<close>

section \<open>Optional values\<close>

record 'a Opt =
  opt_Value :: 'a
  opt_Set :: bool

definition NewOpt :: "'a \<Rightarrow> 'a Opt" where
  "NewOpt v = \<lparr>opt_Value = v, opt_Set = True\<rparr>"

definition Opt_Reset :: "'a \<Rightarrow> 'a Opt" where
  "Opt_Reset zero = \<lparr>opt_Value = zero, opt_Set = False\<rparr>"

definition Opt_SetTo :: "'a \<Rightarrow> 'a Opt \<Rightarrow> 'a Opt" where
  "Opt_SetTo v o1 = o1\<lparr>opt_Set := True, opt_Value := v\<rparr>"

definition Opt_Get :: "'a Opt \<Rightarrow> 'a option" where
  "Opt_Get o1 = (if \<not> opt_Set o1 then None else Some (opt_Value o1))"

definition Opt_Or :: "'a Opt \<Rightarrow> 'a \<Rightarrow> 'a" where
  "Opt_Or o1 d = (case Opt_Get o1 of Some v \<Rightarrow> v | None \<Rightarrow> d)"

record 'a OptNil =
  on_Value :: 'a
  on_Set :: bool
  on_Null :: bool

definition NewOptNil :: "'a \<Rightarrow> 'a OptNil" where
  "NewOptNil v = \<lparr>on_Value = v, on_Set = True, on_Null = False\<rparr>"

definition OptNil_Reset :: "'a \<Rightarrow> 'a OptNil" where
  "OptNil_Reset zero = \<lparr>on_Value = zero, on_Set = False, on_Null = False\<rparr>"

definition OptNil_SetTo :: "'a \<Rightarrow> 'a OptNil \<Rightarrow> 'a OptNil" where
  "OptNil_SetTo v o1 = o1\<lparr>on_Set := True, on_Null := False, on_Value := v\<rparr>"

definition OptNil_SetToNull :: "'a \<Rightarrow> 'a OptNil \<Rightarrow> 'a OptNil" where
  "OptNil_SetToNull zero o1 = o1\<lparr>on_Set := True, on_Null := True, on_Value := zero\<rparr>"

definition OptNil_IsEmpty :: "'a OptNil \<Rightarrow> bool" where
  "OptNil_IsEmpty o1 = (\<not> on_Set o1 \<and> \<not> on_Null o1)"

definition OptNil_Get :: "'a OptNil \<Rightarrow> 'a option" where
  "OptNil_Get o1 = (if on_Null o1 then None else if \<not> on_Set o1 then None else Some (on_Value o1))"

definition OptNil_Or :: "'a OptNil \<Rightarrow> 'a \<Rightarrow> 'a" where
  "OptNil_Or o1 d = (case OptNil_Get o1 of Some v \<Rightarrow> v | None \<Rightarrow> d)"

section \<open>Requests\<close>

record LoginRequest =
  lr_Email :: string
  lr_Password :: string

record RegisterRequest =
  rgr_Email :: string
  rgr_Password :: string
  rgr_DisplayName :: string

record CreateContextRequest =
  ccr_Slug :: string
  ccr_Name :: string
  ccr_ParentId :: "uuid OptNil"
  ccr_Color :: "string OptNil"
  ccr_ToneProfile :: "string Opt"

record UpdateContextRequest =
  ucr_Name :: "string Opt"
  ucr_ParentId :: "uuid OptNil"
  ucr_Color :: "string OptNil"
  ucr_ToneProfile :: "string OptNil"
  ucr_IsArchived :: "bool Opt"

record CreateTaskRequest =
  ctr_ContextId :: uuid
  ctr_Title :: string
  ctr_Detail :: "string OptNil"
  ctr_Priority :: "int Opt"
  ctr_DueAt :: "time OptNil"
  ctr_EstimatedMinutes :: "int OptNil"
  ctr_ParentTaskId :: "uuid OptNil"
  ctr_CommitmentId :: "uuid OptNil"

record CreateCommitmentRequest =
  cmr_ContextId :: uuid
  cmr_Direction :: string
  cmr_What :: string
  cmr_PersonId :: "uuid OptNil"
  cmr_PromisedAt :: "time OptNil"
  cmr_DueAt :: "time OptNil"

record ListSignalsParams =
  lsp_ContextIds :: "uuid list"
  lsp_Before :: "time Opt"
  lsp_Limit :: "int Opt"

record CompleteGoogleSignInParams =
  cgp_Code :: string
  cgp_State :: string
  cgp_Error :: "string Opt"

section \<open>Responses\<close>

record SignedInUser =
  siu_ID :: uuid
  siu_Email :: string
  siu_DisplayName :: string
  siu_Timezone :: string

record ApiSession =
  asn_ID :: uuid
  asn_ProviderKind :: "string Opt"
  asn_IssuedAt :: time
  asn_LastSeenAt :: time
  asn_ExpiresAt :: time
  asn_UserAgent :: "string Opt"
  asn_IP :: "string OptNil"
  asn_IsCurrent :: bool

text \<open>The zero \<^verbatim>\<open>time.Time\<close>, the first of January of the year 1, and the zero value of \<^verbatim>\<open>api.Session\<close>.\<close>

abbreviation zero_time :: time where "zero_time \<equiv> - 62135596800 * Second"

definition zero_session :: ApiSession where
  "zero_session = \<lparr>asn_ID = 0, asn_ProviderKind = Opt_Reset [], asn_IssuedAt = zero_time,
     asn_LastSeenAt = zero_time, asn_ExpiresAt = zero_time, asn_UserAgent = Opt_Reset [], asn_IP = OptNil_Reset [], asn_IsCurrent = False\<rparr>"

record CurrentSession =
  cus_User :: SignedInUser
  cus_Session :: ApiSession

record LinkedProvider =
  lp_ID :: uuid
  lp_Kind :: string
  lp_Email :: "string Opt"
  lp_IsPrimary :: bool
  lp_LinkedAt :: time
  lp_LastLoginAt :: "time OptNil"

record ApiContext =
  apc_ID :: uuid
  apc_ParentId :: "uuid OptNil"
  apc_Slug :: string
  apc_Name :: string
  apc_Color :: "string OptNil"
  apc_ToneProfile :: "string Opt"
  apc_Position :: int
  apc_IsArchived :: bool
  apc_CreatedAt :: time
  apc_UpdatedAt :: time

record ApiAccount =
  aac_ID :: uuid
  aac_Provider :: string
  aac_Reliability :: string
  aac_DisplayName :: string
  aac_Status :: string
  aac_LastSyncAt :: "time OptNil"
  aac_LastError :: "string Opt"

record ApiSignal =
  asg_ID :: uuid
  asg_AccountId :: uuid
  asg_Kind :: string
  asg_Subject :: "string Opt"
  asg_Snippet :: "string Opt"
  asg_OccurredAt :: time
  asg_IngestedAt :: time
  asg_Processed :: bool
  asg_ContextId :: "uuid Opt"
  asg_Confidence :: "float64 Opt"
  asg_AssignedBy :: "string Opt"

record ApiTask =
  atk_ID :: uuid
  atk_ContextId :: uuid
  atk_SourceSignalId :: "uuid OptNil"
  atk_ParentTaskId :: "uuid OptNil"
  atk_CommitmentId :: "uuid OptNil"
  atk_Title :: string
  atk_Detail :: "string OptNil"
  atk_Status :: string
  atk_Owner :: string
  atk_Priority :: int
  atk_DueAt :: "time OptNil"
  atk_EstimatedMinutes :: "int OptNil"
  atk_BlockedReason :: "string OptNil"
  atk_CreatedAt :: time
  atk_UpdatedAt :: time
  atk_CompletedAt :: "time OptNil"

record ApiCommitment =
  acm_ID :: uuid
  acm_ContextId :: uuid
  acm_PersonId :: "uuid OptNil"
  acm_EvidenceSignalId :: "uuid OptNil"
  acm_Direction :: string
  acm_What :: string
  acm_Status :: string
  acm_PromisedAt :: time
  acm_DueAt :: "time OptNil"
  acm_ResolvedAt :: "time OptNil"
  acm_IsConfirmed :: bool
  acm_IsOverdue :: bool
  acm_DaysOverdue :: "int OptNil"
  acm_CreatedAt :: time
  acm_UpdatedAt :: time

text \<open>
  \<^verbatim>\<open>http.Cookie\<close>, with the attributes the handlers set; all cookies are SameSite=Lax. A
  \<^verbatim>\<open>SetCookie\<close> field is the texts of a list of cookies joined by \<^verbatim>\<open>", "\<close>.
\<close>

record cookie =
  ck_Name :: string
  ck_Value :: string
  ck_Path :: string
  ck_Expires :: time
  ck_MaxAge :: int
  ck_HttpOnly :: bool
  ck_Secure :: bool

text \<open>The response types of the operations the handlers implement.\<close>

datatype api_response =
    ErrorEnvelope string string
  | ErrorEnvelopeHeaders int string string
  | CurrentSessionHeaders "cookie list" CurrentSession
  | CurrentSessionRes CurrentSession
  | SignOutNoContent "cookie list"
  | SessionList "ApiSession list"
  | RevokeSessionNoContent
  | RevokeSessionUnauthorized string string
  | RevokeSessionNotFound string string
  | LinkedProviderList "LinkedProvider list"
  | UnlinkAuthProviderNoContent
  | UnlinkAuthProviderUnauthorized string string
  | UnlinkAuthProviderConflict string string
  | UnlinkAuthProviderNotFound string string
  | StartGoogleSignInFound string "cookie list"
  | CompleteGoogleSignInFound string "cookie list"
  | ContextRes ApiContext
  | ContextList "ApiContext list"
  | CreateContextConflict string string
  | CreateContextUnprocessableEntity string string
  | UpdateContextUnauthorized string string
  | UpdateContextNotFound string string
  | UpdateContextUnprocessableEntity string string
  | ArchiveContextNoContent
  | ArchiveContextUnauthorized string string
  | ArchiveContextNotFound string string
  | ArchiveContextConflict string string

section \<open>The three states of a nullable field\<close>

text \<open>
  The states the setters produce: left out, null, or a value. \<open>Get\<close> tells a value from the other
  two, \<open>IsEmpty\<close> what was left out from what was sent.
\<close>

lemma OptNil_states:
  "OptNil_Get (OptNil_SetTo v o1) = Some v" "on_Set (OptNil_SetTo v o1)"
  "OptNil_Get (OptNil_SetToNull z o1) = None" "on_Set (OptNil_SetToNull z o1)" "on_Null (OptNil_SetToNull z o1)"
  "OptNil_Get (OptNil_Reset z) = None" "OptNil_IsEmpty (OptNil_Reset z)" "\<not> OptNil_IsEmpty (OptNil_SetToNull z o1)"
  by (simp_all add: OptNil_Get_def OptNil_SetTo_def OptNil_SetToNull_def OptNil_Reset_def OptNil_IsEmpty_def)

end
