(* ===== verification/Store_Contexts.thy ===== *)
theory Store_Contexts
  imports Store_DB
begin

text \<open>
  \<^verbatim>\<open>internal/store/contexts.sql.go\<close>: the statements on the tree of contexts, with the trigger, the
  checks and the keys of the table (\<^verbatim>\<open>db/migrations\<close> 00004 and 00021) and the view \<^verbatim>\<open>context_tree\<close>
  (00022) that two of them read.
\<close>

section \<open>The cycle trigger\<close>

definition parent_of :: "ContextRow list \<Rightarrow> uuid \<Rightarrow> uuid option" where
  "parent_of rows i =
     (case find (\<lambda>c. cx_ID c = i) rows of None \<Rightarrow> None | Some c \<Rightarrow> cx_ParentID c)"

text \<open>
  \<^verbatim>\<open>contexts_prevent_cycle\<close>: the loop from the new parent upwards. It counts the ancestors and
  raises when there are more than two, so it ends; the exceptions carry no constraint name.
\<close>

function prevent_cycle :: "ContextRow list \<Rightarrow> uuid \<Rightarrow> uuid option \<Rightarrow> nat \<Rightarrow> go_error option" where
  "prevent_cycle rows new_id None depth = None"
| "prevent_cycle rows new_id (Some ancestor) depth =
     (if ancestor = new_id then Some (check_violation [])
      else if depth + 1 > 2 then Some (check_violation [])
      else prevent_cycle rows new_id (parent_of rows ancestor) (depth + 1))"
  by pat_completeness auto
termination by (relation "measure (\<lambda>(rows, new_id, ancestor, depth). 3 - depth)") auto

section \<open>Column checks\<close>

definition slug_char :: "char \<Rightarrow> bool" where
  "slug_char c \<longleftrightarrow> (97 \<le> (of_char c :: nat) \<and> (of_char c :: nat) \<le> 122)
     \<or> (48 \<le> (of_char c :: nat) \<and> (of_char c :: nat) \<le> 57)"

text \<open>\<^verbatim>\<open>slug ~ '^[a-z0-9][a-z0-9_-]*$'\<close>.\<close>

definition slug_format :: "string \<Rightarrow> bool" where
  "slug_format s = (case s of
     [] \<Rightarrow> False
   | c # cs \<Rightarrow> slug_char c \<and> list_all (\<lambda>c. slug_char c \<or> c = CHR ''_'' \<or> c = CHR ''-'') cs)"

definition color_token :: "string option \<Rightarrow> bool" where
  "color_token c = (case c of
     None \<Rightarrow> True
   | Some s \<Rightarrow> s \<in> {''slate'', ''blue'', ''violet'', ''green'', ''teal'', ''rose''})"

text \<open>The row checks of the table, in the order of their names.\<close>

definition context_checks :: "ContextRow \<Rightarrow> (bool \<times> go_error) list" where
  "context_checks c =
     [(color_token (cx_Color c), check_violation ''contexts_color_token''),
      (cx_ParentID c \<noteq> Some (cx_ID c), check_violation ''contexts_no_self_parent''),
      (slug_format (cx_Slug c), check_violation ''contexts_slug_format'')]"

section \<open>Statements\<close>

record CreateContextParams =
  ccp_ID :: uuid
  ccp_UserID :: uuid
  ccp_ParentID :: "uuid option"
  ccp_Slug :: string
  ccp_Name :: string
  ccp_Color :: "string option"
  ccp_ActiveHours :: "byte list"
  ccp_ToneProfile :: "string option"
  ccp_Position :: int

definition new_context :: "CreateContextParams \<Rightarrow> time \<Rightarrow> ContextRow" where
  "new_context arg now = \<lparr>cx_ID = ccp_ID arg, cx_UserID = ccp_UserID arg,
     cx_ParentID = ccp_ParentID arg, cx_Slug = ccp_Slug arg, cx_Name = ccp_Name arg,
     cx_Color = ccp_Color arg, cx_ActiveHours = ccp_ActiveHours arg,
     cx_ToneProfile = ccp_ToneProfile arg, cx_Position = ccp_Position arg, cx_IsArchived = False,
     cx_CreatedAt = now, cx_UpdatedAt = now\<rparr>"

definition CreateContext :: "CreateContextParams \<Rightarrow> ContextRow query" where
  "CreateContext arg now d =
     (let c = new_context arg now
      in case prevent_cycle (contexts d) (cx_ID c) (cx_ParentID c) 0 of
           Some e \<Rightarrow> Inl e
         | None \<Rightarrow>
             (case checks (context_checks c @
                [(cx_ID c \<notin> cx_ID ` set (contexts d), unique_violation ''contexts_pkey''),
                 ((cx_UserID c, cx_Slug c) \<notin> (\<lambda>r. (cx_UserID r, cx_Slug r)) ` set (contexts d),
                    unique_violation ''contexts_unique_slug''),
                 (case cx_ParentID c of None \<Rightarrow> True | Some p \<Rightarrow> p \<in> cx_ID ` set (contexts d),
                    foreign_key_violation ''contexts_parent_id_fkey''),
                 (cx_UserID c \<in> u_ID ` set (users d),
                    foreign_key_violation ''contexts_user_id_fkey'')]) of
                Some e \<Rightarrow> Inl e
              | None \<Rightarrow> Inr (c, d\<lparr>contexts := contexts d @ [c]\<rparr>)))"

definition GetContext :: "uuid \<Rightarrow> ContextRow query" where
  "GetContext i now d =
     (case find (\<lambda>c. cx_ID c = i) (contexts d) of None \<Rightarrow> Inl ErrNoRows | Some c \<Rightarrow> Inr (c, d))"

text \<open>\<^verbatim>\<open>MAX(position) + 1\<close> is an integer of 32 bits; \<^verbatim>\<open>MAX\<close> of no row is null.\<close>

definition NextContextPosition :: "uuid \<Rightarrow> int query" where
  "NextContextPosition userID now d =
     (case map cx_Position (filter (\<lambda>c. cx_UserID c = userID) (contexts d)) of
        [] \<Rightarrow> Inr (0, d)
      | p # ps \<Rightarrow>
          (let m = foldl max p ps
           in if m + 1 > 2147483647 then Inl numeric_out_of_range else Inr (m + 1, d)))"

record UpdateContextParams =
  ucp_Name :: "string option"
  ucp_IsArchived :: "bool option"
  ucp_SetColor :: bool
  ucp_Color :: "string option"
  ucp_SetParentID :: bool
  ucp_ParentID :: "uuid option"
  ucp_SetToneProfile :: bool
  ucp_ToneProfile :: "string option"
  ucp_ID :: uuid
  ucp_UserID :: uuid

definition updated_context :: "UpdateContextParams \<Rightarrow> time \<Rightarrow> ContextRow \<Rightarrow> ContextRow" where
  "updated_context arg now c = c\<lparr>
     cx_Name := (case ucp_Name arg of None \<Rightarrow> cx_Name c | Some n \<Rightarrow> n),
     cx_IsArchived := (case ucp_IsArchived arg of None \<Rightarrow> cx_IsArchived c | Some b \<Rightarrow> b),
     cx_Color := (if ucp_SetColor arg then ucp_Color arg else cx_Color c),
     cx_ParentID := (if ucp_SetParentID arg then ucp_ParentID arg else cx_ParentID c),
     cx_ToneProfile := (if ucp_SetToneProfile arg then ucp_ToneProfile arg else cx_ToneProfile c),
     cx_UpdatedAt := now\<rparr>"

text \<open>
  The statement lists \<^verbatim>\<open>parent_id\<close> among the columns it sets, so the trigger runs whatever the
  request changes.
\<close>

definition UpdateContext :: "UpdateContextParams \<Rightarrow> ContextRow query" where
  "UpdateContext arg now d =
     (let hit = (\<lambda>c. cx_ID c = ucp_ID arg \<and> cx_UserID c = ucp_UserID arg)
      in case find hit (contexts d) of
           None \<Rightarrow> Inl ErrNoRows
         | Some old \<Rightarrow>
             (let c = updated_context arg now old
              in case prevent_cycle (contexts d) (cx_ID c) (cx_ParentID c) 0 of
                   Some e \<Rightarrow> Inl e
                 | None \<Rightarrow>
                     (case checks (context_checks c @
                        [(cx_ParentID c = cx_ParentID old
                          \<or> (case cx_ParentID c of None \<Rightarrow> True | Some p \<Rightarrow> p \<in> cx_ID ` set (contexts d)),
                            foreign_key_violation ''contexts_parent_id_fkey'')]) of
                        Some e \<Rightarrow> Inl e
                      | None \<Rightarrow>
                          Inr (c, d\<lparr>contexts := update_where hit (updated_context arg now) (contexts d)\<rparr>))))"

record ArchiveContextParams =
  acp_ID :: uuid
  acp_UserID :: uuid

definition ArchiveContext :: "ArchiveContextParams \<Rightarrow> ContextRow query" where
  "ArchiveContext arg now d =
     (let hit = (\<lambda>c. cx_ID c = acp_ID arg \<and> cx_UserID c = acp_UserID arg);
          put = (\<lambda>c. c\<lparr>cx_IsArchived := True, cx_UpdatedAt := now\<rparr>)
      in case find hit (contexts d) of
           None \<Rightarrow> Inl ErrNoRows
         | Some old \<Rightarrow> Inr (put old, d\<lparr>contexts := update_where hit put (contexts d)\<rparr>))"

text \<open>A null parent equals no column value, so it counts nothing.\<close>

definition CountLiveChildren :: "uuid option \<Rightarrow> int query" where
  "CountLiveChildren parentID now d =
     Inr (int (length (filter (\<lambda>c. parentID \<noteq> None \<and> cx_ParentID c = parentID \<and> \<not> cx_IsArchived c)
       (contexts d))), d)"

section \<open>The view context\_tree\<close>

text \<open>
  The recursive walk, level by level: the roots, then the children of the rows of the level
  before. A level is empty after as many steps as there are rows, which is the bound used.
\<close>

definition tree_roots :: "ContextRow list \<Rightarrow> ContextTree list" where
  "tree_roots rows =
     map (\<lambda>c. \<lparr>ct_ID = cx_ID c, ct_UserID = cx_UserID c, ct_RootID = cx_ID c, ct_Path = cx_Name c,
               ct_Depth = 0, ct_Ancestry = [cx_ID c], ct_SortPath = [(cx_Position c, cx_Name c)]\<rparr>)
       (filter (\<lambda>c. cx_ParentID c = None) rows)"

definition tree_step :: "ContextTree \<Rightarrow> ContextRow \<Rightarrow> ContextTree" where
  "tree_step w c = \<lparr>ct_ID = cx_ID c, ct_UserID = cx_UserID c, ct_RootID = ct_RootID w,
     ct_Path = ct_Path w @ '' / '' @ cx_Name c, ct_Depth = ct_Depth w + 1,
     ct_Ancestry = ct_Ancestry w @ [cx_ID c],
     ct_SortPath = ct_SortPath w @ [(cx_Position c, cx_Name c)]\<rparr>"

definition tree_children :: "ContextRow list \<Rightarrow> ContextTree list \<Rightarrow> ContextTree list" where
  "tree_children rows level =
     concat (map (\<lambda>w. map (tree_step w) (filter (\<lambda>c. cx_ParentID c = Some (ct_ID w)) rows)) level)"

fun tree_walk :: "nat \<Rightarrow> ContextRow list \<Rightarrow> ContextTree list \<Rightarrow> ContextTree list" where
  "tree_walk 0 rows level = []"
| "tree_walk (Suc n) rows level =
     (if level = [] then [] else level @ tree_walk n rows (tree_children rows level))"

definition context_tree :: "db \<Rightarrow> ContextTree list" where
  "context_tree d = tree_walk (length (contexts d)) (contexts d) (tree_roots (contexts d))"

record IsDescendantParams =
  idp_CandidateID :: uuid
  idp_RootID :: uuid

definition IsDescendant :: "IsDescendantParams \<Rightarrow> bool query" where
  "IsDescendant arg now d =
     Inr (list_ex (\<lambda>t. ct_ID t = idp_CandidateID arg \<and> idp_RootID arg \<in> set (ct_Ancestry t))
       (context_tree d), d)"

record ListContextsParams =
  lcp_UserID :: uuid
  lcp_IncludeArchived :: bool

text \<open>
  Arrays of composites compare element by element and field by field; names compare by the
  database's collation, given by a sort key.
\<close>

definition sort_key_of :: "(string \<Rightarrow> string) \<Rightarrow> ContextTree \<Rightarrow> (int \<times> string) list" where
  "sort_key_of coll t = map (\<lambda>(p, n). (p, coll n)) (ct_SortPath t)"

definition ListContexts :: "(string \<Rightarrow> string) \<Rightarrow> ListContextsParams \<Rightarrow> ContextRow list query" where
  "ListContexts coll arg now d =
     Inr (map fst
       (SliceStable (\<lambda>a b. sort_key_of coll (snd a) < sort_key_of coll (snd b))
         (filter (\<lambda>(c, t). ct_ID t = cx_ID c \<and> cx_UserID c = lcp_UserID arg
                    \<and> (lcp_IncludeArchived arg \<or> \<not> cx_IsArchived c))
           (List.product (contexts d) (context_tree d)))), d)"

lemmas context_statements [sql_simps] =
  CreateContext_def GetContext_def NextContextPosition_def UpdateContext_def ArchiveContext_def
  CountLiveChildren_def IsDescendant_def ListContexts_def

end
