(* ===== verification/Contexts_Tree.thy ===== *)
theory Contexts_Tree
  imports Store_Contexts Store_Integrity
begin

text \<open>
  The tree of contexts: the integrity of the table as an invariant of its statements, the
  interface of a forest with its interpretation on the table, and the view \<^verbatim>\<open>context_tree\<close>
  characterised by paths from the roots.
\<close>

section \<open>The interface of a forest\<close>

text \<open>
  Nodes with at most one parent each and no cycles. The clients of the tree rely on every node
  having a root above it and on a new parent that is not below the node keeping the forest.
\<close>

definition above :: "('n \<Rightarrow> 'n option) \<Rightarrow> ('n \<times> 'n) set" where
  "above parent = {(p, n). parent n = Some p}"

lemma above_iff [simp]: "(p, n) \<in> above parent \<longleftrightarrow> parent n = Some p"
  by (simp add: above_def)

text \<open>A node on the way up from \<open>n\<close> is \<open>n\<close> itself or on the way up from its parent.\<close>

lemma above_rtrancl_iff:
  "(a, n) \<in> (above parent)\<^sup>* \<longleftrightarrow> a = n \<or> (\<exists>p. parent n = Some p \<and> (a, p) \<in> (above parent)\<^sup>*)"
proof
  assume "(a, n) \<in> (above parent)\<^sup>*"
  then show "a = n \<or> (\<exists>p. parent n = Some p \<and> (a, p) \<in> (above parent)\<^sup>*)"
    by (cases rule: rtrancl.cases) auto
next
  assume "a = n \<or> (\<exists>p. parent n = Some p \<and> (a, p) \<in> (above parent)\<^sup>*)"
  then show "(a, n) \<in> (above parent)\<^sup>*"
  proof
    assume "\<exists>p. parent n = Some p \<and> (a, p) \<in> (above parent)\<^sup>*"
    then obtain p where "(a, p) \<in> (above parent)\<^sup>*" "(p, n) \<in> above parent" by auto
    then show ?thesis by (rule rtrancl.rtrancl_into_rtrancl)
  qed simp
qed

locale forest =
  fixes ok :: "'s \<Rightarrow> bool" and nodes :: "'s \<Rightarrow> 'n set" and parent :: "'s \<Rightarrow> 'n \<Rightarrow> 'n option"
  assumes fin: "ok s \<Longrightarrow> finite (nodes s)"
    and parent_in: "ok s \<Longrightarrow> parent s n = Some p \<Longrightarrow> n \<in> nodes s \<and> p \<in> nodes s"
    and acyc: "ok s \<Longrightarrow> acyclic (above (parent s))"
begin

lemma wf_above: "ok s \<Longrightarrow> wf (above (parent s))"
proof -
  assume s: "ok s"
  have "above (parent s) \<subseteq> nodes s \<times> nodes s" using parent_in [OF s] by (auto simp: above_def)
  then have "finite (above (parent s))" using fin [OF s] by (meson finite_SigmaI finite_subset)
  then show ?thesis using acyc [OF s] by (rule finite_acyclic_wf)
qed

lemma root_above:
  assumes "ok s"
  shows "\<exists>r. parent s r = None \<and> (r, n) \<in> (above (parent s))\<^sup>*"
  using wf_above [OF assms]
proof (induction n rule: wf_induct_rule)
  case (less n)
  show ?case
  proof (cases "parent s n")
    case (Some p)
    with less [of p] obtain r where "parent s r = None" "(r, p) \<in> (above (parent s))\<^sup>*" by auto
    with Some show ?thesis by (subst above_rtrancl_iff) auto
  qed auto
qed

lemma not_own_ancestor: "ok s \<Longrightarrow> (n, n) \<notin> (above (parent s))\<^sup>+"
  using acyc unfolding acyclic_def by blast

text \<open>The way up from a node of the forest stays in the forest.\<close>

lemma ancestors_in: "(a, n) \<in> (above (parent s))\<^sup>* \<Longrightarrow> ok s \<Longrightarrow> n \<in> nodes s \<Longrightarrow> a \<in> nodes s"
  by (induction rule: converse_rtrancl_induct) (auto dest: parent_in)

end

text \<open>Giving a node a new parent from which the node is not reachable upwards makes no cycle.\<close>

lemma acyclic_reparent:
  assumes "acyclic r" and "(n, p) \<notin> r\<^sup>*"
  shows "acyclic (insert (p, n) {(q, m) \<in> r. m \<noteq> n})"
proof -
  have "acyclic {(q, m) \<in> r. m \<noteq> n}" using assms(1) by (rule acyclic_subset) auto
  moreover have "(n, p) \<notin> {(q, m) \<in> r. m \<noteq> n}\<^sup>*"
  proof
    assume "(n, p) \<in> {(q, m) \<in> r. m \<noteq> n}\<^sup>*"
    moreover have "{(q, m) \<in> r. m \<noteq> n}\<^sup>* \<subseteq> r\<^sup>*" by (rule rtrancl_mono) auto
    ultimately have "(n, p) \<in> r\<^sup>*" by blast
    with assms(2) show False by simp
  qed
  ultimately show ?thesis by (simp add: acyclic_insert)
qed

section \<open>The integrity of the table\<close>

abbreviation parent_rel :: "ContextRow list \<Rightarrow> (uuid \<times> uuid) set" where
  "parent_rel rows \<equiv> above (parent_of rows)"

definition context_row_ok :: "db \<Rightarrow> ContextRow \<Rightarrow> bool" where
  "context_row_ok d c \<longleftrightarrow>
     cx_UserID c \<in> u_ID ` set (users d) \<and> slug_format (cx_Slug c) \<and> color_token (cx_Color c)
     \<and> pred_option (\<lambda>p. \<exists>q \<in> set (contexts d). cx_ID q = p \<and> cx_UserID q = cx_UserID c) (cx_ParentID c)"

definition contexts_ok :: "db \<Rightarrow> bool" where
  "contexts_ok d \<longleftrightarrow>
     distinct (map cx_ID (contexts d))
     \<and> distinct (map (\<lambda>c. (cx_UserID c, cx_Slug c)) (contexts d))
     \<and> (\<forall>c \<in> set (contexts d). context_row_ok d c)
     \<and> acyclic (parent_rel (contexts d))"

lemma parent_of_row:
  "distinct (map cx_ID rows) \<Longrightarrow> c \<in> set rows \<Longrightarrow> parent_of rows (cx_ID c) = cx_ParentID c"
  using find_unique [of cx_ID rows c] by (simp add: parent_of_def)

lemma parent_of_Some:
  "parent_of rows i = Some p \<Longrightarrow> \<exists>c \<in> set rows. cx_ID c = i \<and> cx_ParentID c = Some p"
  by (auto simp: parent_of_def split: option.splits dest: find_Some_in)

lemma parent_of_missing: "i \<notin> cx_ID ` set rows \<Longrightarrow> parent_of rows i = None"
  by (auto simp: parent_of_def split: option.splits dest: find_Some_in)

interpretation tree: forest contexts_ok "\<lambda>d. cx_ID ` set (contexts d)" "\<lambda>d. parent_of (contexts d)"
proof unfold_locales
  fix d n p assume ok: "contexts_ok d" and "parent_of (contexts d) n = Some p"
  then obtain c where c: "c \<in> set (contexts d)" "cx_ID c = n" "cx_ParentID c = Some p"
    by (auto dest: parent_of_Some)
  with ok have "context_row_ok d c" by (simp add: contexts_ok_def)
  with c show "n \<in> cx_ID ` set (contexts d) \<and> p \<in> cx_ID ` set (contexts d)"
    by (auto simp: context_row_ok_def)
qed (simp_all add: contexts_ok_def)

text \<open>What the trigger lets through: the node is not above its new parent.\<close>

lemma prevent_cycle_None:
  "prevent_cycle rows i a depth = None \<Longrightarrow> a = Some p \<Longrightarrow> (i, p) \<notin> (parent_rel rows)\<^sup>*"
proof (induction rows i a depth arbitrary: p rule: prevent_cycle.induct)
  case (2 rows i anc depth)
  then have step: "anc \<noteq> i" "\<not> 2 < depth + 1" "p = anc"
    "prevent_cycle rows i (parent_of rows anc) (depth + 1) = None"
    by (auto split: if_splits)
  have "(i, q) \<notin> (parent_rel rows)\<^sup>*" if "parent_of rows anc = Some q" for q
    using "2.IH" [OF step(1,2,4) that] .
  with step(1,3) show ?case by (simp add: above_rtrancl_iff [of i anc])
qed simp

section \<open>What the statements keep\<close>

lemma parent_of_append:
  "cx_ID c \<notin> cx_ID ` set rows \<Longrightarrow>
   parent_of (rows @ [c]) i = (if i = cx_ID c then cx_ParentID c else parent_of rows i)"
  by (induction rows) (auto simp: parent_of_def)

lemma acyclic_parent_rel_append:
  assumes "cx_ID c \<notin> cx_ID ` set rows" and "acyclic (parent_rel rows)"
    and "\<And>p. cx_ParentID c = Some p \<Longrightarrow> (cx_ID c, p) \<notin> (parent_rel rows)\<^sup>*"
  shows "acyclic (parent_rel (rows @ [c]))"
proof (cases "cx_ParentID c")
  case None
  then have "parent_rel (rows @ [c]) \<subseteq> parent_rel rows"
    using assms(1) by (auto simp: parent_of_append split: if_splits)
  with assms(2) show ?thesis by (rule acyclic_subset)
next
  case (Some p)
  then have "parent_rel (rows @ [c]) \<subseteq> insert (p, cx_ID c) (parent_rel rows)"
    using assms(1) by (auto simp: parent_of_append split: if_splits)
  moreover have "acyclic (insert (p, cx_ID c) (parent_rel rows))"
    using assms(2,3) Some by (simp add: acyclic_insert)
  ultimately show ?thesis using acyclic_subset by blast
qed

lemma parent_of_update:
  assumes "\<And>c. cx_ID (f c) = cx_ID c" and "\<And>c. hit c \<Longrightarrow> cx_ID c = n"
  shows "i \<noteq> n \<Longrightarrow> parent_of (update_where hit f rows) i = parent_of rows i"
  using assms by (induction rows) (auto simp: parent_of_def update_where_def)

lemma acyclic_parent_rel_update:
  assumes "acyclic (parent_rel rows)" and keep: "\<And>c. cx_ID (f c) = cx_ID c"
    and one: "\<And>c. hit c \<Longrightarrow> cx_ID c = n"
    and new: "\<And>c p. c \<in> set rows \<Longrightarrow> hit c \<Longrightarrow> cx_ParentID (f c) = Some p \<Longrightarrow> (n, p) \<notin> (parent_rel rows)\<^sup>*"
    and hit: "c0 \<in> set rows" "hit c0" and ids: "distinct (map cx_ID rows)"
  shows "acyclic (parent_rel (update_where hit f rows))"
proof -
  let ?rows = "update_where hit f rows" and ?rest = "{(q, m) \<in> parent_rel rows. m \<noteq> n}"
  have n: "cx_ID (f c0) = n" and "f c0 \<in> set ?rows"
    using hit keep one by (auto simp: set_update_where)
  moreover have "distinct (map cx_ID ?rows)" using ids keep by simp
  ultimately have at_n: "parent_of ?rows n = cx_ParentID (f c0)" using parent_of_row by metis
  have sub: "(q, m) \<in> ?rest" if "parent_of ?rows m = Some q" "m \<noteq> n" for q m
    using that keep one by (simp add: parent_of_update)
  show ?thesis
  proof (cases "cx_ParentID (f c0)")
    case None
    then have "parent_rel ?rows \<subseteq> parent_rel rows" using at_n sub by force
    with assms(1) show ?thesis by (rule acyclic_subset)
  next
    case (Some p)
    then have "parent_rel ?rows \<subseteq> insert (p, n) ?rest" using at_n sub by force
    moreover have "acyclic (insert (p, n) ?rest)"
      using assms(1) new [OF hit Some] by (rule acyclic_reparent)
    ultimately show ?thesis using acyclic_subset by blast
  qed
qed

text \<open>
  Rewriting one row of the table, its keys kept, its colour a token, its parent a context of the
  same owner that is not below it.
\<close>

lemma contexts_ok_update:
  assumes ok: "contexts_ok d" and keep: "\<And>c. cx_ID (f c) = cx_ID c \<and> cx_UserID (f c) = cx_UserID c \<and> cx_Slug (f c) = cx_Slug c"
    and one: "\<And>c. hit c \<Longrightarrow> cx_ID c = n"
    and color: "\<And>c. c \<in> set (contexts d) \<Longrightarrow> hit c \<Longrightarrow> color_token (cx_Color (f c))"
    and parent: "\<And>c p. c \<in> set (contexts d) \<Longrightarrow> hit c \<Longrightarrow> cx_ParentID (f c) = Some p \<Longrightarrow>
       (n, p) \<notin> (parent_rel (contexts d))\<^sup>* \<and> (\<exists>q \<in> set (contexts d). cx_ID q = p \<and> cx_UserID q = cx_UserID c)"
  shows "contexts_ok (d\<lparr>contexts := update_where hit f (contexts d)\<rparr>)"
proof (cases "\<exists>c \<in> set (contexts d). hit c")
  case False
  then have "update_where hit f (contexts d) = contexts d" by (auto intro: update_where_none)
  with ok show ?thesis by simp
next
  case True
  let ?d = "d\<lparr>contexts := update_where hit f (contexts d)\<rparr>"
  have owner: "(\<exists>q \<in> set (contexts d). cx_ID q = p \<and> cx_UserID q = u) \<Longrightarrow>
      (\<exists>q \<in> set (contexts ?d). cx_ID q = p \<and> cx_UserID q = u)" for p u
  proof -
    assume "\<exists>q \<in> set (contexts d). cx_ID q = p \<and> cx_UserID q = u"
    then obtain q where "q \<in> set (contexts d)" "cx_ID q = p" "cx_UserID q = u" by blast
    with keep show ?thesis by (intro bexI [of _ "if hit q then f q else q"]) (auto simp: set_update_where)
  qed
  have "context_row_ok ?d c" if "c \<in> set (contexts ?d)" for c
  proof -
    from that obtain c0 where c0: "c0 \<in> set (contexts d)" "c = (if hit c0 then f c0 else c0)"
      by (auto simp: set_update_where)
    with ok have "context_row_ok d c0" by (simp add: contexts_ok_def)
    moreover have "\<exists>q \<in> set (contexts ?d). cx_ID q = p \<and> cx_UserID q = cx_UserID c0"
      if "cx_ParentID c = Some p" for p
      using that calculation c0 parent [OF c0(1), of p]
      by (intro owner) (auto simp: context_row_ok_def split: if_splits)
    moreover have "color_token (cx_Color c)"
      using calculation(1) c0 color by (auto simp: context_row_ok_def)
    ultimately show ?thesis
      using c0(2) keep by (cases "cx_ParentID c") (auto simp: context_row_ok_def)
  qed
  moreover have "acyclic (parent_rel (contexts ?d))"
    using ok keep one parent True
    by (auto simp: contexts_ok_def intro!: acyclic_parent_rel_update [of _ f hit n])
  ultimately show ?thesis using ok keep by (simp add: contexts_ok_def)
qed

lemma CreateContext_ok:
  assumes ok: "contexts_ok d" and new: "CreateContext arg t d = Inr (c, d')"
    and parent: "\<And>p. ccp_ParentID arg = Some p \<Longrightarrow>
       \<exists>q \<in> set (contexts d). cx_ID q = p \<and> cx_UserID q = ccp_UserID arg"
  shows "contexts_ok d' \<and> c = new_context arg t \<and> d' = d\<lparr>contexts := contexts d @ [c]\<rparr>"
proof -
  have c: "c = new_context arg t" "d' = d\<lparr>contexts := contexts d @ [c]\<rparr>"
    and cyc: "prevent_cycle (contexts d) (cx_ID c) (cx_ParentID c) 0 = None"
    and chk: "cx_ID c \<notin> cx_ID ` set (contexts d)" "color_token (cx_Color c)" "slug_format (cx_Slug c)"
      "(cx_UserID c, cx_Slug c) \<notin> (\<lambda>r. (cx_UserID r, cx_Slug r)) ` set (contexts d)"
      "cx_UserID c \<in> u_ID ` set (users d)"
    using new by (auto simp: CreateContext_def Let_def context_checks_def split: option.splits if_splits)
  have rows: "cx_UserID c = ccp_UserID arg" "cx_ParentID c = ccp_ParentID arg"
    by (simp_all add: c(1) new_context_def)
  have "acyclic (parent_rel (contexts d @ [c]))"
    using ok chk(1) prevent_cycle_None [OF cyc] by (auto simp: contexts_ok_def intro!: acyclic_parent_rel_append)
  moreover have "context_row_ok d' r" if "r \<in> set (contexts d @ [c])" for r
  proof (cases "r = c")
    case True
    with chk parent rows show ?thesis
      by (cases "ccp_ParentID arg") (auto simp: context_row_ok_def c(2))
  next
    case False
    with that ok have "context_row_ok d r" by (auto simp: contexts_ok_def)
    then show ?thesis by (cases "cx_ParentID r") (auto simp: context_row_ok_def c(2))
  qed
  ultimately show ?thesis using ok chk(1,4) c by (auto simp: contexts_ok_def)
qed

lemma UpdateContext_Inr:
  assumes "UpdateContext arg t d = Inr (c, d')"
  obtains old where "find (\<lambda>c. cx_ID c = ucp_ID arg \<and> cx_UserID c = ucp_UserID arg) (contexts d) = Some old"
    and "c = updated_context arg t old"
    and "prevent_cycle (contexts d) (ucp_ID arg) (cx_ParentID c) 0 = None"
    and "color_token (cx_Color c)"
    and "d' = d\<lparr>contexts := update_where (\<lambda>c. cx_ID c = ucp_ID arg \<and> cx_UserID c = ucp_UserID arg)
            (updated_context arg t) (contexts d)\<rparr>"
  using assms
  by (auto simp: UpdateContext_def Let_def context_checks_def updated_context_def
      split: option.splits if_splits dest!: find_Some_in)

lemma UpdateContext_ok:
  assumes ok: "contexts_ok d" and upd: "UpdateContext arg t d = Inr (c, d')"
    and parent: "\<And>p. ucp_SetParentID arg \<Longrightarrow> ucp_ParentID arg = Some p \<Longrightarrow>
       \<exists>q \<in> set (contexts d). cx_ID q = p \<and> cx_UserID q = ucp_UserID arg"
  shows "contexts_ok d'"
  using upd
proof (cases rule: UpdateContext_Inr)
  case (1 old)
  have old: "old \<in> set (contexts d)" "cx_ID old = ucp_ID arg" "cx_UserID old = ucp_UserID arg"
    using find_Some_in [OF 1(1)] by auto
  have uniq: "r = old" if "r \<in> set (contexts d)" "cx_ID r = ucp_ID arg" for r
    using that ok old inj_onD [of cx_ID "set (contexts d)"] by (auto simp: contexts_ok_def distinct_map)
  have owned: "\<exists>q \<in> set (contexts d). cx_ID q = p \<and> cx_UserID q = ucp_UserID arg"
    if "cx_ParentID c = Some p" for p
  proof (cases "ucp_SetParentID arg")
    case True
    with that parent show ?thesis by (simp add: 1(2) updated_context_def)
  next
    case False
    with that ok old show ?thesis by (auto simp: 1(2) updated_context_def contexts_ok_def context_row_ok_def)
  qed
  show ?thesis unfolding 1(5)
  proof (rule contexts_ok_update [OF ok, where n = "ucp_ID arg"])
    fix r assume r: "r \<in> set (contexts d)" "cx_ID r = ucp_ID arg \<and> cx_UserID r = ucp_UserID arg"
    with uniq have r_old: "r = old" by blast
    show "color_token (cx_Color (updated_context arg t r))" using 1(2,4) r_old by simp
    fix p assume p: "cx_ParentID (updated_context arg t r) = Some p"
    with r_old 1(2) have "cx_ParentID c = Some p" by simp
    with owned prevent_cycle_None [OF 1(3)] r
    show "(ucp_ID arg, p) \<notin> (parent_rel (contexts d))\<^sup>* \<and> (\<exists>q \<in> set (contexts d). cx_ID q = p \<and> cx_UserID q = cx_UserID r)"
      by auto
  qed (simp_all add: updated_context_def)
qed

lemma ArchiveContext_ok:
  assumes ok: "contexts_ok d" and "ArchiveContext arg t d = Inr (c, d')"
  shows "contexts_ok d'"
proof -
  let ?hit = "\<lambda>c. cx_ID c = acp_ID arg \<and> cx_UserID c = acp_UserID arg"
  let ?put = "\<lambda>c. c\<lparr>cx_IsArchived := True, cx_UpdatedAt := t\<rparr>"
  have d': "d' = d\<lparr>contexts := update_where ?hit ?put (contexts d)\<rparr>"
    using assms(2) by (auto simp: ArchiveContext_def Let_def split: option.splits)
  show ?thesis unfolding d'
  proof (rule contexts_ok_update [OF ok, where n = "acp_ID arg"])
    fix r p assume r: "r \<in> set (contexts d)" "?hit r" "cx_ParentID (?put r) = Some p"
    then have row: "context_row_ok d r" using ok by (simp add: contexts_ok_def)
    have "parent_of (contexts d) (acp_ID arg) = Some p"
      using r ok parent_of_row [of "contexts d" r] by (auto simp: contexts_ok_def)
    then have "(p, acp_ID arg) \<in> parent_rel (contexts d)" by simp
    then have "(acp_ID arg, p) \<notin> (parent_rel (contexts d))\<^sup>*"
      using tree.not_own_ancestor [OF ok, of "acp_ID arg"] by (meson rtrancl_into_trancl1)
    with row r show "(acp_ID arg, p) \<notin> (parent_rel (contexts d))\<^sup>*
        \<and> (\<exists>q \<in> set (contexts d). cx_ID q = p \<and> cx_UserID q = cx_UserID r)"
      by (auto simp: context_row_ok_def)
  qed (use ok in \<open>auto simp: contexts_ok_def context_row_ok_def\<close>)
qed

end
