(* ===== verification/Contexts_View.thy ===== *)
theory Contexts_View
  imports Contexts_Tree
begin

text \<open>
  The view \<^verbatim>\<open>context_tree\<close>: every context is listed exactly once, with its ancestors, and the
  statements that read the view answer accordingly.
\<close>

section \<open>The levels of the walk\<close>

definition tree_level :: "ContextRow list \<Rightarrow> nat \<Rightarrow> ContextTree list" where
  "tree_level rows n = (tree_children rows ^^ n) (tree_roots rows)"

lemma tree_level_0: "tree_level rows 0 = tree_roots rows"
  by (simp add: tree_level_def)

lemma tree_level_Suc: "tree_level rows (Suc n) = tree_children rows (tree_level rows n)"
  by (simp add: tree_level_def)

lemma tree_level_Suc_in:
  "t \<in> set (tree_level rows (Suc n)) \<longleftrightarrow>
     (\<exists>w \<in> set (tree_level rows n). \<exists>c \<in> set rows. cx_ParentID c = Some (ct_ID w) \<and> t = tree_step w c)"
  by (auto simp: tree_level_Suc tree_children_def)

lemma tree_walk_Nil: "tree_walk n rows [] = []"
  by (cases n) simp_all

lemma set_tree_walk:
  "set (tree_walk n rows level) = (\<Union>k < n. set ((tree_children rows ^^ k) level))"
proof (induction n arbitrary: level)
  case (Suc n)
  have none: "(tree_children rows ^^ k) [] = []" for k
    by (induction k) (simp_all add: tree_children_def)
  show ?case
  proof (cases "level = []")
    case False
    then show ?thesis
      by (simp add: Suc lessThan_Suc_eq_insert_0 image_image funpow_swap1)
  qed (simp add: none)
qed simp

lemma context_tree_in:
  "t \<in> set (context_tree d) \<longleftrightarrow> (\<exists>k < length (contexts d). t \<in> set (tree_level (contexts d) k))"
  by (auto simp: context_tree_def set_tree_walk tree_level_def)

lemma tree_level_row:
  "t \<in> set (tree_level rows k) \<Longrightarrow> \<exists>c \<in> set rows. ct_ID t = cx_ID c \<and> ct_UserID t = cx_UserID c"
  by (cases k) (auto simp: tree_level_0 tree_roots_def tree_level_Suc_in tree_step_def)

text \<open>
  A row of level \<open>k\<close> carries the \<open>k + 1\<close> contexts on the way up from its context, each once.
\<close>

lemma tree_level_ancestry:
  assumes "distinct (map cx_ID rows)" and "acyclic (parent_rel rows)"
  shows "t \<in> set (tree_level rows k) \<Longrightarrow>
     set (ct_Ancestry t) = {a. (a, ct_ID t) \<in> (parent_rel rows)\<^sup>*}
     \<and> distinct (ct_Ancestry t) \<and> length (ct_Ancestry t) = Suc k \<and> ct_Depth t = int k
     \<and> length (ct_SortPath t) = Suc k"
proof (induction k arbitrary: t)
  case 0
  then obtain c where c: "c \<in> set rows" "cx_ParentID c = None" "ct_ID t = cx_ID c"
      "ct_Ancestry t = [cx_ID c]" "ct_Depth t = 0" "length (ct_SortPath t) = 1"
    by (auto simp: tree_level_0 tree_roots_def)
  then have "parent_of rows (cx_ID c) = None" using parent_of_row [OF assms(1)] by simp
  then have "{a. (a, cx_ID c) \<in> (parent_rel rows)\<^sup>*} = {cx_ID c}"
    by (subst above_rtrancl_iff) auto
  with c show ?case by simp
next
  case (Suc k)
  then obtain w c where w: "w \<in> set (tree_level rows k)" and c: "c \<in> set rows"
      "cx_ParentID c = Some (ct_ID w)" and t: "t = tree_step w c"
    by (auto simp: tree_level_Suc_in)
  note IH = Suc.IH [OF w]
  have p: "parent_of rows (cx_ID c) = Some (ct_ID w)" using c parent_of_row [OF assms(1)] by simp
  then have up: "{a. (a, cx_ID c) \<in> (parent_rel rows)\<^sup>*}
      = insert (cx_ID c) {a. (a, ct_ID w) \<in> (parent_rel rows)\<^sup>*}"
    by (subst above_rtrancl_iff) auto
  have "(cx_ID c, ct_ID w) \<notin> (parent_rel rows)\<^sup>*"
  proof
    assume "(cx_ID c, ct_ID w) \<in> (parent_rel rows)\<^sup>*"
    moreover have "(ct_ID w, cx_ID c) \<in> parent_rel rows" using p by simp
    ultimately have "(cx_ID c, cx_ID c) \<in> (parent_rel rows)\<^sup>+" by (rule rtrancl_into_trancl1)
    with assms(2) show False by (simp add: acyclic_def)
  qed
  with IH up show ?case by (simp add: t tree_step_def)
qed

text \<open>So the walk ends within as many levels as there are rows.\<close>

lemma tree_level_bound:
  assumes "distinct (map cx_ID rows)" and "acyclic (parent_rel rows)" and "t \<in> set (tree_level rows k)"
    and "\<And>c p. c \<in> set rows \<Longrightarrow> cx_ParentID c = Some p \<Longrightarrow> p \<in> cx_ID ` set rows"
  shows "k < length rows"
proof -
  note anc = tree_level_ancestry [OF assms(1-3)]
  have closed: "(a, n) \<in> (parent_rel rows)\<^sup>* \<Longrightarrow> n \<in> cx_ID ` set rows \<Longrightarrow> a \<in> cx_ID ` set rows" for a n
    by (induction rule: converse_rtrancl_induct) (auto dest!: parent_of_Some intro: assms(4))
  have "set (ct_Ancestry t) \<subseteq> cx_ID ` set rows"
    using anc tree_level_row [OF assms(3)] closed by auto
  then have "card (set (ct_Ancestry t)) \<le> card (cx_ID ` set rows)" by (intro card_mono) auto
  also have "\<dots> \<le> length rows" by (metis card_image_le card_length le_trans finite_set)
  finally show ?thesis using anc distinct_card by fastforce
qed

section \<open>Every context once\<close>

lemma tree_level_unique:
  assumes "distinct (map cx_ID rows)" and "acyclic (parent_rel rows)"
    and "t \<in> set (tree_level rows j)" and "t' \<in> set (tree_level rows k)" and "ct_ID t = ct_ID t'"
  shows "j = k"
proof -
  note t = tree_level_ancestry [OF assms(1-3)] and t' = tree_level_ancestry [OF assms(1,2,4)]
  have "Suc j = card (set (ct_Ancestry t))" "Suc k = card (set (ct_Ancestry t'))"
    using t t' distinct_card [of "ct_Ancestry t"] distinct_card [of "ct_Ancestry t'"] by simp_all
  moreover have "set (ct_Ancestry t) = set (ct_Ancestry t')" using t t' assms(5) by simp
  ultimately show ?thesis by simp
qed

lemma distinct_children:
  fixes rows :: "ContextRow list"
  assumes "distinct (map cx_ID rows)"
  shows "distinct is \<Longrightarrow>
    distinct (concat (map (\<lambda>i. map cx_ID (filter (\<lambda>c. cx_ParentID c = Some i) rows)) is))"
proof (induction "is")
  case (Cons i js)
  let ?kids = "\<lambda>i. map cx_ID (filter (\<lambda>c. cx_ParentID c = Some i) rows)"
  have "set (?kids i) \<inter> set (concat (map ?kids js)) = {}"
  proof (rule equals0I)
    fix x assume "x \<in> set (?kids i) \<inter> set (concat (map ?kids js))"
    then obtain j c c' where "j \<in> set js" "c \<in> set rows" "c' \<in> set rows" "cx_ID c = cx_ID c'"
        "cx_ParentID c = Some i" "cx_ParentID c' = Some j" by auto
    moreover from this have "i = j" using parent_of_row [OF assms] by (metis option.inject)
    ultimately show False using Cons.prems by simp
  qed
  moreover have "distinct (?kids i)" using assms by (rule distinct_map_filter)
  ultimately show ?case using Cons by (simp only: list.map concat.simps distinct_append distinct.simps simp_thms)
qed simp

lemma tree_level_distinct:
  assumes "distinct (map cx_ID rows)"
  shows "distinct (map ct_ID (tree_level rows k))"
proof (induction k)
  case 0
  then show ?case using assms by (simp add: tree_level_0 tree_roots_def comp_def distinct_map_filter)
next
  case (Suc k)
  have "map ct_ID (tree_level rows (Suc k))
      = concat (map (\<lambda>i. map cx_ID (filter (\<lambda>c. cx_ParentID c = Some i) rows)) (map ct_ID (tree_level rows k)))"
    by (simp add: tree_level_Suc tree_children_def map_concat comp_def tree_step_def)
  with Suc assms show ?case by (simp only: distinct_children)
qed

lemma tree_level_add: "(tree_children rows ^^ k) (tree_level rows j) = tree_level rows (k + j)"
  by (simp add: tree_level_def funpow_add)

lemma tree_walk_distinct:
  assumes "distinct (map cx_ID rows)" and "acyclic (parent_rel rows)"
  shows "distinct (map ct_ID (tree_walk n rows (tree_level rows j)))"
proof (induction n arbitrary: j)
  case (Suc n)
  have rest: "t \<in> set (tree_walk n rows (tree_level rows (Suc j))) \<Longrightarrow>
      \<exists>k. k > j \<and> t \<in> set (tree_level rows k)" for t
    unfolding set_tree_walk tree_level_add by (auto intro: exI [of _ "Suc (_ + j)"])
  have "ct_ID t \<noteq> ct_ID t'"
    if "t \<in> set (tree_level rows j)" "t' \<in> set (tree_walk n rows (tree_level rows (Suc j)))" for t t'
    using rest [OF that(2)] that(1) tree_level_unique [OF assms] by blast
  then show ?case
    using Suc [of "Suc j"] tree_level_distinct [OF assms(1), of j]
    by (auto simp: tree_level_Suc [symmetric])
qed simp

lemma contexts_ok_rows:
  assumes "contexts_ok d"
  shows "distinct (map cx_ID (contexts d))" and "acyclic (parent_rel (contexts d))"
    and "\<And>c p. c \<in> set (contexts d) \<Longrightarrow> cx_ParentID c = Some p \<Longrightarrow> p \<in> cx_ID ` set (contexts d)"
proof -
  show "p \<in> cx_ID ` set (contexts d)" if "c \<in> set (contexts d)" "cx_ParentID c = Some p" for c p
    using assms that by (force simp: contexts_ok_def context_row_ok_def)
qed (use assms in \<open>simp_all add: contexts_ok_def\<close>)

lemma context_tree_level_iff:
  "contexts_ok d \<Longrightarrow> t \<in> set (context_tree d) \<longleftrightarrow> (\<exists>k. t \<in> set (tree_level (contexts d) k))"
  unfolding context_tree_in using tree_level_bound [OF contexts_ok_rows(1,2)] contexts_ok_rows(3) by blast

lemma tree_level_empty:
  assumes "contexts_ok d" and "length (contexts d) \<le> n"
  shows "tree_level (contexts d) n = []"
proof (rule ccontr)
  assume "tree_level (contexts d) n \<noteq> []"
  then obtain t where "t \<in> set (tree_level (contexts d) n)" by (cases "tree_level (contexts d) n") auto
  from tree_level_bound [OF contexts_ok_rows(1,2) [OF assms(1)] this contexts_ok_rows(3) [OF assms(1)]] assms(2)
  show False by simp
qed

lemma tree_walk_stable:
  "(tree_children rows ^^ k) level = [] \<Longrightarrow> k \<le> n \<Longrightarrow> tree_walk n rows level = tree_walk k rows level"
proof (induction k arbitrary: n level)
  case (Suc k)
  then obtain m where n: "n = Suc m" "k \<le> m" by (cases n) auto
  have "(tree_children rows ^^ k) (tree_children rows level) = []"
    using Suc.prems(1) by (simp only: funpow_Suc_right comp_def)
  from Suc.IH [OF this n(2)] show ?case by (simp only: n tree_walk.simps)
qed (simp add: tree_walk_Nil)

lemma tree_walk_enough:
  "tree_level rows k = [] \<Longrightarrow> k \<le> n \<Longrightarrow> tree_walk n rows (tree_roots rows) = tree_walk k rows (tree_roots rows)"
  unfolding tree_level_def by (rule tree_walk_stable)

lemma context_tree_distinct: "contexts_ok d \<Longrightarrow> distinct (map ct_ID (context_tree d))"
  unfolding context_tree_def tree_level_0 [symmetric]
  by (rule tree_walk_distinct) (rule contexts_ok_rows, assumption)+

lemma context_tree_complete:
  assumes ok: "contexts_ok d" and "c \<in> set (contexts d)"
  shows "\<exists>t \<in> set (context_tree d). ct_ID t = cx_ID c"
proof -
  have "\<exists>k. \<exists>t \<in> set (tree_level (contexts d) k). ct_ID t = n" if "n \<in> cx_ID ` set (contexts d)" for n
    using tree.wf_above [OF ok] that
  proof (induction n rule: wf_induct_rule)
    case (less n)
    then obtain c where c: "c \<in> set (contexts d)" "cx_ID c = n" by auto
    show ?case
    proof (cases "cx_ParentID c")
      case None
      with c show ?thesis by (intro exI [of _ 0]) (force simp: tree_level_0 tree_roots_def)
    next
      case (Some p)
      have "(p, n) \<in> parent_rel (contexts d)"
        using c Some parent_of_row [OF contexts_ok_rows(1) [OF ok]] by auto
      with less.IH contexts_ok_rows(3) [OF ok c(1) Some] obtain k t
        where "t \<in> set (tree_level (contexts d) k)" "ct_ID t = p" by blast
      with c Some have "tree_step t c \<in> set (tree_level (contexts d) (Suc k))"
        and "ct_ID (tree_step t c) = n"
        by (auto simp: tree_level_Suc_in tree_step_def)
      then show ?thesis by blast
    qed
  qed
  with assms(2) show ?thesis using context_tree_level_iff [OF ok] by blast
qed

section \<open>What the readers of the view get\<close>

lemma context_tree_ancestry:
  assumes "contexts_ok d" and t: "t \<in> set (context_tree d)"
  shows "ct_ID t \<in> cx_ID ` set (contexts d)"
    and "set (ct_Ancestry t) = {a. (a, ct_ID t) \<in> (parent_rel (contexts d))\<^sup>*}"
proof -
  from t obtain k where k: "t \<in> set (tree_level (contexts d) k)" by (auto simp: context_tree_in)
  show "ct_ID t \<in> cx_ID ` set (contexts d)" using tree_level_row [OF k] by auto
  show "set (ct_Ancestry t) = {a. (a, ct_ID t) \<in> (parent_rel (contexts d))\<^sup>*}"
    using tree_level_ancestry [OF contexts_ok_rows(1,2) k] assms(1) by blast
qed

lemma IsDescendant_iff:
  assumes ok: "contexts_ok d"
  shows "IsDescendant arg t d = Inr (b, d') \<longleftrightarrow>
     d' = d \<and> b = (idp_CandidateID arg \<in> cx_ID ` set (contexts d)
        \<and> (idp_RootID arg, idp_CandidateID arg) \<in> (parent_rel (contexts d))\<^sup>*)"
proof -
  have "(\<exists>t \<in> set (context_tree d). ct_ID t = n \<and> r \<in> set (ct_Ancestry t)) \<longleftrightarrow>
      n \<in> cx_ID ` set (contexts d) \<and> (r, n) \<in> (parent_rel (contexts d))\<^sup>*" (is "?l \<longleftrightarrow> ?r") for n r
  proof
    assume ?l
    then obtain t where "t \<in> set (context_tree d)" "ct_ID t = n" "r \<in> set (ct_Ancestry t)" by blast
    then show ?r using context_tree_ancestry [OF ok] by auto
  next
    assume r: ?r
    then obtain t where t: "t \<in> set (context_tree d)" "ct_ID t = n"
      using context_tree_complete [OF ok] by auto
    with r have "r \<in> set (ct_Ancestry t)" using context_tree_ancestry(2) [OF ok t(1)] by simp
    with t show ?l by blast
  qed
  then show ?thesis by (auto simp: IsDescendant_def list_ex_iff)
qed

text \<open>The sort key of a context extends that of its parent.\<close>

lemma sort_path_step:
  assumes ok: "contexts_ok d" and t: "t \<in> set (context_tree d)" "ct_ID t = cx_ID c"
    and c: "c \<in> set (contexts d)" "cx_ParentID c = Some p"
    and w: "w \<in> set (context_tree d)" "ct_ID w = p"
  shows "ct_SortPath t = ct_SortPath w @ [(cx_Position c, cx_Name c)]"
proof -
  have uniq: "x = y" if "x \<in> set (context_tree d)" "y \<in> set (context_tree d)" "ct_ID x = ct_ID y" for x y
    using context_tree_distinct [OF ok] that by (simp add: distinct_map inj_on_def)
  obtain k where k: "w \<in> set (tree_level (contexts d) k)" using w by (auto simp: context_tree_in)
  then have "tree_step w c \<in> set (tree_level (contexts d) (Suc k))"
    using c w by (auto simp: tree_level_Suc_in)
  then have "tree_step w c \<in> set (context_tree d)" using context_tree_level_iff [OF ok] by blast
  then have "t = tree_step w c" using uniq t by (simp add: tree_step_def)
  then show ?thesis by (simp add: tree_step_def)
qed

lemma sort_path_root:
  assumes ok: "contexts_ok d" and t: "t \<in> set (context_tree d)" "ct_ID t = cx_ID c"
    and c: "c \<in> set (contexts d)" "cx_ParentID c = None"
  shows "ct_SortPath t = [(cx_Position c, cx_Name c)]"
proof -
  obtain k where k: "t \<in> set (tree_level (contexts d) k)" using t by (auto simp: context_tree_in)
  have uniq: "cx_ParentID r = cx_ParentID c \<and> r = c" if "r \<in> set (contexts d)" "cx_ID r = cx_ID c" for r
    using contexts_ok_rows(1) [OF ok] that c by (auto simp: distinct_map inj_on_def)
  show ?thesis
  proof (cases k)
    case 0
    then obtain r where "r \<in> set (contexts d)" "cx_ID r = cx_ID c" "ct_SortPath t = [(cx_Position r, cx_Name r)]"
      using k t(2) by (auto simp: tree_level_0 tree_roots_def)
    with uniq [of r] show ?thesis by simp
  next
    case (Suc j)
    then obtain r where "r \<in> set (contexts d)" "cx_ParentID r \<noteq> None" "cx_ID r = cx_ID c"
      using k t(2) by (auto simp: tree_level_Suc_in tree_step_def)
    with uniq [of r] c show ?thesis by simp
  qed
qed

text \<open>A context's sort key is after its parent's, and siblings are ordered by position first.\<close>

lemma sort_key_parent:
  assumes ok: "contexts_ok d" and "t \<in> set (context_tree d)" "ct_ID t = cx_ID c"
    and "c \<in> set (contexts d)" "cx_ParentID c = Some p" and "w \<in> set (context_tree d)" "ct_ID w = p"
  shows "sort_key_of coll w < sort_key_of coll t"
  by (simp add: sort_key_of_def sort_path_step [OF assms] list_less_def lexord_append_rightI)

lemma sort_key_siblings:
  assumes ok: "contexts_ok d" and t: "t \<in> set (context_tree d)" "ct_ID t = cx_ID c" "c \<in> set (contexts d)"
    and t': "t' \<in> set (context_tree d)" "ct_ID t' = cx_ID c'" "c' \<in> set (contexts d)"
    and "cx_ParentID c = cx_ParentID c'" and "cx_Position c < cx_Position c'"
  shows "sort_key_of coll t < sort_key_of coll t'"
proof (cases "cx_ParentID c")
  case None
  with assms sort_path_root [OF ok t(1-3)] sort_path_root [OF ok t'(1-3)] show ?thesis
    by (simp add: sort_key_of_def)
next
  case (Some p)
  then have "p \<in> cx_ID ` set (contexts d)" using contexts_ok_rows(3) [OF ok t(3)] by blast
  then obtain w where w: "w \<in> set (context_tree d)" "ct_ID w = p"
    using context_tree_complete [OF ok] by auto
  have "cx_ParentID c' = Some p" using Some assms by simp
  then show ?thesis
    using sort_path_step [OF ok t Some w] sort_path_step [OF ok t' _ w] assms(9)
    by (simp add: sort_key_of_def list_less_def lexord_append_leftI)
qed

text \<open>The join with the view pairs every row with its one entry.\<close>

lemma join_once:
  assumes ids: "distinct (map ct_ID ts)"
  shows "(\<And>c. c \<in> set rows \<Longrightarrow> \<exists>t \<in> set ts. ct_ID t = cx_ID c) \<Longrightarrow>
    map fst (filter (\<lambda>(c, t). ct_ID t = cx_ID c \<and> Q c) (List.product rows ts)) = filter Q rows"
proof (induction rows)
  case (Cons c rows)
  have one: "map fst (filter (\<lambda>(c, t). ct_ID t = cx_ID c \<and> Q c) (map (Pair c) us))
      = (if Q c \<and> cx_ID c \<in> ct_ID ` set us then [c] else [])" if "distinct (map ct_ID us)" for us
    using that by (induction us) (auto split: if_splits)
  from Cons.prems [of c] have "cx_ID c \<in> ct_ID ` set ts" by force
  with one [OF ids] Cons show ?case by (simp add: product_concat_map)
qed simp

definition listed :: "ListContextsParams \<Rightarrow> ContextRow \<Rightarrow> bool" where
  "listed arg c \<longleftrightarrow> cx_UserID c = lcp_UserID arg \<and> (lcp_IncludeArchived arg \<or> \<not> cx_IsArchived c)"

lemma sorted_less_index:
  "sorted (map f xs) \<Longrightarrow> i < length xs \<Longrightarrow> j < length xs \<Longrightarrow> f (xs ! i) < f (xs ! j) \<Longrightarrow> i < j"
  using sorted_nth_mono [of "map f xs" j i] by (fastforce simp: not_less [symmetric])

text \<open>What \<^verbatim>\<open>ListContexts\<close> promises: the rows asked for, each once, in the order of the tree.\<close>

definition in_tree_order :: "ContextRow list \<Rightarrow> bool" where
  "in_tree_order cs \<longleftrightarrow> (\<forall>i < length cs. \<forall>j < length cs.
     (cx_ParentID (cs ! j) = Some (cx_ID (cs ! i)) \<longrightarrow> i < j)
     \<and> (cx_ParentID (cs ! i) = cx_ParentID (cs ! j) \<and> cx_Position (cs ! i) < cx_Position (cs ! j) \<longrightarrow> i < j))"

lemma ListContexts_spec:
  assumes ok: "contexts_ok d" and "ListContexts coll arg t d = Inr (cs, d')"
  shows "d' = d \<and> mset cs = mset (filter (listed arg) (contexts d)) \<and> in_tree_order cs"
proof -
  define join where "join = filter (\<lambda>(c, t). ct_ID t = cx_ID c \<and> listed arg c) (List.product (contexts d) (context_tree d))"
  define srt where "srt = SliceStable (\<lambda>a b. sort_key_of coll (snd a) < sort_key_of coll (snd b)) join"
  have cs: "cs = map fst srt" "d' = d"
    using assms(2) by (auto simp: ListContexts_def srt_def join_def listed_def)
  have "mset cs = mset (map fst join)" unfolding cs srt_def by (simp only: mset_map slice.srt_mset)
  also have "map fst join = filter (listed arg) (contexts d)"
    unfolding join_def using context_tree_distinct [OF ok] context_tree_complete [OF ok] by (rule join_once)
  finally have rows: "mset cs = mset (filter (listed arg) (contexts d))" .
  have sorted: "sorted (map (\<lambda>a. sort_key_of coll (snd a)) srt)" unfolding srt_def by (rule slice.srt_by_key) simp
  have same: "set srt = set join" unfolding srt_def by (rule mset_eq_setD) (rule slice.srt_mset)
  have pair: "fst a \<in> set (contexts d) \<and> snd a \<in> set (context_tree d) \<and> ct_ID (snd a) = cx_ID (fst a)"
    if "a \<in> set srt" for a
    using that unfolding same join_def by auto
  have "in_tree_order cs" unfolding in_tree_order_def
  proof (intro allI impI conjI)
    fix i j assume ij: "i < length cs" "j < length cs"
    then have len: "i < length srt" "j < length srt" by (simp_all add: cs)
    note p = pair [OF nth_mem [OF len(1)]] pair [OF nth_mem [OF len(2)]]
    { assume "cx_ParentID (cs ! j) = Some (cx_ID (cs ! i))"
      with p len have "sort_key_of coll (snd (srt ! i)) < sort_key_of coll (snd (srt ! j))"
        by (intro sort_key_parent [OF ok, of _ "fst (srt ! j)"]) (auto simp: cs)
      with sorted len show "i < j" by (rule sorted_less_index) }
    { assume "cx_ParentID (cs ! i) = cx_ParentID (cs ! j) \<and> cx_Position (cs ! i) < cx_Position (cs ! j)"
      with p len have "sort_key_of coll (snd (srt ! i)) < sort_key_of coll (snd (srt ! j))"
        by (intro sort_key_siblings [OF ok, of _ "fst (srt ! i)" _ "fst (srt ! j)"]) (auto simp: cs)
      with sorted len show "i < j" by (rule sorted_less_index) }
  qed
  with cs rows show ?thesis by simp
qed

end
