(* ===== verification/Contexts_Service.thy ===== *)
theory Contexts_Service
  imports Contexts_View Domain_Model
begin

text \<open>
  The service of the tree of contexts, \<^verbatim>\<open>internal/contexts/contexts.go\<close>. Its methods make their
  calls one after the other, each its own statement, with no transaction around them.
\<close>

section \<open>contexts.go\<close>

record CreateParams =
  cp_Slug :: string
  cp_Name :: string
  cp_ParentID :: "uuid option"
  cp_Color :: "string option"
  cp_ToneProfile :: "string option"

record UpdateParams =
  cu_Name :: "string option"
  cu_IsArchived :: "bool option"
  cu_SetColor :: bool
  cu_Color :: "string option"
  cu_SetParentID :: bool
  cu_ParentID :: "uuid option"
  cu_SetToneProfile :: bool
  cu_ToneProfile :: "string option"

definition isUniqueViolationOn :: "go_error \<Rightarrow> string \<Rightarrow> bool" where
  "isUniqueViolationOn err constraint =
     (case errors_As_PgError err of
        Some (PgError code con) \<Rightarrow> code = ''23505'' \<and> con = constraint
      | _ \<Rightarrow> False)"

definition isCheckViolation :: "go_error \<Rightarrow> bool" where
  "isCheckViolation err =
     (case errors_As_PgError err of Some (PgError code con) \<Rightarrow> code = ''23514'' | _ \<Rightarrow> False)"

definition not_found_as :: "go_error \<Rightarrow> string \<Rightarrow> go_error \<Rightarrow> go_error" where
  "not_found_as sentinel msg err = (if errors_Is err ErrNoRows then sentinel else Wrap msg err)"

text \<open>\<^verbatim>\<open>if p != nil { if err := check(*p); err != nil { return err } }\<close>.\<close>

definition color_valid :: "string option \<Rightarrow> go_error option" where
  "color_valid color = (case color of None \<Rightarrow> None | Some c \<Rightarrow> ContextColor_Valid c)"

text \<open>The part of \<open>Create\<close> that reads the parent, when there is one.\<close>

definition readParent :: "env \<Rightarrow> uuid \<Rightarrow> uuid option \<Rightarrow> unit io" where
  "readParent E userID parentID =
     (case parentID of
        None \<Rightarrow> return ()
      | Some p \<Rightarrow>
          call (run_query E (GetContext p)) (not_found_as ErrNoParent ''read parent context'') (\<lambda>parent.
          if cx_UserID parent \<noteq> userID then throw ErrNoParent else return ()))"

definition Create :: "env \<Rightarrow> uuid \<Rightarrow> CreateParams \<Rightarrow> ContextRow io" where
  "Create E userID p =
     (case color_valid (cp_Color p) of
        Some err \<Rightarrow> throw err
      | None \<Rightarrow>
          call (readParent E userID (cp_ParentID p)) (\<lambda>e. e) (\<lambda>_.
          call (run_query E (NextContextPosition userID)) (Wrap ''read next position'') (\<lambda>position.
          call (NewV7 E) (Wrap ''new context id'') (\<lambda>i.
          call (run_query E (CreateContext
              \<lparr>ccp_ID = i, ccp_UserID = userID, ccp_ParentID = cp_ParentID p, ccp_Slug = cp_Slug p,
               ccp_Name = cp_Name p, ccp_Color = cp_Color p, ccp_ActiveHours = string_to_bytes ''{}'',
               ccp_ToneProfile = cp_ToneProfile p, ccp_Position = position\<rparr>))
            (\<lambda>err. if isUniqueViolationOn err ''contexts_unique_slug'' then ErrSlugTaken
                   else Wrap ''create context'' err)
            return))))"

definition ListTree :: "env \<Rightarrow> uuid \<Rightarrow> bool \<Rightarrow> ContextRow list io" where
  "ListTree E userID includeArchived =
     call (run_query E (ListContexts (e_collate E)
         \<lparr>lcp_UserID = userID, lcp_IncludeArchived = includeArchived\<rparr>))
       (Wrap ''list contexts'') return"

definition Get :: "env \<Rightarrow> uuid \<Rightarrow> uuid \<Rightarrow> ContextRow io" where
  "Get E userID i =
     call (run_query E (GetContext i)) (not_found_as ErrContextNotFound ''read context'') (\<lambda>row.
     if cx_UserID row \<noteq> userID then throw ErrContextNotFound else return row)"

definition checkNewParent :: "env \<Rightarrow> uuid \<Rightarrow> uuid \<Rightarrow> uuid \<Rightarrow> unit io" where
  "checkNewParent E userID i parentID =
     (if parentID = i then throw ErrSelfParent
      else
        call (run_query E (GetContext parentID)) (not_found_as ErrNoParent ''read parent context'') (\<lambda>parent.
        if cx_UserID parent \<noteq> userID then throw ErrNoParent
        else
          call (run_query E (IsDescendant \<lparr>idp_CandidateID = parentID, idp_RootID = i\<rparr>))
            (Wrap ''check descendant'') (\<lambda>inSubtree.
          if inSubtree then throw ErrCycle else return ())))"

definition checkNoLiveChildren :: "env \<Rightarrow> uuid \<Rightarrow> unit io" where
  "checkNoLiveChildren E i =
     call (run_query E (CountLiveChildren (Some i))) (Wrap ''count live children'') (\<lambda>n.
     if n > 0 then throw (LiveChildrenError n) else return ())"

definition Update :: "env \<Rightarrow> uuid \<Rightarrow> uuid \<Rightarrow> UpdateParams \<Rightarrow> ContextRow io" where
  "Update E userID i p =
     (case (if cu_SetColor p then color_valid (cu_Color p) else None) of
        Some err \<Rightarrow> throw err
      | None \<Rightarrow>
          call (Get E userID i) (\<lambda>e. e) (\<lambda>_.
          call (case (cu_SetParentID p, cu_ParentID p) of
                  (True, Some parentID) \<Rightarrow> checkNewParent E userID i parentID
                | _ \<Rightarrow> return ()) (\<lambda>e. e) (\<lambda>_.
          call (if cu_IsArchived p = Some True then checkNoLiveChildren E i else return ())
            (\<lambda>e. e) (\<lambda>_.
          call (run_query E (UpdateContext
              \<lparr>ucp_Name = cu_Name p, ucp_IsArchived = cu_IsArchived p, ucp_SetColor = cu_SetColor p,
               ucp_Color = cu_Color p, ucp_SetParentID = cu_SetParentID p, ucp_ParentID = cu_ParentID p,
               ucp_SetToneProfile = cu_SetToneProfile p, ucp_ToneProfile = cu_ToneProfile p,
               ucp_ID = i, ucp_UserID = userID\<rparr>))
            (\<lambda>err. if errors_Is err ErrNoRows then ErrContextNotFound
                   else if isCheckViolation err then ErrTooDeep
                   else Wrap ''update context'' err)
            return))))"

definition Archive :: "env \<Rightarrow> uuid \<Rightarrow> uuid \<Rightarrow> unit io" where
  "Archive E userID i =
     call (Get E userID i) (\<lambda>e. e) (\<lambda>_.
     call (checkNoLiveChildren E i) (\<lambda>e. e) (\<lambda>_.
     call (run_query E (ArchiveContext \<lparr>acp_ID = i, acp_UserID = userID\<rparr>))
       (not_found_as ErrContextNotFound ''archive context'') (\<lambda>_. return ())))"

end
