(* ===== verification/Go_Json.thy ===== *)
theory Go_Json
  imports Go_Encoding
begin

text \<open>
  The part of \<^verbatim>\<open>encoding/json\<close> the repository runs: \<^verbatim>\<open>Marshal\<close> and \<^verbatim>\<open>Unmarshal\<close> of a struct whose fields are
  strings. A text is a list of bytes, as in Go; what is not UTF-8 in it becomes U+FFFD on the way.
  Writing a string that is UTF-8 and reading it back gives the string, and a document that is read is
  read completely, whatever is nested in it.
\<close>

section \<open>UTF-8\<close>

abbreviation byte_val :: "char \<Rightarrow> nat" where "byte_val \<equiv> of_char"

definition byte_in :: "nat \<Rightarrow> nat \<Rightarrow> char \<Rightarrow> bool" where
  "byte_in lo hi c \<longleftrightarrow> lo \<le> byte_val c \<and> byte_val c \<le> hi"

abbreviation utf8_continues :: "char \<Rightarrow> bool" where "utf8_continues \<equiv> byte_in 128 191"

text \<open>
  \<^verbatim>\<open>utf8.DecodeRune\<close>: how many bytes the first character takes, 0 when they are not a character.
\<close>

definition rune_len :: "string \<Rightarrow> nat" where
  "rune_len s =
     (case s of
        [] \<Rightarrow> 0
      | a # t \<Rightarrow>
          if byte_val a < 128 then 1
          else (case t of
             [] \<Rightarrow> 0
           | b # u \<Rightarrow>
               if byte_in 194 223 a then (if utf8_continues b then 2 else 0)
               else (case u of
                  [] \<Rightarrow> 0
                | c # v \<Rightarrow>
                    if byte_in 224 239 a
                    then (if byte_in (if byte_val a = 224 then 160 else 128) (if byte_val a = 237 then 159 else 191) b
                             \<and> utf8_continues c then 3 else 0)
                    else (case v of
                       [] \<Rightarrow> 0
                     | d # w \<Rightarrow>
                         if byte_in 240 244 a
                            \<and> byte_in (if byte_val a = 240 then 144 else 128) (if byte_val a = 244 then 143 else 191) b
                            \<and> utf8_continues c \<and> utf8_continues d then 4 else 0))))"

lemma rune_len_le: "rune_len s \<le> length s"
  by (auto simp: rune_len_def split: list.splits)

lemma rune_len_shorter [simp]: "0 < rune_len s \<Longrightarrow> length s - rune_len s < length s"
  using rune_len_le [of s] by simp

lemma rune_len_ascii [simp]: "ascii_char a \<Longrightarrow> rune_len (a # t) = 1"
  by (simp add: rune_len_def ascii_char_def)

text \<open>\<^verbatim>\<open>utf8.AppendRune\<close>.\<close>

definition encode_rune :: "nat \<Rightarrow> string" where
  "encode_rune n =
     map char_of
       (if n < 128 then [n]
        else if n < 2048 then [192 + n div 64, 128 + n mod 64]
        else if n < 65536 then [224 + n div 4096, 128 + n div 64 mod 64, 128 + n mod 64]
        else [240 + n div 262144, 128 + n div 4096 mod 64, 128 + n div 64 mod 64, 128 + n mod 64])"

abbreviation RuneError :: nat where "RuneError \<equiv> 65533"

text \<open>\<^verbatim>\<open>utf8.ValidString\<close>.\<close>

function ValidString :: "string \<Rightarrow> bool" where
  "ValidString s =
     (if s = [] then True else if rune_len s = 0 then False else ValidString (drop (rune_len s) s))"
  by pat_completeness auto
termination by (relation "measure length") auto

declare ValidString.simps [simp del]

lemma ValidString_Nil [simp]: "ValidString []"
  by (simp add: ValidString.simps)

lemma ascii_ValidString: "ascii s \<Longrightarrow> ValidString s"
  by (induction s) (simp_all add: ValidString.simps [of "_ # _"])

section \<open>Hexadecimal digits\<close>

definition unhex :: "char \<Rightarrow> nat option" where
  "unhex c =
     (let n = of_char c :: nat
      in if 48 \<le> n \<and> n \<le> 57 then Some (n - 48)
         else if 97 \<le> n \<and> n \<le> 102 then Some (n - 87)
         else if 65 \<le> n \<and> n \<le> 70 then Some (n - 55)
         else None)"

lemma unhex_hex_digits: "n < 16 \<Longrightarrow> unhex (hex_digits ! n) = Some n"
proof -
  have "\<forall>n \<in> set [0..<16]. unhex (hex_digits ! n) = Some n" by code_simp
  then show "n < 16 \<Longrightarrow> unhex (hex_digits ! n) = Some n" by simp
qed

section \<open>Writing a string\<close>

text \<open>\<^verbatim>\<open>appendString\<close> with the escaping of HTML.\<close>

definition json_escape :: "char \<Rightarrow> string" where
  "json_escape c =
     (let n = byte_val c
      in if n = 34 \<or> n = 92 then [char_of (92 :: nat), c]
         else if n = 8 then [char_of (92 :: nat), CHR ''b'']
         else if n = 12 then [char_of (92 :: nat), CHR ''f'']
         else if n = 10 then [char_of (92 :: nat), CHR ''n'']
         else if n = 13 then [char_of (92 :: nat), CHR ''r'']
         else if n = 9 then [char_of (92 :: nat), CHR ''t'']
         else if n < 32 \<or> n = 60 \<or> n = 62 \<or> n = 38
         then char_of (92 :: nat) # ''u00'' @ [hex_digits ! (n div 16), hex_digits ! (n mod 16)]
         else [c])"

text \<open>U+2028 and U+2029, which JavaScript takes for the end of a line.\<close>

definition line_separator :: "string \<Rightarrow> bool" where
  "line_separator r \<longleftrightarrow> map byte_val r = [226, 128, 168] \<or> map byte_val r = [226, 128, 169]"

function json_text :: "string \<Rightarrow> string" where
  "json_text s =
     (case s of
        [] \<Rightarrow> []
      | c # t \<Rightarrow>
          if ascii_char c then json_escape c @ json_text t
          else if rune_len s = 0 then char_of (92 :: nat) # ''ufffd'' @ json_text t
          else if line_separator (take (rune_len s) s)
          then char_of (92 :: nat) # ''u202'' @ [hex_digits ! (byte_val (s ! 2) mod 16)] @ json_text (drop (rune_len s) s)
          else take (rune_len s) s @ json_text (drop (rune_len s) s))"
  by pat_completeness auto
termination by (relation "measure length") auto

declare json_text.simps [simp del]

definition json_quote :: "string \<Rightarrow> string" where
  "json_quote s = CHR 0x22 # json_text s @ [CHR 0x22]"

section \<open>Reading a string\<close>

definition hex4 :: "string \<Rightarrow> nat option" where
  "hex4 s =
     (case s of
        a # b # c # d # t \<Rightarrow>
          (case (unhex a, unhex b, unhex c, unhex d) of
             (Some w, Some x, Some y, Some z) \<Rightarrow> Some (4096 * w + 256 * x + 16 * y + z)
           | _ \<Rightarrow> None)
      | _ \<Rightarrow> None)"

text \<open>\<^verbatim>\<open>getu4\<close>: the four digits after a backslash and a \<^verbatim>\<open>u\<close>.\<close>

definition getu4 :: "string \<Rightarrow> nat option" where
  "getu4 s = (case s of b # u # t \<Rightarrow> if byte_val b = 92 \<and> u = CHR ''u'' then hex4 t else None | _ \<Rightarrow> None)"

text \<open>
  The character that the escape \<open>n\<close> and what follows it stand for: two surrogates make one character, a
  single one is U+FFFD.
\<close>

definition surrogate :: "nat \<Rightarrow> string \<Rightarrow> nat \<times> string" where
  "surrogate n t =
     (if 55296 \<le> n \<and> n < 57344
      then (case getu4 t of
              Some m \<Rightarrow> if n < 56320 \<and> 56320 \<le> m \<and> m < 57344
                        then (65536 + (n - 55296) * 1024 + (m - 56320), drop 6 t) else (RuneError, t)
            | None \<Rightarrow> (RuneError, t))
      else (n, t))"

lemma surrogate_le: "surrogate n t = (r, v) \<Longrightarrow> length v \<le> length t"
  by (auto simp: surrogate_def split: if_splits option.splits)

lemma surrogate_le_snd: "length (snd (surrogate n t)) \<le> length t"
  by (cases "surrogate n t") (auto dest: surrogate_le)

definition json_unescape :: "char \<Rightarrow> char option" where
  "json_unescape c =
     (let n = byte_val c
      in if n = 34 \<or> n = 92 \<or> n = 47 then Some c
         else if c = CHR ''b'' then Some (char_of (8 :: nat))
         else if c = CHR ''f'' then Some (char_of (12 :: nat))
         else if c = CHR ''n'' then Some (char_of (10 :: nat))
         else if c = CHR ''r'' then Some (char_of (13 :: nat))
         else if c = CHR ''t'' then Some (char_of (9 :: nat))
         else None)"

definition prepend :: "string \<Rightarrow> (string \<times> string) option \<Rightarrow> (string \<times> string) option" where
  "prepend p r = map_option (\<lambda>(s, rest). (p @ s, rest)) r"

text \<open>The string after an opening quotation mark, and what follows the closing one.\<close>

function read_string :: "string \<Rightarrow> (string \<times> string) option" where
  "read_string s =
     (case s of
        [] \<Rightarrow> None
      | c # t \<Rightarrow>
          if byte_val c = 34 then Some ([], t)
          else if byte_val c = 92
          then (case t of
                  [] \<Rightarrow> None
                | e # u \<Rightarrow>
                    if e = CHR ''u''
                    then (case hex4 u of
                            None \<Rightarrow> None
                          | Some n \<Rightarrow>
                              prepend (encode_rune (fst (surrogate n (drop 4 u))))
                                (read_string (snd (surrogate n (drop 4 u)))))
                    else (case json_unescape e of
                            None \<Rightarrow> None
                          | Some x \<Rightarrow> prepend [x] (read_string u)))
          else if byte_val c < 32 then None
          else if rune_len s = 0 then prepend (encode_rune RuneError) (read_string t)
          else prepend (take (rune_len s) s) (read_string (drop (rune_len s) s)))"
  by pat_completeness auto
termination
proof (relation "measure length")
  fix s :: string and c t e u n
  assume "s = c # t" and "t = e # u"
  then show "(snd (surrogate n (drop 4 u)), s) \<in> measure length"
    using surrogate_le_snd [of n "drop 4 u"] by simp
qed auto

declare read_string.simps [simp del]

lemma prepend_Some [simp]: "prepend p r = Some x \<longleftrightarrow> (\<exists>s t. r = Some (s, t) \<and> x = (p @ s, t))"
  by (auto simp: prepend_def)

lemma read_string_shorter: "read_string s = Some (x, r) \<Longrightarrow> length r < length s"
proof (induction s arbitrary: x r rule: read_string.induct)
  case (1 s)
  note IH = "1.IH" and prem = "1.prems"
  obtain c t where s: "s = c # t" using prem by (cases s) (auto simp: read_string.simps)
  show ?case
  proof (cases "byte_val c = 34 \<or> (byte_val c \<noteq> 92 \<and> byte_val c < 32)")
    case True
    then show ?thesis using prem by (auto simp: s read_string.simps [of "c # t"])
  next
    case False
    show ?thesis
    proof (cases "byte_val c = 92")
      case True
      then obtain e u where t: "t = e # u" using prem by (cases t) (auto simp: s read_string.simps [of "c # _"])
      show ?thesis
      proof (cases "e = CHR ''u''")
        case u: True
        obtain n where n: "hex4 u = Some n"
          using prem True u by (auto simp: s t read_string.simps [of "_ # _"] split: option.splits)
        obtain y where "read_string (snd (surrogate n (drop 4 u))) = Some (y, r)"
          using prem True u n by (auto simp: s t read_string.simps [of "_ # _ # _"])
        from IH(1) [OF s _ True t u n this] False surrogate_le_snd [of n "drop 4 u"] show ?thesis
          by (simp add: s t)
      next
        case nu: False
        obtain z where z: "json_unescape e = Some z"
          using prem True nu by (auto simp: s t read_string.simps [of "_ # _"] split: option.splits)
        obtain y where "read_string u = Some (y, r)"
          using prem True nu z by (auto simp: s t read_string.simps [of "_ # _ # _"])
        from IH(2) [OF s _ True t nu z this] False show ?thesis by (simp add: s t)
      qed
    next
      case nb: False
      show ?thesis
      proof (cases "rune_len s = 0")
        case True
        obtain y where "read_string t = Some (y, r)"
          using prem False nb True by (auto simp: s read_string.simps [of "_ # _"])
        from IH(3) [OF s _ nb _ True this] False nb show ?thesis by (auto simp: s)
      next
        case nz: False
        obtain y where "read_string (drop (rune_len s) s) = Some (y, r)"
          using prem False nb nz by (auto simp: s read_string.simps [of "_ # _"])
        from IH(4) [OF s _ nb _ nz this] False nb nz show ?thesis using rune_len_shorter [of s] by auto
      qed
    qed
  qed
qed

section \<open>What is written is read back\<close>

lemma encode_ascii: "ascii_char c \<Longrightarrow> encode_rune (byte_val c) = [c]"
  by (simp add: encode_rune_def ascii_char_def)

lemma read_plain:
  "ascii_char c \<Longrightarrow> byte_val c \<noteq> 34 \<Longrightarrow> byte_val c \<noteq> 92 \<Longrightarrow> \<not> byte_val c < 32 \<Longrightarrow>
   read_string (c # u) = prepend [c] (read_string u)"
  by (simp add: read_string.simps [of "c # u"])

lemma surrogate_plain: "\<not> (55296 \<le> n \<and> n < 57344) \<Longrightarrow> surrogate n t = (n, t)"
  by (auto simp: surrogate_def)

lemma read_unicode:
  "hex4 u = Some n \<Longrightarrow> \<not> (55296 \<le> n \<and> n < 57344) \<Longrightarrow>
   read_string (char_of (92 :: nat) # CHR ''u'' # u) = prepend (encode_rune n) (read_string (drop 4 u))"
  by (simp add: read_string.simps [of "_ # CHR ''u'' # u"] surrogate_plain)

lemma read_escape:
  "e \<noteq> CHR ''u'' \<Longrightarrow> json_unescape e = Some x \<Longrightarrow>
   read_string (char_of (92 :: nat) # e # u) = prepend [x] (read_string u)"
  by (simp add: read_string.simps [of "_ # e # u"])

lemma char_of_byte: "byte_val c = n \<Longrightarrow> c = char_of n"
  by auto

lemma hex4_byte:
  assumes "n < 256"
  shows "hex4 (CHR ''0'' # CHR ''0'' # hex_digits ! (n div 16) # hex_digits ! (n mod 16) # u) = Some n"
proof -
  have "n div 16 < 16" and "n mod 16 < 16" using assms by auto
  moreover have "unhex CHR ''0'' = Some 0" by (simp add: unhex_def)
  ultimately show ?thesis by (simp add: hex4_def unhex_hex_digits)
qed

lemma read_json_escape:
  assumes "ascii_char c"
  shows "read_string (json_escape c @ u) = prepend [c] (read_string u)"
proof -
  let ?n = "byte_val c"
  consider (same) "?n = 34 \<or> ?n = 92" | (named) "?n \<in> {8, 12, 10, 13, 9}"
    | (hex) "?n < 32 \<or> ?n = 60 \<or> ?n = 62 \<or> ?n = 38" "?n \<notin> {8, 12, 10, 13, 9, 34, 92}"
    | (plain) "\<not> ?n < 32" "?n \<notin> {34, 92, 60, 62, 38}" by fastforce
  then show ?thesis
  proof cases
    case same
    then have "json_unescape c = Some c" "c \<noteq> CHR ''u''" by (auto simp: json_unescape_def)
    with same show ?thesis by (auto simp: json_escape_def read_escape)
  next
    case named
    then show ?thesis
      by (auto dest!: char_of_byte simp: json_escape_def json_unescape_def read_escape)
  next
    case hex
    have "hex4 (''00'' @ [hex_digits ! (?n div 16), hex_digits ! (?n mod 16)] @ u) = Some ?n"
      using hex4_byte [of ?n u] assms by (simp add: ascii_char_def)
    from read_unicode [OF this] hex assms show ?thesis
      by (auto simp: json_escape_def encode_ascii Let_def)
  next
    case plain
    then show ?thesis using assms by (simp add: json_escape_def read_plain)
  qed
qed

lemma read_separator:
  assumes "line_separator r"
  shows "read_string (char_of (92 :: nat) # ''u202'' @ [hex_digits ! (byte_val (r ! 2) mod 16)] @ u)
    = prepend r (read_string u)"
proof -
  from assms consider "r = map char_of [226 :: nat, 128, 168]" | "r = map char_of [226 :: nat, 128, 169]"
    by (auto simp: line_separator_def map_eq_Cons_conv dest!: char_of_byte)
  then show ?thesis
    by cases (simp_all add: read_unicode hex4_def unhex_def hex_digits_def encode_rune_def)
qed

lemma length_line_separator: "line_separator r \<Longrightarrow> length r = 3"
  by (auto simp: line_separator_def map_eq_Cons_conv)

lemma read_rune:
  "\<not> ascii_char c \<Longrightarrow> rune_len (c # t) = Suc k \<Longrightarrow>
   read_string (c # t) = prepend (c # take k t) (read_string (drop k t))"
  by (simp add: read_string.simps [of "c # t"] ascii_char_def)

lemma rune_len_take: "rune_len s \<noteq> 0 \<Longrightarrow> rune_len (take (rune_len s) s @ u) = rune_len s"
proof -
  assume r: "rune_len s \<noteq> 0"
  consider "s = []" | a where "s = [a]" | a b where "s = [a, b]" | a b c where "s = [a, b, c]"
    | a b c d w where "s = a # b # c # d # w" by (metis list.exhaust)
  then show "rune_len (take (rune_len s) s @ u) = rune_len s"
    using r by cases (simp_all add: rune_len_def split: if_splits)
qed

lemma read_json_text: "ValidString s \<Longrightarrow> read_string (json_text s @ CHR 0x22 # u) = Some (s, u)"
proof (induction s rule: json_text.induct)
  case (1 s)
  show ?case
  proof (cases s)
    case Nil
    then show ?thesis by (simp add: json_text.simps [of "[]"] read_string.simps [of "_ # u"])
  next
    case (Cons c t)
    show ?thesis
    proof (cases "ascii_char c")
      case True
      then have "ValidString t" using 1(5) by (simp add: Cons ValidString.simps [of "c # t"])
      then show ?thesis
        using 1(1) True by (simp add: Cons json_text.simps [of "c # t"] read_json_escape)
    next
      case False
      then have k: "rune_len s \<noteq> 0" "ValidString (drop (rune_len s) s)"
        using 1(5) by (simp_all add: Cons ValidString.simps [of "c # t"] split: if_splits)
      have js: "json_text s = (if line_separator (take (rune_len s) s)
          then char_of (92 :: nat) # ''u202'' @ [hex_digits ! (byte_val (s ! 2) mod 16)] @ json_text (drop (rune_len s) s)
          else take (rune_len s) s @ json_text (drop (rune_len s) s))"
        using False k by (subst json_text.simps) (simp add: Cons)
      obtain k where n: "rune_len s = Suc k" using k(1) by (cases "rune_len s") auto
      show ?thesis
      proof (cases "line_separator (take (rune_len s) s)")
        case True
        then have "length (take (rune_len s) s) = 3"
          by (rule length_line_separator)
        then have "take (rune_len s) s ! 2 = s ! 2" by (simp add: min_def split: if_splits)
        then show ?thesis
          using 1(3) [OF Cons False] True k js read_separator [OF True] append_take_drop_id [of "rune_len s" s]
          by (simp add: n del: append_take_drop_id)
      next
        case sep: False
        have "read_string (take (rune_len s) s @ v) = prepend (take (rune_len s) s) (read_string v)" for v
          using read_rune [OF False, of "take k t @ v" k] rune_len_take [of s v] rune_len_le [of s]
            n [unfolded Cons]
          by (simp add: Cons)
        then show ?thesis
          using 1(4) [OF Cons False _ sep] k js sep append_take_drop_id [of "rune_len s" s]
          by (simp add: n del: append_take_drop_id)
      qed
    qed
  qed
qed

section \<open>Documents\<close>

text \<open>The value of a number is never asked for, the elements of an array neither.\<close>

datatype json_value =
    VNull
  | VBool bool
  | VNumber
  | VString string
  | VArray "json_value list"
  | VObject "(string \<times> json_value) list"

definition json_space :: "char \<Rightarrow> bool" where
  "json_space c \<longleftrightarrow> byte_val c \<in> {9, 10, 13, 32}"

abbreviation skip_space :: "string \<Rightarrow> string" where "skip_space \<equiv> dropWhile json_space"

definition expect_char :: "char \<Rightarrow> string \<Rightarrow> string option" where
  "expect_char c s = (case skip_space s of [] \<Rightarrow> None | d # t \<Rightarrow> if d = c then Some t else None)"

definition read_digits :: "string \<Rightarrow> string option" where
  "read_digits s = (if s \<noteq> [] \<and> is_digit (hd s) then Some (dropWhile is_digit s) else None)"

definition read_integer :: "string \<Rightarrow> string option" where
  "read_integer s =
     (case s of [] \<Rightarrow> None | c # t \<Rightarrow> if c = CHR ''0'' then Some t else read_digits s)"

definition read_fraction :: "string \<Rightarrow> string option" where
  "read_fraction s = (case s of c # t \<Rightarrow> if c = CHR ''.'' then read_digits t else Some s | [] \<Rightarrow> Some [])"

definition read_exponent :: "string \<Rightarrow> string option" where
  "read_exponent s =
     (case s of
        [] \<Rightarrow> Some []
      | c # t \<Rightarrow>
          if c = CHR ''e'' \<or> c = CHR ''E''
          then read_digits (if t \<noteq> [] \<and> hd t \<in> {CHR ''+'', CHR ''-''} then tl t else t)
          else Some s)"

definition read_number :: "string \<Rightarrow> string option" where
  "read_number s =
     Option.bind (read_integer (if s \<noteq> [] \<and> hd s = CHR ''-'' then tl s else s)) (\<lambda>t.
       Option.bind (read_fraction t) read_exponent)"

definition read_literal :: "string \<Rightarrow> json_value \<Rightarrow> string \<Rightarrow> (json_value \<times> string) option" where
  "read_literal l v s = (if prefix l s then Some (v, drop (length l) s) else None)"

text \<open>
  A value, the elements of an array and the members of an object, with \<open>d\<close> more levels of nesting
  allowed. Two calls read at least one byte, so fuel beyond twice the length of the text is not used up.
\<close>

fun read_value :: "nat \<Rightarrow> nat \<Rightarrow> string \<Rightarrow> (json_value \<times> string) option"
  and read_elements :: "nat \<Rightarrow> nat \<Rightarrow> string \<Rightarrow> (json_value list \<times> string) option"
  and read_members :: "nat \<Rightarrow> nat \<Rightarrow> string \<Rightarrow> ((string \<times> json_value) list \<times> string) option" where
  "read_value 0 d s = None"
| "read_value (Suc k) d s =
     (case skip_space s of
        [] \<Rightarrow> None
      | c # t \<Rightarrow>
          if c = CHR ''{''
          then (if d = 0 then None
                else case expect_char CHR ''}'' t of
                  Some u \<Rightarrow> Some (VObject [], u)
                | None \<Rightarrow> map_option (apfst VObject) (read_members k (d - 1) t))
          else if c = CHR ''[''
          then (if d = 0 then None
                else case expect_char CHR '']'' t of
                  Some u \<Rightarrow> Some (VArray [], u)
                | None \<Rightarrow> map_option (apfst VArray) (read_elements k (d - 1) t))
          else if c = CHR 0x22 then map_option (apfst VString) (read_string t)
          else if c = CHR ''t'' then read_literal ''rue'' (VBool True) t
          else if c = CHR ''f'' then read_literal ''alse'' (VBool False) t
          else if c = CHR ''n'' then read_literal ''ull'' VNull t
          else map_option (Pair VNumber) (read_number (c # t)))"
| "read_elements 0 d s = None"
| "read_elements (Suc k) d s =
     (case read_value k d s of
        None \<Rightarrow> None
      | Some (v, t) \<Rightarrow>
          (case expect_char CHR '','' t of
             Some u \<Rightarrow> map_option (apfst (Cons v)) (read_elements k d u)
           | None \<Rightarrow> map_option (Pair [v]) (expect_char CHR '']'' t)))"
| "read_members 0 d s = None"
| "read_members (Suc k) d s =
     (case Option.bind (expect_char CHR 0x22 s) read_string of
        None \<Rightarrow> None
      | Some (key, r) \<Rightarrow>
          (case Option.bind (expect_char CHR '':'' r) (read_value k d) of
             None \<Rightarrow> None
           | Some (v, t) \<Rightarrow>
               (case expect_char CHR '','' t of
                  Some u \<Rightarrow> map_option (apfst (Cons (key, v))) (read_members k d u)
                | None \<Rightarrow> map_option (Pair [(key, v)]) (expect_char CHR ''}'' t))))"

text \<open>\<^verbatim>\<open>maxNestingDepth\<close>.\<close>

abbreviation maxNestingDepth :: nat where "maxNestingDepth \<equiv> 10000"

definition read_document :: "string \<Rightarrow> json_value option" where
  "read_document s =
     (case read_value (Suc (2 * length s)) maxNestingDepth s of
        Some (v, t) \<Rightarrow> if skip_space t = [] then Some v else None
      | None \<Rightarrow> None)"

subsection \<open>The fuel is enough\<close>

lemma expect_char_shorter: "expect_char c s = Some t \<Longrightarrow> length t < length s"
  using length_dropWhile_le [of json_space s]
  by (auto simp: expect_char_def split: list.splits if_splits)

lemma read_digits_shorter: "read_digits s = Some t \<Longrightarrow> length t < length s"
  using length_dropWhile_le [of is_digit "tl s"] by (cases s) (auto simp: read_digits_def split: if_splits)

lemma read_integer_shorter: "read_integer s = Some t \<Longrightarrow> length t < length s"
  by (auto simp: read_integer_def split: list.splits if_splits dest: read_digits_shorter)

lemma read_fraction_le: "read_fraction s = Some t \<Longrightarrow> length t \<le> length s"
  by (auto simp: read_fraction_def split: list.splits if_splits dest!: read_digits_shorter)

lemma read_exponent_le: "read_exponent s = Some t \<Longrightarrow> length t \<le> length s"
  by (auto simp: read_exponent_def split: list.splits if_splits dest!: read_digits_shorter)

lemma read_number_shorter: "read_number s = Some t \<Longrightarrow> length t < length s"
  by (auto simp: read_number_def bind_eq_Some_conv split: if_splits
      dest!: read_integer_shorter read_fraction_le read_exponent_le)

lemma read_literal_le: "read_literal l v s = Some (x, t) \<Longrightarrow> length t \<le> length s"
  by (auto simp: read_literal_def split: if_splits)

lemmas read_shorter = expect_char_shorter read_string_shorter read_number_shorter read_literal_le

lemma read_value_shorter:
  "read_value k d s = Some (v, t) \<Longrightarrow> length t < length s"
  "read_elements k d s = Some (vs, t) \<Longrightarrow> length t < length s"
  "read_members k d s = Some (ms, t) \<Longrightarrow> length t < length s"
proof (induction k d s and k d s and k d s arbitrary: v t and vs t and ms t
    rule: read_value_read_elements_read_members.induct)
  case (2 k d s)
  have "length (skip_space s) \<le> length s" by (rule length_dropWhile_le)
  then show ?case
    using 2 by (fastforce split: list.splits if_splits option.splits dest!: read_shorter)
next
  case (4 k d s)
  then show ?case by (fastforce split: option.splits prod.splits dest!: read_shorter)
next
  case (6 k d s)
  then show ?case by (fastforce split: option.splits prod.splits simp: bind_eq_Some_conv dest!: read_shorter)
qed simp_all

declare read_value.simps(2) [simp del] read_elements.simps(2) [simp del] read_members.simps(2) [simp del]

lemma read_value_fuel:
  "2 * length s < k \<Longrightarrow> read_value (Suc k) d s = read_value k d s"
  "2 * length s + 1 < k \<Longrightarrow> read_elements (Suc k) d s = read_elements k d s"
  "2 * length s < k \<Longrightarrow> read_members (Suc k) d s = read_members k d s"
proof (induction k d s and k d s and k d s rule: read_value_read_elements_read_members.induct)
  case (2 k d s)
  show ?case
  proof (cases "skip_space s")
    case Nil
    then show ?thesis
      unfolding read_value.simps(2) [of "Suc k" d s] read_value.simps(2) [of k d s] Nil by simp
  next
    case (Cons c t)
    then have "2 * length t + 1 < k" using 2(3) length_dropWhile_le [of json_space s] by simp
    then have "c = CHR ''{'' \<Longrightarrow> d \<noteq> 0 \<Longrightarrow> expect_char CHR ''}'' t = None \<Longrightarrow>
        read_members (Suc k) (d - 1) t = read_members k (d - 1) t"
      and "c = CHR ''['' \<Longrightarrow> d \<noteq> 0 \<Longrightarrow> expect_char CHR '']'' t = None \<Longrightarrow>
        read_elements (Suc k) (d - 1) t = read_elements k (d - 1) t"
      using 2(1,2) [OF Cons] by auto
    then show ?thesis
      unfolding read_value.simps(2) [of "Suc k" d s] read_value.simps(2) [of k d s] Cons
      by (simp split: option.split)
  qed
next
  case (4 k d s)
  show ?case
  proof (cases "read_value k d s")
    case None
    then show ?thesis
      unfolding read_elements.simps(2) [of "Suc k" d s] read_elements.simps(2) [of k d s] using 4(1,3) by simp
  next
    case (Some r)
    obtain v t where r: "r = (v, t)" by (cases r)
    have "2 * length u + 1 < k" if "expect_char c t = Some u" for u c
      using that 4(3) Some r by (auto dest!: read_value_shorter expect_char_shorter)
    then show ?thesis
      unfolding read_elements.simps(2) [of "Suc k" d s] read_elements.simps(2) [of k d s]
      using 4(1,3) 4(2) [OF Some [unfolded r] refl] Some r by (simp split: option.split)
  qed
next
  case (6 k d s)
  show ?case
  proof (cases "Option.bind (expect_char CHR 0x22 s) read_string")
    case None
    then show ?thesis
      unfolding read_members.simps(2) [of "Suc k" d s] read_members.simps(2) [of k d s] by simp
  next
    case (Some kr)
    then obtain key r where key: "Option.bind (expect_char CHR 0x22 s) read_string = Some (key, r)" by (cases kr) auto
    have r: "2 * length r < k" using key 6(3) by (auto simp: bind_eq_Some_conv dest!: read_shorter)
    have val: "Option.bind (expect_char CHR '':'' r) (read_value (Suc k) d) =
        Option.bind (expect_char CHR '':'' r) (read_value k d)"
      using 6(1) [OF key refl] r by (cases "expect_char CHR '':'' r") (auto dest!: expect_char_shorter)
    show ?thesis
    proof (cases "Option.bind (expect_char CHR '':'' r) (read_value k d)")
      case None
      show ?thesis
        unfolding read_members.simps(2) [of "Suc k" d s] read_members.simps(2) [of k d s] key option.case prod.case val None ..
    next
      case (Some vt)
      obtain v t where vt: "vt = (v, t)" by (cases vt)
      have "2 * length t < k"
        using Some r by (auto simp: vt bind_eq_Some_conv dest!: read_value_shorter expect_char_shorter)
      then have "2 * length u < k" if "expect_char c t = Some u" for u c
        using that by (auto dest!: expect_char_shorter)
      then show ?thesis
        unfolding read_members.simps(2) [of "Suc k" d s] read_members.simps(2) [of k d s]
        using 6(2) [OF key refl Some [unfolded vt] refl] Some val key
        by (simp add: vt split: option.split)
    qed
  qed
qed simp_all

lemma read_document_fuel:
  "2 * length s < k \<Longrightarrow> read_value k d s = read_value (Suc (2 * length s)) d s"
  by (induction k rule: nat_induct) (auto simp: read_value_fuel less_Suc_eq)

section \<open>A struct of strings\<close>

text \<open>\<^verbatim>\<open>Marshal\<close> of a struct: its fields in their order, under the names of their tags.\<close>

definition json_field :: "string \<times> string \<Rightarrow> string" where
  "json_field f = json_quote (fst f) @ '':'' @ json_quote (snd f)"

fun json_fields :: "(string \<times> string) list \<Rightarrow> string" where
  "json_fields [] = []"
| "json_fields [f] = json_field f"
| "json_fields (f # g # fs) = json_field f @ '','' @ json_fields (g # fs)"

definition Marshal :: "(string \<times> string) list \<Rightarrow> string" where
  "Marshal fs = ''{'' @ json_fields fs @ ''}''"

text \<open>
  \<^verbatim>\<open>foldName\<close>, as far as it decides whether a name equals one in ASCII: the long s and the sign of the
  kelvin fold to letters.
\<close>

fun foldName :: "string \<Rightarrow> string" where
  "foldName [] = []"
| "foldName (c # s) =
     (if ascii_char c then (if 97 \<le> byte_val c \<and> byte_val c \<le> 122 then char_of (byte_val c - 32) else c) # foldName s
      else if map byte_val (c # take 1 s) = [197, 191] then CHR ''S'' # foldName (drop 1 s)
      else if map byte_val (c # take 2 s) = [226, 132, 170] then CHR ''K'' # foldName (drop 2 s)
      else c # foldName s)"

text \<open>The field a member is stored in: the one with its name, or the first with its folded name.\<close>

definition field_named :: "string list \<Rightarrow> string \<Rightarrow> string option" where
  "field_named names key =
     (if List.member names key then Some key else find (\<lambda>n. foldName n = foldName key) names)"

text \<open>
  One member into the fields read so far. \<^verbatim>\<open>null\<close> leaves a field as it is; what is neither null nor a
  string is an error. A member without a field is skipped.
\<close>

fun store_member ::
  "string list \<Rightarrow> (string \<times> json_value) \<Rightarrow> (string \<Rightarrow> string) option \<Rightarrow> (string \<Rightarrow> string) option" where
  "store_member names (key, v) None = None"
| "store_member names (key, v) (Some m) =
     (case field_named names key of
        None \<Rightarrow> Some m
      | Some n \<Rightarrow> (case v of VNull \<Rightarrow> Some m | VString s \<Rightarrow> Some (m(n := s)) | _ \<Rightarrow> None))"

text \<open>\<^verbatim>\<open>Unmarshal\<close> into a struct whose fields are empty. The document \<^verbatim>\<open>null\<close> leaves all of them empty.\<close>

definition Unmarshal :: "string list \<Rightarrow> string \<Rightarrow> (string \<Rightarrow> string) option" where
  "Unmarshal names s =
     (case read_document s of
        Some VNull \<Rightarrow> Some (\<lambda>_. [])
      | Some (VObject ms) \<Rightarrow> fold (store_member names) ms (Some (\<lambda>_. []))
      | _ \<Rightarrow> None)"

subsection \<open>The round trip\<close>

abbreviation valid_fields :: "(string \<times> string) list \<Rightarrow> bool" where
  "valid_fields fs \<equiv> list_all (\<lambda>f. ValidString (fst f) \<and> ValidString (snd f)) fs"

lemma expect_next [simp]: "\<not> json_space c \<Longrightarrow> expect_char d (c # s) = (if c = d then Some s else None)"
  by (simp add: expect_char_def)

lemma json_space_chars [simp]:
  "\<not> json_space CHR 0x22" "\<not> json_space CHR '':''" "\<not> json_space CHR '',''" "\<not> json_space CHR ''{''"
  "\<not> json_space CHR ''}''"
  by (simp_all add: json_space_def)

lemma json_quote_append: "json_quote s @ u = CHR 0x22 # json_text s @ CHR 0x22 # u"
  by (simp add: json_quote_def)

lemma read_value_quote: "ValidString s \<Longrightarrow> read_value (Suc k) d (json_quote s @ u) = Some (VString s, u)"
  by (simp add: read_value.simps(2) json_quote_append read_json_text)

lemma read_members_fields:
  "fs \<noteq> [] \<Longrightarrow> valid_fields fs \<Longrightarrow>
   read_members (Suc (length fs + k)) d (json_fields fs @ ''}'' @ u) = Some (map (\<lambda>f. (fst f, VString (snd f))) fs, u)"
proof (induction fs arbitrary: k rule: json_fields.induct)
  case (2 f)
  then show ?case
    by (simp add: read_members.simps(2) json_field_def json_quote_append read_json_text
        read_value_quote [unfolded json_quote_append])
next
  case (3 f g fs)
  then show ?case
    by (simp add: read_members.simps(2) [of "Suc _"] json_field_def json_quote_append read_json_text
        read_value_quote [unfolded json_quote_append])
qed simp

lemma fold_store_names:
  "distinct (map fst fs) \<Longrightarrow> set (map fst fs) \<subseteq> set names \<Longrightarrow>
   fold (store_member names) (map (\<lambda>f. (fst f, VString (snd f))) fs) (Some m)
   = Some (\<lambda>n. case map_of fs n of Some v \<Rightarrow> v | None \<Rightarrow> m n)"
proof (induction fs arbitrary: m)
  case (Cons f fs)
  have "field_named names (fst f) = Some (fst f)"
    using Cons.prems by (simp add: field_named_def)
  moreover have "map_of fs (fst f) = None"
    using Cons.prems by (simp add: map_of_eq_None_iff)
  ultimately show ?case
    using Cons by (auto simp: fun_eq_iff split: option.split)
qed simp

theorem Unmarshal_Marshal:
  assumes "fs \<noteq> []" and "valid_fields fs" and "distinct (map fst fs)"
  shows "Unmarshal (map fst fs) (Marshal fs) = Some (\<lambda>n. case map_of fs n of Some v \<Rightarrow> v | None \<Rightarrow> [])"
proof -
  have "length fs \<le> length (json_fields fs)"
    by (induction fs rule: json_fields.induct) (simp_all add: json_field_def json_quote_def)
  then obtain k where k: "2 * length (Marshal fs) = Suc (length fs + k)"
    by (auto simp: Marshal_def dest!: le_Suc_ex) 
  have "expect_char CHR ''}'' (json_fields fs @ ''}'') = None"
    using assms(1) by (cases fs rule: json_fields.cases) (simp_all add: json_field_def json_quote_def)
  then have "read_document (Marshal fs) = Some (VObject (map (\<lambda>f. (fst f, VString (snd f))) fs))"
    using read_members_fields [OF assms(1,2), of k "maxNestingDepth - 1" "[]"]
    unfolding read_document_def k by (simp add: read_value.simps(2) Marshal_def)
  then show ?thesis
    using fold_store_names [OF assms(3) order_refl] by (simp add: Unmarshal_def)
qed

lemma Marshal_not_Nil [simp]: "Marshal fs \<noteq> []"
  by (simp add: Marshal_def)

end
