(* ===== verification/Go_Url.thy ===== *)
theory Go_Url
  imports Go_Json "HOL-Library.List_Lexorder" "HOL-Library.Char_ord"
begin

text \<open>
  The part of \<^verbatim>\<open>net/url\<close> the repository calls: escaping, \<^verbatim>\<open>Parse\<close>, \<^verbatim>\<open>String\<close>, and the reading and writing of a
  query. How a host is read is a parameter, since it involves package \<^verbatim>\<open>netip\<close>. The lemmas show that
  escaping is undone, and what \<^verbatim>\<open>Parse\<close> and \<^verbatim>\<open>String\<close> make of a path.
\<close>

section \<open>Escaping\<close>

datatype encoding = EncodePath | EncodeUserPassword | EncodeHost | EncodeQueryComponent | EncodeFragment

definition alphanumeric :: "char \<Rightarrow> bool" where
  "alphanumeric c \<longleftrightarrow> byte_in 97 122 c \<or> byte_in 65 90 c \<or> byte_in 48 57 c"

text \<open>\<^verbatim>\<open>shouldEscape\<close>.\<close>

definition shouldEscape :: "encoding \<Rightarrow> char \<Rightarrow> bool" where
  "shouldEscape mode c =
     (if alphanumeric c then False
      else if mode = EncodeHost \<and> List.member (''!$&()*+,;=:[]<>'' @ [CHR 0x22, CHR 0x27]) c then False
      else if List.member ''-_.~'' c then False
      else if List.member ''$&+,/:;=?@'' c
      then (case mode of
              EncodePath \<Rightarrow> c = CHR ''?''
            | EncodeUserPassword \<Rightarrow> List.member ''@/?:'' c
            | EncodeQueryComponent \<Rightarrow> True
            | EncodeFragment \<Rightarrow> False
            | EncodeHost \<Rightarrow> True)
      else if mode = EncodeFragment \<and> List.member ''!()*'' c then False
      else True)"

definition upper_hex :: string where
  "upper_hex = ''0123456789ABCDEF''"

definition escape_byte :: "encoding \<Rightarrow> char \<Rightarrow> string" where
  "escape_byte mode c =
     (if shouldEscape mode c
      then (if c = CHR '' '' \<and> mode = EncodeQueryComponent then ''+''
            else [CHR ''%'', upper_hex ! (byte_val c div 16), upper_hex ! (byte_val c mod 16)])
      else [c])"

text \<open>\<^verbatim>\<open>escape\<close>.\<close>

definition url_escape :: "encoding \<Rightarrow> string \<Rightarrow> string" where
  "url_escape mode s = concat (map (escape_byte mode) s)"

text \<open>
  \<^verbatim>\<open>unescape\<close>, of everything but a host: a percent sign must be followed by two hexadecimal digits,
  and in a query a plus sign is a space.
\<close>

fun url_unescape :: "encoding \<Rightarrow> string \<Rightarrow> string option" where
  "url_unescape mode [] = Some []"
| "url_unescape mode (c # s) =
     (if c = CHR ''%'' then
        (case s of
           a # b # t \<Rightarrow>
             (case (unhex a, unhex b) of
                (Some x, Some y) \<Rightarrow> map_option (Cons (char_of (16 * x + y))) (url_unescape mode t)
              | _ \<Rightarrow> None)
         | _ \<Rightarrow> None)
      else if c = CHR ''+'' \<and> mode = EncodeQueryComponent then map_option (Cons (CHR '' '')) (url_unescape mode s)
      else map_option (Cons c) (url_unescape mode s))"

abbreviation QueryEscape :: "string \<Rightarrow> string" where "QueryEscape \<equiv> url_escape EncodeQueryComponent"
abbreviation QueryUnescape :: "string \<Rightarrow> string option" where "QueryUnescape \<equiv> url_unescape EncodeQueryComponent"

lemma escape_simps [simp]:
  "url_escape mode [] = []" "url_escape mode (c # s) = escape_byte mode c @ url_escape mode s"
  by (simp_all add: url_escape_def)

lemma unhex_upper_hex: "n < 16 \<Longrightarrow> unhex (upper_hex ! n) = Some n"
proof -
  have "\<forall>n \<in> set [0..<16]. unhex (upper_hex ! n) = Some n" by code_simp
  then show "n < 16 \<Longrightarrow> unhex (upper_hex ! n) = Some n" by simp
qed

lemma unescape_escape_byte: "url_unescape mode (escape_byte mode c @ s) = map_option (Cons c) (url_unescape mode s)"
proof -
  have "byte_val c div 16 < 16" using less_mult_imp_div_less [of "byte_val c" 16 16] by simp
  then have "url_unescape mode (CHR ''%'' # upper_hex ! (byte_val c div 16) # upper_hex ! (byte_val c mod 16) # s)
      = map_option (Cons c) (url_unescape mode s)"
    by (simp add: unhex_upper_hex)
  then have "?thesis" if "shouldEscape mode c"
    using that by (cases "c = CHR '' '' \<and> mode = EncodeQueryComponent")
      (simp_all add: escape_byte_def del: url_unescape.simps(2), simp_all)
  moreover have "?thesis" if "\<not> shouldEscape mode c"
  proof -
    have "c \<noteq> CHR ''%''" and "\<not> (c = CHR ''+'' \<and> mode = EncodeQueryComponent)"
      using that by (auto simp: shouldEscape_def alphanumeric_def byte_in_def)
    then show ?thesis using that by (auto simp: escape_byte_def)
  qed
  ultimately show ?thesis by blast
qed

lemma unescape_escape [simp]: "url_unescape mode (url_escape mode s) = Some s"
  by (induction s) (simp_all add: unescape_escape_byte)

interpretation url_codec: codec "url_escape mode" "url_unescape mode" "\<lambda>_. True"
  by unfold_locales simp

section \<open>Addresses\<close>

record Url =
  u_Scheme :: string
  u_Opaque :: string
  u_User :: "(string \<times> string option) option"
  u_Host :: string
  u_Path :: string
  u_RawPath :: string
  u_OmitHost :: bool
  u_ForceQuery :: bool
  u_RawQuery :: string
  u_Fragment :: string
  u_RawFragment :: string

definition no_url :: Url where
  "no_url = \<lparr>u_Scheme = [], u_Opaque = [], u_User = None, u_Host = [], u_Path = [], u_RawPath = [],
     u_OmitHost = False, u_ForceQuery = False, u_RawQuery = [], u_Fragment = [], u_RawFragment = []\<rparr>"

text \<open>\<^verbatim>\<open>setPath\<close> and \<^verbatim>\<open>setFragment\<close>: the text is kept only where escaping would give another one.\<close>

definition setPath :: "string \<Rightarrow> Url \<Rightarrow> Url option" where
  "setPath p u =
     map_option (\<lambda>path. u\<lparr>u_Path := path, u_RawPath := (if p = url_escape EncodePath path then [] else p)\<rparr>)
       (url_unescape EncodePath p)"

definition setFragment :: "string \<Rightarrow> Url \<Rightarrow> Url option" where
  "setFragment f u =
     map_option (\<lambda>frag. u\<lparr>u_Fragment := frag, u_RawFragment := (if f = url_escape EncodeFragment frag then [] else f)\<rparr>)
       (url_unescape EncodeFragment f)"

text \<open>\<^verbatim>\<open>getScheme\<close>: the scheme and the rest; a colon at the front is an error.\<close>

fun scheme_loop :: "string \<Rightarrow> string \<Rightarrow> string \<Rightarrow> (string \<times> string) option" where
  "scheme_loop raw seen [] = Some ([], raw)"
| "scheme_loop raw seen (c # s) =
     (if byte_in 97 122 c \<or> byte_in 65 90 c then scheme_loop raw (seen @ [c]) s
      else if byte_in 48 57 c \<or> List.member ''+-.'' c
      then (if seen = [] then Some ([], raw) else scheme_loop raw (seen @ [c]) s)
      else if c = CHR '':'' then (if seen = [] then None else Some (seen, s))
      else Some ([], raw))"

definition getScheme :: "string \<Rightarrow> (string \<times> string) option" where
  "getScheme raw = scheme_loop raw [] raw"

definition control_byte :: "char \<Rightarrow> bool" where
  "control_byte c \<longleftrightarrow> byte_val c < 32 \<or> byte_val c = 127"

definition validUserinfo :: "string \<Rightarrow> bool" where
  "validUserinfo s \<longleftrightarrow> list_all (\<lambda>c. alphanumeric c \<or> List.member (''-._:~!$&()*+,;=%@'' @ [CHR 0x27]) c) s"

text \<open>\<^verbatim>\<open>parseAuthority\<close>, where \<open>host\<close> is \<^verbatim>\<open>parseHost\<close>; the last at sign ends what is said of the user.\<close>

definition parseAuthority ::
  "(string \<Rightarrow> string \<Rightarrow> string option) \<Rightarrow> string \<Rightarrow> string \<Rightarrow> ((string \<times> string option) option \<times> string) option" where
  "parseAuthority host scheme authority =
     (if CHR ''@'' \<notin> set authority then map_option (Pair None) (host scheme authority)
      else (let back = takeWhile (\<lambda>c. c \<noteq> CHR ''@'') (rev authority);
                userinfo = rev (tl (dropWhile (\<lambda>c. c \<noteq> CHR ''@'') (rev authority)))
            in case host scheme (rev back) of
                 None \<Rightarrow> None
               | Some h \<Rightarrow>
                   if \<not> validUserinfo userinfo then None
                   else (case Cut userinfo (CHR '':'') of
                      (name, password, False) \<Rightarrow>
                        map_option (\<lambda>n. (Some (n, None), h)) (url_unescape EncodeUserPassword name)
                    | (name, password, True) \<Rightarrow>
                        (case (url_unescape EncodeUserPassword name, url_unescape EncodeUserPassword password) of
                           (Some n, Some p) \<Rightarrow> Some (Some (n, Some p), h)
                         | _ \<Rightarrow> None))))"

text \<open>The query: a question mark at the very end, and no other, is only noted.\<close>

definition cut_query :: "string \<Rightarrow> string \<times> bool \<times> string" where
  "cut_query rest =
     (if rest \<noteq> [] \<and> last rest = CHR ''?'' \<and> count_list rest (CHR ''?'') = 1 then (butlast rest, True, [])
      else (case Cut rest (CHR ''?'') of (before, q, found) \<Rightarrow> (before, False, q)))"

text \<open>\<^verbatim>\<open>parse\<close>, with \<^verbatim>\<open>viaRequest\<close> false.\<close>

definition parse_url :: "(string \<Rightarrow> string \<Rightarrow> string option) \<Rightarrow> string \<Rightarrow> Url option" where
  "parse_url host raw =
     (if list_ex control_byte raw then None
      else if raw = ''*'' then Some (no_url\<lparr>u_Path := ''*''\<rparr>)
      else case getScheme raw of
        None \<Rightarrow> None
      | Some (schm, rest0) \<Rightarrow>
          (case cut_query rest0 of (rest, force, query) \<Rightarrow>
             (let scheme = map lower_char schm;
                  u = no_url\<lparr>u_Scheme := scheme, u_ForceQuery := force, u_RawQuery := query\<rparr>
              in if \<not> prefix ''/'' rest \<and> scheme \<noteq> [] then Some (u\<lparr>u_Opaque := rest\<rparr>)
                 else if \<not> prefix ''/'' rest \<and> CHR '':'' \<in> set (takeWhile (\<lambda>c. c \<noteq> CHR ''/'') rest) then None
                 else if (scheme \<noteq> [] \<or> \<not> prefix ''///'' rest) \<and> prefix ''//'' rest
                 then (let authority = takeWhile (\<lambda>c. c \<noteq> CHR ''/'') (drop 2 rest);
                           path = dropWhile (\<lambda>c. c \<noteq> CHR ''/'') (drop 2 rest)
                       in case parseAuthority host scheme authority of
                            None \<Rightarrow> None
                          | Some (user, h) \<Rightarrow> setPath path (u\<lparr>u_User := user, u_Host := h\<rparr>))
                 else setPath rest (u\<lparr>u_OmitHost := scheme \<noteq> [] \<and> prefix ''/'' rest\<rparr>))))"

text \<open>\<^verbatim>\<open>Parse\<close>.\<close>

definition url_Parse :: "(string \<Rightarrow> string \<Rightarrow> string option) \<Rightarrow> string \<Rightarrow> Url option" where
  "url_Parse host raw =
     (case Cut raw (CHR ''#'') of (raw', frag, found) \<Rightarrow>
        (case parse_url host raw' of
           None \<Rightarrow> None
         | Some u \<Rightarrow> if frag = [] then Some u else setFragment frag u))"

section \<open>Printing\<close>

text \<open>\<^verbatim>\<open>validEncoded\<close>, \<^verbatim>\<open>EscapedPath\<close> and \<^verbatim>\<open>EscapedFragment\<close>.\<close>

definition may_stay :: "encoding \<Rightarrow> char \<Rightarrow> bool" where
  "may_stay mode c \<longleftrightarrow> List.member (''!$&()*+,;=:@[]%'' @ [CHR 0x27]) c \<or> \<not> shouldEscape mode c"

definition validEncoded :: "encoding \<Rightarrow> string \<Rightarrow> bool" where
  "validEncoded mode s \<longleftrightarrow> list_all (may_stay mode) s"

definition EscapedPath :: "Url \<Rightarrow> string" where
  "EscapedPath u =
     (if u_RawPath u \<noteq> [] \<and> validEncoded EncodePath (u_RawPath u) \<and> url_unescape EncodePath (u_RawPath u) = Some (u_Path u)
      then u_RawPath u
      else if u_Path u = ''*'' then ''*''
      else url_escape EncodePath (u_Path u))"

definition EscapedFragment :: "Url \<Rightarrow> string" where
  "EscapedFragment u =
     (if u_RawFragment u \<noteq> [] \<and> validEncoded EncodeFragment (u_RawFragment u)
         \<and> url_unescape EncodeFragment (u_RawFragment u) = Some (u_Fragment u)
      then u_RawFragment u
      else url_escape EncodeFragment (u_Fragment u))"

definition Userinfo_String :: "string \<times> string option \<Rightarrow> string" where
  "Userinfo_String ui =
     url_escape EncodeUserPassword (fst ui) @
     (case snd ui of None \<Rightarrow> [] | Some p \<Rightarrow> '':'' @ url_escape EncodeUserPassword p)"

text \<open>\<^verbatim>\<open>String\<close>: the part before the query, then the query and the fragment.\<close>

definition url_authority :: "Url \<Rightarrow> string" where
  "url_authority u =
     (if (u_Scheme u = [] \<and> u_Host u = [] \<and> u_User u = None) \<or> (u_OmitHost u \<and> u_Host u = [] \<and> u_User u = None)
      then []
      else (if u_Host u \<noteq> [] \<or> u_Path u \<noteq> [] \<or> u_User u \<noteq> None then ''//'' else []) @
           (case u_User u of None \<Rightarrow> [] | Some ui \<Rightarrow> Userinfo_String ui @ ''@'') @
           url_escape EncodeHost (u_Host u))"

definition url_hierarchy :: "Url \<Rightarrow> string" where
  "url_hierarchy u =
     (let front = (if u_Scheme u = [] then [] else u_Scheme u @ '':'');
          path = EscapedPath u;
          start = front @ url_authority u @ (if path \<noteq> [] \<and> hd path \<noteq> CHR ''/'' \<and> u_Host u \<noteq> [] then ''/'' else [])
      in if u_Opaque u \<noteq> [] then front @ u_Opaque u
         else start @
           (if start = [] \<and> CHR '':'' \<in> set (takeWhile (\<lambda>c. c \<noteq> CHR ''/'') path) then ''./'' else []) @ path)"

definition url_String :: "Url \<Rightarrow> string" where
  "url_String u =
     url_hierarchy u @
     (if u_ForceQuery u \<or> u_RawQuery u \<noteq> [] then ''?'' @ u_RawQuery u else []) @
     (if u_Fragment u \<noteq> [] then ''#'' @ EscapedFragment u else [])"

section \<open>Queries\<close>

text \<open>
  \<^verbatim>\<open>Values\<close>: names with their values, those of one name in the order they came in. \<^verbatim>\<open>ParseQuery\<close> drops the
  parts it cannot read; a query with too many parts is not read at all.
\<close>

type_synonym Values = "(string \<times> string) list"

definition query_part :: "string \<Rightarrow> Values" where
  "query_part part =
     (if CHR '';'' \<in> set part \<or> part = [] then []
      else (case Cut part (CHR ''='') of (k, v, found) \<Rightarrow>
        (case (QueryUnescape k, QueryUnescape v) of
           (Some key, Some val) \<Rightarrow> [(key, val)]
         | _ \<Rightarrow> [])))"

abbreviation max_query_params :: nat where "max_query_params \<equiv> 10000"

definition ParseQuery :: "string \<Rightarrow> Values" where
  "ParseQuery query =
     (if count_list query (CHR ''&'') + 1 > max_query_params then []
      else concat (map query_part (Split query (CHR ''&''))))"

definition Values_Set :: "string \<Rightarrow> string \<Rightarrow> Values \<Rightarrow> Values" where
  "Values_Set key val vs = filter (\<lambda>v. fst v \<noteq> key) vs @ [(key, val)]"

text \<open>\<^verbatim>\<open>Encode\<close>: sorted by name.\<close>

fun query_text :: "Values \<Rightarrow> string" where
  "query_text [] = []"
| "query_text [(k, v)] = QueryEscape k @ ''='' @ QueryEscape v"
| "query_text ((k, v) # vs) = QueryEscape k @ ''='' @ QueryEscape v @ ''&'' @ query_text vs"

definition Values_Encode :: "Values \<Rightarrow> string" where
  "Values_Encode vs = query_text (SliceStable (\<lambda>a b. fst a < fst b) vs)"


section \<open>A query that is written and read again\<close>

lemma unescaped_chars: "\<not> shouldEscape EncodeQueryComponent c \<Longrightarrow> alphanumeric c \<or> c \<in> set ''-_.~''"
  by (auto simp: shouldEscape_def split: if_splits)

lemma upper_hex_alphanumeric: "n < 16 \<Longrightarrow> alphanumeric (upper_hex ! n)"
proof -
  have "\<forall>n \<in> set [0..<16]. alphanumeric (upper_hex ! n)" by code_simp
  then show "n < 16 \<Longrightarrow> alphanumeric (upper_hex ! n)" by simp
qed

lemma escape_byte_chars:
  assumes "c \<in> set (escape_byte EncodeQueryComponent a)"
  shows "alphanumeric c \<or> c \<in> set ''-_.~+%''"
proof (cases "shouldEscape EncodeQueryComponent a")
  case True
  have "byte_val a div 16 < 16" using less_mult_imp_div_less [of "byte_val a" 16 16] by simp
  then have "alphanumeric (upper_hex ! (byte_val a div 16))" "alphanumeric (upper_hex ! (byte_val a mod 16))"
    by (simp_all add: upper_hex_alphanumeric)
  then show ?thesis using assms True by (auto simp: escape_byte_def split: if_splits)
next
  case False
  then show ?thesis using assms unescaped_chars [OF False] by (auto simp: escape_byte_def)
qed

lemma QueryEscape_chars: "c \<in> set (QueryEscape s) \<Longrightarrow> alphanumeric c \<or> c \<in> set ''-_.~+%''"
  by (induction s) (auto dest: escape_byte_chars)

lemma QueryEscape_clean [simp]:
  "CHR ''&'' \<notin> set (QueryEscape s)" "CHR ''='' \<notin> set (QueryEscape s)" "CHR '';'' \<notin> set (QueryEscape s)"
  "CHR ''#'' \<notin> set (QueryEscape s)" "CHR ''?'' \<notin> set (QueryEscape s)"
  by (auto dest!: QueryEscape_chars simp: alphanumeric_def byte_in_def)

lemma query_part_escaped: "query_part (QueryEscape k @ CHR ''='' # QueryEscape v) = [(k, v)]"
  by (simp add: query_part_def Cut_def takeWhile_append dropWhile_append)

lemma Split_query_text:
  "vs \<noteq> [] \<Longrightarrow> Split (query_text vs) (CHR ''&'') = map (\<lambda>(k, v). QueryEscape k @ ''='' @ QueryEscape v) vs"
proof (induction vs rule: query_text.induct)
  case (3 k v w vs)
  have "CHR ''&'' \<notin> set (QueryEscape k @ ''='' @ QueryEscape v)" by simp
  from Split_append [OF this, of "query_text (w # vs)"] 3 show ?case by simp
qed (simp_all add: Split_no_sep)

lemma count_query_text: "vs \<noteq> [] \<Longrightarrow> count_list (query_text vs) (CHR ''&'') + 1 = length vs"
  by (induction vs rule: query_text.induct) simp_all

lemma ParseQuery_text: "length vs \<le> max_query_params \<Longrightarrow> ParseQuery (query_text vs) = vs"
proof (cases "vs = []")
  case False
  assume "length vs \<le> max_query_params"
  have "concat (map (query_part \<circ> (\<lambda>(k, v). QueryEscape k @ ''='' @ QueryEscape v)) vs) = vs"
    by (induction vs) (auto simp: query_part_escaped)
  then show ?thesis
    using count_query_text [OF False] \<open>length vs \<le> max_query_params\<close>
    by (simp add: ParseQuery_def Split_query_text [OF False])
qed (simp add: ParseQuery_def query_part_def)

lemma length_Split: "length (Split s c) = count_list s c + 1"
  by (induction s) (auto split: list.splits)

lemma length_ParseQuery: "length (ParseQuery q) \<le> count_list q (CHR ''&'') + 1"
proof -
  have "length (query_part p) \<le> 1" for p
    by (auto simp: query_part_def split: option.splits prod.splits)
  then have "length (concat (map query_part ps)) \<le> length ps" for ps
    by (induction ps) (simp_all add: add_le_mono [where i = "length (query_part _)" and j = 1, simplified])
  from this [of "Split q (CHR ''&'')"] show ?thesis by (simp add: ParseQuery_def length_Split)
qed

text \<open>The values of a name, in their order.\<close>

definition values_of :: "string \<Rightarrow> Values \<Rightarrow> Values" where
  "values_of key vs = filter (\<lambda>v. key = fst v) vs"

lemma values_of_Set:
  "values_of name (Values_Set key val vs) = (if name = key then [(key, val)] else values_of name vs)"
  by (auto simp: values_of_def Values_Set_def filter_empty_conv intro!: filter_cong)

lemma length_SliceStable [simp]: "length (SliceStable lt xs) = length xs"
  using mset_SliceStable size_mset by metis

lemma read_Encode:
  assumes "length vs \<le> max_query_params"
  shows "values_of name (ParseQuery (Values_Encode vs)) = values_of name vs"
  using assms slice.srt_stable [where f = fst and lt = "\<lambda>a b. fst a < fst b" and xs = vs and k = name]
  by (simp add: Values_Encode_def ParseQuery_text values_of_def)

lemma length_Values_Set: "length (Values_Set key val vs) \<le> Suc (length vs)"
  by (simp add: Values_Set_def)

section \<open>A path on this host\<close>

text \<open>
  A path that begins with one slash, and in which \<^verbatim>\<open>String\<close> would write nothing another way.
\<close>

definition plain_path :: "string \<Rightarrow> bool" where
  "plain_path p \<longleftrightarrow> prefix ''/'' p \<and> \<not> prefix ''//'' p \<and> url_unescape EncodePath p \<noteq> None \<and> validEncoded EncodePath p"

definition plain_query :: "string \<Rightarrow> bool" where
  "plain_query q \<longleftrightarrow> list_all (\<lambda>c. \<not> control_byte c \<and> c \<noteq> CHR ''#'') q"

definition path_url :: "string \<Rightarrow> bool \<Rightarrow> string \<Rightarrow> Url" where
  "path_url p force q =
     (let path = the (url_unescape EncodePath p)
      in no_url\<lparr>u_Path := path, u_RawPath := (if p = url_escape EncodePath path then [] else p),
           u_ForceQuery := force, u_RawQuery := q\<rparr>)"

lemma not_listed: "P c \<Longrightarrow> list_all (\<lambda>d. \<not> P d) xs \<Longrightarrow> \<not> List.member xs c"
  by (auto simp: list_all_iff)

lemma control_byte_stays_not:
  assumes "control_byte c"
  shows "\<not> may_stay EncodePath c"
proof -
  have "\<not> List.member ''-_.~'' c" "\<not> List.member ''$&+,/:;=?@'' c"
    "\<not> List.member (''!$&()*+,;=:@[]%'' @ [CHR 0x27]) c"
    by (rule not_listed [where P = control_byte, OF assms], simp add: control_byte_def)+
  moreover have "\<not> alphanumeric c"
    using assms by (auto simp: control_byte_def alphanumeric_def byte_in_def)
  ultimately show ?thesis unfolding may_stay_def shouldEscape_def by simp
qed

lemma delimiter_stays_not:
  "\<not> may_stay EncodePath CHR ''#''" "\<not> may_stay EncodePath CHR ''?''"
  by (simp_all add: may_stay_def shouldEscape_def alphanumeric_def byte_in_def)

lemma plain_path_chars:
  assumes "plain_path p"
  shows "\<not> list_ex control_byte p" and "CHR ''#'' \<notin> set p" and "CHR ''?'' \<notin> set p"
  using assms control_byte_stays_not delimiter_stays_not
  by (auto simp: plain_path_def validEncoded_def list_all_iff list_ex_iff)

lemma Cut_at: "c \<notin> set p \<Longrightarrow> Cut (p @ c # q) c = (p, q, True)"
  by (induction p) (auto simp: Cut_def)

lemma Cut_absent: "c \<notin> set p \<Longrightarrow> Cut p c = (p, [], False)"
  by (simp add: Cut_def)

lemma cut_query_at:
  assumes "CHR ''?'' \<notin> set p"
  shows "cut_query (p @ CHR ''?'' # q) = (p, q = [], q)"
proof (cases "q = []")
  case False
  have "\<not> (last q = CHR ''?'' \<and> count_list q (CHR ''?'') = 0)"
    using last_in_set [OF False] by (auto simp: count_list_0_iff)
  then show ?thesis using assms False by (auto simp: cut_query_def Cut_at)
qed (use assms in \<open>simp add: cut_query_def\<close>)

lemma cut_query_absent: "CHR ''?'' \<notin> set p \<Longrightarrow> cut_query p = (p, False, [])"
  by (cases p rule: rev_cases) (auto simp: cut_query_def Cut_absent)

lemma parse_plain:
  assumes "plain_path p" and "plain_query q"
  shows "url_Parse host (p @ CHR ''?'' # q) = Some (path_url p (q = []) q)"
    and "url_Parse host p = Some (path_url p False [])"
proof -
  obtain t where p: "p = CHR ''/'' # t" using assms(1) by (auto simp: plain_path_def prefix_def)
  have slashes: "\<not> prefix ''//'' p" using assms(1) by (simp add: plain_path_def)
  have path: "setPath p (no_url\<lparr>u_ForceQuery := f, u_RawQuery := r\<rparr>) = Some (path_url p f r)" for f r
    using assms(1) by (auto simp: plain_path_def setPath_def path_url_def no_url_def)
  note chars = plain_path_chars [OF assms(1)]
  have q: "\<not> list_ex control_byte q" "CHR ''#'' \<notin> set q"
    using assms(2) by (auto simp: plain_query_def list_ex_iff list_all_iff)
  have parse: "parse_url host raw = Some (path_url p f r)"
    if "cut_query raw = (p, f, r)" "raw = p @ tail" "\<not> list_ex control_byte raw" for raw f r tail
  proof -
    have "getScheme raw = Some ([], raw)" by (simp add: getScheme_def that p byte_in_def)
    then show ?thesis
      using that slashes path by (simp add: parse_url_def p no_url_def)
  qed
  show "url_Parse host (p @ CHR ''?'' # q) = Some (path_url p (q = []) q)"
    unfolding url_Parse_def using chars q parse [OF cut_query_at [OF chars(3)] refl]
    by (simp add: Cut_absent control_byte_def)
  show "url_Parse host p = Some (path_url p False [])"
    unfolding url_Parse_def using chars parse [OF cut_query_absent [OF chars(3)], of "[]"]
    by (simp add: Cut_absent)
qed

lemma unescape_slash: "url_unescape EncodePath (CHR ''/'' # t) = Some path \<Longrightarrow> \<exists>s. path = CHR ''/'' # s"
  by auto

lemma String_path_url:
  assumes "plain_path p" and "r \<noteq> []"
  shows "url_String (path_url p force q\<lparr>u_RawQuery := r\<rparr>) = p @ CHR ''?'' # r"
proof -
  let ?u = "path_url p force q\<lparr>u_RawQuery := r\<rparr>"
  obtain t where p: "p = CHR ''/'' # t" using assms(1) by (auto simp: plain_path_def prefix_def)
  obtain path where path: "url_unescape EncodePath p = Some path" using assms(1) by (auto simp: plain_path_def)
  obtain s where s: "path = CHR ''/'' # s" using unescape_slash path p by blast
  have "EscapedPath ?u = p"
    using assms(1) path s \<open>p = CHR ''/'' # t\<close> by (simp add: EscapedPath_def path_url_def Let_def plain_path_def no_url_def)
  moreover have "url_authority ?u = []" by (simp add: url_authority_def path_url_def Let_def no_url_def)
  ultimately have "url_hierarchy ?u = p"
    by (simp add: url_hierarchy_def path_url_def Let_def no_url_def p)
  then show ?thesis
    using assms(2) by (simp add: url_String_def path_url_def Let_def no_url_def)
qed

end
