(* ===== verification/Http_Handlers.thy ===== *)
theory Http_Handlers
  imports Http_Errors Api_Schemas Auth_Federated Contexts_Service Go_Url
begin

text \<open>
  The operations of the API, \<^verbatim>\<open>apps/api/internal/httpapi\<close>: \<^verbatim>\<open>auth.go\<close>, \<^verbatim>\<open>auth_sessions.go\<close>,
  \<^verbatim>\<open>auth_google.go\<close>, \<^verbatim>\<open>contexts.go\<close> and \<^verbatim>\<open>tasks.go\<close>. A handler takes what ogen decoded and the values the
  middleware and the security handler put into the request's context, and returns a response of the
  contract or an error.

  The process's clock is the parameter \<open>clk\<close>, read at the number of the next call, so every reading
  may differ. Addresses are compared and printed as texts. How \<^verbatim>\<open>net/url\<close> reads
  a host is the parameter \<open>parseHost\<close>.
\<close>

section \<open>Handlers\<close>

type_synonym handler = "world \<Rightarrow> (api_error + api_response) \<times> world"

text \<open>The configuration of \<^verbatim>\<open>Handler\<close> that the operations read.\<close>

record Handler =
  hd_production :: bool
  hd_auth :: Service

record rctx =
  rc_principal :: "Principal option"
  rc_token :: string
  rc_client :: SignInContext
  rc_flow :: "FlowState option"

text \<open>
  \<^verbatim>\<open>x, err := m; switch { case errors.Is(err, ...): ... case err != nil: ... }; k(x)\<close>.
\<close>

definition serve :: "'a io \<Rightarrow> (go_error \<Rightarrow> world \<Rightarrow> api_error + api_response) \<Rightarrow> ('a \<Rightarrow> handler) \<Rightarrow> handler" where
  "serve m onerr k w = (case m w of (Inl e, w1) \<Rightarrow> (onerr e w1, w1) | (Inr x, w1) \<Rightarrow> k x w1)"

definition reply :: "api_response \<Rightarrow> handler" where
  "reply r w = (Inr r, w)"

definition fail :: "api_error \<Rightarrow> handler" where
  "fail e w = (Inl e, w)"

abbreviation pass_on :: "go_error \<Rightarrow> world \<Rightarrow> api_error + api_response" where
  "pass_on e w \<equiv> Inl (Plain e)"

text \<open>\<^verbatim>\<open>s.now()\<close> and \<^verbatim>\<open>time.Now()\<close>.\<close>

definition with_now :: "(nat \<Rightarrow> time) \<Rightarrow> (time \<Rightarrow> 'a io) \<Rightarrow> 'a io" where
  "with_now clk f w = f (clk (w_tick w)) w"

text \<open>\<^verbatim>\<open>principal, ok := principalFrom(ctx); if !ok { return nil, ErrNoSession }\<close>.\<close>

definition with_principal :: "rctx \<Rightarrow> (Principal \<Rightarrow> handler) \<Rightarrow> handler" where
  "with_principal c k = (case rc_principal c of None \<Rightarrow> fail HttpNoSession | Some p \<Rightarrow> k p)"

section \<open>auth.go\<close>

abbreviation sessionCookieName :: string where "sessionCookieName \<equiv> ''warp_session''"

text \<open>\<^verbatim>\<open>int(d.Seconds())\<close> truncates toward zero.\<close>

definition whole_seconds :: "duration \<Rightarrow> int" where
  "whole_seconds d = (if d \<ge> 0 then d div Second else - ((- d) div Second))"

definition sessionCookie :: "Handler \<Rightarrow> string \<Rightarrow> time \<Rightarrow> time \<Rightarrow> cookie" where
  "sessionCookie H token expires now = \<lparr>ck_Name = sessionCookieName, ck_Value = token, ck_Path = ''/'',
     ck_Expires = expires, ck_MaxAge = whole_seconds (expires - now), ck_HttpOnly = True,
     ck_Secure = hd_production H\<rparr>"

text \<open>\<^verbatim>\<open>errors.As(err, &locked)\<close>.\<close>

fun lockout_until :: "go_error \<Rightarrow> time option" where
  "lockout_until (LockoutError t) = Some t"
| "lockout_until e = None"

definition errors_As_Lockout :: "go_error \<Rightarrow> time option" where
  "errors_As_Lockout err =
     (case find (\<lambda>e. lockout_until e \<noteq> None) (unwrap_chain err) of None \<Rightarrow> None | Some e \<Rightarrow> lockout_until e)"

definition currentSession :: "env \<Rightarrow> Session \<Rightarrow> CurrentSession io" where
  "currentSession E s =
     call (Profile E (ses_UserID s)) (\<lambda>e. e) (\<lambda>profile.
     return \<lparr>cus_User = \<lparr>siu_ID = up_UserID profile, siu_Email = up_Email profile,
         siu_DisplayName = up_DisplayName profile, siu_Timezone = up_Timezone profile\<rparr>,
       cus_Session = \<lparr>asn_ID = ses_ID s, asn_ProviderKind = Opt_Reset [], asn_IssuedAt = ses_IssuedAt s,
         asn_LastSeenAt = ses_IssuedAt s, asn_ExpiresAt = ses_ExpiresAt s, asn_UserAgent = Opt_Reset [],
         asn_IP = OptNil_Reset [], asn_IsCurrent = True\<rparr>\<rparr>)"

text \<open>The part that \<open>Register\<close> and \<open>Login\<close> share: the body, and the cookie.\<close>

definition signedIn :: "env \<Rightarrow> Handler \<Rightarrow> (nat \<Rightarrow> time) \<Rightarrow> Session \<Rightarrow> handler" where
  "signedIn E H clk session =
     serve (currentSession E session) pass_on (\<lambda>current w.
       reply (CurrentSessionHeaders
         [sessionCookie H (ses_Token session) (ses_ExpiresAt session) (clk (w_tick w))] current) w)"

definition Handler_Register ::
  "env \<Rightarrow> Handler \<Rightarrow> (nat \<Rightarrow> time) \<Rightarrow> (api_error \<Rightarrow> string) \<Rightarrow> rctx \<Rightarrow> RegisterRequest \<Rightarrow> handler" where
  "Handler_Register E H clk txt c req =
     serve (with_now clk (\<lambda>now. Register E (hd_auth H) now
         \<lparr>reg_Email = rgr_Email req, reg_Password = rgr_Password req, reg_DisplayName = rgr_DisplayName req\<rparr>
         (rc_client c)))
       (\<lambda>err w.
          if errors_Is err ErrEmailTaken
          then Inr (ErrorEnvelope ''email_taken'' ''an account with that email already exists'')
          else if errors_Is err ErrInvalidInput then Inl (ErrBadRequest (txt (Plain err)))
          else Inl (Plain err))
       (\<lambda>session. signedIn E H clk session)"

definition Handler_Login ::
  "env \<Rightarrow> Handler \<Rightarrow> (nat \<Rightarrow> time) \<Rightarrow> rctx \<Rightarrow> LoginRequest \<Rightarrow> handler" where
  "Handler_Login E H clk c req =
     serve (with_now clk (\<lambda>now. SignInWithPassword E (hd_auth H) now (lr_Email req) (lr_Password req) (rc_client c)))
       (\<lambda>err w.
          if errors_Is err ErrBadCredentials
          then Inr (ErrorEnvelope ''unauthenticated'' ''email or password is incorrect'')
          else if errors_Is err ErrLocked
          then (case errors_As_Lockout err of
                  None \<Rightarrow> Inl (Plain (Panic ''nil pointer dereference''))
                | Some until \<Rightarrow>
                    Inr (ErrorEnvelopeHeaders (RetryAfter until (clk (w_tick w))) ''locked''
                      ''too many failed attempts; try again later''))
          else Inl (Plain err))
       (\<lambda>session. signedIn E H clk session)"

section \<open>auth\_sessions.go\<close>

definition toAPISession :: "SessionSummary \<Rightarrow> uuid \<Rightarrow> ApiSession" where
  "toAPISession s currentID = \<lparr>asn_ID = ss_ID s,
     asn_ProviderKind = (if ss_ProviderKind s \<noteq> [] then NewOpt (ss_ProviderKind s) else Opt_Reset []),
     asn_IssuedAt = ss_IssuedAt s, asn_LastSeenAt = ss_LastSeenAt s, asn_ExpiresAt = ss_ExpiresAt s,
     asn_UserAgent = (if ss_UserAgent s \<noteq> [] then NewOpt (ss_UserAgent s) else Opt_Reset []),
     asn_IP = (case ss_IP s of Some ip \<Rightarrow> NewOptNil ip | None \<Rightarrow> OptNil_Reset []),
     asn_IsCurrent = (ss_ID s = currentID)\<rparr>"

definition Handler_GetCurrentSession :: "env \<Rightarrow> (nat \<Rightarrow> time) \<Rightarrow> rctx \<Rightarrow> handler" where
  "Handler_GetCurrentSession E clk c = with_principal c (\<lambda>principal.
     serve (Profile E (pr_UserID principal)) pass_on (\<lambda>profile.
     serve (with_now clk (\<lambda>now. ListSessions E now (pr_UserID principal))) pass_on (\<lambda>sessions.
     reply (CurrentSessionRes
       \<lparr>cus_User = \<lparr>siu_ID = up_UserID profile, siu_Email = up_Email profile,
          siu_DisplayName = up_DisplayName profile, siu_Timezone = up_Timezone profile\<rparr>,
        cus_Session =
          (case find (\<lambda>s. ss_ID s = pr_SessionID principal) sessions of
             Some s \<Rightarrow> toAPISession s (pr_SessionID principal) | None \<Rightarrow> zero_session)\<rparr>))))"

definition expiredSessionCookie :: "Handler \<Rightarrow> time \<Rightarrow> cookie" where
  "expiredSessionCookie H now = (sessionCookie H [] 0 now)\<lparr>ck_MaxAge := - 1\<rparr>"

definition Handler_SignOut :: "env \<Rightarrow> Handler \<Rightarrow> (nat \<Rightarrow> time) \<Rightarrow> rctx \<Rightarrow> handler" where
  "Handler_SignOut E H clk c = with_principal c (\<lambda>_.
     serve (with_now clk (\<lambda>now. SignOut E now (rc_token c))) pass_on (\<lambda>_ w.
       reply (SignOutNoContent [expiredSessionCookie H (clk (w_tick w))]) w))"

definition Handler_ListSessions :: "env \<Rightarrow> (nat \<Rightarrow> time) \<Rightarrow> rctx \<Rightarrow> handler" where
  "Handler_ListSessions E clk c = with_principal c (\<lambda>principal.
     serve (with_now clk (\<lambda>now. ListSessions E now (pr_UserID principal))) pass_on (\<lambda>sessions.
     reply (SessionList (map (\<lambda>s. toAPISession s (pr_SessionID principal)) sessions))))"

definition Handler_RevokeSession :: "env \<Rightarrow> (nat \<Rightarrow> time) \<Rightarrow> rctx \<Rightarrow> uuid \<Rightarrow> handler" where
  "Handler_RevokeSession E clk c sessionID = with_principal c (\<lambda>principal.
     serve (with_now clk (\<lambda>now. RevokeSession E now (pr_UserID principal) sessionID))
       (\<lambda>err w. if errors_Is err ErrNotFound then Inr (RevokeSessionNotFound ''not_found'' ''no such session'')
              else Inl (Plain err))
       (\<lambda>_. reply RevokeSessionNoContent))"

definition linkedProvider :: "ProviderSummary \<Rightarrow> LinkedProvider" where
  "linkedProvider p = \<lparr>lp_ID = ps_ID p, lp_Kind = ps_Kind p,
     lp_Email = (if ps_Email p \<noteq> [] then NewOpt (ps_Email p) else Opt_Reset []),
     lp_IsPrimary = ps_IsPrimary p, lp_LinkedAt = ps_LinkedAt p,
     lp_LastLoginAt = (case ps_LastLoginAt p of Some t \<Rightarrow> NewOptNil t | None \<Rightarrow> OptNil_Reset zero_time)\<rparr>"

definition Handler_ListAuthProviders :: "env \<Rightarrow> rctx \<Rightarrow> handler" where
  "Handler_ListAuthProviders E c = with_principal c (\<lambda>principal.
     serve (ListProviders E (pr_UserID principal)) pass_on (\<lambda>providers.
     reply (LinkedProviderList (map linkedProvider providers))))"

definition Handler_UnlinkAuthProvider :: "env \<Rightarrow> rctx \<Rightarrow> uuid \<Rightarrow> handler" where
  "Handler_UnlinkAuthProvider E c providerID = with_principal c (\<lambda>principal.
     serve (UnlinkProvider E (pr_UserID principal) providerID)
       (\<lambda>err w.
          if errors_Is err ErrLastProvider
          then Inr (UnlinkAuthProviderConflict ''last_sign_in_method''
            ''this is the only way to sign in that is left; link another one before removing it'')
          else if errors_Is err ErrNotFound
          then Inr (UnlinkAuthProviderNotFound ''not_found'' ''no such sign-in method'')
          else Inl (Plain err))
       (\<lambda>_. reply UnlinkAuthProviderNoContent))"

section \<open>auth\_google.go\<close>

abbreviation oauthCookieName :: string where "oauthCookieName \<equiv> ''warp_oauth''"
abbreviation oauthCookieTTL :: duration where "oauthCookieTTL \<equiv> 10 * Minute"

text \<open>The struct \<^verbatim>\<open>oauthFlowCookie\<close>, by the names of its tags.\<close>

definition oauthFlowCookie :: "FlowState \<Rightarrow> (string \<times> string) list" where
  "oauthFlowCookie flow = [(''s'', fs_State flow), (''n'', fs_Nonce flow), (''r'', fs_ReturnTo flow)]"

definition oauthCookie :: "Handler \<Rightarrow> FlowState \<Rightarrow> time \<Rightarrow> cookie" where
  "oauthCookie H flow now = \<lparr>ck_Name = oauthCookieName,
     ck_Value = RawURL_EncodeToString (string_to_bytes (Marshal (oauthFlowCookie flow))),
     ck_Path = ''/api/v1/auth'',
     ck_Expires = now + oauthCookieTTL, ck_MaxAge = whole_seconds oauthCookieTTL, ck_HttpOnly = True,
     ck_Secure = hd_production H\<rparr>"

definition expiredOAuthCookie :: "Handler \<Rightarrow> time \<Rightarrow> cookie" where
  "expiredOAuthCookie H now =
     (oauthCookie H \<lparr>fs_State = [], fs_Nonce = [], fs_ReturnTo = []\<rparr> now)
       \<lparr>ck_Value := [], ck_MaxAge := - 1, ck_Expires := 0\<rparr>"

text \<open>The middleware: what it puts into the request's context for the flow cookie's value.\<close>

definition withOAuthFlow :: "string option \<Rightarrow> FlowState option" where
  "withOAuthFlow value =
     (case value of
        None \<Rightarrow> None
      | Some v \<Rightarrow>
          if v = [] then None
          else (case RawURL_DecodeString v of
             None \<Rightarrow> None
           | Some raw \<Rightarrow>
               (case Unmarshal [''s'', ''n'', ''r''] (bytes_to_string raw) of
                  None \<Rightarrow> None
                | Some payload \<Rightarrow>
                    Some \<lparr>fs_State = payload ''s'', fs_Nonce = payload ''n'', fs_ReturnTo = payload ''r''\<rparr>)))"

definition oauthFlowFrom :: "rctx \<Rightarrow> FlowState option" where
  "oauthFlowFrom c =
     (case rc_flow c of
        None \<Rightarrow> None
      | Some flow \<Rightarrow> if fs_State flow = [] then None else Some flow)"

definition flowReturnTo :: "FlowState option \<Rightarrow> string" where
  "flowReturnTo flow =
     (case flow of
        None \<Rightarrow> ''/''
      | Some f \<Rightarrow> if fs_ReturnTo f = [] then ''/'' else fs_ReturnTo f)"

definition withQuery :: "(string \<Rightarrow> string \<Rightarrow> string option) \<Rightarrow> string \<Rightarrow> string \<Rightarrow> string \<Rightarrow> string" where
  "withQuery parseHost path key val =
     (case url_Parse parseHost path of
        None \<Rightarrow> path
      | Some u \<Rightarrow>
          url_String (u\<lparr>u_RawQuery := Values_Encode (Values_Set key val (ParseQuery (u_RawQuery u)))\<rparr>))"

definition signInExpired :: api_response where
  "signInExpired =
     ErrorEnvelope ''sign_in_expired'' ''this sign-in attempt is no longer valid; start again''"

definition googleError :: "go_error \<Rightarrow> api_error" where
  "googleError err =
     (if errors_Is err ErrProviderNotConfigured
      then WithCause (NewAPIError 501 ''provider_not_configured''
        (''Google sign-in is not configured on this server; '' @
         ''set GOOGLE_CLIENT_ID, GOOGLE_CLIENT_SECRET and GOOGLE_REDIRECT_URL'')) err
      else WithCause (NewAPIError 502 ''provider_unavailable'' ''could not complete sign-in with Google'') err)"

definition Handler_StartGoogleSignIn ::
  "env \<Rightarrow> oidc \<Rightarrow> Handler \<Rightarrow> (nat \<Rightarrow> time) \<Rightarrow> string Opt \<Rightarrow> handler" where
  "Handler_StartGoogleSignIn E G H clk param =
     (let returnTo = (case Opt_Get param of Some v \<Rightarrow> if v \<noteq> [] then v else ''/'' | None \<Rightarrow> ''/'')
      in serve (StartGoogleSignIn E G (hd_auth H) returnTo) (\<lambda>err w. Inl (googleError err))
           (\<lambda>(target, flow) w.
             reply (StartGoogleSignInFound target [oauthCookie H flow (clk (w_tick w))]) w))"

definition Handler_CompleteGoogleSignIn ::
  "env \<Rightarrow> oidc \<Rightarrow> (string \<Rightarrow> string \<Rightarrow> string option) \<Rightarrow> Handler \<Rightarrow> (nat \<Rightarrow> time) \<Rightarrow> rctx \<Rightarrow>
   CompleteGoogleSignInParams \<Rightarrow> handler" where
  "Handler_CompleteGoogleSignIn E G parseHost H clk c params =
     (case Opt_Get (cgp_Error params) of
        Some reason \<Rightarrow> (\<lambda>w.
          reply (CompleteGoogleSignInFound
            (withQuery parseHost (flowReturnTo (oauthFlowFrom c)) ''auth_error'' ''declined'')
            [expiredOAuthCookie H (clk (w_tick w))]) w)
      | None \<Rightarrow>
          (case oauthFlowFrom c of
             None \<Rightarrow> reply signInExpired
           | Some flow \<Rightarrow>
               serve (with_now clk (\<lambda>now. CompleteGoogleSignIn E G (hd_auth H) now
                   (cgp_Code params) (cgp_State params) flow (rc_client c)))
                 (\<lambda>err w.
                    if errors_Is err ErrStateMismatch then Inr signInExpired
                    else if errors_Is err ErrNoEmailFromProvider
                    then Inr (ErrorEnvelope ''no_email_from_provider''
                      ''Google returned no email address, so there is nothing to create an account with'')
                    else if errors_Is err ErrEmailTaken
                    then Inr (ErrorEnvelope ''email_taken''
                      ''an account with that email already exists; sign in with it and link Google from settings'')
                    else Inl (googleError err))
                 (\<lambda>session w.
                    reply (CompleteGoogleSignInFound (fs_ReturnTo flow)
                      [sessionCookie H (ses_Token session) (ses_ExpiresAt session) (clk (w_tick w)),
                       expiredOAuthCookie H (clk (w_tick w))]) w)))"

section \<open>contexts.go\<close>

definition optString :: "string Opt \<Rightarrow> string option" where
  "optString v = (if \<not> opt_Set v then None else Some (opt_Value v))"

text \<open>\<^verbatim>\<open>optNilString\<close>, \<^verbatim>\<open>optNilUUID\<close> and \<^verbatim>\<open>optNilColor\<close>.\<close>

definition optNil :: "'a OptNil \<Rightarrow> 'a option" where
  "optNil v = (if \<not> on_Set v \<or> on_Null v then None else Some (on_Value v))"

definition contextResponse :: "ContextRow \<Rightarrow> ApiContext" where
  "contextResponse row = \<lparr>apc_ID = cx_ID row,
     apc_ParentId = (case cx_ParentID row of Some p \<Rightarrow> NewOptNil p | None \<Rightarrow> OptNil_Reset 0),
     apc_Slug = cx_Slug row, apc_Name = cx_Name row,
     apc_Color = (case cx_Color row of Some c \<Rightarrow> NewOptNil c | None \<Rightarrow> OptNil_Reset []),
     apc_ToneProfile = (case cx_ToneProfile row of Some t \<Rightarrow> NewOpt t | None \<Rightarrow> Opt_Reset []),
     apc_Position = cx_Position row, apc_IsArchived = cx_IsArchived row,
     apc_CreatedAt = cx_CreatedAt row, apc_UpdatedAt = cx_UpdatedAt row\<rparr>"

definition Handler_CreateContext :: "env \<Rightarrow> rctx \<Rightarrow> CreateContextRequest \<Rightarrow> handler" where
  "Handler_CreateContext E c req = with_principal c (\<lambda>principal.
     serve (Create E (pr_UserID principal)
         \<lparr>cp_Slug = ccr_Slug req, cp_Name = ccr_Name req,
          cp_ParentID = (if on_Set (ccr_ParentId req) \<and> \<not> on_Null (ccr_ParentId req)
             then Some (on_Value (ccr_ParentId req)) else None),
          cp_Color = optNil (ccr_Color req), cp_ToneProfile = optString (ccr_ToneProfile req)\<rparr>)
       (\<lambda>err w.
          if errors_Is err ErrSlugTaken
          then Inr (CreateContextConflict ''slug_taken''
            ''a context with that slug already exists; slugs are what routing rules refer to, so they are not reused'')
          else if errors_Is err ErrNoParent
          then Inr (CreateContextUnprocessableEntity ''no_such_parent'' ''the parent context does not exist'')
          else Inl (Plain err))
       (\<lambda>row. reply (ContextRes (contextResponse row))))"

definition Handler_ListContexts :: "env \<Rightarrow> rctx \<Rightarrow> bool Opt \<Rightarrow> handler" where
  "Handler_ListContexts E c includeArchived = with_principal c (\<lambda>principal.
     serve (ListTree E (pr_UserID principal) (Opt_Or includeArchived False)) pass_on
       (\<lambda>rows. reply (ContextList (map contextResponse rows))))"

definition Handler_GetContext :: "env \<Rightarrow> rctx \<Rightarrow> uuid \<Rightarrow> handler" where
  "Handler_GetContext E c contextID = with_principal c (\<lambda>principal.
     serve (Get E (pr_UserID principal) contextID)
       (\<lambda>err w. if errors_Is err ErrContextNotFound then Inr (ErrorEnvelope ''not_found'' ''no such context'')
              else Inl (Plain err))
       (\<lambda>row. reply (ContextRes (contextResponse row))))"

text \<open>The parameters of an update: what was left out, what is null, what has a value.\<close>

definition updateParams :: "UpdateContextRequest \<Rightarrow> UpdateParams" where
  "updateParams req = \<lparr>
     cu_Name = (if opt_Set (ucr_Name req) then Some (opt_Value (ucr_Name req)) else None),
     cu_IsArchived = (if opt_Set (ucr_IsArchived req) then Some (opt_Value (ucr_IsArchived req)) else None),
     cu_SetColor = on_Set (ucr_Color req), cu_Color = optNil (ucr_Color req),
     cu_SetParentID = on_Set (ucr_ParentId req), cu_ParentID = optNil (ucr_ParentId req),
     cu_SetToneProfile = on_Set (ucr_ToneProfile req), cu_ToneProfile = optNil (ucr_ToneProfile req)\<rparr>"

text \<open>\<^verbatim>\<open>errors.As(err, &liveChildren)\<close> and \<^verbatim>\<open>LiveChildrenError.Error()\<close>.\<close>

fun live_count :: "go_error \<Rightarrow> int option" where
  "live_count (LiveChildrenError n) = Some n"
| "live_count e = None"

definition errors_As_LiveChildren :: "go_error \<Rightarrow> int option" where
  "errors_As_LiveChildren err =
     (case find (\<lambda>e. live_count e \<noteq> None) (unwrap_chain err) of None \<Rightarrow> None | Some e \<Rightarrow> live_count e)"

definition liveChildrenMessage :: "int \<Rightarrow> string" where
  "liveChildrenMessage n =
     ''context still has '' @ Sprintf_d (nat n) @ '' live child context(s)'' @ ''; archive or move them first''"

definition updateContextError :: "go_error \<Rightarrow> api_error + api_response" where
  "updateContextError err =
     (if errors_Is err ErrContextNotFound then Inr (UpdateContextNotFound ''not_found'' ''no such context'')
      else if errors_Is err ErrNoParent
      then Inr (UpdateContextUnprocessableEntity ''no_such_parent'' ''the parent context does not exist'')
      else if errors_Is err ErrSelfParent
      then Inr (UpdateContextUnprocessableEntity ''self_parent'' ''a context cannot be nested under itself'')
      else if errors_Is err ErrCycle
      then Inr (UpdateContextUnprocessableEntity ''cycle''
        ''a context cannot be nested under one of its own descendants; move the descendant out first'')
      else if errors_Is err ErrTooDeep
      then Inr (UpdateContextUnprocessableEntity ''too_deep'' ''contexts nest three levels deep at most'')
      else
        (case errors_As_LiveChildren err of
           Some n \<Rightarrow> Inr (UpdateContextUnprocessableEntity ''live_children'' (liveChildrenMessage n))
         | None \<Rightarrow> Inl (Plain err)))"

definition Handler_UpdateContext :: "env \<Rightarrow> rctx \<Rightarrow> UpdateContextRequest \<Rightarrow> uuid \<Rightarrow> handler" where
  "Handler_UpdateContext E c req contextID = with_principal c (\<lambda>principal.
     serve (Update E (pr_UserID principal) contextID (updateParams req))
       (\<lambda>err w. updateContextError err)
       (\<lambda>row. reply (ContextRes (contextResponse row))))"

definition Handler_ArchiveContext :: "env \<Rightarrow> rctx \<Rightarrow> uuid \<Rightarrow> handler" where
  "Handler_ArchiveContext E c contextID = with_principal c (\<lambda>principal.
     serve (Archive E (pr_UserID principal) contextID)
       (\<lambda>err w.
          if errors_Is err ErrContextNotFound then Inr (ArchiveContextNotFound ''not_found'' ''no such context'')
          else
            (case errors_As_LiveChildren err of
               Some n \<Rightarrow> Inr (ArchiveContextConflict ''live_children'' (liveChildrenMessage n))
             | None \<Rightarrow> Inl (Plain err)))
       (\<lambda>_. reply ArchiveContextNoContent))"

section \<open>tasks.go and the operations without an implementation\<close>

definition Handler_CreateTask :: "rctx \<Rightarrow> handler" where
  "Handler_CreateTask c = with_principal c (\<lambda>_. fail ErrNotImplemented)"

definition UnimplementedHandler :: handler where
  "UnimplementedHandler = fail ErrNotImplemented"

end
