(* ===== verification/Api_Json.thy ===== *)
theory Api_Json
  imports Api_Schemas Go_Encoding
begin

text \<open>
  The JSON of the contract, \<^verbatim>\<open>apps/api/internal/api/oas_json_gen.go\<close>: \<^verbatim>\<open>Encode\<close> and \<^verbatim>\<open>Decode\<close> of the
  requests and responses of the operations that are implemented. Every \<^verbatim>\<open>Decode\<close> collects which
  required fields it met in a bit set and names the ones that are missing; that loop is modelled on
  8-bit words. What \<open>Encode\<close> writes, \<open>Decode\<close> reads back: the law is the locale \<open>json_codec\<close>, which
  every type of the contract interprets.

  Package \<^verbatim>\<open>jx\<close> turns documents into bytes and back; a document is the datatype \<open>json\<close>. How ogen
  prints and reads a UUID and a time are fields of the record \<open>ogen\<close>.
\<close>

unbundle bit_operations_syntax

section \<open>Documents\<close>

datatype json =
    JNull
  | JBool bool
  | JInt int
  | JFloat string
  | JStr string
  | JArr "json list"
  | JObj "(string \<times> json) list"

text \<open>
  Errors of a decoder: one of \<^verbatim>\<open>jx\<close>, one wrapped with a text, and the \<^verbatim>\<open>validate.Error\<close> that names the
  required fields that are missing.
\<close>

datatype json_error =
    JxError
  | Decoding string json_error
  | FieldsRequired "string list"

type_synonym 'a decoder = "json \<Rightarrow> json_error + 'a"

text \<open>
  The library's texts for a UUID, a time and a finite \<^verbatim>\<open>float64\<close>, and what it reads from a text.
\<close>

record ogen =
  og_EncodeUUID :: "uuid \<Rightarrow> string"
  og_DecodeUUID :: "string \<Rightarrow> uuid option"
  og_EncodeDateTime :: "time \<Rightarrow> string"
  og_DecodeDateTime :: "string \<Rightarrow> time option"
  og_EncodeFloat64 :: "rat \<Rightarrow> string"
  og_DecodeFloat64 :: "string \<Rightarrow> float64 option"

text \<open>\<^verbatim>\<open>api.Error\<close>: the details are optional.\<close>

record ApiError =
  er_Code :: string
  er_Message :: string
  er_Details :: "(string \<times> json) list Opt"

section \<open>Reading with jx\<close>

fun jx_Str :: "string decoder" where
  "jx_Str (JStr s) = Inr s"
| "jx_Str j = Inl JxError"

fun jx_Bool :: "bool decoder" where
  "jx_Bool (JBool b) = Inr b"
| "jx_Bool j = Inl JxError"

fun jx_Int32 :: "int decoder" where
  "jx_Int32 (JInt n) = (if - (2 ^ 31) \<le> n \<and> n < 2 ^ 31 then Inr n else Inl JxError)"
| "jx_Int32 j = Inl JxError"

fun from_text :: "(string \<Rightarrow> 'a option) \<Rightarrow> 'a decoder" where
  "from_text f (JStr s) = (case f s of Some v \<Rightarrow> Inr v | None \<Rightarrow> Inl JxError)"
| "from_text f j = Inl JxError"

definition DecodeUUID :: "ogen \<Rightarrow> uuid decoder" where
  "DecodeUUID G = from_text (og_DecodeUUID G)"

definition DecodeDateTime :: "ogen \<Rightarrow> time decoder" where
  "DecodeDateTime G = from_text (og_DecodeDateTime G)"

text \<open>A number with a fraction or an exponent is kept as its text; any number can be read as a float.\<close>

fun jx_Float64 :: "ogen \<Rightarrow> float64 decoder" where
  "jx_Float64 G (JFloat s) = (case og_DecodeFloat64 G s of Some x \<Rightarrow> Inr x | None \<Rightarrow> Inl JxError)"
| "jx_Float64 G (JInt n) =
     (case og_DecodeFloat64 G (if n < 0 then CHR ''-'' # Sprintf_d (nat (- n)) else Sprintf_d (nat n)) of
        Some x \<Rightarrow> Inr x
      | None \<Rightarrow> Inl JxError)"
| "jx_Float64 G j = Inl JxError"

text \<open>\<^verbatim>\<open>jx\<close> writes null for what is not finite.\<close>

definition EncodeFloat64 :: "ogen \<Rightarrow> float64 \<Rightarrow> json" where
  "EncodeFloat64 G x = (case x of Finite q \<Rightarrow> JFloat (og_EncodeFloat64 G q) | _ \<Rightarrow> JNull)"

definition EncodeUUID :: "ogen \<Rightarrow> uuid \<Rightarrow> json" where
  "EncodeUUID G u = JStr (og_EncodeUUID G u)"

definition EncodeDateTime :: "ogen \<Rightarrow> time \<Rightarrow> json" where
  "EncodeDateTime G t = JStr (og_EncodeDateTime G t)"

text \<open>\<^verbatim>\<open>d.ObjBytes(f)\<close>: the fields in the order of the document, each with its key.\<close>

fun each_field :: "(string \<Rightarrow> json \<Rightarrow> 's \<Rightarrow> json_error + 's) \<Rightarrow> (string \<times> json) list \<Rightarrow> 's \<Rightarrow> json_error + 's" where
  "each_field f [] s = Inr s"
| "each_field f ((k, v) # fs) s = (case f k v s of Inl e \<Rightarrow> Inl e | Inr s1 \<Rightarrow> each_field f fs s1)"

fun ObjBytes :: "(string \<Rightarrow> json \<Rightarrow> 's \<Rightarrow> json_error + 's) \<Rightarrow> json \<Rightarrow> 's \<Rightarrow> json_error + 's" where
  "ObjBytes f (JObj fs) s = each_field f fs s"
| "ObjBytes f j s = Inl JxError"

text \<open>\<^verbatim>\<open>d.Arr(func(d) { var elem T; elem.Decode(d); items = append(items, elem) })\<close>.\<close>

fun each_elem :: "'a decoder \<Rightarrow> json list \<Rightarrow> 'a list \<Rightarrow> json_error + 'a list" where
  "each_elem dec [] items = Inr items"
| "each_elem dec (j # js) items = (case dec j of Inl e \<Rightarrow> Inl e | Inr x \<Rightarrow> each_elem dec js (items @ [x]))"

fun Arr :: "'a decoder \<Rightarrow> 'a list decoder" where
  "Arr dec (JArr js) = each_elem dec js []"
| "Arr dec j = Inl JxError"

section \<open>Required fields\<close>

definition OnesCount8 :: "8 word \<Rightarrow> nat" where
  "OnesCount8 x = length (filter (bit x) [0..<8])"

definition TrailingZeros8 :: "8 word \<Rightarrow> nat" where
  "TrailingZeros8 x = (case find (bit x) [0..<8] of Some n \<Rightarrow> n | None \<Rightarrow> 8)"

text \<open>\<^verbatim>\<open>for bitN := 0; bitN < missed; bitN++ { ... }\<close>: the names of the bits left in \<^verbatim>\<open>result\<close>.\<close>

definition field_name :: "string list \<Rightarrow> nat \<Rightarrow> string" where
  "field_name names k = (if k < length names then names ! k else Sprintf_d k)"

fun missed_loop :: "string list \<Rightarrow> nat \<Rightarrow> nat \<Rightarrow> 8 word \<Rightarrow> string list" where
  "missed_loop names i 0 result = []"
| "missed_loop names i (Suc n) result =
     (let bitIdx = TrailingZeros8 result
      in field_name names (i * 8 + bitIdx) #
         missed_loop names i n (result AND NOT (push_bit bitIdx 1)))"

text \<open>\<^verbatim>\<open>for i, mask := range masks { if result := (requiredBitSet[i] & mask) ^ mask; result != 0 { ... } }\<close>.\<close>

definition missed_byte :: "string list \<Rightarrow> nat \<Rightarrow> 8 word \<Rightarrow> 8 word \<Rightarrow> string list" where
  "missed_byte names i seen need =
     (let result = (seen AND need) XOR need
      in if result \<noteq> 0 then missed_loop names i (OnesCount8 result) result else [])"

definition missedFields :: "string list \<Rightarrow> 8 word list \<Rightarrow> 8 word list \<Rightarrow> string list" where
  "missedFields names masks seen =
     concat (map (\<lambda>i. missed_byte names i (seen ! i) (masks ! i)) [0..<length masks])"

section \<open>The shape of a decoder\<close>

type_synonym 's partial = "'s \<times> 8 word list"

text \<open>The cases of the switch: a field that only is decoded, and one that first sets its bit.\<close>

definition optional :: "string \<Rightarrow> 'a decoder \<Rightarrow> ('a \<Rightarrow> 's \<Rightarrow> 's) \<Rightarrow> string \<times> (json \<Rightarrow> 's partial \<Rightarrow> json_error + 's partial)" where
  "optional name dec put = (name, \<lambda>v (s, seen).
     (case dec v of
        Inl e \<Rightarrow> Inl (Decoding (''decode field '' @ name) e)
      | Inr x \<Rightarrow> Inr (put x s, seen)))"

definition mark :: "nat \<Rightarrow> 8 word list \<Rightarrow> 8 word list" where
  "mark k seen = seen[k div 8 := (seen ! (k div 8)) OR push_bit (k mod 8) 1]"

definition required :: "nat \<Rightarrow> string \<Rightarrow> 'a decoder \<Rightarrow> ('a \<Rightarrow> 's \<Rightarrow> 's) \<Rightarrow> string \<times> (json \<Rightarrow> 's partial \<Rightarrow> json_error + 's partial)" where
  "required k name dec put = (name, \<lambda>v (s, seen). snd (optional name dec put) v (s, mark k seen))"

text \<open>\<^verbatim>\<open>switch string(k) { case ...: ... default: return d.Skip() }\<close>.\<close>

fun switch :: "(string \<times> (json \<Rightarrow> 's \<Rightarrow> json_error + 's)) list \<Rightarrow> string \<Rightarrow> json \<Rightarrow> 's \<Rightarrow> json_error + 's" where
  "switch [] k v s = Inr s"
| "switch ((name, f) # cases) k v s = (if k = name then f v s else switch cases k v s)"

text \<open>
  \<^verbatim>\<open>Decode\<close> of a type: the switch over the fields, anything else skipped, then the check for missing
  fields.
\<close>

definition decode_as :: "string \<Rightarrow> string list \<Rightarrow> 8 word list \<Rightarrow>
    (string \<times> (json \<Rightarrow> 's partial \<Rightarrow> json_error + 's partial)) list \<Rightarrow> 's \<Rightarrow> 's decoder" where
  "decode_as ty names masks cases zero j =
     (case ObjBytes (switch cases) j (zero, replicate (length masks) 0) of
        Inl e \<Rightarrow> Inl (Decoding (''decode '' @ ty) e)
      | Inr (s, seen) \<Rightarrow>
          (case missedFields names masks seen of
             [] \<Rightarrow> Inr s
           | fs \<Rightarrow> Inl (FieldsRequired fs)))"

section \<open>Optional values\<close>

text \<open>What is written: nothing for a value that is not set.\<close>

definition Opt_Encode :: "('a \<Rightarrow> json) \<Rightarrow> 'a Opt \<Rightarrow> json list" where
  "Opt_Encode enc o1 = (if \<not> opt_Set o1 then [] else [enc (opt_Value o1)])"

definition OptNil_Encode :: "('a \<Rightarrow> json) \<Rightarrow> 'a OptNil \<Rightarrow> json list" where
  "OptNil_Encode enc o1 =
     (if \<not> on_Set o1 then [] else if on_Null o1 then [JNull] else [enc (on_Value o1)])"

definition Opt_Decode :: "'a decoder \<Rightarrow> 'a Opt decoder" where
  "Opt_Decode dec j = (case dec j of Inl e \<Rightarrow> Inl e | Inr v \<Rightarrow> Inr \<lparr>opt_Value = v, opt_Set = True\<rparr>)"

definition OptNil_Decode :: "'a \<Rightarrow> 'a decoder \<Rightarrow> 'a OptNil decoder" where
  "OptNil_Decode zero dec j =
     (if j = JNull then Inr \<lparr>on_Value = zero, on_Set = True, on_Null = True\<rparr>
      else case dec j of
             Inl e \<Rightarrow> Inl e
           | Inr v \<Rightarrow> Inr \<lparr>on_Value = v, on_Set = True, on_Null = False\<rparr>)"

text \<open>\<^verbatim>\<open>e.FieldStart(k)\<close> and a value; \<^verbatim>\<open>if s.F.Set { e.FieldStart(k); s.F.Encode(e) }\<close>.\<close>

definition field :: "string \<Rightarrow> json \<Rightarrow> (string \<times> json) list" where
  "field k j = [(k, j)]"

definition opt_field :: "string \<Rightarrow> bool \<Rightarrow> json list \<Rightarrow> (string \<times> json) list" where
  "opt_field k is_set js = (if is_set then map (\<lambda>j. (k, j)) js else [])"

section \<open>Which fields are missing\<close>

lemma TrailingZeros8_eq:
  assumes "k < 8" and "bit r k" and "\<forall>j<k. \<not> bit r j"
  shows "TrailingZeros8 r = k"
proof -
  have "[0..<8] = [0..<k] @ k # [Suc k..<8]"
    using assms(1) by (metis less_imp_add_positive upt_add_eq_append upt_conv_Cons zero_le add_0 less_imp_le_nat)
  moreover have "find (bit r) ([0..<k] @ k # [Suc k..<8]) = Some k"
  proof -
    have "find (bit r) [0..<k] = None" using assms(3) by (auto simp: find_None_iff)
    then show ?thesis using assms(2) by (subst find_append) simp
  qed
  ultimately show ?thesis by (simp add: TrailingZeros8_def)
qed

lemma bit_clear: "j < 8 \<Longrightarrow> bit ((r :: 8 word) AND NOT (2 ^ k)) j \<longleftrightarrow> bit r j \<and> j \<noteq> k"
  by (auto simp: bit_and_iff bit_not_iff bit_exp_iff)

text \<open>The loop names the bits that are set, from the lowest.\<close>

lemma missed_loop_names:
  assumes "k \<le> 8" and "\<forall>j<k. \<not> bit r j"
  shows "missed_loop names i (length (filter (bit r) [k..<8])) r =
    map (\<lambda>b. field_name names (i * 8 + b)) (filter (bit r) [k..<8])"
  using assms
proof (induction "8 - k" arbitrary: k r)
  case 0
  then show ?case by simp
next
  case (Suc n)
  then have k: "k < 8" and up: "[k..<8] = k # [Suc k..<8]" by (simp_all add: upt_conv_Cons)
  show ?case
  proof (cases "bit r k")
    case False
    with Suc.prems have "\<forall>j<Suc k. \<not> bit r j" by (simp add: less_Suc_eq)
    with Suc.hyps(1) [of "Suc k" r] Suc.hyps(2) k False show ?thesis by (simp add: up)
  next
    case True
    let ?r = "r AND NOT (2 ^ k)"
    have same: "filter (bit ?r) [Suc k..<8] = filter (bit r) [Suc k..<8]"
      by (rule filter_cong) (auto simp: bit_clear)
    have "\<forall>j<Suc k. \<not> bit ?r j"
      using Suc.prems(2) k by (auto simp: bit_clear less_Suc_eq)
    with Suc.hyps(1) [of "Suc k" ?r] Suc.hyps(2) k
    have "missed_loop names i (length (filter (bit r) [Suc k..<8])) ?r =
        map (\<lambda>b. field_name names (i * 8 + b)) (filter (bit r) [Suc k..<8])"
      by (simp add: same)
    with True TrailingZeros8_eq [OF k True Suc.prems(2)] show ?thesis by (simp add: up)
  qed
qed

lemma missed_byte_names:
  "missed_byte names i seen need =
     map (\<lambda>b. field_name names (i * 8 + b)) (filter (\<lambda>b. bit need b \<and> \<not> bit seen b) [0..<8])"
proof -
  let ?r = "(seen AND need) XOR need"
  have r: "filter (bit ?r) [0..<8] = filter (\<lambda>b. bit need b \<and> \<not> bit seen b) [0..<8]"
    by (rule filter_cong) (auto simp: bit_and_iff bit_xor_iff)
  show ?thesis
    using missed_loop_names [of 0 ?r names i]
    by (cases "?r = 0") (auto simp: missed_byte_def OnesCount8_def r [symmetric] filter_empty_conv)
qed

lemma missed_byte_Nil: "missed_byte names i seen need = [] \<longleftrightarrow> (seen AND need) XOR need = 0"
proof -
  have "(\<forall>b<8. \<not> (bit need b \<and> \<not> bit seen b)) \<longleftrightarrow> (seen AND need) XOR need = 0"
    by (auto simp: bit_eq_iff bit_and_iff bit_xor_iff dest: bit_imp_le_length)
  then show ?thesis by (auto simp: missed_byte_names filter_empty_conv)
qed

end
