(* ===== verification/Api_Codecs.thy ===== *)
theory Api_Codecs
  imports Api_Json "HOL-Library.AList"
begin

text \<open>
  \<^verbatim>\<open>Encode\<close> and \<^verbatim>\<open>Decode\<close> of the types of the contract, one pair per type of \<^verbatim>\<open>oas_json_gen.go\<close>, and the
  round trip between them: the law of the locale \<open>json_codec\<close>, interpreted for every type.
\<close>

section \<open>Values and how they are written\<close>

text \<open>
  The values that exist in Go: an optional value that is not set is the zero value, and so is one
  that is null.
\<close>

definition anything :: "'a \<Rightarrow> bool" where
  "anything x = True"

definition Opt_ok :: "'a \<Rightarrow> ('a \<Rightarrow> bool) \<Rightarrow> 'a Opt \<Rightarrow> bool" where
  "Opt_ok zero p o1 = (if opt_Set o1 then p (opt_Value o1) else opt_Value o1 = zero)"

definition OptNil_ok :: "'a \<Rightarrow> ('a \<Rightarrow> bool) \<Rightarrow> 'a OptNil \<Rightarrow> bool" where
  "OptNil_ok zero p o1 =
     (if \<not> on_Set o1 then o1 = OptNil_Reset zero
      else if on_Null o1 then on_Value o1 = zero
      else p (on_Value o1))"

definition Null :: "'a \<Rightarrow> 'a OptNil" where
  "Null zero = \<lparr>on_Value = zero, on_Set = True, on_Null = True\<rparr>"

lemma Opt_ok_cases:
  assumes "Opt_ok zero p o1"
  obtains "o1 = Opt_Reset zero" | v where "o1 = NewOpt v" "p v"
  using assms by (cases o1) (auto simp: Opt_ok_def Opt_Reset_def NewOpt_def split: if_splits)

lemma OptNil_ok_cases:
  assumes "OptNil_ok zero p o1"
  obtains "o1 = OptNil_Reset zero" | "o1 = Null zero" | v where "o1 = NewOptNil v" "p v"
  using assms by (cases o1) (auto simp: OptNil_ok_def OptNil_Reset_def NewOptNil_def Null_def split: if_splits)

lemma opt_field_states:
  "opt_field k (opt_Set (Opt_Reset zero)) (Opt_Encode enc (Opt_Reset zero)) = []"
  "opt_field k (opt_Set (NewOpt v)) (Opt_Encode enc (NewOpt v)) = [(k, enc v)]"
  "opt_field k (on_Set (OptNil_Reset zero)) (OptNil_Encode enc (OptNil_Reset zero)) = []"
  "opt_field k (on_Set (Null zero)) (OptNil_Encode enc (Null zero)) = [(k, JNull)]"
  "opt_field k (on_Set (NewOptNil v)) (OptNil_Encode enc (NewOptNil v)) = [(k, enc v)]"
  by (simp_all add: opt_field_def Opt_Reset_def NewOpt_def OptNil_Reset_def NewOptNil_def Null_def
      Opt_Encode_def OptNil_Encode_def)

lemma opt_read:
  "dec j = Inr v \<Longrightarrow> Opt_Decode dec j = Inr (NewOpt v)"
  "dec j = Inr v \<Longrightarrow> j \<noteq> JNull \<Longrightarrow> OptNil_Decode zero dec j = Inr (NewOptNil v)"
  "OptNil_Decode zero dec JNull = Inr (Null zero)"
  by (simp_all add: NewOpt_def NewOptNil_def Null_def Opt_Decode_def OptNil_Decode_def)

text \<open>One case of the switch of a decoder.\<close>

lemma switch_case: "map_of cs k = Some f \<Longrightarrow> switch cs k v s = f v s"
  by (induction cs k v s rule: switch.induct) (auto split: if_splits)

lemma switch_case_required:
  "map_of cs k = Some (snd (required i k dec put)) \<Longrightarrow> dec v = Inr x \<Longrightarrow>
   switch cs k v (s, seen) = Inr (put x s, mark i seen)"
  by (simp add: switch_case required_def optional_def)

lemma switch_case_optional:
  "map_of cs k = Some (snd (optional k dec put)) \<Longrightarrow> dec v = Inr x \<Longrightarrow>
   switch cs k v (s, seen) = Inr (put x s, seen)"
  by (simp add: switch_case optional_def)

lemma missedFields_met: "missedFields names masks masks = []"
  by (auto simp: missedFields_def missed_byte_Nil)

lemma decode_as_met:
  "each_field (switch cases) fs (zero, replicate (length masks) 0) = Inr (s, masks) \<Longrightarrow>
   decode_as ty names masks cases zero (JObj fs) = Inr s"
  by (simp add: decode_as_def missedFields_met)

section \<open>The law of a codec\<close>

text \<open>
  A codec reads back what it wrote, for the values \<open>ok\<close>. Texts of UUIDs and times are the library's;
  for those, \<open>ok\<close> says that the library reads back what it wrote.
\<close>

locale json_codec =
  fixes enc :: "'a \<Rightarrow> json" and dec :: "json \<Rightarrow> json_error + 'a" and ok :: "'a \<Rightarrow> bool"
  assumes decode_encode: "ok x \<Longrightarrow> dec (enc x) = Inr x"
    and not_null: "ok x \<Longrightarrow> enc x \<noteq> JNull"
begin

text \<open>The steps of a decoder over the fields that an encoder wrote.\<close>

lemma step:
  assumes "map_of cs k = Some (snd (required i k dec put))" and "ok x"
    and "each_field (switch cs) fs (put x s, mark i seen) = Inr r"
  shows "each_field (switch cs) (field k (enc x) @ fs) (s, seen) = Inr r"
  using assms by (simp add: field_def switch_case_required decode_encode)

lemma step_items:
  assumes "map_of cs k = Some (snd (required i k (Arr dec) put))" and "list_all ok xs"
    and "each_field (switch cs) fs (put xs s, mark i seen) = Inr r"
  shows "each_field (switch cs) (field k (JArr (map enc xs)) @ fs) (s, seen) = Inr r"
proof -
  have "each_elem dec (map enc xs) acc = Inr (acc @ xs)" for acc
    using assms(2) by (induction xs arbitrary: acc) (auto simp: decode_encode)
  with assms(1,3) show ?thesis by (simp add: field_def switch_case_required)
qed

lemma step_opt:
  assumes "map_of cs k = Some (snd (optional k (Opt_Decode dec) put))" and "Opt_ok zero ok o1"
    and "put (Opt_Reset zero) s = s"
    and "each_field (switch cs) fs (put o1 s, seen) = Inr r"
  shows "each_field (switch cs) (opt_field k (opt_Set o1) (Opt_Encode enc o1) @ fs) (s, seen) = Inr r"
  using assms by (auto elim!: Opt_ok_cases simp: opt_field_states switch_case_optional opt_read decode_encode)

lemma step_opt_set:
  assumes "map_of cs k = Some (snd (optional k (Opt_Decode dec) put))" and "opt_Set o1" and "ok (opt_Value o1)"
    and "each_field (switch cs) fs (put o1 s, seen) = Inr r"
  shows "each_field (switch cs) (opt_field k (opt_Set o1) (Opt_Encode enc o1) @ fs) (s, seen) = Inr r"
proof -
  obtain v where v: "o1 = NewOpt v" using assms(2) by (cases o1) (simp add: NewOpt_def)
  with assms(3) have "ok v" by (simp add: NewOpt_def)
  with assms(1,4) v show ?thesis by (simp add: opt_field_states switch_case_optional opt_read decode_encode)
qed

lemma step_opt_nil:
  assumes "map_of cs k = Some (snd (optional k (OptNil_Decode zero dec) put))" and "OptNil_ok zero ok o1"
    and "put (OptNil_Reset zero) s = s"
    and "each_field (switch cs) fs (put o1 s, seen) = Inr r"
  shows "each_field (switch cs) (opt_field k (on_Set o1) (OptNil_Encode enc o1) @ fs) (s, seen) = Inr r"
  using assms
  by (auto elim!: OptNil_ok_cases simp: opt_field_states switch_case_optional opt_read decode_encode not_null)

end

definition uuid_ok :: "ogen \<Rightarrow> uuid \<Rightarrow> bool" where
  "uuid_ok G u = (og_DecodeUUID G (og_EncodeUUID G u) = Some u)"

definition time_ok :: "ogen \<Rightarrow> time \<Rightarrow> bool" where
  "time_ok G t = (og_DecodeDateTime G (og_EncodeDateTime G t) = Some t)"

definition int32_ok :: "int \<Rightarrow> bool" where
  "int32_ok n = (- (2 ^ 31) \<le> n \<and> n < 2 ^ 31)"

definition float_ok :: "ogen \<Rightarrow> float64 \<Rightarrow> bool" where
  "float_ok G x = (case x of Finite q \<Rightarrow> og_DecodeFloat64 G (og_EncodeFloat64 G q) = Some x | _ \<Rightarrow> False)"

interpretation jstring: json_codec JStr jx_Str anything
  by unfold_locales auto

interpretation jbool: json_codec JBool jx_Bool anything
  by unfold_locales auto

interpretation jint32: json_codec JInt jx_Int32 int32_ok
  by unfold_locales (auto simp: int32_ok_def)

interpretation juuid: json_codec "EncodeUUID G" "DecodeUUID G" "uuid_ok G" for G
  by unfold_locales (auto simp: EncodeUUID_def DecodeUUID_def uuid_ok_def)

interpretation jtime: json_codec "EncodeDateTime G" "DecodeDateTime G" "time_ok G" for G
  by unfold_locales (auto simp: EncodeDateTime_def DecodeDateTime_def time_ok_def)

interpretation jfloat: json_codec "EncodeFloat64 G" "jx_Float64 G" "float_ok G" for G
  by unfold_locales (auto simp: EncodeFloat64_def float_ok_def split: float64.splits)

lemmas json_steps =
  jstring.step jstring.step_opt jstring.step_opt_nil jbool.step jbool.step_opt jint32.step jint32.step_opt_nil
  juuid.step juuid.step_opt juuid.step_opt_nil jfloat.step_opt jtime.step jtime.step_opt_nil

lemma case_name [simp]: "fst (required i k dec put) = k" "fst (optional k dec' put') = k"
  by (simp_all add: required_def optional_def)

lemma map_of_first: "map_of (p # ps) k = (if fst p = k then Some (snd p) else map_of ps k)"
  by (cases p) auto

lemmas json_simps = map_of_first case_name anything_def mark_def

section \<open>Context\<close>

definition Context_Encode :: "ogen \<Rightarrow> ApiContext \<Rightarrow> json" where
  "Context_Encode G s = JObj (concat [
     field ''id'' (EncodeUUID G (apc_ID s)),
     opt_field ''parentId'' (on_Set (apc_ParentId s)) (OptNil_Encode (EncodeUUID G) (apc_ParentId s)),
     field ''slug'' (JStr (apc_Slug s)),
     field ''name'' (JStr (apc_Name s)),
     opt_field ''color'' (on_Set (apc_Color s)) (OptNil_Encode JStr (apc_Color s)),
     opt_field ''toneProfile'' (opt_Set (apc_ToneProfile s)) (Opt_Encode JStr (apc_ToneProfile s)),
     field ''position'' (JInt (apc_Position s)),
     field ''isArchived'' (JBool (apc_IsArchived s)),
     field ''createdAt'' (EncodeDateTime G (apc_CreatedAt s)),
     field ''updatedAt'' (EncodeDateTime G (apc_UpdatedAt s))])"

definition zero_Context :: ApiContext where
  "zero_Context = \<lparr>apc_ID = 0, apc_ParentId = OptNil_Reset 0, apc_Slug = [], apc_Name = [], apc_Color = OptNil_Reset [], apc_ToneProfile = Opt_Reset [], apc_Position = 0, apc_IsArchived = False, apc_CreatedAt = zero_time, apc_UpdatedAt = zero_time\<rparr>"

definition Context_Decode :: "ogen \<Rightarrow> ApiContext decoder" where
  "Context_Decode G = decode_as ''Context''
     [''id'', ''parentId'', ''slug'', ''name'', ''color'', ''toneProfile'', ''position'', ''isArchived'', ''createdAt'', ''updatedAt'']
     [0b11001101, 0b00000011]
     [required 0 ''id'' (DecodeUUID G) (\<lambda>x s. s\<lparr>apc_ID := x\<rparr>),
      optional ''parentId'' (OptNil_Decode 0 (DecodeUUID G)) (\<lambda>x s. s\<lparr>apc_ParentId := x\<rparr>),
      required 2 ''slug'' jx_Str (\<lambda>x s. s\<lparr>apc_Slug := x\<rparr>),
      required 3 ''name'' jx_Str (\<lambda>x s. s\<lparr>apc_Name := x\<rparr>),
      optional ''color'' (OptNil_Decode [] jx_Str) (\<lambda>x s. s\<lparr>apc_Color := x\<rparr>),
      optional ''toneProfile'' (Opt_Decode jx_Str) (\<lambda>x s. s\<lparr>apc_ToneProfile := x\<rparr>),
      required 6 ''position'' jx_Int32 (\<lambda>x s. s\<lparr>apc_Position := x\<rparr>),
      required 7 ''isArchived'' jx_Bool (\<lambda>x s. s\<lparr>apc_IsArchived := x\<rparr>),
      required 8 ''createdAt'' (DecodeDateTime G) (\<lambda>x s. s\<lparr>apc_CreatedAt := x\<rparr>),
      required 9 ''updatedAt'' (DecodeDateTime G) (\<lambda>x s. s\<lparr>apc_UpdatedAt := x\<rparr>)]
     zero_Context"

definition Context_ok :: "ogen \<Rightarrow> ApiContext \<Rightarrow> bool" where
  "Context_ok G s = (uuid_ok G (apc_ID s) \<and>
     OptNil_ok 0 (uuid_ok G) (apc_ParentId s) \<and>
     OptNil_ok [] anything (apc_Color s) \<and>
     Opt_ok [] anything (apc_ToneProfile s) \<and>
     int32_ok (apc_Position s) \<and>
     time_ok G (apc_CreatedAt s) \<and>
     time_ok G (apc_UpdatedAt s))"

interpretation jcontext: json_codec "Context_Encode G" "Context_Decode G" "Context_ok G" for G
proof
  show "Context_Decode G (Context_Encode G x) = Inr x" if "Context_ok G x" for x
    using that unfolding Context_Decode_def Context_Encode_def Context_ok_def concat.simps
    by (elim conjE, intro decode_as_met json_steps)
      (assumption | simp add: json_simps zero_Context_def del: map_of.simps)+
qed (simp add: Context_Encode_def)

section \<open>ContextList\<close>

definition ContextList_Encode :: "ogen \<Rightarrow> ApiContext list \<Rightarrow> json" where
  "ContextList_Encode G s = JObj (concat [
     field ''items'' (JArr (map (Context_Encode G) s))])"

definition ContextList_Decode :: "ogen \<Rightarrow> ApiContext list decoder" where
  "ContextList_Decode G = decode_as ''ContextList''
     [''items'']
     [0b00000001]
     [required 0 ''items'' (Arr (Context_Decode G)) (\<lambda>x s. x)]
     []"

definition ContextList_ok :: "ogen \<Rightarrow> ApiContext list \<Rightarrow> bool" where
  "ContextList_ok G s = (list_all (Context_ok G) s)"

interpretation jcontexts: json_codec "ContextList_Encode G" "ContextList_Decode G" "ContextList_ok G" for G
proof
  show "ContextList_Decode G (ContextList_Encode G x) = Inr x" if "ContextList_ok G x" for x
    using that unfolding ContextList_Decode_def ContextList_Encode_def ContextList_ok_def concat.simps
    by (intro decode_as_met json_steps jcontext.step_items)
      (assumption | simp add: json_simps del: map_of.simps)+
qed (simp add: ContextList_Encode_def)

section \<open>CreateContextRequest\<close>

definition CreateContextRequest_Encode :: "ogen \<Rightarrow> CreateContextRequest \<Rightarrow> json" where
  "CreateContextRequest_Encode G s = JObj (concat [
     field ''slug'' (JStr (ccr_Slug s)),
     field ''name'' (JStr (ccr_Name s)),
     opt_field ''parentId'' (on_Set (ccr_ParentId s)) (OptNil_Encode (EncodeUUID G) (ccr_ParentId s)),
     opt_field ''color'' (on_Set (ccr_Color s)) (OptNil_Encode JStr (ccr_Color s)),
     opt_field ''toneProfile'' (opt_Set (ccr_ToneProfile s)) (Opt_Encode JStr (ccr_ToneProfile s))])"

definition zero_CreateContextRequest :: CreateContextRequest where
  "zero_CreateContextRequest = \<lparr>ccr_Slug = [], ccr_Name = [], ccr_ParentId = OptNil_Reset 0, ccr_Color = OptNil_Reset [], ccr_ToneProfile = Opt_Reset []\<rparr>"

definition CreateContextRequest_Decode :: "ogen \<Rightarrow> CreateContextRequest decoder" where
  "CreateContextRequest_Decode G = decode_as ''CreateContextRequest''
     [''slug'', ''name'', ''parentId'', ''color'', ''toneProfile'']
     [0b00000011]
     [required 0 ''slug'' jx_Str (\<lambda>x s. s\<lparr>ccr_Slug := x\<rparr>),
      required 1 ''name'' jx_Str (\<lambda>x s. s\<lparr>ccr_Name := x\<rparr>),
      optional ''parentId'' (OptNil_Decode 0 (DecodeUUID G)) (\<lambda>x s. s\<lparr>ccr_ParentId := x\<rparr>),
      optional ''color'' (OptNil_Decode [] jx_Str) (\<lambda>x s. s\<lparr>ccr_Color := x\<rparr>),
      optional ''toneProfile'' (Opt_Decode jx_Str) (\<lambda>x s. s\<lparr>ccr_ToneProfile := x\<rparr>)]
     zero_CreateContextRequest"

definition CreateContextRequest_ok :: "ogen \<Rightarrow> CreateContextRequest \<Rightarrow> bool" where
  "CreateContextRequest_ok G s = (OptNil_ok 0 (uuid_ok G) (ccr_ParentId s) \<and>
     OptNil_ok [] anything (ccr_Color s) \<and>
     Opt_ok [] anything (ccr_ToneProfile s))"

interpretation jcreate: json_codec "CreateContextRequest_Encode G" "CreateContextRequest_Decode G" "CreateContextRequest_ok G" for G
proof
  show "CreateContextRequest_Decode G (CreateContextRequest_Encode G x) = Inr x" if "CreateContextRequest_ok G x" for x
    using that unfolding CreateContextRequest_Decode_def CreateContextRequest_Encode_def CreateContextRequest_ok_def concat.simps
    by (elim conjE, intro decode_as_met json_steps)
      (assumption | simp add: json_simps zero_CreateContextRequest_def del: map_of.simps)+
qed (simp add: CreateContextRequest_Encode_def)

section \<open>Session\<close>

definition Session_Encode :: "ogen \<Rightarrow> ApiSession \<Rightarrow> json" where
  "Session_Encode G s = JObj (concat [
     field ''id'' (EncodeUUID G (asn_ID s)),
     opt_field ''providerKind'' (opt_Set (asn_ProviderKind s)) (Opt_Encode JStr (asn_ProviderKind s)),
     field ''issuedAt'' (EncodeDateTime G (asn_IssuedAt s)),
     field ''lastSeenAt'' (EncodeDateTime G (asn_LastSeenAt s)),
     field ''expiresAt'' (EncodeDateTime G (asn_ExpiresAt s)),
     opt_field ''userAgent'' (opt_Set (asn_UserAgent s)) (Opt_Encode JStr (asn_UserAgent s)),
     opt_field ''ip'' (on_Set (asn_IP s)) (OptNil_Encode JStr (asn_IP s)),
     field ''isCurrent'' (JBool (asn_IsCurrent s))])"

definition Session_Decode :: "ogen \<Rightarrow> ApiSession decoder" where
  "Session_Decode G = decode_as ''Session''
     [''id'', ''providerKind'', ''issuedAt'', ''lastSeenAt'', ''expiresAt'', ''userAgent'', ''ip'', ''isCurrent'']
     [0b10011101]
     [required 0 ''id'' (DecodeUUID G) (\<lambda>x s. s\<lparr>asn_ID := x\<rparr>),
      optional ''providerKind'' (Opt_Decode jx_Str) (\<lambda>x s. s\<lparr>asn_ProviderKind := x\<rparr>),
      required 2 ''issuedAt'' (DecodeDateTime G) (\<lambda>x s. s\<lparr>asn_IssuedAt := x\<rparr>),
      required 3 ''lastSeenAt'' (DecodeDateTime G) (\<lambda>x s. s\<lparr>asn_LastSeenAt := x\<rparr>),
      required 4 ''expiresAt'' (DecodeDateTime G) (\<lambda>x s. s\<lparr>asn_ExpiresAt := x\<rparr>),
      optional ''userAgent'' (Opt_Decode jx_Str) (\<lambda>x s. s\<lparr>asn_UserAgent := x\<rparr>),
      optional ''ip'' (OptNil_Decode [] jx_Str) (\<lambda>x s. s\<lparr>asn_IP := x\<rparr>),
      required 7 ''isCurrent'' jx_Bool (\<lambda>x s. s\<lparr>asn_IsCurrent := x\<rparr>)]
     zero_session"

definition Session_ok :: "ogen \<Rightarrow> ApiSession \<Rightarrow> bool" where
  "Session_ok G s = (uuid_ok G (asn_ID s) \<and>
     Opt_ok [] anything (asn_ProviderKind s) \<and>
     time_ok G (asn_IssuedAt s) \<and>
     time_ok G (asn_LastSeenAt s) \<and>
     time_ok G (asn_ExpiresAt s) \<and>
     Opt_ok [] anything (asn_UserAgent s) \<and>
     OptNil_ok [] anything (asn_IP s))"

interpretation jsession: json_codec "Session_Encode G" "Session_Decode G" "Session_ok G" for G
proof
  show "Session_Decode G (Session_Encode G x) = Inr x" if "Session_ok G x" for x
    using that unfolding Session_Decode_def Session_Encode_def Session_ok_def concat.simps
    by (elim conjE, intro decode_as_met json_steps)
      (assumption | simp add: json_simps zero_session_def del: map_of.simps)+
qed (simp add: Session_Encode_def)

section \<open>SessionList\<close>

definition SessionList_Encode :: "ogen \<Rightarrow> ApiSession list \<Rightarrow> json" where
  "SessionList_Encode G s = JObj (concat [
     field ''items'' (JArr (map (Session_Encode G) s))])"

definition SessionList_Decode :: "ogen \<Rightarrow> ApiSession list decoder" where
  "SessionList_Decode G = decode_as ''SessionList''
     [''items'']
     [0b00000001]
     [required 0 ''items'' (Arr (Session_Decode G)) (\<lambda>x s. x)]
     []"

definition SessionList_ok :: "ogen \<Rightarrow> ApiSession list \<Rightarrow> bool" where
  "SessionList_ok G s = (list_all (Session_ok G) s)"

interpretation jsessions: json_codec "SessionList_Encode G" "SessionList_Decode G" "SessionList_ok G" for G
proof
  show "SessionList_Decode G (SessionList_Encode G x) = Inr x" if "SessionList_ok G x" for x
    using that unfolding SessionList_Decode_def SessionList_Encode_def SessionList_ok_def concat.simps
    by (intro decode_as_met json_steps jsession.step_items)
      (assumption | simp add: json_simps del: map_of.simps)+
qed (simp add: SessionList_Encode_def)

section \<open>SignedInUser\<close>

definition SignedInUser_Encode :: "ogen \<Rightarrow> SignedInUser \<Rightarrow> json" where
  "SignedInUser_Encode G s = JObj (concat [
     field ''id'' (EncodeUUID G (siu_ID s)),
     field ''email'' (JStr (siu_Email s)),
     field ''displayName'' (JStr (siu_DisplayName s)),
     field ''timezone'' (JStr (siu_Timezone s))])"

definition zero_SignedInUser :: SignedInUser where
  "zero_SignedInUser = \<lparr>siu_ID = 0, siu_Email = [], siu_DisplayName = [], siu_Timezone = []\<rparr>"

definition SignedInUser_Decode :: "ogen \<Rightarrow> SignedInUser decoder" where
  "SignedInUser_Decode G = decode_as ''SignedInUser''
     [''id'', ''email'', ''displayName'', ''timezone'']
     [0b00001111]
     [required 0 ''id'' (DecodeUUID G) (\<lambda>x s. s\<lparr>siu_ID := x\<rparr>),
      required 1 ''email'' jx_Str (\<lambda>x s. s\<lparr>siu_Email := x\<rparr>),
      required 2 ''displayName'' jx_Str (\<lambda>x s. s\<lparr>siu_DisplayName := x\<rparr>),
      required 3 ''timezone'' jx_Str (\<lambda>x s. s\<lparr>siu_Timezone := x\<rparr>)]
     zero_SignedInUser"

definition SignedInUser_ok :: "ogen \<Rightarrow> SignedInUser \<Rightarrow> bool" where
  "SignedInUser_ok G s = (uuid_ok G (siu_ID s))"

interpretation juser: json_codec "SignedInUser_Encode G" "SignedInUser_Decode G" "SignedInUser_ok G" for G
proof
  show "SignedInUser_Decode G (SignedInUser_Encode G x) = Inr x" if "SignedInUser_ok G x" for x
    using that unfolding SignedInUser_Decode_def SignedInUser_Encode_def SignedInUser_ok_def concat.simps
    by (intro decode_as_met json_steps)
      (assumption | simp add: json_simps zero_SignedInUser_def del: map_of.simps)+
qed (simp add: SignedInUser_Encode_def)

section \<open>CurrentSession\<close>

definition CurrentSession_Encode :: "ogen \<Rightarrow> CurrentSession \<Rightarrow> json" where
  "CurrentSession_Encode G s = JObj (concat [
     field ''user'' (SignedInUser_Encode G (cus_User s)),
     field ''session'' (Session_Encode G (cus_Session s))])"

definition zero_CurrentSession :: CurrentSession where
  "zero_CurrentSession = \<lparr>cus_User = zero_SignedInUser, cus_Session = zero_session\<rparr>"

definition CurrentSession_Decode :: "ogen \<Rightarrow> CurrentSession decoder" where
  "CurrentSession_Decode G = decode_as ''CurrentSession''
     [''user'', ''session'']
     [0b00000011]
     [required 0 ''user'' (SignedInUser_Decode G) (\<lambda>x s. s\<lparr>cus_User := x\<rparr>),
      required 1 ''session'' (Session_Decode G) (\<lambda>x s. s\<lparr>cus_Session := x\<rparr>)]
     zero_CurrentSession"

definition CurrentSession_ok :: "ogen \<Rightarrow> CurrentSession \<Rightarrow> bool" where
  "CurrentSession_ok G s = (SignedInUser_ok G (cus_User s) \<and>
     Session_ok G (cus_Session s))"

interpretation jcurrent: json_codec "CurrentSession_Encode G" "CurrentSession_Decode G" "CurrentSession_ok G" for G
proof
  show "CurrentSession_Decode G (CurrentSession_Encode G x) = Inr x" if "CurrentSession_ok G x" for x
    using that unfolding CurrentSession_Decode_def CurrentSession_Encode_def CurrentSession_ok_def concat.simps
    by (elim conjE, intro decode_as_met json_steps juser.step jsession.step)
      (assumption | simp add: json_simps zero_CurrentSession_def del: map_of.simps)+
qed (simp add: CurrentSession_Encode_def)

section \<open>LinkedProvider\<close>

definition LinkedProvider_Encode :: "ogen \<Rightarrow> LinkedProvider \<Rightarrow> json" where
  "LinkedProvider_Encode G s = JObj (concat [
     field ''id'' (EncodeUUID G (lp_ID s)),
     field ''kind'' (JStr (lp_Kind s)),
     opt_field ''email'' (opt_Set (lp_Email s)) (Opt_Encode JStr (lp_Email s)),
     field ''isPrimary'' (JBool (lp_IsPrimary s)),
     field ''linkedAt'' (EncodeDateTime G (lp_LinkedAt s)),
     opt_field ''lastLoginAt'' (on_Set (lp_LastLoginAt s)) (OptNil_Encode (EncodeDateTime G) (lp_LastLoginAt s))])"

definition zero_LinkedProvider :: LinkedProvider where
  "zero_LinkedProvider = \<lparr>lp_ID = 0, lp_Kind = [], lp_Email = Opt_Reset [], lp_IsPrimary = False, lp_LinkedAt = zero_time, lp_LastLoginAt = OptNil_Reset zero_time\<rparr>"

definition LinkedProvider_Decode :: "ogen \<Rightarrow> LinkedProvider decoder" where
  "LinkedProvider_Decode G = decode_as ''LinkedProvider''
     [''id'', ''kind'', ''email'', ''isPrimary'', ''linkedAt'', ''lastLoginAt'']
     [0b00011011]
     [required 0 ''id'' (DecodeUUID G) (\<lambda>x s. s\<lparr>lp_ID := x\<rparr>),
      required 1 ''kind'' jx_Str (\<lambda>x s. s\<lparr>lp_Kind := x\<rparr>),
      optional ''email'' (Opt_Decode jx_Str) (\<lambda>x s. s\<lparr>lp_Email := x\<rparr>),
      required 3 ''isPrimary'' jx_Bool (\<lambda>x s. s\<lparr>lp_IsPrimary := x\<rparr>),
      required 4 ''linkedAt'' (DecodeDateTime G) (\<lambda>x s. s\<lparr>lp_LinkedAt := x\<rparr>),
      optional ''lastLoginAt'' (OptNil_Decode zero_time (DecodeDateTime G)) (\<lambda>x s. s\<lparr>lp_LastLoginAt := x\<rparr>)]
     zero_LinkedProvider"

definition LinkedProvider_ok :: "ogen \<Rightarrow> LinkedProvider \<Rightarrow> bool" where
  "LinkedProvider_ok G s = (uuid_ok G (lp_ID s) \<and>
     Opt_ok [] anything (lp_Email s) \<and>
     time_ok G (lp_LinkedAt s) \<and>
     OptNil_ok zero_time (time_ok G) (lp_LastLoginAt s))"

interpretation jprovider: json_codec "LinkedProvider_Encode G" "LinkedProvider_Decode G" "LinkedProvider_ok G" for G
proof
  show "LinkedProvider_Decode G (LinkedProvider_Encode G x) = Inr x" if "LinkedProvider_ok G x" for x
    using that unfolding LinkedProvider_Decode_def LinkedProvider_Encode_def LinkedProvider_ok_def concat.simps
    by (elim conjE, intro decode_as_met json_steps)
      (assumption | simp add: json_simps zero_LinkedProvider_def del: map_of.simps)+
qed (simp add: LinkedProvider_Encode_def)

section \<open>LinkedProviderList\<close>

definition LinkedProviderList_Encode :: "ogen \<Rightarrow> LinkedProvider list \<Rightarrow> json" where
  "LinkedProviderList_Encode G s = JObj (concat [
     field ''items'' (JArr (map (LinkedProvider_Encode G) s))])"

definition LinkedProviderList_Decode :: "ogen \<Rightarrow> LinkedProvider list decoder" where
  "LinkedProviderList_Decode G = decode_as ''LinkedProviderList''
     [''items'']
     [0b00000001]
     [required 0 ''items'' (Arr (LinkedProvider_Decode G)) (\<lambda>x s. x)]
     []"

definition LinkedProviderList_ok :: "ogen \<Rightarrow> LinkedProvider list \<Rightarrow> bool" where
  "LinkedProviderList_ok G s = (list_all (LinkedProvider_ok G) s)"

interpretation jproviders: json_codec "LinkedProviderList_Encode G" "LinkedProviderList_Decode G" "LinkedProviderList_ok G" for G
proof
  show "LinkedProviderList_Decode G (LinkedProviderList_Encode G x) = Inr x" if "LinkedProviderList_ok G x" for x
    using that unfolding LinkedProviderList_Decode_def LinkedProviderList_Encode_def LinkedProviderList_ok_def concat.simps
    by (intro decode_as_met json_steps jprovider.step_items)
      (assumption | simp add: json_simps del: map_of.simps)+
qed (simp add: LinkedProviderList_Encode_def)

section \<open>LoginRequest\<close>

definition LoginRequest_Encode :: "LoginRequest \<Rightarrow> json" where
  "LoginRequest_Encode s = JObj (concat [
     field ''email'' (JStr (lr_Email s)),
     field ''password'' (JStr (lr_Password s))])"

definition zero_LoginRequest :: LoginRequest where
  "zero_LoginRequest = \<lparr>lr_Email = [], lr_Password = []\<rparr>"

definition LoginRequest_Decode :: "LoginRequest decoder" where
  "LoginRequest_Decode = decode_as ''LoginRequest''
     [''email'', ''password'']
     [0b00000011]
     [required 0 ''email'' jx_Str (\<lambda>x s. s\<lparr>lr_Email := x\<rparr>),
      required 1 ''password'' jx_Str (\<lambda>x s. s\<lparr>lr_Password := x\<rparr>)]
     zero_LoginRequest"

definition LoginRequest_ok :: "LoginRequest \<Rightarrow> bool" where
  "LoginRequest_ok s = (True)"

interpretation jlogin: json_codec "LoginRequest_Encode" "LoginRequest_Decode" "LoginRequest_ok"
proof
  show "LoginRequest_Decode (LoginRequest_Encode x) = Inr x" if "LoginRequest_ok x" for x
    using that unfolding LoginRequest_Decode_def LoginRequest_Encode_def LoginRequest_ok_def concat.simps
    by (intro decode_as_met json_steps)
      (assumption | simp add: json_simps zero_LoginRequest_def del: map_of.simps)+
qed (simp add: LoginRequest_Encode_def)

section \<open>RegisterRequest\<close>

definition RegisterRequest_Encode :: "RegisterRequest \<Rightarrow> json" where
  "RegisterRequest_Encode s = JObj (concat [
     field ''email'' (JStr (rgr_Email s)),
     field ''password'' (JStr (rgr_Password s)),
     field ''displayName'' (JStr (rgr_DisplayName s))])"

definition zero_RegisterRequest :: RegisterRequest where
  "zero_RegisterRequest = \<lparr>rgr_Email = [], rgr_Password = [], rgr_DisplayName = []\<rparr>"

definition RegisterRequest_Decode :: "RegisterRequest decoder" where
  "RegisterRequest_Decode = decode_as ''RegisterRequest''
     [''email'', ''password'', ''displayName'']
     [0b00000111]
     [required 0 ''email'' jx_Str (\<lambda>x s. s\<lparr>rgr_Email := x\<rparr>),
      required 1 ''password'' jx_Str (\<lambda>x s. s\<lparr>rgr_Password := x\<rparr>),
      required 2 ''displayName'' jx_Str (\<lambda>x s. s\<lparr>rgr_DisplayName := x\<rparr>)]
     zero_RegisterRequest"

definition RegisterRequest_ok :: "RegisterRequest \<Rightarrow> bool" where
  "RegisterRequest_ok s = (True)"

interpretation jregister: json_codec "RegisterRequest_Encode" "RegisterRequest_Decode" "RegisterRequest_ok"
proof
  show "RegisterRequest_Decode (RegisterRequest_Encode x) = Inr x" if "RegisterRequest_ok x" for x
    using that unfolding RegisterRequest_Decode_def RegisterRequest_Encode_def RegisterRequest_ok_def concat.simps
    by (intro decode_as_met json_steps)
      (assumption | simp add: json_simps zero_RegisterRequest_def del: map_of.simps)+
qed (simp add: RegisterRequest_Encode_def)

section \<open>UpdateContextRequest\<close>

definition UpdateContextRequest_Encode :: "ogen \<Rightarrow> UpdateContextRequest \<Rightarrow> json" where
  "UpdateContextRequest_Encode G s = JObj (concat [
     opt_field ''name'' (opt_Set (ucr_Name s)) (Opt_Encode JStr (ucr_Name s)),
     opt_field ''parentId'' (on_Set (ucr_ParentId s)) (OptNil_Encode (EncodeUUID G) (ucr_ParentId s)),
     opt_field ''color'' (on_Set (ucr_Color s)) (OptNil_Encode JStr (ucr_Color s)),
     opt_field ''toneProfile'' (on_Set (ucr_ToneProfile s)) (OptNil_Encode JStr (ucr_ToneProfile s)),
     opt_field ''isArchived'' (opt_Set (ucr_IsArchived s)) (Opt_Encode JBool (ucr_IsArchived s))])"

definition zero_UpdateContextRequest :: UpdateContextRequest where
  "zero_UpdateContextRequest = \<lparr>ucr_Name = Opt_Reset [], ucr_ParentId = OptNil_Reset 0, ucr_Color = OptNil_Reset [], ucr_ToneProfile = OptNil_Reset [], ucr_IsArchived = Opt_Reset False\<rparr>"

definition UpdateContextRequest_Decode :: "ogen \<Rightarrow> UpdateContextRequest decoder" where
  "UpdateContextRequest_Decode G = decode_as ''UpdateContextRequest''
     [''name'', ''parentId'', ''color'', ''toneProfile'', ''isArchived'']
     []
     [optional ''name'' (Opt_Decode jx_Str) (\<lambda>x s. s\<lparr>ucr_Name := x\<rparr>),
      optional ''parentId'' (OptNil_Decode 0 (DecodeUUID G)) (\<lambda>x s. s\<lparr>ucr_ParentId := x\<rparr>),
      optional ''color'' (OptNil_Decode [] jx_Str) (\<lambda>x s. s\<lparr>ucr_Color := x\<rparr>),
      optional ''toneProfile'' (OptNil_Decode [] jx_Str) (\<lambda>x s. s\<lparr>ucr_ToneProfile := x\<rparr>),
      optional ''isArchived'' (Opt_Decode jx_Bool) (\<lambda>x s. s\<lparr>ucr_IsArchived := x\<rparr>)]
     zero_UpdateContextRequest"

definition UpdateContextRequest_ok :: "ogen \<Rightarrow> UpdateContextRequest \<Rightarrow> bool" where
  "UpdateContextRequest_ok G s = (Opt_ok [] anything (ucr_Name s) \<and>
     OptNil_ok 0 (uuid_ok G) (ucr_ParentId s) \<and>
     OptNil_ok [] anything (ucr_Color s) \<and>
     OptNil_ok [] anything (ucr_ToneProfile s) \<and>
     Opt_ok False anything (ucr_IsArchived s))"

interpretation jupdate: json_codec "UpdateContextRequest_Encode G" "UpdateContextRequest_Decode G" "UpdateContextRequest_ok G" for G
proof
  show "UpdateContextRequest_Decode G (UpdateContextRequest_Encode G x) = Inr x" if "UpdateContextRequest_ok G x" for x
    using that unfolding UpdateContextRequest_Decode_def UpdateContextRequest_Encode_def UpdateContextRequest_ok_def concat.simps
    by (elim conjE, intro decode_as_met json_steps)
      (assumption | simp add: json_simps zero_UpdateContextRequest_def del: map_of.simps)+
qed (simp add: UpdateContextRequest_Encode_def)

section \<open>Error and ErrorEnvelope\<close>

text \<open>
  \<^verbatim>\<open>ErrorDetails\<close> is a map from keys to raw documents: the list of its entries in the order of the
  iteration, without two entries for a key.
\<close>

definition ErrorDetails_Encode :: "(string \<times> json) list \<Rightarrow> json" where
  "ErrorDetails_Encode s = JObj s"

definition ErrorDetails_Decode :: "(string \<times> json) list decoder" where
  "ErrorDetails_Decode j =
     (case ObjBytes (\<lambda>k v m. Inr (AList.update k v m)) j [] of
        Inl e \<Rightarrow> Inl (Decoding ''decode ErrorDetails'' e)
      | Inr m \<Rightarrow> Inr m)"

definition ErrorDetails_ok :: "(string \<times> json) list \<Rightarrow> bool" where
  "ErrorDetails_ok s = distinct (map fst s)"

lemma update_new: "k \<notin> fst ` set m \<Longrightarrow> AList.update k v m = m @ [(k, v)]"
  by (induction m) auto

lemma each_entry_new:
  "distinct (map fst (m @ fs)) \<Longrightarrow> each_field (\<lambda>k v m. Inr (AList.update k v m)) fs m = Inr (m @ fs)"
proof (induction fs arbitrary: m)
  case (Cons e fs)
  obtain k v where e: "e = (k, v)" by force
  with Cons.prems have "AList.update k v m = m @ [(k, v)]" by (auto simp: update_new)
  with Cons.IH [of "m @ [(k, v)]"] Cons.prems e show ?case by simp
qed simp

interpretation jdetails: json_codec ErrorDetails_Encode ErrorDetails_Decode ErrorDetails_ok
  using each_entry_new [of "[]"]
  by unfold_locales (auto simp: ErrorDetails_Encode_def ErrorDetails_Decode_def ErrorDetails_ok_def)

definition Error_Encode :: "ApiError \<Rightarrow> json" where
  "Error_Encode s = JObj (concat [
     field ''code'' (JStr (er_Code s)),
     field ''message'' (JStr (er_Message s)),
     opt_field ''details'' (opt_Set (er_Details s)) (Opt_Encode ErrorDetails_Encode (er_Details s))])"

definition zero_Error :: ApiError where
  "zero_Error = \<lparr>er_Code = [], er_Message = [], er_Details = Opt_Reset []\<rparr>"

definition Error_Decode :: "ApiError decoder" where
  "Error_Decode = decode_as ''Error''
     [''code'', ''message'', ''details'']
     [0b00000011]
     [required 0 ''code'' jx_Str (\<lambda>x s. s\<lparr>er_Code := x\<rparr>),
      required 1 ''message'' jx_Str (\<lambda>x s. s\<lparr>er_Message := x\<rparr>),
      optional ''details'' (Opt_Decode ErrorDetails_Decode) (\<lambda>x s. s\<lparr>er_Details := x\<rparr>)]
     zero_Error"

definition Error_ok :: "ApiError \<Rightarrow> bool" where
  "Error_ok s = (Opt_ok [] ErrorDetails_ok (er_Details s))"

interpretation jerror: json_codec "Error_Encode" "Error_Decode" "Error_ok"
proof
  show "Error_Decode (Error_Encode x) = Inr x" if "Error_ok x" for x
    using that unfolding Error_Decode_def Error_Encode_def Error_ok_def concat.simps
    by (intro decode_as_met json_steps jdetails.step_opt)
      (assumption | simp add: json_simps zero_Error_def del: map_of.simps)+
qed (simp add: Error_Encode_def)

definition ErrorEnvelope_Encode :: "ApiError \<Rightarrow> json" where
  "ErrorEnvelope_Encode s = JObj (concat [
     field ''error'' (Error_Encode (s))])"

definition ErrorEnvelope_Decode :: "ApiError decoder" where
  "ErrorEnvelope_Decode = decode_as ''ErrorEnvelope''
     [''error'']
     [0b00000001]
     [required 0 ''error'' (Error_Decode) (\<lambda>x s. x)]
     zero_Error"

definition ErrorEnvelope_ok :: "ApiError \<Rightarrow> bool" where
  "ErrorEnvelope_ok s = (Error_ok (s))"

interpretation jenvelope: json_codec "ErrorEnvelope_Encode" "ErrorEnvelope_Decode" "ErrorEnvelope_ok"
proof
  show "ErrorEnvelope_Decode (ErrorEnvelope_Encode x) = Inr x" if "ErrorEnvelope_ok x" for x
    using that unfolding ErrorEnvelope_Decode_def ErrorEnvelope_Encode_def ErrorEnvelope_ok_def concat.simps
    by (intro decode_as_met json_steps jerror.step)
      (assumption | simp add: json_simps zero_Error_def del: map_of.simps)+
qed (simp add: ErrorEnvelope_Encode_def)

section \<open>CreateCommitmentRequest\<close>

definition CreateCommitmentRequest_Encode :: "ogen \<Rightarrow> CreateCommitmentRequest \<Rightarrow> json" where
  "CreateCommitmentRequest_Encode G s = JObj (concat [
     field ''contextId'' (EncodeUUID G (cmr_ContextId s)),
     field ''direction'' (JStr (cmr_Direction s)),
     field ''what'' (JStr (cmr_What s)),
     opt_field ''personId'' (on_Set (cmr_PersonId s)) (OptNil_Encode (EncodeUUID G) (cmr_PersonId s)),
     opt_field ''promisedAt'' (on_Set (cmr_PromisedAt s)) (OptNil_Encode (EncodeDateTime G) (cmr_PromisedAt s)),
     opt_field ''dueAt'' (on_Set (cmr_DueAt s)) (OptNil_Encode (EncodeDateTime G) (cmr_DueAt s))])"

definition zero_CreateCommitmentRequest :: CreateCommitmentRequest where
  "zero_CreateCommitmentRequest = \<lparr>cmr_ContextId = 0, cmr_Direction = [], cmr_What = [], cmr_PersonId = OptNil_Reset 0, cmr_PromisedAt = OptNil_Reset zero_time, cmr_DueAt = OptNil_Reset zero_time\<rparr>"

definition CreateCommitmentRequest_Decode :: "ogen \<Rightarrow> CreateCommitmentRequest decoder" where
  "CreateCommitmentRequest_Decode G = decode_as ''CreateCommitmentRequest''
     [''contextId'', ''direction'', ''what'', ''personId'', ''promisedAt'', ''dueAt'']
     [0b00000111]
     [required 0 ''contextId'' (DecodeUUID G) (\<lambda>x s. s\<lparr>cmr_ContextId := x\<rparr>),
      required 1 ''direction'' jx_Str (\<lambda>x s. s\<lparr>cmr_Direction := x\<rparr>),
      required 2 ''what'' jx_Str (\<lambda>x s. s\<lparr>cmr_What := x\<rparr>),
      optional ''personId'' (OptNil_Decode 0 (DecodeUUID G)) (\<lambda>x s. s\<lparr>cmr_PersonId := x\<rparr>),
      optional ''promisedAt'' (OptNil_Decode zero_time (DecodeDateTime G)) (\<lambda>x s. s\<lparr>cmr_PromisedAt := x\<rparr>),
      optional ''dueAt'' (OptNil_Decode zero_time (DecodeDateTime G)) (\<lambda>x s. s\<lparr>cmr_DueAt := x\<rparr>)]
     zero_CreateCommitmentRequest"

definition CreateCommitmentRequest_ok :: "ogen \<Rightarrow> CreateCommitmentRequest \<Rightarrow> bool" where
  "CreateCommitmentRequest_ok G s = (uuid_ok G (cmr_ContextId s) \<and>
     OptNil_ok 0 (uuid_ok G) (cmr_PersonId s) \<and>
     OptNil_ok zero_time (time_ok G) (cmr_PromisedAt s) \<and>
     OptNil_ok zero_time (time_ok G) (cmr_DueAt s))"

interpretation jcommitment: json_codec "CreateCommitmentRequest_Encode G" "CreateCommitmentRequest_Decode G" "CreateCommitmentRequest_ok G" for G
proof
  show "CreateCommitmentRequest_Decode G (CreateCommitmentRequest_Encode G x) = Inr x" if "CreateCommitmentRequest_ok G x" for x
    using that unfolding CreateCommitmentRequest_Decode_def CreateCommitmentRequest_Encode_def CreateCommitmentRequest_ok_def concat.simps
    by (elim conjE, intro decode_as_met json_steps)
      (assumption | simp add: json_simps zero_CreateCommitmentRequest_def del: map_of.simps)+
qed (simp add: CreateCommitmentRequest_Encode_def)

section \<open>CreateTaskRequest\<close>

definition CreateTaskRequest_Encode :: "ogen \<Rightarrow> CreateTaskRequest \<Rightarrow> json" where
  "CreateTaskRequest_Encode G s = JObj (concat [
     field ''contextId'' (EncodeUUID G (ctr_ContextId s)),
     field ''title'' (JStr (ctr_Title s)),
     opt_field ''detail'' (on_Set (ctr_Detail s)) (OptNil_Encode JStr (ctr_Detail s)),
     opt_field ''priority'' (opt_Set (ctr_Priority s)) (Opt_Encode JInt (ctr_Priority s)),
     opt_field ''dueAt'' (on_Set (ctr_DueAt s)) (OptNil_Encode (EncodeDateTime G) (ctr_DueAt s)),
     opt_field ''estimatedMinutes'' (on_Set (ctr_EstimatedMinutes s)) (OptNil_Encode JInt (ctr_EstimatedMinutes s)),
     opt_field ''parentTaskId'' (on_Set (ctr_ParentTaskId s)) (OptNil_Encode (EncodeUUID G) (ctr_ParentTaskId s)),
     opt_field ''commitmentId'' (on_Set (ctr_CommitmentId s)) (OptNil_Encode (EncodeUUID G) (ctr_CommitmentId s))])"

definition zero_CreateTaskRequest :: CreateTaskRequest where
  "zero_CreateTaskRequest = \<lparr>ctr_ContextId = 0, ctr_Title = [], ctr_Detail = OptNil_Reset [], ctr_Priority = Opt_Reset 0, ctr_DueAt = OptNil_Reset zero_time, ctr_EstimatedMinutes = OptNil_Reset 0, ctr_ParentTaskId = OptNil_Reset 0, ctr_CommitmentId = OptNil_Reset 0\<rparr>"

text \<open>\<^verbatim>\<open>setDefaults\<close> of \<^verbatim>\<open>oas_defaults_gen.go\<close>.\<close>

definition setDefaults :: "CreateTaskRequest \<Rightarrow> CreateTaskRequest" where
  "setDefaults s = s\<lparr>ctr_Priority := Opt_SetTo 3 (ctr_Priority s)\<rparr>"

definition CreateTaskRequest_Decode :: "ogen \<Rightarrow> CreateTaskRequest decoder" where
  "CreateTaskRequest_Decode G = decode_as ''CreateTaskRequest''
     [''contextId'', ''title'', ''detail'', ''priority'', ''dueAt'', ''estimatedMinutes'', ''parentTaskId'', ''commitmentId'']
     [0b00000011]
     [required 0 ''contextId'' (DecodeUUID G) (\<lambda>x s. s\<lparr>ctr_ContextId := x\<rparr>),
      required 1 ''title'' jx_Str (\<lambda>x s. s\<lparr>ctr_Title := x\<rparr>),
      optional ''detail'' (OptNil_Decode [] jx_Str) (\<lambda>x s. s\<lparr>ctr_Detail := x\<rparr>),
      optional ''priority'' (Opt_Decode jx_Int32) (\<lambda>x s. s\<lparr>ctr_Priority := x\<rparr>),
      optional ''dueAt'' (OptNil_Decode zero_time (DecodeDateTime G)) (\<lambda>x s. s\<lparr>ctr_DueAt := x\<rparr>),
      optional ''estimatedMinutes'' (OptNil_Decode 0 jx_Int32) (\<lambda>x s. s\<lparr>ctr_EstimatedMinutes := x\<rparr>),
      optional ''parentTaskId'' (OptNil_Decode 0 (DecodeUUID G)) (\<lambda>x s. s\<lparr>ctr_ParentTaskId := x\<rparr>),
      optional ''commitmentId'' (OptNil_Decode 0 (DecodeUUID G)) (\<lambda>x s. s\<lparr>ctr_CommitmentId := x\<rparr>)]
     (setDefaults zero_CreateTaskRequest)"

definition CreateTaskRequest_ok :: "ogen \<Rightarrow> CreateTaskRequest \<Rightarrow> bool" where
  "CreateTaskRequest_ok G s = (uuid_ok G (ctr_ContextId s) \<and>
     OptNil_ok [] anything (ctr_Detail s) \<and>
     opt_Set (ctr_Priority s) \<and> int32_ok (opt_Value (ctr_Priority s)) \<and>
     OptNil_ok zero_time (time_ok G) (ctr_DueAt s) \<and>
     OptNil_ok 0 int32_ok (ctr_EstimatedMinutes s) \<and>
     OptNil_ok 0 (uuid_ok G) (ctr_ParentTaskId s) \<and>
     OptNil_ok 0 (uuid_ok G) (ctr_CommitmentId s))"

interpretation jtask: json_codec "CreateTaskRequest_Encode G" "CreateTaskRequest_Decode G" "CreateTaskRequest_ok G" for G
proof
  show "CreateTaskRequest_Decode G (CreateTaskRequest_Encode G x) = Inr x" if "CreateTaskRequest_ok G x" for x
    using that unfolding CreateTaskRequest_Decode_def CreateTaskRequest_Encode_def CreateTaskRequest_ok_def concat.simps
    by (elim conjE, intro decode_as_met json_steps jint32.step_opt_set)
      (assumption | simp add: json_simps zero_CreateTaskRequest_def setDefaults_def Opt_SetTo_def del: map_of.simps)+
qed (simp add: CreateTaskRequest_Encode_def)

end
