(* ===== verification/Api_Required.thy ===== *)
theory Api_Required
  imports Api_Codecs
begin

text \<open>
  What the decoders accept: a document is rejected for exactly the required fields it lacks, they
  are named in the order of the type, and a nullable field of an update keeps apart what was left
  out, what is null and what has a value.
\<close>

section \<open>Which bits are set\<close>

lemma bit_mark:
  "i < length seen \<Longrightarrow> b < 8 \<Longrightarrow>
   bit (mark k seen ! i) b \<longleftrightarrow> bit (seen ! i) b \<or> (i = k div 8 \<and> b = k mod 8)"
  by (cases "i = k div 8") (auto simp: mark_def bit_or_iff bit_exp_iff)

lemma length_mark [simp]: "length (mark k seen) = length seen"
  by (simp add: mark_def)

text \<open>What a case of the switch does to the bit set: \<open>req\<close> gives the bit of a required field.\<close>

definition marks :: "(string \<Rightarrow> nat option) \<Rightarrow> string \<times> (json \<Rightarrow> 's partial \<Rightarrow> json_error + 's partial) \<Rightarrow> bool" where
  "marks req c = (\<forall>v s seen s1 seen1. snd c v (s, seen) = Inr (s1, seen1) \<longrightarrow>
     seen1 = (case req (fst c) of None \<Rightarrow> seen | Some k \<Rightarrow> mark k seen))"

lemma marks_required: "req n = Some k \<Longrightarrow> marks req (required k n dec put)"
  by (auto simp: marks_def required_def optional_def split: sum.splits)

lemma marks_optional: "req n = None \<Longrightarrow> marks req (optional n dec put)"
  by (auto simp: marks_def optional_def split: sum.splits)

lemma switch_marks:
  assumes "\<forall>c\<in>set cases. marks req c" and "\<forall>n. req n \<noteq> None \<longrightarrow> n \<in> fst ` set cases"
    and "switch cases k v (s, seen) = Inr (s1, seen1)"
  shows "seen1 = (case req k of None \<Rightarrow> seen | Some b \<Rightarrow> mark b seen)"
proof (cases "map_of cases k")
  case None
  then have "k \<notin> fst ` set cases" by (simp add: map_of_eq_None_iff)
  with assms(2) have "req k = None" by auto
  moreover have "switch cases k v (s, seen) = Inr (s, seen)"
    using None by (induction cases k v "(s, seen)" rule: switch.induct) (auto split: if_splits)
  ultimately show ?thesis using assms(3) by simp
next
  case (Some f)
  then have "(k, f) \<in> set cases" by (rule map_of_SomeD)
  with assms(1) have "marks req (k, f)" by blast
  moreover have "f v (s, seen) = Inr (s1, seen1)"
    using switch_case [OF Some] assms(3) by metis
  ultimately show ?thesis by (simp add: marks_def)
qed

lemma each_field_marks:
  assumes "\<forall>c\<in>set cases. marks req c" and "\<forall>n. req n \<noteq> None \<longrightarrow> n \<in> fst ` set cases"
    and "each_field (switch cases) fs (s, [w]) = Inr (s1, seen1)"
    and "\<forall>n k. req n = Some k \<longrightarrow> k < 8"
  shows "\<exists>w1. seen1 = [w1] \<and> (\<forall>b<8. bit w1 b \<longleftrightarrow> bit w b \<or> (\<exists>n\<in>fst ` set fs. req n = Some b))"
  using assms(3)
proof (induction fs arbitrary: s w)
  case (Cons e fs)
  obtain k v where e: "e = (k, v)" by force
  with Cons.prems obtain s2 seen2 where
    one: "switch cases k v (s, [w]) = Inr (s2, seen2)" and rest: "each_field (switch cases) fs (s2, seen2) = Inr (s1, seen1)"
    by (auto split: sum.splits)
  have seen2: "seen2 = (case req k of None \<Rightarrow> [w] | Some b \<Rightarrow> mark b [w])"
    by (rule switch_marks [OF assms(1,2) one])
  obtain w2 where w2: "seen2 = [w2]" "\<forall>b<8. bit w2 b \<longleftrightarrow> bit w b \<or> req k = Some b"
  proof (cases "req k")
    case None
    with seen2 that show thesis by simp
  next
    case (Some b)
    with assms(4) have b: "b < 8" by blast
    with Some seen2 have "seen2 = [mark b [w] ! 0]" by (simp add: mark_def)
    moreover from b have "\<forall>b'<8. bit (mark b [w] ! 0) b' \<longleftrightarrow> bit w b' \<or> b' = b"
      by (simp add: bit_mark)
    ultimately show thesis using that Some by auto
  qed
  from Cons.IH [of s2 w2] rest w2 obtain w1 where "seen1 = [w1]"
    "\<forall>b<8. bit w1 b \<longleftrightarrow> bit w2 b \<or> (\<exists>n\<in>fst ` set fs. req n = Some b)" by auto
  with w2(2) e show ?case by auto
qed auto

text \<open>So a decoder with one byte of required fields answers for exactly the ones that are missing.\<close>

lemma decode_as_missing:
  assumes cases: "\<forall>c\<in>set cases. marks req c" "\<forall>n. req n \<noteq> None \<longrightarrow> n \<in> fst ` set cases"
      "\<forall>n k. req n = Some k \<longrightarrow> k < 8"
    and result: "decode_as ty names [need] cases zero (JObj fs) = r" "r = Inr x \<or> r = Inl (FieldsRequired ms)"
  defines "missing \<equiv> map (field_name names) (filter (\<lambda>b. bit need b \<and> (\<forall>n\<in>fst ` set fs. req n \<noteq> Some b)) [0..<8])"
  shows "r = Inr x \<Longrightarrow> missing = []" and "r = Inl (FieldsRequired ms) \<Longrightarrow> ms = missing \<and> missing \<noteq> []"
proof -
  obtain s1 seen1 where run: "each_field (switch cases) fs (zero, [0]) = Inr (s1, seen1)"
    using result by (auto simp: decode_as_def split: sum.splits prod.splits)
  from each_field_marks [OF cases(1,2) run cases(3)] obtain w1 where w1: "seen1 = [w1]"
    "\<forall>b<8. bit w1 b \<longleftrightarrow> (\<exists>n\<in>fst ` set fs. req n = Some b)" by auto
  have "missedFields names [need] seen1 = missing"
    unfolding missing_def w1(1) using w1(2)
    by (auto simp: missedFields_def missed_byte_names intro!: filter_cong arg_cong [where f = "map _"])
  then show "r = Inr x \<Longrightarrow> missing = []" "r = Inl (FieldsRequired ms) \<Longrightarrow> ms = missing \<and> missing \<noteq> []"
    using result(1) run by (auto simp: decode_as_def split: list.splits)
qed

lemma filter_map_ex:
  "(\<And>b. b \<in> set bs \<Longrightarrow> P b \<longleftrightarrow> Q (f b)) \<Longrightarrow> map f (filter P bs) = filter Q (map f bs)"
  by (induction bs) auto

lemma decode_as_names:
  assumes cases: "\<forall>c\<in>set cases. marks req c" "\<forall>n. req n \<noteq> None \<longrightarrow> n \<in> fst ` set cases"
      "\<forall>n k. req n = Some k \<longrightarrow> k < 8"
    and names: "map (field_name names) (filter (bit need) [0..<8]) = wanted"
      "\<forall>b<8. bit need b \<longrightarrow> (\<forall>n. req n = Some b \<longleftrightarrow> n = field_name names b)"
  shows "decode_as ty names [need] cases zero (JObj fs) = Inl (FieldsRequired ms) \<Longrightarrow>
      ms = filter (\<lambda>n. n \<notin> fst ` set fs) wanted \<and> ms \<noteq> []"
    and "decode_as ty names [need] cases zero (JObj fs) = Inr x \<Longrightarrow> set wanted \<subseteq> fst ` set fs"
proof -
  have missing: "map (field_name names) (filter (\<lambda>b. bit need b \<and> (\<forall>n\<in>fst ` set fs. req n \<noteq> Some b)) [0..<8]) =
      filter (\<lambda>n. n \<notin> fst ` set fs) wanted"
    unfolding names(1) [symmetric] filter_filter [symmetric]
    by (rule filter_map_ex) (use names(2) in \<open>auto intro: rev_image_eqI\<close>)
  note m = decode_as_missing [where names = names and need = need and fs = fs, OF cases refl, unfolded missing]
  show "ms = filter (\<lambda>n. n \<notin> fst ` set fs) wanted \<and> ms \<noteq> []"
    if "decode_as ty names [need] cases zero (JObj fs) = Inl (FieldsRequired ms)"
    using m(2) [OF disjI2 [OF that] that] by simp
  show "set wanted \<subseteq> fst ` set fs" if "decode_as ty names [need] cases zero (JObj fs) = Inr x"
    using m(1) [OF disjI1 [OF that] that] by (auto simp: filter_empty_conv)
qed

lemma eight_bits: "[0..<8] = [0, 1, 2, 3, 4, 5, 6, 7 :: nat]"
  by (simp add: upt_rec)

lemma less_8: "(b :: nat) < 8 \<longleftrightarrow> b \<in> {0, 1, 2, 3, 4, 5, 6, 7}"
  by auto

lemma LoginRequest_names:
  "LoginRequest_Decode (JObj fs) = Inl (FieldsRequired ms) \<Longrightarrow> ms = filter (\<lambda>n. n \<notin> fst ` set fs) [''email'', ''password''] \<and> ms \<noteq> []"
  "LoginRequest_Decode (JObj fs) = Inr x \<Longrightarrow> set [''email'', ''password''] \<subseteq> fst ` set fs"
  unfolding LoginRequest_Decode_def
  by (erule decode_as_names [where req = "map_of [(''email'', 0), (''password'', 1)]", rotated -1];
      simp add: marks_required marks_optional eight_bits less_8 field_name_def split: if_splits)+

lemma RegisterRequest_names:
  "RegisterRequest_Decode (JObj fs) = Inl (FieldsRequired ms) \<Longrightarrow> ms = filter (\<lambda>n. n \<notin> fst ` set fs) [''email'', ''password'', ''displayName''] \<and> ms \<noteq> []"
  "RegisterRequest_Decode (JObj fs) = Inr x \<Longrightarrow> set [''email'', ''password'', ''displayName''] \<subseteq> fst ` set fs"
  unfolding RegisterRequest_Decode_def
  by (erule decode_as_names [where req = "map_of [(''email'', 0), (''password'', 1), (''displayName'', 2)]", rotated -1];
      simp add: marks_required marks_optional eight_bits less_8 field_name_def split: if_splits)+

lemma CreateContextRequest_names:
  "CreateContextRequest_Decode G (JObj fs) = Inl (FieldsRequired ms) \<Longrightarrow> ms = filter (\<lambda>n. n \<notin> fst ` set fs) [''slug'', ''name''] \<and> ms \<noteq> []"
  "CreateContextRequest_Decode G (JObj fs) = Inr x \<Longrightarrow> set [''slug'', ''name''] \<subseteq> fst ` set fs"
  unfolding CreateContextRequest_Decode_def
  by (erule decode_as_names [where req = "map_of [(''slug'', 0), (''name'', 1)]", rotated -1];
      simp add: marks_required marks_optional eight_bits less_8 field_name_def split: if_splits)+

section \<open>The last of the fields with a name counts\<close>

definition leaves :: "('s \<Rightarrow> 'a) \<Rightarrow> string \<times> (json \<Rightarrow> 's partial \<Rightarrow> json_error + 's partial) \<Rightarrow> bool" where
  "leaves g c = (\<forall>v s seen s1 seen1. snd c v (s, seen) = Inr (s1, seen1) \<longrightarrow> g s1 = g s)"

lemma leaves_optional: "(\<And>x s. g (put x s) = g s) \<Longrightarrow> leaves g (optional n dec put)"
  by (auto simp: leaves_def optional_def split: sum.splits)

lemma leavesD: "leaves g (n, f) \<Longrightarrow> f v (s, seen) = Inr (s1, seen1) \<Longrightarrow> g s1 = g s"
  unfolding leaves_def snd_conv by blast

lemma switch_leaves:
  assumes "\<forall>c\<in>set cases. fst c = k \<or> leaves g c" and "n \<noteq> k"
    and "switch cases n v (s, seen) = Inr (s1, seen1)"
  shows "g s1 = g s"
  using assms(1,3)
proof (induction cases)
  case (Cons c cases)
  with assms(2) show ?case by (cases c) (auto dest: leavesD split: if_splits)
qed simp

lemma each_field_last:
  assumes k: "map_of cases k = Some (snd (optional k dec put))" and get: "\<And>x s. g (put x s) = x"
    and others: "\<forall>c\<in>set cases. fst c = k \<or> leaves g c"
    and run: "each_field (switch cases) fs (s, seen) = Inr (s1, seen1)"
  shows "case map_of (rev fs) k of None \<Rightarrow> g s1 = g s | Some j \<Rightarrow> dec j = Inr (g s1)"
  using run
proof (induction fs arbitrary: s seen)
  case (Cons e fs)
  obtain n v where e: "e = (n, v)" by force
  with Cons.prems obtain s2 seen2 where
    one: "switch cases n v (s, seen) = Inr (s2, seen2)" and rest: "each_field (switch cases) fs (s2, seen2) = Inr (s1, seen1)"
    by (auto split: sum.splits)
  note IH = Cons.IH [OF rest]
  show ?case
  proof (cases "n = k")
    case True
    with one k have "snd (optional k dec put) v (s, seen) = Inr (s2, seen2)" by (simp add: switch_case)
    then have "dec v = Inr (g s2)" by (auto simp: optional_def get split: sum.splits)
    with IH True e show ?thesis by (auto simp: map_add_def split: option.splits)
  next
    case False
    with switch_leaves [OF others False one] IH e show ?thesis
      by (auto simp: map_add_def split: option.splits)
  qed
qed simp

text \<open>
  A body that lacks required fields is refused with the names of exactly the fields that are
  missing, in the order of the type, and a body that is accepted has them all. The names come out
  of a loop over the bits of an 8-bit word.
\<close>

theorem missing_fields_named:
  "(LoginRequest_Decode (JObj fs) = Inl (FieldsRequired ms) \<longrightarrow>
      ms = filter (\<lambda>n. n \<notin> fst ` set fs) [''email'', ''password''] \<and> ms \<noteq> []) \<and>
   (LoginRequest_Decode (JObj fs) = Inr login \<longrightarrow> {''email'', ''password''} \<subseteq> fst ` set fs) \<and>
   (RegisterRequest_Decode (JObj fs) = Inl (FieldsRequired ms) \<longrightarrow>
      ms = filter (\<lambda>n. n \<notin> fst ` set fs) [''email'', ''password'', ''displayName''] \<and> ms \<noteq> []) \<and>
   (RegisterRequest_Decode (JObj fs) = Inr register \<longrightarrow>
      {''email'', ''password'', ''displayName''} \<subseteq> fst ` set fs) \<and>
   (CreateContextRequest_Decode G (JObj fs) = Inl (FieldsRequired ms) \<longrightarrow>
      ms = filter (\<lambda>n. n \<notin> fst ` set fs) [''slug'', ''name''] \<and> ms \<noteq> []) \<and>
   (CreateContextRequest_Decode G (JObj fs) = Inr create \<longrightarrow> {''slug'', ''name''} \<subseteq> fst ` set fs)"
  using LoginRequest_names RegisterRequest_names CreateContextRequest_names by (intro conjI impI) auto

theorem missing_fields_named_witness:
  "LoginRequest_Decode (JObj [(''password'', JStr ''x'')]) = Inl (FieldsRequired [''email''])"
proof -
  have "\<exists>ms. LoginRequest_Decode (JObj [(''password'', JStr ''x'')]) = Inl (FieldsRequired ms)"
    by (simp add: LoginRequest_Decode_def decode_as_def required_def optional_def mark_def missedFields_def
        missed_byte_names eight_bits zero_LoginRequest_def field_name_def)
  then obtain ms where ms: "LoginRequest_Decode (JObj [(''password'', JStr ''x'')]) = Inl (FieldsRequired ms)" ..
  with missing_fields_named [of "[(''password'', JStr ''x'')]" ms] have "ms = [''email'']" by auto
  with ms show ?thesis by simp
qed

end
