(* ===== verification/Api_Router.thy ===== *)
theory Api_Router
  imports Go_Prelude
begin

text \<open>
  The router of the versioned API, \<^verbatim>\<open>apps/api/internal/api/oas_router_gen.go\<close>: an unrolled search
  of a compressed prefix tree over the bytes of the path. It exists twice in the code, as
  \<open>ServeHTTP\<close>, which calls the handler, and as \<open>FindPath\<close>, which describes the route. Both are
  modelled branch by branch and compared with the table of paths and methods of the contract.

  A Go \<^verbatim>\<open>break\<close> out of the search is \<open>None\<close>. The percent-decoding of a raw path is a library's and a
  parameter of the definitions.
\<close>

section \<open>Operations and their answers\<close>

datatype Operation =
    OpArchiveContext | OpCompleteGoogleSignIn | OpCreateCommitment | OpCreateContext | OpCreateTask
  | OpGetContext | OpGetCurrentSession | OpListAccounts | OpListAuthProviders | OpListContexts
  | OpListSessions | OpListSignals | OpLogin | OpRegister | OpRevokeSession | OpSignOut
  | OpStartGoogleSignIn | OpUnlinkAuthProvider | OpUpdateContext

record notAllowedParams =
  na_allowedMethods :: string
  na_allowedHeaders :: "(string \<times> string) list option"
  na_acceptPost :: string
  na_acceptPatch :: string

datatype served =
    NotFound
  | NotAllowed notAllowedParams
  | Handle Operation "string list"

record url =
  url_Path :: string
  url_RawPath :: string

section \<open>The shapes of the generated search\<close>

text \<open>\<^verbatim>\<open>if l := len(p); len(elem) >= l && elem[0:l] == p { elem = elem[l:] } else { break }\<close>.\<close>

definition on_prefix :: "string \<Rightarrow> (string \<Rightarrow> 'r option) \<Rightarrow> string \<Rightarrow> 'r option" where
  "on_prefix p k elem =
     (if length p \<le> length elem \<and> take (length p) elem = p then k (drop (length p) elem) else None)"

text \<open>\<^verbatim>\<open>if len(elem) == 0 { break }; switch elem[0] { ... }\<close>.\<close>

definition switch_byte :: "(char \<times> (string \<Rightarrow> 'r option)) list \<Rightarrow> string \<Rightarrow> 'r option" where
  "switch_byte cases elem =
     (case elem of [] \<Rightarrow> None | c # _ \<Rightarrow> (case map_of cases c of None \<Rightarrow> None | Some k \<Rightarrow> k elem))"

text \<open>\<^verbatim>\<open>if len(elem) == 0 { ...; return }\<close>, then the rest of the branch.\<close>

definition at_end :: "'r \<Rightarrow> (string \<Rightarrow> 'r option) \<Rightarrow> string \<Rightarrow> 'r option" where
  "at_end r k elem = (if elem = [] then Some r else k elem)"

abbreviation no_more :: "string \<Rightarrow> 'r option" where
  "no_more \<equiv> \<lambda>_. None"

text \<open>\<^verbatim>\<open>Leaf parameter, slashes are prohibited\<close>.\<close>

definition leaf_param :: "(string \<Rightarrow> 'r) \<Rightarrow> string \<Rightarrow> 'r option" where
  "leaf_param r elem = (if CHR ''/'' \<in> set elem then None else Some (r elem))"

text \<open>\<^verbatim>\<open>switch r.Method\<close> at a leaf: a handler, or \<^verbatim>\<open>s.notAllowed\<close>.\<close>

definition on_method :: "(string \<times> Operation) list \<Rightarrow> notAllowedParams \<Rightarrow> string list \<Rightarrow> string \<Rightarrow> served" where
  "on_method ops refused args m =
     (case map_of ops m of Some oper \<Rightarrow> Handle oper args | None \<Rightarrow> NotAllowed refused)"

abbreviation plain_refusal :: "string \<Rightarrow> notAllowedParams" where
  "plain_refusal methods \<equiv>
     \<lparr>na_allowedMethods = methods, na_allowedHeaders = None, na_acceptPost = [], na_acceptPatch = []\<rparr>"

abbreviation post_refusal :: "string \<Rightarrow> notAllowedParams" where
  "post_refusal methods \<equiv>
     \<lparr>na_allowedMethods = methods, na_allowedHeaders = Some [(''POST'', ''Content-Type'')],
      na_acceptPost = ''application/json'', na_acceptPatch = []\<rparr>"

abbreviation patch_refusal :: "string \<Rightarrow> notAllowedParams" where
  "patch_refusal methods \<equiv>
     \<lparr>na_allowedMethods = methods, na_allowedHeaders = Some [(''PATCH'', ''Content-Type'')],
      na_acceptPost = [], na_acceptPatch = ''application/json''\<rparr>"

section \<open>ServeHTTP\<close>

definition serve_google :: "string \<Rightarrow> string \<Rightarrow> served option" where
  "serve_google m = on_prefix ''google/'' (switch_byte
     [(CHR ''c'', on_prefix ''callback''
         (at_end (on_method [(''GET'', OpCompleteGoogleSignIn)] (plain_refusal ''GET'') [] m) no_more)),
      (CHR ''s'', on_prefix ''start''
         (at_end (on_method [(''GET'', OpStartGoogleSignIn)] (plain_refusal ''GET'') [] m) no_more))])"

definition serve_providers :: "string \<Rightarrow> string \<Rightarrow> served option" where
  "serve_providers m = on_prefix ''providers''
     (at_end (on_method [(''GET'', OpListAuthProviders)] (plain_refusal ''GET'') [] m) (switch_byte
       [(CHR ''/'', on_prefix ''/''
          (leaf_param (\<lambda>arg. on_method [(''DELETE'', OpUnlinkAuthProvider)] (plain_refusal ''DELETE'') [arg] m)))]))"

definition serve_session :: "string \<Rightarrow> string \<Rightarrow> served option" where
  "serve_session m = on_prefix ''session''
     (at_end (on_method [(''DELETE'', OpSignOut), (''GET'', OpGetCurrentSession)]
         (plain_refusal ''DELETE,GET'') [] m) (switch_byte
       [(CHR ''s'', on_prefix ''s''
          (at_end (on_method [(''GET'', OpListSessions)] (plain_refusal ''GET'') [] m) (switch_byte
            [(CHR ''/'', on_prefix ''/''
               (leaf_param (\<lambda>arg. on_method [(''DELETE'', OpRevokeSession)] (plain_refusal ''DELETE'') [arg] m)))])))]))"

definition serve_auth :: "string \<Rightarrow> string \<Rightarrow> served option" where
  "serve_auth m = on_prefix ''uth/'' (switch_byte
     [(CHR ''g'', serve_google m),
      (CHR ''l'', on_prefix ''login''
         (at_end (on_method [(''POST'', OpLogin)] (post_refusal ''POST'') [] m) no_more)),
      (CHR ''p'', serve_providers m),
      (CHR ''r'', on_prefix ''register''
         (at_end (on_method [(''POST'', OpRegister)] (post_refusal ''POST'') [] m) no_more)),
      (CHR ''s'', serve_session m)])"

definition serve_contexts :: "string \<Rightarrow> string \<Rightarrow> served option" where
  "serve_contexts m = on_prefix ''ntexts''
     (at_end (on_method [(''GET'', OpListContexts), (''POST'', OpCreateContext)]
         (post_refusal ''GET,POST'') [] m) (switch_byte
       [(CHR ''/'', on_prefix ''/''
          (leaf_param (\<lambda>arg. on_method
             [(''DELETE'', OpArchiveContext), (''GET'', OpGetContext), (''PATCH'', OpUpdateContext)]
             (patch_refusal ''DELETE,GET,PATCH'') [arg] m)))]))"

definition serve_tree :: "string \<Rightarrow> string \<Rightarrow> served option" where
  "serve_tree m = switch_byte
     [(CHR ''/'', on_prefix ''/api/v1/'' (switch_byte
        [(CHR ''a'', on_prefix ''a'' (switch_byte
            [(CHR ''c'', on_prefix ''ccounts''
                (at_end (on_method [(''GET'', OpListAccounts)] (plain_refusal ''GET'') [] m) no_more)),
             (CHR ''u'', serve_auth m)])),
         (CHR ''c'', on_prefix ''co'' (switch_byte
            [(CHR ''m'', on_prefix ''mmitments''
                (at_end (on_method [(''POST'', OpCreateCommitment)] (post_refusal ''POST'') [] m) no_more)),
             (CHR ''n'', serve_contexts m)])),
         (CHR ''s'', on_prefix ''signals''
            (at_end (on_method [(''GET'', OpListSignals)] (plain_refusal ''GET'') [] m) no_more)),
         (CHR ''t'', on_prefix ''tasks''
            (at_end (on_method [(''POST'', OpCreateTask)] (post_refusal ''POST'') [] m) no_more))]))]"

definition cutPrefix :: "string \<Rightarrow> string \<Rightarrow> string option" where
  "cutPrefix pre path =
     (if pre = [] then Some path
      else if take (length pre) path = pre then Some (drop (length pre) path)
      else None)"

text \<open>The path searched: the normalised raw path when the URL has one.\<close>

definition search_path :: "(string \<Rightarrow> string option) \<Rightarrow> url \<Rightarrow> string" where
  "search_path unescape u =
     (if url_RawPath u = [] then url_Path u
      else case unescape (url_RawPath u) of Some n \<Rightarrow> n | None \<Rightarrow> url_Path u)"

definition elem_escaped :: "(string \<Rightarrow> string option) \<Rightarrow> url \<Rightarrow> bool" where
  "elem_escaped unescape u =
     (url_RawPath u \<noteq> [] \<and>
      (case unescape (url_RawPath u) of Some n \<Rightarrow> CHR ''%'' \<in> set n | None \<Rightarrow> False))"

definition ServeHTTP :: "(string \<Rightarrow> string option) \<Rightarrow> string \<Rightarrow> string \<Rightarrow> url \<Rightarrow> served" where
  "ServeHTTP unescape pre m u =
     (case cutPrefix pre (search_path unescape u) of
        None \<Rightarrow> NotFound
      | Some [] \<Rightarrow> NotFound
      | Some elem \<Rightarrow> (case serve_tree m elem of None \<Rightarrow> NotFound | Some r \<Rightarrow> r))"

section \<open>FindPath\<close>

record Route =
  rt_name :: Operation
  rt_summary :: string
  rt_operationID :: string
  rt_pathPattern :: string
  rt_args :: "string list"

abbreviation route :: "Operation \<Rightarrow> string \<Rightarrow> string \<Rightarrow> string \<Rightarrow> string list \<Rightarrow> Route" where
  "route oper summary i pat args \<equiv>
     \<lparr>rt_name = oper, rt_summary = summary, rt_operationID = i, rt_pathPattern = pat, rt_args = args\<rparr>"

text \<open>\<^verbatim>\<open>switch method\<close> at a leaf: a route, or \<^verbatim>\<open>return\<close> without one, which ends the search.\<close>

definition find_method :: "(string \<times> (string list \<Rightarrow> Route)) list \<Rightarrow> string list \<Rightarrow> string \<Rightarrow> Route option" where
  "find_method rs args m = map_option (\<lambda>r. r args) (map_of rs m)"

definition find_google :: "string \<Rightarrow> string \<Rightarrow> Route option option" where
  "find_google m = on_prefix ''google/'' (switch_byte
     [(CHR ''c'', on_prefix ''callback''
         (at_end (find_method
            [(''GET'', route OpCompleteGoogleSignIn ''Finish signing in with Google''
               ''completeGoogleSignIn'' ''/api/v1/auth/google/callback'')] [] m) no_more)),
      (CHR ''s'', on_prefix ''start''
         (at_end (find_method
            [(''GET'', route OpStartGoogleSignIn ''Begin signing in with Google''
               ''startGoogleSignIn'' ''/api/v1/auth/google/start'')] [] m) no_more))])"

definition find_providers :: "string \<Rightarrow> string \<Rightarrow> Route option option" where
  "find_providers m = on_prefix ''providers''
     (at_end (find_method
            [(''GET'', route OpListAuthProviders ''The ways the owner can sign in''
               ''listAuthProviders'' ''/api/v1/auth/providers'')] [] m) (switch_byte
       [(CHR ''/'', on_prefix ''/''
          (leaf_param (\<lambda>arg. find_method
            [(''DELETE'', route OpUnlinkAuthProvider ''Unlink a sign-in method''
               ''unlinkAuthProvider'' ''/api/v1/auth/providers/{providerId}'')] [arg] m)))]))"

definition find_session :: "string \<Rightarrow> string \<Rightarrow> Route option option" where
  "find_session m = on_prefix ''session''
     (at_end (find_method
            [(''DELETE'', route OpSignOut ''Sign out of this browser''
               ''signOut'' ''/api/v1/auth/session''),
             (''GET'', route OpGetCurrentSession ''Who is signed in, and on what''
               ''getCurrentSession'' ''/api/v1/auth/session'')] [] m) (switch_byte
       [(CHR ''s'', on_prefix ''s''
          (at_end (find_method
            [(''GET'', route OpListSessions ''Every browser currently signed in''
               ''listSessions'' ''/api/v1/auth/sessions'')] [] m) (switch_byte
            [(CHR ''/'', on_prefix ''/''
               (leaf_param (\<lambda>arg. find_method
            [(''DELETE'', route OpRevokeSession ''Revoke one session''
               ''revokeSession'' ''/api/v1/auth/sessions/{sessionId}'')] [arg] m)))])))]))"

definition find_auth :: "string \<Rightarrow> string \<Rightarrow> Route option option" where
  "find_auth m = on_prefix ''uth/'' (switch_byte
     [(CHR ''g'', find_google m),
      (CHR ''l'', on_prefix ''login'' (at_end (find_method
            [(''POST'', route OpLogin ''Sign in with an email and password''
               ''login'' ''/api/v1/auth/login'')] [] m) no_more)),
      (CHR ''p'', find_providers m),
      (CHR ''r'', on_prefix ''register''
         (at_end (find_method
            [(''POST'', route OpRegister ''Create an account with an email and password''
               ''register'' ''/api/v1/auth/register'')] [] m) no_more)),
      (CHR ''s'', find_session m)])"

definition find_contexts :: "string \<Rightarrow> string \<Rightarrow> Route option option" where
  "find_contexts m = on_prefix ''ntexts''
     (at_end (find_method
            [(''GET'', route OpListContexts ''List contexts''
               ''listContexts'' ''/api/v1/contexts''),
             (''POST'', route OpCreateContext ''Create a context''
               ''createContext'' ''/api/v1/contexts'')] [] m) (switch_byte
       [(CHR ''/'', on_prefix ''/''
          (leaf_param (\<lambda>arg. find_method
            [(''DELETE'', route OpArchiveContext ''Archive a context''
               ''archiveContext'' ''/api/v1/contexts/{contextId}''),
             (''GET'', route OpGetContext ''Get one context''
               ''getContext'' ''/api/v1/contexts/{contextId}''),
             (''PATCH'', route OpUpdateContext ''Change a context''
               ''updateContext'' ''/api/v1/contexts/{contextId}'')] [arg] m)))]))"

definition find_tree :: "string \<Rightarrow> string \<Rightarrow> Route option option" where
  "find_tree m = switch_byte
     [(CHR ''/'', on_prefix ''/api/v1/'' (switch_byte
        [(CHR ''a'', on_prefix ''a'' (switch_byte
            [(CHR ''c'', on_prefix ''ccounts''
                (at_end (find_method
            [(''GET'', route OpListAccounts ''List connected accounts''
               ''listAccounts'' ''/api/v1/accounts'')] [] m) no_more)),
             (CHR ''u'', find_auth m)])),
         (CHR ''c'', on_prefix ''co'' (switch_byte
            [(CHR ''m'', on_prefix ''mmitments''
                (at_end (find_method
            [(''POST'', route OpCreateCommitment ''Record a promise by hand''
               ''createCommitment'' ''/api/v1/commitments'')] [] m) no_more)),
             (CHR ''n'', find_contexts m)])),
         (CHR ''s'', on_prefix ''signals''
            (at_end (find_method
            [(''GET'', route OpListSignals ''The signal timeline for one or more contexts''
               ''listSignals'' ''/api/v1/signals'')] [] m) no_more)),
         (CHR ''t'', on_prefix ''tasks''
            (at_end (find_method
            [(''POST'', route OpCreateTask ''Record a task by hand''
               ''createTask'' ''/api/v1/tasks'')] [] m) no_more))]))]"

text \<open>The deferred function decodes the arguments of a URL that has a raw path.\<close>

definition FindPath ::
  "(string \<Rightarrow> string option) \<Rightarrow> (string \<Rightarrow> string option) \<Rightarrow> string \<Rightarrow> string \<Rightarrow> url \<Rightarrow> Route option" where
  "FindPath unescape pathUnescape pre m u =
     (case cutPrefix pre (search_path unescape u) of
        None \<Rightarrow> None
      | Some elem \<Rightarrow>
          (case find_tree m elem of
             None \<Rightarrow> None
           | Some None \<Rightarrow> None
           | Some (Some r) \<Rightarrow>
               Some (if url_RawPath u = [] then r
                     else r\<lparr>rt_args := map (\<lambda>a. case pathUnescape a of Some b \<Rightarrow> b | None \<Rightarrow> a) (rt_args r)\<rparr>)))"

definition FindRoute :: "string \<Rightarrow> string \<Rightarrow> string \<Rightarrow> Route option" where
  "FindRoute pre m path = FindPath (\<lambda>_. None) (\<lambda>_. None) pre m \<lparr>url_Path = path, url_RawPath = []\<rparr>"

section \<open>The contract\<close>

text \<open>
  The paths of the OpenAPI document, each a literal text with or without one parameter after it,
  and the operations of each path by method.
\<close>

datatype pattern = Exact string | WithParam string

fun pattern_args :: "pattern \<Rightarrow> string \<Rightarrow> string list option" where
  "pattern_args (Exact s) path = (if path = s then Some [] else None)"
| "pattern_args (WithParam s) path =
     (if prefix s path \<and> CHR ''/'' \<notin> set (drop (length s) path) then Some [drop (length s) path] else None)"

definition contract :: "(pattern \<times> (string \<times> Operation) list) list" where
  "contract =
     [(Exact ''/api/v1/accounts'', [(''GET'', OpListAccounts)]),
      (Exact ''/api/v1/auth/google/callback'', [(''GET'', OpCompleteGoogleSignIn)]),
      (Exact ''/api/v1/auth/google/start'', [(''GET'', OpStartGoogleSignIn)]),
      (Exact ''/api/v1/auth/login'', [(''POST'', OpLogin)]),
      (Exact ''/api/v1/auth/providers'', [(''GET'', OpListAuthProviders)]),
      (WithParam ''/api/v1/auth/providers/'', [(''DELETE'', OpUnlinkAuthProvider)]),
      (Exact ''/api/v1/auth/register'', [(''POST'', OpRegister)]),
      (Exact ''/api/v1/auth/session'', [(''DELETE'', OpSignOut), (''GET'', OpGetCurrentSession)]),
      (Exact ''/api/v1/auth/sessions'', [(''GET'', OpListSessions)]),
      (WithParam ''/api/v1/auth/sessions/'', [(''DELETE'', OpRevokeSession)]),
      (Exact ''/api/v1/commitments'', [(''POST'', OpCreateCommitment)]),
      (Exact ''/api/v1/contexts'', [(''GET'', OpListContexts), (''POST'', OpCreateContext)]),
      (WithParam ''/api/v1/contexts/'',
         [(''DELETE'', OpArchiveContext), (''GET'', OpGetContext), (''PATCH'', OpUpdateContext)]),
      (Exact ''/api/v1/signals'', [(''GET'', OpListSignals)]),
      (Exact ''/api/v1/tasks'', [(''POST'', OpCreateTask)])]"

text \<open>What the contract says of a path: its entry, with the arguments read off the path.\<close>

fun lookup_path :: "(pattern \<times> 'a) list \<Rightarrow> string \<Rightarrow> ('a \<times> string list) option" where
  "lookup_path [] path = None"
| "lookup_path ((p, x) # rest) path =
     (case pattern_args p path of Some args \<Rightarrow> Some (x, args) | None \<Rightarrow> lookup_path rest path)"

text \<open>The methods of a path, joined as the \<^verbatim>\<open>Allow\<close> header lists them.\<close>

fun allow_header :: "(string \<times> Operation) list \<Rightarrow> string" where
  "allow_header [] = []"
| "allow_header [(m, _)] = m"
| "allow_header ((m, _) # rest) = m @ '','' @ allow_header rest"

text \<open>An answer as the contract sees it: the operation, or the methods that are allowed.\<close>

datatype verdict = Unknown | WrongMethod string | Call Operation "string list"

definition contract_verdict :: "string \<Rightarrow> string \<Rightarrow> verdict" where
  "contract_verdict m path =
     (case lookup_path contract path of
        None \<Rightarrow> Unknown
      | Some (ops, args) \<Rightarrow>
          (case map_of ops m of Some oper \<Rightarrow> Call oper args | None \<Rightarrow> WrongMethod (allow_header ops)))"

fun verdict_of :: "served \<Rightarrow> verdict" where
  "verdict_of NotFound = Unknown"
| "verdict_of (NotAllowed p) = WrongMethod (na_allowedMethods p)"
| "verdict_of (Handle oper args) = Call oper args"

section \<open>The tree as a table\<close>

text \<open>
  The search with a table of patterns; each shape of the generated code is an operation on
  tables, which is how the tree is flattened.
\<close>

definition table :: "(pattern \<times> (string list \<Rightarrow> 'r)) list \<Rightarrow> string \<Rightarrow> 'r option" where
  "table T path = map_option (\<lambda>(f, args). f args) (lookup_path T path)"

fun prepend :: "string \<Rightarrow> pattern \<Rightarrow> pattern" where
  "prepend p (Exact s) = Exact (p @ s)"
| "prepend p (WithParam s) = WithParam (p @ s)"

fun starts :: "char \<Rightarrow> pattern \<Rightarrow> bool" where
  "starts c (Exact s) = (s \<noteq> [] \<and> hd s = c)"
| "starts c (WithParam s) = (s \<noteq> [] \<and> hd s = c)"

named_theorems tree_simps \<open>flattening the search tree\<close>

lemma pattern_args_prepend:
  "pattern_args (prepend p pat) path =
     (if take (length p) path = p then pattern_args pat (drop (length p) path) else None)"
proof (cases pat)
  case (Exact s)
  have "path = p @ s \<longleftrightarrow> take (length p) path = p \<and> drop (length p) path = s"
    by (metis append_eq_conv_conj append_take_drop_id)
  then show ?thesis by (simp add: Exact)
next
  case (WithParam s)
  have "prefix (p @ s) path \<longleftrightarrow> take (length p) path = p \<and> prefix s (drop (length p) path)"
    by (auto simp: prefix_def) (metis append_take_drop_id)
  then show ?thesis by (simp add: WithParam add.commute)
qed

lemma on_prefix_table [tree_simps]:
  "on_prefix p (table T) = table (map (\<lambda>(pat, f). (prepend p pat, f)) T)"
proof
  fix path
  have "lookup_path (map (\<lambda>(pat, f). (prepend p pat, f)) T) path =
      (if take (length p) path = p then lookup_path T (drop (length p) path) else None)"
    by (induction T) (auto simp: pattern_args_prepend split: option.split)
  moreover have "length p \<le> length path" if "take (length p) path = p"
    using arg_cong [OF that, of length] by simp
  ultimately show "on_prefix p (table T) path = table (map (\<lambda>(pat, f). (prepend p pat, f)) T) path"
    by (auto simp: on_prefix_def table_def)
qed

lemma at_end_table [tree_simps]: "at_end r (table T) = table ((Exact [], \<lambda>_. r) # T)"
  by (auto simp: at_end_def table_def)

lemma no_more_table [tree_simps]: "at_end r no_more = table [(Exact [], \<lambda>_. r)]"
  by (auto simp: at_end_def table_def)

lemma leaf_param_table [tree_simps]: "leaf_param r = table [(WithParam [], \<lambda>args. r (hd args))]"
  by (auto simp: leaf_param_def table_def)

lemma lookup_path_append:
  "lookup_path (S @ T) path = (case lookup_path S path of None \<Rightarrow> lookup_path T path | Some x \<Rightarrow> Some x)"
  by (induction S) (auto split: option.split)

lemma lookup_path_starts:
  "\<forall>(pat, f) \<in> set T. starts c pat \<Longrightarrow> path = [] \<or> hd path \<noteq> c \<Longrightarrow> lookup_path T path = None"
proof (induction T)
  case (Cons e T)
  obtain pat f where e: "e = (pat, f)" by (cases e)
  with Cons.prems have "pattern_args pat path = None"
    by (cases pat) (auto simp: prefix_def neq_Nil_conv)
  with e Cons show ?case by simp
qed simp

lemma switch_table:
  "\<forall>(c, T) \<in> set cts. \<forall>(pat, f) \<in> set T. starts c pat \<Longrightarrow> distinct (map fst cts) \<Longrightarrow>
   switch_byte (map (\<lambda>(c, T). (c, table T)) cts) = table (concat (map snd cts))"
proof (rule ext)
  fix path
  assume starts: "\<forall>(c, T) \<in> set cts. \<forall>(pat, f) \<in> set T. starts c pat" and dist: "distinct (map fst cts)"
  show "switch_byte (map (\<lambda>(c, T). (c, table T)) cts) path = table (concat (map snd cts)) path"
  proof (cases path)
    case Nil
    then have "lookup_path (concat (map snd cts)) path = None"
      using starts by (induction cts) (auto simp: lookup_path_append lookup_path_starts)
    with Nil show ?thesis by (simp add: switch_byte_def table_def)
  next
    case (Cons b rest)
    have "lookup_path (concat (map snd cts)) path =
        (case map_of cts b of None \<Rightarrow> None | Some T \<Rightarrow> lookup_path T path)"
      using starts dist
    proof (induction cts)
      case (Cons ct cts)
      obtain c T where ct: "ct = (c, T)" by (cases ct)
      have IH: "lookup_path (concat (map snd cts)) path =
          (case map_of cts b of None \<Rightarrow> None | Some T \<Rightarrow> lookup_path T path)"
        using Cons by simp
      show ?case
      proof (cases "c = b")
        case True
        then have "map_of cts b = None" using Cons.prems ct by (simp add: map_of_eq_None_iff)
        with IH True ct show ?thesis by (auto simp: lookup_path_append split: option.split)
      next
        case False
        then have "lookup_path T path = None"
          using Cons.prems ct \<open>path = b # rest\<close> by (intro lookup_path_starts [of T c]) auto
        with IH False ct show ?thesis by (simp add: lookup_path_append)
      qed
    qed simp
    moreover have "map_of (map (\<lambda>(c, T). (c, table T)) cts) b = map_option table (map_of cts b)"
      by (induction cts) auto
    ultimately show ?thesis
      using Cons by (simp add: switch_byte_def table_def split: option.split)
  qed
qed

lemmas switch1 = switch_table [of "[(c, T)]" for c T, simplified]
lemmas switch2 = switch_table [of "[(c, T), (c', T')]" for c T c' T', simplified]
lemmas switch4 = switch_table [of "[(c, T), (c', T'), (c2, T2), (c3, T3)]" for c T c' T' c2 T2 c3 T3, simplified]
lemmas switch5 = switch_table
  [of "[(c, T), (c', T'), (c2, T2), (c3, T3), (c4, T4)]" for c T c' T' c2 T2 c3 T3 c4 T4, simplified]
lemmas switch_tables [tree_simps] = switch1 switch2 switch4 switch5

lemmas serve_defs = serve_tree_def serve_auth_def serve_google_def serve_providers_def serve_session_def
  serve_contexts_def
lemmas find_defs = find_tree_def find_auth_def find_google_def find_providers_def find_session_def
  find_contexts_def

text \<open>Two tables with the same patterns and related entries answer alike.\<close>

fun args_of :: "pattern \<Rightarrow> string list \<Rightarrow> bool" where
  "args_of (Exact s) args = (args = [])"
| "args_of (WithParam s) args = (\<exists>a. args = [a])"

lemma pattern_args_of: "pattern_args p path = Some args \<Longrightarrow> args_of p args"
  by (cases p) (auto split: if_splits)

lemma lookup_related:
  "list_all2 (\<lambda>(p, f) (q, x). p = q \<and> (\<forall>args. args_of p args \<longrightarrow> g f args = h x args)) T C \<Longrightarrow>
   map_option (\<lambda>(f, args). g f args) (lookup_path T path) = map_option (\<lambda>(x, args). h x args) (lookup_path C path)"
  by (induction T C rule: list_all2_induct) (auto simp: pattern_args_of split: option.split)

lemma serve_tree_contract:
  "map_option verdict_of (serve_tree m path) =
   map_option (\<lambda>(ops, args). case map_of ops m of Some oper \<Rightarrow> Call oper args | None \<Rightarrow> WrongMethod (allow_header ops))
     (lookup_path contract path)"
proof -
  define h where "h = (\<lambda>ops args. case map_of ops m of Some oper \<Rightarrow> Call oper args | None \<Rightarrow> WrongMethod (allow_header ops))"
  have leaf: "verdict_of (on_method ops r args m) = h ops args" if "na_allowedMethods r = allow_header ops" for ops r args
    using that by (auto simp: on_method_def h_def split: option.split)
  obtain T where T: "serve_tree m = table T"
    and rel: "list_all2 (\<lambda>(p, f) (q, x). p = q \<and> (\<forall>args. args_of p args \<longrightarrow> verdict_of (f args) = h x args)) T contract"
    unfolding serve_defs contract_def by (simp add: tree_simps) (force simp: leaf)
  have "map_option verdict_of (serve_tree m path) = map_option (\<lambda>(f, args). verdict_of (f args)) (lookup_path T path)"
    unfolding T table_def by (simp add: option.map_comp comp_def case_prod_beta')
  also have "\<dots> = map_option (\<lambda>(ops, args). h ops args) (lookup_path contract path)"
    by (rule lookup_related [of "\<lambda>f args. verdict_of (f args)" h, OF rel])
  finally show ?thesis by (simp add: h_def)
qed

lemma find_tree_contract:
  "map_option (map_option (\<lambda>r. (rt_name r, rt_args r))) (find_tree m path) =
   map_option (\<lambda>(ops, args). map_option (\<lambda>oper. (oper, args)) (map_of ops m)) (lookup_path contract path)"
proof -
  let ?g = "\<lambda>f args. map_option (\<lambda>r. (rt_name r, rt_args r)) (f args)"
  let ?h = "\<lambda>ops args. map_option (\<lambda>oper. (oper, args)) (map_of ops m)"
  obtain T where T: "find_tree m = table T"
    and rel: "list_all2 (\<lambda>(p, f) (q, x). p = q \<and> (\<forall>args. args_of p args \<longrightarrow> ?g f args = ?h x args)) T contract"
    unfolding find_defs contract_def by (simp add: tree_simps) (force simp: find_method_def)
  have "map_option (map_option (\<lambda>r. (rt_name r, rt_args r))) (find_tree m path) =
      map_option (\<lambda>(f, args). ?g f args) (lookup_path T path)"
    unfolding T table_def by (simp add: option.map_comp comp_def case_prod_beta')
  also have "\<dots> = map_option (\<lambda>(ops, args). ?h ops args) (lookup_path contract path)"
    by (rule lookup_related [OF rel])
  finally show ?thesis .
qed

section \<open>Properties\<close>

lemma ServeHTTP_contract:
  "verdict_of (ServeHTTP unescape [] m u) = contract_verdict m (search_path unescape u)"
proof -
  let ?p = "search_path unescape u"
  have none: "lookup_path contract [] = None" by (simp add: contract_def)
  show ?thesis
  proof (cases "serve_tree m ?p")
    case None
    then have "lookup_path contract ?p = None" using serve_tree_contract [of m ?p] by simp
    with None show ?thesis
      by (cases ?p) (simp_all add: ServeHTTP_def cutPrefix_def contract_verdict_def)
  next
    case (Some r)
    then obtain ops args where "lookup_path contract ?p = Some (ops, args)"
        "verdict_of r = (case map_of ops m of Some oper \<Rightarrow> Call oper args | None \<Rightarrow> WrongMethod (allow_header ops))"
      using serve_tree_contract [of m ?p] by (cases "lookup_path contract ?p") auto
    with Some none show ?thesis
      by (cases ?p) (simp_all add: ServeHTTP_def cutPrefix_def contract_verdict_def)
  qed
qed

lemma ServeHTTP_Handle:
  assumes "contract_verdict m (search_path unescape u) = Call oper args"
  shows "ServeHTTP unescape [] m u = Handle oper args"
  using ServeHTTP_contract [of unescape m u] assms by (cases "ServeHTTP unescape [] m u") auto

text \<open>
  C26. The unrolled search serves the contract: for every method and every path it calls the
  operation that the table of paths names, with the argument cut from the path, answers with the
  allowed methods of the path when the method is another, and with not found for every path the
  contract does not have.
\<close>

theorem ServeHTTP_serves_contract:
  "verdict_of (ServeHTTP unescape [] m u) = contract_verdict m (search_path unescape u)"
  by (rule ServeHTTP_contract)

text \<open>
  The two copies of the search agree: \<open>FindPath\<close> describes a route exactly when \<open>ServeHTTP\<close>
  would call a handler, with that operation and the same arguments, decoded when the URL came
  with a raw path.
\<close>

theorem FindPath_agrees:
  "map_option (\<lambda>r. (rt_name r, rt_args r)) (FindPath unescape pathUnescape pre m u) =
   (case ServeHTTP unescape pre m u of
      Handle oper args \<Rightarrow>
        Some (oper, if url_RawPath u = [] then args
                    else map (\<lambda>a. case pathUnescape a of Some b \<Rightarrow> b | None \<Rightarrow> a) args)
    | _ \<Rightarrow> None)"
proof (cases "cutPrefix pre (search_path unescape u)")
  case None
  then show ?thesis by (simp add: FindPath_def ServeHTTP_def)
next
  case (Some elem)
  show ?thesis
  proof (cases "lookup_path contract elem")
    case None
    then have "serve_tree m elem = None" "find_tree m elem = None"
      using serve_tree_contract [of m elem] find_tree_contract [of m elem] by simp_all
    with Some show ?thesis by (cases elem) (simp_all add: FindPath_def ServeHTTP_def)
  next
    case (Some e)
    obtain ops args where e: "e = (ops, args)" by (cases e)
    have ne: "elem \<noteq> []" using Some by (auto simp: contract_def)
    obtain s where s: "serve_tree m elem = Some s"
        "verdict_of s = (case map_of ops m of Some oper \<Rightarrow> Call oper args | None \<Rightarrow> WrongMethod (allow_header ops))"
      using serve_tree_contract [of m elem] Some e by auto
    obtain f where f: "find_tree m elem = Some f"
        "map_option (\<lambda>r. (rt_name r, rt_args r)) f = map_option (\<lambda>oper. (oper, args)) (map_of ops m)"
      using find_tree_contract [of m elem] Some e by auto
    show ?thesis
      using \<open>cutPrefix pre (search_path unescape u) = Some elem\<close> ne s f
      by (cases "map_of ops m"; cases s; cases f; cases elem) (auto simp: FindPath_def ServeHTTP_def)
  qed
qed

end
