(* ===== verification/Api_Requests.thy ===== *)
theory Api_Requests
  imports Api_Required Api_Router Go_Url
begin

text \<open>
  What the generated server makes of a request before an operation runs: the parameters of
  \<^verbatim>\<open>oas_parameters_gen.go\<close>, the bodies of \<^verbatim>\<open>oas_request_decoders_gen.go\<close> and the checks of
  \<^verbatim>\<open>oas_validators_gen.go\<close>.

  The packages of ogen that read a path segment, a query parameter, a UUID or a time, that check a
  text against a rule, and \<^verbatim>\<open>jx\<close>, are fields of the record \<open>ogen_lib\<close>; so are the status and the text
  of a rejection. \<open>ol_Document\<close> is the first document of a body and whether the body ends after it.
  A request is what package \<^verbatim>\<open>net/http\<close> has parsed: the media type of its header, the values of each
  name of the query, the first cookie of each name, and its body, unless reading it failed.
\<close>

section \<open>Requests\<close>

record request =
  rq_Method :: string
  rq_URL :: url
  rq_Query :: "string \<Rightarrow> string list"
  rq_Cookie :: "string \<Rightarrow> string option"
  rq_MediaType :: "string option"
  rq_ContentLength :: int
  rq_Body :: "byte list option"
  rq_RequestMethod :: string
  rq_UserAgent :: string
  rq_RealIP :: "string option"

text \<open>Why a request was refused: the parameter, or what was wrong with the body.\<close>

datatype refusal =
    DecodeParam string
  | ParseMediaType
  | InvalidContentType string
  | BodyRequired
  | ReadBody
  | TrailingData
  | DecodeBody json_error
  | ValidateFields "string list"

text \<open>\<^verbatim>\<open>validate.String\<close> and \<^verbatim>\<open>validate.Int\<close>, with the fields the generated code sets.\<close>

record String_rule =
  vr_MinLength :: nat
  vr_MinLengthSet :: bool
  vr_MaxLength :: nat
  vr_MaxLengthSet :: bool
  vr_Email :: bool
  vr_Regex :: "string option"

record Int_rule =
  vi_MinSet :: bool
  vi_Min :: int
  vi_MaxSet :: bool
  vi_Max :: int

record ogen_lib =
  ol_json :: ogen
  ol_Document :: "byte list \<Rightarrow> (json \<times> bool) option"
  ol_PathValue :: "string \<Rightarrow> string option"
  ol_HasParam :: "string list \<Rightarrow> bool"
  ol_QueryValue :: "string list \<Rightarrow> string option"
  ol_QueryArray :: "string list \<Rightarrow> string list option"
  ol_ToUUID :: "string \<Rightarrow> uuid option"
  ol_ToBool :: "string \<Rightarrow> bool option"
  ol_ToInt32 :: "string \<Rightarrow> int option"
  ol_ToDateTime :: "string \<Rightarrow> time option"
  ol_String :: "String_rule \<Rightarrow> string \<Rightarrow> bool"
  ol_Int :: "Int_rule \<Rightarrow> int \<Rightarrow> bool"
  ol_ArrayLength :: "nat \<Rightarrow> nat \<Rightarrow> nat \<Rightarrow> bool"
  ol_Code :: "refusal \<Rightarrow> nat"
  ol_Text :: "refusal \<Rightarrow> string"

section \<open>Parameters\<close>

text \<open>\<^verbatim>\<open>url.PathUnescape\<close>: of a segment, which reads like a path.\<close>

abbreviation PathUnescape :: "string \<Rightarrow> string option" where
  "PathUnescape \<equiv> url_unescape EncodePath"

text \<open>A UUID in a segment of the path.\<close>

definition decode_path_uuid :: "ogen_lib \<Rightarrow> string \<Rightarrow> string \<Rightarrow> bool \<Rightarrow> refusal + uuid" where
  "decode_path_uuid L name arg escaped =
     (case (if escaped then PathUnescape arg else Some arg) of
        None \<Rightarrow> Inl (DecodeParam name)
      | Some param \<Rightarrow>
          if param = [] then Inl (DecodeParam name)
          else (case Option.bind (ol_PathValue L param) (ol_ToUUID L) of
                  None \<Rightarrow> Inl (DecodeParam name)
                | Some u \<Rightarrow> Inr u))"

definition decodeArchiveContextParams :: "ogen_lib \<Rightarrow> string list \<Rightarrow> bool \<Rightarrow> refusal + uuid" where
  "decodeArchiveContextParams L args escaped = decode_path_uuid L ''contextId'' (args ! 0) escaped"

definition decodeGetContextParams :: "ogen_lib \<Rightarrow> string list \<Rightarrow> bool \<Rightarrow> refusal + uuid" where
  "decodeGetContextParams L args escaped = decode_path_uuid L ''contextId'' (args ! 0) escaped"

definition decodeUpdateContextParams :: "ogen_lib \<Rightarrow> string list \<Rightarrow> bool \<Rightarrow> refusal + uuid" where
  "decodeUpdateContextParams L args escaped = decode_path_uuid L ''contextId'' (args ! 0) escaped"

definition decodeRevokeSessionParams :: "ogen_lib \<Rightarrow> string list \<Rightarrow> bool \<Rightarrow> refusal + uuid" where
  "decodeRevokeSessionParams L args escaped = decode_path_uuid L ''sessionId'' (args ! 0) escaped"

definition decodeUnlinkAuthProviderParams :: "ogen_lib \<Rightarrow> string list \<Rightarrow> bool \<Rightarrow> refusal + uuid" where
  "decodeUnlinkAuthProviderParams L args escaped = decode_path_uuid L ''providerId'' (args ! 0) escaped"

text \<open>
  A parameter of the query: \<^verbatim>\<open>q.HasParam(cfg)\<close>, then the value and its conversion. One that is not
  there leaves the default, or is an error when it is required.
\<close>

definition query_value :: "ogen_lib \<Rightarrow> (string \<Rightarrow> 'a option) \<Rightarrow> string \<Rightarrow> string list \<Rightarrow> refusal + 'a" where
  "query_value L conv name values =
     (case Option.bind (ol_QueryValue L values) conv of
        None \<Rightarrow> Inl (DecodeParam name)
      | Some v \<Rightarrow> Inr v)"

definition query_required :: "ogen_lib \<Rightarrow> (string \<Rightarrow> 'a option) \<Rightarrow> string \<Rightarrow> string list \<Rightarrow> refusal + 'a" where
  "query_required L conv name values =
     (if ol_HasParam L values then query_value L conv name values else Inl (DecodeParam name))"

definition query_optional ::
  "ogen_lib \<Rightarrow> (string \<Rightarrow> 'a option) \<Rightarrow> ('a \<Rightarrow> bool) \<Rightarrow> string \<Rightarrow> 'a Opt \<Rightarrow> string list \<Rightarrow> refusal + 'a Opt" where
  "query_optional L conv valid name dflt values =
     (if ol_HasParam L values
      then (case query_value L conv name values of
              Inl e \<Rightarrow> Inl e
            | Inr v \<Rightarrow> if valid v then Inr (Opt_SetTo v dflt) else Inl (DecodeParam name))
      else Inr dflt)"

definition decodeCompleteGoogleSignInParams ::
  "ogen_lib \<Rightarrow> (string \<Rightarrow> string list) \<Rightarrow> refusal + CompleteGoogleSignInParams" where
  "decodeCompleteGoogleSignInParams L q =
     (case query_required L Some ''code'' (q ''code'') of
        Inl e \<Rightarrow> Inl e
      | Inr code \<Rightarrow>
          (case query_required L Some ''state'' (q ''state'') of
             Inl e \<Rightarrow> Inl e
           | Inr state \<Rightarrow>
               (case query_optional L Some (\<lambda>_. True) ''error'' (Opt_Reset []) (q ''error'') of
                  Inl e \<Rightarrow> Inl e
                | Inr err \<Rightarrow> Inr \<lparr>cgp_Code = code, cgp_State = state, cgp_Error = err\<rparr>)))"

abbreviation text_rule :: "nat \<Rightarrow> nat \<Rightarrow> String_rule" where
  "text_rule lo hi \<equiv> \<lparr>vr_MinLength = lo, vr_MinLengthSet = (lo > 0), vr_MaxLength = hi, vr_MaxLengthSet = True,
     vr_Email = False, vr_Regex = None\<rparr>"

definition returnTo_rule :: String_rule where
  "returnTo_rule = (text_rule 0 512)\<lparr>vr_Regex := Some ''^/([^/].*)?$''\<rparr>"

definition decodeStartGoogleSignInParams :: "ogen_lib \<Rightarrow> (string \<Rightarrow> string list) \<Rightarrow> refusal + string Opt" where
  "decodeStartGoogleSignInParams L q =
     query_optional L Some (ol_String L returnTo_rule) ''returnTo'' (Opt_SetTo ''/'' (Opt_Reset [])) (q ''returnTo'')"

definition decodeListContextsParams :: "ogen_lib \<Rightarrow> (string \<Rightarrow> string list) \<Rightarrow> refusal + bool Opt" where
  "decodeListContextsParams L q =
     query_optional L (ol_ToBool L) (\<lambda>_. True) ''includeArchived'' (Opt_SetTo False (Opt_Reset False)) (q ''includeArchived'')"

definition decodeListAccountsParams :: "ogen_lib \<Rightarrow> (string \<Rightarrow> string list) \<Rightarrow> refusal + uuid Opt" where
  "decodeListAccountsParams L q =
     query_optional L (ol_ToUUID L) (\<lambda>_. True) ''contextId'' (Opt_Reset 0) (q ''contextId'')"

text \<open>The array of \<^verbatim>\<open>contextIds\<close>: a slice that stayed nil is refused, and its length is checked.\<close>

definition decodeContextIds :: "ogen_lib \<Rightarrow> string list \<Rightarrow> refusal + uuid list" where
  "decodeContextIds L values =
     (if \<not> ol_HasParam L values then Inl (DecodeParam ''contextIds'')
      else case Option.bind (ol_QueryArray L values) (\<lambda>vs. those (map (ol_ToUUID L) vs)) of
             None \<Rightarrow> Inl (DecodeParam ''contextIds'')
           | Some ids \<Rightarrow>
               if ids = [] then Inl (DecodeParam ''contextIds'')
               else if ol_ArrayLength L 1 50 (length ids) then Inr ids
               else Inl (DecodeParam ''contextIds''))"

definition decodeListSignalsParams :: "ogen_lib \<Rightarrow> (string \<Rightarrow> string list) \<Rightarrow> refusal + ListSignalsParams" where
  "decodeListSignalsParams L q =
     (case decodeContextIds L (q ''contextIds'') of
        Inl e \<Rightarrow> Inl e
      | Inr ids \<Rightarrow>
          (case query_optional L (ol_ToDateTime L) (\<lambda>_. True) ''before'' (Opt_Reset zero_time) (q ''before'') of
             Inl e \<Rightarrow> Inl e
           | Inr before \<Rightarrow>
               (case query_optional L (ol_ToInt32 L)
                       (ol_Int L \<lparr>vi_MinSet = True, vi_Min = 1, vi_MaxSet = True, vi_Max = 200\<rparr>)
                       ''limit'' (Opt_SetTo 50 (Opt_Reset 0)) (q ''limit'') of
                  Inl e \<Rightarrow> Inl e
                | Inr limit \<Rightarrow> Inr \<lparr>lsp_ContextIds = ids, lsp_Before = before, lsp_Limit = limit\<rparr>)))"

section \<open>Validators\<close>

text \<open>
  A validator runs every check and collects the names of the fields that fail; the \<open>failures\<close> are
  the names of the checks that are false.
\<close>

definition failures :: "(string \<times> bool) list \<Rightarrow> string list" where
  "failures checks = map fst (filter (\<lambda>c. \<not> snd c) checks)"

definition if_Opt :: "('a \<Rightarrow> bool) \<Rightarrow> 'a Opt \<Rightarrow> bool" where
  "if_Opt p o1 = (case Opt_Get o1 of Some v \<Rightarrow> p v | None \<Rightarrow> True)"

definition if_OptNil :: "('a \<Rightarrow> bool) \<Rightarrow> 'a OptNil \<Rightarrow> bool" where
  "if_OptNil p o1 = (case OptNil_Get o1 of Some v \<Rightarrow> p v | None \<Rightarrow> True)"

definition ContextColor_Validate :: "string \<Rightarrow> bool" where
  "ContextColor_Validate s = (s \<in> set [''slate'', ''blue'', ''violet'', ''green'', ''teal'', ''rose''])"

definition CommitmentDirection_Validate :: "string \<Rightarrow> bool" where
  "CommitmentDirection_Validate s = (s \<in> set [''i_owe'', ''owed_to_me''])"

definition email_rule :: String_rule where
  "email_rule = (text_rule 0 320)\<lparr>vr_Email := True\<rparr>"

definition slug_rule :: String_rule where
  "slug_rule = (text_rule 1 64)\<lparr>vr_Regex := Some ''^[a-z0-9][a-z0-9_-]*$''\<rparr>"

definition LoginRequest_Validate :: "ogen_lib \<Rightarrow> LoginRequest \<Rightarrow> string list" where
  "LoginRequest_Validate L s = failures
     [(''email'', ol_String L email_rule (lr_Email s)),
      (''password'', ol_String L (text_rule 0 128) (lr_Password s))]"

definition RegisterRequest_Validate :: "ogen_lib \<Rightarrow> RegisterRequest \<Rightarrow> string list" where
  "RegisterRequest_Validate L s = failures
     [(''email'', ol_String L email_rule (rgr_Email s)),
      (''password'', ol_String L (text_rule 12 128) (rgr_Password s)),
      (''displayName'', ol_String L (text_rule 1 200) (rgr_DisplayName s))]"

definition CreateContextRequest_Validate :: "ogen_lib \<Rightarrow> CreateContextRequest \<Rightarrow> string list" where
  "CreateContextRequest_Validate L s = failures
     [(''slug'', ol_String L slug_rule (ccr_Slug s)),
      (''name'', ol_String L (text_rule 1 200) (ccr_Name s)),
      (''color'', if_OptNil ContextColor_Validate (ccr_Color s)),
      (''toneProfile'', if_Opt (ol_String L (text_rule 0 2000)) (ccr_ToneProfile s))]"

definition UpdateContextRequest_Validate :: "ogen_lib \<Rightarrow> UpdateContextRequest \<Rightarrow> string list" where
  "UpdateContextRequest_Validate L s = failures
     [(''name'', if_Opt (ol_String L (text_rule 1 200)) (ucr_Name s)),
      (''color'', if_OptNil ContextColor_Validate (ucr_Color s)),
      (''toneProfile'', if_OptNil (ol_String L (text_rule 0 2000)) (ucr_ToneProfile s))]"

definition CreateTaskRequest_Validate :: "ogen_lib \<Rightarrow> CreateTaskRequest \<Rightarrow> string list" where
  "CreateTaskRequest_Validate L s = failures
     [(''title'', ol_String L (text_rule 1 500) (ctr_Title s)),
      (''detail'', if_OptNil (ol_String L (text_rule 0 20000)) (ctr_Detail s)),
      (''priority'', if_Opt (ol_Int L \<lparr>vi_MinSet = True, vi_Min = 1, vi_MaxSet = True, vi_Max = 5\<rparr>) (ctr_Priority s)),
      (''estimatedMinutes'',
         if_OptNil (ol_Int L \<lparr>vi_MinSet = True, vi_Min = 1, vi_MaxSet = False, vi_Max = 0\<rparr>) (ctr_EstimatedMinutes s))]"

definition CreateCommitmentRequest_Validate :: "ogen_lib \<Rightarrow> CreateCommitmentRequest \<Rightarrow> string list" where
  "CreateCommitmentRequest_Validate L s = failures
     [(''direction'', CommitmentDirection_Validate (cmr_Direction s)),
      (''what'', ol_String L (text_rule 1 1000) (cmr_What s))]"

section \<open>Bodies\<close>

definition decode_body :: "ogen_lib \<Rightarrow> 'a decoder \<Rightarrow> ('a \<Rightarrow> string list) \<Rightarrow> request \<Rightarrow> refusal + 'a" where
  "decode_body L dec validate r =
     (case rq_MediaType r of
        None \<Rightarrow> Inl ParseMediaType
      | Some ct \<Rightarrow>
          if ct \<noteq> ''application/json'' then Inl (InvalidContentType ct)
          else if rq_ContentLength r = 0 then Inl BodyRequired
          else
            (case rq_Body r of
               None \<Rightarrow> Inl ReadBody
             | Some buf \<Rightarrow>
                 if buf = [] then Inl BodyRequired
                 else
                   (case ol_Document L buf of
                      None \<Rightarrow> Inl (DecodeBody JxError)
                    | Some (j, ended) \<Rightarrow>
                        (case dec j of
                           Inl e \<Rightarrow> Inl (DecodeBody e)
                         | Inr req \<Rightarrow>
                             if \<not> ended then Inl TrailingData
                             else
                               (case validate req of
                                  [] \<Rightarrow> Inr req
                                | fs \<Rightarrow> Inl (ValidateFields fs))))))"

definition decodeLoginRequest :: "ogen_lib \<Rightarrow> request \<Rightarrow> refusal + LoginRequest" where
  "decodeLoginRequest L = decode_body L LoginRequest_Decode (LoginRequest_Validate L)"

definition decodeRegisterRequest :: "ogen_lib \<Rightarrow> request \<Rightarrow> refusal + RegisterRequest" where
  "decodeRegisterRequest L = decode_body L RegisterRequest_Decode (RegisterRequest_Validate L)"

definition decodeCreateContextRequest :: "ogen_lib \<Rightarrow> request \<Rightarrow> refusal + CreateContextRequest" where
  "decodeCreateContextRequest L =
     decode_body L (CreateContextRequest_Decode (ol_json L)) (CreateContextRequest_Validate L)"

definition decodeUpdateContextRequest :: "ogen_lib \<Rightarrow> request \<Rightarrow> refusal + UpdateContextRequest" where
  "decodeUpdateContextRequest L =
     decode_body L (UpdateContextRequest_Decode (ol_json L)) (UpdateContextRequest_Validate L)"

definition decodeCreateTaskRequest :: "ogen_lib \<Rightarrow> request \<Rightarrow> refusal + CreateTaskRequest" where
  "decodeCreateTaskRequest L =
     decode_body L (CreateTaskRequest_Decode (ol_json L)) (CreateTaskRequest_Validate L)"

definition decodeCreateCommitmentRequest :: "ogen_lib \<Rightarrow> request \<Rightarrow> refusal + CreateCommitmentRequest" where
  "decodeCreateCommitmentRequest L =
     decode_body L (CreateCommitmentRequest_Decode (ol_json L)) (CreateCommitmentRequest_Validate L)"

end
