(* ===== verification/Http_Server.thy ===== *)
theory Http_Server
  imports Http_Handlers Api_Requests
begin

text \<open>
  A request from the router to the bytes of the answer: the security check of \<^verbatim>\<open>oas_security_gen.go\<close>
  and \<^verbatim>\<open>httpapi/security.go\<close>, the handlers \<^verbatim>\<open>handle...Request\<close> of \<^verbatim>\<open>oas_handlers_gen.go\<close>, the encoders of
  \<^verbatim>\<open>oas_response_encoders_gen.go\<close>, and the dispatch of \<^verbatim>\<open>ServeHTTP\<close>.

  Traces, metrics and logs are left out. The server is built without ogen middleware
  (\<^verbatim>\<open>httpapi/server.go\<close>), so the branch for one is not there. An operation that panics is answered by
  echo's recovery with the same status and envelope as an error nobody knows.
\<close>

section \<open>Answers\<close>

record response =
  rs_status :: nat
  rs_headers :: "(string \<times> string) list"
  rs_cookies :: "cookie list"
  rs_body :: "json option"

record server =
  sv_env :: env
  sv_oidc :: oidc
  sv_parseHost :: "string \<Rightarrow> string \<Rightarrow> string option"
  sv_handler :: Handler
  sv_lib :: ogen_lib
  sv_clock :: "nat \<Rightarrow> time"
  sv_text :: "api_error \<Rightarrow> string"
  sv_unescape :: "string \<Rightarrow> string option"
  sv_ToUpper :: "string \<Rightarrow> string"

abbreviation json_type :: "string \<times> string" where
  "json_type \<equiv> (''Content-Type'', ''application/json; charset=utf-8'')"

abbreviation exposed :: "string \<Rightarrow> string \<times> string" where
  "exposed names \<equiv> (''Access-Control-Expose-Headers'', names)"

text \<open>\<^verbatim>\<open>w.Header().Set("Content-Type", ...); w.WriteHeader(status); response.Encode(e)\<close>.\<close>

definition json_response :: "nat \<Rightarrow> json \<Rightarrow> response" where
  "json_response status j = \<lparr>rs_status = status, rs_headers = [json_type], rs_cookies = [], rs_body = Some j\<rparr>"

definition no_content :: response where
  "no_content = \<lparr>rs_status = 204, rs_headers = [], rs_cookies = [], rs_body = None\<rparr>"

definition error_body :: "string \<Rightarrow> string \<Rightarrow> json" where
  "error_body code message =
     ErrorEnvelope_Encode \<lparr>er_Code = code, er_Message = message, er_Details = Opt_Reset []\<rparr>"

definition error_response :: "nat \<Rightarrow> string \<Rightarrow> string \<Rightarrow> response" where
  "error_response status code message = json_response status (error_body code message)"

text \<open>What \<^verbatim>\<open>writeEnvelope\<close> wrote.\<close>

definition written :: "envelope \<Rightarrow> response" where
  "written en = \<lparr>rs_status = en_status en, rs_headers = en_headers en, rs_cookies = [],
     rs_body = Some (error_body (en_code en) (en_message en))\<rparr>"

definition encodeErrorResponse :: "envelope \<Rightarrow> response" where
  "encodeErrorResponse en =
     error_response (if en_status en = 0 then 200 else en_status en) (en_code en) (en_message en)"

section \<open>oas\_response\_encoders\_gen.go\<close>

text \<open>\<open>None\<close> is the error \<^verbatim>\<open>unexpected response type\<close>.\<close>

fun encodeArchiveContextResponse :: "api_response \<Rightarrow> response option" where
  "encodeArchiveContextResponse ArchiveContextNoContent = Some no_content"
| "encodeArchiveContextResponse (ArchiveContextUnauthorized code msg) = Some (error_response 401 code msg)"
| "encodeArchiveContextResponse (ArchiveContextNotFound code msg) = Some (error_response 404 code msg)"
| "encodeArchiveContextResponse (ArchiveContextConflict code msg) = Some (error_response 409 code msg)"
| "encodeArchiveContextResponse r = None"

fun encodeCompleteGoogleSignInResponse :: "api_response \<Rightarrow> response option" where
  "encodeCompleteGoogleSignInResponse (CompleteGoogleSignInFound location cookies) =
     Some \<lparr>rs_status = 302, rs_headers = [exposed ''Location,Set-Cookie'', (''Location'', location)],
           rs_cookies = cookies, rs_body = None\<rparr>"
| "encodeCompleteGoogleSignInResponse (ErrorEnvelope code msg) = Some (error_response 401 code msg)"
| "encodeCompleteGoogleSignInResponse r = None"

fun encodeCreateContextResponse :: "ogen \<Rightarrow> api_response \<Rightarrow> response option" where
  "encodeCreateContextResponse G (ContextRes c) = Some (json_response 201 (Context_Encode G c))"
| "encodeCreateContextResponse G (CreateContextConflict code msg) = Some (error_response 409 code msg)"
| "encodeCreateContextResponse G (CreateContextUnprocessableEntity code msg) = Some (error_response 422 code msg)"
| "encodeCreateContextResponse G r = None"

fun encodeGetContextResponse :: "ogen \<Rightarrow> api_response \<Rightarrow> response option" where
  "encodeGetContextResponse G (ContextRes c) = Some (json_response 200 (Context_Encode G c))"
| "encodeGetContextResponse G (ErrorEnvelope code msg) = Some (error_response 404 code msg)"
| "encodeGetContextResponse G r = None"

fun encodeGetCurrentSessionResponse :: "ogen \<Rightarrow> api_response \<Rightarrow> response option" where
  "encodeGetCurrentSessionResponse G (CurrentSessionRes c) = Some (json_response 200 (CurrentSession_Encode G c))"
| "encodeGetCurrentSessionResponse G (ErrorEnvelope code msg) = Some (error_response 401 code msg)"
| "encodeGetCurrentSessionResponse G r = None"

fun encodeListAuthProvidersResponse :: "ogen \<Rightarrow> api_response \<Rightarrow> response option" where
  "encodeListAuthProvidersResponse G (LinkedProviderList ps) = Some (json_response 200 (LinkedProviderList_Encode G ps))"
| "encodeListAuthProvidersResponse G (ErrorEnvelope code msg) = Some (error_response 401 code msg)"
| "encodeListAuthProvidersResponse G r = None"

fun encodeListContextsResponse :: "ogen \<Rightarrow> api_response \<Rightarrow> response option" where
  "encodeListContextsResponse G (ContextList cs) = Some (json_response 200 (ContextList_Encode G cs))"
| "encodeListContextsResponse G r = None"

fun encodeListSessionsResponse :: "ogen \<Rightarrow> api_response \<Rightarrow> response option" where
  "encodeListSessionsResponse G (SessionList ss) = Some (json_response 200 (SessionList_Encode G ss))"
| "encodeListSessionsResponse G (ErrorEnvelope code msg) = Some (error_response 401 code msg)"
| "encodeListSessionsResponse G r = None"

fun encodeLoginResponse :: "ogen \<Rightarrow> api_response \<Rightarrow> response option" where
  "encodeLoginResponse G (CurrentSessionHeaders cookies c) =
     Some \<lparr>rs_status = 200, rs_headers = [json_type, exposed ''Set-Cookie''], rs_cookies = cookies,
           rs_body = Some (CurrentSession_Encode G c)\<rparr>"
| "encodeLoginResponse G (ErrorEnvelope code msg) = Some (error_response 401 code msg)"
| "encodeLoginResponse G (ErrorEnvelopeHeaders retry code msg) =
     Some \<lparr>rs_status = 429,
           rs_headers = [json_type, exposed ''Retry-After'', (''Retry-After'', Sprintf_d (nat retry))],
           rs_cookies = [], rs_body = Some (error_body code msg)\<rparr>"
| "encodeLoginResponse G r = None"

fun encodeRegisterResponse :: "ogen \<Rightarrow> api_response \<Rightarrow> response option" where
  "encodeRegisterResponse G (CurrentSessionHeaders cookies c) =
     Some \<lparr>rs_status = 201, rs_headers = [json_type, exposed ''Set-Cookie''], rs_cookies = cookies,
           rs_body = Some (CurrentSession_Encode G c)\<rparr>"
| "encodeRegisterResponse G (ErrorEnvelope code msg) = Some (error_response 409 code msg)"
| "encodeRegisterResponse G r = None"

fun encodeRevokeSessionResponse :: "api_response \<Rightarrow> response option" where
  "encodeRevokeSessionResponse RevokeSessionNoContent = Some no_content"
| "encodeRevokeSessionResponse (RevokeSessionUnauthorized code msg) = Some (error_response 401 code msg)"
| "encodeRevokeSessionResponse (RevokeSessionNotFound code msg) = Some (error_response 404 code msg)"
| "encodeRevokeSessionResponse r = None"

fun encodeSignOutResponse :: "api_response \<Rightarrow> response option" where
  "encodeSignOutResponse (SignOutNoContent cookies) =
     Some \<lparr>rs_status = 204, rs_headers = [exposed ''Set-Cookie''], rs_cookies = cookies, rs_body = None\<rparr>"
| "encodeSignOutResponse (ErrorEnvelope code msg) = Some (error_response 401 code msg)"
| "encodeSignOutResponse r = None"

fun encodeStartGoogleSignInResponse :: "api_response \<Rightarrow> response option" where
  "encodeStartGoogleSignInResponse (StartGoogleSignInFound location cookies) =
     Some \<lparr>rs_status = 302, rs_headers = [exposed ''Location,Set-Cookie'', (''Location'', location)],
           rs_cookies = cookies, rs_body = None\<rparr>"
| "encodeStartGoogleSignInResponse r = None"

fun encodeUnlinkAuthProviderResponse :: "api_response \<Rightarrow> response option" where
  "encodeUnlinkAuthProviderResponse UnlinkAuthProviderNoContent = Some no_content"
| "encodeUnlinkAuthProviderResponse (UnlinkAuthProviderUnauthorized code msg) = Some (error_response 401 code msg)"
| "encodeUnlinkAuthProviderResponse (UnlinkAuthProviderNotFound code msg) = Some (error_response 404 code msg)"
| "encodeUnlinkAuthProviderResponse (UnlinkAuthProviderConflict code msg) = Some (error_response 409 code msg)"
| "encodeUnlinkAuthProviderResponse r = None"

fun encodeUpdateContextResponse :: "ogen \<Rightarrow> api_response \<Rightarrow> response option" where
  "encodeUpdateContextResponse G (ContextRes c) = Some (json_response 200 (Context_Encode G c))"
| "encodeUpdateContextResponse G (UpdateContextUnauthorized code msg) = Some (error_response 401 code msg)"
| "encodeUpdateContextResponse G (UpdateContextNotFound code msg) = Some (error_response 404 code msg)"
| "encodeUpdateContextResponse G (UpdateContextUnprocessableEntity code msg) = Some (error_response 422 code msg)"
| "encodeUpdateContextResponse G r = None"

section \<open>Security\<close>

definition HandleSessionCookie :: "server \<Rightarrow> string \<Rightarrow> world \<Rightarrow> (api_error + Principal) \<times> world" where
  "HandleSessionCookie S token w =
     (case AuthenticatePrincipal (sv_env S) (sv_clock S (w_tick w)) token w of
        (Inl err, w1) \<Rightarrow> (Inl (if errors_Is err ErrNoSession then HttpNoSession else Plain err), w1)
      | (Inr prin, w1) \<Rightarrow> (Inr prin, w1))"

text \<open>
  \<open>Inr None\<close>: the request has no such cookie. \<^verbatim>\<open>req.Cookie\<close> has no other error than
  \<^verbatim>\<open>http.ErrNoCookie\<close>, and the security handler never skips.
\<close>

definition securitySessionCookie ::
  "server \<Rightarrow> request \<Rightarrow> world \<Rightarrow> (api_error + (Principal \<times> string) option) \<times> world" where
  "securitySessionCookie S r w =
     (case rq_Cookie r sessionCookieName of
        None \<Rightarrow> (Inr None, w)
      | Some token \<Rightarrow>
          (case HandleSessionCookie S token w of
             (Inl err, w1) \<Rightarrow> (Inl err, w1)
           | (Inr prin, w1) \<Rightarrow> (Inr (Some (prin, token)), w1)))"

abbreviation ErrSecurityRequirementIsNotSatisfied :: api_error where
  "ErrSecurityRequirementIsNotSatisfied \<equiv> Plain (LibError ''security requirement is not satisfied'')"

section \<open>oas\_handlers\_gen.go\<close>

type_synonym served_request = "world \<Rightarrow> response \<times> world"

text \<open>What the middleware of \<^verbatim>\<open>httpapi/middleware.go\<close> put into the context of the request.\<close>

definition request_context :: "server \<Rightarrow> request \<Rightarrow> rctx" where
  "request_context S r = \<lparr>rc_principal = None, rc_token = [],
     rc_client = \<lparr>sic_UserAgent = rq_UserAgent r, sic_IP = rq_RealIP r\<rparr>,
     rc_flow = withOAuthFlow (rq_Cookie r oauthCookieName)\<rparr>"

definition secured :: "server \<Rightarrow> request \<Rightarrow> (rctx \<Rightarrow> served_request) \<Rightarrow> served_request" where
  "secured S r k w =
     (case securitySessionCookie S r w of
        (Inl err, w1) \<Rightarrow> (encodeErrorResponse (NewError (sv_text S) (SecurityError err)), w1)
      | (Inr None, w1) \<Rightarrow>
          (encodeErrorResponse (NewError (sv_text S) (SecurityError ErrSecurityRequirementIsNotSatisfied)), w1)
      | (Inr (Some (prin, token)), w1) \<Rightarrow>
          k ((request_context S r)\<lparr>rc_principal := Some prin, rc_token := token\<rparr>) w1)"

definition decoded :: "server \<Rightarrow> refusal + 'a \<Rightarrow> ('a \<Rightarrow> served_request) \<Rightarrow> served_request" where
  "decoded S d k w =
     (case d of
        Inl e \<Rightarrow> (written (ogenErrorHandler (sv_text S) (Rejected (ol_Code (sv_lib S) e) (ol_Text (sv_lib S) e))), w)
      | Inr x \<Rightarrow> k x w)"

text \<open>The operation, then \<^verbatim>\<open>NewError\<close> or the encoder.\<close>

definition answered :: "server \<Rightarrow> (api_response \<Rightarrow> response option) \<Rightarrow> handler \<Rightarrow> served_request" where
  "answered S enc h w =
     (case h w of
        (Inl err, w1) \<Rightarrow>
          (if ErrNotImplemented \<in> set (api_chain err) then written (ogenErrorHandler (sv_text S) err)
           else encodeErrorResponse (NewError (sv_text S) err), w1)
      | (Inr res, w1) \<Rightarrow>
          (case enc res of
             Some resp \<Rightarrow> resp
           | None \<Rightarrow> written (ogenErrorHandler (sv_text S) (Plain (LibError ''unexpected response type''))), w1))"

abbreviation sv_json :: "server \<Rightarrow> ogen" where "sv_json S \<equiv> ol_json (sv_lib S)"

definition handleArchiveContextRequest :: "server \<Rightarrow> string list \<Rightarrow> bool \<Rightarrow> request \<Rightarrow> served_request" where
  "handleArchiveContextRequest S args escaped r = secured S r (\<lambda>c.
     decoded S (decodeArchiveContextParams (sv_lib S) args escaped) (\<lambda>contextID.
     answered S encodeArchiveContextResponse (Handler_ArchiveContext (sv_env S) c contextID)))"

definition handleCompleteGoogleSignInRequest :: "server \<Rightarrow> request \<Rightarrow> served_request" where
  "handleCompleteGoogleSignInRequest S r =
     decoded S (decodeCompleteGoogleSignInParams (sv_lib S) (rq_Query r)) (\<lambda>params.
     answered S encodeCompleteGoogleSignInResponse
       (Handler_CompleteGoogleSignIn (sv_env S) (sv_oidc S) (sv_parseHost S) (sv_handler S) (sv_clock S)
         (request_context S r) params))"

definition handleCreateCommitmentRequest :: "server \<Rightarrow> request \<Rightarrow> served_request" where
  "handleCreateCommitmentRequest S r = secured S r (\<lambda>c.
     decoded S (decodeCreateCommitmentRequest (sv_lib S) r) (\<lambda>request.
     answered S (\<lambda>_. None) UnimplementedHandler))"

definition handleCreateContextRequest :: "server \<Rightarrow> request \<Rightarrow> served_request" where
  "handleCreateContextRequest S r = secured S r (\<lambda>c.
     decoded S (decodeCreateContextRequest (sv_lib S) r) (\<lambda>request.
     answered S (encodeCreateContextResponse (sv_json S)) (Handler_CreateContext (sv_env S) c request)))"

definition handleCreateTaskRequest :: "server \<Rightarrow> request \<Rightarrow> served_request" where
  "handleCreateTaskRequest S r = secured S r (\<lambda>c.
     decoded S (decodeCreateTaskRequest (sv_lib S) r) (\<lambda>request.
     answered S (\<lambda>_. None) (Handler_CreateTask c)))"

definition handleGetContextRequest :: "server \<Rightarrow> string list \<Rightarrow> bool \<Rightarrow> request \<Rightarrow> served_request" where
  "handleGetContextRequest S args escaped r = secured S r (\<lambda>c.
     decoded S (decodeGetContextParams (sv_lib S) args escaped) (\<lambda>contextID.
     answered S (encodeGetContextResponse (sv_json S)) (Handler_GetContext (sv_env S) c contextID)))"

definition handleGetCurrentSessionRequest :: "server \<Rightarrow> request \<Rightarrow> served_request" where
  "handleGetCurrentSessionRequest S r = secured S r (\<lambda>c.
     answered S (encodeGetCurrentSessionResponse (sv_json S)) (Handler_GetCurrentSession (sv_env S) (sv_clock S) c))"

definition handleListAccountsRequest :: "server \<Rightarrow> request \<Rightarrow> served_request" where
  "handleListAccountsRequest S r = secured S r (\<lambda>c.
     decoded S (decodeListAccountsParams (sv_lib S) (rq_Query r)) (\<lambda>params.
     answered S (\<lambda>_. None) UnimplementedHandler))"

definition handleListAuthProvidersRequest :: "server \<Rightarrow> request \<Rightarrow> served_request" where
  "handleListAuthProvidersRequest S r = secured S r (\<lambda>c.
     answered S (encodeListAuthProvidersResponse (sv_json S)) (Handler_ListAuthProviders (sv_env S) c))"

definition handleListContextsRequest :: "server \<Rightarrow> request \<Rightarrow> served_request" where
  "handleListContextsRequest S r = secured S r (\<lambda>c.
     decoded S (decodeListContextsParams (sv_lib S) (rq_Query r)) (\<lambda>includeArchived.
     answered S (encodeListContextsResponse (sv_json S)) (Handler_ListContexts (sv_env S) c includeArchived)))"

definition handleListSessionsRequest :: "server \<Rightarrow> request \<Rightarrow> served_request" where
  "handleListSessionsRequest S r = secured S r (\<lambda>c.
     answered S (encodeListSessionsResponse (sv_json S)) (Handler_ListSessions (sv_env S) (sv_clock S) c))"

definition handleListSignalsRequest :: "server \<Rightarrow> request \<Rightarrow> served_request" where
  "handleListSignalsRequest S r = secured S r (\<lambda>c.
     decoded S (decodeListSignalsParams (sv_lib S) (rq_Query r)) (\<lambda>params.
     answered S (\<lambda>_. None) UnimplementedHandler))"

definition handleLoginRequest :: "server \<Rightarrow> request \<Rightarrow> served_request" where
  "handleLoginRequest S r =
     decoded S (decodeLoginRequest (sv_lib S) r) (\<lambda>request.
     answered S (encodeLoginResponse (sv_json S))
       (Handler_Login (sv_env S) (sv_handler S) (sv_clock S) (request_context S r) request))"

definition handleRegisterRequest :: "server \<Rightarrow> request \<Rightarrow> served_request" where
  "handleRegisterRequest S r =
     decoded S (decodeRegisterRequest (sv_lib S) r) (\<lambda>request.
     answered S (encodeRegisterResponse (sv_json S))
       (Handler_Register (sv_env S) (sv_handler S) (sv_clock S) (sv_text S) (request_context S r) request))"

definition handleRevokeSessionRequest :: "server \<Rightarrow> string list \<Rightarrow> bool \<Rightarrow> request \<Rightarrow> served_request" where
  "handleRevokeSessionRequest S args escaped r = secured S r (\<lambda>c.
     decoded S (decodeRevokeSessionParams (sv_lib S) args escaped) (\<lambda>sessionID.
     answered S encodeRevokeSessionResponse (Handler_RevokeSession (sv_env S) (sv_clock S) c sessionID)))"

definition handleSignOutRequest :: "server \<Rightarrow> request \<Rightarrow> served_request" where
  "handleSignOutRequest S r = secured S r (\<lambda>c.
     answered S encodeSignOutResponse (Handler_SignOut (sv_env S) (sv_handler S) (sv_clock S) c))"

definition handleStartGoogleSignInRequest :: "server \<Rightarrow> request \<Rightarrow> served_request" where
  "handleStartGoogleSignInRequest S r =
     decoded S (decodeStartGoogleSignInParams (sv_lib S) (rq_Query r)) (\<lambda>returnTo.
     answered S encodeStartGoogleSignInResponse
       (Handler_StartGoogleSignIn (sv_env S) (sv_oidc S) (sv_handler S) (sv_clock S) returnTo))"

definition handleUnlinkAuthProviderRequest :: "server \<Rightarrow> string list \<Rightarrow> bool \<Rightarrow> request \<Rightarrow> served_request" where
  "handleUnlinkAuthProviderRequest S args escaped r = secured S r (\<lambda>c.
     decoded S (decodeUnlinkAuthProviderParams (sv_lib S) args escaped) (\<lambda>providerID.
     answered S encodeUnlinkAuthProviderResponse (Handler_UnlinkAuthProvider (sv_env S) c providerID)))"

definition handleUpdateContextRequest :: "server \<Rightarrow> string list \<Rightarrow> bool \<Rightarrow> request \<Rightarrow> served_request" where
  "handleUpdateContextRequest S args escaped r = secured S r (\<lambda>c.
     decoded S (decodeUpdateContextParams (sv_lib S) args escaped) (\<lambda>contextID.
     decoded S (decodeUpdateContextRequest (sv_lib S) r) (\<lambda>request.
     answered S (encodeUpdateContextResponse (sv_json S)) (Handler_UpdateContext (sv_env S) c request contextID))))"

section \<open>Dispatch\<close>

fun handle_request :: "server \<Rightarrow> Operation \<Rightarrow> string list \<Rightarrow> bool \<Rightarrow> request \<Rightarrow> served_request" where
  "handle_request S OpArchiveContext args escaped r = handleArchiveContextRequest S args escaped r"
| "handle_request S OpCompleteGoogleSignIn args escaped r = handleCompleteGoogleSignInRequest S r"
| "handle_request S OpCreateCommitment args escaped r = handleCreateCommitmentRequest S r"
| "handle_request S OpCreateContext args escaped r = handleCreateContextRequest S r"
| "handle_request S OpCreateTask args escaped r = handleCreateTaskRequest S r"
| "handle_request S OpGetContext args escaped r = handleGetContextRequest S args escaped r"
| "handle_request S OpGetCurrentSession args escaped r = handleGetCurrentSessionRequest S r"
| "handle_request S OpListAccounts args escaped r = handleListAccountsRequest S r"
| "handle_request S OpListAuthProviders args escaped r = handleListAuthProvidersRequest S r"
| "handle_request S OpListContexts args escaped r = handleListContextsRequest S r"
| "handle_request S OpListSessions args escaped r = handleListSessionsRequest S r"
| "handle_request S OpListSignals args escaped r = handleListSignalsRequest S r"
| "handle_request S OpLogin args escaped r = handleLoginRequest S r"
| "handle_request S OpRegister args escaped r = handleRegisterRequest S r"
| "handle_request S OpRevokeSession args escaped r = handleRevokeSessionRequest S args escaped r"
| "handle_request S OpSignOut args escaped r = handleSignOutRequest S r"
| "handle_request S OpStartGoogleSignIn args escaped r = handleStartGoogleSignInRequest S r"
| "handle_request S OpUnlinkAuthProvider args escaped r = handleUnlinkAuthProviderRequest S args escaped r"
| "handle_request S OpUpdateContext args escaped r = handleUpdateContextRequest S args escaped r"

text \<open>\<^verbatim>\<open>baseServer.notAllowed\<close>: the server sets a \<^verbatim>\<open>MethodNotAllowed\<close>, so it always ends there.\<close>

definition preflight_headers :: "server \<Rightarrow> request \<Rightarrow> notAllowedParams \<Rightarrow> (string \<times> string) list" where
  "preflight_headers S r p =
     (if rq_Method r = ''OPTIONS''
      then (''Access-Control-Allow-Methods'', na_allowedMethods p) #
        (case na_allowedHeaders p of
           None \<Rightarrow> []
         | Some hs \<Rightarrow>
             if rq_RequestMethod r = [] then []
             else (case map_of hs (sv_ToUpper S (rq_RequestMethod r)) of
                     None \<Rightarrow> []
                   | Some h \<Rightarrow> [(''Access-Control-Allow-Headers'', h)])) @
        (if na_acceptPost p \<noteq> [] then [(''Accept-Post'', na_acceptPost p)] else []) @
        (if na_acceptPatch p \<noteq> [] then [(''Accept-Patch'', na_acceptPatch p)] else [])
      else [])"

definition notAllowed :: "server \<Rightarrow> request \<Rightarrow> notAllowedParams \<Rightarrow> response" where
  "notAllowed S r p = written (methodNotAllowedHandler (preflight_headers S r p) (na_allowedMethods p))"

definition serve_request :: "server \<Rightarrow> request \<Rightarrow> served_request" where
  "serve_request S r w =
     (case ServeHTTP (sv_unescape S) [] (rq_Method r) (rq_URL r) of
        NotFound \<Rightarrow> (written notFoundHandler, w)
      | NotAllowed p \<Rightarrow> (notAllowed S r p, w)
      | Handle oper args \<Rightarrow> handle_request S oper args (elem_escaped (sv_unescape S) (rq_URL r)) r w)"

end
