(* ===== verification/Contexts_Safety.thy ===== *)
theory Contexts_Safety
  imports Contexts_Service Auth_Safety
begin

text \<open>
  Safety of the service of contexts: its checks and the statements together keep the tree a
  forest per owner, whatever fails; a call touches only rows of the caller; and the state the two
  services share stays sound through any interleaving of their calls.
\<close>

section \<open>Following a method to its one write\<close>

lemma reads_only_call [keeps_intro]:
  "reads_only m \<Longrightarrow> (\<And>x. reads_only (k x)) \<Longrightarrow> reads_only (call m h k)"
  unfolding reads_only_def call_def by (auto split: prod.splits sum.splits) (metis snd_conv)+

lemma reads_only_pure [keeps_intro]:
  "reads_only (return x)" "reads_only (throw e)" "reads_only (NewV7 E)"
  by (simp_all add: reads_only_def return_def throw_def NewV7_def split: option.split)

lemma reads_only_if [keeps_intro]: "reads_only a \<Longrightarrow> reads_only b \<Longrightarrow> reads_only (if c then a else b)"
  by simp

lemma reads_only_context_statements [keeps_intro]:
  "reads_only (run_query E (GetContext i))" "reads_only (run_query E (NextContextPosition u))"
  "reads_only (run_query E (IsDescendant a))" "reads_only (run_query E (CountLiveChildren c))"
  "reads_only (run_query E (ListContexts coll l))"
  by (rule reads_only_run_query,
      auto simp: GetContext_def NextContextPosition_def IsDescendant_def CountLiveChildren_def
        ListContexts_def Let_def split: option.splits list.splits if_splits)+

lemma reads_only_checks [keeps_intro]:
  "reads_only (Get E u i)" "reads_only (readParent E u p)" "reads_only (checkNewParent E u i q)"
  "reads_only (checkNoLiveChildren E i)" "reads_only (ListTree E u b)"
  unfolding Get_def readParent_def checkNewParent_def checkNoLiveChildren_def ListTree_def
  by (auto intro!: keeps_intro split: option.split)

definition ends :: "(db \<Rightarrow> bool) \<Rightarrow> 'a io \<Rightarrow> world \<Rightarrow> bool" where
  "ends Q m w \<longleftrightarrow> Q (w_db (snd (m w)))"

lemma ends_call:
  assumes "reads_only m" and "Q (w_db w)"
    and "\<And>x w1. m w = (Inr x, w1) \<Longrightarrow> w_db w1 = w_db w \<Longrightarrow> ends Q (k x) w1"
  shows "ends Q (call m h k) w"
proof -
  have "w_db (snd (m w)) = w_db w" using assms(1) by (simp add: reads_only_def)
  with assms(2,3) show ?thesis by (cases "m w") (auto simp: ends_def call_def split: sum.split)
qed

lemma ends_query:
  assumes "Q (w_db w)" and "\<And>x d. q (db_now E w) (w_db w) = Inr (x, d) \<Longrightarrow> Q d"
  shows "ends Q (call (run_query E q) h return) w" "ends Q (call (run_query E q) h (\<lambda>_. return y)) w"
proof -
  have "Q (w_db (snd (run_query E q w)))" using run_query_db [of E q w] assms by metis
  then show "ends Q (call (run_query E q) h return) w"
    "ends Q (call (run_query E q) h (\<lambda>_. return y)) w"
    by (auto simp: ends_def call_def return_def split: prod.splits sum.splits)
qed

lemma ends_throw: "Q (w_db w) \<Longrightarrow> ends Q (throw e) w"
  by (simp add: ends_def throw_def)

section \<open>What the checks establish\<close>

text \<open>A parent that is given is a context of the same owner.\<close>

definition parent_owned :: "db \<Rightarrow> uuid \<Rightarrow> uuid option \<Rightarrow> bool" where
  "parent_owned d u parent \<longleftrightarrow>
     pred_option (\<lambda>p. \<exists>q \<in> set (contexts d). cx_ID q = p \<and> cx_UserID q = u) parent"

lemma GetContext_Inr:
  "run_query E (GetContext i) w = (Inr c, w1) \<longleftrightarrow>
     e_fault E (w_tick w) = None \<and> w1 = tick w \<and> find (\<lambda>c. cx_ID c = i) (contexts (w_db w)) = Some c"
  by (auto simp: run_query_Inr_iff GetContext_def tick_def split: option.splits)

lemma readParent_Inr:
  "readParent E u p w = (Inr x, w1) \<Longrightarrow> parent_owned (w_db w) u p"
  by (auto simp: readParent_def call_Inr_iff GetContext_Inr throw_def parent_owned_def
      split: option.splits if_splits dest!: find_Some_in)

lemma Get_Inr:
  "Get E u i w = (Inr c, w1) \<Longrightarrow> c \<in> set (contexts (w_db w)) \<and> cx_ID c = i \<and> cx_UserID c = u"
  by (auto simp: Get_def call_Inr_iff GetContext_Inr throw_def return_def
      split: if_splits dest!: find_Some_in)

lemma checkNewParent_Inr:
  "checkNewParent E u i p w = (Inr x, w1) \<Longrightarrow> parent_owned (w_db w) u (Some p) \<and> p \<noteq> i"
  by (auto simp: checkNewParent_def call_Inr_iff GetContext_Inr throw_def parent_owned_def
      split: if_splits dest!: find_Some_in)

section \<open>Every method keeps the tree\<close>

abbreviation create_arg :: "uuid \<Rightarrow> uuid \<Rightarrow> CreateParams \<Rightarrow> int \<Rightarrow> CreateContextParams" where
  "create_arg i u p position \<equiv>
     \<lparr>ccp_ID = i, ccp_UserID = u, ccp_ParentID = cp_ParentID p, ccp_Slug = cp_Slug p,
      ccp_Name = cp_Name p, ccp_Color = cp_Color p, ccp_ActiveHours = string_to_bytes ''{}'',
      ccp_ToneProfile = cp_ToneProfile p, ccp_Position = position\<rparr>"

abbreviation update_arg :: "uuid \<Rightarrow> uuid \<Rightarrow> UpdateParams \<Rightarrow> UpdateContextParams" where
  "update_arg u i p \<equiv>
     \<lparr>ucp_Name = cu_Name p, ucp_IsArchived = cu_IsArchived p, ucp_SetColor = cu_SetColor p,
      ucp_Color = cu_Color p, ucp_SetParentID = cu_SetParentID p, ucp_ParentID = cu_ParentID p,
      ucp_SetToneProfile = cu_SetToneProfile p, ucp_ToneProfile = cu_ToneProfile p,
      ucp_ID = i, ucp_UserID = u\<rparr>"

text \<open>
  Each method leaves the tables as they were or as its one writing statement makes them, run on
  the tables the checks have seen.
\<close>

lemma Create_writes:
  assumes "Q (w_db w)"
    and "\<And>i position t c d. parent_owned (w_db w) u (cp_ParentID p) \<Longrightarrow>
       CreateContext (create_arg i u p position) t (w_db w) = Inr (c, d) \<Longrightarrow> Q d"
  shows "ends Q (Create E u p) w"
proof (cases "color_valid (cp_Color p)")
  case None
  show ?thesis unfolding Create_def None option.case
    by (intro ends_query ends_call keeps_intro) (auto intro: assms readParent_Inr)
qed (simp add: Create_def ends_throw assms(1))

lemma Update_writes:
  assumes "Q (w_db w)"
    and "\<And>t c d. (cu_SetParentID p \<longrightarrow> parent_owned (w_db w) u (cu_ParentID p)) \<Longrightarrow>
       UpdateContext (update_arg u i p) t (w_db w) = Inr (c, d) \<Longrightarrow> Q d"
  shows "ends Q (Update E u i p) w"
proof (cases "if cu_SetColor p then color_valid (cu_Color p) else None")
  case None
  let ?chk = "case (cu_SetParentID p, cu_ParentID p) of
      (True, Some parentID) \<Rightarrow> checkNewParent E u i parentID | _ \<Rightarrow> return ()"
  have reads: "reads_only ?chk" by (auto intro!: keeps_intro split: bool.split option.split)
  have owned: "cu_SetParentID p \<longrightarrow> parent_owned (w_db w) u (cu_ParentID p)"
    if "?chk w1 = (Inr x, w2)" "w_db w1 = w_db w" for w1 x w2
    using that checkNewParent_Inr [of E u i _ w1 x w2]
    by (cases "cu_ParentID p") (auto simp: parent_owned_def split: if_splits)
  show ?thesis unfolding Update_def None option.case
    by (intro ends_query ends_call reads keeps_intro) (auto intro: assms(1) assms(2) [OF owned])
qed (simp add: Update_def ends_throw assms(1))

lemma Archive_writes:
  assumes "Q (w_db w)"
    and "\<And>t c d. ArchiveContext \<lparr>acp_ID = i, acp_UserID = u\<rparr> t (w_db w) = Inr (c, d) \<Longrightarrow> Q d"
  shows "ends Q (Archive E u i) w"
  unfolding Archive_def
  by (intro ends_query ends_call keeps_intro) (auto intro: assms)

lemma keeps_endsI: "(\<And>w. P (w_db w) \<Longrightarrow> ends P m w) \<Longrightarrow> keeps P m"
  by (simp add: keeps_def ends_def)

lemma contexts_ok_Create: "keeps contexts_ok (Create E u p)"
proof (rule keeps_endsI, rule Create_writes)
  fix w i position t c d assume ok: "contexts_ok (w_db w)" and own: "parent_owned (w_db w) u (cp_ParentID p)"
    and new: "CreateContext (create_arg i u p position) t (w_db w) = Inr (c, d)"
  from own show "contexts_ok d" by (intro CreateContext_ok [OF ok new, THEN conjunct1]) (simp add: parent_owned_def)
qed

lemma contexts_ok_Update: "keeps contexts_ok (Update E u i p)"
proof (rule keeps_endsI, rule Update_writes)
  fix w t c d assume ok: "contexts_ok (w_db w)"
    and own: "cu_SetParentID p \<longrightarrow> parent_owned (w_db w) u (cu_ParentID p)"
    and upd: "UpdateContext (update_arg u i p) t (w_db w) = Inr (c, d)"
  from own show "contexts_ok d" by (intro UpdateContext_ok [OF ok upd]) (simp add: parent_owned_def)
qed

lemma contexts_ok_Archive: "keeps contexts_ok (Archive E u i)"
  by (rule keeps_endsI, rule Archive_writes) (auto intro: ArchiveContext_ok)

section \<open>A call touches the caller's contexts only\<close>

text \<open>Everything of the tables that a call of \<open>u\<close> must leave as it is.\<close>

definition out_of_reach :: "uuid \<Rightarrow> db \<Rightarrow> db" where
  "out_of_reach u d = d\<lparr>contexts := filter (\<lambda>c. cx_UserID c \<noteq> u) (contexts d)\<rparr>"

lemma out_of_reach_update:
  assumes "\<And>c. hit c \<Longrightarrow> cx_UserID c = u" and "\<And>c. cx_UserID (f c) = cx_UserID c"
  shows "out_of_reach u (d\<lparr>contexts := update_where hit f (contexts d)\<rparr>) = out_of_reach u d"
proof -
  have "filter (\<lambda>c. cx_UserID c \<noteq> u) (update_where hit f rows) = filter (\<lambda>c. cx_UserID c \<noteq> u) rows" for rows
    using assms by (induction rows) auto
  then show ?thesis by (simp add: out_of_reach_def)
qed

lemma out_of_reach_Create: "out_of_reach u (w_db (snd (Create E u p w))) = out_of_reach u (w_db w)"
proof -
  have "ends (\<lambda>d. out_of_reach u d = out_of_reach u (w_db w)) (Create E u p) w"
    by (rule Create_writes)
      (auto simp: CreateContext_def Let_def out_of_reach_def new_context_def split: option.splits)
  then show ?thesis by (simp add: ends_def)
qed

lemma out_of_reach_Update: "out_of_reach u (w_db (snd (Update E u i p w))) = out_of_reach u (w_db w)"
proof -
  have "ends (\<lambda>d. out_of_reach u d = out_of_reach u (w_db w)) (Update E u i p) w"
  proof (rule Update_writes)
    fix t c d assume "UpdateContext (update_arg u i p) t (w_db w) = Inr (c, d)"
    then show "out_of_reach u d = out_of_reach u (w_db w)"
      by (cases rule: UpdateContext_Inr) (auto simp: updated_context_def intro!: out_of_reach_update)
  qed simp
  then show ?thesis by (simp add: ends_def)
qed

lemma out_of_reach_Archive: "out_of_reach u (w_db (snd (Archive E u i w))) = out_of_reach u (w_db w)"
proof -
  have "ends (\<lambda>d. out_of_reach u d = out_of_reach u (w_db w)) (Archive E u i) w"
    by (rule Archive_writes)
      (auto simp: ArchiveContext_def Let_def split: option.splits intro!: out_of_reach_update)
  then show ?thesis by (simp add: ends_def)
qed

section \<open>The two services on one database\<close>

text \<open>What the tree needs of the rest of the tables: its rows, and owners that stay.\<close>

definition area_kept :: "ContextRow list \<Rightarrow> uuid set \<Rightarrow> db \<Rightarrow> bool" where
  "area_kept rows owners d \<longleftrightarrow> contexts d = rows \<and> owners \<subseteq> u_ID ` set (users d)"

lemma area_kept_statements [keeps_intro]:
  "q_keeps (area_kept r O') (CreateUser u)" "q_keeps (area_kept r O') (CreateUserProfile cf cup)"
  "q_keeps (area_kept r O') (CreateAuthProvider cap)" "q_keeps (area_kept r O') (CreateAuthPassword cpw)"
  "q_keeps (area_kept r O') (CreateAuthSession cas)" "q_keeps (area_kept r O') (MarkProviderUsed mpu)"
  "q_keeps (area_kept r O') (UpdatePasswordHash uph)" "q_keeps (area_kept r O') (ClearFailedLogins i)"
  "q_keeps (area_kept r O') (RecordFailedLogin rfl)" "q_keeps (area_kept r O') (TouchAuthSession tas)"
  "q_keeps (area_kept r O') (RevokeSessionByID rsi)" "q_keeps (area_kept r O') (RevokeSessionByTokenHash rst)"
  "q_keeps (area_kept r O') (DeleteAuthProvider dap)" "q_keeps (area_kept r O') (SweepExpiredSessions swp)"
  by (rule q_keepsI, auto simp: area_kept_def sql_simps Let_def split: option.splits if_splits)+

lemma area_kept_auth_step:
  assumes "auth_step Env d d'" and "area_kept rows owners d"
  shows "area_kept rows owners d'"
  using assms by (rule keeps_auth_step) (rule area_kept_statements)+

lemma contexts_ok_area:
  assumes "contexts_ok d" and "area_kept (contexts d) (u_ID ` set (users d)) d'"
  shows "contexts_ok d'"
proof -
  have "context_row_ok d' c" if "context_row_ok d c" for c
    using that assms(2) by (auto simp: context_row_ok_def area_kept_def)
  with assms show ?thesis by (simp add: contexts_ok_def area_kept_def)
qed

text \<open>The service of contexts, and the two services taking turns.\<close>

inductive contexts_step :: "db \<Rightarrow> db \<Rightarrow> bool" where
  step_Create: "w_db w = d \<Longrightarrow> contexts_step d (w_db (snd (Create E u p w)))"
| step_Update: "w_db w = d \<Longrightarrow> contexts_step d (w_db (snd (Update E u i q w)))"
| step_Archive: "w_db w = d \<Longrightarrow> contexts_step d (w_db (snd (Archive E u i w)))"

inductive system_reachable :: "(string \<Rightarrow> string) \<Rightarrow> db \<Rightarrow> bool" for cf where
  sys_empty: "system_reachable cf empty_db"
| sys_auth: "system_reachable cf d \<Longrightarrow> auth_step (envs_of cf) d d' \<Longrightarrow> system_reachable cf d'"
| sys_contexts: "system_reachable cf d \<Longrightarrow> contexts_step d d' \<Longrightarrow> system_reachable cf d'"

lemma contexts_step_ok: "contexts_step d d' \<Longrightarrow> contexts_ok d \<Longrightarrow> contexts_ok d'"
  by (induction rule: contexts_step.induct)
    (auto intro: keepsD [OF contexts_ok_Create] keepsD [OF contexts_ok_Update] keepsD [OF contexts_ok_Archive])

lemma contexts_step_frame: "contexts_step d d' \<Longrightarrow> \<exists>u. out_of_reach u d' = out_of_reach u d"
  by (induction rule: contexts_step.induct)
    (use out_of_reach_Create out_of_reach_Update out_of_reach_Archive in blast)+

lemma auth_tables_frame:
  assumes "out_of_reach u d' = out_of_reach u d"
  shows "auth_ok cf d' = auth_ok cf d" and "has_way_in d' = has_way_in d"
proof -
  have "auth_ok cf (out_of_reach u d) = auth_ok cf d" "has_way_in (out_of_reach u d) = has_way_in d" for d
    by (simp_all add: out_of_reach_def integrity_defs auth_ok_def has_way_in_def)
  with assms show "auth_ok cf d' = auth_ok cf d" "has_way_in d' = has_way_in d" by metis+
qed

lemma system_reachable_ok:
  "system_reachable cf d \<Longrightarrow> contexts_ok d \<and> auth_ok cf d \<and> has_way_in d"
proof (induction rule: system_reachable.induct)
  case sys_empty
  have "parent_rel [] = {}" by (auto simp: parent_of_def)
  then have "contexts_ok empty_db" by (simp add: contexts_ok_def empty_db_def acyclic_def)
  then show ?case by (simp add: auth_ok_empty)
next
  case (sys_auth d d')
  have "area_kept (contexts d) (u_ID ` set (users d)) d" by (simp add: area_kept_def)
  with sys_auth show ?case
    by (auto intro: auth_step_integrity [OF _ _ subset_refl] auth_step_has_way_in
        contexts_ok_area area_kept_auth_step)
next
  case (sys_contexts d d')
  then obtain u where "out_of_reach u d' = out_of_reach u d" using contexts_step_frame by blast
  with sys_contexts show ?case using contexts_step_ok auth_tables_frame by metis
qed

text \<open>
  C1. In every state the program can reach from an empty database, through any interleaving of
  calls to the authentication service and to the service of contexts under any failures, the
  tree of contexts is sound: no context is its own ancestor, each has an existing owner and a
  parent of the same owner, slugs are unique per owner and well formed; and the authentication
  tables stay sound with a way in for every account.
\<close>

theorem system_reachable_sound:
  "system_reachable cf d \<Longrightarrow> contexts_ok d \<and> auth_ok cf d \<and> has_way_in d"
  by (rule system_reachable_ok)

definition sample_area :: CreateParams where
  "sample_area = \<lparr>cp_Slug = ''work'', cp_Name = ''Work'', cp_ParentID = None, cp_Color = Some ''blue'',
     cp_ToneProfile = None\<rparr>"

theorem system_reachable_sound_witness:
  "contexts_ok (w_db (snd (Create calm_env 0 sample_area
     (snd (Register calm_env (NewService None) 0 sample_registration sample_sic fresh_world)))))"
proof -
  have "system_reachable (map lower_char)
      (w_db (snd (Register calm_env (NewService None) 0 sample_registration sample_sic fresh_world)))"
    by (intro sys_auth [OF sys_empty] step_Register) (simp_all add: fresh_world_def envs_of_def)
  from sys_contexts [OF this step_Create [OF refl]] show ?thesis
    by (rule system_reachable_sound [THEN conjunct1])
qed

end
