(* ===== verification/Contexts_Behaviour.thy ===== *)
theory Contexts_Behaviour
  imports Contexts_Safety
begin

text \<open>
  What the methods of the service of contexts answer when nothing fails, case by case, against
  rules stated on the tree itself; the order of the listing; and where the limit of three levels
  is not kept.
\<close>

section \<open>The trigger against the tree\<close>

definition ancestors :: "ContextRow list \<Rightarrow> uuid \<Rightarrow> uuid set" where
  "ancestors rows i = {a. (a, i) \<in> (parent_rel rows)\<^sup>*}"

lemma ancestors_root: "parent_of rows i = None \<Longrightarrow> ancestors rows i = {i}"
  unfolding ancestors_def by (subst above_rtrancl_iff) auto

lemma ancestors_step: "parent_of rows i = Some p \<Longrightarrow> ancestors rows i = insert i (ancestors rows p)"
  unfolding ancestors_def by (subst above_rtrancl_iff) auto

lemma finite_ancestors: "finite (ancestors rows i)"
proof -
  let ?ps = "\<Union>c \<in> set rows. set_option (cx_ParentID c)"
  have "(a, i) \<in> (parent_rel rows)\<^sup>* \<Longrightarrow> a = i \<or> a \<in> ?ps" for a
    by (induction rule: converse_rtrancl_induct) (auto dest!: parent_of_Some)
  then have "ancestors rows i \<subseteq> insert i ?ps" by (auto simp: ancestors_def)
  then show ?thesis by (rule finite_subset) auto
qed

lemma not_above_parent:
  assumes "acyclic (parent_rel rows)" and "parent_of rows i = Some p"
  shows "i \<notin> ancestors rows p"
proof
  assume "i \<in> ancestors rows p"
  moreover have "(p, i) \<in> parent_rel rows" using assms(2) by simp
  ultimately have "(i, i) \<in> (parent_rel rows)\<^sup>+" unfolding ancestors_def by (auto intro: rtrancl_into_trancl1)
  with assms(1) show False by (simp add: acyclic_def)
qed

lemma prevent_cycle_err: "prevent_cycle rows i a k = Some e \<Longrightarrow> e = check_violation []"
  by (induction rows i a k rule: prevent_cycle.induct) (auto split: if_splits)

text \<open>
  The loop of the trigger accepts a parent exactly when the node is not above it and it has at
  most two contexts on its way up, itself included.
\<close>

lemma prevent_cycle_iff:
  assumes "acyclic (parent_rel rows)"
  shows "prevent_cycle rows i (Some p) k = None \<longleftrightarrow>
     i \<notin> ancestors rows p \<and> k + card (ancestors rows p) \<le> 2"
proof (cases "k \<le> 2")
  case True
  then show ?thesis
  proof (induction "3 - k" arbitrary: k p)
    case (Suc n)
    show ?case
    proof (cases "parent_of rows p")
      case None
      then show ?thesis by (simp add: ancestors_root)
    next
      case (Some q)
      then have "card (ancestors rows p) = Suc (card (ancestors rows q))"
        using not_above_parent [OF assms Some] by (simp add: ancestors_step finite_ancestors)
      moreover have "card (ancestors rows q) > 0"
        using finite_ancestors by (auto simp: card_gt_0_iff ancestors_def)
      moreover have "prevent_cycle rows i (Some q) (k + 1) = None \<longleftrightarrow>
          i \<notin> ancestors rows q \<and> k + 1 + card (ancestors rows q) \<le> 2" if "k + 1 \<le> 2"
        using that Suc by (intro Suc.hyps(1)) auto
      ultimately show ?thesis using Some by (auto simp: ancestors_step)
    qed
  qed simp
next
  case False
  moreover have "card (ancestors rows p) > 0" using finite_ancestors by (auto simp: card_gt_0_iff ancestors_def)
  ultimately show ?thesis by auto
qed

section \<open>Calls without failures\<close>

lemma call_read:
  "e_fault E (w_tick w) = None \<Longrightarrow> q (db_now E w) (w_db w) = Inr (x, w_db w) \<Longrightarrow>
     call (run_query E q) h k w = k x (tick w)"
  by (simp add: call_def run_query_def tick_def)

lemma call_refused:
  "e_fault E (w_tick w) = None \<Longrightarrow> q (db_now E w) (w_db w) = Inl e \<Longrightarrow>
     call (run_query E q) h k w = (Inl (h e), tick w)"
  by (simp add: call_def run_query_def)

lemma call_bind: "call m h k w = (case m w of (Inl e, w1) \<Rightarrow> (Inl (h e), w1) | (Inr x, w1) \<Rightarrow> k x w1)"
  by (simp add: call_def)

definition owned_row :: "db \<Rightarrow> uuid \<Rightarrow> uuid \<Rightarrow> ContextRow option" where
  "owned_row d u i = find (\<lambda>c. cx_ID c = i \<and> cx_UserID c = u) (contexts d)"

lemma owned_row_iff:
  assumes "contexts_ok d"
  shows "owned_row d u i = Some c \<longleftrightarrow> c \<in> set (contexts d) \<and> cx_ID c = i \<and> cx_UserID c = u"
proof
  assume "c \<in> set (contexts d) \<and> cx_ID c = i \<and> cx_UserID c = u"
  moreover obtain r where r: "owned_row d u i = Some r"
    using calculation by (cases "owned_row d u i") (auto simp: owned_row_def find_None_iff)
  ultimately have "r = c"
    using find_Some_in [OF r [unfolded owned_row_def]] contexts_ok_rows(1) [OF assms]
    by (auto simp: distinct_map inj_on_def)
  with r show "owned_row d u i = Some c" by simp
qed (auto simp: owned_row_def dest!: find_Some_in)

lemma find_context:
  "contexts_ok d \<Longrightarrow> c \<in> set (contexts d) \<Longrightarrow> find (\<lambda>r. cx_ID r = cx_ID c) (contexts d) = Some c"
  using contexts_ok_rows(1) [of d] find_unique [of cx_ID "contexts d" c] by simp

text \<open>Reading a context by its identifier and its owner: others' and absent ones look alike.\<close>

lemma Get_calm:
  assumes "\<forall>n. e_fault E n = None" and ok: "contexts_ok (w_db w)"
  shows "Get E u i w = (case owned_row (w_db w) u i of
     None \<Rightarrow> (Inl ErrContextNotFound, tick w) | Some c \<Rightarrow> (Inr c, tick w))"
proof (cases "find (\<lambda>c. cx_ID c = i) (contexts (w_db w))")
  case None
  then have "owned_row (w_db w) u i = None" by (auto simp: owned_row_def find_None_iff)
  with None assms(1) show ?thesis
    by (simp add: Get_def call_refused GetContext_def not_found_as_def errors_Is_def)
next
  case (Some c)
  then have c: "c \<in> set (contexts (w_db w))" "cx_ID c = i" by (auto dest: find_Some_in)
  have get: "Get E u i w = (if cx_UserID c \<noteq> u then throw ErrContextNotFound else return c) (tick w)"
    unfolding Get_def using assms(1) Some by (simp add: call_read GetContext_def)
  show ?thesis
  proof (cases "cx_UserID c = u")
    case True
    then have "owned_row (w_db w) u i = Some c" using owned_row_iff [OF ok] c by blast
    with True get show ?thesis by (simp add: return_def)
  next
    case False
    have "owned_row (w_db w) u i \<noteq> Some r" for r
      using owned_row_iff [OF ok] find_context [OF ok] Some False c by (metis option.inject)
    with False get show ?thesis by (auto simp: throw_def split: option.split)
  qed
qed

lemma parent_owned_iff:
  "contexts_ok d \<Longrightarrow> parent_owned d u (Some p) \<longleftrightarrow> owned_row d u p \<noteq> None"
  using owned_row_iff [of d u p] by (auto simp: parent_owned_def)

lemma checkNewParent_calm:
  assumes "\<forall>n. e_fault E n = None" and ok: "contexts_ok (w_db w)"
  shows "\<exists>w'. w_db w' = w_db w \<and> checkNewParent E u i p w =
     (if p = i then (Inl ErrSelfParent, w')
      else if \<not> parent_owned (w_db w) u (Some p) then (Inl ErrNoParent, w')
      else if i \<in> ancestors (contexts (w_db w)) p then (Inl ErrCycle, w')
      else (Inr (), w'))"
proof (cases "p = i")
  case True
  then show ?thesis by (simp add: checkNewParent_def throw_def)
next
  case ne: False
  show ?thesis
  proof (cases "find (\<lambda>c. cx_ID c = p) (contexts (w_db w))")
    case None
    then have "\<not> parent_owned (w_db w) u (Some p)" by (auto simp: parent_owned_def find_None_iff)
    with None ne assms(1) show ?thesis
      by (simp add: checkNewParent_def call_refused GetContext_def not_found_as_def errors_Is_def)
  next
    case (Some c)
    then have c: "c \<in> set (contexts (w_db w))" "cx_ID c = p" by (auto dest: find_Some_in)
    have own: "parent_owned (w_db w) u (Some p) \<longleftrightarrow> cx_UserID c = u"
      using c find_context [OF ok] Some by (auto simp: parent_owned_def) (metis option.inject)
    let ?arg = "\<lparr>idp_CandidateID = p, idp_RootID = i\<rparr>"
    have "IsDescendant ?arg t (w_db w) = Inr (i \<in> ancestors (contexts (w_db w)) p, w_db w)" for t
      using IsDescendant_iff [OF ok, of ?arg] c by (auto simp: ancestors_def)
    then show ?thesis
      using ne own assms(1) Some
      by (simp add: checkNewParent_def call_read GetContext_def throw_def return_def)
  qed
qed

definition live_children :: "db \<Rightarrow> uuid \<Rightarrow> nat" where
  "live_children d i =
     length (filter (\<lambda>c. cx_ParentID c = Some i \<and> \<not> cx_IsArchived c) (contexts d))"

lemma checkNoLiveChildren_calm:
  "\<forall>n. e_fault E n = None \<Longrightarrow> checkNoLiveChildren E i w =
     (if live_children (w_db w) i > 0 then Inl (LiveChildrenError (int (live_children (w_db w) i)))
      else Inr (), tick w)"
  by (simp add: checkNoLiveChildren_def call_read CountLiveChildren_def live_children_def throw_def
      return_def)

section \<open>The rules of an update\<close>

text \<open>The parent a request asks for, and the parent the row will have.\<close>

definition asked_parent :: "UpdateParams \<Rightarrow> uuid option" where
  "asked_parent p = (if cu_SetParentID p then cu_ParentID p else None)"

definition parent_after :: "db \<Rightarrow> uuid \<Rightarrow> UpdateParams \<Rightarrow> uuid option" where
  "parent_after d i p = (if cu_SetParentID p then cu_ParentID p else parent_of (contexts d) i)"

definition update_rules :: "db \<Rightarrow> uuid \<Rightarrow> uuid \<Rightarrow> UpdateParams \<Rightarrow> (bool \<times> go_error) list" where
  "update_rules d u i p =
     [(owned_row d u i \<noteq> None, ErrContextNotFound),
      (asked_parent p \<noteq> Some i, ErrSelfParent),
      (parent_owned d u (asked_parent p), ErrNoParent),
      (pred_option (\<lambda>q. i \<notin> ancestors (contexts d) q) (asked_parent p), ErrCycle),
      (cu_IsArchived p \<noteq> Some True \<or> live_children d i = 0, LiveChildrenError (int (live_children d i))),
      (pred_option (\<lambda>q. card (ancestors (contexts d) q) \<le> 2) (parent_after d i p), ErrTooDeep)]"

lemma UpdateContext_calm:
  assumes ok: "contexts_ok d" and row: "owned_row d u i = Some c"
    and own: "parent_owned d u (asked_parent p)"
    and cyc: "pred_option (\<lambda>q. i \<notin> ancestors (contexts d) q) (asked_parent p)"
    and color: "cu_SetColor p \<longrightarrow> color_token (cu_Color p)"
  shows "UpdateContext (update_arg u i p) t d =
     (if pred_option (\<lambda>q. card (ancestors (contexts d) q) \<le> 2) (parent_after d i p)
      then Inr (updated_context (update_arg u i p) t c,
        d\<lparr>contexts := update_where (\<lambda>c. cx_ID c = i \<and> cx_UserID c = u)
          (updated_context (update_arg u i p) t) (contexts d)\<rparr>)
      else Inl (check_violation []))"
proof -
  let ?c = "updated_context (update_arg u i p) t c"
  have c: "c \<in> set (contexts d)" "cx_ID c = i" "cx_UserID c = u" using row owned_row_iff [OF ok] by auto
  then have r: "context_row_ok d c" using ok by (simp add: contexts_ok_def)
  note acyc = contexts_ok_rows(2) [OF ok]
  have old: "parent_of (contexts d) i = cx_ParentID c"
    using c parent_of_row [OF contexts_ok_rows(1) [OF ok]] by auto
  have after: "cx_ParentID ?c = parent_after d i p"
    by (simp add: updated_context_def parent_after_def old)
  have free: "i \<notin> ancestors (contexts d) q" if "parent_after d i p = Some q" for q
    using that cyc not_above_parent [OF acyc, of i q]
    by (auto simp: parent_after_def asked_parent_def split: if_splits)
  have pc: "prevent_cycle (contexts d) i (parent_after d i p) 0 =
      (if pred_option (\<lambda>q. card (ancestors (contexts d) q) \<le> 2) (parent_after d i p)
       then None else Some (check_violation []))"
  proof (cases "parent_after d i p")
    case (Some q)
    then show ?thesis
      using prevent_cycle_iff [OF acyc, of i q 0] free [OF Some] prevent_cycle_err [of "contexts d" i "Some q" 0]
      by (cases "prevent_cycle (contexts d) i (Some q) 0") auto
  qed simp
  have "\<exists>r \<in> set (contexts d). cx_ID r = q" if "parent_after d i p = Some q" for q
    using that own contexts_ok_rows(3) [OF ok c(1), of q] old
    by (auto simp: parent_after_def asked_parent_def parent_owned_def split: if_splits)
  then have fk: "case parent_after d i p of None \<Rightarrow> True | Some q \<Rightarrow> q \<in> cx_ID ` set (contexts d)"
    by (auto split: option.split)
  have self: "parent_after d i p \<noteq> Some i" using free [of i] by (auto simp: ancestors_def)
  have chk: "color_token (cx_Color ?c)" "slug_format (cx_Slug ?c)" "cx_ID ?c = i"
    using color r c(2) by (auto simp: updated_context_def context_row_ok_def)
  show ?thesis
    using row pc after fk self chk
    by (simp add: UpdateContext_def owned_row_def Let_def context_checks_def)
qed

lemma color_token_valid: "color_token (Some c) \<Longrightarrow> ContextColor_Valid c = None"
  by (auto simp: color_token_def ContextColor_Valid_def)

lemma Update_checks_calm:
  assumes calm: "\<forall>n. e_fault E n = None" and ok: "contexts_ok (w_db w)"
    and color: "cu_SetColor p \<longrightarrow> color_token (cu_Color p)"
  shows "\<exists>w'. w_db w' = w_db w \<and> Update E u i p w =
     (case checks (take 5 (update_rules (w_db w) u i p)) of
        Some e \<Rightarrow> (Inl e, w')
      | None \<Rightarrow> call (run_query E (UpdateContext (update_arg u i p)))
            (\<lambda>err. if errors_Is err ErrNoRows then ErrContextNotFound
                   else if isCheckViolation err then ErrTooDeep
                   else Wrap ''update context'' err) return w')"
proof -
  let ?upd = "call (run_query E (UpdateContext (update_arg u i p)))
      (\<lambda>err. if errors_Is err ErrNoRows then ErrContextNotFound
             else if isCheckViolation err then ErrTooDeep else Wrap ''update context'' err) return"
  let ?live = "if cu_IsArchived p = Some True then checkNoLiveChildren E i else return ()"
  have colored: "(if cu_SetColor p then color_valid (cu_Color p) else None) = None"
    using color by (cases "cu_Color p") (auto simp: color_valid_def color_token_valid)
  have live: "\<exists>w'. w_db w' = w_db v \<and> call ?live (\<lambda>e. e) (\<lambda>_. k) v =
      (if cu_IsArchived p \<noteq> Some True \<or> live_children (w_db v) i = 0 then k w'
       else (Inl (LiveChildrenError (int (live_children (w_db v) i))), w'))" for v and k :: "ContextRow io"
    using checkNoLiveChildren_calm [OF calm, of i v]
    by (intro exI [of _ "if cu_IsArchived p = Some True then tick v else v"]) (auto simp: call_bind return_def)
  show ?thesis
  proof (cases "owned_row (w_db w) u i")
    case None
    then show ?thesis
      unfolding Update_def colored option.case call_bind [of "Get E u i"] Get_calm [OF calm ok] update_rules_def
      by (intro exI [of _ "tick w"]) simp
  next
    case row: (Some c)
    note get = Get_calm [OF calm ok, of u i, unfolded row option.case]
    show ?thesis
    proof (cases "asked_parent p")
      case None
      then have "(case (cu_SetParentID p, cu_ParentID p) of
          (True, Some parentID) \<Rightarrow> checkNewParent E u i parentID | _ \<Rightarrow> return ()) = return ()"
        by (auto simp: asked_parent_def split: bool.split if_splits)
      then show ?thesis
        using live [of "tick w" ?upd] None row
        unfolding Update_def colored option.case call_bind [of "Get E u i"] get update_rules_def
        by (auto simp: call_bind [of "return ()"] return_def parent_owned_def numeral_eq_Suc split: if_splits)
    next
      case (Some q)
      then have chk: "(case (cu_SetParentID p, cu_ParentID p) of
          (True, Some parentID) \<Rightarrow> checkNewParent E u i parentID | _ \<Rightarrow> return ()) = checkNewParent E u i q"
        by (auto simp: asked_parent_def split: if_splits)
      obtain v where v: "w_db v = w_db w" "checkNewParent E u i q (tick w) =
          (if q = i then (Inl ErrSelfParent, v)
           else if \<not> parent_owned (w_db w) u (Some q) then (Inl ErrNoParent, v)
           else if i \<in> ancestors (contexts (w_db w)) q then (Inl ErrCycle, v) else (Inr (), v))"
        using checkNewParent_calm [OF calm, of "tick w" u i q] ok by auto
      show ?thesis
        using live [of v ?upd] Some row v
        unfolding Update_def colored option.case call_bind [of "Get E u i"] get chk
          call_bind [of "checkNewParent E u i q"] update_rules_def
        by (auto simp: numeral_eq_Suc split: if_splits)
    qed
  qed
qed

lemma Update_calm:
  assumes calm: "\<forall>n. e_fault E n = None" and ok: "contexts_ok (w_db w)"
    and color: "cu_SetColor p \<longrightarrow> color_token (cu_Color p)"
  shows "(case checks (update_rules (w_db w) u i p) of
      Some e \<Rightarrow> fst (Update E u i p w) = Inl e \<and> w_db (snd (Update E u i p w)) = w_db w
    | None \<Rightarrow> (\<exists>c t. owned_row (w_db w) u i = Some c
        \<and> fst (Update E u i p w) = Inr (updated_context (update_arg u i p) t c)
        \<and> w_db (snd (Update E u i p w)) = (w_db w)\<lparr>contexts :=
            update_where (\<lambda>c. cx_ID c = i \<and> cx_UserID c = u) (updated_context (update_arg u i p) t)
              (contexts (w_db w))\<rparr>))"
proof -
  obtain w' where w': "w_db w' = w_db w" and upd: "Update E u i p w =
     (case checks (take 5 (update_rules (w_db w) u i p)) of
        Some e \<Rightarrow> (Inl e, w')
      | None \<Rightarrow> call (run_query E (UpdateContext (update_arg u i p)))
            (\<lambda>err. if errors_Is err ErrNoRows then ErrContextNotFound
                   else if isCheckViolation err then ErrTooDeep
                   else Wrap ''update context'' err) return w')"
    using Update_checks_calm [OF assms] by blast
  show ?thesis
  proof (cases "checks (take 5 (update_rules (w_db w) u i p))")
    case (Some e)
    then have "checks (update_rules (w_db w) u i p) = Some e"
      by (auto simp: update_rules_def numeral_eq_Suc split: if_splits)
    with Some upd w' show ?thesis by simp
  next
    case None
    then obtain c where rules: "owned_row (w_db w) u i = Some c"
        "parent_owned (w_db w) u (asked_parent p)"
        "pred_option (\<lambda>q. i \<notin> ancestors (contexts (w_db w)) q) (asked_parent p)"
      and last: "checks (update_rules (w_db w) u i p) =
        (if pred_option (\<lambda>q. card (ancestors (contexts (w_db w)) q) \<le> 2) (parent_after (w_db w) i p)
         then None else Some ErrTooDeep)"
      by (auto simp: update_rules_def numeral_eq_Suc split: if_splits)
    note sql = UpdateContext_calm [OF ok rules color, of "db_now E w'"]
    show ?thesis
    proof (cases "pred_option (\<lambda>q. card (ancestors (contexts (w_db w)) q) \<le> 2) (parent_after (w_db w) i p)")
      case True
      with upd None last sql w' calm rules show ?thesis
        by (simp add: call_bind run_query_ok return_def) (intro exI [of _ "db_now E w'"], simp)
    next
      case False
      with upd None last sql w' calm show ?thesis
        by (simp add: call_refused isCheckViolation_def errors_Is_def)
    qed
  qed
qed

text \<open>
  C10. When nothing fails, an update with a colour of the palette does what the rules of the tree
  say, in their order: somebody else's context is not found, a context cannot be its own parent,
  the parent asked for must be the caller's, it must not lie below the context, a context with
  live children is not archived, and the parent in the end must be less than three levels down.
  A refused update leaves the tables as they were; an accepted one rewrites that row only.
\<close>

theorem Update_follows_rules:
  assumes calm: "\<forall>n. e_fault E n = None" and ok: "contexts_ok (w_db w)"
    and color: "cu_SetColor p \<longrightarrow> color_token (cu_Color p)"
  shows "(case checks (update_rules (w_db w) u i p) of
      Some e \<Rightarrow> fst (Update E u i p w) = Inl e \<and> w_db (snd (Update E u i p w)) = w_db w
    | None \<Rightarrow> (\<exists>c t. owned_row (w_db w) u i = Some c
        \<and> fst (Update E u i p w) = Inr (updated_context (update_arg u i p) t c)
        \<and> w_db (snd (Update E u i p w)) = (w_db w)\<lparr>contexts :=
            update_where (\<lambda>c. cx_ID c = i \<and> cx_UserID c = u) (updated_context (update_arg u i p) t)
              (contexts (w_db w))\<rparr>))"
  using assms by (rule Update_calm)

definition area :: "uuid \<Rightarrow> uuid option \<Rightarrow> string \<Rightarrow> int \<Rightarrow> ContextRow" where
  "area i parent slug pos = \<lparr>cx_ID = i, cx_UserID = 7, cx_ParentID = parent, cx_Slug = slug, cx_Name = slug,
     cx_Color = None, cx_ActiveHours = [], cx_ToneProfile = None, cx_Position = pos, cx_IsArchived = False,
     cx_CreatedAt = 0, cx_UpdatedAt = 0\<rparr>"

text \<open>Two roots, one with a child that has a child.\<close>

definition four_areas :: db where
  "four_areas = empty_db\<lparr>users := [\<lparr>u_ID = 7, u_CreatedAt = 0, u_UpdatedAt = 0\<rparr>],
     contexts := [area 1 None ''life'' 0, area 2 None ''work'' 1, area 3 (Some 2) ''team'' 2,
       area 4 (Some 3) ''retro'' 3]\<rparr>"

definition areas_world :: world where
  "areas_world = \<lparr>w_db = four_areas, w_tick = 0, w_tx = None, w_google = False\<rparr>"

lemma contexts_four_areas:
  "contexts four_areas = [area 1 None ''life'' 0, area 2 None ''work'' 1, area 3 (Some 2) ''team'' 2,
     area 4 (Some 3) ''retro'' 3]"
  by (simp add: four_areas_def)

lemma parent_of_four_areas:
  "parent_of (contexts four_areas) i = (if i = 3 then Some 2 else if i = 4 then Some 3 else None)"
  by (simp add: contexts_four_areas parent_of_def area_def)

lemma contexts_ok_four_areas: "contexts_ok four_areas"
proof -
  have "acyclic (parent_rel (contexts four_areas))"
    by (rule acyclicI_order [where f = "\<lambda>n. - uint n"]) (auto simp: parent_of_four_areas split: if_splits)
  moreover have "context_row_ok four_areas c" if "c \<in> set (contexts four_areas)" for c
    using that
    by (auto simp: contexts_four_areas context_row_ok_def area_def slug_format_def slug_char_def color_token_def)
      (simp_all add: four_areas_def)
  ultimately show ?thesis by (auto simp: contexts_ok_def contexts_four_areas area_def)
qed

definition no_change :: UpdateParams where
  "no_change = \<lparr>cu_Name = None, cu_IsArchived = None, cu_SetColor = False, cu_Color = None,
     cu_SetParentID = False, cu_ParentID = None, cu_SetToneProfile = False, cu_ToneProfile = None\<rparr>"

lemma no_change_simps [simp]:
  "cu_Name no_change = None" "cu_IsArchived no_change = None" "\<not> cu_SetColor no_change"
  "\<not> cu_SetParentID no_change" "\<not> cu_SetToneProfile no_change"
  by (simp_all add: no_change_def)

abbreviation nest_under :: "uuid \<Rightarrow> UpdateParams" where
  "nest_under q \<equiv> no_change\<lparr>cu_SetParentID := True, cu_ParentID := Some q\<rparr>"

lemma ancestors_four_areas:
  "ancestors (contexts four_areas) 1 = {1}" "ancestors (contexts four_areas) 2 = {2}"
  "ancestors (contexts four_areas) 3 = {3, 2}" "ancestors (contexts four_areas) 4 = {4, 3, 2}"
  by (simp_all add: ancestors_root ancestors_step parent_of_four_areas)

lemma owned_four_areas:
  "owned_row four_areas u i = (if u \<noteq> 7 then None
     else if i = 1 then Some (area 1 None ''life'' 0) else if i = 2 then Some (area 2 None ''work'' 1)
     else if i = 3 then Some (area 3 (Some 2) ''team'' 2)
     else if i = 4 then Some (area 4 (Some 3) ''retro'' 3) else None)"
  by (simp add: owned_row_def contexts_four_areas area_def)

theorem Update_follows_rules_witness:
  "fst (Update calm_env 7 2 (nest_under 4) areas_world) = Inl ErrCycle
   \<and> fst (Update calm_env 8 2 (nest_under 1) areas_world) = Inl ErrContextNotFound
   \<and> fst (Update calm_env 7 1 (nest_under 4) areas_world) = Inl ErrTooDeep
   \<and> fst (Update calm_env 7 2 (no_change\<lparr>cu_IsArchived := Some True\<rparr>) areas_world) = Inl (LiveChildrenError 1)
   \<and> (\<exists>c. fst (Update calm_env 7 1 (nest_under 3) areas_world) = Inr c)"
proof -
  have rules: "checks (update_rules four_areas 7 2 (nest_under 4)) = Some ErrCycle"
    "checks (update_rules four_areas 8 2 (nest_under 1)) = Some ErrContextNotFound"
    "checks (update_rules four_areas 7 1 (nest_under 4)) = Some ErrTooDeep"
    "checks (update_rules four_areas 7 2 (no_change\<lparr>cu_IsArchived := Some True\<rparr>)) = Some (LiveChildrenError 1)"
    "checks (update_rules four_areas 7 1 (nest_under 3)) = None"
    by (simp_all add: update_rules_def asked_parent_def parent_after_def no_change_def owned_four_areas
        ancestors_four_areas parent_owned_iff [OF contexts_ok_four_areas] live_children_def
        parent_owned_def [of _ _ None] parent_of_four_areas)
      (simp_all add: contexts_four_areas area_def)
  have w: "w_db areas_world = four_areas" by (simp add: areas_world_def)
  note T = Update_follows_rules [of calm_env areas_world, unfolded w, OF _ contexts_ok_four_areas]
  show ?thesis
    using T [of "nest_under 4" 7 2] T [of "nest_under 1" 8 2] T [of "nest_under 4" 7 1]
      T [of "no_change\<lparr>cu_IsArchived := Some True\<rparr>" 7 2] T [of "nest_under 3" 7 1] rules
    by (auto simp: no_change_def)
qed




section \<open>Archiving and creating\<close>

text \<open>
  When nothing fails, archiving a context is refused for one that is not the caller's, and
  with the number of its live children when it has any; otherwise it succeeds, whether or not
  the context was archived before, and marks that row alone.
\<close>

theorem Archive_follows_rules:
  assumes calm: "\<forall>n. e_fault E n = None" and ok: "contexts_ok (w_db w)"
  shows "(case owned_row (w_db w) u i of
      None \<Rightarrow> fst (Archive E u i w) = Inl ErrContextNotFound \<and> w_db (snd (Archive E u i w)) = w_db w
    | Some c \<Rightarrow>
        (if live_children (w_db w) i > 0
         then fst (Archive E u i w) = Inl (LiveChildrenError (int (live_children (w_db w) i)))
           \<and> w_db (snd (Archive E u i w)) = w_db w
         else fst (Archive E u i w) = Inr ()
           \<and> (\<exists>t. w_db (snd (Archive E u i w)) = (w_db w)\<lparr>contexts :=
               update_where (\<lambda>c. cx_ID c = i \<and> cx_UserID c = u)
                 (\<lambda>c. c\<lparr>cx_IsArchived := True, cx_UpdatedAt := t\<rparr>) (contexts (w_db w))\<rparr>)))"
proof (cases "owned_row (w_db w) u i")
  case None
  then show ?thesis
    unfolding Archive_def call_bind [of "Get E u i"] Get_calm [OF calm ok] by simp
next
  case (Some c)
  then have "find (\<lambda>c. cx_ID c = i \<and> cx_UserID c = u) (contexts (w_db w)) = Some c"
    by (simp add: owned_row_def)
  with Some show ?thesis
    unfolding Archive_def call_bind [of "Get E u i"] Get_calm [OF calm ok]
    by (auto simp: call_bind checkNoLiveChildren_calm [OF calm] run_query_def calm ArchiveContext_def
        return_def Let_def)
qed

theorem Archive_follows_rules_witness:
  "fst (Archive calm_env 7 4 areas_world) = Inr ()
   \<and> fst (Archive calm_env 7 3 areas_world) = Inl (LiveChildrenError 1)
   \<and> fst (Archive calm_env 8 4 areas_world) = Inl ErrContextNotFound"
proof -
  have w: "w_db areas_world = four_areas" by (simp add: areas_world_def)
  have n: "live_children four_areas 4 = 0" "live_children four_areas 3 = 1"
    by (simp_all add: live_children_def contexts_four_areas area_def)
  note T = Archive_follows_rules [of calm_env areas_world, unfolded w, OF _ contexts_ok_four_areas]
  show ?thesis using T [of 7 4] T [of 7 3] T [of 8 4] by (simp add: owned_four_areas n)
qed

lemma readParent_calm:
  assumes calm: "\<forall>n. e_fault E n = None" and ok: "contexts_ok (w_db w)"
  shows "\<exists>w'. w_db w' = w_db w \<and> readParent E u p w =
     (if parent_owned (w_db w) u p then Inr () else Inl ErrNoParent, w')"
proof (cases p)
  case None
  then show ?thesis by (simp add: readParent_def return_def parent_owned_def)
next
  case (Some q)
  show ?thesis
  proof (cases "find (\<lambda>c. cx_ID c = q) (contexts (w_db w))")
    case None
    then have "\<not> parent_owned (w_db w) u p" by (auto simp: parent_owned_def find_None_iff Some)
    with None Some calm show ?thesis
      by (simp add: readParent_def call_refused GetContext_def not_found_as_def errors_Is_def)
  next
    case found: (Some c)
    then have c: "c \<in> set (contexts (w_db w))" "cx_ID c = q" by (auto dest: find_Some_in)
    have "parent_owned (w_db w) u p \<longleftrightarrow> cx_UserID c = u"
      using c find_context [OF ok] found Some by (auto simp: parent_owned_def) (metis option.inject)
    with Some found calm show ?thesis
      by (simp add: readParent_def call_read GetContext_def throw_def return_def)
  qed
qed

text \<open>The next position comes after every position of the owner.\<close>

lemma NextContextPosition_calm:
  assumes "\<forall>c \<in> set (contexts d). cx_UserID c = u \<longrightarrow> cx_Position c < 2147483647"
  shows "\<exists>n. NextContextPosition u t d = Inr (n, d)
     \<and> (\<forall>c \<in> set (contexts d). cx_UserID c = u \<longrightarrow> cx_Position c < n)"
proof (cases "map cx_Position (filter (\<lambda>c. cx_UserID c = u) (contexts d))")
  case Nil
  then have "\<forall>c \<in> set (contexts d). cx_UserID c \<noteq> u" by (auto simp: filter_empty_conv)
  with Nil show ?thesis by (simp add: NextContextPosition_def)
next
  case (Cons m ms)
  have pos: "x \<in> set (m # ms) \<longleftrightarrow> (\<exists>c \<in> set (contexts d). cx_UserID c = u \<and> x = cx_Position c)" for x
    unfolding Cons [symmetric] by auto
  then have "foldl max m ms < 2147483647" using assms foldl_max_in [of m ms] by fastforce
  moreover have "cx_Position c \<le> foldl max m ms" if "c \<in> set (contexts d)" "cx_UserID c = u" for c
    using that pos [of "cx_Position c"] foldl_max_upper [of ms m] by auto
  ultimately show ?thesis using Cons by (auto simp: NextContextPosition_def Let_def)
qed

definition create_rules :: "db \<Rightarrow> uuid \<Rightarrow> CreateParams \<Rightarrow> (bool \<times> go_error) list" where
  "create_rules d u p =
     [(parent_owned d u (cp_ParentID p), ErrNoParent),
      (pred_option (\<lambda>q. card (ancestors (contexts d) q) \<le> 2) (cp_ParentID p),
         Wrap ''create context'' (check_violation [])),
      (slug_format (cp_Slug p), Wrap ''create context'' (check_violation ''contexts_slug_format'')),
      ((u, cp_Slug p) \<notin> (\<lambda>c. (cx_UserID c, cx_Slug c)) ` set (contexts d), ErrSlugTaken)]"

lemma CreateContext_calm:
  assumes ok: "contexts_ok d" and own: "parent_owned d u (cp_ParentID p)" and user: "u \<in> u_ID ` set (users d)"
    and color: "color_token (cp_Color p)" and fresh: "i \<notin> cx_ID ` set (contexts d)"
  shows "CreateContext (create_arg i u p n) t d =
     (if pred_option (\<lambda>q. card (ancestors (contexts d) q) \<le> 2) (cp_ParentID p)
      then if slug_format (cp_Slug p)
        then if (u, cp_Slug p) \<notin> (\<lambda>c. (cx_UserID c, cx_Slug c)) ` set (contexts d)
          then Inr (new_context (create_arg i u p n) t,
            d\<lparr>contexts := contexts d @ [new_context (create_arg i u p n) t]\<rparr>)
          else Inl (unique_violation ''contexts_unique_slug'')
        else Inl (check_violation ''contexts_slug_format'')
      else Inl (check_violation []))"
proof -
  have free: "i \<notin> ancestors (contexts d) q \<and> q \<in> cx_ID ` set (contexts d) \<and> q \<noteq> i" if "cp_ParentID p = Some q" for q
    using own that fresh tree.ancestors_in [OF _ ok, of i q] by (auto simp: parent_owned_def ancestors_def)
  have pc: "prevent_cycle (contexts d) i (cp_ParentID p) 0 =
      (if pred_option (\<lambda>q. card (ancestors (contexts d) q) \<le> 2) (cp_ParentID p)
       then None else Some (check_violation []))"
  proof (cases "cp_ParentID p")
    case (Some q)
    then show ?thesis
      using prevent_cycle_iff [OF contexts_ok_rows(2) [OF ok], of i q 0] free [OF Some]
        prevent_cycle_err [of "contexts d" i "Some q" 0]
      by (cases "prevent_cycle (contexts d) i (Some q) 0") auto
  qed simp
  have fk: "case cp_ParentID p of None \<Rightarrow> True | Some q \<Rightarrow> q \<in> cx_ID ` set (contexts d)"
    using free by (auto split: option.split)
  have "cp_ParentID p \<noteq> Some i" using free by blast
  with pc fk color user fresh show ?thesis
    by (simp add: CreateContext_def Let_def context_checks_def new_context_def)
qed

text \<open>What is asked of the environment and the request for the rules to decide alone.\<close>

definition create_ready :: "env \<Rightarrow> db \<Rightarrow> uuid \<Rightarrow> CreateParams \<Rightarrow> bool" where
  "create_ready E d u p \<longleftrightarrow>
     (\<forall>n. e_fault E n = None \<and> (\<exists>i. e_uuid E n = Some i \<and> i \<notin> cx_ID ` set (contexts d)))
     \<and> u \<in> u_ID ` set (users d) \<and> color_token (cp_Color p)
     \<and> (\<forall>c \<in> set (contexts d). cx_UserID c = u \<longrightarrow> cx_Position c < 2147483647)"

lemma Create_calm:
  assumes ready: "create_ready E (w_db w) u p" and ok: "contexts_ok (w_db w)"
  shows "(case checks (create_rules (w_db w) u p) of
      Some e \<Rightarrow> fst (Create E u p w) = Inl e \<and> w_db (snd (Create E u p w)) = w_db w
    | None \<Rightarrow> (\<exists>i n t. let c = new_context (create_arg i u p n) t in
        i \<notin> cx_ID ` set (contexts (w_db w))
        \<and> (\<forall>c' \<in> set (contexts (w_db w)). cx_UserID c' = u \<longrightarrow> cx_Position c' < n)
        \<and> fst (Create E u p w) = Inr c
        \<and> w_db (snd (Create E u p w)) = (w_db w)\<lparr>contexts := contexts (w_db w) @ [c]\<rparr>))"
proof -
  have calm: "\<forall>n. e_fault E n = None" and color: "color_token (cp_Color p)" and user: "u \<in> u_ID ` set (users (w_db w))"
    using ready by (auto simp: create_ready_def)
  have colored: "color_valid (cp_Color p) = None"
    using color by (cases "cp_Color p") (auto simp: color_valid_def color_token_valid)
  obtain v where v: "w_db v = w_db w" "readParent E u (cp_ParentID p) w =
      (if parent_owned (w_db w) u (cp_ParentID p) then Inr () else Inl ErrNoParent, v)"
    using readParent_calm [OF calm ok] by blast
  show ?thesis
  proof (cases "parent_owned (w_db w) u (cp_ParentID p)")
    case False
    with v colored show ?thesis by (simp add: Create_def create_rules_def call_bind)
  next
    case True
    obtain n where n: "NextContextPosition u (db_now E v) (w_db w) = Inr (n, w_db w)"
        "\<forall>c \<in> set (contexts (w_db w)). cx_UserID c = u \<longrightarrow> cx_Position c < n"
      using NextContextPosition_calm [of "w_db w" u "db_now E v"] ready unfolding create_ready_def by blast
    obtain i where i: "e_uuid E (w_tick (tick v)) = Some i" "i \<notin> cx_ID ` set (contexts (w_db w))"
      using ready unfolding create_ready_def by blast
    let ?v = "tick (tick v)"
    have run: "Create E u p w = call (run_query E (CreateContext (create_arg i u p n)))
        (\<lambda>err. if isUniqueViolationOn err ''contexts_unique_slug'' then ErrSlugTaken
               else Wrap ''create context'' err) return ?v"
      using colored v True n(1) i(1) calm by (simp add: Create_def call_bind [of "readParent E u (cp_ParentID p)"]
          call_read call_bind [of "NewV7 E"] NewV7_def)
    note sql = CreateContext_calm [OF ok True user color i(2), of n "db_now E ?v"]
    let ?c = "new_context (create_arg i u p n) (db_now E ?v)"
    show ?thesis
    proof (cases "checks (create_rules (w_db w) u p)")
      case None
      then have "CreateContext (create_arg i u p n) (db_now E ?v) (w_db w)
          = Inr (?c, (w_db w)\<lparr>contexts := contexts (w_db w) @ [?c]\<rparr>)"
        using sql by (simp add: create_rules_def split: if_splits)
      then have "Create E u p w = (Inr ?c, (tick ?v)\<lparr>w_db := (w_db w)\<lparr>contexts := contexts (w_db w) @ [?c]\<rparr>\<rparr>)"
        using run v(1) calm by (simp add: call_bind run_query_ok return_def)
      with None i(2) n(2) show ?thesis
        unfolding Let_def None option.case
        by (intro exI [of _ i] exI [of _ n] exI [of _ "db_now E ?v"]) simp
    next
      case (Some e)
      with sql True obtain e' where "CreateContext (create_arg i u p n) (db_now E ?v) (w_db w) = Inl e'"
          and "(if isUniqueViolationOn e' ''contexts_unique_slug'' then ErrSlugTaken else Wrap ''create context'' e') = e"
        by (auto simp: create_rules_def isUniqueViolationOn_def split: if_splits)
      with run v(1) calm Some show ?thesis by (simp add: call_refused)
    qed
  qed
qed

text \<open>
  C11. When nothing fails, creating a context with a colour of the palette does what the rules
  say: the parent must be the caller's, at most two levels down, the slug well formed and not in
  use by the caller (which is the error the callers of the service know). A refused creation
  leaves the tables as they were; an accepted one adds exactly one row, at a position after all
  the owner's contexts, and reading it back by the returned identifier gives that row.
\<close>

theorem Create_follows_rules:
  assumes "create_ready E (w_db w) u p" and "contexts_ok (w_db w)"
  shows "(case checks (create_rules (w_db w) u p) of
      Some e \<Rightarrow> fst (Create E u p w) = Inl e \<and> w_db (snd (Create E u p w)) = w_db w
    | None \<Rightarrow> (\<exists>c w'. Create E u p w = (Inr c, w')
        \<and> w_db w' = (w_db w)\<lparr>contexts := contexts (w_db w) @ [c]\<rparr>
        \<and> cx_UserID c = u \<and> cx_Slug c = cp_Slug p \<and> cx_ParentID c = cp_ParentID p \<and> \<not> cx_IsArchived c
        \<and> (\<forall>c' \<in> set (contexts (w_db w)). cx_UserID c' = u \<longrightarrow> cx_Position c' < cx_Position c)
        \<and> fst (Get E u (cx_ID c) w') = Inr c))"
proof (cases "checks (create_rules (w_db w) u p)")
  case (Some e)
  with Create_calm [OF assms] show ?thesis by simp
next
  case None
  with Create_calm [OF assms] obtain i n t where c: "fst (Create E u p w) = Inr (new_context (create_arg i u p n) t)"
      "w_db (snd (Create E u p w)) = (w_db w)\<lparr>contexts := contexts (w_db w) @ [new_context (create_arg i u p n) t]\<rparr>"
    and n: "\<forall>c' \<in> set (contexts (w_db w)). cx_UserID c' = u \<longrightarrow> cx_Position c' < n"
    by (auto simp: Let_def)
  let ?c = "new_context (create_arg i u p n) t" and ?w = "snd (Create E u p w)"
  have ok': "contexts_ok (w_db ?w)" using keepsD [OF contexts_ok_Create] assms(2) by metis
  have "owned_row (w_db ?w) u (cx_ID ?c) = Some ?c"
    unfolding owned_row_iff [OF ok'] by (simp add: c(2) new_context_def)
  moreover have "\<forall>k. e_fault E k = None" using assms(1) by (simp add: create_ready_def)
  ultimately have "fst (Get E u (cx_ID ?c) ?w) = Inr ?c" using Get_calm [OF _ ok'] by simp
  with None c n show ?thesis
    by (cases "Create E u p w") (simp add: new_context_def)
qed

theorem Create_follows_rules_witness:
  "\<exists>c w'. Create (calm_env\<lparr>e_uuid := \<lambda>_. Some 9\<rparr>) 7 (sample_area\<lparr>cp_Slug := ''gym'', cp_ParentID := Some 1\<rparr>) areas_world
      = (Inr c, w') \<and> fst (Get (calm_env\<lparr>e_uuid := \<lambda>_. Some 9\<rparr>) 7 (cx_ID c) w') = Inr c"
proof -
  let ?E = "calm_env\<lparr>e_uuid := \<lambda>_. Some 9\<rparr>" and ?p = "sample_area\<lparr>cp_Slug := ''gym'', cp_ParentID := Some 1\<rparr>"
  have w: "w_db areas_world = four_areas" by (simp add: areas_world_def)
  have "create_ready ?E four_areas 7 ?p"
    by (simp add: create_ready_def sample_area_def color_token_def contexts_four_areas area_def)
      (simp add: four_areas_def)
  moreover have "checks (create_rules four_areas 7 ?p) = None"
    by (simp add: create_rules_def sample_area_def ancestors_four_areas slug_format_def slug_char_def
        parent_owned_iff [OF contexts_ok_four_areas] owned_four_areas)
      (simp add: contexts_four_areas area_def)
  ultimately show ?thesis
    using Create_follows_rules [of ?E areas_world 7 ?p] contexts_ok_four_areas by (auto simp: w)
qed

section \<open>Reading the tree\<close>

lemma ListTree_reads:
  assumes "e_fault E (w_tick w) = None"
  shows "\<exists>cs. ListContexts (e_collate E) \<lparr>lcp_UserID = u, lcp_IncludeArchived = inc\<rparr> (db_now E w) (w_db w)
       = Inr (cs, w_db w)
     \<and> ListTree E u inc w = (Inr cs, tick w)"
  using assms by (simp add: ListTree_def ListContexts_def call_read return_def)

lemma listed_params:
  "listed \<lparr>lcp_UserID = u, lcp_IncludeArchived = inc\<rparr> = (\<lambda>c. cx_UserID c = u \<and> (inc \<or> \<not> cx_IsArchived c))"
  by (auto simp: listed_def)

text \<open>
  C12. On a sound tree the listing answers with exactly the owner's contexts (the archived ones
  only when asked for), each once, every parent before its children and siblings by position.
\<close>

theorem ListTree_in_tree_order:
  assumes "e_fault E (w_tick w) = None" and "contexts_ok (w_db w)"
  shows "\<exists>cs. ListTree E u inc w = (Inr cs, tick w)
     \<and> mset cs = mset (filter (\<lambda>c. cx_UserID c = u \<and> (inc \<or> \<not> cx_IsArchived c)) (contexts (w_db w)))
     \<and> in_tree_order cs"
  using ListTree_reads [OF assms(1), of u inc] ListContexts_spec [OF assms(2)]
  by (auto simp: listed_params)

theorem ListTree_in_tree_order_witness:
  "\<exists>cs. fst (ListTree calm_env 7 True areas_world) = Inr cs \<and> length cs = 4 \<and> in_tree_order cs"
proof -
  obtain cs where cs: "ListTree calm_env 7 True areas_world = (Inr cs, tick areas_world)" "in_tree_order cs"
    and rows: "mset cs = mset (filter (\<lambda>c. cx_UserID c = 7 \<and> (True \<or> \<not> cx_IsArchived c)) (contexts four_areas))"
    using ListTree_in_tree_order [of calm_env areas_world 7 True] contexts_ok_four_areas
    by (auto simp: areas_world_def)
  from rows have "length cs = length (filter (\<lambda>c. cx_UserID c = 7 \<and> (True \<or> \<not> cx_IsArchived c)) (contexts four_areas))"
    by (rule mset_eq_length)
  with cs show ?thesis by (simp add: contexts_four_areas area_def)
qed

text \<open>
  The recursive view behind the descendant check is right: on a sound tree the statement
  answers whether the candidate is a context that can be reached from the root by going down,
  the root itself included, and the walk's bound of one level per row never cuts it short.
\<close>

theorem IsDescendant_is_reachability:
  assumes "contexts_ok d"
  shows "IsDescendant \<lparr>idp_CandidateID = i, idp_RootID = r\<rparr> t d =
     Inr (i \<in> cx_ID ` set (contexts d) \<and> r \<in> ancestors (contexts d) i, d)"
  using IsDescendant_iff [OF assms, of "\<lparr>idp_CandidateID = i, idp_RootID = r\<rparr>" t] by (auto simp: ancestors_def)

theorem IsDescendant_is_reachability_witness:
  "IsDescendant \<lparr>idp_CandidateID = 4, idp_RootID = 2\<rparr> 0 four_areas = Inr (True, four_areas)
   \<and> IsDescendant \<lparr>idp_CandidateID = 2, idp_RootID = 4\<rparr> 0 four_areas = Inr (False, four_areas)"
  using IsDescendant_is_reachability [OF contexts_ok_four_areas, of 4 2 0]
    IsDescendant_is_reachability [OF contexts_ok_four_areas, of 2 4 0]
  by (simp add: ancestors_four_areas) (simp add: contexts_four_areas area_def)

text \<open>
  C37. The walk of the recursive view ends: over a sound table of contexts the level reached after
  as many steps as there are rows is empty, no earlier bound cuts the answer and no later one adds
  to it, so the statement behind the view terminates with the whole tree.
\<close>

theorem context_tree_walk_ends:
  assumes "contexts_ok d" and "length (contexts d) \<le> n"
  shows "tree_level (contexts d) n = []
    \<and> tree_walk n (contexts d) (tree_roots (contexts d)) = context_tree d
    \<and> ct_ID ` set (context_tree d) = cx_ID ` set (contexts d)"
proof (intro conjI)
  show "tree_level (contexts d) n = []" by (rule tree_level_empty [OF assms])
  show "tree_walk n (contexts d) (tree_roots (contexts d)) = context_tree d"
    unfolding context_tree_def using tree_level_empty [OF assms(1) order_refl] assms(2)
    by (rule tree_walk_enough)
  show "ct_ID ` set (context_tree d) = cx_ID ` set (contexts d)"
    using context_tree_complete [OF assms(1)] tree_level_row
    unfolding context_tree_level_iff [OF assms(1)] by (force simp: context_tree_level_iff [OF assms(1)] dest: tree_level_row)
qed

theorem context_tree_walk_ends_witness:
  "tree_walk 100 (contexts four_areas) (tree_roots (contexts four_areas)) = context_tree four_areas"
  using context_tree_walk_ends [OF contexts_ok_four_areas, of 100]
  by (simp add: contexts_four_areas)

text \<open>
  C13. The trigger's loop decides the two rules it is meant to: over an acyclic table it accepts a
  parent exactly when the node is not among the parent and its ancestors and there are at most
  two of them.
\<close>

theorem prevent_cycle_decides:
  assumes "acyclic (parent_rel rows)"
  shows "prevent_cycle rows i (Some p) 0 = None \<longleftrightarrow>
     i \<notin> ancestors rows p \<and> card (ancestors rows p) \<le> 2"
  using prevent_cycle_iff [OF assms, of i p 0] by simp

theorem prevent_cycle_decides_witness:
  "prevent_cycle (contexts four_areas) 1 (Some 3) 0 = None
   \<and> prevent_cycle (contexts four_areas) 2 (Some 3) 0 \<noteq> None
   \<and> prevent_cycle (contexts four_areas) 1 (Some 4) 0 \<noteq> None"
  unfolding prevent_cycle_decides [OF contexts_ok_rows(2) [OF contexts_ok_four_areas]]
  by (simp add: ancestors_four_areas)

text \<open>
  C14. A call to the service changes nothing but contexts of the caller, whatever fails: every
  other owner's contexts and every other table are the same after it.
\<close>

theorem contexts_confined:
  "out_of_reach u (w_db (snd (Create E u p w))) = out_of_reach u (w_db w)
   \<and> out_of_reach u (w_db (snd (Update E u i q w))) = out_of_reach u (w_db w)
   \<and> out_of_reach u (w_db (snd (Archive E u i w))) = out_of_reach u (w_db w)"
  by (simp add: out_of_reach_Create out_of_reach_Update out_of_reach_Archive)

text \<open>
  The empty colour passes the domain's check and fails the column's, whose violation the service
  takes for the limit on depth: recolouring a root with the empty text is refused as too deep.
\<close>

lemma empty_colour_reported_as_depth:
  "fst (Update calm_env 7 1 (no_change\<lparr>cu_SetColor := True, cu_Color := Some []\<rparr>) areas_world) = Inl ErrTooDeep"
proof -
  let ?p = "no_change\<lparr>cu_SetColor := True, cu_Color := Some []\<rparr>"
  have sql: "UpdateContext (update_arg 7 1 ?p) t four_areas = Inl (check_violation ''contexts_color_token'')" for t
    using owned_four_areas [of 7 1]
    by (simp add: UpdateContext_def owned_row_def Let_def context_checks_def updated_context_def
        color_token_def area_def)
  have get: "Get calm_env 7 1 areas_world = (Inr (area 1 None ''life'' 0), tick areas_world)"
    using Get_calm [of calm_env areas_world 7 1] contexts_ok_four_areas owned_four_areas [of 7 1]
    by (simp add: areas_world_def)
  have db: "w_db (tick areas_world) = four_areas" by (simp add: areas_world_def)
  have color: "(if cu_SetColor ?p then color_valid (cu_Color ?p) else None) = None"
    by (simp add: color_valid_def ContextColor_Valid_def)
  show ?thesis
    unfolding Update_def color option.case call_bind [of "Get calm_env 7 1"] get
    using sql db by (simp add: call_bind [of "return ()"] return_def call_refused isCheckViolation_def errors_Is_def)
qed

end
