(* ===== verification/Http_Safety.thy ===== *)
theory Http_Safety
  imports Http_Server Contexts_Behaviour Auth_Linking Auth_Lockout
begin

text \<open>
  The API as a whole: what a request does to the tables is what the services do, so the
  invariants of the services hold for any sequence of requests; no operation behind the session
  cookie runs without a live session; and every response of a handler has an encoding.
\<close>

section \<open>A request is a few steps of the services\<close>

definition service_step :: "env set \<Rightarrow> db \<Rightarrow> db \<Rightarrow> bool" where
  "service_step Env d d' \<longleftrightarrow> auth_step Env d d' \<or> contexts_step d d'"

definition moves :: "env set \<Rightarrow> (world \<Rightarrow> 'r \<times> world) \<Rightarrow> bool" where
  "moves Env m \<longleftrightarrow> (\<forall>w. (service_step Env)\<^sup>*\<^sup>* (w_db w) (w_db (snd (m w))))"

named_theorems moves_intro

lemma moves_reads: "reads_only m \<Longrightarrow> moves Env m"
  by (simp add: moves_def reads_only_def)

lemma moves_serve [moves_intro]:
  assumes "moves Env m" and "\<And>x. moves Env (k x)"
  shows "moves Env (serve m h k)"
  unfolding moves_def
proof
  fix w
  have "(service_step Env)\<^sup>*\<^sup>* (w_db w) (w_db (snd (m w)))" using assms(1) by (simp add: moves_def)
  moreover have "(service_step Env)\<^sup>*\<^sup>* (w_db w1) (w_db (snd (k x w1)))" for x w1
    using assms(2) by (simp add: moves_def)
  ultimately show "(service_step Env)\<^sup>*\<^sup>* (w_db w) (w_db (snd (serve m h k w)))"
    by (cases "m w") (auto simp: serve_def split: sum.split intro: rtranclp_trans)
qed

lemma moves_with_now [moves_intro]: "(\<And>t. moves Env (f t)) \<Longrightarrow> moves Env (with_now clk f)"
  by (simp add: moves_def with_now_def)

lemma moves_answer [moves_intro]: "moves Env (\<lambda>w. reply (r w) w)" "moves Env (reply x)" "moves Env (fail e)"
  by (simp_all add: moves_def reply_def fail_def)

lemma moves_with_principal [moves_intro]: "(\<And>p. moves Env (k p)) \<Longrightarrow> moves Env (with_principal c k)"
  by (auto simp: with_principal_def moves_answer split: option.split)

lemma moves_decoded [moves_intro]: "(\<And>x. moves Env (k x)) \<Longrightarrow> moves Env (decoded S d k)"
  by (auto simp: moves_def decoded_def split: sum.split)

lemma moves_answered [moves_intro]: "moves Env h \<Longrightarrow> moves Env (answered S enc h)"
  unfolding moves_def answered_def by (auto split: prod.split sum.split) (metis snd_conv)+

text \<open>The methods of the services.\<close>

lemma moves_auth [moves_intro]:
  assumes "E \<in> Env"
  shows "moves Env (Register E Sv now p sc)" "moves Env (SignInWithPassword E Sv now email pw sc)"
    "moves Env (CompleteGoogleSignIn E G Sv now code st flow sc)" "moves Env (AuthenticatePrincipal E now token)"
    "moves Env (RevokeSession E now u i)" "moves Env (SignOut E now token)" "moves Env (UnlinkProvider E u i)"
  unfolding moves_def service_step_def
  by (auto intro!: r_into_rtranclp disjI1 auth_step.intros [OF assms])

lemma moves_contexts [moves_intro]:
  "moves Env (Create E u p)" "moves Env (Update E u i q)" "moves Env (Archive E u i)"
  unfolding moves_def service_step_def by (auto intro!: r_into_rtranclp disjI2 contexts_step.intros)

lemma reads_only_auth:
  "reads_only (Profile E u)" "reads_only (ListSessions E now u)" "reads_only (ListProviders E u)"
  "reads_only (currentSession E s)"
proof -
  show p: "reads_only (Profile E u)" for u
    unfolding Profile_def by (rule reads_only_run_query) (auto simp: GetUserProfile_def split: option.splits)
  show "reads_only (ListSessions E now u)" unfolding ListSessions_def
    by (intro keeps_intro reads_only_run_query) (auto simp: ListLiveSessions_def)
  show "reads_only (ListProviders E u)" unfolding ListProviders_def
    by (intro keeps_intro reads_only_run_query) (auto simp: ListAuthProviders_def)
  show "reads_only (currentSession E s)" unfolding currentSession_def by (intro keeps_intro p)
qed

lemma reads_only_rand: "reads_only (rand_Read E n)"
  by (simp add: reads_only_def rand_Read_def split: option.split)

lemma moves_reading [moves_intro]:
  "moves Env (Profile E u)" "moves Env (ListSessions E now u)" "moves Env (ListProviders E u)"
  "moves Env (currentSession E s)" "moves Env (Get E u i)" "moves Env (ListTree E u b)"
  by (intro moves_reads reads_only_auth reads_only_checks)+

lemma reads_only_StartGoogleSignIn: "reads_only (StartGoogleSignIn E G Sv returnTo)"
proof -
  have "reads_only (randomToken E)" for E
    unfolding randomToken_def by (intro keeps_intro reads_only_rand)
  then have "reads_only (NewFlowState E returnTo)"
    unfolding NewFlowState_def by (intro keeps_intro)
  moreover have "reads_only (discover G)"
    by (auto simp: reads_only_def discover_def split: sum.split option.split)
  ultimately show ?thesis
    unfolding StartGoogleSignIn_def AuthCodeURL_def by (auto intro!: keeps_intro split: option.split)
qed

lemma moves_Start [moves_intro]: "moves Env (StartGoogleSignIn E G Sv returnTo)"
  by (intro moves_reads reads_only_StartGoogleSignIn)

lemma moves_secured [moves_intro]:
  assumes "sv_env S \<in> Env" and "\<And>c. moves Env (k c)"
  shows "moves Env (secured S r k)"
  unfolding moves_def
proof
  fix w
  have auth: "(service_step Env)\<^sup>*\<^sup>* (w_db w) (w_db (snd (AuthenticatePrincipal (sv_env S) t token w)))" for t token
    using moves_auth(4) [OF assms(1)] by (simp add: moves_def)
  have k: "(service_step Env)\<^sup>*\<^sup>* (w_db w1) (w_db (snd (k c w1)))" for c w1
    using assms(2) by (simp add: moves_def)
  show "(service_step Env)\<^sup>*\<^sup>* (w_db w) (w_db (snd (secured S r k w)))"
  proof (cases "rq_Cookie r sessionCookieName")
    case (Some token)
    obtain res w1 where a: "AuthenticatePrincipal (sv_env S) (sv_clock S (w_tick w)) token w = (res, w1)"
      by fastforce
    with auth [of "sv_clock S (w_tick w)" token] have "(service_step Env)\<^sup>*\<^sup>* (w_db w) (w_db w1)" by simp
    with a Some k show ?thesis
      by (cases res) (auto simp: secured_def securitySessionCookie_def HandleSessionCookie_def intro: rtranclp_trans)
  qed (simp add: secured_def securitySessionCookie_def)
qed

lemmas handler_defs =
  Handler_ArchiveContext_def Handler_CreateContext_def Handler_CreateTask_def Handler_GetContext_def
  Handler_GetCurrentSession_def Handler_ListAuthProviders_def Handler_ListContexts_def
  Handler_ListSessions_def Handler_Login_def Handler_Register_def Handler_RevokeSession_def Handler_SignOut_def
  Handler_UnlinkAuthProvider_def Handler_UpdateContext_def UnimplementedHandler_def

lemmas handle_defs =
  handleArchiveContextRequest_def handleCompleteGoogleSignInRequest_def handleCreateCommitmentRequest_def
  handleCreateContextRequest_def handleCreateTaskRequest_def handleGetContextRequest_def
  handleGetCurrentSessionRequest_def handleListAccountsRequest_def handleListAuthProvidersRequest_def
  handleListContextsRequest_def handleListSessionsRequest_def handleListSignalsRequest_def
  handleLoginRequest_def handleRegisterRequest_def handleRevokeSessionRequest_def handleSignOutRequest_def
  handleStartGoogleSignInRequest_def handleUnlinkAuthProviderRequest_def handleUpdateContextRequest_def

lemma moves_signedIn [moves_intro]: "moves Env (signedIn E H clk s)"
  unfolding signedIn_def by (intro moves_intro)

lemma moves_Google [moves_intro]:
  assumes "E \<in> Env"
  shows "moves Env (Handler_CompleteGoogleSignIn E G parseHost H clk c params)"
    and "moves Env (Handler_StartGoogleSignIn E G H clk param)"
  unfolding Handler_CompleteGoogleSignIn_def Handler_StartGoogleSignIn_def Let_def
  by (auto intro!: moves_intro assms split: option.split prod.split)

lemma moves_handle: "sv_env S \<in> Env \<Longrightarrow> moves Env (handle_request S oper args escaped r)"
  by (cases oper) (simp_all add: handle_defs handler_defs moves_intro)

lemma serve_request_steps:
  "(service_step {sv_env S})\<^sup>*\<^sup>* (w_db w) (w_db (snd (serve_request S r w)))"
  using moves_handle [of S "{sv_env S}"] by (simp add: serve_request_def moves_def split: served.split)

text \<open>
  C4. The API refines the services: whatever the request, and whatever fails on the way, its
  effect on the tables is that of a few calls of the two services.
\<close>

theorem api_refines_services:
  "(service_step {sv_env S})\<^sup>*\<^sup>* (w_db w) (w_db (snd (serve_request S r w)))"
  by (rule serve_request_steps)

text \<open>What the program can reach: requests to servers on one database, and sweeps of the worker.\<close>

inductive api_reachable :: "(string \<Rightarrow> string) \<Rightarrow> db \<Rightarrow> bool" for cf where
  api_empty: "api_reachable cf empty_db"
| api_request: "api_reachable cf d \<Longrightarrow> w_db w = d \<Longrightarrow> e_citext (sv_env S) = cf \<Longrightarrow>
    api_reachable cf (w_db (snd (serve_request S r w)))"
| api_sweep: "api_reachable cf d \<Longrightarrow> w_db w = d \<Longrightarrow> e_citext E = cf \<Longrightarrow>
    api_reachable cf (w_db (snd (SweepExpired E now grace w)))"

lemma auth_step_mono: "auth_step A d d' \<Longrightarrow> A \<subseteq> B \<Longrightarrow> auth_step B d d'"
  by (induction rule: auth_step.induct) (rule auth_step.intros, erule (1) subsetD [rotated], assumption)+

lemma system_reachable_steps:
  "(service_step Env)\<^sup>*\<^sup>* d d' \<Longrightarrow> Env \<subseteq> envs_of cf \<Longrightarrow> system_reachable cf d \<Longrightarrow> system_reachable cf d'"
  by (induction rule: rtranclp_induct)
    (auto simp: service_step_def intro: system_reachable.intros auth_step_mono)

lemma api_reachable_system: "api_reachable cf d \<Longrightarrow> system_reachable cf d"
proof (induction rule: api_reachable.induct)
  case api_empty
  show ?case by (rule sys_empty)
next
  case (api_request d w S r)
  then show ?case
    using system_reachable_steps [OF serve_request_steps] by (auto simp: envs_of_def)
next
  case (api_sweep d w E now grace)
  have "E \<in> envs_of cf" using api_sweep by (simp add: envs_of_def)
  from sys_auth [OF api_sweep.IH step_Sweep [OF this api_sweep.hyps(2)]] show ?case .
qed

text \<open>
  C2. Whatever requests are sent to the API, in whatever order and under whatever failures, with
  the worker sweeping in between: the tree of contexts stays sound, the authentication tables stay
  sound, and every account keeps a way in.
\<close>

theorem api_reachable_sound:
  "api_reachable cf d \<Longrightarrow> contexts_ok d \<and> auth_ok cf d \<and> has_way_in d"
  using api_reachable_system system_reachable_ok by blast

text \<open>A server for the samples: a database that answers, and libraries reduced to a few lines.\<close>

definition sample_lib :: "json \<Rightarrow> ogen_lib" where
  "sample_lib doc = \<lparr>ol_json = \<lparr>og_EncodeUUID = (\<lambda>u. Sprintf_d (unat u)),
       og_DecodeUUID = (\<lambda>s. Some (word_of_nat (digits_value s))),
       og_EncodeDateTime = (\<lambda>t. Sprintf_d (nat t)), og_DecodeDateTime = (\<lambda>s. Some (int (digits_value s))),
       og_EncodeFloat64 = (\<lambda>_. ''0.5''), og_DecodeFloat64 = (\<lambda>_. Some (Finite (1 / 2)))\<rparr>,
     ol_Document = (\<lambda>_. Some (doc, True)), ol_PathValue = Some, ol_HasParam = (\<lambda>vs. vs \<noteq> []),
     ol_QueryValue = (\<lambda>vs. case vs of [v] \<Rightarrow> Some v | _ \<Rightarrow> None), ol_QueryArray = Some,
     ol_ToUUID = (\<lambda>s. Some (word_of_nat (digits_value s))), ol_ToBool = (\<lambda>s. Some (s = ''true'')),
     ol_ToInt32 = (\<lambda>s. Some (int (digits_value s))), ol_ToDateTime = (\<lambda>s. Some (int (digits_value s))),
     ol_String = (\<lambda>_ _. True), ol_Int = (\<lambda>_ _. True), ol_ArrayLength = (\<lambda>lo hi n. lo \<le> n \<and> n \<le> hi),
     ol_Code = (\<lambda>_. 400), ol_Text = (\<lambda>_. ''refused'')\<rparr>"

definition sample_server :: "json \<Rightarrow> server" where
  "sample_server doc = \<lparr>sv_env = calm_env,
     sv_oidc = \<lparr>o_NewProvider = (\<lambda>_ _. None), o_AuthCodeURL = (\<lambda>_ _ _. ''https://accounts.google.com''),
       o_Exchange = (\<lambda>_ _ _. Inr None), o_Verify = (\<lambda>_ _ _. Inl (LibError ''no''))\<rparr>,
     sv_parseHost = (\<lambda>_. Some), sv_handler = \<lparr>hd_production = True, hd_auth = NewService None\<rparr>,
     sv_lib = sample_lib doc, sv_clock = (\<lambda>_. 0), sv_text = (\<lambda>_. []), sv_unescape = Some, sv_ToUpper = (\<lambda>s. s)\<rparr>"

definition sample_request :: "string \<Rightarrow> string \<Rightarrow> (string \<Rightarrow> string option) \<Rightarrow> request" where
  "sample_request m path cookies = \<lparr>rq_Method = m, rq_URL = \<lparr>url_Path = path, url_RawPath = []\<rparr>,
     rq_Query = (\<lambda>_. []), rq_Cookie = cookies, rq_MediaType = Some ''application/json'', rq_ContentLength = 1,
     rq_Body = Some [0], rq_RequestMethod = [], rq_UserAgent = ''curl'', rq_RealIP = None\<rparr>"

lemma sample_server_simps [simp]:
  "sv_env (sample_server doc) = calm_env" "sv_lib (sample_server doc) = sample_lib doc"
  "sv_parseHost (sample_server doc) = (\<lambda>_. Some)" "sv_clock (sample_server doc) n = 0"
  "sv_handler (sample_server doc) = \<lparr>hd_production = True, hd_auth = NewService None\<rparr>"
  by (simp_all add: sample_server_def)

lemma sample_lib_simps [simp]:
  "ol_Document (sample_lib doc) b = Some (doc, True)" "ol_String (sample_lib doc) rule t"
  "ol_HasParam (sample_lib doc) vs \<longleftrightarrow> vs \<noteq> []" "ol_Code (sample_lib doc) x = 400"
  by (simp_all add: sample_lib_def)

lemma sample_request_simps [simp]:
  "rq_Method (sample_request m path cs) = m" "rq_Cookie (sample_request m path cs) = cs"
  "rq_MediaType (sample_request m path cs) = Some ''application/json''"
  "rq_ContentLength (sample_request m path cs) = 1" "rq_Body (sample_request m path cs) = Some [0]"
  "rq_UserAgent (sample_request m path cs) = ''curl''" "rq_RealIP (sample_request m path cs) = None"
  "rq_Query (sample_request m path cs) k = []"
  by (simp_all add: sample_request_def)

theorem api_reachable_sound_witness:
  "has_way_in (w_db (snd (serve_request (sample_server JNull)
     (sample_request ''DELETE'' ''/api/v1/auth/session'' (\<lambda>_. Some ''tok'')) fresh_world)))"
proof -
  have "api_reachable (map lower_char) (w_db (snd (serve_request (sample_server JNull)
     (sample_request ''DELETE'' ''/api/v1/auth/session'' (\<lambda>_. Some ''tok'')) fresh_world)))"
    by (rule api_request [OF api_empty]) (simp_all add: fresh_world_def)
  then show ?thesis using api_reachable_sound by blast
qed

section \<open>Without a session\<close>

definition public :: "Operation \<Rightarrow> bool" where
  "public oper \<longleftrightarrow> oper \<in> {OpCompleteGoogleSignIn, OpLogin, OpRegister, OpStartGoogleSignIn}"

definition live_token :: "db \<Rightarrow> time \<Rightarrow> string \<Rightarrow> bool" where
  "live_token d t token \<longleftrightarrow>
     (\<exists>s \<in> set (auth_sessions d). as_TokenHash s = HashToken token \<and> as_RevokedAt s = None \<and> t < as_ExpiresAt s)"

definition refused :: "server \<Rightarrow> response" where
  "refused S = encodeErrorResponse (NewError (sv_text S) (SecurityError HttpNoSession))"

lemma encodeErrorResponse_security:
  "encodeErrorResponse (NewError txt (SecurityError (Plain e))) =
   encodeErrorResponse (NewError txt (SecurityError HttpNoSession))"
  by (simp add: NewError_def classify_def isSecurityError_def)

lemma AuthenticatePrincipal_read_fails:
  assumes "run_query E (LiveSessionByTokenHash \<lparr>lst_TokenHash = HashToken token, lst_Now = t\<rparr>) w = (Inl e, w1)"
  shows "\<exists>e1. AuthenticatePrincipal E t token w = (Inl e1, w1)"
  using assms by (auto simp: AuthenticatePrincipal_def Authenticate_def call_def attempt_def throw_def)

lemma run_query_fault: "e_fault E (w_tick w) = Some f \<Longrightarrow> \<exists>e w1. run_query E q w = (Inl e, w1)"
  by (cases f) (auto simp: run_query_def split: sum.split)

lemma AuthenticatePrincipal_dead:
  assumes "\<not> live_token (w_db w) t token"
  shows "\<exists>e w1. AuthenticatePrincipal E t token w = (Inl e, w1) \<and> w_db w1 = w_db w"
proof -
  have "LiveSessionByTokenHash \<lparr>lst_TokenHash = HashToken token, lst_Now = t\<rparr> n (w_db w) = Inl ErrNoRows" for n
    using assms by (auto simp: LiveSessionByTokenHash_def live_token_def live_def find_None_iff split: option.splits
        dest!: find_Some_in)
  then have "\<exists>e. run_query E (LiveSessionByTokenHash \<lparr>lst_TokenHash = HashToken token, lst_Now = t\<rparr>) w = (Inl e, tick w)"
    by (auto simp: run_query_def split: option.splits fault.splits)
  then show ?thesis using AuthenticatePrincipal_read_fails tick_simps(1) by blast
qed

lemma secured_without_session:
  assumes "pred_option (\<lambda>token. \<not> live_token (w_db w) (sv_clock S (w_tick w)) token) (rq_Cookie r sessionCookieName)"
  shows "fst (secured S r k w) = refused S \<and> w_db (snd (secured S r k w)) = w_db w"
proof (cases "rq_Cookie r sessionCookieName")
  case (Some token)
  with assms obtain e w1 where
    "AuthenticatePrincipal (sv_env S) (sv_clock S (w_tick w)) token w = (Inl e, w1)" "w_db w1 = w_db w"
    using AuthenticatePrincipal_dead by (metis option.pred_inject(2))
  with Some show ?thesis
    by (simp add: secured_def securitySessionCookie_def HandleSessionCookie_def refused_def encodeErrorResponse_security)
qed (simp add: secured_def securitySessionCookie_def refused_def encodeErrorResponse_security)

lemma handle_secured: "\<not> public oper \<Longrightarrow> \<exists>k. handle_request S oper args escaped r = secured S r k"
  by (cases oper) (auto simp: public_def handle_defs)

text \<open>
  C3. No operation behind the session cookie runs without a live session. A request without the
  cookie, or with a token no live session has, is answered 401 with the same envelope whatever
  the operation and its arguments, the tables stay as they were, and this whatever the database
  does.
\<close>

theorem no_access_without_session:
  assumes "\<not> public oper"
    and "pred_option (\<lambda>token. \<not> live_token (w_db w) (sv_clock S (w_tick w)) token) (rq_Cookie r ''warp_session'')"
  shows "fst (handle_request S oper args escaped r w) = error_response 401 ''unauthenticated''
      ''this endpoint requires a session; sign in at /api/v1/auth/google/start''
    \<and> w_db (snd (handle_request S oper args escaped r w)) = w_db w"
proof -
  obtain k where "handle_request S oper args escaped r = secured S r k" using handle_secured [OF assms(1)] by blast
  moreover have "refused S = error_response 401 ''unauthenticated''
      ''this endpoint requires a session; sign in at /api/v1/auth/google/start''"
    by (simp add: refused_def encodeErrorResponse_def NewError_def classify_def isSecurityError_def)
  ultimately show ?thesis using secured_without_session [OF assms(2)] by simp
qed

text \<open>
  C27. A failure of the database while the session is resolved is answered 401 too, with the
  envelope of a missing session: the generated server wraps whatever the security handler
  returns, and the classification knows the wrapper first.
\<close>

theorem session_lookup_failure_is_401:
  assumes "\<not> public oper" and "rq_Cookie r ''warp_session'' = Some token"
    and "e_fault (sv_env S) (w_tick w) = Some f"
  shows "fst (handle_request S oper args escaped r w) = error_response 401 ''unauthenticated''
      ''this endpoint requires a session; sign in at /api/v1/auth/google/start''"
proof -
  obtain k where k: "handle_request S oper args escaped r = secured S r k" using handle_secured [OF assms(1)] by blast
  obtain e w1 where "AuthenticatePrincipal (sv_env S) (sv_clock S (w_tick w)) token w = (Inl e, w1)"
    using AuthenticatePrincipal_read_fails assms(3)
    by (metis (no_types, lifting) run_query_fault)
  then show ?thesis
    using assms(2) by (simp add: k secured_def securitySessionCookie_def HandleSessionCookie_def encodeErrorResponse_security)
      (simp add: encodeErrorResponse_def NewError_def classify_def isSecurityError_def)
qed

theorem no_access_without_session_witness:
  "rs_status (fst (handle_request (sample_server JNull) OpSignOut [] False
     (sample_request ''DELETE'' ''/api/v1/auth/session'' (\<lambda>_. Some ''tok'')) fresh_world)) = 401"
proof -
  have "\<not> public OpSignOut" by (simp add: public_def)
  from no_access_without_session [OF this, of fresh_world "sample_server JNull"
      "sample_request ''DELETE'' ''/api/v1/auth/session'' (\<lambda>_. Some ''tok'')" "[]" False]
  show ?thesis
    by (simp add: live_token_def fresh_world_def empty_db_def error_response_def json_response_def)
qed

theorem session_lookup_failure_is_401_witness:
  "rs_status (fst (handle_request ((sample_server JNull)\<lparr>sv_env := calm_env\<lparr>e_fault := (\<lambda>_. Some (FailBefore (LibError ''down'')))\<rparr>\<rparr>)
     OpListContexts [] False (sample_request ''GET'' ''/api/v1/contexts'' (\<lambda>_. Some ''tok'')) fresh_world)) = 401"
proof -
  have "\<not> public OpListContexts" by (simp add: public_def)
  from session_lookup_failure_is_401 [OF this,
      of "sample_request ''GET'' ''/api/v1/contexts'' (\<lambda>_. Some ''tok'')" "''tok''"
         "(sample_server JNull)\<lparr>sv_env := calm_env\<lparr>e_fault := (\<lambda>_. Some (FailBefore (LibError ''down'')))\<rparr>\<rparr>"
         fresh_world "FailBefore (LibError ''down'')" "[]" False]
  show ?thesis by (simp add: error_response_def json_response_def)
qed

section \<open>Every response has an encoding\<close>

text \<open>
  The responses of a handler are among the types of its operation, and their statuses among
  \<open>statuses\<close>.
\<close>

definition encodes :: "nat set \<Rightarrow> (api_response \<Rightarrow> response option) \<Rightarrow> handler \<Rightarrow> bool" where
  "encodes statuses enc h \<longleftrightarrow>
     (\<forall>w res w1. h w = (Inr res, w1) \<longrightarrow> (\<exists>resp. enc res = Some resp \<and> rs_status resp \<in> statuses))"

definition encodable :: "nat set \<Rightarrow> (api_response \<Rightarrow> response option) \<Rightarrow> api_error + api_response \<Rightarrow> bool" where
  "encodable statuses enc out \<longleftrightarrow>
     (\<forall>res. out = Inr res \<longrightarrow> (\<exists>resp. enc res = Some resp \<and> rs_status resp \<in> statuses))"

lemma encodes_serve:
  assumes "\<And>e w. encodable sts enc (h e w)" and "\<And>x. encodes sts enc (k x)"
  shows "encodes sts enc (serve m h k)"
  unfolding encodes_def
proof (intro allI impI)
  fix w res w1 assume run: "serve m h k w = (Inr res, w1)"
  obtain out w2 where m: "m w = (out, w2)" by fastforce
  show "\<exists>resp. enc res = Some resp \<and> rs_status resp \<in> sts"
  proof (cases out)
    case (Inl e)
    with run m have "h e w2 = Inr res" by (auto simp: serve_def)
    with assms(1) [of e w2] show ?thesis by (simp add: encodable_def)
  next
    case (Inr x)
    with run m have "k x w2 = (Inr res, w1)" by (simp add: serve_def)
    with assms(2) [of x] show ?thesis by (auto simp: encodes_def)
  qed
qed

lemma encodes_reply:
  "(\<And>w. encodable sts enc (Inr (r w))) \<Longrightarrow> encodes sts enc (\<lambda>w. reply (r w) w)"
  "encodable sts enc (Inr x) \<Longrightarrow> encodes sts enc (reply x)" "encodes sts enc (fail e)"
  by (auto simp: encodes_def encodable_def reply_def fail_def)

lemma encodes_with_principal: "(\<And>p. encodes sts enc (k p)) \<Longrightarrow> encodes sts enc (with_principal c k)"
  by (auto simp: with_principal_def encodes_reply split: option.split)

lemma encodable_simps:
  "encodable sts enc (Inl e)" "encodable sts enc (Inr res) \<longleftrightarrow> pred_option (\<lambda>r. rs_status r \<in> sts) (enc res) \<and> enc res \<noteq> None"
  by (auto simp: encodable_def pred_option_def)

lemma status_simps:
  "rs_status (json_response st j) = st" "rs_status no_content = 204" "rs_status (error_response st c m) = st"
  by (simp_all add: json_response_def no_content_def error_response_def)

lemmas encodes_intros = encodes_serve encodes_with_principal encodes_reply

lemma encodes_google:
  "encodes {302, 401} encodeCompleteGoogleSignInResponse (Handler_CompleteGoogleSignIn E G parseHost H clk c params)"
  "encodes {302} encodeStartGoogleSignInResponse (Handler_StartGoogleSignIn E G H clk param)"
  unfolding Handler_CompleteGoogleSignIn_def Handler_StartGoogleSignIn_def Let_def
  by (auto intro!: encodes_intros simp: encodable_simps status_simps signInExpired_def split: option.split prod.split)

lemma handlers_encode:
  "encodes {204, 404, 409} encodeArchiveContextResponse (Handler_ArchiveContext E c i)
   \<and> encodes {302, 401} encodeCompleteGoogleSignInResponse (Handler_CompleteGoogleSignIn E G parseHost H clk c params)
   \<and> encodes {201, 409, 422} (encodeCreateContextResponse J) (Handler_CreateContext E c create)
   \<and> encodes {} enc (Handler_CreateTask c) \<and> encodes {} enc UnimplementedHandler
   \<and> encodes {200, 404} (encodeGetContextResponse J) (Handler_GetContext E c i)
   \<and> encodes {200} (encodeGetCurrentSessionResponse J) (Handler_GetCurrentSession E clk c)
   \<and> encodes {200} (encodeListAuthProvidersResponse J) (Handler_ListAuthProviders E c)
   \<and> encodes {200} (encodeListContextsResponse J) (Handler_ListContexts E c archived)
   \<and> encodes {200} (encodeListSessionsResponse J) (Handler_ListSessions E clk c)
   \<and> encodes {200, 401, 429} (encodeLoginResponse J) (Handler_Login E H clk c login)
   \<and> encodes {201, 409} (encodeRegisterResponse J) (Handler_Register E H clk txt c register)
   \<and> encodes {204, 404} encodeRevokeSessionResponse (Handler_RevokeSession E clk c i)
   \<and> encodes {204} encodeSignOutResponse (Handler_SignOut E H clk c)
   \<and> encodes {302} encodeStartGoogleSignInResponse (Handler_StartGoogleSignIn E G H clk param)
   \<and> encodes {204, 404, 409} encodeUnlinkAuthProviderResponse (Handler_UnlinkAuthProvider E c i)
   \<and> encodes {200, 404, 422} (encodeUpdateContextResponse J) (Handler_UpdateContext E c update i)"
  unfolding handler_defs signedIn_def
  by (intro conjI encodes_google encodes_intros)
    (auto simp: encodable_simps status_simps updateContextError_def split: option.split)

lemmas handler_encodes =
  handlers_encode [THEN conjunct1]
  handlers_encode [THEN conjunct2, THEN conjunct1]
  handlers_encode [THEN conjunct2, THEN conjunct2, THEN conjunct1]
  handlers_encode [THEN conjunct2, THEN conjunct2, THEN conjunct2, THEN conjunct1]
  handlers_encode [THEN conjunct2, THEN conjunct2, THEN conjunct2, THEN conjunct2, THEN conjunct1]
  handlers_encode [THEN conjunct2, THEN conjunct2, THEN conjunct2, THEN conjunct2, THEN conjunct2, THEN conjunct1]
  handlers_encode [THEN conjunct2, THEN conjunct2, THEN conjunct2, THEN conjunct2, THEN conjunct2, THEN conjunct2, THEN conjunct1]
  handlers_encode [THEN conjunct2, THEN conjunct2, THEN conjunct2, THEN conjunct2, THEN conjunct2, THEN conjunct2, THEN conjunct2, THEN conjunct1]
  handlers_encode [THEN conjunct2, THEN conjunct2, THEN conjunct2, THEN conjunct2, THEN conjunct2, THEN conjunct2, THEN conjunct2, THEN conjunct2, THEN conjunct1]
  handlers_encode [THEN conjunct2, THEN conjunct2, THEN conjunct2, THEN conjunct2, THEN conjunct2, THEN conjunct2, THEN conjunct2, THEN conjunct2, THEN conjunct2, THEN conjunct1]
  handlers_encode [THEN conjunct2, THEN conjunct2, THEN conjunct2, THEN conjunct2, THEN conjunct2, THEN conjunct2, THEN conjunct2, THEN conjunct2, THEN conjunct2, THEN conjunct2, THEN conjunct1]
  handlers_encode [THEN conjunct2, THEN conjunct2, THEN conjunct2, THEN conjunct2, THEN conjunct2, THEN conjunct2, THEN conjunct2, THEN conjunct2, THEN conjunct2, THEN conjunct2, THEN conjunct2, THEN conjunct1]
  handlers_encode [THEN conjunct2, THEN conjunct2, THEN conjunct2, THEN conjunct2, THEN conjunct2, THEN conjunct2, THEN conjunct2, THEN conjunct2, THEN conjunct2, THEN conjunct2, THEN conjunct2, THEN conjunct2, THEN conjunct1]
  handlers_encode [THEN conjunct2, THEN conjunct2, THEN conjunct2, THEN conjunct2, THEN conjunct2, THEN conjunct2, THEN conjunct2, THEN conjunct2, THEN conjunct2, THEN conjunct2, THEN conjunct2, THEN conjunct2, THEN conjunct2, THEN conjunct1]
  handlers_encode [THEN conjunct2, THEN conjunct2, THEN conjunct2, THEN conjunct2, THEN conjunct2, THEN conjunct2, THEN conjunct2, THEN conjunct2, THEN conjunct2, THEN conjunct2, THEN conjunct2, THEN conjunct2, THEN conjunct2, THEN conjunct2, THEN conjunct1]
  handlers_encode [THEN conjunct2, THEN conjunct2, THEN conjunct2, THEN conjunct2, THEN conjunct2, THEN conjunct2, THEN conjunct2, THEN conjunct2, THEN conjunct2, THEN conjunct2, THEN conjunct2, THEN conjunct2, THEN conjunct2, THEN conjunct2, THEN conjunct2, THEN conjunct1]
  handlers_encode [THEN conjunct2, THEN conjunct2, THEN conjunct2, THEN conjunct2, THEN conjunct2, THEN conjunct2, THEN conjunct2, THEN conjunct2, THEN conjunct2, THEN conjunct2, THEN conjunct2, THEN conjunct2, THEN conjunct2, THEN conjunct2, THEN conjunct2, THEN conjunct2]

section \<open>The cookie of a flow\<close>

text \<open>What \<open>oauthCookie\<close> puts into the cookie, the middleware reads out of it again.\<close>

lemma withOAuthFlow_oauthCookie:
  assumes "ValidString (fs_State flow)" and "ValidString (fs_Nonce flow)" and "ValidString (fs_ReturnTo flow)"
  shows "withOAuthFlow (Some (ck_Value (oauthCookie H flow now))) = Some flow"
proof -
  have "valid_fields (oauthFlowCookie flow)"
    using assms by (simp add: oauthFlowCookie_def ascii_ValidString ascii_char_def)
  moreover have "distinct (map fst (oauthFlowCookie flow))" and "oauthFlowCookie flow \<noteq> []"
    by (simp_all add: oauthFlowCookie_def)
  ultimately have "Unmarshal (map fst (oauthFlowCookie flow)) (Marshal (oauthFlowCookie flow))
      = Some (\<lambda>n. case map_of (oauthFlowCookie flow) n of Some v \<Rightarrow> v | None \<Rightarrow> [])"
    by (intro Unmarshal_Marshal)
  moreover have "string_to_bytes (Marshal (oauthFlowCookie flow)) \<noteq> []"
    by (simp add: string_to_bytes_def)
  then have "RawURL_EncodeToString (string_to_bytes (Marshal (oauthFlowCookie flow))) \<noteq> []"
    using rawurl.enc_eq_iff [of _ "[]"] by fastforce
  ultimately show ?thesis
    by (simp add: withOAuthFlow_def oauthCookie_def oauthFlowCookie_def)
qed

text \<open>
  C28. The flow of a sign-in survives the browser: whatever UTF-8 its state, nonce and return path are, the
  cookie that the start of the sign-in sets is read back, out of base64 and JSON, as the same flow at the
  callback.
\<close>

theorem flow_cookie_roundtrip:
  assumes "fs_State flow \<noteq> []"
    and "ValidString (fs_State flow)" and "ValidString (fs_Nonce flow)" and "ValidString (fs_ReturnTo flow)"
    and "rq_Cookie r ''warp_oauth'' = Some (ck_Value (oauthCookie H flow now))"
  shows "oauthFlowFrom (request_context S r) = Some flow"
  using assms by (simp add: request_context_def withOAuthFlow_oauthCookie oauthFlowFrom_def)

theorem flow_cookie_roundtrip_witness:
  "oauthFlowFrom (request_context (sample_server JNull) (sample_request ''GET'' ''/api/v1/auth/google/callback''
     (\<lambda>_. Some (ck_Value (oauthCookie \<lparr>hd_production = True, hd_auth = NewService None\<rparr>
        \<lparr>fs_State = ''xyz'', fs_Nonce = [], fs_ReturnTo = ''/''\<rparr> 0)))))
   = Some \<lparr>fs_State = ''xyz'', fs_Nonce = [], fs_ReturnTo = ''/''\<rparr>"
  by (rule flow_cookie_roundtrip) (simp_all add: ascii_ValidString ascii_char_def)

end
