(* ===== verification/Http_Behaviour.thy ===== *)
theory Http_Behaviour
  imports Http_Safety
begin

text \<open>
  What the API does for a client: signing out ends a session for good, an update tells what was left
  out from what is null, and what becomes of a sign-in the owner declined.
\<close>

section \<open>Signing out\<close>

text \<open>One more request to a server of a set of environments, or a sweep of the worker.\<close>

inductive api_step :: "env set \<Rightarrow> db \<Rightarrow> db \<Rightarrow> bool" for Env where
  a_request: "sv_env S \<in> Env \<Longrightarrow> w_db w = d \<Longrightarrow> api_step Env d (w_db (snd (serve_request S r w)))"
| a_sweep: "E \<in> Env \<Longrightarrow> w_db w = d \<Longrightarrow> api_step Env d (w_db (snd (SweepExpired E now grace w)))"

lemma token_dead_contexts:
  assumes "contexts_step d d'" and "token_dead h d"
  shows "token_dead h d'"
proof -
  obtain u where "out_of_reach u d' = out_of_reach u d" using contexts_step_frame [OF assms(1)] by blast
  then have "auth_sessions (out_of_reach u d') = auth_sessions (out_of_reach u d)" by simp
  then have "auth_sessions d' = auth_sessions d" by (simp add: out_of_reach_def)
  with assms(2) show ?thesis by (simp add: token_dead_def session_inv_def session_lookup_def)
qed

lemma token_dead_service_steps:
  "(service_step Env)\<^sup>*\<^sup>* d d' \<Longrightarrow> Env \<subseteq> {E. never_issues h E} \<Longrightarrow> token_dead h d \<Longrightarrow> token_dead h d'"
proof (induction rule: rtranclp_induct)
  case (step d1 d2)
  then show ?case
    using token_dead_steps [of Env d1 d2 h] token_dead_contexts by (auto simp: service_step_def)
qed

lemma token_dead_api_step:
  assumes "api_step Env d d'" and "Env \<subseteq> {E. never_issues h E}" and "token_dead h d"
  shows "token_dead h d'"
  using assms
proof (induction rule: api_step.induct)
  case (a_request S w d r)
  then show ?case using token_dead_service_steps [OF serve_request_steps, of S h w r] by auto
next
  case (a_sweep E w d now grace)
  have "auth_step Env d (w_db (snd (SweepExpired E now grace w)))" using a_sweep by (intro step_Sweep)
  with a_sweep show ?case using token_dead_steps [of Env d _ h] by blast
qed

lemma token_dead_not_live: "token_dead (HashToken token) d \<Longrightarrow> \<not> live_token d t token"
  by (auto simp: token_dead_def live_token_def session_lookup_None live_def)

lemma refused_status: "rs_status (refused S) = 401"
  by (simp add: refused_def encodeErrorResponse_def NewError_def classify_def isSecurityError_def status_simps)

lemma handleSignOut_204:
  assumes "rq_Cookie r ''warp_session'' = Some token" and "handleSignOutRequest S r w = (resp, w1)"
    and "rs_status resp = 204"
  shows "\<exists>p t w0 now. AuthenticatePrincipal (sv_env S) t token w = (Inr p, w0) \<and> SignOut (sv_env S) now token w0 = (Inr (), w1)"
proof -
  obtain out w0 where a: "AuthenticatePrincipal (sv_env S) (sv_clock S (w_tick w)) token w = (out, w0)" by fastforce
  note defs = handleSignOutRequest_def secured_def securitySessionCookie_def HandleSessionCookie_def
    answered_def Handler_SignOut_def with_principal_def serve_def with_now_def reply_def
  have err: "rs_status (encodeErrorResponse (NewError f (SecurityError e))) \<noteq> 204"
    "rs_status (encodeErrorResponse (NewError f (Plain x))) \<noteq> 204" if "e = HttpNoSession \<or> (\<exists>y. e = Plain y)" for f e x
    using that by (auto simp: encodeErrorResponse_def NewError_def classify_def isSecurityError_def status_simps)
  show ?thesis
  proof (cases out)
    case (Inl e)
    with assms a err(1) show ?thesis by (auto simp: defs split: if_splits)
  next
    case (Inr p)
    obtain out2 w2 where so: "SignOut (sv_env S) (sv_clock S (w_tick w0)) token w0 = (out2, w2)" by fastforce
    have "\<exists>u. out2 = Inr u \<and> w2 = w1"
      using assms a Inr so err(2) [of HttpNoSession] by (cases out2) (auto simp: defs)
    with a so Inr show ?thesis by auto
  qed
qed

text \<open>
  C5. Signing out is final for the whole API. Once a sign-out has been answered 204, no further
  requests, by anyone, to any server, whatever fails, and no sweep of the worker, bring the token
  back: every operation behind the cookie answers it with 401 and changes nothing, as long as the
  random source does not produce a token with the same hash.
\<close>

theorem signed_out_for_good:
  assumes "auth_ok (e_citext (sv_env S)) (w_db w)" and "rq_Cookie r ''warp_session'' = Some token"
    and "handleSignOutRequest S r w = (resp, w1)" and "rs_status resp = 204"
    and "(api_step {F. never_issues (HashToken token) F})\<^sup>*\<^sup>* (w_db w1) (w_db w2)"
    and "\<not> public oper" and "rq_Cookie r2 ''warp_session'' = Some token"
  shows "rs_status (fst (handle_request S2 oper args escaped r2 w2)) = 401
    \<and> w_db (snd (handle_request S2 oper args escaped r2 w2)) = w_db w2"
proof -
  obtain p t w0 now where a: "AuthenticatePrincipal (sv_env S) t token w = (Inr p, w0)"
    and so: "SignOut (sv_env S) now token w0 = (Inr (), w1)"
    using handleSignOut_204 [OF assms(2,3,4)] by blast
  have "auth_step {sv_env S} (w_db w) (w_db w0)"
    using step_Authenticate [of "sv_env S" "{sv_env S}" w "w_db w" t token] a by simp
  then have "auth_ok (e_citext (sv_env S)) (w_db w0)"
    by (rule auth_step_integrity [OF _ assms(1)]) (simp add: envs_of_def)
  then have "token_dead (HashToken token) (w_db w1)" by (rule SignOut_dead [OF so])
  with assms(5) have "token_dead (HashToken token) (w_db w2)"
    by (induction rule: rtranclp_induct) (auto intro: token_dead_api_step)
  then have "pred_option (\<lambda>tok. \<not> live_token (w_db w2) (sv_clock S2 (w_tick w2)) tok) (rq_Cookie r2 sessionCookieName)"
    using token_dead_not_live by (simp add: assms(7))
  moreover obtain k where "handle_request S2 oper args escaped r2 = secured S2 r2 k"
    using handle_secured [OF assms(6)] by blast
  ultimately show ?thesis using secured_without_session [of w2 S2 r2 k] by (simp add: refused_status)
qed

abbreviation sign_out_request :: request where
  "sign_out_request \<equiv> sample_request ''DELETE'' ''/api/v1/auth/session'' (\<lambda>_. Some ''tok'')"

theorem signed_out_for_good_witness:
  "rs_status (fst (handle_request (sample_server JNull) OpListContexts [] False sign_out_request
     (snd (SweepExpired (calm_env\<lparr>e_rand := (\<lambda>_ _. None)\<rparr>) 20 0
        (snd (handleSignOutRequest (sample_server JNull) sign_out_request one_session_world)))))) = 401"
proof -
  let ?out = "handleSignOutRequest (sample_server JNull) sign_out_request one_session_world"
  have out: "handleSignOutRequest (sample_server JNull) sign_out_request one_session_world = (fst ?out, snd ?out)" by simp
  have s204: "rs_status (fst ?out) = 204"
    by (simp add: handleSignOutRequest_def secured_def securitySessionCookie_def HandleSessionCookie_def
        AuthenticatePrincipal_def Authenticate_def call_def attempt_def best_effort_def run_query_def
        LiveSessionByTokenHash_def TouchAuthSession_def return_def one_session_world_def one_session_def live_def
        answered_def Handler_SignOut_def with_principal_def serve_def with_now_def SignOut_def
        RevokeSessionByTokenHash_def Let_def reply_def fresh_world_def)
  have ok: "auth_ok (e_citext (sv_env (sample_server JNull))) (w_db one_session_world)"
    using auth_ok_one_session by simp
  have "(api_step {F. never_issues (HashToken ''tok'') F})\<^sup>*\<^sup>* (w_db (snd ?out))
      (w_db (snd (SweepExpired (calm_env\<lparr>e_rand := (\<lambda>_ _. None)\<rparr>) 20 0 (snd ?out))))"
    by (intro r_into_rtranclp a_sweep refl) (simp add: never_issues_def)
  from signed_out_for_good [OF ok _ out s204 this, of OpListContexts sign_out_request "sample_server JNull" "[]" False]
  show ?thesis by (simp add: public_def)
qed

section \<open>What an update leaves alone\<close>

lemma UpdateContextRequest_fields:
  assumes "UpdateContextRequest_Decode G (JObj fs) = Inr r"
  shows "case map_of (rev fs) ''name'' of None \<Rightarrow> ucr_Name r = Opt_Reset []
      | Some j \<Rightarrow> Opt_Decode jx_Str j = Inr (ucr_Name r)"
    and "case map_of (rev fs) ''parentId'' of None \<Rightarrow> ucr_ParentId r = OptNil_Reset 0
      | Some j \<Rightarrow> OptNil_Decode 0 (DecodeUUID G) j = Inr (ucr_ParentId r)"
    and "case map_of (rev fs) ''color'' of None \<Rightarrow> ucr_Color r = OptNil_Reset []
      | Some j \<Rightarrow> OptNil_Decode [] jx_Str j = Inr (ucr_Color r)"
    and "case map_of (rev fs) ''toneProfile'' of None \<Rightarrow> ucr_ToneProfile r = OptNil_Reset []
      | Some j \<Rightarrow> OptNil_Decode [] jx_Str j = Inr (ucr_ToneProfile r)"
    and "case map_of (rev fs) ''isArchived'' of None \<Rightarrow> ucr_IsArchived r = Opt_Reset False
      | Some j \<Rightarrow> Opt_Decode jx_Bool j = Inr (ucr_IsArchived r)"
proof -
  let ?cases = "[optional ''name'' (Opt_Decode jx_Str) (\<lambda>x s. s\<lparr>ucr_Name := x\<rparr>),
      optional ''parentId'' (OptNil_Decode 0 (DecodeUUID G)) (\<lambda>x s. s\<lparr>ucr_ParentId := x\<rparr>),
      optional ''color'' (OptNil_Decode [] jx_Str) (\<lambda>x s. s\<lparr>ucr_Color := x\<rparr>),
      optional ''toneProfile'' (OptNil_Decode [] jx_Str) (\<lambda>x s. s\<lparr>ucr_ToneProfile := x\<rparr>),
      optional ''isArchived'' (Opt_Decode jx_Bool) (\<lambda>x s. s\<lparr>ucr_IsArchived := x\<rparr>)]"
  obtain seen where run: "each_field (switch ?cases) fs (zero_UpdateContextRequest, []) = Inr (r, seen)"
    using assms by (auto simp: UpdateContextRequest_Decode_def decode_as_def split: sum.splits prod.splits list.splits)
  have zero: "ucr_Name zero_UpdateContextRequest = Opt_Reset []" "ucr_ParentId zero_UpdateContextRequest = OptNil_Reset 0"
    "ucr_Color zero_UpdateContextRequest = OptNil_Reset []" "ucr_ToneProfile zero_UpdateContextRequest = OptNil_Reset []"
    "ucr_IsArchived zero_UpdateContextRequest = Opt_Reset False"
    by (simp_all add: zero_UpdateContextRequest_def)
  note last = each_field_last [OF _ _ _ run]
  show "case map_of (rev fs) ''name'' of None \<Rightarrow> ucr_Name r = Opt_Reset []
      | Some j \<Rightarrow> Opt_Decode jx_Str j = Inr (ucr_Name r)"
    using last [of "''name''" "Opt_Decode jx_Str" "\<lambda>x s. s\<lparr>ucr_Name := x\<rparr>" ucr_Name]
    unfolding zero by (simp add: map_of_first leaves_optional del: map_of.simps)
  show "case map_of (rev fs) ''parentId'' of None \<Rightarrow> ucr_ParentId r = OptNil_Reset 0
      | Some j \<Rightarrow> OptNil_Decode 0 (DecodeUUID G) j = Inr (ucr_ParentId r)"
    using last [of "''parentId''" "OptNil_Decode 0 (DecodeUUID G)" "\<lambda>x s. s\<lparr>ucr_ParentId := x\<rparr>" ucr_ParentId]
    unfolding zero by (simp add: map_of_first leaves_optional del: map_of.simps)
  show "case map_of (rev fs) ''color'' of None \<Rightarrow> ucr_Color r = OptNil_Reset []
      | Some j \<Rightarrow> OptNil_Decode [] jx_Str j = Inr (ucr_Color r)"
    using last [of "''color''" "OptNil_Decode [] jx_Str" "\<lambda>x s. s\<lparr>ucr_Color := x\<rparr>" ucr_Color]
    unfolding zero by (simp add: map_of_first leaves_optional del: map_of.simps)
  show "case map_of (rev fs) ''toneProfile'' of None \<Rightarrow> ucr_ToneProfile r = OptNil_Reset []
      | Some j \<Rightarrow> OptNil_Decode [] jx_Str j = Inr (ucr_ToneProfile r)"
    using last [of "''toneProfile''" "OptNil_Decode [] jx_Str" "\<lambda>x s. s\<lparr>ucr_ToneProfile := x\<rparr>" ucr_ToneProfile]
    unfolding zero by (simp add: map_of_first leaves_optional del: map_of.simps)
  show "case map_of (rev fs) ''isArchived'' of None \<Rightarrow> ucr_IsArchived r = Opt_Reset False
      | Some j \<Rightarrow> Opt_Decode jx_Bool j = Inr (ucr_IsArchived r)"
    using last [of "''isArchived''" "Opt_Decode jx_Bool" "\<lambda>x s. s\<lparr>ucr_IsArchived := x\<rparr>" ucr_IsArchived]
    unfolding zero by (simp add: map_of_first leaves_optional del: map_of.simps)
qed

text \<open>What a document says of a field: nothing, null, or a text read by \<open>f\<close>.\<close>

definition said :: "(string \<Rightarrow> 'a option) \<Rightarrow> string \<Rightarrow> (string \<times> json) list \<Rightarrow> bool \<times> 'a option" where
  "said f k fs = (case map_of (rev fs) k of
     None \<Rightarrow> (False, None)
   | Some j \<Rightarrow> (True, case j of JStr t \<Rightarrow> f t | _ \<Rightarrow> None))"

lemma said_nullable:
  assumes "case map_of (rev fs) k of None \<Rightarrow> o1 = OptNil_Reset zero | Some j \<Rightarrow> OptNil_Decode zero (from_text f) j = Inr o1"
  shows "(on_Set o1, optNil o1) = said f k fs"
proof (cases "map_of (rev fs) k")
  case (Some j)
  with assms show ?thesis
    by (cases j) (auto simp: said_def optNil_def OptNil_Decode_def split: option.splits)
qed (use assms in \<open>simp add: said_def optNil_def OptNil_Reset_def\<close>)

lemma Opt_Decode_Inr: "Opt_Decode dec j = Inr o1 \<Longrightarrow> opt_Set o1 \<and> dec j = Inr (opt_Value o1)"
  by (auto simp: Opt_Decode_def split: sum.splits)

lemma jx_Str_from_text: "jx_Str = from_text Some"
proof
  show "jx_Str j = from_text Some j" for j by (cases j) simp_all
qed

text \<open>
  C24. An update changes what the document names and nothing else. The flag that a nullable field
  is set is whether the document has it, and its value is the text of the last such field, or
  nothing when that is null; a name or the archived flag that is left out is no value at all.
\<close>

theorem update_tells_absent_from_null:
  assumes "UpdateContextRequest_Decode G (JObj fs) = Inr r"
  shows "(cu_SetParentID (updateParams r), cu_ParentID (updateParams r)) = said (og_DecodeUUID G) ''parentId'' fs
    \<and> (cu_SetColor (updateParams r), cu_Color (updateParams r)) = said Some ''color'' fs
    \<and> (cu_SetToneProfile (updateParams r), cu_ToneProfile (updateParams r)) = said Some ''toneProfile'' fs
    \<and> cu_Name (updateParams r) = snd (said Some ''name'' fs)
    \<and> (cu_IsArchived (updateParams r) = None \<longleftrightarrow> ''isArchived'' \<notin> fst ` set fs)"
proof (intro conjI)
  note f = UpdateContextRequest_fields [OF assms]
  show "(cu_SetParentID (updateParams r), cu_ParentID (updateParams r)) = said (og_DecodeUUID G) ''parentId'' fs"
    using said_nullable f(2) unfolding DecodeUUID_def by (simp add: updateParams_def)
  show "(cu_SetColor (updateParams r), cu_Color (updateParams r)) = said Some ''color'' fs"
    using said_nullable f(3) unfolding jx_Str_from_text by (simp add: updateParams_def)
  show "(cu_SetToneProfile (updateParams r), cu_ToneProfile (updateParams r)) = said Some ''toneProfile'' fs"
    using said_nullable f(4) unfolding jx_Str_from_text by (simp add: updateParams_def)
  show "cu_Name (updateParams r) = snd (said Some ''name'' fs)"
  proof (cases "map_of (rev fs) ''name''")
    case (Some j)
    with f(1) Opt_Decode_Inr [of jx_Str j "ucr_Name r"] show ?thesis
      by (cases j) (auto simp: updateParams_def said_def)
  qed (use f(1) in \<open>simp add: updateParams_def said_def Opt_Reset_def\<close>)
  show "cu_IsArchived (updateParams r) = None \<longleftrightarrow> ''isArchived'' \<notin> fst ` set fs"
  proof (cases "map_of (rev fs) ''isArchived''")
    case None
    then have "''isArchived'' \<notin> fst ` set fs" by (simp add: map_of_eq_None_iff)
    with None f(5) show ?thesis by (simp add: updateParams_def Opt_Reset_def)
  next
    case (Some j)
    then have "''isArchived'' \<in> fst ` set fs" using map_of_SomeD [OF Some] by (auto intro: rev_image_eqI)
    with Some f(5) Opt_Decode_Inr [of jx_Bool j "ucr_IsArchived r"] show ?thesis by (auto simp: updateParams_def)
  qed
qed

theorem update_tells_absent_from_null_witness:
  "cu_SetParentID (updateParams \<lparr>ucr_Name = Opt_Reset [], ucr_ParentId = \<lparr>on_Value = 0, on_Set = True, on_Null = True\<rparr>,
      ucr_Color = OptNil_Reset [], ucr_ToneProfile = OptNil_Reset [], ucr_IsArchived = Opt_Reset False\<rparr>)"
proof -
  let ?r = "\<lparr>ucr_Name = Opt_Reset [], ucr_ParentId = \<lparr>on_Value = 0, on_Set = True, on_Null = True\<rparr>,
      ucr_Color = OptNil_Reset [], ucr_ToneProfile = OptNil_Reset [], ucr_IsArchived = Opt_Reset False\<rparr>"
  let ?G = "\<lparr>og_EncodeUUID = (\<lambda>_. []), og_DecodeUUID = (\<lambda>_. Some 0), og_EncodeDateTime = (\<lambda>_. []), og_DecodeDateTime = (\<lambda>_. Some 0), og_EncodeFloat64 = (\<lambda>_. []), og_DecodeFloat64 = (\<lambda>_. None)\<rparr>"
  have "UpdateContextRequest_Decode ?G (JObj [(''parentId'', JNull)]) = Inr ?r"
    by (simp add: UpdateContextRequest_Decode_def decode_as_def optional_def OptNil_Decode_def
        zero_UpdateContextRequest_def missedFields_def)
  from update_tells_absent_from_null [OF this] show ?thesis by (simp add: said_def)
qed

section \<open>A consent that was declined\<close>

text \<open>
  A browser that comes back without a code is refused before the operation runs, although it
  says why: the generated server requires the code, which the provider does not send when the
  owner declined, so the branch of the handler for it is not reached that way. Nothing changes.
\<close>

theorem declined_consent_is_refused:
  assumes "\<not> ol_HasParam (sv_lib S) (rq_Query r ''code'')"
  shows "handleCompleteGoogleSignInRequest S r w =
    (written (ogenErrorHandler (sv_text S) (Rejected (ol_Code (sv_lib S) (DecodeParam ''code''))
       (ol_Text (sv_lib S) (DecodeParam ''code'')))), w)"
  using assms
  by (simp add: handleCompleteGoogleSignInRequest_def decoded_def decodeCompleteGoogleSignInParams_def query_required_def)

theorem declined_consent_is_refused_witness:
  "rs_status (fst (handleCompleteGoogleSignInRequest (sample_server JNull)
     (sample_request ''GET'' ''/api/v1/auth/google/callback'' (\<lambda>_. None)
        \<lparr>rq_Query := (\<lambda>k. if k = ''error'' then [''access_denied''] else [])\<rparr>) fresh_world)) = 400"
proof -
  let ?r = "sample_request ''GET'' ''/api/v1/auth/google/callback'' (\<lambda>_. None)
        \<lparr>rq_Query := (\<lambda>k. if k = ''error'' then [''access_denied''] else [])\<rparr>"
  have "\<not> ol_HasParam (sv_lib (sample_server JNull)) (rq_Query ?r ''code'')" by simp
  from declined_consent_is_refused [OF this, of fresh_world] show ?thesis
    by (simp add: written_def ogenErrorHandler_def writeEnvelope_def classify_def isSecurityError_def)
qed

end
