(* ===== verification/Http_Contract.thy ===== *)
theory Http_Contract
  imports Http_Safety
begin

text \<open>
  The answer to a request is decided by what happened to it: that it was refused at the door, what the
  service said, or that it was done. \<open>happened\<close> follows a request through the cookie, the decoders and the services,
  without a handler, a response type or an encoder; \<open>answer_to\<close> is the table of the contract, from there to a
  status and a code; and \<open>serve_request\<close>, with all that lies between, agrees with the two.
\<close>

section \<open>What happens to a request\<close>

text \<open>
  \<open>Failed\<close> is an error the operation has an answer to, \<open>Broke\<close> one of a step behind it, which has none.
\<close>

datatype happening = SignedOut | Refused refusal | Failed go_error | Broke go_error | NotDone | Finished

type_synonym events = "world \<Rightarrow> happening \<times> world"

definition authed :: "server \<Rightarrow> request \<Rightarrow> (Principal \<Rightarrow> string \<Rightarrow> events) \<Rightarrow> events" where
  "authed S r k w =
     (case rq_Cookie r sessionCookieName of
        None \<Rightarrow> (SignedOut, w)
      | Some token \<Rightarrow>
          (case AuthenticatePrincipal (sv_env S) (sv_clock S (w_tick w)) token w of
             (Inl err, w1) \<Rightarrow> (SignedOut, w1)
           | (Inr p, w1) \<Rightarrow> k p token w1))"

definition read_as :: "refusal + 'a \<Rightarrow> ('a \<Rightarrow> events) \<Rightarrow> events" where
  "read_as d k w = (case d of Inl e \<Rightarrow> (Refused e, w) | Inr x \<Rightarrow> k x w)"

definition tried :: "(go_error \<Rightarrow> happening) \<Rightarrow> 'a io \<Rightarrow> ('a \<Rightarrow> events) \<Rightarrow> events" where
  "tried err m k w = (case m w of (Inl e, w1) \<Rightarrow> (err e, w1) | (Inr x, w1) \<Rightarrow> k x w1)"

definition comes_to :: "happening \<Rightarrow> events" where
  "comes_to h w = (h, w)"

abbreviation only :: "'a io \<Rightarrow> events" where
  "only m \<equiv> tried Failed m (\<lambda>_. comes_to Finished)"

definition create_params :: "CreateContextRequest \<Rightarrow> CreateParams" where
  "create_params req = \<lparr>cp_Slug = ccr_Slug req, cp_Name = ccr_Name req,
     cp_ParentID = (if on_Set (ccr_ParentId req) \<and> \<not> on_Null (ccr_ParentId req)
       then Some (on_Value (ccr_ParentId req)) else None),
     cp_Color = optNil (ccr_Color req), cp_ToneProfile = optString (ccr_ToneProfile req)\<rparr>"

text \<open>The sign-in with Google at its callback.\<close>

definition google_callback :: "server \<Rightarrow> request \<Rightarrow> CompleteGoogleSignInParams \<Rightarrow> events" where
  "google_callback S r params =
     (let c = request_context S r
      in case (Opt_Get (cgp_Error params), oauthFlowFrom c) of
           (Some reason, flow) \<Rightarrow> comes_to Finished
         | (None, None) \<Rightarrow> comes_to (Failed ErrStateMismatch)
         | (None, Some flow) \<Rightarrow>
             only (with_now (sv_clock S) (\<lambda>now. CompleteGoogleSignIn (sv_env S) (sv_oidc S) (hd_auth (sv_handler S)) now
               (cgp_Code params) (cgp_State params) flow (rc_client c))))"

fun happened :: "server \<Rightarrow> Operation \<Rightarrow> string list \<Rightarrow> bool \<Rightarrow> request \<Rightarrow> events" where
  "happened S OpArchiveContext args esc r = authed S r (\<lambda>p token.
     read_as (decodeArchiveContextParams (sv_lib S) args esc) (\<lambda>i. only (Archive (sv_env S) (pr_UserID p) i)))"
| "happened S OpCompleteGoogleSignIn args esc r =
     read_as (decodeCompleteGoogleSignInParams (sv_lib S) (rq_Query r)) (google_callback S r)"
| "happened S OpCreateCommitment args esc r = authed S r (\<lambda>p token.
     read_as (decodeCreateCommitmentRequest (sv_lib S) r) (\<lambda>_. comes_to NotDone))"
| "happened S OpCreateContext args esc r = authed S r (\<lambda>p token.
     read_as (decodeCreateContextRequest (sv_lib S) r) (\<lambda>req.
     only (Create (sv_env S) (pr_UserID p) (create_params req))))"
| "happened S OpCreateTask args esc r = authed S r (\<lambda>p token.
     read_as (decodeCreateTaskRequest (sv_lib S) r) (\<lambda>_. comes_to NotDone))"
| "happened S OpGetContext args esc r = authed S r (\<lambda>p token.
     read_as (decodeGetContextParams (sv_lib S) args esc) (\<lambda>i. only (Get (sv_env S) (pr_UserID p) i)))"
| "happened S OpGetCurrentSession args esc r = authed S r (\<lambda>p token.
     tried Failed (Profile (sv_env S) (pr_UserID p)) (\<lambda>_.
     only (with_now (sv_clock S) (\<lambda>now. ListSessions (sv_env S) now (pr_UserID p)))))"
| "happened S OpListAccounts args esc r = authed S r (\<lambda>p token.
     read_as (decodeListAccountsParams (sv_lib S) (rq_Query r)) (\<lambda>_. comes_to NotDone))"
| "happened S OpListAuthProviders args esc r = authed S r (\<lambda>p token.
     only (ListProviders (sv_env S) (pr_UserID p)))"
| "happened S OpListContexts args esc r = authed S r (\<lambda>p token.
     read_as (decodeListContextsParams (sv_lib S) (rq_Query r)) (\<lambda>archived.
     only (ListTree (sv_env S) (pr_UserID p) (Opt_Or archived False))))"
| "happened S OpListSessions args esc r = authed S r (\<lambda>p token.
     only (with_now (sv_clock S) (\<lambda>now. ListSessions (sv_env S) now (pr_UserID p))))"
| "happened S OpListSignals args esc r = authed S r (\<lambda>p token.
     read_as (decodeListSignalsParams (sv_lib S) (rq_Query r)) (\<lambda>_. comes_to NotDone))"
| "happened S OpLogin args esc r =
     read_as (decodeLoginRequest (sv_lib S) r) (\<lambda>req.
     tried Failed (with_now (sv_clock S) (\<lambda>now. SignInWithPassword (sv_env S) (hd_auth (sv_handler S)) now
       (lr_Email req) (lr_Password req) (rc_client (request_context S r)))) (\<lambda>s.
     tried Broke (currentSession (sv_env S) s) (\<lambda>_. comes_to Finished)))"
| "happened S OpRegister args esc r =
     read_as (decodeRegisterRequest (sv_lib S) r) (\<lambda>req.
     tried Failed (with_now (sv_clock S) (\<lambda>now. Register (sv_env S) (hd_auth (sv_handler S)) now
       \<lparr>reg_Email = rgr_Email req, reg_Password = rgr_Password req, reg_DisplayName = rgr_DisplayName req\<rparr>
       (rc_client (request_context S r)))) (\<lambda>s.
     tried Broke (currentSession (sv_env S) s) (\<lambda>_. comes_to Finished)))"
| "happened S OpRevokeSession args esc r = authed S r (\<lambda>p token.
     read_as (decodeRevokeSessionParams (sv_lib S) args esc) (\<lambda>i.
     only (with_now (sv_clock S) (\<lambda>now. RevokeSession (sv_env S) now (pr_UserID p) i))))"
| "happened S OpSignOut args esc r = authed S r (\<lambda>p token.
     only (with_now (sv_clock S) (\<lambda>now. SignOut (sv_env S) now token)))"
| "happened S OpStartGoogleSignIn args esc r =
     read_as (decodeStartGoogleSignInParams (sv_lib S) (rq_Query r)) (\<lambda>param.
     only (StartGoogleSignIn (sv_env S) (sv_oidc S) (hd_auth (sv_handler S))
       (case Opt_Get param of Some v \<Rightarrow> if v \<noteq> [] then v else ''/'' | None \<Rightarrow> ''/'')))"
| "happened S OpUnlinkAuthProvider args esc r = authed S r (\<lambda>p token.
     read_as (decodeUnlinkAuthProviderParams (sv_lib S) args esc) (\<lambda>i.
     only (UnlinkProvider (sv_env S) (pr_UserID p) i)))"
| "happened S OpUpdateContext args esc r = authed S r (\<lambda>p token.
     read_as (decodeUpdateContextParams (sv_lib S) args esc) (\<lambda>i.
     read_as (decodeUpdateContextRequest (sv_lib S) r) (\<lambda>req.
     only (Update (sv_env S) (pr_UserID p) i (updateParams req)))))"

section \<open>The table of the contract\<close>

type_synonym answer_row = "(go_error \<Rightarrow> bool) \<times> nat \<times> string"

abbreviation on_error :: "go_error \<Rightarrow> nat \<Rightarrow> string \<Rightarrow> answer_row" where
  "on_error target st code \<equiv> (\<lambda>e. errors_Is e target, st, code)"

text \<open>The errors an operation has an answer to: the first row that fits counts.\<close>

definition error_rows :: "Operation \<Rightarrow> answer_row list" where
  "error_rows oper =
     (case oper of
        OpCreateContext \<Rightarrow> [on_error ErrSlugTaken 409 ''slug_taken'', on_error ErrNoParent 422 ''no_such_parent'']
      | OpGetContext \<Rightarrow> [on_error ErrContextNotFound 404 ''not_found'']
      | OpUpdateContext \<Rightarrow>
          [on_error ErrContextNotFound 404 ''not_found'', on_error ErrNoParent 422 ''no_such_parent'',
           on_error ErrSelfParent 422 ''self_parent'', on_error ErrCycle 422 ''cycle'',
           on_error ErrTooDeep 422 ''too_deep'', (\<lambda>e. errors_As_LiveChildren e \<noteq> None, 422, ''live_children'')]
      | OpArchiveContext \<Rightarrow>
          [on_error ErrContextNotFound 404 ''not_found'', (\<lambda>e. errors_As_LiveChildren e \<noteq> None, 409, ''live_children'')]
      | OpLogin \<Rightarrow>
          [on_error ErrBadCredentials 401 ''unauthenticated'',
           (\<lambda>e. errors_Is e ErrLocked \<and> errors_As_Lockout e \<noteq> None, 429, ''locked''),
           on_error ErrLocked 500 ''internal'']
      | OpRegister \<Rightarrow> [on_error ErrEmailTaken 409 ''email_taken'', on_error ErrInvalidInput 400 ''bad_request'']
      | OpRevokeSession \<Rightarrow> [on_error ErrNotFound 404 ''not_found'']
      | OpUnlinkAuthProvider \<Rightarrow>
          [on_error ErrLastProvider 409 ''last_sign_in_method'', on_error ErrNotFound 404 ''not_found'']
      | OpStartGoogleSignIn \<Rightarrow>
          [on_error ErrProviderNotConfigured 501 ''provider_not_configured'', (\<lambda>_. True, 502, ''provider_unavailable'')]
      | OpCompleteGoogleSignIn \<Rightarrow>
          [on_error ErrStateMismatch 401 ''sign_in_expired'',
           on_error ErrNoEmailFromProvider 401 ''no_email_from_provider'', on_error ErrEmailTaken 401 ''email_taken'',
           on_error ErrProviderNotConfigured 501 ''provider_not_configured'', (\<lambda>_. True, 502, ''provider_unavailable'')]
      | _ \<Rightarrow> [])"

definition success_status :: "Operation \<Rightarrow> nat" where
  "success_status oper =
     (case oper of
        OpArchiveContext \<Rightarrow> 204 | OpRevokeSession \<Rightarrow> 204 | OpSignOut \<Rightarrow> 204 | OpUnlinkAuthProvider \<Rightarrow> 204
      | OpCreateContext \<Rightarrow> 201 | OpRegister \<Rightarrow> 201
      | OpCompleteGoogleSignIn \<Rightarrow> 302 | OpStartGoogleSignIn \<Rightarrow> 302
      | _ \<Rightarrow> 200)"

definition unforeseen :: "go_error \<Rightarrow> nat \<times> string" where
  "unforeseen e = (if errors_Is e ErrInvalid then (422, ''invalid'') else (500, ''internal''))"

text \<open>A status, and the code of the envelope; no code when the answer is none.\<close>

fun answer_to :: "server \<Rightarrow> Operation \<Rightarrow> happening \<Rightarrow> nat \<times> string option" where
  "answer_to S oper SignedOut = (401, Some ''unauthenticated'')"
| "answer_to S oper (Refused e) = (ol_Code (sv_lib S) e, Some (codeForStatus (ol_Code (sv_lib S) e)))"
| "answer_to S oper (Failed e) =
     apsnd Some (case find (\<lambda>row. fst row e) (error_rows oper) of Some row \<Rightarrow> snd row | None \<Rightarrow> unforeseen e)"
| "answer_to S oper (Broke e) = apsnd Some (unforeseen e)"
| "answer_to S oper NotDone = (501, Some ''not_implemented'')"
| "answer_to S oper Finished = (success_status oper, None)"

definition answers :: "response \<Rightarrow> nat \<times> string option \<Rightarrow> bool" where
  "answers resp a \<longleftrightarrow> rs_status resp = fst a
     \<and> (case snd a of
          None \<Rightarrow> \<nexists>code msg. rs_body resp = Some (error_body code msg)
        | Some code \<Rightarrow> \<exists>msg. rs_body resp = Some (error_body code msg))"

section \<open>From the handlers to the table\<close>

definition agrees :: "server \<Rightarrow> Operation \<Rightarrow> served_request \<Rightarrow> events \<Rightarrow> bool" where
  "agrees S oper f g \<longleftrightarrow>
     (\<forall>w. snd (f w) = snd (g w) \<and> answers (fst (f w)) (answer_to S oper (fst (g w))))"

text \<open>The response to what a handler returned.\<close>

definition response_to :: "server \<Rightarrow> (api_response \<Rightarrow> response option) \<Rightarrow> api_error + api_response \<Rightarrow> response" where
  "response_to S enc out =
     (case out of
        Inl err \<Rightarrow>
          if ErrNotImplemented \<in> set (api_chain err) then written (ogenErrorHandler (sv_text S) err)
          else encodeErrorResponse (NewError (sv_text S) err)
      | Inr res \<Rightarrow>
          (case enc res of
             Some resp \<Rightarrow> resp
           | None \<Rightarrow> written (ogenErrorHandler (sv_text S) (Plain (LibError ''unexpected response type'')))))"

lemma answered_eq: "answered S enc h w = (response_to S enc (fst (h w)), snd (h w))"
  by (simp add: answered_def response_to_def split: prod.split sum.split option.split)

lemma answers_envelope:
  "answers (written en) (st, Some code) \<longleftrightarrow> en_status en = st \<and> en_code en = code"
  "400 \<le> st \<Longrightarrow> answers (encodeErrorResponse en) (st, Some code) \<longleftrightarrow> en_status en = st \<and> en_code en = code"
  "answers (error_response st' code' msg) (st, Some code) \<longleftrightarrow> st' = st \<and> code' = code"
  by (auto simp: answers_def written_def encodeErrorResponse_def error_response_def json_response_def error_body_def
      ErrorEnvelope_Encode_def Error_Encode_def field_def)

text \<open>What the encoder writes for a result that is no error has no envelope in it.\<close>

lemma no_envelope:
  "Context_Encode G x \<noteq> error_body code msg" "ContextList_Encode G xs \<noteq> error_body code msg"
  "SessionList_Encode G ss \<noteq> error_body code msg" "CurrentSession_Encode G cur \<noteq> error_body code msg"
  "LinkedProviderList_Encode G ps \<noteq> error_body code msg"
  by (simp_all add: Context_Encode_def ContextList_Encode_def SessionList_Encode_def CurrentSession_Encode_def
      LinkedProviderList_Encode_def error_body_def ErrorEnvelope_Encode_def field_def)

lemma answers_result:
  "answers (json_response st' j) (st, None) \<longleftrightarrow> st' = st \<and> (\<forall>code msg. j \<noteq> error_body code msg)"
  "answers no_content (st, None) \<longleftrightarrow> st = 204"
  "answers \<lparr>rs_status = st', rs_headers = hs, rs_cookies = cs, rs_body = None\<rparr> (st, None) \<longleftrightarrow> st' = st"
  "answers \<lparr>rs_status = st', rs_headers = hs, rs_cookies = cs, rs_body = Some j\<rparr> (st, None)
     \<longleftrightarrow> st' = st \<and> (\<forall>code msg. j \<noteq> error_body code msg)"
  "answers \<lparr>rs_status = st', rs_headers = hs, rs_cookies = cs, rs_body = Some (error_body code msg)\<rparr> (st, Some code')
     \<longleftrightarrow> st' = st \<and> code = code'"
  by (auto simp: answers_def json_response_def no_content_def error_body_def ErrorEnvelope_Encode_def Error_Encode_def
      field_def)

text \<open>Each step of a handler goes with a step of what happened.\<close>

lemma agrees_secured:
  assumes "\<And>p token. agrees S oper (k ((request_context S r)\<lparr>rc_principal := Some p, rc_token := token\<rparr>)) (k' p token)"
  shows "agrees S oper (secured S r k) (authed S r k')"
  unfolding agrees_def
proof
  fix w
  have door: "answers (encodeErrorResponse (NewError (sv_text S) (SecurityError err))) (401, Some ''unauthenticated'')"
    if "err = HttpNoSession \<or> (\<exists>e. err = Plain e)" for err
    using that by (auto simp: answers_envelope NewError_def classify_def isSecurityError_def)
  show "snd (secured S r k w) = snd (authed S r k' w)
      \<and> answers (fst (secured S r k w)) (answer_to S oper (fst (authed S r k' w)))"
    using assms door
    by (auto simp: agrees_def secured_def authed_def securitySessionCookie_def HandleSessionCookie_def
        split: option.split sum.split prod.split)
qed

lemma agrees_decoded:
  assumes "\<And>x. agrees S oper (k x) (k' x)"
  shows "agrees S oper (decoded S d k) (read_as d k')"
  using assms
  by (auto simp: agrees_def decoded_def read_as_def answers_envelope ogenErrorHandler_def writeEnvelope_def classify_def
      isSecurityError_def split: sum.split)

lemma agrees_serve:
  assumes "\<And>e w. answers (response_to S enc (onerr e w)) (answer_to S oper (err e))"
    and "\<And>x. agrees S oper (answered S enc (k x)) (k' x)"
  shows "agrees S oper (answered S enc (serve m onerr k)) (tried err m k')"
  using assms by (auto simp: agrees_def answered_eq serve_def tried_def split: sum.split prod.split)

lemma agrees_reply:
  "(\<And>w. answers (response_to S enc (Inr (f w))) (answer_to S oper h)) \<Longrightarrow>
     agrees S oper (answered S enc (\<lambda>w. reply (f w) w)) (comes_to h)"
  "answers (response_to S enc (Inr res)) (answer_to S oper h) \<Longrightarrow> agrees S oper (answered S enc (reply res)) (comes_to h)"
  "answers (response_to S enc (Inl e)) (answer_to S oper h) \<Longrightarrow> agrees S oper (answered S enc (fail e)) (comes_to h)"
  by (simp_all add: agrees_def answered_eq reply_def fail_def comes_to_def)

lemma agrees_principal:
  "agrees S oper (answered S enc (k p)) g \<Longrightarrow>
     agrees S oper (answered S enc (with_principal (c\<lparr>rc_principal := Some p, rc_token := token\<rparr>) k)) g"
  by (simp add: with_principal_def)

lemmas agrees_intros = agrees_secured agrees_decoded agrees_principal agrees_serve agrees_reply

lemmas contract_simps =
  response_to_def error_rows_def success_status_def unforeseen_def answers_envelope answers_result NewError_def no_envelope
  classify_Plain

lemma agrees_tasks:
  "agrees S OpCreateCommitment (handle_request S OpCreateCommitment args esc r) (happened S OpCreateCommitment args esc r)"
  "agrees S OpCreateTask (handle_request S OpCreateTask args esc r) (happened S OpCreateTask args esc r)"
  "agrees S OpListAccounts (handle_request S OpListAccounts args esc r) (happened S OpListAccounts args esc r)"
  "agrees S OpListSignals (handle_request S OpListSignals args esc r) (happened S OpListSignals args esc r)"
  unfolding handle_request.simps happened.simps handleCreateCommitmentRequest_def handleCreateTaskRequest_def
    handleListAccountsRequest_def handleListSignalsRequest_def Handler_CreateTask_def UnimplementedHandler_def
  by (intro agrees_intros;
      simp add: response_to_def answers_envelope ogenErrorHandler_def writeEnvelope_def classify_def isSecurityError_def)+

lemma agrees_contexts:
  "agrees S OpArchiveContext (handle_request S OpArchiveContext args esc r) (happened S OpArchiveContext args esc r)"
  "agrees S OpCreateContext (handle_request S OpCreateContext args esc r) (happened S OpCreateContext args esc r)"
  "agrees S OpGetContext (handle_request S OpGetContext args esc r) (happened S OpGetContext args esc r)"
  "agrees S OpListContexts (handle_request S OpListContexts args esc r) (happened S OpListContexts args esc r)"
  "agrees S OpUpdateContext (handle_request S OpUpdateContext args esc r) (happened S OpUpdateContext args esc r)"
  unfolding handle_request.simps happened.simps handleArchiveContextRequest_def handleCreateContextRequest_def
    handleGetContextRequest_def handleListContextsRequest_def handleUpdateContextRequest_def
    Handler_ArchiveContext_def Handler_CreateContext_def Handler_GetContext_def Handler_ListContexts_def
    Handler_UpdateContext_def create_params_def
  by (intro agrees_intros; auto simp: contract_simps updateContextError_def split: option.split)+

lemma agrees_sessions:
  "agrees S OpGetCurrentSession (handle_request S OpGetCurrentSession args esc r) (happened S OpGetCurrentSession args esc r)"
  "agrees S OpListAuthProviders (handle_request S OpListAuthProviders args esc r) (happened S OpListAuthProviders args esc r)"
  "agrees S OpListSessions (handle_request S OpListSessions args esc r) (happened S OpListSessions args esc r)"
  "agrees S OpRevokeSession (handle_request S OpRevokeSession args esc r) (happened S OpRevokeSession args esc r)"
  "agrees S OpSignOut (handle_request S OpSignOut args esc r) (happened S OpSignOut args esc r)"
  "agrees S OpUnlinkAuthProvider (handle_request S OpUnlinkAuthProvider args esc r) (happened S OpUnlinkAuthProvider args esc r)"
  unfolding handle_request.simps happened.simps handleGetCurrentSessionRequest_def handleListAuthProvidersRequest_def
    handleListSessionsRequest_def handleRevokeSessionRequest_def handleSignOutRequest_def handleUnlinkAuthProviderRequest_def
    Handler_GetCurrentSession_def Handler_ListAuthProviders_def Handler_ListSessions_def Handler_RevokeSession_def
    Handler_SignOut_def Handler_UnlinkAuthProvider_def
  by (intro agrees_intros; auto simp: contract_simps)+

lemma agrees_signedIn:
  "success_status oper = st \<Longrightarrow>
   (\<And>cs cur. enc (CurrentSessionHeaders cs cur) = Some \<lparr>rs_status = st, rs_headers = hs, rs_cookies = cs,
      rs_body = Some (CurrentSession_Encode G cur)\<rparr>) \<Longrightarrow>
   agrees S oper (answered S enc (signedIn E H clk s)) (tried Broke (currentSession E s) (\<lambda>_. comes_to Finished))"
  unfolding signedIn_def
  by (intro agrees_intros) (auto simp: contract_simps)

lemma sentinels [simp]: "\<not> errors_Is (Panic m) ErrInvalid" "errors_Is ErrStateMismatch ErrStateMismatch"
  by (simp_all add: errors_Is_def)

lemma agrees_accounts:
  "agrees S OpLogin (handle_request S OpLogin args esc r) (happened S OpLogin args esc r)"
  "agrees S OpRegister (handle_request S OpRegister args esc r) (happened S OpRegister args esc r)"
proof -
  show "agrees S OpLogin (handle_request S OpLogin args esc r) (happened S OpLogin args esc r)"
    unfolding handle_request.simps happened.simps handleLoginRequest_def Handler_Login_def
    by (intro agrees_decoded agrees_serve agrees_signedIn; auto simp: contract_simps split: option.split)
  show "agrees S OpRegister (handle_request S OpRegister args esc r) (happened S OpRegister args esc r)"
    unfolding handle_request.simps happened.simps handleRegisterRequest_def Handler_Register_def
    by (intro agrees_decoded agrees_serve agrees_signedIn;
        auto simp: contract_simps ErrBadRequest_def NewAPIError_def classify_def isSecurityError_def)
qed

lemma agrees_google:
  "agrees S OpStartGoogleSignIn (handle_request S OpStartGoogleSignIn args esc r) (happened S OpStartGoogleSignIn args esc r)"
  "agrees S OpCompleteGoogleSignIn (handle_request S OpCompleteGoogleSignIn args esc r) (happened S OpCompleteGoogleSignIn args esc r)"
proof -
  note google_simps = contract_simps googleError_def NewAPIError_def classify_def isSecurityError_def
  show "agrees S OpStartGoogleSignIn (handle_request S OpStartGoogleSignIn args esc r) (happened S OpStartGoogleSignIn args esc r)"
    unfolding handle_request.simps happened.simps handleStartGoogleSignInRequest_def Handler_StartGoogleSignIn_def Let_def
      split_beta
    by (intro agrees_intros) (auto simp: google_simps)
  show "agrees S OpCompleteGoogleSignIn (handle_request S OpCompleteGoogleSignIn args esc r) (happened S OpCompleteGoogleSignIn args esc r)"
    unfolding handle_request.simps happened.simps handleCompleteGoogleSignInRequest_def
  proof (rule agrees_decoded)
    fix params
    show "agrees S OpCompleteGoogleSignIn (answered S encodeCompleteGoogleSignInResponse
        (Handler_CompleteGoogleSignIn (sv_env S) (sv_oidc S) (sv_parseHost S) (sv_handler S) (sv_clock S)
          (request_context S r) params)) (google_callback S r params)"
      unfolding Handler_CompleteGoogleSignIn_def google_callback_def Let_def
      by (cases "Opt_Get (cgp_Error params)"; cases "oauthFlowFrom (request_context S r)"; simp; intro agrees_intros;
          auto simp: signInExpired_def google_simps)
  qed
qed

lemmas agrees_all = agrees_tasks agrees_contexts agrees_sessions agrees_accounts agrees_google

text \<open>
  C25. The answer to a request is the one the contract has for what happened to it. An address that is not
  there is answered 404 and a wrong method 405, with nothing done. Otherwise the database is left as the cookie, the
  decoders and the service left it, and status and code follow from their outcome alone: 401 without a live session, the
  refusal of a parameter or body under its own status, every error of the service under the status and the code its
  operation has for it, an error that it has none for as 422 or 500, a task that is not there yet as 501; and only what was
  done has the status of a success, and then no envelope of an error.
\<close>

theorem responses_follow_contract:
  "case ServeHTTP (sv_unescape S) [] (rq_Method r) (rq_URL r) of
     NotFound \<Rightarrow> snd (serve_request S r w) = w \<and> answers (fst (serve_request S r w)) (404, Some ''not_found'')
   | NotAllowed p \<Rightarrow>
       snd (serve_request S r w) = w \<and> answers (fst (serve_request S r w)) (405, Some ''method_not_allowed'')
   | Handle oper args \<Rightarrow>
       (let (h, w') = happened S oper args (elem_escaped (sv_unescape S) (rq_URL r)) r w
        in snd (serve_request S r w) = w' \<and> answers (fst (serve_request S r w)) (answer_to S oper h))"
proof -
  have "agrees S oper (handle_request S oper args esc r) (happened S oper args esc r)" for oper args esc
    by (cases oper; simp only: agrees_all)
  then show ?thesis
    by (auto simp: serve_request_def agrees_def answers_envelope notFoundHandler_def notAllowed_def
        methodNotAllowedHandler_def writeEnvelope_def split_beta Let_def split: served.split)
qed

end
