(* ===== verification/Http_Registration.thy ===== *)
theory Http_Registration
  imports Http_Safety
begin

text \<open>
  A registration from the form to the signed-in browser. Without failures a registration that breaks no rule is
  answered 201, and the cookie of the answer opens the session that the answer describes.
\<close>

section \<open>A registration that breaks no rule\<close>

text \<open>
  What the process draws: identifiers and tokens that no row has, and keys of argon2 for the parameters
  of the service.
\<close>

definition fresh_draws :: "env \<Rightarrow> Service \<Rightarrow> db \<Rightarrow> bool" where
  "fresh_draws E Sv d \<longleftrightarrow>
     (\<forall>n. \<exists>i. e_uuid E n = Some i \<and> i \<notin> u_ID ` set (users d) \<and> i \<notin> ap_ID ` set (auth_providers d)
        \<and> i \<notin> as_ID ` set (auth_sessions d))
     \<and> (\<forall>n k. e_rand E n k \<noteq> None)
     \<and> (\<forall>n bs. e_rand E n tokenBytes = Some bs \<longrightarrow>
          HashToken (RawURL_EncodeToString bs) \<notin> as_TokenHash ` set (auth_sessions d))
     \<and> (\<forall>pw salt. e_argon2 E pw salt (unat (Iterations (svc_params Sv))) (unat (Memory (svc_params Sv)))
          (unat (Parallelism (svc_params Sv))) (unat (KeyLength (svc_params Sv))) \<noteq> None)"

text \<open>
  The address and the name are there, nobody has the address, and the session ends after
  the instant the database writes it at.
\<close>

definition valid_registration :: "env \<Rightarrow> Service \<Rightarrow> time \<Rightarrow> RegisterParams \<Rightarrow> world \<Rightarrow> bool" where
  "valid_registration E Sv now p w \<longleftrightarrow>
     (let email = NormaliseEmail (e_unicode E) (reg_Email p)
      in not_blank email \<and> not_blank (TrimSpace (e_unicode E) (reg_DisplayName p))
         \<and> e_citext E email \<notin> (\<lambda>x. e_citext E (up_Email x)) ` set (user_profiles (w_db w))
         \<and> (AuthProviderKindPassword, email) \<notin> (\<lambda>x. (ap_Kind x, ap_Subject x)) ` set (auth_providers (w_db w))
         \<and> e_now E (w_tick w) < Policy_ExpiresAt (svc_policy Sv) now)"

lemma not_blank_Nil [simp]: "\<not> not_blank []"
  by (simp add: not_blank_iff)

lemma encode_hash_format [simp]: "argon2id_format (encode_hash p salt key)"
  by (simp add: argon2id_format_def encode_hash_def)

lemma fresh_rows:
  assumes "auth_ok cf d" and "i \<notin> u_ID ` set (users d)"
  shows "i \<notin> up_UserID ` set (user_profiles d)" and "\<not> list_ex (\<lambda>p. ap_IsPrimary p \<and> ap_UserID p = i) (auth_providers d)"
  using assms by (auto simp: auth_ok_def profiles_ok_def providers_ok_def list_ex_iff)

lemma fresh_password:
  assumes "auth_ok cf d" and "i \<notin> ap_ID ` set (auth_providers d)"
  shows "i \<notin> aw_AuthProviderID ` set (auth_passwords d)"
  using assms by (force simp: auth_ok_def passwords_ok_def)

lemma run_calm: "e_fault E (w_tick w) = None \<Longrightarrow> run_query E q w =
    (case q (db_now E w) (w_db w) of Inl e \<Rightarrow> (Inl e, tick w) | Inr (x, d) \<Rightarrow> (Inr x, (tick w)\<lparr>w_db := d\<rparr>))"
  by (simp add: run_query_def)

lemma registerTx_valid:
  assumes "\<And>n. e_fault E n = None" and "w_tx w = Some t" and "t < Policy_ExpiresAt (svc_policy Sv) now"
    and "\<And>n. e_uuid E n = Some (u n)" "\<And>n. u n \<notin> u_ID ` set (users (w_db w))"
      "\<And>n. u n \<notin> ap_ID ` set (auth_providers (w_db w))" "\<And>n. u n \<notin> as_ID ` set (auth_sessions (w_db w))"
      "\<And>n. u n \<notin> up_UserID ` set (user_profiles (w_db w))" "\<And>n. u n \<notin> aw_AuthProviderID ` set (auth_passwords (w_db w))"
      "\<And>n. \<not> list_ex (\<lambda>p. ap_IsPrimary p \<and> ap_UserID p = u n) (auth_providers (w_db w))"
    and "\<And>n k. e_rand E n k = Some (r n k)"
      "\<And>n. HashToken (RawURL_EncodeToString (r n tokenBytes)) \<notin> as_TokenHash ` set (auth_sessions (w_db w))"
    and "\<And>x salt. e_argon2 E x salt (unat (Iterations (svc_params Sv))) (unat (Memory (svc_params Sv)))
      (unat (Parallelism (svc_params Sv))) (unat (KeyLength (svc_params Sv))) = Some (a x salt)"
    and "not_blank email" "not_blank name" "e_citext E email \<notin> (\<lambda>x. e_citext E (up_Email x)) ` set (user_profiles (w_db w))"
      "(AuthProviderKindPassword, email) \<notin> (\<lambda>x. (ap_Kind x, ap_Subject x)) ` set (auth_providers (w_db w))"
  shows "\<exists>s w'. registerTx E Sv now email name pw sc w = (Inr s, w')"
  using assms(2)
  by (simp add: registerTx_def call_def HashPassword_def rand_Read_def assms return_def NewV7_def run_calm CreateUser_def
      CreateUserProfile_def CreateAuthProvider_def CreateAuthPassword_def enum_ok_def AuthProviderKind_enum_def
      openSession_def NewToken_def CreateAuthSession_def db_now_def Let_def)

lemma Register_valid:
  assumes calm: "\<forall>n. e_fault E n = None" and ok: "auth_ok (e_citext E) (w_db w)"
    and draws: "fresh_draws E Sv (w_db w)" and valid: "valid_registration E Sv now p w"
  shows "\<exists>s w'. Register E Sv now p sc w = (Inr s, w')"
proof -
  let ?email = "NormaliseEmail (e_unicode E) (reg_Email p)" and ?name = "TrimSpace (e_unicode E) (reg_DisplayName p)"
  let ?w = "(tick w)\<lparr>w_tx := Some (e_now E (w_tick w))\<rparr>"
  define u where "u n = the (e_uuid E n)" for n
  define r where "r n k = the (e_rand E n k)" for n k
  let ?sp = "svc_params Sv"
  define a where "a x salt = the (e_argon2 E x salt (unat (Iterations ?sp)) (unat (Memory ?sp)) (unat (Parallelism ?sp))
    (unat (KeyLength ?sp)))" for x salt
  have u: "e_uuid E n = Some (u n)" "u n \<notin> u_ID ` set (users (w_db w))" "u n \<notin> ap_ID ` set (auth_providers (w_db w))"
    "u n \<notin> as_ID ` set (auth_sessions (w_db w))" for n
    using draws [unfolded fresh_draws_def, THEN conjunct1, rule_format, of n] by (auto simp: u_def)
  have r: "e_rand E n k = Some (r n k)" for n k
    using draws by (auto simp: fresh_draws_def r_def)
  have new: "HashToken (RawURL_EncodeToString (r n tokenBytes)) \<notin> as_TokenHash ` set (auth_sessions (w_db w))" for n
    using draws r [of n tokenBytes] by (simp add: fresh_draws_def)
  have a: "e_argon2 E x salt (unat (Iterations ?sp)) (unat (Memory ?sp)) (unat (Parallelism ?sp)) (unat (KeyLength ?sp))
      = Some (a x salt)" for x salt
    using draws by (auto simp: fresh_draws_def a_def)
  have v: "not_blank ?email" "not_blank ?name"
    "e_citext E ?email \<notin> (\<lambda>x. e_citext E (up_Email x)) ` set (user_profiles (w_db w))"
    "(AuthProviderKindPassword, ?email) \<notin> (\<lambda>x. (ap_Kind x, ap_Subject x)) ` set (auth_providers (w_db w))"
    "e_now E (w_tick w) < Policy_ExpiresAt (svc_policy Sv) now"
    using valid by (simp_all add: valid_registration_def Let_def)
  have "\<exists>s w1. registerTx E Sv now ?email ?name (reg_Password p) sc ?w = (Inr s, w1)"
    by (rule registerTx_valid [where u = u and r = r and a = a and t = "e_now E (w_tick w)"])
      (use u r new a v calm fresh_rows [OF ok u(2)] fresh_password [OF ok u(3)] in simp_all)
  then obtain s w1 where "registerTx E Sv now ?email ?name (reg_Password p) sc ?w = (Inr s, w1)" by blast
  moreover have "?email \<noteq> []" "?name \<noteq> []" using v(1,2) by auto
  ultimately show ?thesis using calm by (simp add: Register_def Let_def attempt_def InTx_def return_def)
qed

section \<open>A live session\<close>

text \<open>A live row opens the session, and the profiles and the other columns are left alone.\<close>

lemma Authenticate_live:
  assumes "\<forall>n. e_fault E n = None"
    and "find (\<lambda>s. as_TokenHash s = HashToken token \<and> live t s) (auth_sessions (w_db w)) = Some row"
  shows "\<exists>pk w1. AuthenticatePrincipal E t token w =
      (Inr \<lparr>pr_UserID = as_UserID row, pr_SessionID = as_ID row, pr_ProviderKind = pk\<rparr>, w1)
    \<and> user_profiles (w_db w1) = user_profiles (w_db w)
    \<and> auth_sessions (w_db w1) = update_where (\<lambda>s. as_ID s = as_ID row) (\<lambda>s. s\<lparr>as_LastSeenAt := t\<rparr>) (auth_sessions (w_db w))"
  using assms
  by (cases row) (auto simp: AuthenticatePrincipal_def Authenticate_def call_def attempt_def best_effort_def
      run_query_def LiveSessionByTokenHash_def TouchAuthSession_def return_def with_provider_kind_def AuthSession.defs)

text \<open>The row a registration leaves for its session.\<close>

lemma Register_session_row:
  assumes ok: "auth_ok (e_citext E) (w_db w)" and lens: "argon2_lengths E"
    and reg: "Register E Sv now p sc w = (Inr s, w')"
  shows "distinct (map as_ID (auth_sessions (w_db w')))"
    and "\<exists>pid. \<forall>t < ses_ExpiresAt s. find (\<lambda>x. as_TokenHash x = HashToken (ses_Token s) \<and> live t x) (auth_sessions (w_db w'))
      = Some (session_row s pid sc)"
proof -
  show ids: "distinct (map as_ID (auth_sessions (w_db w')))"
    using integrity_Register [THEN keepsD, of E w Sv now p sc] ok reg auth_ok_session_inv
    by (auto simp: session_inv_def)
  from Register_cases [OF reg] obtain pid email name hash t0 where
    "w_db w' = registered s pid email name hash sc t0 (w_db w)" by auto
  then have new: "session_row s (Some pid) sc \<in> set (auth_sessions (w_db w'))" by (simp add: rows_added_defs)
  have "find (\<lambda>x. as_TokenHash x = HashToken (ses_Token s) \<and> live t x) (auth_sessions (w_db w'))
      = Some (session_row s (Some pid) sc)" if "t < ses_ExpiresAt s" for t
  proof -
    have "session_lookup (w_db w') t (HashToken (ses_Token s)) = Some (ses_ID s)"
      using Register_usable [OF ok lens reg] that by simp
    then obtain row where row: "find (\<lambda>x. as_TokenHash x = HashToken (ses_Token s) \<and> live t x) (auth_sessions (w_db w'))
        = Some row" "as_ID row = ses_ID s"
      by (auto simp: session_lookup_def)
    with new ids find_Some_in [OF row(1)] show ?thesis
      by (auto simp: distinct_map inj_on_def session_row_def)
  qed
  then show "\<exists>pid. \<forall>t < ses_ExpiresAt s. find (\<lambda>x. as_TokenHash x = HashToken (ses_Token s) \<and> live t x)
      (auth_sessions (w_db w')) = Some (session_row s pid sc)" by blast
qed

text \<open>The list of live sessions has the one with a given identifier, as its row says.\<close>

lemma ListSessions_finds:
  assumes "e_fault E (w_tick w) = None" and "distinct (map as_ID (auth_sessions (w_db w)))"
    and "row \<in> set (auth_sessions (w_db w))" and "live t row"
  shows "\<exists>ss kind. ListSessions E t (as_UserID row) w = (Inr ss, tick w)
    \<and> find (\<lambda>s. ss_ID s = as_ID row) ss = Some (session_summary (AuthSession.extend row (LiveSessionRow.fields kind)))"
proof -
  let ?rows = "SliceStable (\<lambda>a b. as_LastSeenAt a > as_LastSeenAt b)
    (filter (\<lambda>s. as_UserID s = as_UserID row \<and> live t s) (auth_sessions (w_db w)))"
  have ms: "mset ?rows = mset (filter (\<lambda>s. as_UserID s = as_UserID row \<and> live t s) (auth_sessions (w_db w)))"
    by (rule mset_SliceStable)
  then have "row \<in> set ?rows" using assms(3,4) mset_eq_setD [OF ms] by simp
  moreover have "distinct (map as_ID ?rows)"
  proof -
    have "mset (map as_ID ?rows) = mset (map as_ID (filter (\<lambda>s. as_UserID s = as_UserID row \<and> live t s) (auth_sessions (w_db w))))"
      using ms by (simp only: mset_map)
    from mset_eq_imp_distinct_iff [OF this] show ?thesis using distinct_map_filter [OF assms(2)] by blast
  qed
  ultimately have "find (\<lambda>s. as_ID s = as_ID row) ?rows = Some row" by (simp add: find_unique)
  moreover have "find (\<lambda>s. ss_ID s = as_ID row) (map (session_summary \<circ> with_provider_kind d) xs)
      = map_option (session_summary \<circ> with_provider_kind d) (find (\<lambda>s. as_ID s = as_ID row) xs)" for d xs
    by (induction xs) (auto simp: session_summary_def with_provider_kind_def AuthSession.defs)
  ultimately show ?thesis
    using assms(1) by (auto simp: ListSessions_def call_def run_query_def ListLiveSessions_def return_def
        with_provider_kind_def)
qed

section \<open>The registration and the browser\<close>

abbreviation register_params :: "RegisterRequest \<Rightarrow> RegisterParams" where
  "register_params req \<equiv>
     \<lparr>reg_Email = rgr_Email req, reg_Password = rgr_Password req, reg_DisplayName = rgr_DisplayName req\<rparr>"

text \<open>The user and the session of an answer, from their rows.\<close>

definition user_of :: "UserProfile \<Rightarrow> SignedInUser" where
  "user_of prof = \<lparr>siu_ID = up_UserID prof, siu_Email = up_Email prof, siu_DisplayName = up_DisplayName prof,
     siu_Timezone = up_Timezone prof\<rparr>"

lemma currentSession_calm:
  assumes "e_fault E (w_tick w) = None" and "find (\<lambda>p. up_UserID p = ses_UserID s) (user_profiles (w_db w)) = Some prof"
  shows "\<exists>cur. currentSession E s w = (Inr cur, tick w) \<and> cus_User cur = user_of prof
    \<and> asn_ID (cus_Session cur) = ses_ID s \<and> asn_IssuedAt (cus_Session cur) = ses_IssuedAt s
    \<and> asn_ExpiresAt (cus_Session cur) = ses_ExpiresAt s"
  using assms by (simp add: currentSession_def Profile_def call_def run_calm GetUserProfile_def return_def user_of_def)

lemma handleRegister_valid:
  assumes calm: "\<forall>n. e_fault (sv_env S) n = None" and ok: "auth_ok (e_citext (sv_env S)) (w_db w)"
    and lens: "argon2_lengths (sv_env S)" and draws: "fresh_draws (sv_env S) (hd_auth (sv_handler S)) (w_db w)"
    and req: "decodeRegisterRequest (sv_lib S) r = Inr req"
    and valid: "valid_registration (sv_env S) (hd_auth (sv_handler S)) (sv_clock S (w_tick w)) (register_params req) w"
  shows "\<exists>s w1 prof cur now1. Register (sv_env S) (hd_auth (sv_handler S)) (sv_clock S (w_tick w)) (register_params req)
      (rc_client (request_context S r)) w = (Inr s, w1)
    \<and> find (\<lambda>p. up_UserID p = ses_UserID s) (user_profiles (w_db w1)) = Some prof
    \<and> up_Email prof = NormaliseEmail (e_unicode (sv_env S)) (rgr_Email req)
    \<and> up_DisplayName prof = TrimSpace (e_unicode (sv_env S)) (rgr_DisplayName req)
    \<and> cus_User cur = user_of prof \<and> asn_ID (cus_Session cur) = ses_ID s
    \<and> asn_IssuedAt (cus_Session cur) = ses_IssuedAt s \<and> asn_ExpiresAt (cus_Session cur) = ses_ExpiresAt s
    \<and> handleRegisterRequest S r w =
        (\<lparr>rs_status = 201, rs_headers = [json_type, exposed ''Set-Cookie''],
           rs_cookies = [sessionCookie (sv_handler S) (ses_Token s) (ses_ExpiresAt s) now1],
           rs_body = Some (CurrentSession_Encode (sv_json S) cur)\<rparr>, tick w1)"
proof -
  obtain s w1 where reg: "Register (sv_env S) (hd_auth (sv_handler S)) (sv_clock S (w_tick w)) (register_params req)
      (rc_client (request_context S r)) w = (Inr s, w1)"
    using Register_valid [OF calm ok draws valid] by blast
  obtain prof where prof: "find (\<lambda>p. up_UserID p = ses_UserID s) (user_profiles (w_db w1)) = Some prof"
    "up_Email prof = NormaliseEmail (e_unicode (sv_env S)) (rgr_Email req)"
    "up_DisplayName prof = TrimSpace (e_unicode (sv_env S)) (rgr_DisplayName req)"
    using Register_usable [OF ok lens reg] by (auto simp: GetUserProfile_def split: option.splits)
  obtain cur where cur: "currentSession (sv_env S) s w1 = (Inr cur, tick w1)" "cus_User cur = user_of prof"
    "asn_ID (cus_Session cur) = ses_ID s" "asn_IssuedAt (cus_Session cur) = ses_IssuedAt s"
    "asn_ExpiresAt (cus_Session cur) = ses_ExpiresAt s"
    using currentSession_calm [OF _ prof(1)] calm by blast
  have "handleRegisterRequest S r w =
      (\<lparr>rs_status = 201, rs_headers = [json_type, exposed ''Set-Cookie''],
         rs_cookies = [sessionCookie (sv_handler S) (ses_Token s) (ses_ExpiresAt s) (sv_clock S (w_tick (tick w1)))],
         rs_body = Some (CurrentSession_Encode (sv_json S) cur)\<rparr>, tick w1)"
    using reg cur(1) by (simp add: handleRegisterRequest_def decoded_def req answered_def Handler_Register_def serve_def
        with_now_def signedIn_def reply_def)
  with reg prof cur(2-) show ?thesis by blast
qed

text \<open>The cookie of a live session, read by a server on the same tables.\<close>

lemma handleGetCurrentSession_live:
  assumes calm: "\<forall>n. e_fault (sv_env S) n = None" and clock: "\<forall>n. sv_clock S n < as_ExpiresAt row"
    and cookie: "rq_Cookie r ''warp_session'' = Some token"
    and row: "\<And>t. t < as_ExpiresAt row \<Longrightarrow>
      find (\<lambda>x. as_TokenHash x = HashToken token \<and> live t x) (auth_sessions (w_db w)) = Some row"
    and ids: "distinct (map as_ID (auth_sessions (w_db w)))"
    and prof: "find (\<lambda>p. up_UserID p = as_UserID row) (user_profiles (w_db w)) = Some prof"
  shows "\<exists>cur. fst (handleGetCurrentSessionRequest S r w) = json_response 200 (CurrentSession_Encode (sv_json S) cur)
    \<and> cus_User cur = user_of prof \<and> asn_ID (cus_Session cur) = as_ID row
    \<and> asn_IssuedAt (cus_Session cur) = as_IssuedAt row \<and> asn_ExpiresAt (cus_Session cur) = as_ExpiresAt row
    \<and> asn_IsCurrent (cus_Session cur)"
proof -
  let ?t = "sv_clock S (w_tick w)"
  note found = row [OF clock [rule_format]]
  obtain pk w1 where auth: "AuthenticatePrincipal (sv_env S) ?t token w =
      (Inr \<lparr>pr_UserID = as_UserID row, pr_SessionID = as_ID row, pr_ProviderKind = pk\<rparr>, w1)"
    "user_profiles (w_db w1) = user_profiles (w_db w)"
    "auth_sessions (w_db w1) = update_where (\<lambda>s. as_ID s = as_ID row) (\<lambda>s. s\<lparr>as_LastSeenAt := ?t\<rparr>) (auth_sessions (w_db w))"
    using Authenticate_live [OF calm found] by blast
  let ?row = "row\<lparr>as_LastSeenAt := ?t\<rparr>" and ?now = "sv_clock S (w_tick (tick w1))"
  have "map as_ID (auth_sessions (w_db w1)) = map as_ID (auth_sessions (w_db w))"
    by (simp add: auth(3) update_where_def)
  moreover have "?row \<in> set (auth_sessions (w_db w1))"
    using find_Some_in [OF found] by (force simp: auth(3) update_where_def)
  moreover have "live ?now ?row" using find_Some_in [OF found] clock by (simp add: live_def)
  ultimately obtain ss kind where ss: "ListSessions (sv_env S) ?now (as_UserID row) (tick w1) = (Inr ss, tick (tick w1))"
    "find (\<lambda>s. ss_ID s = as_ID row) ss = Some (session_summary (AuthSession.extend ?row (LiveSessionRow.fields kind)))"
    using ListSessions_finds [of "sv_env S" "tick w1" ?row ?now] ids calm by auto
  show ?thesis
    using auth(1,2) cookie prof calm ss
    by (auto simp: handleGetCurrentSessionRequest_def secured_def securitySessionCookie_def HandleSessionCookie_def
        answered_def Handler_GetCurrentSession_def with_principal_def serve_def Profile_def run_calm GetUserProfile_def
        with_now_def reply_def toAPISession_def session_summary_def AuthSession.defs user_of_def intro!: exI)
qed

text \<open>
  C23. Without failures a registration that breaks no rule is answered 201 with one cookie and the user
  and the session it has opened, under the normalised address and the trimmed name. Whoever sends that
  cookie afterwards to any server on the same tables, before it expires and while the database
  answers, is told with 200 the same user and the same session: its identifier, its start, its end, and that it is the current one.
  The process must draw identifiers and tokens that are new, as it does but for a collision.
\<close>

theorem registered_browser_is_signed_in:
  assumes "\<forall>n. e_fault (sv_env S) n = None" and "auth_ok (e_citext (sv_env S)) (w_db w)"
    and "argon2_lengths (sv_env S)" and "fresh_draws (sv_env S) (hd_auth (sv_handler S)) (w_db w)"
    and "decodeRegisterRequest (sv_lib S) r = Inr req"
    and "valid_registration (sv_env S) (hd_auth (sv_handler S)) (sv_clock S (w_tick w)) (register_params req) w"
  shows "\<exists>ck current w'. handleRegisterRequest S r w =
      (\<lparr>rs_status = 201, rs_headers = [json_type, exposed ''Set-Cookie''], rs_cookies = [ck],
         rs_body = Some (CurrentSession_Encode (sv_json S) current)\<rparr>, w')
    \<and> ck_Name ck = ''warp_session'' \<and> ck_Expires ck = asn_ExpiresAt (cus_Session current)
    \<and> ck_Expires ck = Policy_ExpiresAt (svc_policy (hd_auth (sv_handler S))) (sv_clock S (w_tick w))
    \<and> siu_Email (cus_User current) = NormaliseEmail (e_unicode (sv_env S)) (rgr_Email req)
    \<and> siu_DisplayName (cus_User current) = TrimSpace (e_unicode (sv_env S)) (rgr_DisplayName req)
    \<and> (\<forall>S' r'. (\<forall>n. e_fault (sv_env S') n = None) \<and> (\<forall>n. sv_clock S' n < ck_Expires ck)
          \<and> rq_Cookie r' ''warp_session'' = Some (ck_Value ck) \<longrightarrow>
        (\<exists>told. fst (handleGetCurrentSessionRequest S' r' w') =
             json_response 200 (CurrentSession_Encode (sv_json S') told)
           \<and> cus_User told = cus_User current \<and> asn_ID (cus_Session told) = asn_ID (cus_Session current)
           \<and> asn_IssuedAt (cus_Session told) = asn_IssuedAt (cus_Session current)
           \<and> asn_ExpiresAt (cus_Session told) = asn_ExpiresAt (cus_Session current)
           \<and> asn_IsCurrent (cus_Session told)))"
proof -
  obtain s w1 prof cur now1 where
    reg: "Register (sv_env S) (hd_auth (sv_handler S)) (sv_clock S (w_tick w)) (register_params req)
      (rc_client (request_context S r)) w = (Inr s, w1)"
    and prof: "find (\<lambda>p. up_UserID p = ses_UserID s) (user_profiles (w_db w1)) = Some prof"
      "up_Email prof = NormaliseEmail (e_unicode (sv_env S)) (rgr_Email req)"
      "up_DisplayName prof = TrimSpace (e_unicode (sv_env S)) (rgr_DisplayName req)"
    and cur: "cus_User cur = user_of prof" "asn_ID (cus_Session cur) = ses_ID s"
      "asn_IssuedAt (cus_Session cur) = ses_IssuedAt s" "asn_ExpiresAt (cus_Session cur) = ses_ExpiresAt s"
    and answer: "handleRegisterRequest S r w =
        (\<lparr>rs_status = 201, rs_headers = [json_type, exposed ''Set-Cookie''],
           rs_cookies = [sessionCookie (sv_handler S) (ses_Token s) (ses_ExpiresAt s) now1],
           rs_body = Some (CurrentSession_Encode (sv_json S) cur)\<rparr>, tick w1)"
    using handleRegister_valid [OF assms] by blast
  obtain pid where row: "find (\<lambda>x. as_TokenHash x = HashToken (ses_Token s) \<and> live t x) (auth_sessions (w_db w1))
      = Some (session_row s pid (rc_client (request_context S r)))" if "t < ses_ExpiresAt s" for t
    using Register_session_row(2) [OF assms(2,3) reg] by blast
  have told: "\<exists>told. fst (handleGetCurrentSessionRequest S' r' (tick w1)) =
         json_response 200 (CurrentSession_Encode (sv_json S') told)
       \<and> cus_User told = user_of prof \<and> asn_ID (cus_Session told) = ses_ID s
       \<and> asn_IssuedAt (cus_Session told) = ses_IssuedAt s \<and> asn_ExpiresAt (cus_Session told) = ses_ExpiresAt s
       \<and> asn_IsCurrent (cus_Session told)"
    if "\<forall>n. e_fault (sv_env S') n = None" "\<forall>n. sv_clock S' n < ses_ExpiresAt s"
      "rq_Cookie r' ''warp_session'' = Some (ses_Token s)" for S' r'
    using handleGetCurrentSession_live [of S' "session_row s pid (rc_client (request_context S r))" r' "ses_Token s" "tick w1" prof]
      that row prof(1) Register_session_row(1) [OF assms(2,3) reg]
    by (simp add: session_row_def)
  have "ses_ExpiresAt s = Policy_ExpiresAt (svc_policy (hd_auth (sv_handler S))) (sv_clock S (w_tick w))"
    using Register_cases [OF reg] by auto
  then show ?thesis
    using answer prof(2,3) cur told by (force simp: sessionCookie_def user_of_def)
qed

section \<open>A sample\<close>

definition register_document :: json where
  "register_document = JObj [(''email'', JStr '' Ann@X.org''), (''password'', JStr ''secret''), (''displayName'', JStr ''Ann'')]"

abbreviation register_request :: request where
  "register_request \<equiv> sample_request ''POST'' ''/api/v1/auth/register'' (\<lambda>_. None)"

lemma decode_register_document:
  "decodeRegisterRequest (sample_lib register_document) register_request =
     Inr \<lparr>rgr_Email = '' Ann@X.org'', rgr_Password = ''secret'', rgr_DisplayName = ''Ann''\<rparr>"
proof -
  have doc: "register_document = RegisterRequest_Encode \<lparr>rgr_Email = '' Ann@X.org'', rgr_Password = ''secret'', rgr_DisplayName = ''Ann''\<rparr>"
    by (simp add: register_document_def RegisterRequest_Encode_def field_def)
  have "RegisterRequest_Decode register_document =
      Inr \<lparr>rgr_Email = '' Ann@X.org'', rgr_Password = ''secret'', rgr_DisplayName = ''Ann''\<rparr>"
    unfolding doc by (rule jregister.decode_encode) (simp add: RegisterRequest_ok_def)
  then show ?thesis
    by (simp add: decodeRegisterRequest_def decode_body_def RegisterRequest_Validate_def failures_def)
qed

theorem registered_browser_is_signed_in_witness:
  "\<exists>(ck :: cookie) told. rs_status (fst (handleRegisterRequest (sample_server register_document) register_request fresh_world)) = 201
     \<and> fst (handleGetCurrentSessionRequest (sample_server JNull)
        (sample_request ''GET'' ''/api/v1/auth/session'' (\<lambda>_. Some (ck_Value ck)))
        (snd (handleRegisterRequest (sample_server register_document) register_request fresh_world)))
      = json_response 200 (CurrentSession_Encode (sv_json (sample_server JNull)) told)
     \<and> siu_DisplayName (cus_User told) = ''Ann''"
proof -
  let ?S = "sample_server register_document" and ?Sv = "hd_auth (sv_handler (sample_server register_document))"
  have calm: "\<forall>n. e_fault (sv_env (sample_server doc)) n = None" for doc by simp
  have ok: "auth_ok (e_citext (sv_env ?S)) (w_db fresh_world)" by (simp add: fresh_world_def)
  have lens: "argon2_lengths (sv_env ?S)" using argon2_lengths_calm by simp
  have draws: "fresh_draws (sv_env ?S) ?Sv (w_db fresh_world)"
    by (simp add: fresh_draws_def fresh_world_def empty_db_def toy_argon2_def NewService_def
        DefaultPasswordParams_def)
  have name: "TrimSpace plain_unicode ''Ann'' = ''Ann''" by code_simp
  have valid: "valid_registration (sv_env ?S) ?Sv (sv_clock ?S (w_tick fresh_world))
      (register_params \<lparr>rgr_Email = '' Ann@X.org'', rgr_Password = ''secret'', rgr_DisplayName = ''Ann''\<rparr>) fresh_world"
    by (simp add: valid_registration_def fresh_world_def empty_db_def name NormaliseEmail_ann not_blank_iff
        Policy_ExpiresAt_def NewService_def DefaultPolicy_def)
  have dec: "decodeRegisterRequest (sv_lib ?S) register_request =
      Inr \<lparr>rgr_Email = '' Ann@X.org'', rgr_Password = ''secret'', rgr_DisplayName = ''Ann''\<rparr>"
    using decode_register_document by simp
  obtain ck current w' where
    post: "handleRegisterRequest ?S register_request fresh_world =
      (\<lparr>rs_status = 201, rs_headers = [json_type, exposed ''Set-Cookie''], rs_cookies = [ck],
         rs_body = Some (CurrentSession_Encode (sv_json ?S) current)\<rparr>, w')"
    and user: "siu_DisplayName (cus_User current) = ''Ann''" and exp: "0 < ck_Expires ck"
    and get: "\<And>S' r'. \<forall>n. e_fault (sv_env S') n = None \<Longrightarrow> \<forall>n. sv_clock S' n < ck_Expires ck \<Longrightarrow>
      rq_Cookie r' ''warp_session'' = Some (ck_Value ck) \<Longrightarrow>
      \<exists>told. fst (handleGetCurrentSessionRequest S' r' w') = json_response 200 (CurrentSession_Encode (sv_json S') told)
        \<and> cus_User told = cus_User current"
    using registered_browser_is_signed_in [OF calm ok lens draws dec valid]
    by - (elim exE conjE, rule that, assumption, simp add: name, simp only: Policy_ExpiresAt_def,
        simp add: NewService_def DefaultPolicy_def, blast)
  obtain told where "fst (handleGetCurrentSessionRequest (sample_server JNull)
        (sample_request ''GET'' ''/api/v1/auth/session'' (\<lambda>_. Some (ck_Value ck))) w')
      = json_response 200 (CurrentSession_Encode (sv_json (sample_server JNull)) told)" "cus_User told = cus_User current"
    using get [of "sample_server JNull" "sample_request ''GET'' ''/api/v1/auth/session'' (\<lambda>_. Some (ck_Value ck))"] exp
    by auto
  with post user show ?thesis by - (rule exI [of _ ck], rule exI [of _ told], simp)
qed

end
