(* ===== verification/Http_Redirect.thy ===== *)
theory Http_Redirect
  imports Http_Safety
begin

text \<open>
  Where a sign-in with Google lands, \<^verbatim>\<open>withQuery\<close> and \<^verbatim>\<open>CompleteGoogleSignIn\<close> of \<^verbatim>\<open>auth_google.go\<close>: a
  declined one goes back to the path it came from, with a marker in the query and the rest of the
  query kept. For a path that \<^verbatim>\<open>net/url\<close> writes another way the answer can be another host.
\<close>

section \<open>A marker in the query\<close>

lemma query_text_not_Nil: "vs \<noteq> [] \<Longrightarrow> query_text vs \<noteq> []"
  by (cases vs rule: query_text.cases) simp_all

lemma Values_Encode_Set_not_Nil [simp]: "Values_Encode (Values_Set key val vs) \<noteq> []"
  unfolding Values_Encode_def
  by (rule query_text_not_Nil) (simp flip: length_greater_0_conv, simp add: Values_Set_def)

lemma withQuery_plain:
  assumes "plain_path p" and "plain_query q"
  shows "withQuery host (p @ CHR ''?'' # q) key val
    = p @ CHR ''?'' # Values_Encode (Values_Set key val (ParseQuery q))"
    and "withQuery host p key val = p @ CHR ''?'' # Values_Encode (Values_Set key val (ParseQuery []))"
proof -
  have "u_RawQuery (path_url p f r) = r" for f r by (simp add: path_url_def Let_def)
  then show "withQuery host (p @ CHR ''?'' # q) key val
      = p @ CHR ''?'' # Values_Encode (Values_Set key val (ParseQuery q))"
    and "withQuery host p key val = p @ CHR ''?'' # Values_Encode (Values_Set key val (ParseQuery []))"
    using parse_plain [OF assms] by (simp_all add: withQuery_def String_path_url [OF assms(1)])
qed

lemma marked_query:
  assumes "count_list q (CHR ''&'') + 1 < max_query_params"
  shows "values_of name (ParseQuery (Values_Encode (Values_Set key val (ParseQuery q))))
    = (if name = key then [(key, val)] else values_of name (ParseQuery q))"
proof -
  have "length (Values_Set key val (ParseQuery q)) \<le> max_query_params"
    using assms length_Values_Set [of key val "ParseQuery q"] length_ParseQuery [of q] by linarith
  then show ?thesis by (simp add: read_Encode values_of_Set)
qed

text \<open>Where a browser takes the address for that of another host.\<close>

definition leaves_site :: "string \<Rightarrow> bool" where
  "leaves_site location \<longleftrightarrow> prefix ''//'' location"

lemma plain_stays: "plain_path p \<Longrightarrow> \<not> leaves_site (p @ CHR ''?'' # r)"
  by (auto simp: plain_path_def leaves_site_def prefix_def Cons_eq_append_conv append_eq_Cons_conv)

text \<open>
  C29. After a sign-in that the owner declined, the browser goes back to where it came from, or to the root without a
  flow, when the path there is plain: it starts with one slash, its escapes are right, and it has no character that
  \<^verbatim>\<open>net/url\<close> would escape; its query, if it has one, has no control character and no fragment and fewer parameters
  than \<^verbatim>\<open>net/url\<close> reads. Then the path of the answer is the same text, so the site is not left; the query says
  \<^verbatim>\<open>auth_error=declined\<close> once and every other name has the values it had, in their order; the flow's cookie is expired, and
  nothing is stored.
\<close>

theorem declined_returns_to_path:
  assumes "Opt_Get (cgp_Error params) = Some reason"
    and "flowReturnTo (oauthFlowFrom c) = p @ query" and "(query, q) = ([], []) \<or> query = CHR ''?'' # q"
    and "plain_path p" and "plain_query q" and "count_list q (CHR ''&'') + 1 < max_query_params"
  shows "\<exists>r. Handler_CompleteGoogleSignIn E G parseHost H clk c params w
      = (Inr (CompleteGoogleSignInFound (p @ CHR ''?'' # r) [expiredOAuthCookie H (clk (w_tick w))]), w)
    \<and> \<not> leaves_site (p @ CHR ''?'' # r)
    \<and> (\<forall>name. values_of name (ParseQuery r)
        = (if name = ''auth_error'' then [(''auth_error'', ''declined'')] else values_of name (ParseQuery q)))"
proof (intro exI conjI allI)
  show "Handler_CompleteGoogleSignIn E G parseHost H clk c params w
      = (Inr (CompleteGoogleSignInFound
          (p @ CHR ''?'' # Values_Encode (Values_Set ''auth_error'' ''declined'' (ParseQuery q)))
          [expiredOAuthCookie H (clk (w_tick w))]), w)"
    using assms(1-3) withQuery_plain [OF assms(4,5)] by (auto simp: Handler_CompleteGoogleSignIn_def reply_def)
qed (rule plain_stays [OF assms(4)], rule marked_query [OF assms(6)])

abbreviation declined_context :: "FlowState option \<Rightarrow> rctx" where
  "declined_context flow \<equiv> \<lparr>rc_principal = None, rc_token = [], rc_client = \<lparr>sic_UserAgent = [], sic_IP = None\<rparr>,
     rc_flow = flow\<rparr>"

abbreviation declined_answer :: "FlowState option \<Rightarrow> (api_error + api_response) \<times> world" where
  "declined_answer flow \<equiv> Handler_CompleteGoogleSignIn calm_env (sv_oidc (sample_server JNull)) (\<lambda>_. Some)
     (sv_handler (sample_server JNull)) (\<lambda>_. 0) (declined_context flow)
     \<lparr>cgp_Code = ''c'', cgp_State = ''s'', cgp_Error = NewOpt ''access_denied''\<rparr> fresh_world"

text \<open>From a path with a query, and without a flow.\<close>

theorem declined_returns_to_path_witness:
  "(\<exists>r. declined_answer (Some \<lparr>fs_State = ''s'', fs_Nonce = ''n'', fs_ReturnTo = ''/inbox?tab=new''\<rparr>)
      = (Inr (CompleteGoogleSignInFound (''/inbox'' @ CHR ''?'' # r)
          [expiredOAuthCookie (sv_handler (sample_server JNull)) 0]), fresh_world)
      \<and> values_of ''tab'' (ParseQuery r) = values_of ''tab'' (ParseQuery ''tab=new''))
   \<and> (\<exists>r. declined_answer None
      = (Inr (CompleteGoogleSignInFound (''/'' @ CHR ''?'' # r)
          [expiredOAuthCookie (sv_handler (sample_server JNull)) 0]), fresh_world)
      \<and> values_of ''auth_error'' (ParseQuery r) = [(''auth_error'', ''declined'')])"
proof -
  have plain: "plain_path ''/inbox''" "plain_path ''/''" "plain_query ''tab=new''" "plain_query []" by code_simp+
  let ?flow = "\<lparr>fs_State = ''s'', fs_Nonce = ''n'', fs_ReturnTo = ''/inbox?tab=new''\<rparr>"
  have goes: "flowReturnTo (oauthFlowFrom (declined_context (Some ?flow))) = ''/inbox'' @ ''?tab=new''"
    "flowReturnTo (oauthFlowFrom (declined_context None)) = ''/'' @ []"
    by (simp_all add: oauthFlowFrom_def flowReturnTo_def)
  have "Opt_Get (NewOpt ''access_denied'') = Some ''access_denied''" by (simp add: NewOpt_def Opt_Get_def)
  then have reason: "Opt_Get (cgp_Error \<lparr>cgp_Code = ''c'', cgp_State = ''s'', cgp_Error = NewOpt ''access_denied''\<rparr>)
      = Some ''access_denied''" by simp
  show ?thesis
    using declined_returns_to_path [OF reason goes(1) _ plain(1,3)] declined_returns_to_path [OF reason goes(2) _ plain(2,4)]
    by fastforce
qed

section \<open>A path that leaves the site\<close>

text \<open>
  What the pattern \<^verbatim>\<open>^/([^/].*)?$\<close> of the contract lets through: a slash alone, or a slash, a character
  that is not one, and no line feed after it.
\<close>

definition returnTo_pattern :: "string \<Rightarrow> bool" where
  "returnTo_pattern s \<longleftrightarrow>
     (case s of
        [] \<Rightarrow> False
      | a # t \<Rightarrow> a = CHR ''/'' \<and> (case t of [] \<Rightarrow> True | b # u \<Rightarrow> b \<noteq> CHR ''/'' \<and> CHR 0x0A \<notin> set u))"

definition crafted_path :: string where
  "crafted_path = ''/%2Fevil.example/'' @ [CHR 0x5C]"

text \<open>
  C30. A path with an escaped slash at its front and a backslash in it matches the pattern, but the redirect of a
  declined sign-in writes the slash out, so that the address begins with two: the browser goes to a host of the
  sender's choice.
\<close>

theorem declined_can_leave_site:
  "returnTo_pattern crafted_path
   \<and> withQuery parseHost crafted_path ''auth_error'' ''declined'' = ''//evil.example/%5C?auth_error=declined''
   \<and> leaves_site (withQuery parseHost crafted_path ''auth_error'' ''declined'')"
proof -
  have "char_of (47 :: nat) = CHR ''/''" by code_simp
  then have "url_Parse parseHost crafted_path
      = Some (no_url\<lparr>u_Path := ''//evil.example/'' @ [CHR 0x5C], u_RawPath := crafted_path\<rparr>)"
    by (simp add: crafted_path_def url_Parse_def parse_url_def Cut_def control_byte_def getScheme_def byte_in_def
        cut_query_def no_url_def setPath_def escape_byte_def shouldEscape_def alphanumeric_def unhex_def upper_hex_def)
  moreover have "url_String (no_url\<lparr>u_Path := ''//evil.example/'' @ [CHR 0x5C], u_RawPath := crafted_path,
      u_RawQuery := Values_Encode (Values_Set ''auth_error'' ''declined'' (ParseQuery []))\<rparr>)
      = ''//evil.example/%5C?auth_error=declined''"
    by code_simp
  moreover have "returnTo_pattern crafted_path" by code_simp
  ultimately show ?thesis by (simp add: withQuery_def leaves_site_def no_url_def)
qed

end
