(* ===== verification/Go_Strconv.thy ===== *)
theory Go_Strconv
  imports Go_Encoding
begin

text \<open>
  Parts of the standard library that read numbers out of text: \<^verbatim>\<open>strconv.Atoi\<close> and \<^verbatim>\<open>ParseInt\<close> in
  base ten, \<^verbatim>\<open>time.ParseDuration\<close> with its 64-bit and floating-point arithmetic, and the padded
  decoder of \<^verbatim>\<open>encoding/base64\<close>.
\<close>

section \<open>Integers\<close>

text \<open>An optional sign and at least one digit, nothing else; a value outside 64 bits is an error.\<close>

fun cut_sign :: "string \<Rightarrow> bool \<times> string" where
  "cut_sign (c # s) = (if c = CHR ''-'' then (True, s) else if c = CHR ''+'' then (False, s) else (False, c # s))"
| "cut_sign [] = (False, [])"

definition digit_of :: "char \<Rightarrow> int" where
  "digit_of c = int (of_char c) - 48"

definition digits_int :: "string \<Rightarrow> int" where
  "digits_int s = foldl (\<lambda>v c. v * 10 + digit_of c) 0 s"

definition ParseInt :: "string \<Rightarrow> int option" where
  "ParseInt s =
     (case cut_sign s of (neg, t) \<Rightarrow>
        if t = [] \<or> \<not> list_all is_digit t then None
        else
          let n = digits_int t
          in if neg then (if n > 2 ^ 63 then None else Some (- n))
             else (if n \<ge> 2 ^ 63 then None else Some n))"

abbreviation Atoi :: "string \<Rightarrow> int option" where "Atoi \<equiv> ParseInt"

lemma digit_of_nonneg: "is_digit c \<Longrightarrow> 0 \<le> digit_of c"
  by (simp add: digit_of_def is_digit_def)

lemma digits_int_value: "list_all is_digit s \<Longrightarrow> digits_int s = int (digits_value s)"
proof (induction s rule: rev_induct)
  case (snoc c s)
  then show ?case
    by (simp add: digits_int_def digits_value_def digit_of_def is_digit_def of_nat_diff)
qed (simp add: digits_int_def digits_value_def)

lemma ParseInt_range: "ParseInt s = Some n \<Longrightarrow> - (2 ^ 63) \<le> n \<and> n < 2 ^ 63"
  by (auto simp: ParseInt_def Let_def digits_int_value split: prod.splits if_splits)

lemma cut_sign_digit: "is_digit c \<Longrightarrow> cut_sign (c # s) = (False, c # s)"
  by (auto simp: is_digit_def)

lemma ParseInt_Sprintf_d:
  assumes "n < 2 ^ 63"
  shows "ParseInt (Sprintf_d n) = Some (int n)"
proof -
  obtain c s where cs: "Sprintf_d n = c # s" by (cases "Sprintf_d n") auto
  with Sprintf_d_digits [of n] have "cut_sign (Sprintf_d n) = (False, Sprintf_d n)"
    by (simp add: cut_sign_digit del: cut_sign.simps)
  moreover have "int n < 2 ^ 63" using assms by (simp flip: of_nat_power)
  ultimately show ?thesis by (simp add: ParseInt_def Sprintf_d_digits digits_int_value)
qed

section \<open>Floating point\<close>

text \<open>
  The nearest \<^verbatim>\<open>float64\<close> of a positive rational, ties to even, without bounds on the exponent: the
  values rounded here are far from overflow, and those that would underflow are truncated to zero
  by what follows.
\<close>

definition round_even :: "rat \<Rightarrow> int" where
  "round_even q =
     (let f = \<lfloor>q\<rfloor>; r = q - of_int f
      in if r < 1 / 2 then f else if r > 1 / 2 then f + 1 else if even f then f else f + 1)"

definition pow2 :: "int \<Rightarrow> rat" where
  "pow2 e = (if 0 \<le> e then 2 ^ nat e else 1 / 2 ^ nat (- e))"

function bits :: "int \<Rightarrow> int" where
  "bits n = (if n \<le> 0 then 0 else 1 + bits (n div 2))"
  by pat_completeness auto
termination by (relation "measure nat") auto

declare bits.simps [simp del]

definition exponent_of :: "rat \<Rightarrow> int" where
  "exponent_of q =
     (case quotient_of q of (a, b) \<Rightarrow> let k = bits a - bits b in if pow2 k \<le> q then k else k - 1)"

definition to_float64 :: "rat \<Rightarrow> rat" where
  "to_float64 q =
     (if q = 0 then 0
      else let ulp = pow2 (exponent_of q - 52) in of_int (round_even (q / ulp)) * ulp)"

section \<open>Durations\<close>

text \<open>Nanoseconds, the unit of \<^verbatim>\<open>time.Duration\<close>.\<close>

type_synonym nanoseconds = int

definition unitMap :: "(string \<times> int) list" where
  "unitMap =
     [(''ns'', 1), (''us'', 1000), ([CHR 0xC2, CHR 0xB5, CHR ''s''], 1000),
      ([CHR 0xCE, CHR 0xBC, CHR ''s''], 1000), (''ms'', 1000000), (''s'', 1000000000),
      (''m'', 60000000000), (''h'', 3600000000000)]"

text \<open>\<^verbatim>\<open>leadingInt\<close>: the digits at the front, an error beyond \<^verbatim>\<open>1<<63\<close>.\<close>

fun leadingInt :: "int \<Rightarrow> string \<Rightarrow> (int \<times> string) option" where
  "leadingInt x [] = Some (x, [])"
| "leadingInt x (c # s) =
     (if \<not> is_digit c then Some (x, c # s)
      else if x > 2 ^ 63 div 10 then None
      else
        let y = x * 10 + digit_of c
        in if y > 2 ^ 63 then None else leadingInt y s)"

text \<open>\<^verbatim>\<open>leadingFraction\<close>: digits that no longer fit are skipped.\<close>

fun leadingFraction :: "int \<Rightarrow> rat \<Rightarrow> bool \<Rightarrow> string \<Rightarrow> int \<times> rat \<times> string" where
  "leadingFraction x scale overflow [] = (x, scale, [])"
| "leadingFraction x scale overflow (c # s) =
     (if \<not> is_digit c then (x, scale, c # s)
      else if overflow \<or> x > (2 ^ 63 - 1) div 10 then leadingFraction x scale True s
      else
        let y = x * 10 + digit_of c
        in if y > 2 ^ 63 then leadingFraction x scale True s
           else leadingFraction y (to_float64 (scale * 10)) False s)"

definition starts_number :: "char \<Rightarrow> bool" where
  "starts_number c \<longleftrightarrow> c = CHR ''.'' \<or> is_digit c"

text \<open>One number with its unit: its value in nanoseconds and the rest of the text.\<close>

definition fraction_of :: "string \<Rightarrow> int \<times> rat \<times> string \<times> bool" where
  "fraction_of s =
     (case s of
        c # t \<Rightarrow>
          (if c = CHR ''.''
           then case leadingFraction 0 1 False t of (f, scale, rest) \<Rightarrow> (f, scale, rest, length rest \<noteq> length t)
           else (0, 1, s, False))
      | [] \<Rightarrow> (0, 1, [], False))"

definition duration_step :: "string \<Rightarrow> (int \<times> string) option" where
  "duration_step s =
     (if s = [] \<or> \<not> starts_number (hd s) then None
      else case leadingInt 0 s of
        None \<Rightarrow> None
      | Some (v, s1) \<Rightarrow>
          (case fraction_of s1 of (f, scale, s2, post) \<Rightarrow>
             if length s1 = length s \<and> \<not> post then None
             else
               let u = takeWhile (\<lambda>c. \<not> starts_number c) s2; s3 = dropWhile (\<lambda>c. \<not> starts_number c) s2
               in if u = [] then None
                  else case map_of unitMap u of
                    None \<Rightarrow> None
                  | Some unit \<Rightarrow>
                      (if v > 2 ^ 63 div unit then None
                       else
                         let v' = v * unit
                           + (if f > 0 then \<lfloor>to_float64 (to_float64 (of_int f) * to_float64 (of_int unit / scale))\<rfloor> else 0)
                         in if v' > 2 ^ 63 then None else Some (v', s3))))"

lemma leadingInt_shorter: "leadingInt x s = Some (v, r) \<Longrightarrow> length r \<le> length s"
  by (induction x s rule: leadingInt.induct) (auto simp: Let_def split: if_splits)

lemma leadingFraction_shorter: "leadingFraction x sc ov s = (f, scale, r) \<Longrightarrow> length r \<le> length s"
  by (induction x sc ov s rule: leadingFraction.induct) (auto simp: Let_def split: if_splits)

lemma fraction_of_shorter: "fraction_of s = (f, scale, r, post) \<Longrightarrow> length r \<le> length s"
  by (auto simp: fraction_of_def split: list.splits if_splits prod.splits dest!: leadingFraction_shorter)

text \<open>Each step consumes at least its unit, so the loop ends.\<close>

lemma duration_step_shorter: "duration_step s = Some (v, r) \<Longrightarrow> length r < length s"
proof -
  assume step: "duration_step s = Some (v, r)"
  then obtain w s1 f scale s2 post where "leadingInt 0 s = Some (w, s1)" "fraction_of s1 = (f, scale, s2, post)"
    and "takeWhile (\<lambda>c. \<not> starts_number c) s2 \<noteq> []" and r: "r = dropWhile (\<lambda>c. \<not> starts_number c) s2"
    by (auto simp: duration_step_def Let_def split: if_splits option.splits prod.splits)
  then have "length s2 \<le> length s" using leadingInt_shorter fraction_of_shorter le_trans by blast
  moreover have "length r < length s2"
    using \<open>takeWhile _ s2 \<noteq> []\<close> unfolding r
    by (metis add_less_same_cancel2 add_cancel_left_left append_Nil length_append length_greater_0_conv
        linorder_neqE_nat not_add_less2 takeWhile_dropWhile_id)
  ultimately show ?thesis by simp
qed

function durations :: "int \<Rightarrow> string \<Rightarrow> int option" where
  "durations d s =
     (if s = [] then Some d
      else case duration_step s of
        None \<Rightarrow> None
      | Some (v, r) \<Rightarrow>
          (let d' = (d + v) mod 2 ^ 64 in if d' > 2 ^ 63 then None else durations d' r))"
  by pat_completeness auto
termination
  by (relation "measure (length \<circ> snd)") (auto dest: duration_step_shorter)

declare durations.simps [simp del]

definition ParseDuration :: "string \<Rightarrow> nanoseconds option" where
  "ParseDuration s =
     (case cut_sign s of (neg, t) \<Rightarrow>
        if t = ''0'' then Some 0
        else if t = [] then None
        else case durations 0 t of
          None \<Rightarrow> None
        | Some d \<Rightarrow>
            (if neg then Some (- d) else if d > 2 ^ 63 - 1 then None else Some d))"

lemma durations_bound: "durations d s = Some r \<Longrightarrow> 0 \<le> d \<and> d \<le> 2 ^ 63 \<Longrightarrow> 0 \<le> r \<and> r \<le> 2 ^ 63"
proof (induction d s rule: durations.induct)
  case (1 d s)
  then show ?case
    by (subst (asm) durations.simps) (auto simp: Let_def split: if_splits option.splits)
qed

lemma ParseDuration_range: "ParseDuration s = Some n \<Longrightarrow> - (2 ^ 63) \<le> n \<and> n < 2 ^ 63"
  using durations_bound [of 0 "snd (cut_sign s)"]
  by (auto simp: ParseDuration_def split: prod.splits if_splits option.splits)

section \<open>Padded base64\<close>

text \<open>
  \<^verbatim>\<open>StdEncoding.DecodeString\<close>: line ends are skipped, the rest comes in groups of four, the last of
  which may end in one or two pad characters; unused bits are ignored.
\<close>

definition Std_DecodeString :: "string \<Rightarrow> byte list option" where
  "Std_DecodeString s =
     (let t = filter (\<lambda>c. (of_char c :: nat) \<notin> {10, 13}) s;
          body = (if suffix ''=='' t then butlast (butlast t) else if suffix ''='' t then butlast t else t)
      in if length t mod 4 \<noteq> 0 then None else b64_decode False std_alphabet body)"

end
