(* ===== verification/Store_Work.thy ===== *)
theory Store_Work
  imports Store_Contexts Go_Strconv
begin

text \<open>
  \<^verbatim>\<open>internal/store/accounts.sql.go\<close>, \<^verbatim>\<open>routing.sql.go\<close>, \<^verbatim>\<open>signals.sql.go\<close> and \<^verbatim>\<open>tasks.sql.go\<close>: the
  statements on connected sources, on what arrived from them, on where it was filed, and on tasks,
  with the checks, the keys and the triggers of \<^verbatim>\<open>db/migrations\<close> 00006 to 00009 and 00020. No service
  calls them yet, so their arguments are modelled with every value their Go types allow: a
  \<^verbatim>\<open>pgtype.Timestamptz\<close> that is not valid and a slice that is nil are null.

  Two things of the server are arguments: the collation of names and the normal form \<^verbatim>\<open>jsonb\<close>
  gives a document.
\<close>

section \<open>Pieces the statements share\<close>

text \<open>\<^verbatim>\<open>LIMIT n\<close> with a parameter: a negative one is an error.\<close>

definition limit_rows :: "int \<Rightarrow> 'r list \<Rightarrow> go_error + 'r list" where
  "limit_rows n rows = (if n < 0 then Inl (PgError ''2201W'' []) else Inr (take (nat n) rows))"

text \<open>\<^verbatim>\<open>NULLS FIRST\<close>.\<close>

fun nulls_first :: "time option \<Rightarrow> time option \<Rightarrow> bool" where
  "nulls_first None (Some b) = True"
| "nulls_first (Some a) (Some b) = (a < b)"
| "nulls_first a None = False"

text \<open>
  \<^verbatim>\<open>pgtype.Numeric\<close> and the column type \<^verbatim>\<open>numeric(4, 3)\<close>, which rounds half away from zero to three
  digits and holds one digit before the point.
\<close>

datatype pg_numeric = NumericNull | NumericNaN | NumericInfinite | Numeric rat

definition round_3 :: "rat \<Rightarrow> rat" where
  "round_3 q = (if q < 0 then - of_int \<lfloor>1000 * (- q) + 1 / 2\<rfloor> else of_int \<lfloor>1000 * q + 1 / 2\<rfloor>) / 1000"

section \<open>Accounts\<close>

definition GetAccount :: "uuid \<Rightarrow> AccountRow query" where
  "GetAccount i now d =
     (case find (\<lambda>a. ac_ID a = i) (accounts d) of None \<Rightarrow> Inl ErrNoRows | Some a \<Rightarrow> Inr (a, d))"

record ListAccountsDueForSyncParams =
  lad_UserID :: uuid
  lad_RowLimit :: int

definition ListAccountsDueForSync :: "ListAccountsDueForSyncParams \<Rightarrow> AccountRow list query" where
  "ListAccountsDueForSync arg now d =
     (case limit_rows (lad_RowLimit arg)
        (SliceStable (\<lambda>a b. nulls_first (ac_LastSyncAt a) (ac_LastSyncAt b))
          (filter (\<lambda>a. ac_UserID a = lad_UserID arg \<and> ac_Status a = ''active'') (accounts d))) of
        Inl e \<Rightarrow> Inl e | Inr rows \<Rightarrow> Inr (rows, d))"

definition account_join :: "db \<Rightarrow> (AccountRow \<times> AccountContext) list" where
  "account_join d =
     filter (\<lambda>(a, ac). acx_AccountID ac = ac_ID a) (List.product (accounts d) (account_contexts d))"

definition ListAccountsForContexts ::
  "(string \<Rightarrow> string) \<Rightarrow> uuid list \<Rightarrow> AccountRow list query" where
  "ListAccountsForContexts coll contextIds now d =
     Inr (SliceStable (\<lambda>a b. coll (ac_DisplayName a) < coll (ac_DisplayName b))
       (remdups (map fst (filter (\<lambda>(a, ac). acx_ContextID ac \<in> set contextIds) (account_join d)))), d)"

text \<open>
  An update of accounts: the trigger stamps \<^verbatim>\<open>updated_at\<close>, the checks are tested on every row it
  writes.
\<close>

definition account_checks :: "AccountRow \<Rightarrow> (bool \<times> go_error) list" where
  "account_checks a =
     [(ac_Provider a \<noteq> ''manual'' \<or> ac_CredentialsEnc a = None,
        check_violation ''accounts_manual_has_no_creds'')]"

definition update_accounts ::
  "uuid \<Rightarrow> (AccountRow \<Rightarrow> AccountRow) \<Rightarrow> unit query" where
  "update_accounts i f now d =
     (let hit = (\<lambda>a. ac_ID a = i); put = (\<lambda>a. (f a)\<lparr>ac_UpdatedAt := now\<rparr>)
      in case checks (concat (map (\<lambda>a. account_checks (put a)) (filter hit (accounts d)))) of
           Some e \<Rightarrow> Inl e
         | None \<Rightarrow> Inr ((), d\<lparr>accounts := update_where hit put (accounts d)\<rparr>))"

record MarkAccountParams =
  map_Error :: "string option"
  map_AccountID :: uuid

definition MarkAccountFailed :: "MarkAccountParams \<Rightarrow> unit query" where
  "MarkAccountFailed arg = update_accounts (map_AccountID arg)
     (\<lambda>a. a\<lparr>ac_Status := ''error'', ac_LastError := map_Error arg\<rparr>)"

definition MarkAccountNeedsReauth :: "MarkAccountParams \<Rightarrow> unit query" where
  "MarkAccountNeedsReauth arg = update_accounts (map_AccountID arg)
     (\<lambda>a. a\<lparr>ac_Status := ''needs_reauth'', ac_LastError := map_Error arg\<rparr>)"

record MarkAccountSyncedParams =
  mas_SyncCursor :: "byte list option"
  mas_SyncedAt :: "time option"
  mas_AccountID :: uuid

text \<open>The cursor is \<^verbatim>\<open>jsonb\<close> and not null: a text that is no document is refused before any row is
  looked at, a null only when there is a row to write.\<close>

definition MarkAccountSynced ::
  "(byte list \<Rightarrow> byte list option) \<Rightarrow> MarkAccountSyncedParams \<Rightarrow> unit query" where
  "MarkAccountSynced jsonb arg now d =
     (case mas_SyncCursor arg of
        None \<Rightarrow>
          (if list_ex (\<lambda>a. ac_ID a = mas_AccountID arg) (accounts d) then Inl (not_null_violation [])
           else Inr ((), d))
      | Some text \<Rightarrow>
          (case jsonb text of
             None \<Rightarrow> Inl invalid_text_representation
           | Some cursor \<Rightarrow>
               update_accounts (mas_AccountID arg)
                 (\<lambda>a. a\<lparr>ac_Status := ''active'', ac_SyncCursor := cursor,
                        ac_LastSyncAt := mas_SyncedAt arg, ac_LastError := None\<rparr>) now d))"

section \<open>Routing\<close>

record AssignSignalContextParams =
  asc_SignalID :: uuid
  asc_ContextID :: uuid
  asc_Confidence :: pg_numeric
  asc_AssignedBy :: string
  asc_CreatedAt :: "time option"

text \<open>
  The coercion to the column comes first, then the nulls and the check, then the key: a row with
  the same pair is rewritten, and only a new row has its references tested.
\<close>

definition AssignSignalContext :: "AssignSignalContextParams \<Rightarrow> unit query" where
  "AssignSignalContext arg now d =
     (if \<not> enum_ok AssignmentSource_enum (asc_AssignedBy arg) then Inl invalid_text_representation
      else case asc_Confidence arg of
        NumericInfinite \<Rightarrow> Inl numeric_out_of_range
      | NumericNull \<Rightarrow> Inl (not_null_violation [])
      | NumericNaN \<Rightarrow>
          (if asc_CreatedAt arg = None then Inl (not_null_violation [])
           else Inl (check_violation ''signal_contexts_confidence_range''))
      | Numeric q \<Rightarrow>
          (if \<bar>round_3 q\<bar> \<ge> 10 then Inl numeric_out_of_range
           else case asc_CreatedAt arg of
             None \<Rightarrow> Inl (not_null_violation [])
           | Some created \<Rightarrow>
               (if round_3 q < 0 \<or> round_3 q > 1
                then Inl (check_violation ''signal_contexts_confidence_range'')
                else
                  let same = (\<lambda>r. sx_SignalID r = asc_SignalID arg \<and> sx_ContextID r = asc_ContextID arg)
                  in if list_ex same (signal_contexts d)
                     then Inr ((), d\<lparr>signal_contexts := update_where same
                       (\<lambda>r. r\<lparr>sx_Confidence := round_3 q, sx_AssignedBy := asc_AssignedBy arg\<rparr>)
                       (signal_contexts d)\<rparr>)
                     else
                       (case checks
                          [(asc_SignalID arg \<in> sg_ID ` set (signals d),
                              foreign_key_violation ''signal_contexts_signal_id_fkey''),
                           (asc_ContextID arg \<in> cx_ID ` set (contexts d),
                              foreign_key_violation ''signal_contexts_context_id_fkey'')] of
                          Some e \<Rightarrow> Inl e
                        | None \<Rightarrow> Inr ((), d\<lparr>signal_contexts := signal_contexts d @
                            [\<lparr>sx_SignalID = asc_SignalID arg, sx_ContextID = asc_ContextID arg,
                              sx_Confidence = round_3 q, sx_AssignedBy = asc_AssignedBy arg,
                              sx_CreatedAt = created\<rparr>]\<rparr>)))))"

definition ListActiveRoutingRules :: "uuid \<Rightarrow> RoutingRuleRow list query" where
  "ListActiveRoutingRules userID now d =
     Inr (SliceStable
       (\<lambda>a b. (rr_Priority a, uint (rr_ID a)) < (rr_Priority b, uint (rr_ID b)))
       (map fst (filter
         (\<lambda>(r, c). cx_ID c = rr_ContextID r \<and> cx_UserID c = userID \<and> rr_IsActive r
              \<and> \<not> cx_IsArchived c)
         (List.product (routing_rules d) (contexts d)))), d)"

text \<open>The confidence is cast to the nearest \<^verbatim>\<open>double precision\<close>; the server puts NaN above all others.\<close>

fun below_float8 :: "rat \<Rightarrow> float64 \<Rightarrow> bool" where
  "below_float8 q (Finite t) = (q < t)"
| "below_float8 q NegInf = False"
| "below_float8 q PosInf = True"
| "below_float8 q NaN = True"

definition ListLowConfidenceAssignments :: "float64 \<Rightarrow> SignalContext list query" where
  "ListLowConfidenceAssignments threshold now d =
     Inr (SliceStable (\<lambda>a b. sx_Confidence a < sx_Confidence b)
       (filter (\<lambda>r. sx_AssignedBy r = ''model'' \<and> below_float8 (to_float64 (sx_Confidence r)) threshold)
         (signal_contexts d)), d)"

section \<open>Signals\<close>

record GetSignalByExternalIDParams =
  gse_AccountID :: uuid
  gse_ExternalID :: string

definition GetSignalByExternalID :: "GetSignalByExternalIDParams \<Rightarrow> SignalRow query" where
  "GetSignalByExternalID arg now d =
     (case find (\<lambda>s. sg_AccountID s = gse_AccountID arg \<and> sg_ExternalID s = gse_ExternalID arg)
             (signals d) of
        None \<Rightarrow> Inl ErrNoRows | Some s \<Rightarrow> Inr (s, d))"

record IngestSignalParams =
  isp_ID :: uuid
  isp_AccountID :: uuid
  isp_ExternalID :: string
  isp_Kind :: string
  isp_Payload :: "byte list option"
  isp_ContentHash :: "string option"
  isp_OccurredAt :: "time option"
  isp_IngestedAt :: "time option"

text \<open>\<^verbatim>\<open>content_hash ~ '^[0-9a-f]{64}$'\<close>.\<close>

definition hash_format :: "string \<Rightarrow> bool" where
  "hash_format h \<longleftrightarrow> length h = 64 \<and> list_all (\<lambda>c. c \<in> set hex_digits) h"

text \<open>
  The kind and the document are read first, then the nulls and the check; a row with the same
  external identifier ends the statement with no row; then the primary key and the account.
\<close>

definition IngestSignal ::
  "(byte list \<Rightarrow> byte list option) \<Rightarrow> IngestSignalParams \<Rightarrow> SignalRow query" where
  "IngestSignal jsonb arg now d =
     (if \<not> enum_ok SignalKind_enum (isp_Kind arg) then Inl invalid_text_representation
      else if isp_Payload arg \<noteq> None \<and> jsonb (the (isp_Payload arg)) = None
      then Inl invalid_text_representation
      else case (isp_Payload arg, isp_OccurredAt arg, isp_IngestedAt arg) of
        (Some payload, Some occurred, Some ingested) \<Rightarrow>
          (if \<not> pred_option hash_format (isp_ContentHash arg)
           then Inl (check_violation ''signals_hash_format'')
           else if list_ex (\<lambda>s. sg_AccountID s = isp_AccountID arg \<and> sg_ExternalID s = isp_ExternalID arg)
                     (signals d)
           then Inl ErrNoRows
           else case checks
             [(isp_ID arg \<notin> sg_ID ` set (signals d), unique_violation ''signals_pkey''),
              (isp_AccountID arg \<in> ac_ID ` set (accounts d),
                 foreign_key_violation ''signals_account_id_fkey'')] of
             Some e \<Rightarrow> Inl e
           | None \<Rightarrow>
               (let s = \<lparr>sg_ID = isp_ID arg, sg_AccountID = isp_AccountID arg,
                     sg_ExternalID = isp_ExternalID arg, sg_ExternalThreadID = None,
                     sg_Kind = isp_Kind arg, sg_Direction = ''inbound'', sg_Subject = None,
                     sg_Snippet = None, sg_Payload = the (jsonb payload),
                     sg_ContentHash = isp_ContentHash arg, sg_OccurredAt = occurred,
                     sg_IngestedAt = ingested, sg_ProcessedAt = None, sg_ProcessingError = None\<rparr>
                in Inr (s, d\<lparr>signals := signals d @ [s]\<rparr>)))
      | _ \<Rightarrow> Inl (not_null_violation []))"

record ListContextTimelineParams =
  lct_ContextIds :: "uuid list"
  lct_Before :: "time option"
  lct_RowLimit :: int

record ListContextTimelineRow = SignalRow +
  tl_Confidence :: rat
  tl_AssignedBy :: string

definition timeline_row :: "SignalRow \<times> SignalContext \<Rightarrow> ListContextTimelineRow" where
  "timeline_row p = SignalRow.extend (fst p)
     (ListContextTimelineRow.fields (sx_Confidence (snd p)) (sx_AssignedBy (snd p)))"

text \<open>The join yields a row for each of the contexts a signal is filed in.\<close>

definition timeline_join :: "ListContextTimelineParams \<Rightarrow> db \<Rightarrow> (SignalRow \<times> SignalContext) list" where
  "timeline_join arg d =
     filter (\<lambda>(s, r). sx_SignalID r = sg_ID s \<and> sx_ContextID r \<in> set (lct_ContextIds arg)
               \<and> pred_option ((<) (sg_OccurredAt s)) (lct_Before arg) \<and> lct_Before arg \<noteq> None)
       (List.product (signals d) (signal_contexts d))"

definition ListContextTimeline :: "ListContextTimelineParams \<Rightarrow> ListContextTimelineRow list query" where
  "ListContextTimeline arg now d =
     (case limit_rows (lct_RowLimit arg)
        (SliceStable (\<lambda>a b. sg_OccurredAt a > sg_OccurredAt b) (map timeline_row (timeline_join arg d))) of
        Inl e \<Rightarrow> Inl e | Inr rows \<Rightarrow> Inr (rows, d))"

record ListUnroutedSignalsParams =
  lus_AccountIds :: "uuid list"
  lus_RowLimit :: int

definition ListUnroutedSignals :: "ListUnroutedSignalsParams \<Rightarrow> SignalRow list query" where
  "ListUnroutedSignals arg now d =
     (case limit_rows (lus_RowLimit arg)
        (SliceStable (\<lambda>a b. sg_IngestedAt a < sg_IngestedAt b)
          (filter (\<lambda>s. sg_ProcessedAt s = None \<and> sg_AccountID s \<in> set (lus_AccountIds arg)) (signals d))) of
        Inl e \<Rightarrow> Inl e | Inr rows \<Rightarrow> Inr (rows, d))"

record MarkSignalProcessedParams =
  msp_ID :: uuid
  msp_ProcessedAt :: "time option"

text \<open>The trigger \<^verbatim>\<open>signals_immutable\<close>, asked for every row an update writes.\<close>

definition signals_protect_payload :: "SignalRow \<Rightarrow> SignalRow \<Rightarrow> go_error option" where
  "signals_protect_payload old new =
     (if sg_Payload new \<noteq> sg_Payload old \<or> sg_ExternalID new \<noteq> sg_ExternalID old
         \<or> sg_OccurredAt new \<noteq> sg_OccurredAt old
      then Some (check_violation []) else None)"

definition MarkSignalProcessed :: "MarkSignalProcessedParams \<Rightarrow> unit query" where
  "MarkSignalProcessed arg now d =
     (let hit = (\<lambda>s. sg_ID s = msp_ID arg); put = (\<lambda>s. s\<lparr>sg_ProcessedAt := msp_ProcessedAt arg\<rparr>)
      in case List.map_filter (\<lambda>s. signals_protect_payload s (put s)) (filter hit (signals d)) of
           e # _ \<Rightarrow> Inl e
         | [] \<Rightarrow> Inr ((), d\<lparr>signals := update_where hit put (signals d)\<rparr>))"

section \<open>Tasks\<close>

record CreateTaskParams =
  ctp_ID :: uuid
  ctp_UserID :: uuid
  ctp_ParentTaskID :: "uuid option"
  ctp_Title :: string
  ctp_CommitmentID :: "uuid option"

text \<open>
  The row the statement asks for: a column it does not name takes its default, and \<^verbatim>\<open>context_id\<close>
  has none. The columns that may not be null are tested before anything else.
\<close>

definition task_values :: "CreateTaskParams \<Rightarrow> time \<Rightarrow> uuid option \<Rightarrow> go_error + TaskRow" where
  "task_values arg now contextID =
     (case contextID of
        None \<Rightarrow> Inl (not_null_violation [])
      | Some c \<Rightarrow> Inr \<lparr>tk_ID = ctp_ID arg, tk_UserID = ctp_UserID arg, tk_ContextID = c,
          tk_SourceSignalID = None, tk_ParentTaskID = ctp_ParentTaskID arg, tk_Title = ctp_Title arg,
          tk_Detail = None, tk_Status = ''open'', tk_Owner = ''me'', tk_Priority = 3, tk_DueAt = None,
          tk_EstimatedMinutes = None, tk_BlockedReason = None, tk_CreatedAt = now, tk_UpdatedAt = now,
          tk_CompletedAt = None, tk_CommitmentID = ctp_CommitmentID arg\<rparr>)"

definition CreateTask :: "CreateTaskParams \<Rightarrow> TaskRow query" where
  "CreateTask arg now d =
     (case task_values arg now None of
        Inl e \<Rightarrow> Inl e
      | Inr t \<Rightarrow> Inr (t, d\<lparr>tasks := tasks d @ [t]\<rparr>))"

definition GetTask :: "uuid \<Rightarrow> TaskRow query" where
  "GetTask i now d =
     (case find (\<lambda>t. tk_ID t = i) (tasks d) of None \<Rightarrow> Inl ErrNoRows | Some t \<Rightarrow> Inr (t, d))"

definition ListTasks :: "uuid \<Rightarrow> TaskRow list query" where
  "ListTasks userID now d =
     Inr (SliceStable
       (\<lambda>a b. (tk_CreatedAt a, tk_Priority a) > (tk_CreatedAt b, tk_Priority b))
       (filter (\<lambda>t. tk_UserID t = userID) (tasks d)), d)"

text \<open>The statement reads a column \<^verbatim>\<open>position\<close>, which the table does not have.\<close>

definition NextTaskPosition :: "uuid \<Rightarrow> int query" where
  "NextTaskPosition userID now d = Inl (PgError ''42703'' [])"

end
