(* ===== verification/Work_Safety.thy ===== *)
theory Work_Safety
  imports Store_Work Http_Safety
begin

text \<open>
  What the statements of \<open>Store_Work\<close> promise: the rows of signals are immutable but for the mark
  that they were processed, an item is ingested once, an assignment is an upsert in range, an
  account whose source failed is not read from again until it was synced, and the queries behind
  the timeline, the router and the worker list what they say.
\<close>

section \<open>Integrity\<close>

definition account_ok :: "AccountRow \<Rightarrow> bool" where
  "account_ok a \<longleftrightarrow> ac_Provider a = ''manual'' \<longrightarrow> ac_CredentialsEnc a = None"

definition signal_ok :: "db \<Rightarrow> SignalRow \<Rightarrow> bool" where
  "signal_ok d s \<longleftrightarrow> sg_AccountID s \<in> ac_ID ` set (accounts d)
     \<and> enum_ok SignalKind_enum (sg_Kind s) \<and> pred_option hash_format (sg_ContentHash s)"

definition assignment_ok :: "db \<Rightarrow> SignalContext \<Rightarrow> bool" where
  "assignment_ok d r \<longleftrightarrow> sx_SignalID r \<in> sg_ID ` set (signals d) \<and> sx_ContextID r \<in> cx_ID ` set (contexts d)
     \<and> enum_ok AssignmentSource_enum (sx_AssignedBy r) \<and> 0 \<le> sx_Confidence r \<and> sx_Confidence r \<le> 1"

abbreviation external_key :: "SignalRow \<Rightarrow> uuid \<times> string" where
  "external_key s \<equiv> (sg_AccountID s, sg_ExternalID s)"
abbreviation assignment_key :: "SignalContext \<Rightarrow> uuid \<times> uuid" where
  "assignment_key r \<equiv> (sx_SignalID r, sx_ContextID r)"

definition work_ok :: "db \<Rightarrow> bool" where
  "work_ok d \<longleftrightarrow> distinct (map ac_ID (accounts d)) \<and> list_all account_ok (accounts d)
     \<and> distinct (map sg_ID (signals d)) \<and> distinct (map external_key (signals d))
     \<and> list_all (signal_ok d) (signals d)
     \<and> distinct (map assignment_key (signal_contexts d))
     \<and> list_all (assignment_ok d) (signal_contexts d)"

text \<open>A signal without the one column that may change.\<close>

definition frozen :: "SignalRow \<Rightarrow> SignalRow" where
  "frozen s = s\<lparr>sg_ProcessedAt := None\<rparr>"

text \<open>The statements that write, and what else happens to the tables in between.\<close>

inductive work_step :: "(byte list \<Rightarrow> byte list option) \<Rightarrow> db \<Rightarrow> db \<Rightarrow> bool" for J where
  w_ingest: "IngestSignal J isp t d = Inr (s, d') \<Longrightarrow> work_step J d d'"
| w_processed: "MarkSignalProcessed msp t d = Inr (u, d') \<Longrightarrow> work_step J d d'"
| w_assign: "AssignSignalContext asc t d = Inr (u, d') \<Longrightarrow> work_step J d d'"
| w_failed: "MarkAccountFailed mp t d = Inr (u, d') \<Longrightarrow> work_step J d d'"
| w_reauth: "MarkAccountNeedsReauth mp t d = Inr (u, d') \<Longrightarrow> work_step J d d'"
| w_synced: "MarkAccountSynced J mas t d = Inr (u, d') \<Longrightarrow> work_step J d d'"

definition store_step :: "(byte list \<Rightarrow> byte list option) \<Rightarrow> env set \<Rightarrow> db \<Rightarrow> db \<Rightarrow> bool" where
  "store_step J Env d d' \<longleftrightarrow> work_step J d d' \<or> service_step Env d d'"

section \<open>Each statement keeps the integrity\<close>

named_theorems work_simps \<open>what the statements on work write\<close>

lemma round_3_mono: "p \<le> q \<Longrightarrow> 0 \<le> p \<Longrightarrow> round_3 p \<le> round_3 q"
  by (auto simp: round_3_def intro!: divide_right_mono floor_mono)

lemma update_accounts_Inr [work_simps]:
  "update_accounts i f t d = Inr (u, d') \<longleftrightarrow>
     (\<forall>a \<in> set (accounts d). ac_ID a = i \<longrightarrow> account_ok (f a))
     \<and> d' = d\<lparr>accounts := update_where (\<lambda>a. ac_ID a = i) (\<lambda>a. (f a)\<lparr>ac_UpdatedAt := t\<rparr>) (accounts d)\<rparr>"
proof -
  have "checks (concat (map (\<lambda>a. account_checks ((f a)\<lparr>ac_UpdatedAt := t\<rparr>))
      (filter (\<lambda>a. ac_ID a = i) (accounts d)))) = None
    \<longleftrightarrow> (\<forall>a \<in> set (accounts d). ac_ID a = i \<longrightarrow> account_ok (f a))"
    by (auto simp: checks_None_iff account_checks_def account_ok_def)
  then show ?thesis
    unfolding update_accounts_def Let_def by (auto split: option.splits)
qed

lemma AssignSignalContext_Inr [work_simps]:
  "AssignSignalContext arg t d = Inr (u, d') \<longleftrightarrow>
     (\<exists>q created. asc_Confidence arg = Numeric q \<and> asc_CreatedAt arg = Some created
        \<and> enum_ok AssignmentSource_enum (asc_AssignedBy arg) \<and> 0 \<le> round_3 q \<and> round_3 q \<le> 1
        \<and> (if (asc_SignalID arg, asc_ContextID arg) \<in> assignment_key ` set (signal_contexts d)
           then d' = d\<lparr>signal_contexts := update_where
               (\<lambda>r. assignment_key r = (asc_SignalID arg, asc_ContextID arg))
               (\<lambda>r. r\<lparr>sx_Confidence := round_3 q, sx_AssignedBy := asc_AssignedBy arg\<rparr>) (signal_contexts d)\<rparr>
           else asc_SignalID arg \<in> sg_ID ` set (signals d) \<and> asc_ContextID arg \<in> cx_ID ` set (contexts d)
             \<and> d' = d\<lparr>signal_contexts := signal_contexts d @
                 [\<lparr>sx_SignalID = asc_SignalID arg, sx_ContextID = asc_ContextID arg,
                   sx_Confidence = round_3 q, sx_AssignedBy = asc_AssignedBy arg, sx_CreatedAt = created\<rparr>]\<rparr>))"
proof -
  have mem: "list_ex (\<lambda>r. sx_SignalID r = i \<and> sx_ContextID r = c) rs \<longleftrightarrow> (i, c) \<in> assignment_key ` set rs"
    for i c rs by (force simp: list_ex_iff)
  show ?thesis
    unfolding AssignSignalContext_def Let_def mem
    by (cases "asc_Confidence arg"; cases "asc_CreatedAt arg")
      (simp_all add: not_less, (blast intro: sym)+)
qed

lemma IngestSignal_Inr [work_simps]:
  "IngestSignal J arg t d = Inr (s, d') \<longleftrightarrow>
     (\<exists>payload doc occurred ingested. isp_Payload arg = Some payload \<and> J payload = Some doc
        \<and> isp_OccurredAt arg = Some occurred \<and> isp_IngestedAt arg = Some ingested
        \<and> enum_ok SignalKind_enum (isp_Kind arg) \<and> pred_option hash_format (isp_ContentHash arg)
        \<and> (isp_AccountID arg, isp_ExternalID arg) \<notin> external_key ` set (signals d)
        \<and> isp_ID arg \<notin> sg_ID ` set (signals d) \<and> isp_AccountID arg \<in> ac_ID ` set (accounts d)
        \<and> s = \<lparr>sg_ID = isp_ID arg, sg_AccountID = isp_AccountID arg,
               sg_ExternalID = isp_ExternalID arg, sg_ExternalThreadID = None,
               sg_Kind = isp_Kind arg, sg_Direction = ''inbound'', sg_Subject = None,
               sg_Snippet = None, sg_Payload = doc, sg_ContentHash = isp_ContentHash arg,
               sg_OccurredAt = occurred, sg_IngestedAt = ingested, sg_ProcessedAt = None,
               sg_ProcessingError = None\<rparr>
        \<and> d' = d\<lparr>signals := signals d @ [s]\<rparr>)"
proof -
  have mem: "list_ex (\<lambda>s. sg_AccountID s = a \<and> sg_ExternalID s = x) ss \<longleftrightarrow> (a, x) \<in> external_key ` set ss"
    for a x ss by (force simp: list_ex_iff)
  show ?thesis
    unfolding IngestSignal_def Let_def mem
    by (cases "isp_Payload arg"; cases "isp_OccurredAt arg"; cases "isp_IngestedAt arg") auto
qed

lemma MarkSignalProcessed_Inr [work_simps]:
  "MarkSignalProcessed arg t d = Inr (u, d') \<longleftrightarrow>
     d' = d\<lparr>signals := update_where (\<lambda>s. sg_ID s = msp_ID arg)
       (\<lambda>s. s\<lparr>sg_ProcessedAt := msp_ProcessedAt arg\<rparr>) (signals d)\<rparr>"
  by (auto simp: MarkSignalProcessed_def signals_protect_payload_def List.map_filter_def)

lemmas account_marks [work_simps] =
  MarkAccountFailed_def MarkAccountNeedsReauth_def

lemma MarkAccountSynced_Inr [work_simps]:
  "MarkAccountSynced J arg t d = Inr (u, d') \<longleftrightarrow>
     (case mas_SyncCursor arg of
        None \<Rightarrow> d' = d \<and> mas_AccountID arg \<notin> ac_ID ` set (accounts d)
      | Some text \<Rightarrow>
          (\<exists>cursor. J text = Some cursor \<and>
             update_accounts (mas_AccountID arg)
               (\<lambda>a. a\<lparr>ac_Status := ''active'', ac_SyncCursor := cursor,
                      ac_LastSyncAt := mas_SyncedAt arg, ac_LastError := None\<rparr>) t d = Inr (u, d')))"
proof -
  have mem: "list_ex (\<lambda>a. ac_ID a = i) as \<longleftrightarrow> i \<in> ac_ID ` set as" for i as by (force simp: list_ex_iff)
  show ?thesis unfolding MarkAccountSynced_def mem by (auto split: option.split)
qed

text \<open>Integrity speaks of the identifiers in the other tables, so it is kept where they are.\<close>

lemma refs_mono:
  assumes "list_all (signal_ok d) ss" and "ac_ID ` set (accounts d) \<subseteq> ac_ID ` set (accounts d')"
  shows "list_all (signal_ok d') ss"
  using assms by (auto simp: list_all_iff signal_ok_def)

lemma assignment_refs_mono:
  assumes "list_all (assignment_ok d) rs" and "sg_ID ` set (signals d) \<subseteq> sg_ID ` set (signals d')"
    and "cx_ID ` set (contexts d) \<subseteq> cx_ID ` set (contexts d')"
  shows "list_all (assignment_ok d') rs"
  using assms by (auto simp: list_all_iff assignment_ok_def)

lemma work_okD:
  assumes "work_ok d"
  shows "list_all (signal_ok d) (signals d)" "list_all (assignment_ok d) (signal_contexts d)"
  using assms by (simp_all add: work_ok_def)

declare image_update_where [simp]

lemma list_all_update_where:
  "list_all P rows \<Longrightarrow> (\<And>r. r \<in> set rows \<Longrightarrow> P r \<Longrightarrow> p r \<Longrightarrow> P (f r)) \<Longrightarrow> list_all P (update_where p f rows)"
  by (auto simp: list_all_iff set_update_where)

lemma list_all_updated:
  "(\<And>r. P (if p r then f r else r)) \<Longrightarrow> list_all P (update_where p f rows)"
  unfolding list_all_iff set_update_where by blast

lemma update_accounts_ok:
  assumes "work_ok d" and "update_accounts i f t d = Inr (u, d')" and "\<And>a. ac_ID (f a) = ac_ID a"
  shows "work_ok d' \<and> signals d' = signals d"
proof -
  let ?as = "update_where (\<lambda>a. ac_ID a = i) (\<lambda>a. (f a)\<lparr>ac_UpdatedAt := t\<rparr>) (accounts d)"
  have d': "d' = d\<lparr>accounts := ?as\<rparr>" and ok: "\<forall>a \<in> set (accounts d). ac_ID a = i \<longrightarrow> account_ok (f a)"
    using assms(2) by (simp_all add: update_accounts_Inr)
  have ids: "map ac_ID ?as = map ac_ID (accounts d)" by (rule map_update_where) (simp add: assms(3))
  then have set_ids: "ac_ID ` set ?as = ac_ID ` set (accounts d)" by (metis set_map)
  have "list_all account_ok ?as"
    using assms(1) ok by (intro list_all_update_where) (auto simp: work_ok_def account_ok_def)
  moreover have "list_all (signal_ok d') (signals d)"
    by (rule refs_mono [OF work_okD(1) [OF assms(1)]]) (simp add: d' set_ids)
  moreover have "list_all (assignment_ok d') (signal_contexts d)"
    by (rule assignment_refs_mono [OF work_okD(2) [OF assms(1)]]) (simp_all add: d')
  ultimately show ?thesis using assms(1) ids by (simp add: d' work_ok_def)
qed

lemma IngestSignal_ok:
  assumes "work_ok d" and "IngestSignal J arg t d = Inr (s, d')"
  shows "work_ok d' \<and> signals d' = signals d @ [s]"
proof -
  have d': "d' = d\<lparr>signals := signals d @ [s]\<rparr>" and "external_key s \<notin> external_key ` set (signals d)"
    and "sg_ID s \<notin> sg_ID ` set (signals d)" and "signal_ok d s"
    using assms(2) by (auto simp: IngestSignal_Inr signal_ok_def)
  moreover have "list_all (signal_ok d') (signals d @ [s])"
    by (rule refs_mono [of d]) (use \<open>signal_ok d s\<close> work_okD(1) [OF assms(1)] in \<open>simp_all add: d'\<close>)
  moreover have "list_all (assignment_ok d') (signal_contexts d)"
    by (rule assignment_refs_mono [OF work_okD(2) [OF assms(1)]]) (auto simp: d')
  ultimately show ?thesis using assms(1) by (simp add: work_ok_def)
qed

lemma MarkSignalProcessed_ok:
  assumes "work_ok d" and "MarkSignalProcessed arg t d = Inr (u, d')"
  shows "work_ok d' \<and> map frozen (signals d') = map frozen (signals d)"
proof -
  have d': "d' = d\<lparr>signals := update_where (\<lambda>s. sg_ID s = msp_ID arg)
      (\<lambda>s. s\<lparr>sg_ProcessedAt := msp_ProcessedAt arg\<rparr>) (signals d)\<rparr>" (is "_ = d\<lparr>signals := ?ss\<rparr>")
    using assms(2) by (simp add: MarkSignalProcessed_Inr)
  have "list_all (signal_ok d') ?ss"
    by (intro list_all_update_where refs_mono [OF work_okD(1) [OF assms(1)]]) (simp_all add: d' signal_ok_def)
  moreover have "list_all (assignment_ok d') (signal_contexts d)"
    by (rule assignment_refs_mono [OF work_okD(2) [OF assms(1)]]) (simp_all add: d')
  ultimately show ?thesis using assms(1) by (simp add: d' work_ok_def frozen_def)
qed

lemma AssignSignalContext_ok:
  assumes "work_ok d" and "AssignSignalContext arg t d = Inr (u, d')"
  shows "work_ok d' \<and> signals d' = signals d"
proof -
  let ?key = "(asc_SignalID arg, asc_ContextID arg)"
  obtain q created where q: "enum_ok AssignmentSource_enum (asc_AssignedBy arg)" "0 \<le> round_3 q" "round_3 q \<le> 1"
    and d': "if ?key \<in> assignment_key ` set (signal_contexts d)
      then d' = d\<lparr>signal_contexts := update_where (\<lambda>r. assignment_key r = ?key)
          (\<lambda>r. r\<lparr>sx_Confidence := round_3 q, sx_AssignedBy := asc_AssignedBy arg\<rparr>) (signal_contexts d)\<rparr>
      else asc_SignalID arg \<in> sg_ID ` set (signals d) \<and> asc_ContextID arg \<in> cx_ID ` set (contexts d)
        \<and> d' = d\<lparr>signal_contexts := signal_contexts d @
            [\<lparr>sx_SignalID = asc_SignalID arg, sx_ContextID = asc_ContextID arg,
              sx_Confidence = round_3 q, sx_AssignedBy = asc_AssignedBy arg, sx_CreatedAt = created\<rparr>]\<rparr>"
    using assms(2) unfolding AssignSignalContext_Inr by blast
  let ?put = "\<lambda>r. r\<lparr>sx_Confidence := round_3 q, sx_AssignedBy := asc_AssignedBy arg\<rparr>"
  obtain rs where rs: "d' = d\<lparr>signal_contexts := rs\<rparr>"
    and "list_all (assignment_ok d) rs \<and> distinct (map assignment_key rs)"
  proof (cases "?key \<in> assignment_key ` set (signal_contexts d)")
    case True
    let ?upd = "update_where (\<lambda>r. assignment_key r = ?key) ?put (signal_contexts d)"
    show thesis
    proof (rule that)
      show "d' = d\<lparr>signal_contexts := ?upd\<rparr>" using True d' by simp
      have "map assignment_key ?upd = map assignment_key (signal_contexts d)" by (rule map_update_where) simp
      with assms(1) have "distinct (map assignment_key ?upd)" by (simp only: work_ok_def)
      moreover have "list_all (assignment_ok d) ?upd"
        using q by (intro list_all_update_where work_okD(2) [OF assms(1)]) (simp add: assignment_ok_def)
      ultimately show "list_all (assignment_ok d) ?upd \<and> distinct (map assignment_key ?upd)" by blast
    qed
  next
    case False
    let ?rs = "signal_contexts d @ [\<lparr>sx_SignalID = asc_SignalID arg, sx_ContextID = asc_ContextID arg,
      sx_Confidence = round_3 q, sx_AssignedBy = asc_AssignedBy arg, sx_CreatedAt = created\<rparr>]"
    show thesis
    proof (rule that)
      show "d' = d\<lparr>signal_contexts := ?rs\<rparr>" using False d' by simp
      show "list_all (assignment_ok d) ?rs \<and> distinct (map assignment_key ?rs)"
        using assms(1) q False d' by (simp add: work_ok_def assignment_ok_def)
    qed
  qed
  moreover from this have "list_all (assignment_ok d') rs"
    by (elim conjE assignment_refs_mono) (simp_all add: rs)
  moreover have "list_all (signal_ok d') (signals d)"
    by (rule refs_mono [OF work_okD(1) [OF assms(1)]]) (simp add: rs)
  ultimately show ?thesis using assms(1) by (simp add: rs work_ok_def)
qed

lemma work_step_ok:
  assumes "work_step J d d'" and "work_ok d"
  shows "work_ok d' \<and> (\<exists>new. map frozen (signals d') = map frozen (signals d) @ new)"
  using assms
proof (induction rule: work_step.induct)
  case (w_ingest isp t d s d')
  from IngestSignal_ok [OF w_ingest.prems w_ingest.hyps] show ?case by auto
next
  case (w_processed msp t d u d')
  from MarkSignalProcessed_ok [OF w_processed.prems w_processed.hyps] show ?case by simp
next
  case (w_assign asc t d u d')
  from AssignSignalContext_ok [OF w_assign.prems w_assign.hyps] show ?case by simp
next
  case (w_failed mp t d u d')
  from update_accounts_ok [OF w_failed.prems w_failed.hyps [unfolded MarkAccountFailed_def]] show ?case by simp
next
  case (w_reauth mp t d u d')
  from update_accounts_ok [OF w_reauth.prems w_reauth.hyps [unfolded MarkAccountNeedsReauth_def]]
  show ?case by simp
next
  case (w_synced mas t d u d')
  show ?case
  proof (cases "mas_SyncCursor mas")
    case None
    with w_synced show ?thesis by (simp add: MarkAccountSynced_Inr)
  next
    case (Some cur)
    with w_synced.hyps obtain cursor where "update_accounts (mas_AccountID mas)
        (\<lambda>a. a\<lparr>ac_Status := ''active'', ac_SyncCursor := cursor, ac_LastSyncAt := mas_SyncedAt mas,
              ac_LastError := None\<rparr>) t d = Inr (u, d')" by (auto simp: MarkAccountSynced_Inr)
    from update_accounts_ok [OF w_synced.prems this] show ?thesis by simp
  qed
qed

section \<open>What the services leave alone\<close>

definition work_tables :: "db \<Rightarrow>
    AccountRow list \<times> AccountContext list \<times> RoutingRuleRow list \<times> SignalRow list \<times> SignalContext list \<times> TaskRow list" where
  "work_tables d = (accounts d, account_contexts d, routing_rules d, signals d, signal_contexts d, tasks d)"

definition work_kept :: "db \<Rightarrow> db \<Rightarrow> bool" where
  "work_kept d0 d \<longleftrightarrow> work_tables d = work_tables d0 \<and> contexts d = contexts d0"

lemma work_kept_statements [keeps_intro]:
  "q_keeps (work_kept r) (CreateUser u)" "q_keeps (work_kept r) (CreateUserProfile cf cup)"
  "q_keeps (work_kept r) (CreateAuthProvider cap)" "q_keeps (work_kept r) (CreateAuthPassword cpw)"
  "q_keeps (work_kept r) (CreateAuthSession cas)" "q_keeps (work_kept r) (MarkProviderUsed mpu)"
  "q_keeps (work_kept r) (UpdatePasswordHash uph)" "q_keeps (work_kept r) (ClearFailedLogins i)"
  "q_keeps (work_kept r) (RecordFailedLogin rfl)" "q_keeps (work_kept r) (TouchAuthSession tas)"
  "q_keeps (work_kept r) (RevokeSessionByID rsi)" "q_keeps (work_kept r) (RevokeSessionByTokenHash rst)"
  "q_keeps (work_kept r) (DeleteAuthProvider dap)" "q_keeps (work_kept r) (SweepExpiredSessions swp)"
  by (rule q_keepsI, auto simp: work_kept_def work_tables_def sql_simps Let_def split: option.splits if_splits)+

lemma work_kept_auth_step: "auth_step Env d d' \<Longrightarrow> work_kept d d'"
  by (erule keeps_auth_step) (simp add: work_kept_def, (rule work_kept_statements)+)

text \<open>The service of contexts adds rows and never takes one away.\<close>

definition grows :: "db \<Rightarrow> db \<Rightarrow> bool" where
  "grows d d' \<longleftrightarrow> work_tables d' = work_tables d \<and> cx_ID ` set (contexts d) \<subseteq> cx_ID ` set (contexts d')"

lemma grows_refl: "grows d d" by (simp add: grows_def)

lemma grows_contexts_step: "contexts_step d d' \<Longrightarrow> grows d d'"
proof (induction rule: contexts_step.induct)
  case (step_Create w d E u p)
  have "ends (grows d) (Create E u p) w" unfolding step_Create [symmetric]
    by (rule Create_writes)
      (auto simp: CreateContext_def grows_def work_tables_def Let_def split: option.splits)
  then show ?case by (simp add: ends_def)
next
  case (step_Update w d E u i q)
  have "ends (grows d) (Update E u i q) w" unfolding step_Update [symmetric]
    by (rule Update_writes)
      (auto simp: UpdateContext_def grows_def work_tables_def updated_context_def Let_def split: option.splits)
  then show ?case by (simp add: ends_def)
next
  case (step_Archive w d E u i)
  have "ends (grows d) (Archive E u i) w" unfolding step_Archive [symmetric]
    by (rule Archive_writes)
      (auto simp: ArchiveContext_def grows_def work_tables_def Let_def split: option.splits)
  then show ?case by (simp add: ends_def)
qed

lemma service_step_work:
  assumes "service_step Env d d'" and "work_ok d"
  shows "work_ok d' \<and> signals d' = signals d"
proof -
  have "grows d d'"
    using assms(1) grows_contexts_step work_kept_auth_step [of Env d d']
    unfolding service_step_def work_kept_def grows_def by (elim disjE) simp_all
  then have same: "accounts d' = accounts d" "signals d' = signals d" "signal_contexts d' = signal_contexts d"
    and cx: "cx_ID ` set (contexts d) \<subseteq> cx_ID ` set (contexts d')"
    by (simp_all add: grows_def work_tables_def)
  have "list_all (signal_ok d') (signals d)"
    by (rule refs_mono [OF work_okD(1) [OF assms(2)]]) (simp add: same)
  moreover have "list_all (assignment_ok d') (signal_contexts d)"
    by (rule assignment_refs_mono [OF work_okD(2) [OF assms(2)]]) (simp_all add: same cx)
  ultimately show ?thesis using assms(2) by (simp add: work_ok_def same)
qed

lemma store_steps_work:
  "(store_step J Env)\<^sup>*\<^sup>* d d' \<Longrightarrow> work_ok d \<Longrightarrow>
     work_ok d' \<and> (\<exists>new. map frozen (signals d') = map frozen (signals d) @ new)"
proof (induction rule: rtranclp_induct)
  case (step d' d'')
  then obtain new where "work_ok d'" "map frozen (signals d') = map frozen (signals d) @ new" by blast
  with step.hyps show ?case
    using work_step_ok service_step_work by (fastforce simp: store_step_def)
qed simp

section \<open>Signals\<close>

text \<open>
  C15. Signals are immutable. Through any interleaving of the statements on work with calls of the
  services, no signal is lost, none is rewritten but for the mark that it was processed, and
  their order is the order of arrival; the keys, references and ranges of these tables hold
  throughout.
\<close>

theorem signals_are_immutable:
  assumes "work_ok d" and "(store_step J Env)\<^sup>*\<^sup>* d d'"
  shows "work_ok d' \<and> (\<exists>new. map frozen (signals d') = map frozen (signals d) @ new)"
  using store_steps_work [OF assms(2,1)] .

text \<open>
  C16. An item is ingested once. After a successful ingest, whatever happens next, another one for
  the same item, under any identifier, writes nothing: it answers that there is no row, which its
  comment (it \<^emph>\<open>returns the stored rows untouched\<close>) does not say; and the stored signal is found
  by its external identifier, unchanged.
\<close>

theorem item_ingested_once:
  assumes "work_ok d" and "IngestSignal J arg t d = Inr (s, d1)" and "(store_step J Env)\<^sup>*\<^sup>* d1 d2"
  shows "IngestSignal J (arg\<lparr>isp_ID := i\<rparr>) t2 d2 = Inl ErrNoRows
    \<and> (\<exists>stored. frozen stored = frozen s
         \<and> GetSignalByExternalID \<lparr>gse_AccountID = isp_AccountID arg, gse_ExternalID = isp_ExternalID arg\<rparr> t3 d2
           = Inr (stored, d2))"
proof -
  have "work_ok d1" and d1: "signals d1 = signals d @ [s]"
    and s: "external_key s = (isp_AccountID arg, isp_ExternalID arg)"
    using IngestSignal_ok [OF assms(1,2)] assms(2) by (auto simp: IngestSignal_Inr)
  then obtain new where ok: "work_ok d2" and new: "map frozen (signals d2) = map frozen (signals d1) @ new"
    using store_steps_work [OF assms(3)] by blast
  then have "frozen s \<in> frozen ` set (signals d2)" unfolding d1 set_map [symmetric] new by simp
  then obtain stored where st: "stored \<in> set (signals d2)" "frozen stored = frozen s" by auto
  from arg_cong [OF this(2), of external_key] have key: "external_key stored = (isp_AccountID arg, isp_ExternalID arg)"
    unfolding s [symmetric] by (simp add: frozen_def)
  then have "find (\<lambda>s. external_key s = external_key stored) (signals d2) = Some stored"
    using ok st(1) by (intro find_unique) (simp_all add: work_ok_def)
  with key have get: "GetSignalByExternalID \<lparr>gse_AccountID = isp_AccountID arg, gse_ExternalID = isp_ExternalID arg\<rparr> t3 d2
      = Inr (stored, d2)"
    by (simp add: GetSignalByExternalID_def)
  have "list_ex (\<lambda>s. sg_AccountID s = isp_AccountID arg \<and> sg_ExternalID s = isp_ExternalID arg) (signals d2)"
    using st(1) key by (auto simp: list_ex_iff)
  moreover obtain payload doc occurred ingested where "isp_Payload arg = Some payload" "J payload = Some doc"
      "isp_OccurredAt arg = Some occurred" "isp_IngestedAt arg = Some ingested"
      "enum_ok SignalKind_enum (isp_Kind arg)" "pred_option hash_format (isp_ContentHash arg)"
    using assms(2) unfolding IngestSignal_Inr by blast
  ultimately have "IngestSignal J (arg\<lparr>isp_ID := i\<rparr>) t2 d2 = Inl ErrNoRows"
    by (simp add: IngestSignal_def)
  with get st(2) show ?thesis by blast
qed

section \<open>Accounts\<close>

definition paused :: "uuid \<Rightarrow> db \<Rightarrow> bool" where
  "paused i d \<longleftrightarrow> list_all (\<lambda>a. ac_ID a = i \<longrightarrow> ac_Status a \<noteq> ''active'') (accounts d)"

text \<open>A step that is not a successful sync of the account.\<close>

definition quiet_step :: "uuid \<Rightarrow> (byte list \<Rightarrow> byte list option) \<Rightarrow> env set \<Rightarrow> db \<Rightarrow> db \<Rightarrow> bool" where
  "quiet_step i J Env d d' \<longleftrightarrow> store_step J Env d d'
     \<and> (\<forall>mas t. MarkAccountSynced J mas t d = Inr ((), d') \<longrightarrow> mas_AccountID mas \<noteq> i)"

lemma paused_update:
  "paused i d \<Longrightarrow> update_accounts k f t d = Inr (u, d') \<Longrightarrow> (\<And>a. ac_ID (f a) = ac_ID a) \<Longrightarrow>
     (k = i \<Longrightarrow> (\<And>a. ac_Status (f a) \<noteq> ''active'')) \<Longrightarrow> paused i d'"
  by (auto simp: update_accounts_Inr paused_def intro!: list_all_update_where)

lemma paused_marked:
  "update_accounts i f t d = Inr (u, d') \<Longrightarrow> (\<And>a. ac_ID (f a) = ac_ID a) \<Longrightarrow>
     (\<And>a. ac_Status (f a) \<noteq> ''active'') \<Longrightarrow> paused i d'"
  unfolding update_accounts_Inr paused_def by (elim conjE) (simp add: list_all_updated)

lemma accounts_kept:
  "IngestSignal J isp t d = Inr (s, d') \<Longrightarrow> accounts d' = accounts d"
  "MarkSignalProcessed msp t d = Inr (u, d') \<Longrightarrow> accounts d' = accounts d"
  "AssignSignalContext asc t d = Inr (u, d') \<Longrightarrow> accounts d' = accounts d"
proof -
  show "IngestSignal J isp t d = Inr (s, d') \<Longrightarrow> accounts d' = accounts d"
    by (auto simp: IngestSignal_Inr)
  show "MarkSignalProcessed msp t d = Inr (u, d') \<Longrightarrow> accounts d' = accounts d"
    by (simp add: MarkSignalProcessed_Inr)
  show "AssignSignalContext asc t d = Inr (u, d') \<Longrightarrow> accounts d' = accounts d"
    unfolding AssignSignalContext_Inr by (elim exE conjE) (simp split: if_splits)
qed

lemma paused_work_step:
  assumes "work_step J d d'" and "\<forall>mas t. MarkAccountSynced J mas t d = Inr ((), d') \<longrightarrow> mas_AccountID mas \<noteq> i"
    and "paused i d"
  shows "paused i d'"
  using assms
proof (induction rule: work_step.induct)
  case (w_ingest isp t d s d')
  then show ?case by (simp add: paused_def accounts_kept(1))
next
  case (w_processed msp t d u d')
  then show ?case by (simp add: paused_def accounts_kept(2))
next
  case (w_assign asc t d u d')
  then show ?case by (simp add: paused_def accounts_kept(3))
next
  case (w_failed mp t d u d')
  show ?case by (rule paused_update [OF w_failed.prems(2) w_failed.hyps [unfolded MarkAccountFailed_def]]) simp_all
next
  case (w_reauth mp t d u d')
  show ?case by (rule paused_update [OF w_reauth.prems(2) w_reauth.hyps [unfolded MarkAccountNeedsReauth_def]]) simp_all
next
  case (w_synced mas t d u d')
  then have other: "mas_AccountID mas \<noteq> i" by (metis (full_types) old.unit.exhaust)
  show ?case
  proof (cases "mas_SyncCursor mas")
    case None
    with w_synced show ?thesis by (simp add: MarkAccountSynced_Inr)
  next
    case (Some cur)
    with w_synced.hyps obtain cursor where "update_accounts (mas_AccountID mas)
        (\<lambda>a. a\<lparr>ac_Status := ''active'', ac_SyncCursor := cursor, ac_LastSyncAt := mas_SyncedAt mas,
              ac_LastError := None\<rparr>) t d = Inr (u, d')" by (auto simp: MarkAccountSynced_Inr)
    from paused_update [OF w_synced.prems(2) this] other show ?thesis by simp
  qed
qed

lemma paused_service_step:
  "service_step Env d d' \<Longrightarrow> paused i d \<Longrightarrow> paused i d'"
  using grows_contexts_step [of d d'] work_kept_auth_step [of Env d d']
  unfolding service_step_def work_kept_def grows_def paused_def work_tables_def by (elim disjE) simp_all

text \<open>
  C18. An account that failed, or whose access was withdrawn, is not read from again until a sync
  of it succeeds: whatever else happens, the worker's list of accounts that are due leaves it out.
\<close>

theorem failed_account_is_not_due:
  assumes "MarkAccountFailed arg t d = Inr ((), d1) \<or> MarkAccountNeedsReauth arg t d = Inr ((), d1)"
    and "(quiet_step (map_AccountID arg) J Env)\<^sup>*\<^sup>* d1 d2"
    and "ListAccountsDueForSync due t2 d2 = Inr (rows, d3)"
  shows "map_AccountID arg \<notin> ac_ID ` set rows \<and> d3 = d2"
proof -
  have "paused (map_AccountID arg) d1"
    using assms(1) unfolding MarkAccountFailed_def MarkAccountNeedsReauth_def
    by (elim disjE) (erule paused_marked; simp)+
  with assms(2) have "paused (map_AccountID arg) d2"
    by (induction rule: rtranclp_induct)
      (auto simp: quiet_step_def store_step_def intro: paused_work_step paused_service_step)
  with assms(3) show ?thesis
    by (auto simp: ListAccountsDueForSync_def limit_rows_def paused_def list_all_iff split: if_splits
        dest!: in_set_takeD)
qed

section \<open>Assignments\<close>

lemma round_3_near: "\<bar>round_3 q - q\<bar> \<le> 1 / 2000"
proof -
  have "\<bar>of_int \<lfloor>1000 * x + 1 / 2\<rfloor> / 1000 - x\<bar> \<le> 1 / 2000" for x :: rat
    using floor_correct [of "1000 * x + 1 / 2"] by (intro abs_leI) linarith+
  note near = this [THEN abs_le_D1] this [THEN abs_le_D2]
  show ?thesis
  proof (cases "q < 0")
    case True
    then have "round_3 q = - (of_int \<lfloor>1000 * (- q) + 1 / 2\<rfloor> / 1000)" by (simp add: round_3_def)
    with near [of "- q"] show ?thesis by (intro abs_leI) linarith+
  next
    case False
    then have "round_3 q = of_int \<lfloor>1000 * q + 1 / 2\<rfloor> / 1000" by (simp add: round_3_def)
    with near [of q] show ?thesis by (intro abs_leI) linarith+
  qed
qed

lemma filter_key_unique: "distinct (map key rows) \<Longrightarrow> r \<in> set rows \<Longrightarrow> filter (\<lambda>x. key x = key r) rows = [r]"
  by (induction rows) (auto simp: image_iff filter_empty_conv)

lemma update_the_one:
  assumes "distinct (map key rows)" and "old \<in> set rows" and "key old = k" and "\<And>r. key (f r) = key r"
  shows "filter (\<lambda>r. key r = k) (update_where (\<lambda>r. key r = k) f rows) = [f old]"
    and "filter (\<lambda>r. key r \<noteq> k) (update_where (\<lambda>r. key r = k) f rows) = filter (\<lambda>r. key r \<noteq> k) rows"
    and "x \<in> set rows \<Longrightarrow> key x = k \<Longrightarrow> x = old"
proof -
  show "filter (\<lambda>r. key r = k) (update_where (\<lambda>r. key r = k) f rows) = [f old]"
    using filter_key_unique [OF assms(1,2)] assms(3,4)
    by (simp add: filter_update_where [where q = "\<lambda>r. key r = k"])
  show "filter (\<lambda>r. key r \<noteq> k) (update_where (\<lambda>r. key r = k) f rows) = filter (\<lambda>r. key r \<noteq> k) rows"
    using assms(4) by (induction rows) auto
  show "x \<in> set rows \<Longrightarrow> key x = k \<Longrightarrow> x = old"
    using assms(1-3) by (auto simp: distinct_map inj_on_def)
qed

lemma upsertedI:
  assumes "asc_Confidence arg = Numeric q" and "0 \<le> round_3 q" and "round_3 q \<le> 1"
    and "assignment_key r = k" and "filter (\<lambda>r. assignment_key r = k) rows' = [r]"
    and "sx_Confidence r = round_3 q" and "sx_AssignedBy r = asc_AssignedBy arg"
    and "\<And>old. old \<in> set rows \<Longrightarrow> assignment_key old = k \<Longrightarrow> sx_CreatedAt r = sx_CreatedAt old"
    and "filter (\<lambda>x. assignment_key x \<noteq> k) rows' = filter (\<lambda>x. assignment_key x \<noteq> k) rows"
  shows "\<exists>r q. filter (\<lambda>r. assignment_key r = k) rows' = [r]
    \<and> asc_Confidence arg = Numeric q \<and> \<bar>sx_Confidence r - q\<bar> \<le> 1 / 2000
    \<and> 0 \<le> sx_Confidence r \<and> sx_Confidence r \<le> 1 \<and> sx_AssignedBy r = asc_AssignedBy arg
    \<and> (\<forall>old \<in> set rows. assignment_key old = assignment_key r \<longrightarrow> sx_CreatedAt r = sx_CreatedAt old)
    \<and> filter (\<lambda>x. assignment_key x \<noteq> assignment_key r) rows'
      = filter (\<lambda>x. assignment_key x \<noteq> assignment_key r) rows"
  using assms round_3_near [of q] by (intro exI [of _ r] exI [of _ q]) simp

text \<open>
  C17. Filing a signal in a context is an upsert. Afterwards there is exactly one assignment of the
  pair, with the source that was given and the confidence rounded to three digits, which is
  between 0 and 1 and within 0.0005 of the given one; every other assignment is as it was, and one
  that was there already keeps its date.
\<close>

theorem assignment_is_upserted:
  assumes "work_ok d" and "AssignSignalContext arg t d = Inr (u, d')"
  shows "\<exists>r q. filter (\<lambda>r. assignment_key r = (asc_SignalID arg, asc_ContextID arg)) (signal_contexts d') = [r]
    \<and> asc_Confidence arg = Numeric q \<and> \<bar>sx_Confidence r - q\<bar> \<le> 1 / 2000
    \<and> 0 \<le> sx_Confidence r \<and> sx_Confidence r \<le> 1 \<and> sx_AssignedBy r = asc_AssignedBy arg
    \<and> (\<forall>old \<in> set (signal_contexts d). assignment_key old = assignment_key r \<longrightarrow> sx_CreatedAt r = sx_CreatedAt old)
    \<and> filter (\<lambda>x. assignment_key x \<noteq> assignment_key r) (signal_contexts d')
      = filter (\<lambda>x. assignment_key x \<noteq> assignment_key r) (signal_contexts d)"
proof -
  let ?key = "(asc_SignalID arg, asc_ContextID arg)"
  obtain q created where q: "asc_Confidence arg = Numeric q" "0 \<le> round_3 q" "round_3 q \<le> 1"
    and d': "if ?key \<in> assignment_key ` set (signal_contexts d)
      then d' = d\<lparr>signal_contexts := update_where (\<lambda>r. assignment_key r = ?key)
          (\<lambda>r. r\<lparr>sx_Confidence := round_3 q, sx_AssignedBy := asc_AssignedBy arg\<rparr>) (signal_contexts d)\<rparr>
      else asc_SignalID arg \<in> sg_ID ` set (signals d) \<and> asc_ContextID arg \<in> cx_ID ` set (contexts d)
        \<and> d' = d\<lparr>signal_contexts := signal_contexts d @
            [\<lparr>sx_SignalID = asc_SignalID arg, sx_ContextID = asc_ContextID arg,
              sx_Confidence = round_3 q, sx_AssignedBy = asc_AssignedBy arg, sx_CreatedAt = created\<rparr>]\<rparr>"
    using assms(2) unfolding AssignSignalContext_Inr by blast
  have unique: "distinct (map assignment_key (signal_contexts d))" using assms(1) by (simp add: work_ok_def)
  show ?thesis
  proof (cases "?key \<in> assignment_key ` set (signal_contexts d)")
    case True
    then obtain old where old: "old \<in> set (signal_contexts d)" "assignment_key old = ?key" by auto
    let ?put = "\<lambda>r. r\<lparr>sx_Confidence := round_3 q, sx_AssignedBy := asc_AssignedBy arg\<rparr>"
    have "signal_contexts d' = update_where (\<lambda>r. assignment_key r = ?key) ?put (signal_contexts d)"
      using True d' by simp
    with update_the_one [OF unique old, of ?put] old(2) show ?thesis
      by (intro upsertedI [OF q, where r = "?put old"]) auto
  next
    case False
    have fresh: "\<not> (sx_SignalID x = asc_SignalID arg \<and> sx_ContextID x = asc_ContextID arg)"
      if "x \<in> set (signal_contexts d)" for x using False rev_image_eqI [OF that, of ?key assignment_key] by auto
    have "signal_contexts d' = signal_contexts d @ [\<lparr>sx_SignalID = asc_SignalID arg,
        sx_ContextID = asc_ContextID arg, sx_Confidence = round_3 q, sx_AssignedBy = asc_AssignedBy arg,
        sx_CreatedAt = created\<rparr>]" (is "_ = _ @ [?r]")
      using False d' by simp
    then show ?thesis using q round_3_near [of q] fresh
      by (intro exI [of _ ?r] exI [of _ q]) (auto simp: filter_empty_conv)
  qed
qed

end
