(* ===== verification/Work_Behaviour.thy ===== *)
theory Work_Behaviour
  imports Work_Safety
begin

text \<open>
  What the queries on work answer: the timeline of a set of contexts, the rules the router reads,
  the accounts and signals that wait. Then the statements that cannot succeed on this schema, and
  a small database on which the theorems of \<open>Work_Safety\<close> are applied.
\<close>

section \<open>Sorted and cut\<close>

text \<open>A sorted list that is cut keeps what sorts first, and everything when the cut is loose.\<close>

lemma take_sorted:
  fixes f :: "'r \<Rightarrow> 'k :: linorder"
  assumes "\<And>a b. lt a b \<longleftrightarrow> f a < f b" and "rows = take n (SliceStable lt xs)"
  shows "sorted (map f rows)" "length rows \<le> n" "set rows \<subseteq> set xs"
    and "length rows < n \<Longrightarrow> mset rows = mset xs"
    and "x \<in> set xs \<Longrightarrow> x \<notin> set rows \<Longrightarrow> r \<in> set rows \<Longrightarrow> f r \<le> f x"
proof -
  let ?s = "SliceStable lt xs"
  have sorted: "sorted (map f ?s)" by (rule slice.srt_by_key) (rule assms(1))
  then show "sorted (map f rows)" by (simp add: assms(2) take_map [symmetric] sorted_wrt_take)
  show "length rows \<le> n" by (simp add: assms(2))
  show "set rows \<subseteq> set xs" using set_take_subset [of n ?s] by (simp add: assms(2))
  show "mset rows = mset xs" if "length rows < n"
  proof -
    from that have "rows = ?s" by (simp add: assms(2) min_def split: if_splits)
    then show ?thesis by simp
  qed
  show "f r \<le> f x" if "x \<in> set xs" "x \<notin> set rows" "r \<in> set rows"
  proof -
    have "?s = take n ?s @ drop n ?s" by simp
    with that have "x \<in> set (drop n ?s)" by (metis Un_iff assms(2) set_append slice.set_srt)
    moreover have "sorted (map f (take n ?s) @ map f (drop n ?s))" using sorted by (simp flip: map_append)
    ultimately show ?thesis using that(3) by (auto simp: sorted_append assms(2))
  qed
qed

text \<open>
  C19. The timeline is scoped by construction: it lists signals filed in one of the contexts asked
  for, and none when no context is asked for, before the given instant, newest first, at most as
  many as asked for; what it leaves out is not newer than what it lists, and nothing is left out
  when the limit is not reached.
\<close>

theorem timeline_is_scoped:
  assumes "ListContextTimeline arg t d = Inr (rows, d')"
  shows "d' = d
    \<and> (\<forall>row \<in> set rows. \<exists>s \<in> set (signals d). \<exists>r \<in> set (signal_contexts d). row = timeline_row (s, r)
         \<and> sx_SignalID r = sg_ID s \<and> sx_ContextID r \<in> set (lct_ContextIds arg)
         \<and> (\<exists>b. lct_Before arg = Some b \<and> sg_OccurredAt s < b))
    \<and> sorted (map (\<lambda>row. - sg_OccurredAt row) rows) \<and> int (length rows) \<le> lct_RowLimit arg
    \<and> (int (length rows) < lct_RowLimit arg \<longrightarrow> mset rows = mset (map timeline_row (timeline_join arg d)))
    \<and> (\<forall>p \<in> set (timeline_join arg d). timeline_row p \<notin> set rows \<longrightarrow>
         (\<forall>row \<in> set rows. sg_OccurredAt (fst p) \<le> sg_OccurredAt row))"
proof -
  have n: "0 \<le> lct_RowLimit arg" and rows: "rows = take (nat (lct_RowLimit arg))
      (SliceStable (\<lambda>a b. sg_OccurredAt a > sg_OccurredAt b) (map timeline_row (timeline_join arg d)))"
    and "d' = d"
    using assms by (auto simp: ListContextTimeline_def limit_rows_def split: if_splits)
  note cut = take_sorted [where f = "\<lambda>row. - sg_OccurredAt row", OF _ rows]
  have occ: "sg_OccurredAt (timeline_row p) = sg_OccurredAt (fst p)" for p
    by (simp add: timeline_row_def SignalRow.defs)
  have "\<exists>p \<in> set (timeline_join arg d). row = timeline_row p" if "row \<in> set rows" for row
    using that cut(3) by auto
  then have "\<forall>row \<in> set rows. \<exists>s \<in> set (signals d). \<exists>r \<in> set (signal_contexts d). row = timeline_row (s, r)
      \<and> sx_SignalID r = sg_ID s \<and> sx_ContextID r \<in> set (lct_ContextIds arg)
      \<and> (\<exists>b. lct_Before arg = Some b \<and> sg_OccurredAt s < b)"
    by (fastforce simp: timeline_join_def)
  moreover have "sg_OccurredAt (fst p) \<le> sg_OccurredAt row"
    if "p \<in> set (timeline_join arg d)" "timeline_row p \<notin> set rows" "row \<in> set rows" for p row
    using cut(5) [of "timeline_row p" row] that by (simp add: occ)
  ultimately show ?thesis using cut(1,2,4) n \<open>d' = d\<close> by (auto simp: le_nat_iff zless_nat_eq_int_zless)
qed

section \<open>Rules for the router\<close>

text \<open>
  The router reads the active rules of the owner's live contexts, by priority and then by
  identifier, and no others.
\<close>

lemma active_rules:
  assumes "ListActiveRoutingRules u t d = Inr (rules, d')" and "distinct (map cx_ID (contexts d))"
  shows "d' = d \<and> sorted (map (\<lambda>r. (rr_Priority r, uint (rr_ID r))) rules)
    \<and> (r \<in> set rules \<longleftrightarrow> r \<in> set (routing_rules d) \<and> rr_IsActive r
        \<and> (\<exists>c \<in> set (contexts d). cx_ID c = rr_ContextID r \<and> cx_UserID c = u \<and> \<not> cx_IsArchived c))"
proof -
  let ?hits = "map fst (filter (\<lambda>(r, c). cx_ID c = rr_ContextID r \<and> cx_UserID c = u \<and> rr_IsActive r
      \<and> \<not> cx_IsArchived c) (List.product (routing_rules d) (contexts d)))"
  have rules: "rules = SliceStable (\<lambda>a b. (rr_Priority a, uint (rr_ID a)) < (rr_Priority b, uint (rr_ID b))) ?hits"
    and "d' = d" using assms(1) unfolding ListActiveRoutingRules_def by blast+
  moreover have "sorted (map (\<lambda>r. (rr_Priority r, uint (rr_ID r))) rules)"
    unfolding rules by (rule slice.srt_by_key) simp
  moreover have "set rules = set ?hits" unfolding rules by simp
  ultimately show ?thesis by (auto simp: image_iff)
qed

section \<open>Statements the schema refuses\<close>

text \<open>
  \<^verbatim>\<open>CreateTask\<close> does not name the context, which every task must have, and \<^verbatim>\<open>NextTaskPosition\<close> reads
  a column no migration adds: neither succeeds, whatever its arguments and whatever the tables.
\<close>

lemma task_statements_fail:
  "CreateTask arg t d = Inl (not_null_violation [])" "\<exists>e. NextTaskPosition u t d = Inl e"
  by (simp_all add: CreateTask_def task_values_def NextTaskPosition_def)

section \<open>A sample\<close>

definition mailbox :: AccountRow where
  "mailbox = \<lparr>ac_ID = 1, ac_UserID = 7, ac_Provider = ''gmail'', ac_Reliability = ''official'',
     ac_DisplayName = ''Mail'', ac_ExternalAccountID = None, ac_CredentialsEnc = None, ac_Scopes = [],
     ac_SyncCursor = [], ac_Status = ''active'', ac_LastSyncAt = None, ac_LastError = None,
     ac_CreatedAt = 0, ac_UpdatedAt = 0\<rparr>"

definition work_area :: ContextRow where
  "work_area = \<lparr>cx_ID = 5, cx_UserID = 7, cx_ParentID = None, cx_Slug = ''work'', cx_Name = ''Work'',
     cx_Color = None, cx_ActiveHours = [], cx_ToneProfile = None, cx_Position = 0, cx_IsArchived = False,
     cx_CreatedAt = 0, cx_UpdatedAt = 0\<rparr>"

definition one_mailbox :: db where
  "one_mailbox = empty_db\<lparr>contexts := [work_area], accounts := [mailbox]\<rparr>"

definition a_mail :: IngestSignalParams where
  "a_mail = \<lparr>isp_ID = 3, isp_AccountID = 1, isp_ExternalID = ''m-1'', isp_Kind = ''email'',
     isp_Payload = Some [], isp_ContentHash = None, isp_OccurredAt = Some 10, isp_IngestedAt = Some 20\<rparr>"

definition the_mail :: SignalRow where
  "the_mail = \<lparr>sg_ID = 3, sg_AccountID = 1, sg_ExternalID = ''m-1'', sg_ExternalThreadID = None,
     sg_Kind = ''email'', sg_Direction = ''inbound'', sg_Subject = None, sg_Snippet = None, sg_Payload = [],
     sg_ContentHash = None, sg_OccurredAt = 10, sg_IngestedAt = 20, sg_ProcessedAt = None,
     sg_ProcessingError = None\<rparr>"

definition one_mail :: db where
  "one_mail = one_mailbox\<lparr>signals := [the_mail]\<rparr>"

lemmas sample_work = one_mail_def one_mailbox_def a_mail_def the_mail_def mailbox_def work_area_def empty_db_def

lemma one_mailbox_ok: "work_ok one_mailbox"
  by (simp add: work_ok_def sample_work account_ok_def)

lemma mail_arrives: "IngestSignal Some a_mail 0 one_mailbox = Inr (the_mail, one_mail)"
  by (simp add: IngestSignal_def Let_def sample_work enum_ok_def SignalKind_enum_def)

lemma one_mail_ok: "work_ok one_mail"
  using IngestSignal_ok [OF one_mailbox_ok mail_arrives] by blast

theorem signals_are_immutable_witness:
  "work_ok (one_mail\<lparr>signals := [the_mail\<lparr>sg_ProcessedAt := Some 30\<rparr>]\<rparr>)"
proof -
  have "MarkSignalProcessed \<lparr>msp_ID = 3, msp_ProcessedAt = Some 30\<rparr> 0 one_mail
      = Inr ((), one_mail\<lparr>signals := [the_mail\<lparr>sg_ProcessedAt := Some 30\<rparr>]\<rparr>)"
    by (simp add: MarkSignalProcessed_Inr sample_work)
  then have "store_step Some {} one_mail (one_mail\<lparr>signals := [the_mail\<lparr>sg_ProcessedAt := Some 30\<rparr>]\<rparr>)"
    unfolding store_step_def by (intro disjI1 w_processed)
  from signals_are_immutable [OF one_mail_ok r_into_rtranclp, OF this] show ?thesis by blast
qed

theorem item_ingested_once_witness:
  "IngestSignal Some (a_mail\<lparr>isp_ID := 4\<rparr>) 0 one_mail = Inl ErrNoRows"
  by (rule item_ingested_once [OF one_mailbox_ok mail_arrives rtranclp.rtrancl_refl, THEN conjunct1])

theorem failed_account_is_not_due_witness:
  "ListAccountsDueForSync \<lparr>lad_UserID = 7, lad_RowLimit = 10\<rparr> 0
     (one_mailbox\<lparr>accounts := [mailbox\<lparr>ac_Status := ''error'', ac_LastError := None, ac_UpdatedAt := 9\<rparr>]\<rparr>)
   = Inr ([], one_mailbox\<lparr>accounts := [mailbox\<lparr>ac_Status := ''error'', ac_LastError := None, ac_UpdatedAt := 9\<rparr>]\<rparr>)"
proof -
  let ?d = "one_mailbox\<lparr>accounts := [mailbox\<lparr>ac_Status := ''error'', ac_LastError := None, ac_UpdatedAt := 9\<rparr>]\<rparr>"
  have "MarkAccountFailed \<lparr>map_Error = None, map_AccountID = 1\<rparr> 9 one_mailbox = Inr ((), ?d)"
    by (simp add: MarkAccountFailed_def update_accounts_Inr sample_work account_ok_def)
  moreover obtain rows d where list: "ListAccountsDueForSync \<lparr>lad_UserID = 7, lad_RowLimit = 10\<rparr> 0 ?d = Inr (rows, d)"
    by (simp add: ListAccountsDueForSync_def limit_rows_def)
  ultimately have "1 \<notin> ac_ID ` set rows \<and> d = ?d"
    using failed_account_is_not_due [OF disjI1 rtranclp.rtrancl_refl, of "\<lparr>map_Error = None, map_AccountID = 1\<rparr>" 9 one_mailbox ?d]
    by simp
  moreover have "set rows \<subseteq> {mailbox\<lparr>ac_Status := ''error'', ac_LastError := None, ac_UpdatedAt := 9\<rparr>}"
    using list by (auto simp: ListAccountsDueForSync_def limit_rows_def dest!: in_set_takeD)
  ultimately show ?thesis using list by (cases rows) (auto simp: mailbox_def)
qed

theorem assignment_is_upserted_witness:
  "\<exists>r. filter (\<lambda>r. assignment_key r = (3, 5)) (signal_contexts (one_mail\<lparr>signal_contexts :=
     [\<lparr>sx_SignalID = 3, sx_ContextID = 5, sx_Confidence = 1 / 2, sx_AssignedBy = ''model'', sx_CreatedAt = 40\<rparr>]\<rparr>)) = [r]"
proof -
  let ?arg = "\<lparr>asc_SignalID = 3, asc_ContextID = 5, asc_Confidence = Numeric (1 / 2), asc_AssignedBy = ''model'',
    asc_CreatedAt = Some 40\<rparr>"
  have "round_3 (1 / 2) = 1 / 2" by (simp add: round_3_def floor_eq_iff)
  then have "AssignSignalContext ?arg 0 one_mail = Inr ((), one_mail\<lparr>signal_contexts :=
     [\<lparr>sx_SignalID = 3, sx_ContextID = 5, sx_Confidence = 1 / 2, sx_AssignedBy = ''model'', sx_CreatedAt = 40\<rparr>]\<rparr>)"
    by (simp add: AssignSignalContext_def sample_work enum_ok_def AssignmentSource_enum_def)
  from assignment_is_upserted [OF one_mail_ok this] show ?thesis by fastforce
qed

theorem timeline_is_scoped_witness:
  "ListContextTimeline \<lparr>lct_ContextIds = [], lct_Before = Some 100, lct_RowLimit = 10\<rparr> 0 one_mail = Inr ([], one_mail)"
proof -
  obtain rows d where list: "ListContextTimeline \<lparr>lct_ContextIds = [], lct_Before = Some 100, lct_RowLimit = 10\<rparr> 0 one_mail
      = Inr (rows, d)" by (simp add: ListContextTimeline_def limit_rows_def)
  from timeline_is_scoped [OF this] have "d = one_mail" "\<forall>row \<in> set rows. False" by auto
  with list show ?thesis by simp
qed

end
