(* ===== verification/Store_Rows.thy ===== *)
theory Store_Rows
  imports Store_Models
begin

text \<open>
  The rows of the tables that no statement of \<^verbatim>\<open>internal/store\<close> touches yet, \<^verbatim>\<open>models.go\<close>: people, commitments,
  memory, the agent's runs with their actions, and reports. They are data only. A nullable column is an option;
  \<^verbatim>\<open>pgtype\<close> marks null in the value itself. An enumeration is its text, and the numbers of an embedding are
  rational.
\<close>

type_synonym Timestamptz = "time option"
type_synonym Numeric = "rat option"

record PersonRow =
  person_ID :: uuid
  person_UserID :: uuid
  person_DisplayName :: string
  person_PrimaryContextID :: "uuid option"
  person_Organisation :: "string option"
  person_Notes :: "string option"
  person_CreatedAt :: Timestamptz
  person_UpdatedAt :: Timestamptz

record IdentityRow =
  identity_ID :: uuid
  identity_UserID :: uuid
  identity_PersonID :: uuid
  identity_Provider :: string
  identity_Handle :: string
  identity_IsVerified :: bool
  identity_CreatedAt :: Timestamptz

record CommitmentRow =
  commitment_ID :: uuid
  commitment_UserID :: uuid
  commitment_ContextID :: uuid
  commitment_PersonID :: "uuid option"
  commitment_EvidenceSignalID :: "uuid option"
  commitment_Direction :: string
  commitment_What :: string
  commitment_Status :: string
  commitment_PromisedAt :: Timestamptz
  commitment_DueAt :: Timestamptz
  commitment_ResolvedAt :: Timestamptz
  commitment_IsConfirmed :: bool
  commitment_CreatedAt :: Timestamptz
  commitment_UpdatedAt :: Timestamptz

record CommitmentsLiveRow =
  commitmentsLive_ID :: uuid
  commitmentsLive_UserID :: uuid
  commitmentsLive_ContextID :: uuid
  commitmentsLive_PersonID :: "uuid option"
  commitmentsLive_EvidenceSignalID :: "uuid option"
  commitmentsLive_Direction :: string
  commitmentsLive_What :: string
  commitmentsLive_Status :: string
  commitmentsLive_PromisedAt :: Timestamptz
  commitmentsLive_DueAt :: Timestamptz
  commitmentsLive_ResolvedAt :: Timestamptz
  commitmentsLive_IsConfirmed :: bool
  commitmentsLive_CreatedAt :: Timestamptz
  commitmentsLive_UpdatedAt :: Timestamptz
  commitmentsLive_IsOverdue :: "bool option"
  commitmentsLive_DaysOverdue :: int

record MemoryNoteRow =
  memoryNote_ID :: uuid
  memoryNote_UserID :: uuid
  memoryNote_ContextID :: "uuid option"
  memoryNote_SubjectType :: string
  memoryNote_SubjectID :: "uuid option"
  memoryNote_Content :: string
  memoryNote_SourceSignalID :: "uuid option"
  memoryNote_Confidence :: Numeric
  memoryNote_Embedding :: "rat list option"
  memoryNote_IsPinned :: bool
  memoryNote_UseCount :: int
  memoryNote_LastUsedAt :: Timestamptz
  memoryNote_SupersededBy :: "uuid option"
  memoryNote_CreatedAt :: Timestamptz
  memoryNote_UpdatedAt :: Timestamptz

record EventRow =
  event_ID :: uuid
  event_UserID :: uuid
  event_ContextID :: uuid
  event_SourceSignalID :: "uuid option"
  event_PersonID :: "uuid option"
  event_ExternalCalendarID :: "string option"
  event_ExternalEventID :: "string option"
  event_Title :: string
  event_Description :: "string option"
  event_Location :: "string option"
  event_StartAt :: Timestamptz
  event_EndAt :: Timestamptz
  event_AllDay :: bool
  event_Status :: string
  event_CreatedAt :: Timestamptz
  event_UpdatedAt :: Timestamptz

record RunRow =
  run_ID :: uuid
  run_SessionID :: uuid
  run_ContextID :: uuid
  run_TaskID :: "uuid option"
  run_ActionTypeCode :: string
  run_PromptTemplateID :: "uuid option"
  run_AutonomyApplied :: string
  run_Model :: string
  run_Status :: string
  run_TokensIn :: int
  run_TokensOut :: int
  run_CostUsd :: Numeric
  run_StartedAt :: Timestamptz
  run_EndedAt :: Timestamptz
  run_Error :: "string option"
  run_CreatedAt :: Timestamptz

record RunStepRow =
  runStep_ID :: uuid
  runStep_RunID :: uuid
  runStep_StepNo :: int
  runStep_Tool :: string
  runStep_Input :: "byte list"
  runStep_Output :: "byte list"
  runStep_DurationMs :: "int option"
  runStep_CreatedAt :: Timestamptz

record ActionTypeRow =
  actionType_Code :: string
  actionType_Label :: string
  actionType_IsOutbound :: bool
  actionType_Risk :: string
  actionType_UpgradeThreshold :: int
  actionType_CreatedAt :: Timestamptz

record AutonomyRuleRow =
  autonomyRule_ID :: uuid
  autonomyRule_UserID :: uuid
  autonomyRule_ContextID :: uuid
  autonomyRule_ActionTypeCode :: string
  autonomyRule_Level :: string
  autonomyRule_PromotedAt :: Timestamptz
  autonomyRule_CreatedAt :: Timestamptz
  autonomyRule_UpdatedAt :: Timestamptz

record AutonomyStreakRow =
  autonomyStreak_AutonomyRuleID :: uuid
  autonomyStreak_ContextID :: uuid
  autonomyStreak_ActionTypeCode :: string
  autonomyStreak_Level :: string
  autonomyStreak_UpgradeThreshold :: int
  autonomyStreak_CleanStreak :: int
  autonomyStreak_UpgradeReady :: "bool option"

record AutonomyEvidenceRow =
  autonomyEvidence_ID :: uuid
  autonomyEvidence_AutonomyRuleID :: uuid
  autonomyEvidence_ProposedActionID :: uuid
  autonomyEvidence_Outcome :: string
  autonomyEvidence_CreatedAt :: Timestamptz

record ProposedActionRow =
  proposedAction_ID :: uuid
  proposedAction_RunID :: uuid
  proposedAction_ActionTypeCode :: string
  proposedAction_Payload :: "byte list"
  proposedAction_PayloadEdited :: "byte list"
  proposedAction_Status :: string
  proposedAction_ReviewNote :: "string option"
  proposedAction_ReviewedAt :: Timestamptz
  proposedAction_ExpiresAt :: Timestamptz
  proposedAction_CreatedAt :: Timestamptz

record ExecutionRow =
  execution_ID :: uuid
  execution_ProposedActionID :: uuid
  execution_Result :: string
  execution_ExternalRef :: "string option"
  execution_UndoToken :: "string option"
  execution_UndoneAt :: Timestamptz
  execution_Error :: "string option"
  execution_ExecutedAt :: Timestamptz

record AuditLogRow =
  auditLog_ID :: int
  auditLog_UserID :: "uuid option"
  auditLog_EntityType :: string
  auditLog_EntityID :: "uuid option"
  auditLog_Action :: string
  auditLog_Actor :: string
  auditLog_Diff :: "byte list"
  auditLog_CreatedAt :: Timestamptz

record ReminderRow =
  reminder_ID :: uuid
  reminder_UserID :: uuid
  reminder_TaskID :: "uuid option"
  reminder_EventID :: "uuid option"
  reminder_CommitmentID :: "uuid option"
  reminder_RemindAt :: Timestamptz
  reminder_Channel :: string
  reminder_Status :: string
  reminder_Body :: "string option"
  reminder_Attempts :: int
  reminder_SentAt :: Timestamptz
  reminder_LastError :: "string option"
  reminder_CreatedAt :: Timestamptz

record ReportRow =
  report_ID :: uuid
  report_UserID :: uuid
  report_SessionID :: "uuid option"
  report_Kind :: string
  report_PeriodStart :: Timestamptz
  report_PeriodEnd :: Timestamptz
  report_ContentMd :: string
  report_CreatedAt :: Timestamptz

record MetricRow =
  metric_ID :: uuid
  metric_UserID :: uuid
  metric_ContextID :: uuid
  metric_Metric :: string
  metric_Value :: Numeric
  metric_Unit :: string
  metric_Source :: string
  metric_Note :: "string option"
  metric_RecordedAt :: Timestamptz
  metric_CreatedAt :: Timestamptz

record PromptTemplateRow =
  promptTemplate_ID :: uuid
  promptTemplate_Name :: string
  promptTemplate_Version :: int
  promptTemplate_Body :: string
  promptTemplate_Variables :: "byte list"
  promptTemplate_Model :: string
  promptTemplate_MaxTokens :: int
  promptTemplate_IsActive :: bool
  promptTemplate_Notes :: "string option"
  promptTemplate_CreatedAt :: Timestamptz

record WorkSessionRow =
  workSession_ID :: uuid
  workSession_UserID :: uuid
  workSession_Label :: "string option"
  workSession_StartedAt :: Timestamptz
  workSession_EndedAt :: Timestamptz
  workSession_TokensIn :: int
  workSession_TokensOut :: int
  workSession_CostUsd :: Numeric
  workSession_TokenBudget :: "int option"
  workSession_CreatedAt :: Timestamptz

record WorkSessionContextRow =
  workSessionContext_SessionID :: uuid
  workSessionContext_ContextID :: uuid

end
