(* ===== verification/Config.thy ===== *)
theory Config
  imports Go_Strconv
begin

text \<open>
  \<^verbatim>\<open>internal/config/config.go\<close>: the settings of a process, read once from its environment by
  \<^verbatim>\<open>Load\<close>. The environment is a function from names to values, empty where a variable is not set,
  as \<^verbatim>\<open>os.Getenv\<close> answers. The theorems say that a failed load names every variable that is wrong
  and no other, in the order of the program, and what a successful one guarantees.
\<close>

section \<open>The settings\<close>

abbreviation EnvDevelopment :: string where "EnvDevelopment \<equiv> ''development''"
abbreviation EnvProduction :: string where "EnvProduction \<equiv> ''production''"
abbreviation LogJSON :: string where "LogJSON \<equiv> ''json''"
abbreviation LogConsole :: string where "LogConsole \<equiv> ''console''"

record API =
  api_Port :: int
  api_ShutdownTimeout :: nanoseconds

record Log =
  log_Level :: string
  log_Format :: string

text \<open>\<^verbatim>\<open>MaxConns\<close> is an \<^verbatim>\<open>int32\<close>.\<close>

record Postgres =
  pg_URL :: string
  pg_MaxConns :: "32 word"
  pg_MaxConnIdle :: nanoseconds
  pg_QueryTimeout :: nanoseconds

record Redis =
  redis_URL :: string
  redis_Concurrency :: int

record Claude =
  claude_APIKey :: string
  claude_RoutingModel :: string
  claude_ExtractionModel :: string
  claude_DraftingModel :: string

definition Claude_Enabled :: "Claude \<Rightarrow> bool" where
  "Claude_Enabled c \<longleftrightarrow> claude_APIKey c \<noteq> []"

record Google =
  google_ClientID :: string
  google_ClientSecret :: string
  google_RedirectURL :: string

definition Google_Configured :: "Google \<Rightarrow> bool" where
  "Google_Configured g \<longleftrightarrow> google_ClientID g \<noteq> [] \<and> google_ClientSecret g \<noteq> []"

record Config =
  cfg_Env :: string
  cfg_API :: API
  cfg_Log :: Log
  cfg_Postgres :: Postgres
  cfg_Redis :: Redis
  cfg_Claude :: Claude
  cfg_Google :: Google
  cfg_WebBaseURL :: string
  cfg_EncryptionKey :: "byte list"

section \<open>The loader\<close>

text \<open>
  One constructor per format \<^verbatim>\<open>fail\<close> is called with, holding the arguments. The loader is the list
  of these; a method answers a value and the longer list.
\<close>

datatype config_error =
    IsRequired string
  | NotAnInteger string string
  | NotADuration string string
  | NotOneOf string "string list" string
  | NotBase64 string
  | WrongLength string nat nat

type_synonym loader = "config_error list"

definition l_optional :: "unicode \<Rightarrow> (string \<Rightarrow> string) \<Rightarrow> string \<Rightarrow> string" where
  "l_optional U getenv key = TrimSpace U (getenv key)"

definition l_str :: "unicode \<Rightarrow> (string \<Rightarrow> string) \<Rightarrow> string \<Rightarrow> string \<Rightarrow> string" where
  "l_str U getenv key def = (let v = l_optional U getenv key in if v \<noteq> [] then v else def)"

definition l_required :: "unicode \<Rightarrow> (string \<Rightarrow> string) \<Rightarrow> string \<Rightarrow> loader \<Rightarrow> string \<times> loader" where
  "l_required U getenv key l =
     (let v = l_optional U getenv key in (v, if v = [] then l @ [IsRequired key] else l))"

definition l_intVal :: "unicode \<Rightarrow> (string \<Rightarrow> string) \<Rightarrow> string \<Rightarrow> int \<Rightarrow> loader \<Rightarrow> int \<times> loader" where
  "l_intVal U getenv key def l =
     (let raw = l_optional U getenv key
      in if raw = [] then (def, l)
         else case Atoi raw of
           None \<Rightarrow> (def, l @ [NotAnInteger key raw])
         | Some n \<Rightarrow> (n, l))"

definition l_duration ::
  "unicode \<Rightarrow> (string \<Rightarrow> string) \<Rightarrow> string \<Rightarrow> nanoseconds \<Rightarrow> loader \<Rightarrow> nanoseconds \<times> loader" where
  "l_duration U getenv key def l =
     (let raw = l_optional U getenv key
      in if raw = [] then (def, l)
         else case ParseDuration raw of
           None \<Rightarrow> (def, l @ [NotADuration key raw])
         | Some d \<Rightarrow> (d, l))"

definition l_oneOf ::
  "unicode \<Rightarrow> (string \<Rightarrow> string) \<Rightarrow> string \<Rightarrow> string \<Rightarrow> string list \<Rightarrow> loader \<Rightarrow> string \<times> loader" where
  "l_oneOf U getenv key def allowed l =
     (let v = l_str U getenv key def
      in if List.member allowed v then (v, l) else (def, l @ [NotOneOf key allowed v]))"

definition l_key ::
  "unicode \<Rightarrow> (string \<Rightarrow> string) \<Rightarrow> string \<Rightarrow> nat \<Rightarrow> loader \<Rightarrow> byte list \<times> loader" where
  "l_key U getenv name wantBytes l =
     (case l_required U getenv name l of (raw, l1) \<Rightarrow>
        if raw = [] then ([], l1)
        else case Std_DecodeString raw of
          None \<Rightarrow> ([], l1 @ [NotBase64 name])
        | Some b \<Rightarrow>
            (if length b \<noteq> wantBytes then ([], l1 @ [WrongLength name wantBytes (length b)]) else (b, l1)))"

definition defaultLogFormat :: "string \<Rightarrow> string" where
  "defaultLogFormat appEnv = (if appEnv = [] \<or> appEnv = EnvDevelopment then LogConsole else LogJSON)"

abbreviation seconds :: "int \<Rightarrow> nanoseconds" where "seconds n \<equiv> n * 1000000000"

text \<open>The calls in the order of the literal, which is the order they are evaluated in.\<close>

definition Load :: "unicode \<Rightarrow> (string \<Rightarrow> string) \<Rightarrow> config_error list + Config" where
  "Load U getenv =
     (let (env, l) = l_oneOf U getenv ''APP_ENV'' EnvDevelopment [EnvDevelopment, EnvProduction] [];
          (port, l) = l_intVal U getenv ''API_PORT'' 8080 l;
          (shutdown, l) = l_duration U getenv ''API_SHUTDOWN_TIMEOUT'' (seconds 20) l;
          (level, l) = l_oneOf U getenv ''LOG_LEVEL'' ''info'' [''debug'', ''info'', ''warn'', ''error''] l;
          (format, l) = l_oneOf U getenv ''LOG_FORMAT'' (defaultLogFormat (l_optional U getenv ''APP_ENV''))
            [LogJSON, LogConsole] l;
          (url, l) = l_required U getenv ''DATABASE_URL'' l;
          (conns, l) = l_intVal U getenv ''DATABASE_MAX_CONNS'' 10 l;
          (idle, l) = l_duration U getenv ''DATABASE_MAX_CONN_IDLE'' (seconds 300) l;
          (timeout, l) = l_duration U getenv ''DATABASE_QUERY_TIMEOUT'' (seconds 10) l;
          (redis, l) = l_required U getenv ''REDIS_URL'' l;
          (concurrency, l) = l_intVal U getenv ''WORKER_CONCURRENCY'' 8 l;
          (secret, l) = l_key U getenv ''CREDENTIALS_ENCRYPTION_KEY'' 32 l;
          cfg = \<lparr>cfg_Env = env,
            cfg_API = \<lparr>api_Port = port, api_ShutdownTimeout = shutdown\<rparr>,
            cfg_Log = \<lparr>log_Level = level, log_Format = format\<rparr>,
            cfg_Postgres = \<lparr>pg_URL = url, pg_MaxConns = word_of_int conns, pg_MaxConnIdle = idle,
              pg_QueryTimeout = timeout\<rparr>,
            cfg_Redis = \<lparr>redis_URL = redis, redis_Concurrency = concurrency\<rparr>,
            cfg_Claude = \<lparr>claude_APIKey = l_optional U getenv ''ANTHROPIC_API_KEY'',
              claude_RoutingModel = l_str U getenv ''MODEL_ROUTING'' ''claude-haiku-4-5'',
              claude_ExtractionModel = l_str U getenv ''MODEL_EXTRACTION'' ''claude-sonnet-5'',
              claude_DraftingModel = l_str U getenv ''MODEL_DRAFTING'' ''claude-opus-5''\<rparr>,
            cfg_Google = \<lparr>google_ClientID = l_optional U getenv ''GOOGLE_CLIENT_ID'',
              google_ClientSecret = l_optional U getenv ''GOOGLE_CLIENT_SECRET'',
              google_RedirectURL = l_str U getenv ''GOOGLE_REDIRECT_URL''
                ''http://localhost:8080/api/v1/oauth/google/callback''\<rparr>,
            cfg_WebBaseURL = l_str U getenv ''WEB_BASE_URL'' ''http://localhost:3000'',
            cfg_EncryptionKey = secret\<rparr>
      in if l \<noteq> [] then Inl l else Inr cfg)"

section \<open>Each variable on its own\<close>

text \<open>
  What each variable must be, and what is wrong with it. This reads one variable at a time, and
  knows nothing of a loader.
\<close>

datatype var_rule = Must | IsInt | IsDuration | Among string "string list" | Secret nat

definition complaint :: "unicode \<Rightarrow> (string \<Rightarrow> string) \<Rightarrow> string \<times> var_rule \<Rightarrow> config_error option" where
  "complaint U getenv p =
     (case p of (key, r) \<Rightarrow>
        let raw = l_optional U getenv key
        in case r of
             Must \<Rightarrow> if raw = [] then Some (IsRequired key) else None
           | IsInt \<Rightarrow> if raw = [] \<or> Atoi raw \<noteq> None then None else Some (NotAnInteger key raw)
           | IsDuration \<Rightarrow> if raw = [] \<or> ParseDuration raw \<noteq> None then None else Some (NotADuration key raw)
           | Among def allowed \<Rightarrow>
               let v = (if raw = [] then def else raw)
               in if v \<in> set allowed then None else Some (NotOneOf key allowed v)
           | Secret n \<Rightarrow>
               if raw = [] then Some (IsRequired key)
               else case Std_DecodeString raw of
                 None \<Rightarrow> Some (NotBase64 key)
               | Some b \<Rightarrow> if length b = n then None else Some (WrongLength key n (length b)))"

definition variables :: "(string \<times> var_rule) list" where
  "variables =
     [(''APP_ENV'', Among EnvDevelopment [EnvDevelopment, EnvProduction]),
      (''API_PORT'', IsInt), (''API_SHUTDOWN_TIMEOUT'', IsDuration),
      (''LOG_LEVEL'', Among ''info'' [''debug'', ''info'', ''warn'', ''error'']),
      (''LOG_FORMAT'', Among LogJSON [LogJSON, LogConsole]),
      (''DATABASE_URL'', Must), (''DATABASE_MAX_CONNS'', IsInt), (''DATABASE_MAX_CONN_IDLE'', IsDuration),
      (''DATABASE_QUERY_TIMEOUT'', IsDuration), (''REDIS_URL'', Must), (''WORKER_CONCURRENCY'', IsInt),
      (''CREDENTIALS_ENCRYPTION_KEY'', Secret 32)]"

definition complaints :: "unicode \<Rightarrow> (string \<Rightarrow> string) \<Rightarrow> config_error list" where
  "complaints U getenv = List.map_filter (complaint U getenv) variables"

named_theorems loads \<open>what a method of the loader adds to the list\<close>

definition told :: "config_error option \<Rightarrow> config_error list" where
  "told c = (case c of None \<Rightarrow> [] | Some e \<Rightarrow> [e])"

lemma told_simps [simp]: "told None = []" "told (Some e) = [e]"
  by (simp_all add: told_def)

lemma required_loads [loads]: "snd (l_required U g k l) = l @ told (complaint U g (k, Must))"
  by (simp add: l_required_def complaint_def Let_def)

lemma intVal_loads [loads]: "snd (l_intVal U g k d l) = l @ told (complaint U g (k, IsInt))"
  by (simp add: l_intVal_def complaint_def Let_def split: option.split)

lemma duration_loads [loads]: "snd (l_duration U g k d l) = l @ told (complaint U g (k, IsDuration))"
  by (simp add: l_duration_def complaint_def Let_def split: option.split)

lemma oneOf_loads [loads]: "snd (l_oneOf U g k d a l) = l @ told (complaint U g (k, Among d a))"
  by (simp add: l_oneOf_def l_str_def complaint_def Let_def)

lemma l_key_loads [loads]: "snd (l_key U g k n l) = l @ told (complaint U g (k, Secret n))"
  by (simp add: l_key_def l_required_def complaint_def Let_def split: option.split)

text \<open>A default that is allowed never draws a complaint, so it does not matter which one it is.\<close>

lemma complaint_default:
  "def \<in> set allowed \<Longrightarrow> def' \<in> set allowed \<Longrightarrow>
     complaint U g (k, Among def allowed) = complaint U g (k, Among def' allowed)"
  by (simp add: complaint_def Let_def)

lemma map_filter_told: "List.map_filter f (x # xs) = told (f x) @ List.map_filter f xs"
  by (simp add: List.map_filter_simps told_def split: option.split)

lemma split_loads: "(case m of (x, l) \<Rightarrow> h x l) = h (fst m) (snd m)"
  by (rule case_prod_beta)

text \<open>The value a method answers does not depend on the list.\<close>

definition int_value :: "unicode \<Rightarrow> (string \<Rightarrow> string) \<Rightarrow> string \<Rightarrow> int \<Rightarrow> int" where
  "int_value U getenv key def = (case Atoi (l_optional U getenv key) of None \<Rightarrow> def | Some n \<Rightarrow> n)"

definition duration_value :: "unicode \<Rightarrow> (string \<Rightarrow> string) \<Rightarrow> string \<Rightarrow> nanoseconds \<Rightarrow> nanoseconds" where
  "duration_value U getenv key def = (case ParseDuration (l_optional U getenv key) of None \<Rightarrow> def | Some d \<Rightarrow> d)"

definition choice_value :: "unicode \<Rightarrow> (string \<Rightarrow> string) \<Rightarrow> string \<Rightarrow> string \<Rightarrow> string list \<Rightarrow> string" where
  "choice_value U getenv key def allowed = (let v = l_str U getenv key def in if v \<in> set allowed then v else def)"

definition key_value :: "unicode \<Rightarrow> (string \<Rightarrow> string) \<Rightarrow> string \<Rightarrow> nat \<Rightarrow> byte list" where
  "key_value U getenv name n =
     (case Std_DecodeString (l_optional U getenv name) of
        Some b \<Rightarrow> if l_optional U getenv name \<noteq> [] \<and> length b = n then b else [] | None \<Rightarrow> [])"

lemma empty_reads [simp]: "Atoi [] = None" "ParseDuration [] = None"
  by (simp_all add: ParseInt_def ParseDuration_def)

lemma values_only:
  "fst (l_required U g k l) = l_optional U g k" "fst (l_intVal U g k i l) = int_value U g k i"
  "fst (l_duration U g k i l) = duration_value U g k i" "fst (l_oneOf U g k d a l) = choice_value U g k d a"
  "fst (l_key U g k n l) = key_value U g k n"
  by (simp_all add: l_required_def l_intVal_def l_duration_def l_oneOf_def l_key_def int_value_def
      duration_value_def choice_value_def key_value_def Let_def split: option.split)

text \<open>
  The settings by name: which variable each is read from, and its default. There is no loader in it.
\<close>

definition loaded :: "unicode \<Rightarrow> (string \<Rightarrow> string) \<Rightarrow> Config" where
  "loaded U getenv =
     \<lparr>cfg_Env = choice_value U getenv ''APP_ENV'' EnvDevelopment [EnvDevelopment, EnvProduction],
      cfg_API = \<lparr>api_Port = int_value U getenv ''API_PORT'' 8080,
        api_ShutdownTimeout = duration_value U getenv ''API_SHUTDOWN_TIMEOUT'' (seconds 20)\<rparr>,
      cfg_Log = \<lparr>log_Level = choice_value U getenv ''LOG_LEVEL'' ''info'' [''debug'', ''info'', ''warn'', ''error''],
        log_Format = choice_value U getenv ''LOG_FORMAT''
          (defaultLogFormat (l_optional U getenv ''APP_ENV'')) [LogJSON, LogConsole]\<rparr>,
      cfg_Postgres = \<lparr>pg_URL = l_optional U getenv ''DATABASE_URL'',
        pg_MaxConns = word_of_int (int_value U getenv ''DATABASE_MAX_CONNS'' 10),
        pg_MaxConnIdle = duration_value U getenv ''DATABASE_MAX_CONN_IDLE'' (seconds 300),
        pg_QueryTimeout = duration_value U getenv ''DATABASE_QUERY_TIMEOUT'' (seconds 10)\<rparr>,
      cfg_Redis = \<lparr>redis_URL = l_optional U getenv ''REDIS_URL'',
        redis_Concurrency = int_value U getenv ''WORKER_CONCURRENCY'' 8\<rparr>,
      cfg_Claude = \<lparr>claude_APIKey = l_optional U getenv ''ANTHROPIC_API_KEY'',
        claude_RoutingModel = l_str U getenv ''MODEL_ROUTING'' ''claude-haiku-4-5'',
        claude_ExtractionModel = l_str U getenv ''MODEL_EXTRACTION'' ''claude-sonnet-5'',
        claude_DraftingModel = l_str U getenv ''MODEL_DRAFTING'' ''claude-opus-5''\<rparr>,
      cfg_Google = \<lparr>google_ClientID = l_optional U getenv ''GOOGLE_CLIENT_ID'',
        google_ClientSecret = l_optional U getenv ''GOOGLE_CLIENT_SECRET'',
        google_RedirectURL = l_str U getenv ''GOOGLE_REDIRECT_URL'' ''http://localhost:8080/api/v1/oauth/google/callback''\<rparr>,
      cfg_WebBaseURL = l_str U getenv ''WEB_BASE_URL'' ''http://localhost:3000'',
      cfg_EncryptionKey = key_value U getenv ''CREDENTIALS_ENCRYPTION_KEY'' 32\<rparr>"

text \<open>The loader, as one equation over the rules and the values.\<close>

lemma Load_eq:
  "Load U getenv = (if complaints U getenv \<noteq> [] then Inl (complaints U getenv) else Inr (loaded U getenv))"
proof -
  have fmt: "complaint U getenv (''LOG_FORMAT'', Among (defaultLogFormat e) [LogJSON, LogConsole])
      = complaint U getenv (''LOG_FORMAT'', Among LogJSON [LogJSON, LogConsole])" for e
    by (rule complaint_default) (simp_all add: defaultLogFormat_def)
  have nil: "List.map_filter (complaint U getenv) [] = []" by (simp add: List.map_filter_simps)
  show ?thesis
    unfolding Load_def Let_def split_loads loads values_only complaints_def variables_def map_filter_told nil fmt
      loaded_def append_Nil append_Nil2 append_assoc ..
qed

text \<open>
  C33. A load succeeds exactly when no variable is wrong, each judged by its own rule alone; it then
  answers the settings that the variables say one by one, each with its default where the variable is not set. A load
  that fails reports every variable that is wrong and no other, in the order of the program.
\<close>

theorem Load_reports_every_problem:
  "Load U getenv =
     (case complaints U getenv of
        [] \<Rightarrow> Inr (loaded U getenv)
      | e # es \<Rightarrow> Inl (e # es))"
  by (simp add: Load_eq split: list.split)

lemma complaints_Nil: "complaints U getenv = [] \<longleftrightarrow> (\<forall>p \<in> set variables. complaint U getenv p = None)"
  by (auto simp: complaints_def List.map_filter_def filter_empty_conv)

lemma values_in_range:
  "- (2 ^ 63) \<le> def \<and> def < 2 ^ 63 \<Longrightarrow> - (2 ^ 63) \<le> int_value U g k def \<and> int_value U g k def < 2 ^ 63"
  "- (2 ^ 63) \<le> def \<and> def < 2 ^ 63 \<Longrightarrow> - (2 ^ 63) \<le> duration_value U g k def \<and> duration_value U g k def < 2 ^ 63"
  by (auto simp: int_value_def duration_value_def split: option.split dest: ParseInt_range ParseDuration_range)

lemma choice_in: "def \<in> set allowed \<Longrightarrow> choice_value U g k def allowed \<in> set allowed"
  by (simp add: choice_value_def Let_def)

lemma Load_Inr:
  assumes "Load U getenv = Inr cfg"
  shows "cfg = loaded U getenv" "\<And>p. p \<in> set variables \<Longrightarrow> complaint U getenv p = None"
  using assms complaints_Nil [of U getenv] by (simp_all add: Load_eq split: if_splits)

text \<open>
  What a process that started can rely on: the environment, the level and the format are among
  the known ones, the two addresses are there, the key has 32 bytes, and every number is a 64-bit
  one. The format nobody asked for is the console's exactly in development.
\<close>

theorem Load_guarantees:
  assumes "Load U getenv = Inr cfg"
  shows "cfg_Env cfg \<in> {EnvDevelopment, EnvProduction}
    \<and> log_Level (cfg_Log cfg) \<in> {''debug'', ''info'', ''warn'', ''error''}
    \<and> log_Format (cfg_Log cfg) \<in> {LogJSON, LogConsole}
    \<and> (l_optional U getenv ''LOG_FORMAT'' = [] \<longrightarrow>
         (log_Format (cfg_Log cfg) = LogConsole \<longleftrightarrow> cfg_Env cfg = EnvDevelopment))
    \<and> pg_URL (cfg_Postgres cfg) \<noteq> [] \<and> redis_URL (cfg_Redis cfg) \<noteq> []
    \<and> length (cfg_EncryptionKey cfg) = 32
    \<and> (\<forall>n \<in> {api_Port (cfg_API cfg), redis_Concurrency (cfg_Redis cfg), api_ShutdownTimeout (cfg_API cfg),
           pg_MaxConnIdle (cfg_Postgres cfg), pg_QueryTimeout (cfg_Postgres cfg)}. - (2 ^ 63) \<le> n \<and> n < 2 ^ 63)"
proof (intro conjI)
  note cfg = Load_Inr(1) [OF assms] and fine = Load_Inr(2) [OF assms]
  have env: "complaint U getenv (''APP_ENV'', Among EnvDevelopment [EnvDevelopment, EnvProduction]) = None"
    and must: "complaint U getenv (''DATABASE_URL'', Must) = None" "complaint U getenv (''REDIS_URL'', Must) = None"
    and key: "complaint U getenv (''CREDENTIALS_ENCRYPTION_KEY'', Secret 32) = None"
    by (intro fine; simp add: variables_def)+
  show "cfg_Env cfg \<in> {EnvDevelopment, EnvProduction}"
    using choice_in [of EnvDevelopment "[EnvDevelopment, EnvProduction]"] by (simp add: cfg loaded_def)
  show "log_Level (cfg_Log cfg) \<in> {''debug'', ''info'', ''warn'', ''error''}"
    using choice_in [of "''info''" "[''debug'', ''info'', ''warn'', ''error'']"] by (simp add: cfg loaded_def)
  show "log_Format (cfg_Log cfg) \<in> {LogJSON, LogConsole}"
    using choice_in [of "defaultLogFormat e" "[LogJSON, LogConsole]" for e]
    by (simp add: cfg loaded_def defaultLogFormat_def)
  show "l_optional U getenv ''LOG_FORMAT'' = [] \<longrightarrow>
      (log_Format (cfg_Log cfg) = LogConsole \<longleftrightarrow> cfg_Env cfg = EnvDevelopment)"
    using env by (auto simp: cfg loaded_def choice_value_def l_str_def complaint_def defaultLogFormat_def Let_def
        split: if_splits)
  show "pg_URL (cfg_Postgres cfg) \<noteq> []" "redis_URL (cfg_Redis cfg) \<noteq> []"
    using must by (simp_all add: cfg loaded_def complaint_def split: if_splits)
  show "length (cfg_EncryptionKey cfg) = 32"
    using key by (auto simp: cfg loaded_def complaint_def key_value_def Let_def split: if_splits option.splits)
  show "\<forall>n \<in> {api_Port (cfg_API cfg), redis_Concurrency (cfg_Redis cfg), api_ShutdownTimeout (cfg_API cfg),
      pg_MaxConnIdle (cfg_Postgres cfg), pg_QueryTimeout (cfg_Postgres cfg)}. - (2 ^ 63) \<le> n \<and> n < 2 ^ 63"
    unfolding cfg loaded_def by (simp only: Config.select_convs API.select_convs Postgres.select_convs
        Redis.select_convs ball_simps) (intro conjI TrueI values_in_range [THEN conjunct1] values_in_range [THEN conjunct2]; simp)
qed

text \<open>
  The limit on connections is taken modulo \<^verbatim>\<open>2^32\<close> without a complaint: the value is read as a
  64-bit integer and cut to an \<^verbatim>\<open>int32\<close>, so a limit that is too large becomes another one, which
  may be zero or negative.
\<close>

theorem max_conns_wraps:
  assumes "Load U getenv = Inr cfg" and "l_optional U getenv ''DATABASE_MAX_CONNS'' = Sprintf_d n" and "n < 2 ^ 63"
  shows "unat (pg_MaxConns (cfg_Postgres cfg)) = n mod 2 ^ 32"
proof -
  have "pg_MaxConns (cfg_Postgres cfg) = word_of_nat n"
    using assms(2,3) by (simp add: Load_Inr(1) [OF assms(1)] loaded_def int_value_def ParseInt_Sprintf_d)
  then show ?thesis by (simp add: unat_of_nat)
qed

section \<open>A sample\<close>

definition sample_getenv :: "string \<Rightarrow> string" where
  "sample_getenv = (\<lambda>_. [])(''DATABASE_URL'' := ''postgres://db'', ''REDIS_URL'' := ''redis://r'',
     ''CREDENTIALS_ENCRYPTION_KEY'' := ''AAAAAAAAAAAAAAAAAAAAAAAAAAAAAAAAAAAAAAAAAAA='',
     ''DATABASE_MAX_CONNS'' := ''4294967297'', ''API_SHUTDOWN_TIMEOUT'' := ''1m30s'')"

lemma sample_complaints: "complaints plain_unicode sample_getenv = []"
  by code_simp

lemma sample_Load: "Load plain_unicode sample_getenv = Inr (loaded plain_unicode sample_getenv)"
  by (simp add: Load_eq sample_complaints)

theorem Load_guarantees_witness:
  "length (cfg_EncryptionKey (loaded plain_unicode sample_getenv)) = 32"
  using Load_guarantees [OF sample_Load] by blast

theorem max_conns_wraps_witness: "unat (pg_MaxConns (cfg_Postgres (loaded plain_unicode sample_getenv))) = 1"
proof -
  have "l_optional plain_unicode sample_getenv ''DATABASE_MAX_CONNS'' = ''4294967297''" by code_simp
  moreover have "Sprintf_d 4294967297 = ''4294967297''" by (simp add: Sprintf_d.simps digit_char_def char_of_eq_iff)
  ultimately have "l_optional plain_unicode sample_getenv ''DATABASE_MAX_CONNS'' = Sprintf_d 4294967297" by simp
  from max_conns_wraps [OF sample_Load this] show ?thesis by simp
qed

end
