(* ===== verification/Process.thy ===== *)
theory Process
  imports Config Http_Server
begin

text \<open>
  The two processes around the services: the check of the schema version
  (\<^verbatim>\<open>internal/platform/postgres\<close>), the probes and the life of the HTTP server (\<^verbatim>\<open>httpapi/health.go\<close>,
  \<^verbatim>\<open>server.go\<close>, \<^verbatim>\<open>errors.go\<close>), how \<^verbatim>\<open>apps/api\<close> and \<^verbatim>\<open>apps/worker\<close> start, and the worker's job.

  Libraries are the record \<open>platform\<close>: what the pool, Redis and the clock of a probe answer. Waiting
  for one of several things is a value of \<open>wakeup\<close>: which of them happened.
\<close>

section \<open>The schema version\<close>

datatype schema_error =
    ReadDirFailed string
  | NotNamed string
  | NonNumeric string
  | NoMigrations
  | ReadApplied go_error

text \<open>\<^verbatim>\<open>path.Ext\<close> of a name without slashes: from the last dot.\<close>

definition path_Ext :: "string \<Rightarrow> string" where
  "path_Ext name =
     (if CHR ''.'' \<in> set name then CHR ''.'' # rev (takeWhile (\<lambda>c. c \<noteq> CHR ''.'') (rev name)) else [])"

definition parseVersion :: "string \<Rightarrow> schema_error + int" where
  "parseVersion name =
     (case Cut name CHR ''_'' of (pre, _, found) \<Rightarrow>
        if \<not> found then Inl (NotNamed name)
        else case ParseInt pre of None \<Rightarrow> Inl (NonNumeric name) | Some v \<Rightarrow> Inr v)"

record DirEntry =
  de_Name :: string
  de_IsDir :: bool

fun latest_loop :: "DirEntry list \<Rightarrow> int \<Rightarrow> schema_error + int" where
  "latest_loop [] latest = Inr latest"
| "latest_loop (e # es) latest =
     (if de_IsDir e \<or> path_Ext (de_Name e) \<noteq> ''.sql'' then latest_loop es latest
      else case parseVersion (de_Name e) of
        Inl err \<Rightarrow> Inl err
      | Inr version \<Rightarrow> latest_loop es (if version > latest then version else latest))"

definition latestEmbeddedVersion :: "string + DirEntry list \<Rightarrow> schema_error + int" where
  "latestEmbeddedVersion dir =
     (case dir of
        Inl e \<Rightarrow> Inl (ReadDirFailed e)
      | Inr entries \<Rightarrow>
          (case latest_loop entries 0 of
             Inl e \<Rightarrow> Inl e
           | Inr latest \<Rightarrow> if latest = 0 then Inl NoMigrations else Inr latest))"

record SchemaState =
  ss_Embedded :: int
  ss_Applied :: int

definition UpToDate :: "SchemaState \<Rightarrow> bool" where
  "UpToDate s \<longleftrightarrow> ss_Applied s \<ge> ss_Embedded s"

text \<open>
  The table of the migration tool, when it exists: versions and whether they are applied. A read
  of it fails on its own terms when the connection does.
\<close>

record pool =
  pl_ping :: "go_error option"
  pl_read :: "go_error option"
  pl_goose :: "(int \<times> bool) list option"

definition undefinedTable :: string where "undefinedTable = ''42P01''"

definition applied_version :: "pool \<Rightarrow> go_error + int" where
  "applied_version p =
     (case pl_read p of
        Some e \<Rightarrow> Inl e
      | None \<Rightarrow>
          (case pl_goose p of
             None \<Rightarrow> Inl (PgError undefinedTable [])
           | Some rows \<Rightarrow>
               (case map fst (filter snd rows) of [] \<Rightarrow> Inr 0 | v # vs \<Rightarrow> Inr (foldl max v vs))))"

definition CheckSchema :: "string + DirEntry list \<Rightarrow> pool \<Rightarrow> schema_error + SchemaState" where
  "CheckSchema dir p =
     (case latestEmbeddedVersion dir of
        Inl e \<Rightarrow> Inl e
      | Inr embedded \<Rightarrow>
          (case applied_version p of
             Inr applied \<Rightarrow> Inr \<lparr>ss_Embedded = embedded, ss_Applied = applied\<rparr>
           | Inl err \<Rightarrow>
               (case errors_As_PgError err of
                  Some (PgError code _) \<Rightarrow>
                    (if code = undefinedTable then Inr \<lparr>ss_Embedded = embedded, ss_Applied = 0\<rparr>
                     else Inl (ReadApplied err))
                | _ \<Rightarrow> Inl (ReadApplied err))))"

section \<open>Probes\<close>

record readinessResponse =
  rd_Status :: string
  rd_Database :: string
  rd_Schema :: string
  rd_Applied :: int
  rd_Expected :: int

definition live_probe :: "nat \<times> string" where
  "live_probe = (200, ''ok'')"

definition ready :: "string + DirEntry list \<Rightarrow> pool \<Rightarrow> nat \<times> readinessResponse" where
  "ready dir p =
     (let body = \<lparr>rd_Status = ''ok'', rd_Database = ''ok'', rd_Schema = ''ok'', rd_Applied = 0, rd_Expected = 0\<rparr>
      in if pl_ping p \<noteq> None
         then (503, body\<lparr>rd_Status := ''unavailable'', rd_Database := ''unreachable'', rd_Schema := ''unknown''\<rparr>)
         else case CheckSchema dir p of
           Inl err \<Rightarrow> (503, body\<lparr>rd_Status := ''unavailable'', rd_Schema := ''unknown''\<rparr>)
         | Inr state \<Rightarrow>
             (let body = body\<lparr>rd_Applied := ss_Applied state, rd_Expected := ss_Embedded state\<rparr>
              in if \<not> UpToDate state
                 then (503, body\<lparr>rd_Status := ''unavailable'', rd_Schema := ''pending migrations''\<rparr>)
                 else (200, body)))"

text \<open>
  \<^verbatim>\<open>errorHandler\<close> of the outer server: nothing when the response has begun, no body for \<^verbatim>\<open>HEAD\<close>.
\<close>

definition errorHandler ::
  "(api_error \<Rightarrow> string) \<Rightarrow> (nat \<Rightarrow> string) \<Rightarrow> api_error \<Rightarrow> bool \<Rightarrow> string \<Rightarrow> (nat \<times> (string \<times> string) option) option" where
  "errorHandler txt statusText err committed meth =
     (if committed then None
      else case translate txt statusText err of
        (status, code, message) \<Rightarrow> Some (status, if meth = ''HEAD'' then None else Some (code, message)))"

section \<open>The life of the server\<close>

text \<open>
  \<^verbatim>\<open>Start\<close> waits for the listener to end or for the context to be cancelled; in the second case it
  shuts the server down. \<^verbatim>\<open>http.ErrServerClosed\<close> from the listener counts as no error.
\<close>

abbreviation ErrServerClosed :: go_error where "ErrServerClosed \<equiv> LibError ''http: Server closed''"
abbreviation errListenerStopped :: go_error where
  "errListenerStopped \<equiv> LibError ''http listener stopped without being asked to''"

datatype wakeup = ListenerEnded "go_error option" | Cancelled "go_error option"

definition Start :: "wakeup \<Rightarrow> go_error option" where
  "Start ev =
     (case ev of
        ListenerEnded err \<Rightarrow>
          (let sent = (case err of Some e \<Rightarrow> if errors_Is e ErrServerClosed then None else Some e | None \<Rightarrow> None)
           in case sent of Some e \<Rightarrow> Some e | None \<Rightarrow> Some errListenerStopped)
      | Cancelled shutdown \<Rightarrow> map_option (Wrap ''shutdown'') shutdown)"

section \<open>Starting the processes\<close>

datatype start_error =
    BadConfig "config_error list"
  | Failed go_error
  | SchemaUnreadable schema_error
  | SchemaBehind int int

text \<open>
  What a start meets: the environment, the embedded migrations, the pool a URL leads to, Redis, the
  construction of the generated server, the registration of the schedule, and how it ends.
\<close>

record platform =
  pf_unicode :: unicode
  pf_getenv :: "string \<Rightarrow> string"
  pf_migrations :: "string + DirEntry list"
  pf_connect :: "Postgres \<Rightarrow> go_error + pool"
  pf_redis :: "string \<Rightarrow> go_error option"
  pf_server :: "Config \<Rightarrow> go_error option"
  pf_schedule :: "go_error option"
  pf_wakeup :: wakeup
  pf_worker :: "go_error option"

text \<open>The outcome: the error the process exits with, or none, and whether it ever served.\<close>

definition api_run :: "platform \<Rightarrow> start_error option \<times> bool" where
  "api_run P =
     (case Load (pf_unicode P) (pf_getenv P) of
        Inl errs \<Rightarrow> (Some (BadConfig errs), False)
      | Inr cfg \<Rightarrow>
          (case pf_connect P (cfg_Postgres cfg) of
             Inl e \<Rightarrow> (Some (Failed e), False)
           | Inr pool \<Rightarrow>
               (case pf_server P cfg of
                  Some e \<Rightarrow> (Some (Failed (Wrap ''build API server from the OpenAPI contract'' e)), False)
                | None \<Rightarrow> (map_option Failed (Start (pf_wakeup P)), True))))"

definition worker_run :: "platform \<Rightarrow> start_error option \<times> bool" where
  "worker_run P =
     (case Load (pf_unicode P) (pf_getenv P) of
        Inl errs \<Rightarrow> (Some (BadConfig errs), False)
      | Inr cfg \<Rightarrow>
          (case pf_connect P (cfg_Postgres cfg) of
             Inl e \<Rightarrow> (Some (Failed e), False)
           | Inr pool \<Rightarrow>
               (case CheckSchema (pf_migrations P) pool of
                  Inl e \<Rightarrow> (Some (SchemaUnreadable e), False)
                | Inr state \<Rightarrow>
                    if \<not> UpToDate state then (Some (SchemaBehind (ss_Applied state) (ss_Embedded state)), False)
                    else case pf_redis P (redis_URL (cfg_Redis cfg)) of
                      Some e \<Rightarrow> (Some (Failed (Wrap ''parse REDIS_URL'' e)), False)
                    | None \<Rightarrow>
                        (case pf_schedule P of
                           Some e \<Rightarrow> (Some (Failed (Wrap ''schedule session sweep'' e)), False)
                         | None \<Rightarrow> (map_option (\<lambda>e. Failed (Wrap ''run'' e)) (pf_worker P), True)))))"

section \<open>The worker's job\<close>

abbreviation TypeSweepSessions :: string where "TypeSweepSessions \<equiv> ''auth:sweep_sessions''"
abbreviation QueueInteractive :: string where "QueueInteractive \<equiv> ''interactive''"
abbreviation QueueDefault :: string where "QueueDefault \<equiv> ''default''"
abbreviation QueueBackfill :: string where "QueueBackfill \<equiv> ''backfill''"

definition Weights :: "string \<rightharpoonup> int" where
  "Weights = [QueueInteractive \<mapsto> 6, QueueDefault \<mapsto> 3, QueueBackfill \<mapsto> 1]"

definition sessionGrace :: duration where "sessionGrace = 7 * 24 * Hour"

text \<open>The handler: an error is returned, so the queue runs the task again.\<close>

definition SweepSessions :: "env \<Rightarrow> time \<Rightarrow> world \<Rightarrow> go_error option \<times> world" where
  "SweepSessions E now w =
     (case SweepExpired E now sessionGrace w of
        (Inl err, w1) \<Rightarrow> (Some err, w1)
      | (Inr removed, w1) \<Rightarrow> (None, w1))"

record Task =
  task_Type :: string
  task_Payload :: string

text \<open>\<^verbatim>\<open>json.Marshal\<close> of a structure without fields.\<close>

definition NewSweepSessions :: Task where
  "NewSweepSessions = \<lparr>task_Type = TypeSweepSessions, task_Payload = ''{}''\<rparr>"

record schedule =
  sch_Cron :: string
  sch_Task :: Task
  sch_Queue :: string
  sch_MaxRetry :: int

definition registerSchedule :: schedule where
  "registerSchedule = \<lparr>sch_Cron = ''17 0 * * *'', sch_Task = NewSweepSessions, sch_Queue = QueueBackfill,
     sch_MaxRetry = 3\<rparr>"

text \<open>The one type of task with a handler; the others stay in their queue.\<close>

definition registerHandlers :: "string \<Rightarrow> (env \<Rightarrow> time \<Rightarrow> world \<Rightarrow> go_error option \<times> world) option" where
  "registerHandlers typ = (if typ = TypeSweepSessions then Some SweepSessions else None)"

section \<open>Log levels\<close>

datatype level = LevelDebug | LevelInfo | LevelWarn | LevelError

definition parseLevel :: "unicode \<Rightarrow> string \<Rightarrow> level" where
  "parseLevel U lvl =
     (let l = ToLower U lvl
      in if l = ''debug'' then LevelDebug else if l = ''warn'' then LevelWarn
         else if l = ''error'' then LevelError else LevelInfo)"

section \<open>The address Google returns to\<close>

abbreviation googleCallbackPath :: string where "googleCallbackPath \<equiv> ''/api/v1/auth/google/callback''"

datatype redirect_warning = InvalidURL | WrongPath string | WrongOrigin string string

text \<open>The warnings logged at start.\<close>

definition warnIfRedirectMismatched ::
  "(string \<Rightarrow> string \<Rightarrow> string option) \<Rightarrow> string \<Rightarrow> string \<Rightarrow> redirect_warning list" where
  "warnIfRedirectMismatched parseHost redirectURL webBaseURL =
     (if redirectURL = [] then []
      else case url_Parse parseHost redirectURL of
        None \<Rightarrow> [InvalidURL]
      | Some u \<Rightarrow>
          (if u_Path u \<noteq> googleCallbackPath then [WrongPath (u_Path u)] else []) @
          (case url_Parse parseHost webBaseURL of
             None \<Rightarrow> []
           | Some web \<Rightarrow>
               if u_Host web = [] then []
               else if u_Host u \<noteq> u_Host web
               then [WrongOrigin (u_Scheme u @ ''://'' @ u_Host u) (u_Scheme web @ ''://'' @ u_Host web)]
               else []))"

end
