(* ===== verification/Process_Safety.thy ===== *)
theory Process_Safety
  imports Process Http_Safety
begin

text \<open>
  What the two processes promise: the version a binary expects is the highest of its migrations,
  a probe answers 200 exactly on a database that has them all, no process works on a schema it is
  ahead of, a server that stops unasked never reports success, and the sweep may be run again
  after any failure.
\<close>

section \<open>The version a binary expects\<close>

definition migration :: "DirEntry \<Rightarrow> bool" where
  "migration e \<longleftrightarrow> \<not> de_IsDir e \<and> path_Ext (de_Name e) = ''.sql''"

definition has_version :: "DirEntry \<Rightarrow> int \<Rightarrow> bool" where
  "has_version e v \<longleftrightarrow> parseVersion (de_Name e) = Inr v"

lemma latest_loop_Inr:
  "latest_loop es l = Inr v \<Longrightarrow>
     (\<forall>e \<in> set es. migration e \<longrightarrow> (\<exists>n \<le> v. has_version e n))
     \<and> l \<le> v \<and> (v = l \<or> (\<exists>e \<in> set es. migration e \<and> has_version e v))"
proof (induction es l rule: latest_loop.induct)
  case (2 e es latest)
  show ?case
  proof (cases "migration e")
    case False
    with 2 show ?thesis by (auto simp: migration_def)
  next
    case True
    with 2(3) obtain n where n: "parseVersion (de_Name e) = Inr n"
      and rest: "latest_loop es (if n > latest then n else latest) = Inr v"
      by (auto simp: migration_def split: sum.splits)
    from 2(2) [OF _ n rest] True have "(\<forall>e \<in> set es. migration e \<longrightarrow> (\<exists>n \<le> v. has_version e n))"
      "(if n > latest then n else latest) \<le> v"
      "v = (if n > latest then n else latest) \<or> (\<exists>e \<in> set es. migration e \<and> has_version e v)"
      by (auto simp: migration_def)
    with True n show ?thesis by (auto simp: has_version_def split: if_splits)
  qed
qed simp

lemma latest_loop_total:
  "(\<forall>e \<in> set es. migration e \<longrightarrow> (\<exists>n. has_version e n)) \<Longrightarrow> \<exists>v. latest_loop es l = Inr v"
  by (induction es l rule: latest_loop.induct) (auto simp: migration_def has_version_def)

lemma latest_Inr:
  assumes "latestEmbeddedVersion (Inr entries) = Inr v"
  shows "\<forall>e \<in> set entries. migration e \<longrightarrow> (\<exists>n \<le> v. has_version e n)"
    and "\<exists>e \<in> set entries. migration e \<and> has_version e v" and "0 < v"
  using assms latest_loop_Inr [of entries 0]
  by (auto simp: latestEmbeddedVersion_def split: sum.splits if_splits)

section \<open>The probe\<close>

text \<open>Every migration that is embedded has a number, there is one, and one at least as high is applied.\<close>

definition all_applied :: "DirEntry list \<Rightarrow> (int \<times> bool) list \<Rightarrow> bool" where
  "all_applied entries rows \<longleftrightarrow>
     (\<exists>e \<in> set entries. migration e \<and> (\<exists>v > 0. has_version e v))
     \<and> (\<forall>e \<in> set entries. migration e \<longrightarrow> (\<exists>n. has_version e n))
     \<and> (\<forall>e \<in> set entries. \<forall>n. migration e \<and> has_version e n \<and> 0 < n \<longrightarrow> (\<exists>v \<ge> n. (v, True) \<in> set rows))"

text \<open>The version read from the table is the highest that is applied, or zero.\<close>

lemma applied_version_Inr:
  assumes "applied_version p = Inr a" and "0 < n"
  shows "n \<le> a \<longleftrightarrow> (\<exists>v \<ge> n. (v, True) \<in> set (the (pl_goose p)))"
proof -
  obtain rows where rows: "pl_goose p = Some rows"
    and a: "a = (case map fst (filter snd rows) of [] \<Rightarrow> 0 | v # vs \<Rightarrow> foldl max v vs)"
    using assms(1) by (auto simp: applied_version_def split: option.splits list.splits)
  have mem: "v \<in> set (map fst (filter snd rows)) \<longleftrightarrow> (v, True) \<in> set rows" for v by force
  show ?thesis
  proof (cases "map fst (filter snd rows)")
    case Nil
    then have "(v, True) \<notin> set rows" for v using mem [of v] by simp
    with Nil assms(2) show ?thesis by (simp add: rows a)
  next
    case (Cons v vs)
    then have "x \<in> insert v (set vs) \<longleftrightarrow> (x, True) \<in> set rows" for x using mem [of x] by simp
    moreover have "x \<in> insert v (set vs) \<Longrightarrow> x \<le> foldl max v vs" for x
      using foldl_max_upper by auto
    ultimately show ?thesis using foldl_max_in [of v vs] by (auto simp: rows a Cons intro: order_trans)
  qed
qed

lemma all_applied_iff:
  assumes "latestEmbeddedVersion (Inr entries) = Inr v"
  shows "all_applied entries rows \<longleftrightarrow> (\<exists>u \<ge> v. (u, True) \<in> set rows)"
proof
  note v = latest_Inr [OF assms]
  assume "all_applied entries rows"
  with v(2,3) show "\<exists>u \<ge> v. (u, True) \<in> set rows" unfolding all_applied_def by blast
next
  note v = latest_Inr [OF assms]
  assume up: "\<exists>u \<ge> v. (u, True) \<in> set rows"
  have "n \<le> v" if "e \<in> set entries" "migration e" "has_version e n" for e n
    using v(1) that by (auto simp: has_version_def)
  with up v show "all_applied entries rows" unfolding all_applied_def by (meson order_trans)
qed

lemma all_applied_latest:
  assumes "all_applied entries rows"
  shows "\<exists>v. latestEmbeddedVersion (Inr entries) = Inr v"
proof -
  from assms obtain v where v: "latest_loop entries 0 = Inr v"
    using latest_loop_total [of entries 0] by (auto simp: all_applied_def)
  from assms obtain e n where "e \<in> set entries" "migration e" "0 < n" "has_version e n" by (auto simp: all_applied_def)
  with latest_loop_Inr [OF v] have "v \<noteq> 0" by (auto simp: has_version_def)
  with v show ?thesis by (simp add: latestEmbeddedVersion_def)
qed

lemma schema_is_current:
  assumes "latestEmbeddedVersion (Inr entries) = Inr v"
  shows "(\<exists>st. CheckSchema (Inr entries) p = Inr st \<and> UpToDate st)
    \<longleftrightarrow> pl_read p = None \<and> (\<exists>rows. pl_goose p = Some rows \<and> all_applied entries rows)"
proof (cases "applied_version p")
  case (Inl err)
  then have "\<not> (\<exists>st. CheckSchema (Inr entries) p = Inr st \<and> UpToDate st)"
    using latest_Inr(3) [OF assms] assms
    by (auto simp: CheckSchema_def UpToDate_def split: option.splits go_error.splits if_splits)
  moreover have "pl_read p \<noteq> None \<or> pl_goose p = None"
    using Inl by (auto simp: applied_version_def split: option.splits list.splits)
  ultimately show ?thesis by auto
next
  case (Inr a)
  then obtain rows where r: "pl_read p = None" "pl_goose p = Some rows"
    by (auto simp: applied_version_def split: option.splits)
  have "(\<exists>st. CheckSchema (Inr entries) p = Inr st \<and> UpToDate st) \<longleftrightarrow> v \<le> a"
    using assms Inr by (simp add: CheckSchema_def UpToDate_def)
  also have "\<dots> \<longleftrightarrow> (\<exists>u \<ge> v. (u, True) \<in> set rows)"
    using applied_version_Inr [OF Inr latest_Inr(3) [OF assms]] by (simp add: r)
  finally show ?thesis by (simp add: r all_applied_iff [OF assms])
qed

text \<open>
  A process is ready exactly when the database answers, every migration compiled into it has a
  number, and for each of them one at least as high is applied. Anything else is answered 503.
\<close>

theorem ready_iff_migrated:
  "fst (ready (Inr entries) p) =
     (if pl_ping p = None \<and> pl_read p = None \<and> (\<exists>rows. pl_goose p = Some rows \<and> all_applied entries rows)
      then 200 else 503)"
proof (cases "latestEmbeddedVersion (Inr entries)")
  case (Inl e)
  then have "\<not> all_applied entries rows" for rows using all_applied_latest by fastforce
  then show ?thesis by (simp add: ready_def CheckSchema_def Inl Let_def)
next
  case (Inr v)
  have "fst (ready (Inr entries) p) =
      (if pl_ping p = None \<and> (\<exists>st. CheckSchema (Inr entries) p = Inr st \<and> UpToDate st) then 200 else 503)"
    by (simp add: ready_def Let_def split: sum.split)
  then show ?thesis by (simp add: schema_is_current [OF Inr])
qed

section \<open>Processes and the schema\<close>

text \<open>
  C34. No process works on a schema it is ahead of. When some embedded migration is newer than every
  applied one, the worker exits without taking a job, and the API, which does start, is not ready.
\<close>

theorem stale_schema_is_refused:
  assumes "Load (pf_unicode P) (pf_getenv P) = Inr cfg" and "pf_connect P (cfg_Postgres cfg) = Inr pool"
    and "pf_migrations P = Inr entries" and "e \<in> set entries" and "migration e" and "has_version e n" and "0 < n"
    and "\<And>rows v. pl_goose pool = Some rows \<Longrightarrow> (v, True) \<in> set rows \<Longrightarrow> v < n"
  shows "\<not> snd (worker_run P) \<and> fst (worker_run P) \<noteq> None \<and> fst (ready (pf_migrations P) pool) = 503"
proof -
  have "\<not> all_applied entries rows" if "pl_goose pool = Some rows" for rows
    using assms(4-8) that unfolding all_applied_def by (meson leD)
  then have behind: "\<not> (pl_read pool = None \<and> (\<exists>rows. pl_goose pool = Some rows \<and> all_applied entries rows))"
    by blast
  have "\<not> (\<exists>st. CheckSchema (Inr entries) pool = Inr st \<and> UpToDate st)"
  proof (cases "latestEmbeddedVersion (Inr entries)")
    case (Inr v)
    with behind show ?thesis by (simp add: schema_is_current)
  qed (simp add: CheckSchema_def)
  then have "\<not> snd (worker_run P) \<and> fst (worker_run P) \<noteq> None"
    using assms(1-3) by (auto simp: worker_run_def split: sum.split)
  with behind show ?thesis by (simp add: assms(3) ready_iff_migrated)
qed

text \<open>
  C35. The API exits with success only when it was asked to stop and drained its requests: it had
  served, the context was cancelled, and the shutdown did not fail. A listener that ends by itself,
  even without an error, is a failure.
\<close>

theorem clean_exit_was_asked_for:
  "fst (api_run P) = None \<longleftrightarrow> snd (api_run P) \<and> pf_wakeup P = Cancelled None"
  by (auto simp: api_run_def Start_def Let_def split: sum.split option.split wakeup.split)

section \<open>The sweep\<close>

definition kept :: "time \<Rightarrow> AuthSession \<Rightarrow> bool" where
  "kept now s \<longleftrightarrow> now - sessionGrace \<le> as_ExpiresAt s
     \<and> (case as_RevokedAt s of None \<Rightarrow> True | Some t \<Rightarrow> now - sessionGrace \<le> t)"

lemma SweepSessions_cases:
  "w_db (snd (SweepSessions E now w)) = w_db w \<and> fst (SweepSessions E now w) \<noteq> None
   \<or> w_db (snd (SweepSessions E now w)) = (w_db w)\<lparr>auth_sessions := filter (kept now) (auth_sessions (w_db w))\<rparr>"
proof -
  have "delete_where (\<lambda>s. as_ExpiresAt s < now - sessionGrace
      \<or> (case as_RevokedAt s of None \<Rightarrow> False | Some t \<Rightarrow> t < now - sessionGrace)) ss = filter (kept now) ss" for ss
    by (auto simp: delete_where_def kept_def intro!: filter_cong split: option.split)
  then show ?thesis
    by (auto simp: SweepSessions_def SweepExpired_def call_def run_query_def SweepExpiredSessions_def return_def Let_def
        split: option.split fault.split)
qed

lemma kept_later: "kept t s \<Longrightarrow> now \<le> t \<Longrightarrow> kept now s"
  by (cases "as_RevokedAt s") (auto simp: kept_def)

inductive sweeps :: "time \<Rightarrow> world \<Rightarrow> world \<Rightarrow> bool" where
  no_sweep: "sweeps t w w"
| sweep_again: "sweeps t w w1 \<Longrightarrow> now \<le> t \<Longrightarrow> sweeps t w (snd (SweepSessions E now w1))"

text \<open>
  C36. The queue may run the sweep as often as it likes. After any number of runs that failed or
  succeeded, one that succeeds leaves exactly the sessions that neither expired nor were revoked more
  than a week before it, in their order, and no other table is touched.
\<close>

theorem sweep_is_repeatable:
  assumes "sweeps now w w1" and "SweepSessions E now w1 = (None, w2)"
  shows "w_db w2 = (w_db w)\<lparr>auth_sessions := filter (kept now) (auth_sessions (w_db w))\<rparr>"
proof -
  have "(w_db w1)\<lparr>auth_sessions := filter (kept now) (auth_sessions (w_db w1))\<rparr>
      = (w_db w)\<lparr>auth_sessions := filter (kept now) (auth_sessions (w_db w))\<rparr>"
    using assms(1)
  proof (induction rule: sweeps.induct)
    case (sweep_again t w w1 now E)
    have "filter (kept t) (filter (kept now) ss) = filter (kept t) ss" for ss
      unfolding filter_filter by (rule filter_cong) (use kept_later [OF _ sweep_again.hyps(2)] in auto)
    with SweepSessions_cases [of E now w1] sweep_again.IH show ?case by (elim disjE) (simp_all del: filter_filter)
  qed simp
  with SweepSessions_cases [of E now w1] assms(2) show ?thesis by simp
qed

section \<open>The default address Google returns to\<close>

text \<open>
  With no \<^verbatim>\<open>GOOGLE_REDIRECT_URL\<close> the configuration names a path that no operation serves; the
  callback is served under another one, so a start with the default always warns, and a sign-in
  that goes through it never comes back.
\<close>

lemma default_redirect_parsed:
  assumes "parseHost ''http'' ''localhost:8080'' = Some ''localhost:8080''"
  shows "url_Parse parseHost ''http://localhost:8080/api/v1/oauth/google/callback''
    = Some (no_url\<lparr>u_Scheme := ''http'', u_Host := ''localhost:8080'', u_Path := ''/api/v1/oauth/google/callback''\<rparr>)"
  using assms
  by (simp add: url_Parse_def parse_url_def Cut_def control_byte_def getScheme_def byte_in_def cut_query_def
      no_url_def parseAuthority_def setPath_def lower_char_def upper_char_def escape_byte_def shouldEscape_def
      alphanumeric_def)

lemma default_redirect_is_not_served:
  assumes "Load U getenv = Inr cfg" and "l_optional U getenv ''GOOGLE_REDIRECT_URL'' = []"
    and "parseHost ''http'' ''localhost:8080'' = Some ''localhost:8080''"
  shows "WrongPath ''/api/v1/oauth/google/callback''
      \<in> set (warnIfRedirectMismatched parseHost (google_RedirectURL (cfg_Google cfg)) (cfg_WebBaseURL cfg))
    \<and> contract_verdict m ''/api/v1/oauth/google/callback'' = Unknown
    \<and> contract_verdict ''GET'' googleCallbackPath = Call OpCompleteGoogleSignIn []"
proof -
  have "google_RedirectURL (cfg_Google cfg) = ''http://localhost:8080/api/v1/oauth/google/callback''"
    using assms(2) by (simp add: Load_Inr(1) [OF assms(1)] loaded_def l_str_def)
  moreover have "url_Parse parseHost ''http://localhost:8080/api/v1/oauth/google/callback''
      = Some (no_url\<lparr>u_Scheme := ''http'', u_Host := ''localhost:8080'', u_Path := ''/api/v1/oauth/google/callback''\<rparr>)"
    using assms(3) by (simp add: default_redirect_parsed)
  moreover have "lookup_path contract ''/api/v1/oauth/google/callback'' = None" by code_simp
  moreover have "contract_verdict ''GET'' googleCallbackPath = Call OpCompleteGoogleSignIn []" by code_simp
  ultimately show ?thesis
    by (simp add: warnIfRedirectMismatched_def contract_verdict_def)
qed

section \<open>A sample\<close>

definition sample_entries :: "DirEntry list" where
  "sample_entries = [\<lparr>de_Name = ''00021_contexts_color_replaces_kind.sql'', de_IsDir = False\<rparr>,
     \<lparr>de_Name = ''00022_context_tree_sort_path.sql'', de_IsDir = False\<rparr>]"

definition sample_pool :: pool where
  "sample_pool = \<lparr>pl_ping = None, pl_read = None, pl_goose = Some [(20, True), (21, True), (22, False)]\<rparr>"

definition sample_platform :: platform where
  "sample_platform = \<lparr>pf_unicode = plain_unicode, pf_getenv = sample_getenv, pf_migrations = Inr sample_entries,
     pf_connect = (\<lambda>_. Inr sample_pool), pf_redis = (\<lambda>_. None), pf_server = (\<lambda>_. None), pf_schedule = None,
     pf_wakeup = Cancelled None, pf_worker = None\<rparr>"

theorem stale_schema_is_refused_witness: "\<not> snd (worker_run sample_platform)"
proof -
  let ?e = "\<lparr>de_Name = ''00022_context_tree_sort_path.sql'', de_IsDir = False\<rparr>"
  have e: "migration ?e" "has_version ?e 22"
    unfolding migration_def has_version_def by code_simp+
  have "\<not> snd (worker_run sample_platform) \<and> fst (worker_run sample_platform) \<noteq> None
      \<and> fst (ready (pf_migrations sample_platform) sample_pool) = 503"
    by (rule stale_schema_is_refused [of _ "loaded plain_unicode sample_getenv" _ sample_entries ?e 22])
      (auto simp: sample_platform_def sample_Load e sample_entries_def sample_pool_def)
  then show ?thesis by blast
qed

theorem sweep_is_repeatable_witness:
  "auth_sessions (w_db (snd (SweepSessions calm_env (30 * 24 * Hour)
     (snd (SweepSessions calm_env 0 one_session_world))))) = []"
proof -
  let ?w = "snd (SweepSessions calm_env 0 one_session_world)"
  have "fst (SweepSessions calm_env (30 * 24 * Hour) ?w) = None"
    by (simp add: SweepSessions_def SweepExpired_def call_def run_query_def SweepExpiredSessions_def return_def
        Let_def calm_env_def split: sum.split option.split fault.split)
  then obtain w2 where "SweepSessions calm_env (30 * 24 * Hour) ?w = (None, w2)" by (metis prod.collapse)
  from sweep_is_repeatable [OF sweep_again [OF no_sweep, of 0] this] this show ?thesis
    by (simp add: one_session_world_def one_session_def kept_def sessionGrace_def)
qed

end
