(* ===== verification/Api_Codecs_Work.thy ===== *)
theory Api_Codecs_Work
  imports Api_Codecs
begin

text \<open>
  \<^verbatim>\<open>Encode\<close> and \<^verbatim>\<open>Decode\<close> of the responses about accounts, signals, tasks and commitments
  (\<^verbatim>\<open>oas_json_gen.go\<close>), whose operations the handlers do not implement yet, with their round trips.
\<close>

section \<open>Account\<close>

definition Account_Encode :: "ogen \<Rightarrow> ApiAccount \<Rightarrow> json" where
  "Account_Encode G s = JObj (concat [
     field ''id'' (EncodeUUID G (aac_ID s)),
     field ''provider'' (JStr (aac_Provider s)),
     field ''reliability'' (JStr (aac_Reliability s)),
     field ''displayName'' (JStr (aac_DisplayName s)),
     field ''status'' (JStr (aac_Status s)),
     opt_field ''lastSyncAt'' (on_Set (aac_LastSyncAt s)) (OptNil_Encode (EncodeDateTime G) (aac_LastSyncAt s)),
     opt_field ''lastError'' (opt_Set (aac_LastError s)) (Opt_Encode JStr (aac_LastError s))])"

definition zero_Account :: ApiAccount where
  "zero_Account = \<lparr>aac_ID = 0, aac_Provider = [], aac_Reliability = [], aac_DisplayName = [], aac_Status = [], aac_LastSyncAt = OptNil_Reset zero_time, aac_LastError = Opt_Reset []\<rparr>"

definition Account_Decode :: "ogen \<Rightarrow> ApiAccount decoder" where
  "Account_Decode G = decode_as ''Account''
     [''id'', ''provider'', ''reliability'', ''displayName'', ''status'', ''lastSyncAt'', ''lastError'']
     [0b00011111]
     [required 0 ''id'' (DecodeUUID G) (\<lambda>x s. s\<lparr>aac_ID := x\<rparr>),
      required 1 ''provider'' jx_Str (\<lambda>x s. s\<lparr>aac_Provider := x\<rparr>),
      required 2 ''reliability'' jx_Str (\<lambda>x s. s\<lparr>aac_Reliability := x\<rparr>),
      required 3 ''displayName'' jx_Str (\<lambda>x s. s\<lparr>aac_DisplayName := x\<rparr>),
      required 4 ''status'' jx_Str (\<lambda>x s. s\<lparr>aac_Status := x\<rparr>),
      optional ''lastSyncAt'' (OptNil_Decode zero_time (DecodeDateTime G)) (\<lambda>x s. s\<lparr>aac_LastSyncAt := x\<rparr>),
      optional ''lastError'' (Opt_Decode jx_Str) (\<lambda>x s. s\<lparr>aac_LastError := x\<rparr>)]
     zero_Account"

definition Account_ok :: "ogen \<Rightarrow> ApiAccount \<Rightarrow> bool" where
  "Account_ok G s = (uuid_ok G (aac_ID s) \<and>
     OptNil_ok zero_time (time_ok G) (aac_LastSyncAt s) \<and>
     Opt_ok [] anything (aac_LastError s))"

interpretation jaccount: json_codec "Account_Encode G" "Account_Decode G" "Account_ok G" for G
proof
  show "Account_Decode G (Account_Encode G x) = Inr x" if "Account_ok G x" for x
    using that unfolding Account_Decode_def Account_Encode_def Account_ok_def concat.simps
    by (elim conjE, intro decode_as_met json_steps)
      (assumption | simp add: json_simps zero_Account_def del: map_of.simps)+
qed (simp add: Account_Encode_def)

section \<open>AccountList\<close>

definition AccountList_Encode :: "ogen \<Rightarrow> ApiAccount list \<Rightarrow> json" where
  "AccountList_Encode G s = JObj (concat [
     field ''items'' (JArr (map (Account_Encode G) s))])"

definition AccountList_Decode :: "ogen \<Rightarrow> ApiAccount list decoder" where
  "AccountList_Decode G = decode_as ''AccountList''
     [''items'']
     [0b00000001]
     [required 0 ''items'' (Arr (Account_Decode G)) (\<lambda>x s. x)]
     []"

definition AccountList_ok :: "ogen \<Rightarrow> ApiAccount list \<Rightarrow> bool" where
  "AccountList_ok G s = (list_all (Account_ok G) s)"

interpretation jaccounts: json_codec "AccountList_Encode G" "AccountList_Decode G" "AccountList_ok G" for G
proof
  show "AccountList_Decode G (AccountList_Encode G x) = Inr x" if "AccountList_ok G x" for x
    using that unfolding AccountList_Decode_def AccountList_Encode_def AccountList_ok_def concat.simps
    by (intro decode_as_met json_steps jaccount.step_items)
      (assumption | simp add: json_simps del: map_of.simps)+
qed (simp add: AccountList_Encode_def)

section \<open>Signal\<close>

definition Signal_Encode :: "ogen \<Rightarrow> ApiSignal \<Rightarrow> json" where
  "Signal_Encode G s = JObj (concat [
     field ''id'' (EncodeUUID G (asg_ID s)),
     field ''accountId'' (EncodeUUID G (asg_AccountId s)),
     field ''kind'' (JStr (asg_Kind s)),
     opt_field ''subject'' (opt_Set (asg_Subject s)) (Opt_Encode JStr (asg_Subject s)),
     opt_field ''snippet'' (opt_Set (asg_Snippet s)) (Opt_Encode JStr (asg_Snippet s)),
     field ''occurredAt'' (EncodeDateTime G (asg_OccurredAt s)),
     field ''ingestedAt'' (EncodeDateTime G (asg_IngestedAt s)),
     field ''processed'' (JBool (asg_Processed s)),
     opt_field ''contextId'' (opt_Set (asg_ContextId s)) (Opt_Encode (EncodeUUID G) (asg_ContextId s)),
     opt_field ''confidence'' (opt_Set (asg_Confidence s)) (Opt_Encode (EncodeFloat64 G) (asg_Confidence s)),
     opt_field ''assignedBy'' (opt_Set (asg_AssignedBy s)) (Opt_Encode JStr (asg_AssignedBy s))])"

definition zero_Signal :: ApiSignal where
  "zero_Signal = \<lparr>asg_ID = 0, asg_AccountId = 0, asg_Kind = [], asg_Subject = Opt_Reset [], asg_Snippet = Opt_Reset [], asg_OccurredAt = zero_time, asg_IngestedAt = zero_time, asg_Processed = False, asg_ContextId = Opt_Reset 0, asg_Confidence = Opt_Reset (Finite 0), asg_AssignedBy = Opt_Reset []\<rparr>"

definition Signal_Decode :: "ogen \<Rightarrow> ApiSignal decoder" where
  "Signal_Decode G = decode_as ''Signal''
     [''id'', ''accountId'', ''kind'', ''subject'', ''snippet'', ''occurredAt'', ''ingestedAt'', ''processed'', ''contextId'', ''confidence'', ''assignedBy'']
     [0b11100111, 0b00000000]
     [required 0 ''id'' (DecodeUUID G) (\<lambda>x s. s\<lparr>asg_ID := x\<rparr>),
      required 1 ''accountId'' (DecodeUUID G) (\<lambda>x s. s\<lparr>asg_AccountId := x\<rparr>),
      required 2 ''kind'' jx_Str (\<lambda>x s. s\<lparr>asg_Kind := x\<rparr>),
      optional ''subject'' (Opt_Decode jx_Str) (\<lambda>x s. s\<lparr>asg_Subject := x\<rparr>),
      optional ''snippet'' (Opt_Decode jx_Str) (\<lambda>x s. s\<lparr>asg_Snippet := x\<rparr>),
      required 5 ''occurredAt'' (DecodeDateTime G) (\<lambda>x s. s\<lparr>asg_OccurredAt := x\<rparr>),
      required 6 ''ingestedAt'' (DecodeDateTime G) (\<lambda>x s. s\<lparr>asg_IngestedAt := x\<rparr>),
      required 7 ''processed'' jx_Bool (\<lambda>x s. s\<lparr>asg_Processed := x\<rparr>),
      optional ''contextId'' (Opt_Decode (DecodeUUID G)) (\<lambda>x s. s\<lparr>asg_ContextId := x\<rparr>),
      optional ''confidence'' (Opt_Decode (jx_Float64 G)) (\<lambda>x s. s\<lparr>asg_Confidence := x\<rparr>),
      optional ''assignedBy'' (Opt_Decode jx_Str) (\<lambda>x s. s\<lparr>asg_AssignedBy := x\<rparr>)]
     zero_Signal"

definition Signal_ok :: "ogen \<Rightarrow> ApiSignal \<Rightarrow> bool" where
  "Signal_ok G s = (uuid_ok G (asg_ID s) \<and>
     uuid_ok G (asg_AccountId s) \<and>
     Opt_ok [] anything (asg_Subject s) \<and>
     Opt_ok [] anything (asg_Snippet s) \<and>
     time_ok G (asg_OccurredAt s) \<and>
     time_ok G (asg_IngestedAt s) \<and>
     Opt_ok 0 (uuid_ok G) (asg_ContextId s) \<and>
     Opt_ok (Finite 0) (float_ok G) (asg_Confidence s) \<and>
     Opt_ok [] anything (asg_AssignedBy s))"

interpretation jsignal: json_codec "Signal_Encode G" "Signal_Decode G" "Signal_ok G" for G
proof
  show "Signal_Decode G (Signal_Encode G x) = Inr x" if "Signal_ok G x" for x
    using that unfolding Signal_Decode_def Signal_Encode_def Signal_ok_def concat.simps
    by (elim conjE, intro decode_as_met json_steps)
      (assumption | simp add: json_simps zero_Signal_def del: map_of.simps)+
qed (simp add: Signal_Encode_def)

section \<open>SignalList\<close>

definition SignalList_Encode :: "ogen \<Rightarrow> ApiSignal list \<Rightarrow> json" where
  "SignalList_Encode G s = JObj (concat [
     field ''items'' (JArr (map (Signal_Encode G) s))])"

definition SignalList_Decode :: "ogen \<Rightarrow> ApiSignal list decoder" where
  "SignalList_Decode G = decode_as ''SignalList''
     [''items'']
     [0b00000001]
     [required 0 ''items'' (Arr (Signal_Decode G)) (\<lambda>x s. x)]
     []"

definition SignalList_ok :: "ogen \<Rightarrow> ApiSignal list \<Rightarrow> bool" where
  "SignalList_ok G s = (list_all (Signal_ok G) s)"

interpretation jsignals: json_codec "SignalList_Encode G" "SignalList_Decode G" "SignalList_ok G" for G
proof
  show "SignalList_Decode G (SignalList_Encode G x) = Inr x" if "SignalList_ok G x" for x
    using that unfolding SignalList_Decode_def SignalList_Encode_def SignalList_ok_def concat.simps
    by (intro decode_as_met json_steps jsignal.step_items)
      (assumption | simp add: json_simps del: map_of.simps)+
qed (simp add: SignalList_Encode_def)

section \<open>Task\<close>

definition Task_Encode :: "ogen \<Rightarrow> ApiTask \<Rightarrow> json" where
  "Task_Encode G s = JObj (concat [
     field ''id'' (EncodeUUID G (atk_ID s)),
     field ''contextId'' (EncodeUUID G (atk_ContextId s)),
     opt_field ''sourceSignalId'' (on_Set (atk_SourceSignalId s)) (OptNil_Encode (EncodeUUID G) (atk_SourceSignalId s)),
     opt_field ''parentTaskId'' (on_Set (atk_ParentTaskId s)) (OptNil_Encode (EncodeUUID G) (atk_ParentTaskId s)),
     opt_field ''commitmentId'' (on_Set (atk_CommitmentId s)) (OptNil_Encode (EncodeUUID G) (atk_CommitmentId s)),
     field ''title'' (JStr (atk_Title s)),
     opt_field ''detail'' (on_Set (atk_Detail s)) (OptNil_Encode JStr (atk_Detail s)),
     field ''status'' (JStr (atk_Status s)),
     field ''owner'' (JStr (atk_Owner s)),
     field ''priority'' (JInt (atk_Priority s)),
     opt_field ''dueAt'' (on_Set (atk_DueAt s)) (OptNil_Encode (EncodeDateTime G) (atk_DueAt s)),
     opt_field ''estimatedMinutes'' (on_Set (atk_EstimatedMinutes s)) (OptNil_Encode JInt (atk_EstimatedMinutes s)),
     opt_field ''blockedReason'' (on_Set (atk_BlockedReason s)) (OptNil_Encode JStr (atk_BlockedReason s)),
     field ''createdAt'' (EncodeDateTime G (atk_CreatedAt s)),
     field ''updatedAt'' (EncodeDateTime G (atk_UpdatedAt s)),
     opt_field ''completedAt'' (on_Set (atk_CompletedAt s)) (OptNil_Encode (EncodeDateTime G) (atk_CompletedAt s))])"

definition zero_Task :: ApiTask where
  "zero_Task = \<lparr>atk_ID = 0, atk_ContextId = 0, atk_SourceSignalId = OptNil_Reset 0, atk_ParentTaskId = OptNil_Reset 0, atk_CommitmentId = OptNil_Reset 0, atk_Title = [], atk_Detail = OptNil_Reset [], atk_Status = [], atk_Owner = [], atk_Priority = 0, atk_DueAt = OptNil_Reset zero_time, atk_EstimatedMinutes = OptNil_Reset 0, atk_BlockedReason = OptNil_Reset [], atk_CreatedAt = zero_time, atk_UpdatedAt = zero_time, atk_CompletedAt = OptNil_Reset zero_time\<rparr>"

definition Task_Decode :: "ogen \<Rightarrow> ApiTask decoder" where
  "Task_Decode G = decode_as ''Task''
     [''id'', ''contextId'', ''sourceSignalId'', ''parentTaskId'', ''commitmentId'', ''title'', ''detail'', ''status'', ''owner'', ''priority'', ''dueAt'', ''estimatedMinutes'', ''blockedReason'', ''createdAt'', ''updatedAt'', ''completedAt'']
     [0b10100011, 0b01100011]
     [required 0 ''id'' (DecodeUUID G) (\<lambda>x s. s\<lparr>atk_ID := x\<rparr>),
      required 1 ''contextId'' (DecodeUUID G) (\<lambda>x s. s\<lparr>atk_ContextId := x\<rparr>),
      optional ''sourceSignalId'' (OptNil_Decode 0 (DecodeUUID G)) (\<lambda>x s. s\<lparr>atk_SourceSignalId := x\<rparr>),
      optional ''parentTaskId'' (OptNil_Decode 0 (DecodeUUID G)) (\<lambda>x s. s\<lparr>atk_ParentTaskId := x\<rparr>),
      optional ''commitmentId'' (OptNil_Decode 0 (DecodeUUID G)) (\<lambda>x s. s\<lparr>atk_CommitmentId := x\<rparr>),
      required 5 ''title'' jx_Str (\<lambda>x s. s\<lparr>atk_Title := x\<rparr>),
      optional ''detail'' (OptNil_Decode [] jx_Str) (\<lambda>x s. s\<lparr>atk_Detail := x\<rparr>),
      required 7 ''status'' jx_Str (\<lambda>x s. s\<lparr>atk_Status := x\<rparr>),
      required 8 ''owner'' jx_Str (\<lambda>x s. s\<lparr>atk_Owner := x\<rparr>),
      required 9 ''priority'' jx_Int32 (\<lambda>x s. s\<lparr>atk_Priority := x\<rparr>),
      optional ''dueAt'' (OptNil_Decode zero_time (DecodeDateTime G)) (\<lambda>x s. s\<lparr>atk_DueAt := x\<rparr>),
      optional ''estimatedMinutes'' (OptNil_Decode 0 jx_Int32) (\<lambda>x s. s\<lparr>atk_EstimatedMinutes := x\<rparr>),
      optional ''blockedReason'' (OptNil_Decode [] jx_Str) (\<lambda>x s. s\<lparr>atk_BlockedReason := x\<rparr>),
      required 13 ''createdAt'' (DecodeDateTime G) (\<lambda>x s. s\<lparr>atk_CreatedAt := x\<rparr>),
      required 14 ''updatedAt'' (DecodeDateTime G) (\<lambda>x s. s\<lparr>atk_UpdatedAt := x\<rparr>),
      optional ''completedAt'' (OptNil_Decode zero_time (DecodeDateTime G)) (\<lambda>x s. s\<lparr>atk_CompletedAt := x\<rparr>)]
     zero_Task"

definition Task_ok :: "ogen \<Rightarrow> ApiTask \<Rightarrow> bool" where
  "Task_ok G s = (uuid_ok G (atk_ID s) \<and>
     uuid_ok G (atk_ContextId s) \<and>
     OptNil_ok 0 (uuid_ok G) (atk_SourceSignalId s) \<and>
     OptNil_ok 0 (uuid_ok G) (atk_ParentTaskId s) \<and>
     OptNil_ok 0 (uuid_ok G) (atk_CommitmentId s) \<and>
     OptNil_ok [] anything (atk_Detail s) \<and>
     int32_ok (atk_Priority s) \<and>
     OptNil_ok zero_time (time_ok G) (atk_DueAt s) \<and>
     OptNil_ok 0 int32_ok (atk_EstimatedMinutes s) \<and>
     OptNil_ok [] anything (atk_BlockedReason s) \<and>
     time_ok G (atk_CreatedAt s) \<and>
     time_ok G (atk_UpdatedAt s) \<and>
     OptNil_ok zero_time (time_ok G) (atk_CompletedAt s))"

interpretation jtask_res: json_codec "Task_Encode G" "Task_Decode G" "Task_ok G" for G
proof
  show "Task_Decode G (Task_Encode G x) = Inr x" if "Task_ok G x" for x
    using that unfolding Task_Decode_def Task_Encode_def Task_ok_def concat.simps
    by (elim conjE, intro decode_as_met json_steps)
      (assumption | simp add: json_simps zero_Task_def del: map_of.simps)+
qed (simp add: Task_Encode_def)

section \<open>Commitment\<close>

definition Commitment_Encode :: "ogen \<Rightarrow> ApiCommitment \<Rightarrow> json" where
  "Commitment_Encode G s = JObj (concat [
     field ''id'' (EncodeUUID G (acm_ID s)),
     field ''contextId'' (EncodeUUID G (acm_ContextId s)),
     opt_field ''personId'' (on_Set (acm_PersonId s)) (OptNil_Encode (EncodeUUID G) (acm_PersonId s)),
     opt_field ''evidenceSignalId'' (on_Set (acm_EvidenceSignalId s)) (OptNil_Encode (EncodeUUID G) (acm_EvidenceSignalId s)),
     field ''direction'' (JStr (acm_Direction s)),
     field ''what'' (JStr (acm_What s)),
     field ''status'' (JStr (acm_Status s)),
     field ''promisedAt'' (EncodeDateTime G (acm_PromisedAt s)),
     opt_field ''dueAt'' (on_Set (acm_DueAt s)) (OptNil_Encode (EncodeDateTime G) (acm_DueAt s)),
     opt_field ''resolvedAt'' (on_Set (acm_ResolvedAt s)) (OptNil_Encode (EncodeDateTime G) (acm_ResolvedAt s)),
     field ''isConfirmed'' (JBool (acm_IsConfirmed s)),
     field ''isOverdue'' (JBool (acm_IsOverdue s)),
     opt_field ''daysOverdue'' (on_Set (acm_DaysOverdue s)) (OptNil_Encode JInt (acm_DaysOverdue s)),
     field ''createdAt'' (EncodeDateTime G (acm_CreatedAt s)),
     field ''updatedAt'' (EncodeDateTime G (acm_UpdatedAt s))])"

definition zero_Commitment :: ApiCommitment where
  "zero_Commitment = \<lparr>acm_ID = 0, acm_ContextId = 0, acm_PersonId = OptNil_Reset 0, acm_EvidenceSignalId = OptNil_Reset 0, acm_Direction = [], acm_What = [], acm_Status = [], acm_PromisedAt = zero_time, acm_DueAt = OptNil_Reset zero_time, acm_ResolvedAt = OptNil_Reset zero_time, acm_IsConfirmed = False, acm_IsOverdue = False, acm_DaysOverdue = OptNil_Reset 0, acm_CreatedAt = zero_time, acm_UpdatedAt = zero_time\<rparr>"

definition Commitment_Decode :: "ogen \<Rightarrow> ApiCommitment decoder" where
  "Commitment_Decode G = decode_as ''Commitment''
     [''id'', ''contextId'', ''personId'', ''evidenceSignalId'', ''direction'', ''what'', ''status'', ''promisedAt'', ''dueAt'', ''resolvedAt'', ''isConfirmed'', ''isOverdue'', ''daysOverdue'', ''createdAt'', ''updatedAt'']
     [0b11110011, 0b01101100]
     [required 0 ''id'' (DecodeUUID G) (\<lambda>x s. s\<lparr>acm_ID := x\<rparr>),
      required 1 ''contextId'' (DecodeUUID G) (\<lambda>x s. s\<lparr>acm_ContextId := x\<rparr>),
      optional ''personId'' (OptNil_Decode 0 (DecodeUUID G)) (\<lambda>x s. s\<lparr>acm_PersonId := x\<rparr>),
      optional ''evidenceSignalId'' (OptNil_Decode 0 (DecodeUUID G)) (\<lambda>x s. s\<lparr>acm_EvidenceSignalId := x\<rparr>),
      required 4 ''direction'' jx_Str (\<lambda>x s. s\<lparr>acm_Direction := x\<rparr>),
      required 5 ''what'' jx_Str (\<lambda>x s. s\<lparr>acm_What := x\<rparr>),
      required 6 ''status'' jx_Str (\<lambda>x s. s\<lparr>acm_Status := x\<rparr>),
      required 7 ''promisedAt'' (DecodeDateTime G) (\<lambda>x s. s\<lparr>acm_PromisedAt := x\<rparr>),
      optional ''dueAt'' (OptNil_Decode zero_time (DecodeDateTime G)) (\<lambda>x s. s\<lparr>acm_DueAt := x\<rparr>),
      optional ''resolvedAt'' (OptNil_Decode zero_time (DecodeDateTime G)) (\<lambda>x s. s\<lparr>acm_ResolvedAt := x\<rparr>),
      required 10 ''isConfirmed'' jx_Bool (\<lambda>x s. s\<lparr>acm_IsConfirmed := x\<rparr>),
      required 11 ''isOverdue'' jx_Bool (\<lambda>x s. s\<lparr>acm_IsOverdue := x\<rparr>),
      optional ''daysOverdue'' (OptNil_Decode 0 jx_Int32) (\<lambda>x s. s\<lparr>acm_DaysOverdue := x\<rparr>),
      required 13 ''createdAt'' (DecodeDateTime G) (\<lambda>x s. s\<lparr>acm_CreatedAt := x\<rparr>),
      required 14 ''updatedAt'' (DecodeDateTime G) (\<lambda>x s. s\<lparr>acm_UpdatedAt := x\<rparr>)]
     zero_Commitment"

definition Commitment_ok :: "ogen \<Rightarrow> ApiCommitment \<Rightarrow> bool" where
  "Commitment_ok G s = (uuid_ok G (acm_ID s) \<and>
     uuid_ok G (acm_ContextId s) \<and>
     OptNil_ok 0 (uuid_ok G) (acm_PersonId s) \<and>
     OptNil_ok 0 (uuid_ok G) (acm_EvidenceSignalId s) \<and>
     time_ok G (acm_PromisedAt s) \<and>
     OptNil_ok zero_time (time_ok G) (acm_DueAt s) \<and>
     OptNil_ok zero_time (time_ok G) (acm_ResolvedAt s) \<and>
     OptNil_ok 0 int32_ok (acm_DaysOverdue s) \<and>
     time_ok G (acm_CreatedAt s) \<and>
     time_ok G (acm_UpdatedAt s))"

interpretation jcommitment_res: json_codec "Commitment_Encode G" "Commitment_Decode G" "Commitment_ok G" for G
proof
  show "Commitment_Decode G (Commitment_Encode G x) = Inr x" if "Commitment_ok G x" for x
    using that unfolding Commitment_Decode_def Commitment_Encode_def Commitment_ok_def concat.simps
    by (elim conjE, intro decode_as_met json_steps)
      (assumption | simp add: json_simps zero_Commitment_def del: map_of.simps)+
qed (simp add: Commitment_Encode_def)

end
