(* ===== verification/Go_Cookie.thy ===== *)
theory Go_Cookie
  imports Api_Schemas Go_Encoding
begin

text \<open>
  \<^verbatim>\<open>(*http.Cookie).String\<close> of Go's library for the attributes the handlers set: the text the handlers of
  \<^verbatim>\<open>httpapi\<close> put into a \<^verbatim>\<open>SetCookie\<close> field.
\<close>

section \<open>Dates\<close>

text \<open>The civil date of a number of days since 1 January 1970: year, month and day.\<close>

definition civil :: "int \<Rightarrow> int \<times> int \<times> int" where
  "civil days =
     (let z = days + 719468;
          era = z div 146097;
          doe = z mod 146097;
          yoe = (doe - doe div 1460 + doe div 36524 - doe div 146096) div 365;
          doy = doe - (365 * yoe + yoe div 4 - yoe div 100);
          mp = (5 * doy + 2) div 153;
          d = doy - (153 * mp + 2) div 5 + 1;
          m = (if mp < 10 then mp + 3 else mp - 9)
      in (yoe + era * 400 + (if m \<le> 2 then 1 else 0), m, d))"

definition two_digits :: "int \<Rightarrow> string" where
  "two_digits n = Sprintf_d (nat (n div 10)) @ Sprintf_d (nat (n mod 10))"

definition four_digits :: "int \<Rightarrow> string" where
  "four_digits n = two_digits (n div 100) @ two_digits (n mod 100)"

definition weekday_names :: "string list" where
  "weekday_names = [''Sun'', ''Mon'', ''Tue'', ''Wed'', ''Thu'', ''Fri'', ''Sat'']"

definition month_names :: "string list" where
  "month_names = [''Jan'', ''Feb'', ''Mar'', ''Apr'', ''May'', ''Jun'', ''Jul'', ''Aug'', ''Sep'', ''Oct'', ''Nov'', ''Dec'']"

text \<open>\<^verbatim>\<open>http.TimeFormat\<close>, for years of four digits.\<close>

definition TimeFormat :: "time \<Rightarrow> string" where
  "TimeFormat t =
     (let secs = t div Second; days = secs div 86400; rest = secs mod 86400
      in case civil days of (y, m, d) \<Rightarrow>
        weekday_names ! nat ((days + 4) mod 7) @ '', '' @ two_digits d @ '' '' @ month_names ! nat (m - 1) @ '' '' @
        four_digits y @ '' '' @ two_digits (rest div 3600) @ '':'' @ two_digits (rest mod 3600 div 60) @ '':'' @
        two_digits (rest mod 60) @ '' GMT'')"

section \<open>The text of a cookie\<close>

text \<open>\<^verbatim>\<open>isToken\<close>, of the characters a header name may have.\<close>

definition token_char :: "char \<Rightarrow> bool" where
  "token_char c =
     (let n = of_char c :: nat
      in (48 \<le> n \<and> n \<le> 57) \<or> (65 \<le> n \<and> n \<le> 90) \<or> (97 \<le> n \<and> n \<le> 122)
         \<or> List.member (map of_char ''!#$%&*+-.^_`|~'') n \<or> n = 39)"

definition isToken :: "string \<Rightarrow> bool" where
  "isToken s \<longleftrightarrow> s \<noteq> [] \<and> list_all token_char s"

definition validCookieValueByte :: "char \<Rightarrow> bool" where
  "validCookieValueByte c =
     (let n = of_char c :: nat in 32 \<le> n \<and> n < 127 \<and> n \<noteq> 34 \<and> n \<noteq> 59 \<and> n \<noteq> 92)"

definition validCookiePathByte :: "char \<Rightarrow> bool" where
  "validCookiePathByte c = (let n = of_char c :: nat in 32 \<le> n \<and> n < 127 \<and> n \<noteq> 59)"

definition sanitizeCookieValue :: "string \<Rightarrow> string" where
  "sanitizeCookieValue s =
     (let v = filter validCookieValueByte s
      in if CHR '' '' \<in> set v \<or> CHR '','' \<in> set v then CHR 0x22 # v @ [CHR 0x22] else v)"

definition validCookieExpires :: "time \<Rightarrow> bool" where
  "validCookieExpires t \<longleftrightarrow> fst (civil (t div Second div 86400)) \<ge> 1601"

definition cookie_String :: "cookie \<Rightarrow> string" where
  "cookie_String c =
     (if \<not> isToken (ck_Name c) then []
      else ck_Name c @ ''='' @ sanitizeCookieValue (ck_Value c) @
        (if ck_Path c \<noteq> [] then ''; Path='' @ filter validCookiePathByte (ck_Path c) else []) @
        (if validCookieExpires (ck_Expires c) then ''; Expires='' @ TimeFormat (ck_Expires c) else []) @
        (if ck_MaxAge c > 0 then ''; Max-Age='' @ Sprintf_d (nat (ck_MaxAge c))
         else if ck_MaxAge c < 0 then ''; Max-Age=0'' else []) @
        (if ck_HttpOnly c then ''; HttpOnly'' else []) @
        (if ck_Secure c then ''; Secure'' else []) @
        ''; SameSite=Lax'')"

text \<open>The text of a \<^verbatim>\<open>SetCookie\<close> field.\<close>

fun joined :: "string list \<Rightarrow> string" where
  "joined [] = []"
| "joined [s] = s"
| "joined (s # ss) = s @ '', '' @ joined ss"

definition cookies_text :: "cookie list \<Rightarrow> string" where
  "cookies_text cs = joined (map cookie_String cs)"

lemma Sprintf_d_digit: "n < 10 \<Longrightarrow> Sprintf_d n = [digit_char n]"
  by (subst Sprintf_d.simps) simp

text \<open>A cookie that has expired, as a browser is told.\<close>

lemma expired_cookie_text:
  "cookie_String \<lparr>ck_Name = ''warp_session'', ck_Value = [], ck_Path = ''/'', ck_Expires = 0, ck_MaxAge = - 1,
     ck_HttpOnly = True, ck_Secure = True\<rparr>
   = ''warp_session=; Path=/; Expires=Thu, 01 Jan 1970 00:00:00 GMT; Max-Age=0; HttpOnly; Secure; SameSite=Lax''"
  by code_simp

end
