(* ===== verification/Api_Client.thy ===== *)
theory Api_Client
  imports Http_Server Api_Codecs_Work Go_Cookie
begin

text \<open>
  The generated client, \<^verbatim>\<open>oas_client_gen.go\<close>: how a call becomes a request
  (\<^verbatim>\<open>oas_request_encoders_gen.go\<close>, \<^verbatim>\<open>oas_security_gen.go\<close>) and how its response is read
  (\<^verbatim>\<open>oas_response_decoders_gen.go\<close>, the validators of responses in \<^verbatim>\<open>oas_validators_gen.go\<close>), with the
  four response encoders of operations the server does not implement.

  A request that leaves is the record \<open>outgoing\<close>, with its query as the values of each name and its
  cookies as their texts; a response that arrives is a \<open>reply\<close>, with its media type already parsed, as
  for a request. The packages of ogen the client uses are the record \<open>client_lib\<close>.
\<close>

section \<open>Libraries and errors\<close>

record client_lib =
  cl_lib :: ogen_lib
  cl_HasHeader :: "string list \<Rightarrow> bool"
  cl_HeaderValue :: "string list \<Rightarrow> string option"
  cl_ToInt :: "string \<Rightarrow> int option"
  cl_Float :: "rat \<Rightarrow> rat \<Rightarrow> float64 \<Rightarrow> bool"
  cl_UUIDToString :: "uuid \<Rightarrow> string"
  cl_BoolToString :: "bool \<Rightarrow> string"
  cl_Int32ToString :: "int \<Rightarrow> string"
  cl_DateTimeToString :: "time \<Rightarrow> string"
  cl_PathValue :: "string \<Rightarrow> string option"
  cl_AddPathParts :: "url \<Rightarrow> string list \<Rightarrow> url"
  cl_Bytes :: "json \<Rightarrow> byte list"

abbreviation cl_json :: "client_lib \<Rightarrow> ogen" where "cl_json C \<equiv> ol_json (cl_lib C)"

record reply =
  rp_Status :: nat
  rp_MediaType :: "string option"
  rp_Header :: "string \<Rightarrow> string list"
  rp_Body :: "byte list option"

datatype client_error =
    EncodePath
  | SecuritySource go_error
  | SecurityNotSatisfied
  | DoRequest go_error
  | ReplyMediaType
  | ReplyContentType string
  | ReplyRead
  | ReplyBody json_error
  | ReplyTrailing
  | ReplyInvalid "string list"
  | ReplyHeader string
  | DefaultFailed nat client_error
  | ErrorStatusCode nat ApiError

text \<open>
  The response types of the contract, as the client gets them: a \<^verbatim>\<open>SetCookie\<close> field is its text, and an
  envelope has its details.
\<close>

datatype api_result =
    ResArchiveContextNoContent
  | ResArchiveContextUnauthorized ApiError
  | ResArchiveContextNotFound ApiError
  | ResArchiveContextConflict ApiError
  | ResCompleteGoogleSignInFound string "string Opt"
  | ResErrorEnvelope ApiError
  | ResCommitment ApiCommitment
  | ResCreateCommitmentNotFound ApiError
  | ResCreateCommitmentUnprocessableEntity ApiError
  | ResContext ApiContext
  | ResCreateContextConflict ApiError
  | ResCreateContextUnprocessableEntity ApiError
  | ResTask ApiTask
  | ResCreateTaskNotFound ApiError
  | ResCreateTaskUnprocessableEntity ApiError
  | ResCurrentSession CurrentSession
  | ResAccountList "ApiAccount list"
  | ResLinkedProviderList "LinkedProvider list"
  | ResContextList "ApiContext list"
  | ResSessionList "ApiSession list"
  | ResSignalList "ApiSignal list"
  | ResCurrentSessionHeaders "string Opt" CurrentSession
  | ResErrorEnvelopeHeaders "int Opt" ApiError
  | ResRevokeSessionNoContent
  | ResRevokeSessionUnauthorized ApiError
  | ResRevokeSessionNotFound ApiError
  | ResSignOutNoContent "string Opt"
  | ResStartGoogleSignInFound string "string Opt"
  | ResUnlinkAuthProviderNoContent
  | ResUnlinkAuthProviderUnauthorized ApiError
  | ResUnlinkAuthProviderNotFound ApiError
  | ResUnlinkAuthProviderConflict ApiError
  | ResUpdateContextUnauthorized ApiError
  | ResUpdateContextNotFound ApiError
  | ResUpdateContextUnprocessableEntity ApiError

section \<open>oas\_validators\_gen.go: responses\<close>

text \<open>
  The names of the fields that fail. The items of a list that was decoded are never nil.
\<close>

definition AccountStatus_Validate :: "string \<Rightarrow> bool" where
  "AccountStatus_Validate s = (s \<in> set [''connected'', ''error'', ''disconnected''])"

definition AssignedBy_Validate :: "string \<Rightarrow> bool" where
  "AssignedBy_Validate s = (s \<in> set [''rule'', ''model'', ''manual''])"

definition AuthProviderKind_Validate :: "string \<Rightarrow> bool" where
  "AuthProviderKind_Validate s = (s \<in> set [''google'', ''zalo'', ''facebook'', ''passkey'', ''password''])"

definition CommitmentStatus_Validate :: "string \<Rightarrow> bool" where
  "CommitmentStatus_Validate s = (s \<in> set [''open'', ''fulfilled'', ''waived'', ''dropped''])"

definition Reliability_Validate :: "string \<Rightarrow> bool" where
  "Reliability_Validate s = (s \<in> set [''official'', ''unofficial'', ''manual''])"

definition SignalKind_Validate :: "string \<Rightarrow> bool" where
  "SignalKind_Validate s = (s \<in> set [''email'', ''message'', ''calendar_event'', ''file''])"

definition TaskOwner_Validate :: "string \<Rightarrow> bool" where
  "TaskOwner_Validate s = (s \<in> set [''me'', ''agent''])"

definition TaskStatus_Validate :: "string \<Rightarrow> bool" where
  "TaskStatus_Validate s = (s \<in> set [''open'', ''in_progress'', ''blocked'', ''done'', ''dropped''])"

definition Account_Validate :: "ApiAccount \<Rightarrow> string list" where
  "Account_Validate s = failures
     [(''reliability'', Reliability_Validate (aac_Reliability s)),
      (''status'', AccountStatus_Validate (aac_Status s))]"

definition AccountList_Validate :: "ApiAccount list \<Rightarrow> string list" where
  "AccountList_Validate items = failures [(''items'', list_all (\<lambda>e. Account_Validate e = []) items)]"

definition Commitment_Validate :: "ApiCommitment \<Rightarrow> string list" where
  "Commitment_Validate s = failures
     [(''direction'', CommitmentDirection_Validate (acm_Direction s)),
      (''status'', CommitmentStatus_Validate (acm_Status s))]"

definition Context_Validate :: "ApiContext \<Rightarrow> string list" where
  "Context_Validate s = failures [(''color'', if_OptNil ContextColor_Validate (apc_Color s))]"

definition ContextList_Validate :: "ApiContext list \<Rightarrow> string list" where
  "ContextList_Validate items = failures [(''items'', list_all (\<lambda>e. Context_Validate e = []) items)]"

definition Session_Validate :: "ApiSession \<Rightarrow> string list" where
  "Session_Validate s = failures [(''providerKind'', if_Opt AuthProviderKind_Validate (asn_ProviderKind s))]"

definition SessionList_Validate :: "ApiSession list \<Rightarrow> string list" where
  "SessionList_Validate items = failures [(''items'', list_all (\<lambda>e. Session_Validate e = []) items)]"

definition CurrentSession_Validate :: "CurrentSession \<Rightarrow> string list" where
  "CurrentSession_Validate s = failures [(''session'', Session_Validate (cus_Session s) = [])]"

definition LinkedProvider_Validate :: "LinkedProvider \<Rightarrow> string list" where
  "LinkedProvider_Validate s = failures [(''kind'', AuthProviderKind_Validate (lp_Kind s))]"

definition LinkedProviderList_Validate :: "LinkedProvider list \<Rightarrow> string list" where
  "LinkedProviderList_Validate items = failures [(''items'', list_all (\<lambda>e. LinkedProvider_Validate e = []) items)]"

definition Signal_Validate :: "client_lib \<Rightarrow> ApiSignal \<Rightarrow> string list" where
  "Signal_Validate C s = failures
     [(''kind'', SignalKind_Validate (asg_Kind s)),
      (''confidence'', if_Opt (cl_Float C 0 1) (asg_Confidence s)),
      (''assignedBy'', if_Opt AssignedBy_Validate (asg_AssignedBy s))]"

definition SignalList_Validate :: "client_lib \<Rightarrow> ApiSignal list \<Rightarrow> string list" where
  "SignalList_Validate C items = failures [(''items'', list_all (\<lambda>e. Signal_Validate C e = []) items)]"

definition Task_Validate :: "client_lib \<Rightarrow> ApiTask \<Rightarrow> string list" where
  "Task_Validate C s = failures
     [(''status'', TaskStatus_Validate (atk_Status s)),
      (''owner'', TaskOwner_Validate (atk_Owner s)),
      (''priority'',
         ol_Int (cl_lib C) \<lparr>vi_MinSet = True, vi_Min = 1, vi_MaxSet = True, vi_Max = 5\<rparr> (atk_Priority s))]"

section \<open>oas\_response\_decoders\_gen.go\<close>

text \<open>
  The error types of an operation are the envelope under names of their own, and what goes wrong while one is
  read is said of the alias.
\<close>

definition alias_Decode :: "'a decoder \<Rightarrow> 'a decoder" where
  "alias_Decode dec j = (case dec j of Inl e \<Rightarrow> Inl (Decoding ''alias'' e) | Inr x \<Rightarrow> Inr x)"

lemma alias_Decode_Inr [simp]: "alias_Decode dec j = Inr x \<longleftrightarrow> dec j = Inr x"
  by (simp add: alias_Decode_def split: sum.split)

definition ArchiveContextConflict_Decode :: "ApiError decoder" where
  "ArchiveContextConflict_Decode = alias_Decode ErrorEnvelope_Decode"

definition ArchiveContextNotFound_Decode :: "ApiError decoder" where
  "ArchiveContextNotFound_Decode = alias_Decode ErrorEnvelope_Decode"

definition ArchiveContextUnauthorized_Decode :: "ApiError decoder" where
  "ArchiveContextUnauthorized_Decode = alias_Decode ErrorEnvelope_Decode"

definition CreateCommitmentNotFound_Decode :: "ApiError decoder" where
  "CreateCommitmentNotFound_Decode = alias_Decode ErrorEnvelope_Decode"

definition CreateCommitmentUnprocessableEntity_Decode :: "ApiError decoder" where
  "CreateCommitmentUnprocessableEntity_Decode = alias_Decode ErrorEnvelope_Decode"

definition CreateContextConflict_Decode :: "ApiError decoder" where
  "CreateContextConflict_Decode = alias_Decode ErrorEnvelope_Decode"

definition CreateContextUnprocessableEntity_Decode :: "ApiError decoder" where
  "CreateContextUnprocessableEntity_Decode = alias_Decode ErrorEnvelope_Decode"

definition CreateTaskNotFound_Decode :: "ApiError decoder" where
  "CreateTaskNotFound_Decode = alias_Decode ErrorEnvelope_Decode"

definition CreateTaskUnprocessableEntity_Decode :: "ApiError decoder" where
  "CreateTaskUnprocessableEntity_Decode = alias_Decode ErrorEnvelope_Decode"

definition RevokeSessionNotFound_Decode :: "ApiError decoder" where
  "RevokeSessionNotFound_Decode = alias_Decode ErrorEnvelope_Decode"

definition RevokeSessionUnauthorized_Decode :: "ApiError decoder" where
  "RevokeSessionUnauthorized_Decode = alias_Decode ErrorEnvelope_Decode"

definition UnlinkAuthProviderConflict_Decode :: "ApiError decoder" where
  "UnlinkAuthProviderConflict_Decode = alias_Decode ErrorEnvelope_Decode"

definition UnlinkAuthProviderNotFound_Decode :: "ApiError decoder" where
  "UnlinkAuthProviderNotFound_Decode = alias_Decode ErrorEnvelope_Decode"

definition UnlinkAuthProviderUnauthorized_Decode :: "ApiError decoder" where
  "UnlinkAuthProviderUnauthorized_Decode = alias_Decode ErrorEnvelope_Decode"

definition UpdateContextNotFound_Decode :: "ApiError decoder" where
  "UpdateContextNotFound_Decode = alias_Decode ErrorEnvelope_Decode"

definition UpdateContextUnauthorized_Decode :: "ApiError decoder" where
  "UpdateContextUnauthorized_Decode = alias_Decode ErrorEnvelope_Decode"

definition UpdateContextUnprocessableEntity_Decode :: "ApiError decoder" where
  "UpdateContextUnprocessableEntity_Decode = alias_Decode ErrorEnvelope_Decode"

lemmas alias_defs =
  ArchiveContextConflict_Decode_def ArchiveContextNotFound_Decode_def ArchiveContextUnauthorized_Decode_def
  CreateCommitmentNotFound_Decode_def CreateCommitmentUnprocessableEntity_Decode_def CreateContextConflict_Decode_def
  CreateContextUnprocessableEntity_Decode_def CreateTaskNotFound_Decode_def CreateTaskUnprocessableEntity_Decode_def
  RevokeSessionNotFound_Decode_def RevokeSessionUnauthorized_Decode_def UnlinkAuthProviderConflict_Decode_def
  UnlinkAuthProviderNotFound_Decode_def UnlinkAuthProviderUnauthorized_Decode_def UpdateContextNotFound_Decode_def
  UpdateContextUnauthorized_Decode_def UpdateContextUnprocessableEntity_Decode_def

text \<open>The body of a case: media type, document, nothing after it, the checks, then the rest.\<close>

definition body_then ::
  "client_lib \<Rightarrow> 'a decoder \<Rightarrow> ('a \<Rightarrow> string list) \<Rightarrow> reply \<Rightarrow> ('a \<Rightarrow> client_error + 'b) \<Rightarrow> client_error + 'b" where
  "body_then C dec validate r k =
     (case rp_MediaType r of
        None \<Rightarrow> Inl ReplyMediaType
      | Some ct \<Rightarrow>
          if ct \<noteq> ''application/json'' then Inl (ReplyContentType ct)
          else
            (case rp_Body r of
               None \<Rightarrow> Inl ReplyRead
             | Some buf \<Rightarrow>
                 (case ol_Document (cl_lib C) buf of
                    None \<Rightarrow> Inl (ReplyBody JxError)
                  | Some (j, ended) \<Rightarrow>
                      (case dec j of
                         Inl e \<Rightarrow> Inl (ReplyBody e)
                       | Inr x \<Rightarrow>
                           if \<not> ended then Inl ReplyTrailing
                           else (case validate x of [] \<Rightarrow> k x | fs \<Rightarrow> Inl (ReplyInvalid fs))))))"

text \<open>Headers: one that has to be there, and one that may be missing.\<close>

definition required_header :: "client_lib \<Rightarrow> string \<Rightarrow> reply \<Rightarrow> client_error + string" where
  "required_header C name r =
     (if \<not> cl_HasHeader C (rp_Header r name) then Inl (ReplyHeader name)
      else case cl_HeaderValue C (rp_Header r name) of
             None \<Rightarrow> Inl (ReplyHeader name)
           | Some v \<Rightarrow> Inr v)"

definition optional_header ::
  "client_lib \<Rightarrow> (string \<Rightarrow> 'a option) \<Rightarrow> 'a \<Rightarrow> string \<Rightarrow> reply \<Rightarrow> client_error + 'a Opt" where
  "optional_header C conv zero name r =
     (if \<not> cl_HasHeader C (rp_Header r name) then Inr (Opt_Reset zero)
      else case Option.bind (cl_HeaderValue C (rp_Header r name)) conv of
             None \<Rightarrow> Inl (ReplyHeader name)
           | Some v \<Rightarrow> Inr (Opt_SetTo v (Opt_Reset zero)))"

definition header_then :: "client_error + 'a \<Rightarrow> ('a \<Rightarrow> client_error + 'b) \<Rightarrow> client_error + 'b" where
  "header_then h k = (case h of Inl e \<Rightarrow> Inl e | Inr v \<Rightarrow> k v)"

text \<open>\<^verbatim>\<open>Convenient error response\<close>: any other status is an error of the call.\<close>

definition default_error :: "client_lib \<Rightarrow> reply \<Rightarrow> client_error + 'a" where
  "default_error C r =
     (case body_then C ErrorEnvelope_Decode (\<lambda>_. []) r Inr of
        Inl e \<Rightarrow> Inl (DefaultFailed (rp_Status r) e)
      | Inr envelope \<Rightarrow> Inl (ErrorStatusCode (rp_Status r) envelope))"

definition decodeArchiveContextResponse :: "client_lib \<Rightarrow> reply \<Rightarrow> client_error + api_result" where
  "decodeArchiveContextResponse C r =
     (if rp_Status r = 204 then Inr ResArchiveContextNoContent
      else if rp_Status r = 401 then body_then C ArchiveContextUnauthorized_Decode (\<lambda>_. []) r (\<lambda>x. Inr (ResArchiveContextUnauthorized x))
      else if rp_Status r = 404 then body_then C ArchiveContextNotFound_Decode (\<lambda>_. []) r (\<lambda>x. Inr (ResArchiveContextNotFound x))
      else if rp_Status r = 409 then body_then C ArchiveContextConflict_Decode (\<lambda>_. []) r (\<lambda>x. Inr (ResArchiveContextConflict x))
      else default_error C r)"

definition decodeCompleteGoogleSignInResponse :: "client_lib \<Rightarrow> reply \<Rightarrow> client_error + api_result" where
  "decodeCompleteGoogleSignInResponse C r =
     (if rp_Status r = 302 then header_then (required_header C ''Location'' r) (\<lambda>l.
       header_then (optional_header C Some [] ''Set-Cookie'' r) (\<lambda>c. Inr (ResCompleteGoogleSignInFound l c)))
      else if rp_Status r = 401 then body_then C ErrorEnvelope_Decode (\<lambda>_. []) r (\<lambda>x. Inr (ResErrorEnvelope x))
      else default_error C r)"

definition decodeCreateCommitmentResponse :: "client_lib \<Rightarrow> reply \<Rightarrow> client_error + api_result" where
  "decodeCreateCommitmentResponse C r =
     (if rp_Status r = 201 then body_then C (Commitment_Decode (cl_json C)) Commitment_Validate r (\<lambda>x. Inr (ResCommitment x))
      else if rp_Status r = 404 then body_then C CreateCommitmentNotFound_Decode (\<lambda>_. []) r (\<lambda>x. Inr (ResCreateCommitmentNotFound x))
      else if rp_Status r = 422 then body_then C CreateCommitmentUnprocessableEntity_Decode (\<lambda>_. []) r (\<lambda>x. Inr (ResCreateCommitmentUnprocessableEntity x))
      else default_error C r)"

definition decodeCreateContextResponse :: "client_lib \<Rightarrow> reply \<Rightarrow> client_error + api_result" where
  "decodeCreateContextResponse C r =
     (if rp_Status r = 201 then body_then C (Context_Decode (cl_json C)) Context_Validate r (\<lambda>x. Inr (ResContext x))
      else if rp_Status r = 409 then body_then C CreateContextConflict_Decode (\<lambda>_. []) r (\<lambda>x. Inr (ResCreateContextConflict x))
      else if rp_Status r = 422 then body_then C CreateContextUnprocessableEntity_Decode (\<lambda>_. []) r (\<lambda>x. Inr (ResCreateContextUnprocessableEntity x))
      else default_error C r)"

definition decodeCreateTaskResponse :: "client_lib \<Rightarrow> reply \<Rightarrow> client_error + api_result" where
  "decodeCreateTaskResponse C r =
     (if rp_Status r = 201 then body_then C (Task_Decode (cl_json C)) (Task_Validate C) r (\<lambda>x. Inr (ResTask x))
      else if rp_Status r = 404 then body_then C CreateTaskNotFound_Decode (\<lambda>_. []) r (\<lambda>x. Inr (ResCreateTaskNotFound x))
      else if rp_Status r = 422 then body_then C CreateTaskUnprocessableEntity_Decode (\<lambda>_. []) r (\<lambda>x. Inr (ResCreateTaskUnprocessableEntity x))
      else default_error C r)"

definition decodeGetContextResponse :: "client_lib \<Rightarrow> reply \<Rightarrow> client_error + api_result" where
  "decodeGetContextResponse C r =
     (if rp_Status r = 200 then body_then C (Context_Decode (cl_json C)) Context_Validate r (\<lambda>x. Inr (ResContext x))
      else if rp_Status r = 404 then body_then C ErrorEnvelope_Decode (\<lambda>_. []) r (\<lambda>x. Inr (ResErrorEnvelope x))
      else default_error C r)"

definition decodeGetCurrentSessionResponse :: "client_lib \<Rightarrow> reply \<Rightarrow> client_error + api_result" where
  "decodeGetCurrentSessionResponse C r =
     (if rp_Status r = 200 then body_then C (CurrentSession_Decode (cl_json C)) CurrentSession_Validate r (\<lambda>x. Inr (ResCurrentSession x))
      else if rp_Status r = 401 then body_then C ErrorEnvelope_Decode (\<lambda>_. []) r (\<lambda>x. Inr (ResErrorEnvelope x))
      else default_error C r)"

definition decodeListAccountsResponse :: "client_lib \<Rightarrow> reply \<Rightarrow> client_error + api_result" where
  "decodeListAccountsResponse C r =
     (if rp_Status r = 200 then body_then C (AccountList_Decode (cl_json C)) AccountList_Validate r (\<lambda>x. Inr (ResAccountList x))
      else default_error C r)"

definition decodeListAuthProvidersResponse :: "client_lib \<Rightarrow> reply \<Rightarrow> client_error + api_result" where
  "decodeListAuthProvidersResponse C r =
     (if rp_Status r = 200 then body_then C (LinkedProviderList_Decode (cl_json C)) LinkedProviderList_Validate r (\<lambda>x. Inr (ResLinkedProviderList x))
      else if rp_Status r = 401 then body_then C ErrorEnvelope_Decode (\<lambda>_. []) r (\<lambda>x. Inr (ResErrorEnvelope x))
      else default_error C r)"

definition decodeListContextsResponse :: "client_lib \<Rightarrow> reply \<Rightarrow> client_error + api_result" where
  "decodeListContextsResponse C r =
     (if rp_Status r = 200 then body_then C (ContextList_Decode (cl_json C)) ContextList_Validate r (\<lambda>x. Inr (ResContextList x))
      else default_error C r)"

definition decodeListSessionsResponse :: "client_lib \<Rightarrow> reply \<Rightarrow> client_error + api_result" where
  "decodeListSessionsResponse C r =
     (if rp_Status r = 200 then body_then C (SessionList_Decode (cl_json C)) SessionList_Validate r (\<lambda>x. Inr (ResSessionList x))
      else if rp_Status r = 401 then body_then C ErrorEnvelope_Decode (\<lambda>_. []) r (\<lambda>x. Inr (ResErrorEnvelope x))
      else default_error C r)"

definition decodeListSignalsResponse :: "client_lib \<Rightarrow> reply \<Rightarrow> client_error + api_result" where
  "decodeListSignalsResponse C r =
     (if rp_Status r = 200 then body_then C (SignalList_Decode (cl_json C)) (SignalList_Validate C) r (\<lambda>x. Inr (ResSignalList x))
      else default_error C r)"

definition decodeLoginResponse :: "client_lib \<Rightarrow> reply \<Rightarrow> client_error + api_result" where
  "decodeLoginResponse C r =
     (if rp_Status r = 200 then body_then C (CurrentSession_Decode (cl_json C)) CurrentSession_Validate r (\<lambda>x.
       header_then (optional_header C Some [] ''Set-Cookie'' r) (\<lambda>c. Inr (ResCurrentSessionHeaders c x)))
      else if rp_Status r = 401 then body_then C ErrorEnvelope_Decode (\<lambda>_. []) r (\<lambda>x. Inr (ResErrorEnvelope x))
      else if rp_Status r = 429 then body_then C ErrorEnvelope_Decode (\<lambda>_. []) r (\<lambda>x.
       header_then (optional_header C (cl_ToInt C) 0 ''Retry-After'' r) (\<lambda>n. Inr (ResErrorEnvelopeHeaders n x)))
      else default_error C r)"

definition decodeRegisterResponse :: "client_lib \<Rightarrow> reply \<Rightarrow> client_error + api_result" where
  "decodeRegisterResponse C r =
     (if rp_Status r = 201 then body_then C (CurrentSession_Decode (cl_json C)) CurrentSession_Validate r (\<lambda>x.
       header_then (optional_header C Some [] ''Set-Cookie'' r) (\<lambda>c. Inr (ResCurrentSessionHeaders c x)))
      else if rp_Status r = 409 then body_then C ErrorEnvelope_Decode (\<lambda>_. []) r (\<lambda>x. Inr (ResErrorEnvelope x))
      else default_error C r)"

definition decodeRevokeSessionResponse :: "client_lib \<Rightarrow> reply \<Rightarrow> client_error + api_result" where
  "decodeRevokeSessionResponse C r =
     (if rp_Status r = 204 then Inr ResRevokeSessionNoContent
      else if rp_Status r = 401 then body_then C RevokeSessionUnauthorized_Decode (\<lambda>_. []) r (\<lambda>x. Inr (ResRevokeSessionUnauthorized x))
      else if rp_Status r = 404 then body_then C RevokeSessionNotFound_Decode (\<lambda>_. []) r (\<lambda>x. Inr (ResRevokeSessionNotFound x))
      else default_error C r)"

definition decodeSignOutResponse :: "client_lib \<Rightarrow> reply \<Rightarrow> client_error + api_result" where
  "decodeSignOutResponse C r =
     (if rp_Status r = 204 then header_then (optional_header C Some [] ''Set-Cookie'' r) (\<lambda>c. Inr (ResSignOutNoContent c))
      else if rp_Status r = 401 then body_then C ErrorEnvelope_Decode (\<lambda>_. []) r (\<lambda>x. Inr (ResErrorEnvelope x))
      else default_error C r)"

definition decodeStartGoogleSignInResponse :: "client_lib \<Rightarrow> reply \<Rightarrow> client_error + api_result" where
  "decodeStartGoogleSignInResponse C r =
     (if rp_Status r = 302 then header_then (required_header C ''Location'' r) (\<lambda>l.
       header_then (optional_header C Some [] ''Set-Cookie'' r) (\<lambda>c. Inr (ResStartGoogleSignInFound l c)))
      else default_error C r)"

definition decodeUnlinkAuthProviderResponse :: "client_lib \<Rightarrow> reply \<Rightarrow> client_error + api_result" where
  "decodeUnlinkAuthProviderResponse C r =
     (if rp_Status r = 204 then Inr ResUnlinkAuthProviderNoContent
      else if rp_Status r = 401 then body_then C UnlinkAuthProviderUnauthorized_Decode (\<lambda>_. []) r (\<lambda>x. Inr (ResUnlinkAuthProviderUnauthorized x))
      else if rp_Status r = 404 then body_then C UnlinkAuthProviderNotFound_Decode (\<lambda>_. []) r (\<lambda>x. Inr (ResUnlinkAuthProviderNotFound x))
      else if rp_Status r = 409 then body_then C UnlinkAuthProviderConflict_Decode (\<lambda>_. []) r (\<lambda>x. Inr (ResUnlinkAuthProviderConflict x))
      else default_error C r)"

definition decodeUpdateContextResponse :: "client_lib \<Rightarrow> reply \<Rightarrow> client_error + api_result" where
  "decodeUpdateContextResponse C r =
     (if rp_Status r = 200 then body_then C (Context_Decode (cl_json C)) Context_Validate r (\<lambda>x. Inr (ResContext x))
      else if rp_Status r = 401 then body_then C UpdateContextUnauthorized_Decode (\<lambda>_. []) r (\<lambda>x. Inr (ResUpdateContextUnauthorized x))
      else if rp_Status r = 404 then body_then C UpdateContextNotFound_Decode (\<lambda>_. []) r (\<lambda>x. Inr (ResUpdateContextNotFound x))
      else if rp_Status r = 422 then body_then C UpdateContextUnprocessableEntity_Decode (\<lambda>_. []) r (\<lambda>x. Inr (ResUpdateContextUnprocessableEntity x))
      else default_error C r)"

section \<open>Response encoders of operations that are not implemented\<close>

fun encodeCreateCommitmentResponse :: "ogen \<Rightarrow> api_result \<Rightarrow> response option" where
  "encodeCreateCommitmentResponse G (ResCommitment x) = Some (json_response 201 (Commitment_Encode G x))"
| "encodeCreateCommitmentResponse G (ResCreateCommitmentNotFound e) = Some (json_response 404 (ErrorEnvelope_Encode e))"
| "encodeCreateCommitmentResponse G (ResCreateCommitmentUnprocessableEntity e) =
     Some (json_response 422 (ErrorEnvelope_Encode e))"
| "encodeCreateCommitmentResponse G r = None"

fun encodeCreateTaskResponse :: "ogen \<Rightarrow> api_result \<Rightarrow> response option" where
  "encodeCreateTaskResponse G (ResTask x) = Some (json_response 201 (Task_Encode G x))"
| "encodeCreateTaskResponse G (ResCreateTaskNotFound e) = Some (json_response 404 (ErrorEnvelope_Encode e))"
| "encodeCreateTaskResponse G (ResCreateTaskUnprocessableEntity e) = Some (json_response 422 (ErrorEnvelope_Encode e))"
| "encodeCreateTaskResponse G r = None"

fun encodeListAccountsResponse :: "ogen \<Rightarrow> api_result \<Rightarrow> response option" where
  "encodeListAccountsResponse G (ResAccountList xs) = Some (json_response 200 (AccountList_Encode G xs))"
| "encodeListAccountsResponse G r = None"

fun encodeListSignalsResponse :: "ogen \<Rightarrow> api_result \<Rightarrow> response option" where
  "encodeListSignalsResponse G (ResSignalList xs) = Some (json_response 200 (SignalList_Encode G xs))"
| "encodeListSignalsResponse G r = None"

section \<open>Requests\<close>

record outgoing =
  ou_Method :: string
  ou_URL :: url
  ou_Query :: "string \<Rightarrow> string list"
  ou_Cookies :: "(string \<times> string) list"
  ou_ContentType :: "string option"
  ou_Body :: "byte list"

text \<open>What the source of the session cookie answers for an operation.\<close>

datatype credential = Token string | SkipClientSecurity | NoCredential go_error

record Client =
  cn_ServerURL :: url
  cn_SessionCookie :: "Operation \<Rightarrow> credential"

definition trimTrailingSlashes :: "url \<Rightarrow> url" where
  "trimTrailingSlashes u =
     (let trim = (\<lambda>s. rev (dropWhile (\<lambda>c. c = CHR ''/'') (rev s)))
      in u\<lparr>url_Path := trim (url_Path u), url_RawPath := trim (url_RawPath u)\<rparr>)"

definition NewClient :: "url \<Rightarrow> (Operation \<Rightarrow> credential) \<Rightarrow> Client" where
  "NewClient u sec = \<lparr>cn_ServerURL = trimTrailingSlashes u, cn_SessionCookie = sec\<rparr>"

definition new_request :: "string \<Rightarrow> url \<Rightarrow> outgoing" where
  "new_request m u = \<lparr>ou_Method = m, ou_URL = u, ou_Query = (\<lambda>_. []), ou_Cookies = [], ou_ContentType = None, ou_Body = []\<rparr>"

text \<open>\<^verbatim>\<open>ht.SetBody(r, bytes.NewReader(encoded), contentType)\<close>.\<close>

definition set_body :: "client_lib \<Rightarrow> json \<Rightarrow> outgoing \<Rightarrow> outgoing" where
  "set_body C j r = r\<lparr>ou_ContentType := Some ''application/json'', ou_Body := cl_Bytes C j\<rparr>"

definition encodeCreateCommitmentRequest :: "client_lib \<Rightarrow> CreateCommitmentRequest \<Rightarrow> outgoing \<Rightarrow> outgoing" where
  "encodeCreateCommitmentRequest C req = set_body C (CreateCommitmentRequest_Encode (cl_json C) req)"

definition encodeCreateContextRequest :: "client_lib \<Rightarrow> CreateContextRequest \<Rightarrow> outgoing \<Rightarrow> outgoing" where
  "encodeCreateContextRequest C req = set_body C (CreateContextRequest_Encode (cl_json C) req)"

definition encodeCreateTaskRequest :: "client_lib \<Rightarrow> CreateTaskRequest \<Rightarrow> outgoing \<Rightarrow> outgoing" where
  "encodeCreateTaskRequest C req = set_body C (CreateTaskRequest_Encode (cl_json C) req)"

definition encodeLoginRequest :: "client_lib \<Rightarrow> LoginRequest \<Rightarrow> outgoing \<Rightarrow> outgoing" where
  "encodeLoginRequest C req = set_body C (LoginRequest_Encode req)"

definition encodeRegisterRequest :: "client_lib \<Rightarrow> RegisterRequest \<Rightarrow> outgoing \<Rightarrow> outgoing" where
  "encodeRegisterRequest C req = set_body C (RegisterRequest_Encode req)"

definition encodeUpdateContextRequest :: "client_lib \<Rightarrow> UpdateContextRequest \<Rightarrow> outgoing \<Rightarrow> outgoing" where
  "encodeUpdateContextRequest C req = set_body C (UpdateContextRequest_Encode (cl_json C) req)"

text \<open>\<^verbatim>\<open>securitySessionCookie\<close> of the client, and the requirement that one scheme is satisfied.\<close>

definition client_secured :: "Client \<Rightarrow> Operation \<Rightarrow> outgoing \<Rightarrow> client_error + outgoing" where
  "client_secured K oper r =
     (case cn_SessionCookie K oper of
        Token t \<Rightarrow> Inr (r\<lparr>ou_Cookies := ou_Cookies r @ [(''warp_session'', sanitizeCookieValue t)]\<rparr>)
      | SkipClientSecurity \<Rightarrow> Inl SecurityNotSatisfied
      | NoCredential e \<Rightarrow> Inl (SecuritySource e))"

text \<open>A path with a UUID at its end, and a query parameter that is sent when it is set.\<close>

definition path_then :: "client_lib \<Rightarrow> Client \<Rightarrow> string \<Rightarrow> uuid \<Rightarrow> (url \<Rightarrow> client_error + outgoing) \<Rightarrow> client_error + outgoing" where
  "path_then C K p i k =
     (case cl_PathValue C (cl_UUIDToString C i) of
        None \<Rightarrow> Inl EncodePath
      | Some seg \<Rightarrow> k (cl_AddPathParts C (cn_ServerURL K) [p, seg]))"

definition fixed_path :: "client_lib \<Rightarrow> Client \<Rightarrow> string \<Rightarrow> url" where
  "fixed_path C K p = cl_AddPathParts C (cn_ServerURL K) [p]"

definition with_query :: "string \<Rightarrow> string list \<Rightarrow> outgoing \<Rightarrow> outgoing" where
  "with_query name vs r = r\<lparr>ou_Query := (ou_Query r)(name := vs)\<rparr>"

definition query_opt :: "('a \<Rightarrow> string) \<Rightarrow> 'a Opt \<Rightarrow> string list" where
  "query_opt text v = (case Opt_Get v of None \<Rightarrow> [] | Some x \<Rightarrow> [text x])"

section \<open>oas\_client\_gen.go\<close>

text \<open>The request of each operation: the part of \<^verbatim>\<open>send...\<close> before the request is sent.\<close>

definition requestArchiveContext :: "client_lib \<Rightarrow> Client \<Rightarrow> uuid \<Rightarrow> client_error + outgoing" where
  "requestArchiveContext C K i =
     path_then C K ''/api/v1/contexts/'' i (\<lambda>u. client_secured K OpArchiveContext
       (new_request ''DELETE'' u))"

definition requestCompleteGoogleSignIn :: "client_lib \<Rightarrow> Client \<Rightarrow> CompleteGoogleSignInParams \<Rightarrow> client_error + outgoing" where
  "requestCompleteGoogleSignIn C K p =
     Inr (with_query ''error'' (query_opt (\<lambda>s. s) (cgp_Error p))
       (with_query ''state'' ([cgp_State p])
       (with_query ''code'' ([cgp_Code p])
       (new_request ''GET'' (fixed_path C K ''/api/v1/auth/google/callback'')))))"

definition requestCreateCommitment :: "client_lib \<Rightarrow> Client \<Rightarrow> CreateCommitmentRequest \<Rightarrow> client_error + outgoing" where
  "requestCreateCommitment C K req =
     client_secured K OpCreateCommitment
       (encodeCreateCommitmentRequest C req (new_request ''POST'' (fixed_path C K ''/api/v1/commitments'')))"

definition requestCreateContext :: "client_lib \<Rightarrow> Client \<Rightarrow> CreateContextRequest \<Rightarrow> client_error + outgoing" where
  "requestCreateContext C K req =
     client_secured K OpCreateContext
       (encodeCreateContextRequest C req (new_request ''POST'' (fixed_path C K ''/api/v1/contexts'')))"

definition requestCreateTask :: "client_lib \<Rightarrow> Client \<Rightarrow> CreateTaskRequest \<Rightarrow> client_error + outgoing" where
  "requestCreateTask C K req =
     client_secured K OpCreateTask
       (encodeCreateTaskRequest C req (new_request ''POST'' (fixed_path C K ''/api/v1/tasks'')))"

definition requestGetContext :: "client_lib \<Rightarrow> Client \<Rightarrow> uuid \<Rightarrow> client_error + outgoing" where
  "requestGetContext C K i =
     path_then C K ''/api/v1/contexts/'' i (\<lambda>u. client_secured K OpGetContext
       (new_request ''GET'' u))"

definition requestGetCurrentSession :: "client_lib \<Rightarrow> Client \<Rightarrow> client_error + outgoing" where
  "requestGetCurrentSession C K =
     client_secured K OpGetCurrentSession
       (new_request ''GET'' (fixed_path C K ''/api/v1/auth/session''))"

definition requestListAccounts :: "client_lib \<Rightarrow> Client \<Rightarrow> uuid Opt \<Rightarrow> client_error + outgoing" where
  "requestListAccounts C K p =
     client_secured K OpListAccounts
       (with_query ''contextId'' (query_opt (cl_UUIDToString C) p)
       (new_request ''GET'' (fixed_path C K ''/api/v1/accounts'')))"

definition requestListAuthProviders :: "client_lib \<Rightarrow> Client \<Rightarrow> client_error + outgoing" where
  "requestListAuthProviders C K =
     client_secured K OpListAuthProviders
       (new_request ''GET'' (fixed_path C K ''/api/v1/auth/providers''))"

definition requestListContexts :: "client_lib \<Rightarrow> Client \<Rightarrow> bool Opt \<Rightarrow> client_error + outgoing" where
  "requestListContexts C K p =
     client_secured K OpListContexts
       (with_query ''includeArchived'' (query_opt (cl_BoolToString C) p)
       (new_request ''GET'' (fixed_path C K ''/api/v1/contexts'')))"

definition requestListSessions :: "client_lib \<Rightarrow> Client \<Rightarrow> client_error + outgoing" where
  "requestListSessions C K =
     client_secured K OpListSessions
       (new_request ''GET'' (fixed_path C K ''/api/v1/auth/sessions''))"

definition requestListSignals :: "client_lib \<Rightarrow> Client \<Rightarrow> ListSignalsParams \<Rightarrow> client_error + outgoing" where
  "requestListSignals C K p =
     client_secured K OpListSignals
       (with_query ''limit'' (query_opt (cl_Int32ToString C) (lsp_Limit p))
       (with_query ''before'' (query_opt (cl_DateTimeToString C) (lsp_Before p))
       (with_query ''contextIds'' (map (cl_UUIDToString C) (lsp_ContextIds p))
       (new_request ''GET'' (fixed_path C K ''/api/v1/signals'')))))"

definition requestLogin :: "client_lib \<Rightarrow> Client \<Rightarrow> LoginRequest \<Rightarrow> client_error + outgoing" where
  "requestLogin C K req =
     Inr (encodeLoginRequest C req (new_request ''POST'' (fixed_path C K ''/api/v1/auth/login'')))"

definition requestRegister :: "client_lib \<Rightarrow> Client \<Rightarrow> RegisterRequest \<Rightarrow> client_error + outgoing" where
  "requestRegister C K req =
     Inr (encodeRegisterRequest C req (new_request ''POST'' (fixed_path C K ''/api/v1/auth/register'')))"

definition requestRevokeSession :: "client_lib \<Rightarrow> Client \<Rightarrow> uuid \<Rightarrow> client_error + outgoing" where
  "requestRevokeSession C K i =
     path_then C K ''/api/v1/auth/sessions/'' i (\<lambda>u. client_secured K OpRevokeSession
       (new_request ''DELETE'' u))"

definition requestSignOut :: "client_lib \<Rightarrow> Client \<Rightarrow> client_error + outgoing" where
  "requestSignOut C K =
     client_secured K OpSignOut
       (new_request ''DELETE'' (fixed_path C K ''/api/v1/auth/session''))"

definition requestStartGoogleSignIn :: "client_lib \<Rightarrow> Client \<Rightarrow> string Opt \<Rightarrow> client_error + outgoing" where
  "requestStartGoogleSignIn C K p =
     Inr (with_query ''returnTo'' (query_opt (\<lambda>s. s) p)
       (new_request ''GET'' (fixed_path C K ''/api/v1/auth/google/start'')))"

definition requestUnlinkAuthProvider :: "client_lib \<Rightarrow> Client \<Rightarrow> uuid \<Rightarrow> client_error + outgoing" where
  "requestUnlinkAuthProvider C K i =
     path_then C K ''/api/v1/auth/providers/'' i (\<lambda>u. client_secured K OpUnlinkAuthProvider
       (new_request ''DELETE'' u))"

definition requestUpdateContext :: "client_lib \<Rightarrow> Client \<Rightarrow> UpdateContextRequest \<Rightarrow> uuid \<Rightarrow> client_error + outgoing" where
  "requestUpdateContext C K req i =
     path_then C K ''/api/v1/contexts/'' i (\<lambda>u. client_secured K OpUpdateContext
       (encodeUpdateContextRequest C req (new_request ''PATCH'' u)))"

text \<open>
  Sending it, and reading what comes back. A \<open>transport\<close> is \<^verbatim>\<open>c.cfg.Client.Do\<close>; one that follows
  redirects does so before it answers.
\<close>

type_synonym 'w transport = "outgoing \<Rightarrow> 'w \<Rightarrow> (go_error + reply) \<times> 'w"

definition exchange ::
  "'w transport \<Rightarrow> client_error + outgoing \<Rightarrow> (reply \<Rightarrow> client_error + api_result) \<Rightarrow> 'w \<Rightarrow> (client_error + api_result) \<times> 'w" where
  "exchange T rq decode w =
     (case rq of
        Inl e \<Rightarrow> (Inl e, w)
      | Inr o1 \<Rightarrow>
          (case T o1 w of
             (Inl e, w1) \<Rightarrow> (Inl (DoRequest e), w1)
           | (Inr r, w1) \<Rightarrow> (decode r, w1)))"

datatype call =
    CallArchiveContext uuid
  | CallCompleteGoogleSignIn CompleteGoogleSignInParams
  | CallCreateCommitment CreateCommitmentRequest
  | CallCreateContext CreateContextRequest
  | CallCreateTask CreateTaskRequest
  | CallGetContext uuid
  | CallGetCurrentSession
  | CallListAccounts "uuid Opt"
  | CallListAuthProviders
  | CallListContexts "bool Opt"
  | CallListSessions
  | CallListSignals ListSignalsParams
  | CallLogin LoginRequest
  | CallRegister RegisterRequest
  | CallRevokeSession uuid
  | CallSignOut
  | CallStartGoogleSignIn "string Opt"
  | CallUnlinkAuthProvider uuid
  | CallUpdateContext UpdateContextRequest uuid

fun send :: "client_lib \<Rightarrow> Client \<Rightarrow> 'w transport \<Rightarrow> call \<Rightarrow> 'w \<Rightarrow> (client_error + api_result) \<times> 'w" where
  "send C K T (CallArchiveContext i) = exchange T (requestArchiveContext C K i) (decodeArchiveContextResponse C)"
| "send C K T (CallCompleteGoogleSignIn p) = exchange T (requestCompleteGoogleSignIn C K p) (decodeCompleteGoogleSignInResponse C)"
| "send C K T (CallCreateCommitment req) = exchange T (requestCreateCommitment C K req) (decodeCreateCommitmentResponse C)"
| "send C K T (CallCreateContext req) = exchange T (requestCreateContext C K req) (decodeCreateContextResponse C)"
| "send C K T (CallCreateTask req) = exchange T (requestCreateTask C K req) (decodeCreateTaskResponse C)"
| "send C K T (CallGetContext i) = exchange T (requestGetContext C K i) (decodeGetContextResponse C)"
| "send C K T CallGetCurrentSession = exchange T (requestGetCurrentSession C K) (decodeGetCurrentSessionResponse C)"
| "send C K T (CallListAccounts p) = exchange T (requestListAccounts C K p) (decodeListAccountsResponse C)"
| "send C K T CallListAuthProviders = exchange T (requestListAuthProviders C K) (decodeListAuthProvidersResponse C)"
| "send C K T (CallListContexts p) = exchange T (requestListContexts C K p) (decodeListContextsResponse C)"
| "send C K T CallListSessions = exchange T (requestListSessions C K) (decodeListSessionsResponse C)"
| "send C K T (CallListSignals p) = exchange T (requestListSignals C K p) (decodeListSignalsResponse C)"
| "send C K T (CallLogin req) = exchange T (requestLogin C K req) (decodeLoginResponse C)"
| "send C K T (CallRegister req) = exchange T (requestRegister C K req) (decodeRegisterResponse C)"
| "send C K T (CallRevokeSession i) = exchange T (requestRevokeSession C K i) (decodeRevokeSessionResponse C)"
| "send C K T CallSignOut = exchange T (requestSignOut C K) (decodeSignOutResponse C)"
| "send C K T (CallStartGoogleSignIn p) = exchange T (requestStartGoogleSignIn C K p) (decodeStartGoogleSignInResponse C)"
| "send C K T (CallUnlinkAuthProvider i) = exchange T (requestUnlinkAuthProvider C K i) (decodeUnlinkAuthProviderResponse C)"
| "send C K T (CallUpdateContext req i) = exchange T (requestUpdateContext C K req i) (decodeUpdateContextResponse C)"

end
