(* ===== verification/Client_Server.thy ===== *)
theory Client_Server
  imports Api_Client Http_Safety
begin

text \<open>
  The generated client against the server: a call arrives at its operation with the parameters it was
  given, and what the operation answers arrives as the result of the call.

  The two sides meet at the wire, where a request and a response have been parsed by package
  \<^verbatim>\<open>net/http\<close>: \<open>arrived\<close> and \<open>delivered\<close>. What the packages of ogen are relied on for is \<open>lib_laws\<close>, and
  \<open>writes\<close> for one document.
\<close>

section \<open>The wire\<close>

text \<open>The value of a cookie, without the quotes that may stand around it.\<close>

definition unquoted :: "string \<Rightarrow> string" where
  "unquoted v =
     (if length v > 1 \<and> hd v = CHR 0x22 \<and> last v = CHR 0x22 then butlast (tl v) else v)"

definition arrived :: "string \<Rightarrow> string option \<Rightarrow> outgoing \<Rightarrow> request" where
  "arrived agent ip o1 = \<lparr>rq_Method = ou_Method o1, rq_URL = ou_URL o1, rq_Query = ou_Query o1,
     rq_Cookie = (\<lambda>n. map_option unquoted (map_of (ou_Cookies o1) n)), rq_MediaType = ou_ContentType o1,
     rq_ContentLength = int (length (ou_Body o1)), rq_Body = Some (ou_Body o1), rq_RequestMethod = [],
     rq_UserAgent = agent, rq_RealIP = ip\<rparr>"

definition delivered :: "client_lib \<Rightarrow> response \<Rightarrow> reply" where
  "delivered C p = \<lparr>rp_Status = rs_status p,
     rp_MediaType = (if json_type \<in> set (rs_headers p) then Some ''application/json'' else None),
     rp_Header = (\<lambda>name. map snd (filter (\<lambda>h. fst h = name) (rs_headers p)) @
        (if name = ''Set-Cookie'' \<and> rs_cookies p \<noteq> [] then [cookies_text (rs_cookies p)] else [])),
     rp_Body = Some (case rs_body p of None \<Rightarrow> [] | Some j \<Rightarrow> cl_Bytes C j)\<rparr>"

definition net :: "client_lib \<Rightarrow> server \<Rightarrow> string \<Rightarrow> string option \<Rightarrow> world transport" where
  "net C S agent ip o1 w = (case serve_request S (arrived agent ip o1) w of (p, w1) \<Rightarrow> (Inr (delivered C p), w1))"

section \<open>Calls and operations\<close>

text \<open>A parameter with its default.\<close>

definition default_Opt :: "'a \<Rightarrow> 'a Opt \<Rightarrow> 'a Opt" where
  "default_Opt d v = NewOpt (Opt_Or v d)"

fun request_of :: "client_lib \<Rightarrow> Client \<Rightarrow> call \<Rightarrow> client_error + outgoing" where
  "request_of C K (CallArchiveContext i) = requestArchiveContext C K i"
| "request_of C K (CallCompleteGoogleSignIn p) = requestCompleteGoogleSignIn C K p"
| "request_of C K (CallCreateCommitment req) = requestCreateCommitment C K req"
| "request_of C K (CallCreateContext req) = requestCreateContext C K req"
| "request_of C K (CallCreateTask req) = requestCreateTask C K req"
| "request_of C K (CallGetContext i) = requestGetContext C K i"
| "request_of C K CallGetCurrentSession = requestGetCurrentSession C K"
| "request_of C K (CallListAccounts p) = requestListAccounts C K p"
| "request_of C K CallListAuthProviders = requestListAuthProviders C K"
| "request_of C K (CallListContexts p) = requestListContexts C K p"
| "request_of C K CallListSessions = requestListSessions C K"
| "request_of C K (CallListSignals p) = requestListSignals C K p"
| "request_of C K (CallLogin req) = requestLogin C K req"
| "request_of C K (CallRegister req) = requestRegister C K req"
| "request_of C K (CallRevokeSession i) = requestRevokeSession C K i"
| "request_of C K CallSignOut = requestSignOut C K"
| "request_of C K (CallStartGoogleSignIn p) = requestStartGoogleSignIn C K p"
| "request_of C K (CallUnlinkAuthProvider i) = requestUnlinkAuthProvider C K i"
| "request_of C K (CallUpdateContext req i) = requestUpdateContext C K req i"

fun decoder_of :: "client_lib \<Rightarrow> call \<Rightarrow> reply \<Rightarrow> client_error + api_result" where
  "decoder_of C (CallArchiveContext i) = decodeArchiveContextResponse C"
| "decoder_of C (CallCompleteGoogleSignIn p) = decodeCompleteGoogleSignInResponse C"
| "decoder_of C (CallCreateCommitment req) = decodeCreateCommitmentResponse C"
| "decoder_of C (CallCreateContext req) = decodeCreateContextResponse C"
| "decoder_of C (CallCreateTask req) = decodeCreateTaskResponse C"
| "decoder_of C (CallGetContext i) = decodeGetContextResponse C"
| "decoder_of C CallGetCurrentSession = decodeGetCurrentSessionResponse C"
| "decoder_of C (CallListAccounts p) = decodeListAccountsResponse C"
| "decoder_of C CallListAuthProviders = decodeListAuthProvidersResponse C"
| "decoder_of C (CallListContexts p) = decodeListContextsResponse C"
| "decoder_of C CallListSessions = decodeListSessionsResponse C"
| "decoder_of C (CallListSignals p) = decodeListSignalsResponse C"
| "decoder_of C (CallLogin req) = decodeLoginResponse C"
| "decoder_of C (CallRegister req) = decodeRegisterResponse C"
| "decoder_of C (CallRevokeSession i) = decodeRevokeSessionResponse C"
| "decoder_of C CallSignOut = decodeSignOutResponse C"
| "decoder_of C (CallStartGoogleSignIn p) = decodeStartGoogleSignInResponse C"
| "decoder_of C (CallUnlinkAuthProvider i) = decodeUnlinkAuthProviderResponse C"
| "decoder_of C (CallUpdateContext req i) = decodeUpdateContextResponse C"

fun encoder_of :: "ogen \<Rightarrow> call \<Rightarrow> api_response \<Rightarrow> response option" where
  "encoder_of G (CallArchiveContext i) = encodeArchiveContextResponse"
| "encoder_of G (CallCompleteGoogleSignIn p) = encodeCompleteGoogleSignInResponse"
| "encoder_of G (CallCreateCommitment req) = (\<lambda>_. None)"
| "encoder_of G (CallCreateContext req) = encodeCreateContextResponse G"
| "encoder_of G (CallCreateTask req) = (\<lambda>_. None)"
| "encoder_of G (CallGetContext i) = encodeGetContextResponse G"
| "encoder_of G CallGetCurrentSession = encodeGetCurrentSessionResponse G"
| "encoder_of G (CallListAccounts p) = (\<lambda>_. None)"
| "encoder_of G CallListAuthProviders = encodeListAuthProvidersResponse G"
| "encoder_of G (CallListContexts p) = encodeListContextsResponse G"
| "encoder_of G CallListSessions = encodeListSessionsResponse G"
| "encoder_of G (CallListSignals p) = (\<lambda>_. None)"
| "encoder_of G (CallLogin req) = encodeLoginResponse G"
| "encoder_of G (CallRegister req) = encodeRegisterResponse G"
| "encoder_of G (CallRevokeSession i) = encodeRevokeSessionResponse"
| "encoder_of G CallSignOut = encodeSignOutResponse"
| "encoder_of G (CallStartGoogleSignIn p) = encodeStartGoogleSignInResponse"
| "encoder_of G (CallUnlinkAuthProvider i) = encodeUnlinkAuthProviderResponse"
| "encoder_of G (CallUpdateContext req i) = encodeUpdateContextResponse G"

text \<open>The operation a call names, with the context of the request, and whether it needs a session.\<close>

fun operation_of :: "server \<Rightarrow> call \<Rightarrow> rctx \<Rightarrow> handler" where
  "operation_of S (CallArchiveContext i) c = Handler_ArchiveContext (sv_env S) c i"
| "operation_of S (CallCompleteGoogleSignIn p) c = Handler_CompleteGoogleSignIn (sv_env S) (sv_oidc S) (sv_parseHost S) (sv_handler S) (sv_clock S) c p"
| "operation_of S (CallCreateCommitment req) c = UnimplementedHandler"
| "operation_of S (CallCreateContext req) c = Handler_CreateContext (sv_env S) c req"
| "operation_of S (CallCreateTask req) c = Handler_CreateTask c"
| "operation_of S (CallGetContext i) c = Handler_GetContext (sv_env S) c i"
| "operation_of S CallGetCurrentSession c = Handler_GetCurrentSession (sv_env S) (sv_clock S) c"
| "operation_of S (CallListAccounts p) c = UnimplementedHandler"
| "operation_of S CallListAuthProviders c = Handler_ListAuthProviders (sv_env S) c"
| "operation_of S (CallListContexts p) c = Handler_ListContexts (sv_env S) c (default_Opt False p)"
| "operation_of S CallListSessions c = Handler_ListSessions (sv_env S) (sv_clock S) c"
| "operation_of S (CallListSignals p) c = UnimplementedHandler"
| "operation_of S (CallLogin req) c = Handler_Login (sv_env S) (sv_handler S) (sv_clock S) c req"
| "operation_of S (CallRegister req) c = Handler_Register (sv_env S) (sv_handler S) (sv_clock S) (sv_text S) c req"
| "operation_of S (CallRevokeSession i) c = Handler_RevokeSession (sv_env S) (sv_clock S) c i"
| "operation_of S CallSignOut c = Handler_SignOut (sv_env S) (sv_handler S) (sv_clock S) c"
| "operation_of S (CallStartGoogleSignIn p) c = Handler_StartGoogleSignIn (sv_env S) (sv_oidc S) (sv_handler S) (sv_clock S) (default_Opt ''/'' p)"
| "operation_of S (CallUnlinkAuthProvider i) c = Handler_UnlinkAuthProvider (sv_env S) c i"
| "operation_of S (CallUpdateContext req i) c = Handler_UpdateContext (sv_env S) c req i"

fun open_to_all :: "call \<Rightarrow> bool" where
  "open_to_all (CallCompleteGoogleSignIn p) = True"
| "open_to_all (CallLogin req) = True"
| "open_to_all (CallRegister req) = True"
| "open_to_all (CallStartGoogleSignIn p) = True"
| "open_to_all cl = False"

text \<open>What the server does once it has decoded the call.\<close>

definition called :: "server \<Rightarrow> call \<Rightarrow> request \<Rightarrow> served_request" where
  "called S cl r =
     (if open_to_all cl then answered S (encoder_of (sv_json S) cl) (operation_of S cl (request_context S r))
      else secured S r (\<lambda>c. answered S (encoder_of (sv_json S) cl) (operation_of S cl c)))"

lemma send_eq: "send C K T cl = exchange T (request_of C K cl) (decoder_of C cl)"
  by (cases cl) simp_all

section \<open>What the libraries are relied on for\<close>

text \<open>A document that is written is read back, and nothing follows it.\<close>

definition writes :: "client_lib \<Rightarrow> json \<Rightarrow> bool" where
  "writes C j \<longleftrightarrow> cl_Bytes C j \<noteq> [] \<and> ol_Document (cl_lib C) (cl_Bytes C j) = Some (j, True)"

definition plain_char :: "char \<Rightarrow> bool" where
  "plain_char c =
     (let n = of_char c :: nat
      in (48 \<le> n \<and> n \<le> 57) \<or> (65 \<le> n \<and> n \<le> 90) \<or> (97 \<le> n \<and> n \<le> 122) \<or> n = 45)"

definition plain :: "string \<Rightarrow> bool" where
  "plain s \<longleftrightarrow> s \<noteq> [] \<and> list_all plain_char s"

text \<open>
  Headers and parameters of the query are read as they were written, plain segments are put into a
  path and read from it unchanged, and the texts of values are read back.
\<close>

definition header_laws :: "client_lib \<Rightarrow> bool" where
  "header_laws C \<longleftrightarrow> (\<forall>v. cl_HasHeader C [v] \<and> cl_HeaderValue C [v] = Some v) \<and> \<not> cl_HasHeader C []
     \<and> (\<forall>n < 2 ^ 63. cl_ToInt C (Sprintf_d n) = Some (int n))"

definition query_laws :: "client_lib \<Rightarrow> bool" where
  "query_laws C \<longleftrightarrow> \<not> ol_HasParam (cl_lib C) []
     \<and> (\<forall>v vs. ol_HasParam (cl_lib C) (v # vs) \<and> ol_QueryArray (cl_lib C) (v # vs) = Some (v # vs))
     \<and> (\<forall>v. ol_QueryValue (cl_lib C) [v] = Some v)
     \<and> (\<forall>b. ol_ToBool (cl_lib C) (cl_BoolToString C b) = Some b)
     \<and> (\<forall>n. int32_ok n \<longrightarrow> ol_ToInt32 (cl_lib C) (cl_Int32ToString C n) = Some n)"

definition path_laws :: "client_lib \<Rightarrow> bool" where
  "path_laws C \<longleftrightarrow> (\<forall>s. plain s \<longrightarrow> cl_PathValue C s = Some s \<and> ol_PathValue (cl_lib C) s = Some s)
     \<and> (\<forall>i. plain (cl_UUIDToString C i) \<and> ol_ToUUID (cl_lib C) (cl_UUIDToString C i) = Some i)
     \<and> (\<forall>u ps. url_RawPath u = [] \<and> list_all (list_all (\<lambda>c. plain_char c \<or> c = CHR ''/'')) ps \<longrightarrow>
          cl_AddPathParts C u ps = u\<lparr>url_Path := url_Path u @ concat ps\<rparr>)"

text \<open>A client of the server at the root of a host.\<close>

definition at_root :: "url \<Rightarrow> bool" where
  "at_root u \<longleftrightarrow> list_all (\<lambda>c. c = CHR ''/'') (url_Path u) \<and> url_RawPath u = []"

text \<open>Parameters the contract allows, and which the libraries can write.\<close>

fun call_ok :: "client_lib \<Rightarrow> call \<Rightarrow> bool" where
  "call_ok C (CallCompleteGoogleSignIn p) = Opt_ok [] anything (cgp_Error p)"
| "call_ok C (CallCreateCommitment req) =
     (CreateCommitmentRequest_ok (cl_json C) req \<and> CreateCommitmentRequest_Validate (cl_lib C) req = []
      \<and> writes C (CreateCommitmentRequest_Encode (cl_json C) req))"
| "call_ok C (CallCreateContext req) =
     (CreateContextRequest_ok (cl_json C) req \<and> CreateContextRequest_Validate (cl_lib C) req = []
      \<and> writes C (CreateContextRequest_Encode (cl_json C) req))"
| "call_ok C (CallCreateTask req) =
     (CreateTaskRequest_ok (cl_json C) req \<and> CreateTaskRequest_Validate (cl_lib C) req = []
      \<and> writes C (CreateTaskRequest_Encode (cl_json C) req))"
| "call_ok C (CallListAccounts p) = Opt_ok 0 anything p"
| "call_ok C (CallListSignals p) =
     (lsp_ContextIds p \<noteq> [] \<and> ol_ArrayLength (cl_lib C) 1 50 (length (lsp_ContextIds p))
      \<and> if_Opt (\<lambda>t. ol_ToDateTime (cl_lib C) (cl_DateTimeToString C t) = Some t) (lsp_Before p)
      \<and> if_Opt (\<lambda>n. int32_ok n \<and> ol_Int (cl_lib C) \<lparr>vi_MinSet = True, vi_Min = 1, vi_MaxSet = True, vi_Max = 200\<rparr> n)
          (lsp_Limit p))"
| "call_ok C (CallLogin req) =
     (LoginRequest_Validate (cl_lib C) req = [] \<and> writes C (LoginRequest_Encode req))"
| "call_ok C (CallRegister req) =
     (RegisterRequest_Validate (cl_lib C) req = [] \<and> writes C (RegisterRequest_Encode req))"
| "call_ok C (CallStartGoogleSignIn p) = if_Opt (ol_String (cl_lib C) returnTo_rule) p"
| "call_ok C (CallUpdateContext req i) =
     (UpdateContextRequest_ok (cl_json C) req \<and> UpdateContextRequest_Validate (cl_lib C) req = []
      \<and> writes C (UpdateContextRequest_Encode (cl_json C) req))"
| "call_ok C cl = True"

section \<open>A call arrives\<close>

lemma trim_root: "at_root u \<Longrightarrow> cn_ServerURL (NewClient u sec) = \<lparr>url_Path = [], url_RawPath = []\<rparr>"
proof -
  assume "at_root u"
  then have "dropWhile (\<lambda>c. c = CHR ''/'') (rev (url_Path u)) = []" "url_RawPath u = []"
    by (simp_all add: at_root_def list_all_iff dropWhile_eq_Nil_conv)
  then show ?thesis by (cases u) (simp add: NewClient_def trimTrailingSlashes_def)
qed

lemma fixed_url:
  assumes "path_laws C" and "at_root u" and "list_all (\<lambda>c. plain_char c \<or> c = CHR ''/'') p"
  shows "fixed_path C (NewClient u sec) p = \<lparr>url_Path = p, url_RawPath = []\<rparr>"
  using assms by (simp add: fixed_path_def trim_root path_laws_def)

lemma path_url:
  assumes "path_laws C" and "at_root u" and "list_all (\<lambda>c. plain_char c \<or> c = CHR ''/'') p"
  shows "path_then C (NewClient u sec) p i k = k \<lparr>url_Path = p @ cl_UUIDToString C i, url_RawPath = []\<rparr>"
proof -
  have "plain (cl_UUIDToString C i)" using assms(1) by (simp add: path_laws_def)
  moreover from this have "list_all (\<lambda>c. plain_char c \<or> c = CHR ''/'') (cl_UUIDToString C i)"
    by (auto simp: plain_def list_all_iff)
  ultimately show ?thesis using assms by (simp add: path_then_def trim_root path_laws_def)
qed

lemma serve_arrived:
  assumes "ou_URL o1 = \<lparr>url_Path = p, url_RawPath = []\<rparr>" and "contract_verdict (ou_Method o1) p = Call oper args"
  shows "serve_request S (arrived agent ip o1) = handle_request S oper args False (arrived agent ip o1)"
proof
  fix w
  have "ServeHTTP (sv_unescape S) [] (ou_Method o1) (ou_URL o1) = Handle oper args"
    using assms by (intro ServeHTTP_Handle) (simp add: search_path_def)
  moreover have "elem_escaped (sv_unescape S) (ou_URL o1) = False" using assms(1) by (simp add: elem_escaped_def)
  ultimately show "serve_request S (arrived agent ip o1) w = handle_request S oper args False (arrived agent ip o1) w"
    by (simp add: serve_request_def arrived_def)
qed

lemma plain_no_slash: "plain s \<Longrightarrow> CHR ''/'' \<notin> set s \<and> s \<noteq> []"
  by (auto simp: plain_def list_all_iff plain_char_def Let_def)

text \<open>The paths of the contract.\<close>

lemma fixed_verdicts:
  "contract_verdict ''GET'' ''/api/v1/auth/google/callback'' = Call OpCompleteGoogleSignIn []"
  "contract_verdict ''POST'' ''/api/v1/commitments'' = Call OpCreateCommitment []"
  "contract_verdict ''POST'' ''/api/v1/contexts'' = Call OpCreateContext []"
  "contract_verdict ''POST'' ''/api/v1/tasks'' = Call OpCreateTask []"
  "contract_verdict ''GET'' ''/api/v1/auth/session'' = Call OpGetCurrentSession []"
  "contract_verdict ''GET'' ''/api/v1/accounts'' = Call OpListAccounts []"
  "contract_verdict ''GET'' ''/api/v1/auth/providers'' = Call OpListAuthProviders []"
  "contract_verdict ''GET'' ''/api/v1/contexts'' = Call OpListContexts []"
  "contract_verdict ''GET'' ''/api/v1/auth/sessions'' = Call OpListSessions []"
  "contract_verdict ''GET'' ''/api/v1/signals'' = Call OpListSignals []"
  "contract_verdict ''POST'' ''/api/v1/auth/login'' = Call OpLogin []"
  "contract_verdict ''POST'' ''/api/v1/auth/register'' = Call OpRegister []"
  "contract_verdict ''DELETE'' ''/api/v1/auth/session'' = Call OpSignOut []"
  "contract_verdict ''GET'' ''/api/v1/auth/google/start'' = Call OpStartGoogleSignIn []"
  by code_simp+

lemma path_verdicts:
  assumes "plain s"
  shows "contract_verdict ''DELETE'' (''/api/v1/contexts/'' @ s) = Call OpArchiveContext [s]"
    "contract_verdict ''GET'' (''/api/v1/contexts/'' @ s) = Call OpGetContext [s]"
    "contract_verdict ''PATCH'' (''/api/v1/contexts/'' @ s) = Call OpUpdateContext [s]"
    "contract_verdict ''DELETE'' (''/api/v1/auth/sessions/'' @ s) = Call OpRevokeSession [s]"
    "contract_verdict ''DELETE'' (''/api/v1/auth/providers/'' @ s) = Call OpUnlinkAuthProvider [s]"
  using plain_no_slash [OF assms] by (simp_all add: contract_verdict_def contract_def)

lemma client_secured_Inr:
  assumes "client_secured K oper r = Inr o1"
  shows "ou_Method o1 = ou_Method r \<and> ou_URL o1 = ou_URL r \<and> ou_Query o1 = ou_Query r
    \<and> ou_ContentType o1 = ou_ContentType r \<and> ou_Body o1 = ou_Body r"
  using assms by (auto simp: client_secured_def split: credential.splits)

lemma outgoing_simps:
  "ou_Method (new_request m u) = m" "ou_URL (new_request m u) = u" "ou_Query (new_request m u) = (\<lambda>_. [])"
  "ou_Method (set_body C j r) = ou_Method r" "ou_URL (set_body C j r) = ou_URL r"
  "ou_ContentType (set_body C j r) = Some ''application/json''" "ou_Body (set_body C j r) = cl_Bytes C j"
  "ou_Method (with_query n vs r) = ou_Method r" "ou_URL (with_query n vs r) = ou_URL r"
  "ou_Query (with_query n vs r) = (ou_Query r)(n := vs)"
  by (simp_all add: new_request_def set_body_def with_query_def)

lemma arrived_query: "rq_Query (arrived agent ip o1) = ou_Query o1"
  by (simp add: arrived_def)

lemma decoded_Inr: "decoded S (Inr x) k = k x"
  by (rule ext) (simp add: decoded_def)

lemma body_arrives:
  assumes "writes C j" and "ou_ContentType o1 = Some ''application/json''" and "ou_Body o1 = cl_Bytes C j"
    and "dec j = Inr req" and "validate req = []"
  shows "decode_body (cl_lib C) dec validate (arrived agent ip o1) = Inr req"
  using assms by (simp add: decode_body_def arrived_def writes_def)

lemma query_arrives:
  assumes "query_laws C" and "if_Opt (\<lambda>v. conv (text v) = Some v \<and> valid v) p"
  shows "query_optional (cl_lib C) conv valid name (Opt_SetTo d (Opt_Reset z)) (query_opt text p) = Inr (default_Opt d p)"
    and "Opt_ok z anything p \<Longrightarrow> query_optional (cl_lib C) conv valid name (Opt_Reset z) (query_opt text p) = Inr p"
proof -
  show "query_optional (cl_lib C) conv valid name (Opt_SetTo d (Opt_Reset z)) (query_opt text p) = Inr (default_Opt d p)"
    using assms
    by (cases "Opt_Get p") (simp_all add: query_optional_def query_opt_def query_value_def query_laws_def if_Opt_def
        default_Opt_def Opt_Or_def Opt_SetTo_def Opt_Reset_def NewOpt_def)
  assume "Opt_ok z anything p"
  then show "query_optional (cl_lib C) conv valid name (Opt_Reset z) (query_opt text p) = Inr p"
    using assms
    by (cases "Opt_Get p") (auto elim!: Opt_ok_cases simp: query_optional_def query_opt_def query_value_def
        query_laws_def if_Opt_def Opt_Get_def Opt_SetTo_def Opt_Reset_def NewOpt_def)
qed

lemma segment_arrives:
  assumes "path_laws C"
  shows "decode_path_uuid (cl_lib C) name (cl_UUIDToString C i) False = Inr i"
  using assms by (simp add: decode_path_uuid_def path_laws_def plain_def)

text \<open>A call whose request reaches its operation, and whose parameters are decoded.\<close>

lemma arrives:
  assumes "ou_URL o1 = \<lparr>url_Path = p, url_RawPath = []\<rparr>" and "contract_verdict (ou_Method o1) p = Call oper args"
    and "handle_request S oper args False (arrived agent ip o1) = called S cl (arrived agent ip o1)"
  shows "serve_request S (arrived agent ip o1) = called S cl (arrived agent ip o1)"
  using serve_arrived [OF assms(1,2)] assms(3) by simp

lemma slash_chars:
  "list_all (\<lambda>c. plain_char c \<or> c = CHR ''/'') ''/api/v1/contexts/''"
  "list_all (\<lambda>c. plain_char c \<or> c = CHR ''/'') ''/api/v1/auth/sessions/''"
  "list_all (\<lambda>c. plain_char c \<or> c = CHR ''/'') ''/api/v1/auth/providers/''"
  "list_all (\<lambda>c. plain_char c \<or> c = CHR ''/'') ''/api/v1/auth/google/callback''"
  "list_all (\<lambda>c. plain_char c \<or> c = CHR ''/'') ''/api/v1/auth/google/start''"
  "list_all (\<lambda>c. plain_char c \<or> c = CHR ''/'') ''/api/v1/commitments''"
  "list_all (\<lambda>c. plain_char c \<or> c = CHR ''/'') ''/api/v1/contexts''"
  "list_all (\<lambda>c. plain_char c \<or> c = CHR ''/'') ''/api/v1/tasks''"
  "list_all (\<lambda>c. plain_char c \<or> c = CHR ''/'') ''/api/v1/auth/session''"
  "list_all (\<lambda>c. plain_char c \<or> c = CHR ''/'') ''/api/v1/accounts''"
  "list_all (\<lambda>c. plain_char c \<or> c = CHR ''/'') ''/api/v1/auth/providers''"
  "list_all (\<lambda>c. plain_char c \<or> c = CHR ''/'') ''/api/v1/auth/sessions''"
  "list_all (\<lambda>c. plain_char c \<or> c = CHR ''/'') ''/api/v1/signals''"
  "list_all (\<lambda>c. plain_char c \<or> c = CHR ''/'') ''/api/v1/auth/login''"
  "list_all (\<lambda>c. plain_char c \<or> c = CHR ''/'') ''/api/v1/auth/register''"
  by code_simp+

lemma uuid_plain: "path_laws C \<Longrightarrow> plain (cl_UUIDToString C i)"
  by (simp add: path_laws_def)

lemmas handle_defs =
  handleArchiveContextRequest_def handleCompleteGoogleSignInRequest_def handleCreateCommitmentRequest_def handleCreateContextRequest_def handleCreateTaskRequest_def handleGetContextRequest_def handleGetCurrentSessionRequest_def handleListAccountsRequest_def handleListAuthProvidersRequest_def handleListContextsRequest_def handleListSessionsRequest_def handleListSignalsRequest_def handleLoginRequest_def handleRegisterRequest_def handleRevokeSessionRequest_def handleSignOutRequest_def handleStartGoogleSignInRequest_def handleUnlinkAuthProviderRequest_def handleUpdateContextRequest_def

lemmas request_defs =
  requestArchiveContext_def requestCompleteGoogleSignIn_def requestCreateCommitment_def requestCreateContext_def requestCreateTask_def requestGetContext_def requestGetCurrentSession_def requestListAccounts_def requestListAuthProviders_def requestListContexts_def requestListSessions_def requestListSignals_def requestLogin_def requestRegister_def requestRevokeSession_def requestSignOut_def requestStartGoogleSignIn_def requestUnlinkAuthProvider_def requestUpdateContext_def

lemmas body_defs =
  encodeCreateCommitmentRequest_def encodeCreateContextRequest_def encodeCreateTaskRequest_def encodeLoginRequest_def
  encodeRegisterRequest_def encodeUpdateContextRequest_def

lemmas urls = fixed_url [OF _ _ slash_chars(4)] fixed_url [OF _ _ slash_chars(5)] fixed_url [OF _ _ slash_chars(6)]
  fixed_url [OF _ _ slash_chars(7)] fixed_url [OF _ _ slash_chars(8)] fixed_url [OF _ _ slash_chars(9)]
  fixed_url [OF _ _ slash_chars(10)] fixed_url [OF _ _ slash_chars(11)] fixed_url [OF _ _ slash_chars(12)]
  fixed_url [OF _ _ slash_chars(13)] fixed_url [OF _ _ slash_chars(14)] fixed_url [OF _ _ slash_chars(15)]
  path_url [OF _ _ slash_chars(1)] path_url [OF _ _ slash_chars(2)] path_url [OF _ _ slash_chars(3)]

lemmas arrive_simps = called_def decoded_Inr outgoing_simps urls fixed_verdicts path_verdicts [simplified]
  uuid_plain request_defs handle_defs body_defs

lemma GetCurrentSession_arrives:
  assumes "path_laws C" and "at_root u" and "requestGetCurrentSession C (NewClient u sec) = Inr o1"
  shows "serve_request S (arrived agent ip o1) = called S CallGetCurrentSession (arrived agent ip o1)"
  using assms
  by (intro arrives [where p = "''/api/v1/auth/session''" and oper = OpGetCurrentSession and args = "[]"])
    (auto simp: arrive_simps dest!: client_secured_Inr)

lemma ListAuthProviders_arrives:
  assumes "path_laws C" and "at_root u" and "requestListAuthProviders C (NewClient u sec) = Inr o1"
  shows "serve_request S (arrived agent ip o1) = called S CallListAuthProviders (arrived agent ip o1)"
  using assms
  by (intro arrives [where p = "''/api/v1/auth/providers''" and oper = OpListAuthProviders and args = "[]"])
    (auto simp: arrive_simps dest!: client_secured_Inr)

lemma ListSessions_arrives:
  assumes "path_laws C" and "at_root u" and "requestListSessions C (NewClient u sec) = Inr o1"
  shows "serve_request S (arrived agent ip o1) = called S CallListSessions (arrived agent ip o1)"
  using assms
  by (intro arrives [where p = "''/api/v1/auth/sessions''" and oper = OpListSessions and args = "[]"])
    (auto simp: arrive_simps dest!: client_secured_Inr)

lemma SignOut_arrives:
  assumes "path_laws C" and "at_root u" and "requestSignOut C (NewClient u sec) = Inr o1"
  shows "serve_request S (arrived agent ip o1) = called S CallSignOut (arrived agent ip o1)"
  using assms
  by (intro arrives [where p = "''/api/v1/auth/session''" and oper = OpSignOut and args = "[]"])
    (auto simp: arrive_simps dest!: client_secured_Inr)

lemma ArchiveContext_arrives:
  assumes "path_laws C" and "at_root u" and "requestArchiveContext C (NewClient u sec) i = Inr o1" and "sv_lib S = cl_lib C"
  shows "serve_request S (arrived agent ip o1) = called S (CallArchiveContext i) (arrived agent ip o1)"
  using assms
  by (intro arrives [where p = "''/api/v1/contexts/'' @ cl_UUIDToString C i" and oper = OpArchiveContext and args = "[cl_UUIDToString C i]"])
    (auto simp: arrive_simps segment_arrives decodeArchiveContextParams_def dest!: client_secured_Inr)

lemma GetContext_arrives:
  assumes "path_laws C" and "at_root u" and "requestGetContext C (NewClient u sec) i = Inr o1" and "sv_lib S = cl_lib C"
  shows "serve_request S (arrived agent ip o1) = called S (CallGetContext i) (arrived agent ip o1)"
  using assms
  by (intro arrives [where p = "''/api/v1/contexts/'' @ cl_UUIDToString C i" and oper = OpGetContext and args = "[cl_UUIDToString C i]"])
    (auto simp: arrive_simps segment_arrives decodeGetContextParams_def dest!: client_secured_Inr)

lemma RevokeSession_arrives:
  assumes "path_laws C" and "at_root u" and "requestRevokeSession C (NewClient u sec) i = Inr o1" and "sv_lib S = cl_lib C"
  shows "serve_request S (arrived agent ip o1) = called S (CallRevokeSession i) (arrived agent ip o1)"
  using assms
  by (intro arrives [where p = "''/api/v1/auth/sessions/'' @ cl_UUIDToString C i" and oper = OpRevokeSession and args = "[cl_UUIDToString C i]"])
    (auto simp: arrive_simps segment_arrives decodeRevokeSessionParams_def dest!: client_secured_Inr)

lemma UnlinkAuthProvider_arrives:
  assumes "path_laws C" and "at_root u" and "requestUnlinkAuthProvider C (NewClient u sec) i = Inr o1" and "sv_lib S = cl_lib C"
  shows "serve_request S (arrived agent ip o1) = called S (CallUnlinkAuthProvider i) (arrived agent ip o1)"
  using assms
  by (intro arrives [where p = "''/api/v1/auth/providers/'' @ cl_UUIDToString C i" and oper = OpUnlinkAuthProvider and args = "[cl_UUIDToString C i]"])
    (auto simp: arrive_simps segment_arrives decodeUnlinkAuthProviderParams_def dest!: client_secured_Inr)

lemma CreateCommitment_arrives:
  assumes "path_laws C" and "at_root u" and "requestCreateCommitment C (NewClient u sec) req = Inr o1" and "sv_lib S = cl_lib C"
    and "call_ok C (CallCreateCommitment req)"
  shows "serve_request S (arrived agent ip o1) = called S (CallCreateCommitment req) (arrived agent ip o1)"
proof -
  have o1: "ou_URL o1 = \<lparr>url_Path = ''/api/v1/commitments'', url_RawPath = []\<rparr> \<and> ou_Method o1 = ''POST''
      \<and> ou_ContentType o1 = Some ''application/json'' \<and> ou_Body o1 = cl_Bytes C (CreateCommitmentRequest_Encode (cl_json C) req)"
    using assms(1-3) by (auto simp: arrive_simps dest!: client_secured_Inr)
  then have "decodeCreateCommitmentRequest (cl_lib C) (arrived agent ip o1) = Inr req"
    using assms(5) unfolding decodeCreateCommitmentRequest_def
    by (intro body_arrives) (auto simp: jcommitment.decode_encode )
  with o1 assms show ?thesis
    by (intro arrives [where p = "''/api/v1/commitments''" and oper = OpCreateCommitment and args = "[]"])
      (simp_all add: arrive_simps)
qed

lemma CreateContext_arrives:
  assumes "path_laws C" and "at_root u" and "requestCreateContext C (NewClient u sec) req = Inr o1" and "sv_lib S = cl_lib C"
    and "call_ok C (CallCreateContext req)"
  shows "serve_request S (arrived agent ip o1) = called S (CallCreateContext req) (arrived agent ip o1)"
proof -
  have o1: "ou_URL o1 = \<lparr>url_Path = ''/api/v1/contexts'', url_RawPath = []\<rparr> \<and> ou_Method o1 = ''POST''
      \<and> ou_ContentType o1 = Some ''application/json'' \<and> ou_Body o1 = cl_Bytes C (CreateContextRequest_Encode (cl_json C) req)"
    using assms(1-3) by (auto simp: arrive_simps dest!: client_secured_Inr)
  then have "decodeCreateContextRequest (cl_lib C) (arrived agent ip o1) = Inr req"
    using assms(5) unfolding decodeCreateContextRequest_def
    by (intro body_arrives) (auto simp: jcreate.decode_encode )
  with o1 assms show ?thesis
    by (intro arrives [where p = "''/api/v1/contexts''" and oper = OpCreateContext and args = "[]"])
      (simp_all add: arrive_simps)
qed

lemma CreateTask_arrives:
  assumes "path_laws C" and "at_root u" and "requestCreateTask C (NewClient u sec) req = Inr o1" and "sv_lib S = cl_lib C"
    and "call_ok C (CallCreateTask req)"
  shows "serve_request S (arrived agent ip o1) = called S (CallCreateTask req) (arrived agent ip o1)"
proof -
  have o1: "ou_URL o1 = \<lparr>url_Path = ''/api/v1/tasks'', url_RawPath = []\<rparr> \<and> ou_Method o1 = ''POST''
      \<and> ou_ContentType o1 = Some ''application/json'' \<and> ou_Body o1 = cl_Bytes C (CreateTaskRequest_Encode (cl_json C) req)"
    using assms(1-3) by (auto simp: arrive_simps dest!: client_secured_Inr)
  then have "decodeCreateTaskRequest (cl_lib C) (arrived agent ip o1) = Inr req"
    using assms(5) unfolding decodeCreateTaskRequest_def
    by (intro body_arrives) (auto simp: jtask.decode_encode )
  with o1 assms show ?thesis
    by (intro arrives [where p = "''/api/v1/tasks''" and oper = OpCreateTask and args = "[]"])
      (simp_all add: arrive_simps)
qed

lemma Login_arrives:
  assumes "path_laws C" and "at_root u" and "requestLogin C (NewClient u sec) req = Inr o1" and "sv_lib S = cl_lib C"
    and "call_ok C (CallLogin req)"
  shows "serve_request S (arrived agent ip o1) = called S (CallLogin req) (arrived agent ip o1)"
proof -
  have o1: "ou_URL o1 = \<lparr>url_Path = ''/api/v1/auth/login'', url_RawPath = []\<rparr> \<and> ou_Method o1 = ''POST''
      \<and> ou_ContentType o1 = Some ''application/json'' \<and> ou_Body o1 = cl_Bytes C (LoginRequest_Encode req)"
    using assms(1-3) by (auto simp: arrive_simps dest!: client_secured_Inr)
  then have "decodeLoginRequest (cl_lib C) (arrived agent ip o1) = Inr req"
    using assms(5) unfolding decodeLoginRequest_def
    by (intro body_arrives) (auto simp: jlogin.decode_encode LoginRequest_ok_def RegisterRequest_ok_def)
  with o1 assms show ?thesis
    by (intro arrives [where p = "''/api/v1/auth/login''" and oper = OpLogin and args = "[]"])
      (simp_all add: arrive_simps)
qed

lemma Register_arrives:
  assumes "path_laws C" and "at_root u" and "requestRegister C (NewClient u sec) req = Inr o1" and "sv_lib S = cl_lib C"
    and "call_ok C (CallRegister req)"
  shows "serve_request S (arrived agent ip o1) = called S (CallRegister req) (arrived agent ip o1)"
proof -
  have o1: "ou_URL o1 = \<lparr>url_Path = ''/api/v1/auth/register'', url_RawPath = []\<rparr> \<and> ou_Method o1 = ''POST''
      \<and> ou_ContentType o1 = Some ''application/json'' \<and> ou_Body o1 = cl_Bytes C (RegisterRequest_Encode req)"
    using assms(1-3) by (auto simp: arrive_simps dest!: client_secured_Inr)
  then have "decodeRegisterRequest (cl_lib C) (arrived agent ip o1) = Inr req"
    using assms(5) unfolding decodeRegisterRequest_def
    by (intro body_arrives) (auto simp: jregister.decode_encode LoginRequest_ok_def RegisterRequest_ok_def)
  with o1 assms show ?thesis
    by (intro arrives [where p = "''/api/v1/auth/register''" and oper = OpRegister and args = "[]"])
      (simp_all add: arrive_simps)
qed

lemma UpdateContext_arrives:
  assumes "path_laws C" and "at_root u" and "requestUpdateContext C (NewClient u sec) req i = Inr o1" and "sv_lib S = cl_lib C"
    and "call_ok C (CallUpdateContext req i)"
  shows "serve_request S (arrived agent ip o1) = called S (CallUpdateContext req i) (arrived agent ip o1)"
proof -
  have o1: "ou_URL o1 = \<lparr>url_Path = ''/api/v1/contexts/'' @ cl_UUIDToString C i, url_RawPath = []\<rparr> \<and> ou_Method o1 = ''PATCH''
      \<and> ou_ContentType o1 = Some ''application/json'' \<and> ou_Body o1 = cl_Bytes C (UpdateContextRequest_Encode (cl_json C) req)"
    using assms(1-3) by (auto simp: arrive_simps dest!: client_secured_Inr)
  then have "decodeUpdateContextRequest (cl_lib C) (arrived agent ip o1) = Inr req"
    using assms(5) unfolding decodeUpdateContextRequest_def
    by (intro body_arrives) (auto simp: jupdate.decode_encode )
  with o1 assms show ?thesis
    by (intro arrives [where p = "''/api/v1/contexts/'' @ cl_UUIDToString C i" and oper = OpUpdateContext and args = "[cl_UUIDToString C i]"])
      (simp_all add: arrive_simps segment_arrives decodeUpdateContextParams_def)
qed

text \<open>Calls with a query.\<close>

lemma required_arrives:
  "query_laws C \<Longrightarrow> query_required (cl_lib C) Some name [v] = Inr v"
  by (simp add: query_required_def query_value_def query_laws_def)

lemma CompleteGoogleSignIn_arrives:
  assumes "path_laws C" and "at_root u" and "requestCompleteGoogleSignIn C (NewClient u sec) p = Inr o1"
    and "sv_lib S = cl_lib C" and "call_ok C (CallCompleteGoogleSignIn p)" and "query_laws C"
  shows "serve_request S (arrived agent ip o1) = called S (CallCompleteGoogleSignIn p) (arrived agent ip o1)"
proof -
  have "query_optional (cl_lib C) Some (\<lambda>_. True) ''error'' (Opt_Reset []) (query_opt (\<lambda>s. s) (cgp_Error p)) = Inr (cgp_Error p)"
    using assms(5,6) by (intro query_arrives(2)) (simp_all add: if_Opt_def split: option.split)
  then have "decodeCompleteGoogleSignInParams (cl_lib C) (rq_Query (arrived agent ip o1)) = Inr p"
    using assms(1-3,6)
    by (auto simp: decodeCompleteGoogleSignInParams_def arrived_query arrive_simps required_arrives)
  with assms show ?thesis
    by (intro arrives [where p = "''/api/v1/auth/google/callback''" and oper = OpCompleteGoogleSignIn and args = "[]"])
      (auto simp: arrive_simps)
qed

lemma StartGoogleSignIn_arrives:
  assumes "path_laws C" and "at_root u" and "requestStartGoogleSignIn C (NewClient u sec) p = Inr o1"
    and "sv_lib S = cl_lib C" and "call_ok C (CallStartGoogleSignIn p)" and "query_laws C"
  shows "serve_request S (arrived agent ip o1) = called S (CallStartGoogleSignIn p) (arrived agent ip o1)"
proof -
  have "decodeStartGoogleSignInParams (cl_lib C) (rq_Query (arrived agent ip o1)) = Inr (default_Opt ''/'' p)"
    using assms(1-3,5,6) unfolding decodeStartGoogleSignInParams_def arrived_query
    by (auto simp: arrive_simps if_Opt_def split: option.splits intro!: query_arrives(1))
  with assms show ?thesis
    by (intro arrives [where p = "''/api/v1/auth/google/start''" and oper = OpStartGoogleSignIn and args = "[]"])
      (auto simp: arrive_simps)
qed

lemma ListContexts_arrives:
  assumes "path_laws C" and "at_root u" and "requestListContexts C (NewClient u sec) p = Inr o1"
    and "sv_lib S = cl_lib C" and "query_laws C"
  shows "serve_request S (arrived agent ip o1) = called S (CallListContexts p) (arrived agent ip o1)"
proof -
  have q: "rq_Query (arrived agent ip o1) ''includeArchived'' = query_opt (cl_BoolToString C) p"
    using assms(1-3) by (auto simp: arrived_query arrive_simps dest!: client_secured_Inr)
  have "if_Opt (\<lambda>v. ol_ToBool (cl_lib C) (cl_BoolToString C v) = Some v \<and> True) p"
    using assms(5) by (simp add: query_laws_def if_Opt_def split: option.split)
  from query_arrives(1) [OF assms(5) this]
  have "decodeListContextsParams (cl_lib C) (rq_Query (arrived agent ip o1)) = Inr (default_Opt False p)"
    by (simp only: decodeListContextsParams_def q)
  with assms show ?thesis
    by (intro arrives [where p = "''/api/v1/contexts''" and oper = OpListContexts and args = "[]"])
      (auto simp: arrive_simps dest!: client_secured_Inr)
qed

lemma ListAccounts_arrives:
  assumes "path_laws C" and "at_root u" and "requestListAccounts C (NewClient u sec) p = Inr o1"
    and "sv_lib S = cl_lib C" and "call_ok C (CallListAccounts p)" and "query_laws C"
  shows "serve_request S (arrived agent ip o1) = called S (CallListAccounts p) (arrived agent ip o1)"
proof -
  have q: "rq_Query (arrived agent ip o1) ''contextId'' = query_opt (cl_UUIDToString C) p"
    using assms(1-3) by (auto simp: arrived_query arrive_simps dest!: client_secured_Inr)
  have "if_Opt (\<lambda>v. ol_ToUUID (cl_lib C) (cl_UUIDToString C v) = Some v \<and> True) p"
    using assms(1) by (simp add: path_laws_def if_Opt_def split: option.split)
  from query_arrives(2) [OF assms(6) this] assms(5)
  have "decodeListAccountsParams (cl_lib C) (rq_Query (arrived agent ip o1)) = Inr p"
    by (simp only: decodeListAccountsParams_def q call_ok.simps)
  with assms show ?thesis
    by (intro arrives [where p = "''/api/v1/accounts''" and oper = OpListAccounts and args = "[]"])
      (auto simp: arrive_simps dest!: client_secured_Inr)
qed

lemma ids_arrive:
  assumes "path_laws C" and "query_laws C" and "ids \<noteq> []" and "ol_ArrayLength (cl_lib C) 1 50 (length ids)"
  shows "decodeContextIds (cl_lib C) (map (cl_UUIDToString C) ids) = Inr ids"
proof -
  have all: "those (map (ol_ToUUID (cl_lib C)) (map (cl_UUIDToString C) js)) = Some js" for js
    using assms(1) by (induction js) (simp_all add: path_laws_def)
  from assms(3) obtain v vs where vs: "map (cl_UUIDToString C) ids = v # vs" by (cases ids) auto
  then have "ol_HasParam (cl_lib C) (map (cl_UUIDToString C) ids)"
    and "ol_QueryArray (cl_lib C) (map (cl_UUIDToString C) ids) = Some (map (cl_UUIDToString C) ids)"
    using assms(2) by (simp_all add: query_laws_def)
  then show ?thesis using assms(3,4) by (simp add: decodeContextIds_def all del: map_map)
qed

lemma ListSignals_arrives:
  assumes "path_laws C" and "at_root u" and "requestListSignals C (NewClient u sec) p = Inr o1"
    and "sv_lib S = cl_lib C" and "call_ok C (CallListSignals p)" and "query_laws C"
  shows "serve_request S (arrived agent ip o1) = called S (CallListSignals p) (arrived agent ip o1)"
proof -
  let ?q = "rq_Query (arrived agent ip o1)"
  have q: "?q ''contextIds'' = map (cl_UUIDToString C) (lsp_ContextIds p)"
    "?q ''before'' = query_opt (cl_DateTimeToString C) (lsp_Before p)"
    "?q ''limit'' = query_opt (cl_Int32ToString C) (lsp_Limit p)"
    using assms(1-3) by (auto simp: arrived_query arrive_simps dest!: client_secured_Inr)
  obtain before where before: "query_optional (cl_lib C) (ol_ToDateTime (cl_lib C)) (\<lambda>_. True) ''before'' (Opt_Reset Api_Schemas.zero_time)
      (query_opt (cl_DateTimeToString C) (lsp_Before p)) = Inr before"
    using assms(5,6) by (cases "Opt_Get (lsp_Before p)")
      (simp_all add: query_optional_def query_opt_def query_value_def query_laws_def if_Opt_def)
  obtain limit where "query_optional (cl_lib C) (ol_ToInt32 (cl_lib C))
      (ol_Int (cl_lib C) \<lparr>vi_MinSet = True, vi_Min = 1, vi_MaxSet = True, vi_Max = 200\<rparr>) ''limit''
      (Opt_SetTo 50 (Opt_Reset 0)) (query_opt (cl_Int32ToString C) (lsp_Limit p)) = Inr limit"
    using assms(5,6) by (cases "Opt_Get (lsp_Limit p)")
      (simp_all add: query_optional_def query_opt_def query_value_def query_laws_def if_Opt_def)
  with before assms(1,5,6) have "\<exists>x. decodeListSignalsParams (cl_lib C) ?q = Inr x"
    by (simp add: decodeListSignalsParams_def q ids_arrive)
  with assms show ?thesis
    by (intro arrives [where p = "''/api/v1/signals''" and oper = OpListSignals and args = "[]"])
      (auto simp: arrive_simps dest!: client_secured_Inr)
qed

text \<open>Together: the server runs the operation that was called, with the parameters it was called with.\<close>

lemma call_arrives:
  assumes "path_laws C" and "query_laws C" and "at_root u" and "sv_lib S = cl_lib C" and "call_ok C cl"
    and "request_of C (NewClient u sec) cl = Inr o1"
  shows "serve_request S (arrived agent ip o1) = called S cl (arrived agent ip o1)"
  using assms
  by (cases cl) (auto intro: ArchiveContext_arrives CompleteGoogleSignIn_arrives CreateCommitment_arrives CreateContext_arrives CreateTask_arrives GetContext_arrives GetCurrentSession_arrives ListAccounts_arrives ListAuthProviders_arrives ListContexts_arrives ListSessions_arrives ListSignals_arrives Login_arrives Register_arrives RevokeSession_arrives SignOut_arrives StartGoogleSignIn_arrives UnlinkAuthProvider_arrives UpdateContext_arrives)

end
