(* ===== verification/Client_Behaviour.thy ===== *)
theory Client_Behaviour
  imports Client_Server
begin

text \<open>
  What the client makes of the server's responses, and a whole call: from the parameters to the
  operation and back to the result.
\<close>

section \<open>A response as a result\<close>

definition envelope_of :: "string \<Rightarrow> string \<Rightarrow> ApiError" where
  "envelope_of code msg = \<lparr>er_Code = code, er_Message = msg, er_Details = Opt_Reset []\<rparr>"

definition told_cookies :: "cookie list \<Rightarrow> string Opt" where
  "told_cookies cs = (if cs = [] then Opt_Reset [] else NewOpt (cookies_text cs))"

text \<open>The same Go value on both sides.\<close>

fun heard :: "api_response \<Rightarrow> api_result" where
  "heard (ErrorEnvelope code msg) = ResErrorEnvelope (envelope_of code msg)"
| "heard (ErrorEnvelopeHeaders retry code msg) = ResErrorEnvelopeHeaders (NewOpt retry) (envelope_of code msg)"
| "heard (CurrentSessionHeaders cs x) = ResCurrentSessionHeaders (told_cookies cs) x"
| "heard (CurrentSessionRes x) = ResCurrentSession x"
| "heard (SignOutNoContent cs) = ResSignOutNoContent (told_cookies cs)"
| "heard (SessionList xs) = ResSessionList xs"
| "heard RevokeSessionNoContent = ResRevokeSessionNoContent"
| "heard (RevokeSessionUnauthorized code msg) = ResRevokeSessionUnauthorized (envelope_of code msg)"
| "heard (RevokeSessionNotFound code msg) = ResRevokeSessionNotFound (envelope_of code msg)"
| "heard (LinkedProviderList xs) = ResLinkedProviderList xs"
| "heard UnlinkAuthProviderNoContent = ResUnlinkAuthProviderNoContent"
| "heard (UnlinkAuthProviderConflict code msg) = ResUnlinkAuthProviderConflict (envelope_of code msg)"
| "heard (UnlinkAuthProviderUnauthorized code msg) = ResUnlinkAuthProviderUnauthorized (envelope_of code msg)"
| "heard (UnlinkAuthProviderNotFound code msg) = ResUnlinkAuthProviderNotFound (envelope_of code msg)"
| "heard (StartGoogleSignInFound l cs) = ResStartGoogleSignInFound l (told_cookies cs)"
| "heard (CompleteGoogleSignInFound l cs) = ResCompleteGoogleSignInFound l (told_cookies cs)"
| "heard (ContextRes x) = ResContext x"
| "heard (ContextList xs) = ResContextList xs"
| "heard (CreateContextConflict code msg) = ResCreateContextConflict (envelope_of code msg)"
| "heard (CreateContextUnprocessableEntity code msg) = ResCreateContextUnprocessableEntity (envelope_of code msg)"
| "heard (UpdateContextUnauthorized code msg) = ResUpdateContextUnauthorized (envelope_of code msg)"
| "heard (UpdateContextNotFound code msg) = ResUpdateContextNotFound (envelope_of code msg)"
| "heard (UpdateContextUnprocessableEntity code msg) = ResUpdateContextUnprocessableEntity (envelope_of code msg)"
| "heard ArchiveContextNoContent = ResArchiveContextNoContent"
| "heard (ArchiveContextUnauthorized code msg) = ResArchiveContextUnauthorized (envelope_of code msg)"
| "heard (ArchiveContextNotFound code msg) = ResArchiveContextNotFound (envelope_of code msg)"
| "heard (ArchiveContextConflict code msg) = ResArchiveContextConflict (envelope_of code msg)"

text \<open>
  Values the contract allows, and whose texts are read back; a wait is not negative.
\<close>

fun readable :: "ogen \<Rightarrow> api_response \<Rightarrow> bool" where
  "readable G (ErrorEnvelopeHeaders retry code msg) = (0 \<le> retry \<and> retry < 2 ^ 63)"
| "readable G (CurrentSessionHeaders cs x) = (CurrentSession_ok G x \<and> CurrentSession_Validate x = [])"
| "readable G (CurrentSessionRes x) = (CurrentSession_ok G x \<and> CurrentSession_Validate x = [])"
| "readable G (SessionList xs) = (SessionList_ok G xs \<and> SessionList_Validate xs = [])"
| "readable G (LinkedProviderList xs) = (LinkedProviderList_ok G xs \<and> LinkedProviderList_Validate xs = [])"
| "readable G (ContextRes x) = (Context_ok G x \<and> Context_Validate x = [])"
| "readable G (ContextList xs) = (ContextList_ok G xs \<and> ContextList_Validate xs = [])"
| "readable G r = True"

definition body_written :: "client_lib \<Rightarrow> response \<Rightarrow> bool" where
  "body_written C p = (case rs_body p of None \<Rightarrow> True | Some j \<Rightarrow> writes C j)"

lemma body_delivered:
  assumes "body_written C p" and "rs_body p = Some j" and "json_type \<in> set (rs_headers p)"
    and "dec j = Inr x" and "validate x = []"
  shows "body_then C dec validate (delivered C p) k = k x"
  using assms by (simp add: body_then_def delivered_def body_written_def writes_def)

lemma envelope_ok: "ErrorEnvelope_ok (envelope_of code msg)"
  by (simp add: ErrorEnvelope_ok_def Error_ok_def envelope_of_def Opt_ok_def Opt_Reset_def)

lemma error_body_eq: "error_body code msg = ErrorEnvelope_Encode (envelope_of code msg)"
  by (simp add: error_body_def envelope_of_def)

lemma error_delivered:
  assumes "body_written C p" and "rs_body p = Some (error_body code msg)" and "json_type \<in> set (rs_headers p)"
  shows "body_then C ErrorEnvelope_Decode (\<lambda>_. []) (delivered C p) k = k (envelope_of code msg)"
  using assms unfolding error_body_eq
  by (intro body_delivered) (auto simp: jenvelope.decode_encode [OF envelope_ok])

lemma alias_delivered:
  assumes "body_written C p" and "rs_body p = Some (error_body code msg)" and "json_type \<in> set (rs_headers p)"
  shows "body_then C (alias_Decode ErrorEnvelope_Decode) (\<lambda>_. []) (delivered C p) k = k (envelope_of code msg)"
  using assms unfolding error_body_eq
  by (intro body_delivered) (auto simp: jenvelope.decode_encode [OF envelope_ok])

lemma headers_delivered:
  assumes "header_laws C"
  shows "filter (\<lambda>h. fst h = ''Set-Cookie'') (rs_headers p) = [] \<Longrightarrow>
      optional_header C Some [] ''Set-Cookie'' (delivered C p) = Inr (told_cookies (rs_cookies p))"
    and "filter (\<lambda>h. fst h = ''Location'') (rs_headers p) = [(''Location'', l)] \<Longrightarrow>
      required_header C ''Location'' (delivered C p) = Inr l"
    and "filter (\<lambda>h. fst h = ''Retry-After'') (rs_headers p) = [(''Retry-After'', Sprintf_d (nat n))] \<Longrightarrow>
      0 \<le> n \<Longrightarrow> n < 2 ^ 63 \<Longrightarrow>
      optional_header C (cl_ToInt C) 0 ''Retry-After'' (delivered C p) = Inr (NewOpt n)"
proof -
  have n: "cl_ToInt C (Sprintf_d (nat n)) = Some n" if "0 \<le> n" "n < 2 ^ 63"
  proof -
    have "nat n < 2 ^ 63" using that by (simp add: nat_less_iff)
    with assms that show ?thesis by (simp add: header_laws_def)
  qed
  show "filter (\<lambda>h. fst h = ''Set-Cookie'') (rs_headers p) = [] \<Longrightarrow>
      optional_header C Some [] ''Set-Cookie'' (delivered C p) = Inr (told_cookies (rs_cookies p))"
    using assms by (simp add: optional_header_def delivered_def header_laws_def told_cookies_def NewOpt_def
        Opt_SetTo_def Opt_Reset_def)
  show "filter (\<lambda>h. fst h = ''Location'') (rs_headers p) = [(''Location'', l)] \<Longrightarrow>
      required_header C ''Location'' (delivered C p) = Inr l"
    using assms by (simp add: required_header_def delivered_def header_laws_def)
  show "filter (\<lambda>h. fst h = ''Retry-After'') (rs_headers p) = [(''Retry-After'', Sprintf_d (nat n))] \<Longrightarrow>
      0 \<le> n \<Longrightarrow> n < 2 ^ 63 \<Longrightarrow>
      optional_header C (cl_ToInt C) 0 ''Retry-After'' (delivered C p) = Inr (NewOpt n)"
    using assms n by (simp add: optional_header_def delivered_def header_laws_def NewOpt_def Opt_SetTo_def Opt_Reset_def)
qed

section \<open>Reading a response\<close>

lemma delivered_status: "rp_Status (delivered C p) = rs_status p"
  by (simp add: delivered_def)

lemma response_parts:
  "rs_status (json_response st j) = st" "rs_headers (json_response st j) = [json_type]"
  "rs_cookies (json_response st j) = []" "rs_body (json_response st j) = Some j"
  "rs_status no_content = 204" "rs_headers no_content = []" "rs_cookies no_content = []" "rs_body no_content = None"
  by (simp_all add: json_response_def no_content_def)

context json_codec
begin

lemma body_read:
  assumes "body_written C p" and "rs_body p = Some (enc x)" and "json_type \<in> set (rs_headers p)"
    and "ok x" and "validate x = []"
  shows "body_then C dec validate (delivered C p) k = k x"
  using assms by (intro body_delivered) (auto simp: decode_encode)

end

lemmas read_simps = delivered_status response_parts error_response_def header_then_def error_delivered alias_delivered alias_defs
  jcontext.body_read jcontexts.body_read jcurrent.body_read jsessions.body_read jproviders.body_read
  headers_delivered

lemma ArchiveContext_read:
  assumes "header_laws C" and "encodeArchiveContextResponse res = Some p" and "readable (cl_json C) res" and "body_written C p"
  shows "decodeArchiveContextResponse C (delivered C p) = Inr (heard res)"
  using assms by (cases res) (auto simp: decodeArchiveContextResponse_def read_simps)

lemma CompleteGoogleSignIn_read:
  assumes "header_laws C" and "encodeCompleteGoogleSignInResponse res = Some p" and "readable (cl_json C) res" and "body_written C p"
  shows "decodeCompleteGoogleSignInResponse C (delivered C p) = Inr (heard res)"
  using assms by (cases res) (auto simp: decodeCompleteGoogleSignInResponse_def read_simps)

lemma CreateContext_read:
  assumes "header_laws C" and "encodeCreateContextResponse (cl_json C) res = Some p" and "readable (cl_json C) res" and "body_written C p"
  shows "decodeCreateContextResponse C (delivered C p) = Inr (heard res)"
  using assms by (cases res) (auto simp: decodeCreateContextResponse_def read_simps)

lemma GetContext_read:
  assumes "header_laws C" and "encodeGetContextResponse (cl_json C) res = Some p" and "readable (cl_json C) res" and "body_written C p"
  shows "decodeGetContextResponse C (delivered C p) = Inr (heard res)"
  using assms by (cases res) (auto simp: decodeGetContextResponse_def read_simps)

lemma GetCurrentSession_read:
  assumes "header_laws C" and "encodeGetCurrentSessionResponse (cl_json C) res = Some p" and "readable (cl_json C) res" and "body_written C p"
  shows "decodeGetCurrentSessionResponse C (delivered C p) = Inr (heard res)"
  using assms by (cases res) (auto simp: decodeGetCurrentSessionResponse_def read_simps)

lemma ListAuthProviders_read:
  assumes "header_laws C" and "encodeListAuthProvidersResponse (cl_json C) res = Some p" and "readable (cl_json C) res" and "body_written C p"
  shows "decodeListAuthProvidersResponse C (delivered C p) = Inr (heard res)"
  using assms by (cases res) (auto simp: decodeListAuthProvidersResponse_def read_simps)

lemma ListContexts_read:
  assumes "header_laws C" and "encodeListContextsResponse (cl_json C) res = Some p" and "readable (cl_json C) res" and "body_written C p"
  shows "decodeListContextsResponse C (delivered C p) = Inr (heard res)"
  using assms by (cases res) (auto simp: decodeListContextsResponse_def read_simps)

lemma ListSessions_read:
  assumes "header_laws C" and "encodeListSessionsResponse (cl_json C) res = Some p" and "readable (cl_json C) res" and "body_written C p"
  shows "decodeListSessionsResponse C (delivered C p) = Inr (heard res)"
  using assms by (cases res) (auto simp: decodeListSessionsResponse_def read_simps)

lemma Login_read:
  assumes "header_laws C" and "encodeLoginResponse (cl_json C) res = Some p" and "readable (cl_json C) res" and "body_written C p"
  shows "decodeLoginResponse C (delivered C p) = Inr (heard res)"
  using assms by (cases res) (auto simp: decodeLoginResponse_def read_simps)

lemma Register_read:
  assumes "header_laws C" and "encodeRegisterResponse (cl_json C) res = Some p" and "readable (cl_json C) res" and "body_written C p"
  shows "decodeRegisterResponse C (delivered C p) = Inr (heard res)"
  using assms by (cases res) (auto simp: decodeRegisterResponse_def read_simps)

lemma RevokeSession_read:
  assumes "header_laws C" and "encodeRevokeSessionResponse res = Some p" and "readable (cl_json C) res" and "body_written C p"
  shows "decodeRevokeSessionResponse C (delivered C p) = Inr (heard res)"
  using assms by (cases res) (auto simp: decodeRevokeSessionResponse_def read_simps)

lemma SignOut_read:
  assumes "header_laws C" and "encodeSignOutResponse res = Some p" and "readable (cl_json C) res" and "body_written C p"
  shows "decodeSignOutResponse C (delivered C p) = Inr (heard res)"
  using assms by (cases res) (auto simp: decodeSignOutResponse_def read_simps)

lemma StartGoogleSignIn_read:
  assumes "header_laws C" and "encodeStartGoogleSignInResponse res = Some p" and "readable (cl_json C) res" and "body_written C p"
  shows "decodeStartGoogleSignInResponse C (delivered C p) = Inr (heard res)"
  using assms by (cases res) (auto simp: decodeStartGoogleSignInResponse_def read_simps)

lemma UnlinkAuthProvider_read:
  assumes "header_laws C" and "encodeUnlinkAuthProviderResponse res = Some p" and "readable (cl_json C) res" and "body_written C p"
  shows "decodeUnlinkAuthProviderResponse C (delivered C p) = Inr (heard res)"
  using assms by (cases res) (auto simp: decodeUnlinkAuthProviderResponse_def read_simps)

lemma UpdateContext_read:
  assumes "header_laws C" and "encodeUpdateContextResponse (cl_json C) res = Some p" and "readable (cl_json C) res" and "body_written C p"
  shows "decodeUpdateContextResponse C (delivered C p) = Inr (heard res)"
  using assms by (cases res) (auto simp: decodeUpdateContextResponse_def read_simps)

lemma response_read:
  assumes "header_laws C" and "encoder_of (cl_json C) cl res = Some p" and "readable (cl_json C) res" and "body_written C p"
  shows "decoder_of C cl (delivered C p) = Inr (heard res)"
  using assms
  by (cases cl) (auto intro: ArchiveContext_read CompleteGoogleSignIn_read CreateContext_read GetContext_read GetCurrentSession_read ListAuthProviders_read ListContexts_read ListSessions_read Login_read Register_read RevokeSession_read SignOut_read StartGoogleSignIn_read UnlinkAuthProvider_read UpdateContext_read)


section \<open>A whole call\<close>

lemma operation_encodes:
  assumes "operation_of S cl c w = (Inr res, w1)"
  shows "\<exists>p. encoder_of G cl res = Some p"
proof -
  have "\<exists>sts. encodes sts (encoder_of G cl) (operation_of S cl c)"
    by (cases cl) (simp_all, (rule exI, rule handler_encodes)+)
  with assms show ?thesis by (auto simp: encodes_def)
qed

text \<open>The context an operation runs in, and the state it starts from; none when the session is missing.\<close>

definition enters :: "server \<Rightarrow> call \<Rightarrow> request \<Rightarrow> world \<Rightarrow> (rctx \<times> world) option" where
  "enters S cl r w =
     (if open_to_all cl then Some (request_context S r, w)
      else case securitySessionCookie S r w of
             (Inr (Some (prin, token)), w1) \<Rightarrow>
               Some ((request_context S r)\<lparr>rc_principal := Some prin, rc_token := token\<rparr>, w1)
           | _ \<Rightarrow> None)"

lemma called_enters:
  assumes "enters S cl r w = Some (c, w1)"
  shows "called S cl r w = answered S (encoder_of (sv_json S) cl) (operation_of S cl c) w1"
  using assms by (auto simp: enters_def called_def secured_def split: if_splits prod.splits sum.splits option.splits)

text \<open>
  A call whose response is written is served, and its response is heard: as any result that is written the
  same way, for a text may say less than the value it was made from.
\<close>

lemma served_and_heard:
  assumes "path_laws C" and "query_laws C" and "header_laws C" and "sv_lib S = cl_lib C" and "at_root u"
    and "call_ok C cl" and "request_of C (NewClient u sec) cl = Inr o1"
    and "enters S cl (arrived agent ip o1) w = Some (c, w1)" and "operation_of S cl c w1 = (Inr res, w2)"
    and "encoder_of (cl_json C) cl res = Some p" and "encoder_of (cl_json C) cl res' = Some p"
    and "readable (cl_json C) res'" and "body_written C p"
  shows "send C (NewClient u sec) (net C S agent ip) cl w = (Inr (heard res'), w2)"
proof -
  have "serve_request S (arrived agent ip o1) w = (p, w2)"
    using call_arrives [OF assms(1,2,5,4,6,7)] called_enters [OF assms(8)] assms(4,9,10) by (simp add: answered_def)
  then show ?thesis
    using response_read [OF assms(3,11-13)] assms(7) by (simp add: send_eq exchange_def net_def)
qed

text \<open>
  C38. A call of the client is the operation: with libraries that read back what they wrote, the
  server runs exactly the operation the client called, with the parameters it was called with and
  their defaults, and the client gets exactly the response the operation returned, whichever of its
  types that is, while the database is left as the operation left it.
\<close>

theorem client_call_is_operation:
  assumes "path_laws C" and "query_laws C" and "header_laws C" and "sv_lib S = cl_lib C" and "at_root u"
    and "call_ok C cl" and "request_of C (NewClient u sec) cl = Inr o1"
    and "enters S cl (arrived agent ip o1) w = Some (c, w1)" and "operation_of S cl c w1 = (Inr res, w2)"
    and "readable (cl_json C) res" and "\<And>p. encoder_of (cl_json C) cl res = Some p \<Longrightarrow> body_written C p"
  shows "send C (NewClient u sec) (net C S agent ip) cl w = (Inr (heard res), w2)"
proof -
  obtain p where p: "encoder_of (cl_json C) cl res = Some p" using operation_encodes [OF assms(9)] by blast
  show ?thesis by (rule served_and_heard [OF assms(1-9) p p assms(10) assms(11) [OF p]])
qed

section \<open>Errors\<close>

text \<open>The envelope a result carries, when it is one of the error types of its operation.\<close>

fun carried :: "api_result \<Rightarrow> ApiError option" where
  "carried (ResArchiveContextUnauthorized e) = Some e"
| "carried (ResArchiveContextNotFound e) = Some e"
| "carried (ResArchiveContextConflict e) = Some e"
| "carried (ResErrorEnvelope e) = Some e"
| "carried (ResCreateCommitmentNotFound e) = Some e"
| "carried (ResCreateCommitmentUnprocessableEntity e) = Some e"
| "carried (ResCreateContextConflict e) = Some e"
| "carried (ResCreateContextUnprocessableEntity e) = Some e"
| "carried (ResCreateTaskNotFound e) = Some e"
| "carried (ResCreateTaskUnprocessableEntity e) = Some e"
| "carried (ResErrorEnvelopeHeaders r e) = Some e"
| "carried (ResRevokeSessionUnauthorized e) = Some e"
| "carried (ResRevokeSessionNotFound e) = Some e"
| "carried (ResUnlinkAuthProviderUnauthorized e) = Some e"
| "carried (ResUnlinkAuthProviderNotFound e) = Some e"
| "carried (ResUnlinkAuthProviderConflict e) = Some e"
| "carried (ResUpdateContextUnauthorized e) = Some e"
| "carried (ResUpdateContextNotFound e) = Some e"
| "carried (ResUpdateContextUnprocessableEntity e) = Some e"
| "carried r = None"

lemma error_parts:
  assumes "400 \<le> en_status en"
  shows "rs_status (encodeErrorResponse en) = en_status en"
    "rs_body (encodeErrorResponse en) = Some (error_body (en_code en) (en_message en))"
    "json_type \<in> set (rs_headers (encodeErrorResponse en))"
    "filter (\<lambda>h. fst h = ''Retry-After'') (rs_headers (encodeErrorResponse en)) = []"
    "rs_cookies (encodeErrorResponse en) = []"
  using assms by (simp_all add: encodeErrorResponse_def error_response_def json_response_def)

lemma no_retry:
  "header_laws C \<Longrightarrow> 400 \<le> en_status en \<Longrightarrow>
   optional_header C (cl_ToInt C) 0 ''Retry-After'' (delivered C (encodeErrorResponse en)) = Inr (Opt_Reset 0)"
  by (simp add: optional_header_def delivered_def error_parts header_laws_def)

lemmas decoder_defs =
  decodeArchiveContextResponse_def decodeCompleteGoogleSignInResponse_def decodeCreateCommitmentResponse_def decodeCreateContextResponse_def decodeCreateTaskResponse_def decodeGetContextResponse_def decodeGetCurrentSessionResponse_def decodeListAccountsResponse_def decodeListAuthProvidersResponse_def decodeListContextsResponse_def decodeListSessionsResponse_def decodeListSignalsResponse_def decodeLoginResponse_def decodeRegisterResponse_def decodeRevokeSessionResponse_def decodeSignOutResponse_def decodeStartGoogleSignInResponse_def decodeUnlinkAuthProviderResponse_def decodeUpdateContextResponse_def

text \<open>
  C40. An error of the server is never read as a success: whatever the call, an error response
  arrives either as one of the error types its operation declares for that status or as an error of the
  call with that status, and in both cases with the code and the message the server gave it.
\<close>

theorem client_hears_errors:
  assumes "header_laws C" and "400 \<le> en_status en" and "body_written C (encodeErrorResponse en)"
  shows "case decoder_of C cl (delivered C (encodeErrorResponse en)) of
      Inl e \<Rightarrow> e = ErrorStatusCode (en_status en) (envelope_of (en_code en) (en_message en))
    | Inr r \<Rightarrow> carried r = Some (envelope_of (en_code en) (en_message en))"
proof -
  note read = error_delivered [OF assms(3) error_parts(2,3) [OF assms(2)]]
    alias_delivered [OF assms(3) error_parts(2,3) [OF assms(2)]]
  have status: "rp_Status (delivered C (encodeErrorResponse en)) = en_status en"
    by (simp add: delivered_status error_parts assms(2))
  then show ?thesis
    using assms(2) by (cases cl) (simp_all add: decoder_defs alias_defs read status default_error_def header_then_def no_retry assms(1))
qed

section \<open>A sample\<close>

text \<open>Libraries in a few lines, and a browser that signs out.\<close>

definition wire_lib :: client_lib where
  "wire_lib = \<lparr>cl_lib = (sample_lib JNull)\<lparr>ol_ToInt32 :=
        (\<lambda>s. Some (if hd s = CHR ''-'' then - int (digits_value (tl s)) else int (digits_value s)))\<rparr>,
     cl_HasHeader = (\<lambda>vs. vs \<noteq> []), cl_HeaderValue = (\<lambda>vs. case vs of [v] \<Rightarrow> Some v | _ \<Rightarrow> None),
     cl_ToInt = (\<lambda>s. Some (int (digits_value s))), cl_Float = (\<lambda>_ _ _. True),
     cl_UUIDToString = (\<lambda>i. Sprintf_d (unat i)), cl_BoolToString = (\<lambda>b. if b then ''true'' else ''false''),
     cl_Int32ToString = (\<lambda>n. if n < 0 then CHR ''-'' # Sprintf_d (nat (- n)) else Sprintf_d (nat n)),
     cl_DateTimeToString = (\<lambda>t. Sprintf_d (nat t)), cl_PathValue = Some,
     cl_AddPathParts = (\<lambda>u ps. u\<lparr>url_Path := url_Path u @ concat ps\<rparr>), cl_Bytes = (\<lambda>_. [0])\<rparr>"

lemma Sprintf_d_plain: "plain (Sprintf_d n)"
proof -
  have "plain_char c" if "is_digit c" for c
    using that by (simp add: is_digit_def plain_char_def Let_def)
  then have "list_all plain_char (Sprintf_d n)"
    using Sprintf_d_digits [of n] by (auto simp: list_all_iff)
  then show ?thesis by (simp add: plain_def Sprintf_d_not_Nil)
qed

lemma wire_laws: "path_laws wire_lib" "query_laws wire_lib" "header_laws wire_lib"
proof -
  have hd: "hd (Sprintf_d n) \<noteq> CHR ''-''" for n
    using Sprintf_d_digits [of n] by (cases "Sprintf_d n") (auto simp: is_digit_def)
  show "path_laws wire_lib"
    by (simp add: path_laws_def wire_lib_def sample_lib_def Sprintf_d_plain digits_value_Sprintf_d)
  show "query_laws wire_lib"
    by (auto simp: query_laws_def wire_lib_def sample_lib_def digits_value_Sprintf_d hd)
  show "header_laws wire_lib"
    by (simp add: header_laws_def wire_lib_def digits_value_Sprintf_d)
qed

definition sign_out_client :: Client where
  "sign_out_client = NewClient \<lparr>url_Path = ''/'', url_RawPath = []\<rparr> (\<lambda>_. Token ''tok'')"

definition wire_server :: server where
  "wire_server = (sample_server JNull)\<lparr>sv_lib := cl_lib wire_lib\<rparr>"

theorem client_call_is_operation_witness:
  "\<exists>w. send wire_lib sign_out_client (net wire_lib wire_server ''curl'' None) CallSignOut one_session_world
     = (Inr (ResSignOutNoContent (NewOpt
         ''warp_session=; Path=/; Expires=Thu, 01 Jan 1970 00:00:00 GMT; Max-Age=0; HttpOnly; Secure; SameSite=Lax'')), w)"
proof -
  let ?u = "\<lparr>url_Path = ''/'', url_RawPath = []\<rparr>"
  obtain o1 where o1: "request_of wire_lib (NewClient ?u (\<lambda>_. Token ''tok'')) CallSignOut = Inr o1"
    and tok: "ou_Cookies o1 = [(''warp_session'', ''tok'')]"
  proof -
    have "sanitizeCookieValue ''tok'' = ''tok''" by code_simp
    then show thesis using that
      by (simp add: requestSignOut_def client_secured_def NewClient_def new_request_def)
  qed
  have cookie: "rq_Cookie (arrived ''curl'' None o1) ''warp_session'' = Some ''tok''"
    by (simp add: arrived_def tok unquoted_def)
  let ?gone = "\<lparr>ck_Name = ''warp_session'', ck_Value = [], ck_Path = ''/'', ck_Expires = 0, ck_MaxAge = - 1,
     ck_HttpOnly = True, ck_Secure = True\<rparr>"
  obtain c w1 w2 where run: "enters wire_server CallSignOut (arrived ''curl'' None o1) one_session_world = Some (c, w1)"
    "operation_of wire_server CallSignOut c w1 = (Inr (SignOutNoContent [?gone]), w2)"
    by (simp add: wire_server_def enters_def securitySessionCookie_def HandleSessionCookie_def cookie
        AuthenticatePrincipal_def Authenticate_def call_def attempt_def best_effort_def run_query_def
        LiveSessionByTokenHash_def TouchAuthSession_def return_def one_session_world_def one_session_def live_def
        Handler_SignOut_def with_principal_def serve_def with_now_def SignOut_def expiredSessionCookie_def sessionCookie_def
        RevokeSessionByTokenHash_def Let_def reply_def fresh_world_def)
  have "send wire_lib (NewClient ?u (\<lambda>_. Token ''tok'')) (net wire_lib wire_server ''curl'' None) CallSignOut one_session_world
      = (Inr (heard (SignOutNoContent [?gone])), w2)"
    by (rule client_call_is_operation [OF wire_laws _ _ _ o1 run])
      (simp_all add: wire_server_def at_root_def body_written_def)
  then show ?thesis
    by (simp add: sign_out_client_def told_cookies_def cookies_text_def expired_cookie_text)
qed

definition failing_lib :: client_lib where
  "failing_lib = wire_lib\<lparr>cl_lib := (cl_lib wire_lib)\<lparr>ol_Document := (\<lambda>_. Some (error_body ''internal'' ''later'', True))\<rparr>\<rparr>"

theorem client_hears_errors_witness:
  "carried (case decoder_of failing_lib (CallArchiveContext 1) (delivered failing_lib (encodeErrorResponse
      \<lparr>en_status = 401, en_headers = [], en_code = ''internal'', en_message = ''later''\<rparr>)) of
      Inl e \<Rightarrow> ResArchiveContextNoContent | Inr r \<Rightarrow> r) = Some (envelope_of ''internal'' ''later'')"
proof -
  let ?en = "\<lparr>en_status = 401, en_headers = [], en_code = ''internal'', en_message = ''later''\<rparr>"
  have laws: "header_laws failing_lib" using wire_laws(3) by (simp add: header_laws_def failing_lib_def)
  have body: "body_written failing_lib (encodeErrorResponse ?en)"
    by (simp add: body_written_def writes_def failing_lib_def wire_lib_def encodeErrorResponse_def error_response_def
        json_response_def)
  note read = alias_delivered [OF body error_parts(2,3)]
  have typed: "decoder_of failing_lib (CallArchiveContext 1) (delivered failing_lib (encodeErrorResponse ?en)) \<noteq> Inl e" for e
    by (simp add: decodeArchiveContextResponse_def ArchiveContextUnauthorized_Decode_def read delivered_status error_parts)
  show ?thesis
    using client_hears_errors [OF laws _ body, of "CallArchiveContext 1"] typed by (auto split: sum.splits)
qed

end
