(* ===== verification/Json_Text.thy ===== *)
theory Json_Text
  imports Api_Json Go_Json
begin

text \<open>
  A library that does what the clients of \<^verbatim>\<open>jx\<close> rely on: documents written as text and read back. It stands
  in for \<^verbatim>\<open>jx\<close> where a property is applied; the properties themselves ask for no more than the law, that a document without
  fractions, of texts in UTF-8 and not too deep, is read back.
\<close>

section \<open>Documents that are read back\<close>

fun plain_document :: "nat \<Rightarrow> json \<Rightarrow> bool" where
  "plain_document d JNull = True"
| "plain_document d (JBool b) = True"
| "plain_document d (JInt n) = (- (2 ^ 63) \<le> n \<and> n < 2 ^ 63)"
| "plain_document d (JFloat s) = False"
| "plain_document d (JStr s) = ValidString s"
| "plain_document d (JArr js) = (0 < d \<and> list_all (plain_document (d - 1)) js)"
| "plain_document d (JObj fs) = (0 < d \<and> list_all (\<lambda>f. ValidString (fst f) \<and> plain_document (d - 1) (snd f)) fs)"

section \<open>Writing\<close>

definition int_text :: "int \<Rightarrow> string" where
  "int_text n = (if n < 0 then CHR ''-'' # Sprintf_d (nat (- n)) else Sprintf_d (nat n))"

fun doc_text :: "json \<Rightarrow> string" and items_text :: "json list \<Rightarrow> string"
  and fields_text :: "(string \<times> json) list \<Rightarrow> string" where
  "doc_text JNull = ''null''"
| "doc_text (JBool b) = (if b then ''true'' else ''false'')"
| "doc_text (JInt n) = int_text n"
| "doc_text (JFloat s) = s"
| "doc_text (JStr s) = json_quote s"
| "doc_text (JArr js) = CHR ''['' # items_text js"
| "doc_text (JObj fs) = CHR ''{'' # fields_text fs"
| "items_text [] = '']''"
| "items_text (j # js) = doc_text j @ (if js = [] then '']'' else CHR '','' # items_text js)"
| "fields_text [] = ''}''"
| "fields_text ((k, j) # fs) =
     json_quote k @ CHR '':'' # doc_text j @ (if fs = [] then ''}'' else CHR '','' # fields_text fs)"

section \<open>Reading\<close>

definition read_int :: "string \<Rightarrow> (int \<times> string) option" where
  "read_int s =
     (let (neg, t) = (case s of c # t \<Rightarrow> if c = CHR ''-'' then (True, t) else (False, s) | [] \<Rightarrow> (False, s));
          v = int (digits_value (takeWhile is_digit t))
      in if takeWhile is_digit t = [] then None else Some (if neg then - v else v, dropWhile is_digit t))"

definition literal :: "string \<Rightarrow> json \<Rightarrow> string \<Rightarrow> (json \<times> string) option" where
  "literal l j s = (if prefix l s then Some (j, drop (length l) s) else None)"

fun read_doc :: "nat \<Rightarrow> string \<Rightarrow> (json \<times> string) option"
  and read_items :: "nat \<Rightarrow> string \<Rightarrow> (json list \<times> string) option"
  and read_fields :: "nat \<Rightarrow> string \<Rightarrow> ((string \<times> json) list \<times> string) option" where
  "read_doc 0 s = None"
| "read_doc (Suc k) s =
     (case s of
        [] \<Rightarrow> None
      | c # t \<Rightarrow>
          if c = CHR 0x22 then map_option (apfst JStr) (read_string t)
          else if c = CHR ''['' then map_option (apfst JArr) (if prefix '']'' t then Some ([], tl t) else read_items k t)
          else if c = CHR ''{'' then map_option (apfst JObj) (if prefix ''}'' t then Some ([], tl t) else read_fields k t)
          else if c = CHR ''n'' then literal ''null'' JNull s
          else if c = CHR ''t'' then literal ''true'' (JBool True) s
          else if c = CHR ''f'' then literal ''false'' (JBool False) s
          else map_option (apfst JInt) (read_int s))"
| "read_items 0 s = None"
| "read_items (Suc k) s =
     Option.bind (read_doc k s) (\<lambda>(j, u).
       case u of
         [] \<Rightarrow> None
       | c # v \<Rightarrow> if c = CHR '','' then map_option (apfst (Cons j)) (read_items k v)
                 else if c = CHR '']'' then Some ([j], v) else None)"
| "read_fields 0 s = None"
| "read_fields (Suc k) s =
     (if \<not> prefix [CHR 0x22] s then None
      else Option.bind (read_string (tl s)) (\<lambda>(key, u).
        if \<not> prefix '':'' u then None
        else Option.bind (read_doc k (tl u)) (\<lambda>(j, v).
          case v of
            [] \<Rightarrow> None
          | c # x \<Rightarrow> if c = CHR '','' then map_option (apfst (Cons (key, j))) (read_fields k x)
                    else if c = CHR ''}'' then Some ([(key, j)], x) else None)))"

text \<open>Fuel: two for every byte is enough.\<close>

definition document_bytes :: "json \<Rightarrow> byte list" where
  "document_bytes j = string_to_bytes (doc_text j)"

definition read_document_bytes :: "byte list \<Rightarrow> (json \<times> bool) option" where
  "read_document_bytes bs =
     (let s = bytes_to_string bs in map_option (\<lambda>(j, u). (j, u = [])) (read_doc (2 * length s + 1) s))"

section \<open>What is written is read back\<close>

definition ends_here :: "string \<Rightarrow> bool" where
  "ends_here u \<longleftrightarrow> (case u of [] \<Rightarrow> True | c # v \<Rightarrow> \<not> is_digit c)"

lemma ends_here_simps [simp]:
  "ends_here []" "ends_here (CHR '','' # u)" "ends_here (CHR '']'' # u)" "ends_here (CHR ''}'' # u)"
  by (simp_all add: ends_here_def is_digit_def)

lemma digits_taken: "ends_here u \<Longrightarrow> takeWhile is_digit (Sprintf_d n @ u) = Sprintf_d n \<and> dropWhile is_digit (Sprintf_d n @ u) = u"
  using Sprintf_d_digits [of n]
  by (cases u) (simp_all add: ends_here_def takeWhile_append dropWhile_append list_all_iff takeWhile_eq_all_conv)

lemma Sprintf_d_head: "\<exists>c t. Sprintf_d n = c # t \<and> is_digit c"
  using Sprintf_d_digits [of n] by (cases "Sprintf_d n") auto

lemma read_int_text: "ends_here u \<Longrightarrow> read_int (int_text n @ u) = Some (n, u)"
proof -
  assume u: "ends_here u"
  obtain c t where ct: "Sprintf_d (nat n) = c # t" "is_digit c" using Sprintf_d_head by blast
  then have "(case Sprintf_d (nat n) @ u of c # t \<Rightarrow> if c = CHR ''-'' then (True, t) else (False, Sprintf_d (nat n) @ u)
      | [] \<Rightarrow> (False, Sprintf_d (nat n) @ u)) = (False, Sprintf_d (nat n) @ u)"
    by (auto simp: is_digit_def)
  then show ?thesis
    by (cases "n < 0") (simp_all add: read_int_def int_text_def digits_taken [OF u] digits_value_Sprintf_d)
qed

text \<open>The fuel that reading a document takes.\<close>

fun need :: "json \<Rightarrow> nat" and items_need :: "json list \<Rightarrow> nat" and fields_need :: "(string \<times> json) list \<Rightarrow> nat" where
  "need (JArr js) = Suc (items_need js)"
| "need (JObj fs) = Suc (fields_need fs)"
| "need j = 1"
| "items_need [] = 0"
| "items_need (j # js) = Suc (max (need j) (items_need js))"
| "fields_need [] = 0"
| "fields_need (f # fs) = Suc (max (need (snd f)) (fields_need fs))"

lemma int_text_Cons: "\<exists>c t. int_text n = c # t \<and> (is_digit c \<or> c = CHR ''-'')"
  using Sprintf_d_head [of "nat n"] by (auto simp: int_text_def)

lemma doc_text_not_Nil: "plain_document d j \<Longrightarrow> doc_text j \<noteq> []"
  using int_text_Cons by (cases j) (auto simp: json_quote_def, metis list.distinct(1))

lemma need_le:
  "plain_document d j \<Longrightarrow> need j \<le> 2 * length (doc_text j)"
  "list_all (plain_document d) js \<Longrightarrow> items_need js \<le> 2 * length (items_text js)"
  "list_all (\<lambda>f. ValidString (fst f) \<and> plain_document d (snd f)) fs \<Longrightarrow> fields_need fs \<le> 2 * length (fields_text fs)"
proof (induction j and js and fs arbitrary: d and d and d rule: doc_text_items_text_fields_text.induct)
  case (3 n)
  then show ?case using int_text_Cons [of n] by auto
next
  case (9 j js)
  have "doc_text j \<noteq> []" using 9(3) doc_text_not_Nil by auto
  then have "1 \<le> length (doc_text j)" by (cases "doc_text j") auto
  with 9(1) [of d] 9(2) [of d] 9(3) show ?case by (cases js) auto
next
  case (11 k j fs)
  then show ?case using 11(1,2) [of d] by (cases fs) (auto simp: json_quote_def)
qed (auto simp: json_quote_def intro: le_SucI)

lemma doc_text_head: "plain_document d j \<Longrightarrow> \<exists>c t. doc_text j = c # t \<and> c \<noteq> CHR '']''"
  using int_text_Cons [of "case j of JInt n \<Rightarrow> n | _ \<Rightarrow> 0"] by (cases j) (auto simp: json_quote_def is_digit_def)

declare read_doc.simps(2) [simp del] read_items.simps(2) [simp del] read_fields.simps(2) [simp del]

lemma read_doc_int: "ends_here u \<Longrightarrow> read_doc (Suc k) (int_text n @ u) = Some (JInt n, u)"
proof -
  assume u: "ends_here u"
  obtain c t where ct: "int_text n = c # t" "is_digit c \<or> c = CHR ''-''" using int_text_Cons by blast
  then have c: "c \<notin> {CHR 0x22, CHR ''['', CHR ''{'', CHR ''n'', CHR ''t'', CHR ''f''}" by (auto simp: is_digit_def)
  have "read_doc (Suc k) (c # t @ u) = map_option (apfst JInt) (read_int (c # t @ u))"
    using c by (simp add: read_doc.simps(2))
  then show ?thesis using read_int_text [OF u, of n] by (simp add: ct(1))
qed

lemma read_doc_quote: "ValidString s \<Longrightarrow> read_doc (Suc k) (json_quote s @ u) = Some (JStr s, u)"
  by (simp add: read_doc.simps(2) json_quote_append read_json_text)

lemma read_written:
  "plain_document d j \<Longrightarrow> need j \<le> k \<Longrightarrow> ends_here u \<Longrightarrow> read_doc k (doc_text j @ u) = Some (j, u)"
  "list_all (plain_document d) js \<Longrightarrow> js \<noteq> [] \<Longrightarrow> items_need js \<le> k \<Longrightarrow>
     read_items k (items_text js @ u) = Some (js, u)"
  "list_all (\<lambda>f. ValidString (fst f) \<and> plain_document d (snd f)) fs \<Longrightarrow> fs \<noteq> [] \<Longrightarrow> fields_need fs \<le> k \<Longrightarrow>
     read_fields k (fields_text fs @ u) = Some (fs, u)"
proof (induction j and js and fs arbitrary: d k u and d k u and d k u rule: doc_text_items_text_fields_text.induct)
  case 1
  then show ?case by (cases k) (simp_all add: read_doc.simps(2) literal_def)
next
  case (2 b)
  then show ?case by (cases k) (simp_all add: read_doc.simps(2) literal_def)
next
  case (3 n)
  then show ?case by (cases k) (simp_all add: read_doc_int)
next
  case (5 s)
  then show ?case by (cases k) (simp_all add: read_doc_quote)
next
  case (6 js)
  then obtain k' where k: "k = Suc k'" "items_need js \<le> k'" by (cases k) auto
  show ?case
  proof (cases js)
    case Nil
    then show ?thesis by (simp add: k read_doc.simps(2))
  next
    case (Cons j js')
    then obtain c t where "doc_text j = c # t" "c \<noteq> CHR '']''" using doc_text_head 6(2) by fastforce
    then have "\<not> prefix '']'' (items_text js @ u)" by (simp add: Cons)
    then show ?thesis using 6(1) [of "d - 1" k' u] 6(2) k Cons by (simp add: read_doc.simps(2))
  qed
next
  case (7 fs)
  then obtain k' where k: "k = Suc k'" "fields_need fs \<le> k'" by (cases k) auto
  show ?case
  proof (cases fs)
    case Nil
    then show ?thesis by (simp add: k read_doc.simps(2))
  next
    case (Cons f fs')
    then have "\<not> prefix ''}'' (fields_text fs @ u)" by (cases f) (simp add: json_quote_def)
    then show ?thesis using 7(1) [of "d - 1" k' u] 7(2) k Cons by (simp add: read_doc.simps(2))
  qed
next
  case (9 j js)
  then obtain k' where k: "k = Suc k'" "need j \<le> k'" "items_need js \<le> k'" by (cases k) auto
  then show ?case
    using 9(1) [of d k' "'']'' @ u"] 9(1) [of d k' "CHR '','' # items_text js @ u"] 9(2) [of d k' u] 9(3)
    by (auto simp: read_items.simps(2))
next
  case (11 key j fs)
  then obtain k' where k: "k = Suc k'" "need j \<le> k'" "fields_need fs \<le> k'" by (cases k) auto
  then show ?case
    using 11(1) [of d k' "''}'' @ u"] 11(1) [of d k' "CHR '','' # fields_text fs @ u"] 11(2) [of d k' u] 11(3)
    by (auto simp: read_fields.simps(2) json_quote_append read_json_text)
qed simp_all

theorem document_read_back:
  assumes "plain_document d j"
  shows "document_bytes j \<noteq> []" and "read_document_bytes (document_bytes j) = Some (j, True)"
proof -
  show "document_bytes j \<noteq> []"
    using doc_text_not_Nil [OF assms] by (simp add: document_bytes_def string_to_bytes_def)
  show "read_document_bytes (document_bytes j) = Some (j, True)"
    using read_written(1) [OF assms, of "2 * length (doc_text j) + 1" "[]"] need_le(1) [OF assms]
    by (simp add: read_document_bytes_def document_bytes_def)
qed

end
