(* ===== verification/Client_Contexts.thy ===== *)
theory Client_Contexts
  imports Client_Behaviour Json_Text
begin

text \<open>
  The tree of contexts from the tables to the caller of the client: what the invariant of the tree says of a
  row is what the client asks of a document, so a client that lists the contexts of a sound database gets
  them all.
\<close>

section \<open>Rows on the way\<close>

text \<open>
  What is asked of \<^verbatim>\<open>jx\<close>: documents of a few levels, of texts in UTF-8, 64-bit integers, truth values
  and null are read back as they were written.
\<close>

definition document_laws :: "client_lib \<Rightarrow> bool" where
  "document_laws C \<longleftrightarrow> (\<forall>j. plain_document 100 j \<longrightarrow> writes C j)"

text \<open>
  The text of a time may have less in it than the time; \<open>rt\<close> is the time that is read from it, which has the
  same text. A UUID is read back.
\<close>

definition time_as :: "ogen \<Rightarrow> (time \<Rightarrow> time) \<Rightarrow> time \<Rightarrow> bool" where
  "time_as G rt t \<longleftrightarrow> og_DecodeDateTime G (og_EncodeDateTime G t) = Some (rt t)
     \<and> og_EncodeDateTime G (rt t) = og_EncodeDateTime G t \<and> ValidString (og_EncodeDateTime G t)"

definition uuid_laws :: "ogen \<Rightarrow> bool" where
  "uuid_laws G \<longleftrightarrow> (\<forall>i. uuid_ok G i \<and> ValidString (og_EncodeUUID G i))"

text \<open>A row whose texts are UTF-8, as in the database, whose position is an \<^verbatim>\<open>int32\<close>, and whose times have a text.\<close>

definition printable :: "ogen \<Rightarrow> (time \<Rightarrow> time) \<Rightarrow> ContextRow \<Rightarrow> bool" where
  "printable G rt x \<longleftrightarrow> ValidString (cx_Slug x) \<and> ValidString (cx_Name x) \<and> pred_option ValidString (cx_ToneProfile x)
     \<and> pred_option ValidString (cx_Color x) \<and> int32_ok (cx_Position x)
     \<and> time_as G rt (cx_CreatedAt x) \<and> time_as G rt (cx_UpdatedAt x)"

definition as_read :: "(time \<Rightarrow> time) \<Rightarrow> ContextRow \<Rightarrow> ContextRow" where
  "as_read rt x = x\<lparr>cx_CreatedAt := rt (cx_CreatedAt x), cx_UpdatedAt := rt (cx_UpdatedAt x)\<rparr>"

lemma as_read_simps [simp]:
  "cx_ID (as_read rt x) = cx_ID x" "cx_ParentID (as_read rt x) = cx_ParentID x" "cx_Slug (as_read rt x) = cx_Slug x"
  "cx_Name (as_read rt x) = cx_Name x" "cx_Color (as_read rt x) = cx_Color x"
  "cx_ToneProfile (as_read rt x) = cx_ToneProfile x" "cx_Position (as_read rt x) = cx_Position x"
  "cx_IsArchived (as_read rt x) = cx_IsArchived x" "cx_CreatedAt (as_read rt x) = rt (cx_CreatedAt x)"
  "cx_UpdatedAt (as_read rt x) = rt (cx_UpdatedAt x)"
  by (simp_all add: as_read_def)

lemma contextResponse_ok:
  "uuid_laws G \<Longrightarrow> printable G rt x \<Longrightarrow> Context_ok G (contextResponse (as_read rt x))"
  by (auto simp: uuid_laws_def printable_def Context_ok_def contextResponse_def Opt_ok_def OptNil_ok_def anything_def
      NewOpt_def NewOptNil_def Opt_Reset_def OptNil_Reset_def time_ok_def time_as_def split: option.splits)

lemma contextResponse_valid: "color_token (cx_Color x) \<Longrightarrow> Context_Validate (contextResponse x) = []"
  by (auto simp: color_token_def Context_Validate_def contextResponse_def failures_def if_OptNil_def OptNil_Get_def
      NewOptNil_def OptNil_Reset_def ContextColor_Validate_def split: option.splits)

lemma contextResponse_text:
  "printable G rt x \<Longrightarrow> Context_Encode G (contextResponse (as_read rt x)) = Context_Encode G (contextResponse x)"
  by (simp add: printable_def time_as_def Context_Encode_def contextResponse_def EncodeDateTime_def)

lemma ascii_names:
  "ValidString ''id''" "ValidString ''parentId''" "ValidString ''slug''" "ValidString ''name''" "ValidString ''color''"
  "ValidString ''toneProfile''" "ValidString ''position''" "ValidString ''isArchived''" "ValidString ''createdAt''"
  "ValidString ''updatedAt''" "ValidString ''items''"
  by (simp_all add: ascii_ValidString ascii_char_def)

lemma contextResponse_plain:
  "uuid_laws G \<Longrightarrow> printable G rt x \<Longrightarrow> 2 \<le> d \<Longrightarrow> plain_document d (Context_Encode G (contextResponse x))"
  by (auto simp: uuid_laws_def printable_def Context_Encode_def contextResponse_def EncodeUUID_def EncodeDateTime_def
      field_def opt_field_def Opt_Encode_def OptNil_Encode_def NewOpt_def NewOptNil_def Opt_Reset_def OptNil_Reset_def
      time_as_def int32_ok_def ascii_names split: option.splits)

lemma context_list_readable:
  assumes "contexts_ok d" and "uuid_laws G" and "\<forall>x \<in> set (contexts d). printable G rt x"
    and "set cs \<subseteq> set (contexts d)"
  shows "readable G (ContextList (map (contextResponse \<circ> as_read rt) cs))"
    and "ContextList_Encode G (map (contextResponse \<circ> as_read rt) cs) = ContextList_Encode G (map contextResponse cs)"
    and "plain_document 100 (ContextList_Encode G (map contextResponse cs))"
proof -
  have x: "printable G rt x \<and> color_token (cx_Color x)" if "x \<in> set cs" for x
    using assms that by (auto simp: contexts_ok_def context_row_ok_def)
  then show "readable G (ContextList (map (contextResponse \<circ> as_read rt) cs))"
    using assms(2) by (auto simp: ContextList_ok_def ContextList_Validate_def failures_def list_all_iff contextResponse_ok
        contextResponse_valid)
  show "ContextList_Encode G (map (contextResponse \<circ> as_read rt) cs) = ContextList_Encode G (map contextResponse cs)"
    using x by (auto simp: ContextList_Encode_def field_def contextResponse_text)
  show "plain_document 100 (ContextList_Encode G (map contextResponse cs))"
    using x contextResponse_plain [OF assms(2), of rt _ 98]
    by (auto simp: ContextList_Encode_def field_def list_all_iff ascii_names)
qed

section \<open>A listing, end to end\<close>

text \<open>
  C39. Whoever lists the contexts through the client gets the tree: signed in, over a database that keeps the
  invariant and whose rows have a text, and when the call of the database does not fail, the client returns exactly the
  contexts of the user of the session, the archived ones only when asked for, every one once, parents before children and
  siblings by position; neither the encoding, the response nor the checks of the client lose or refuse any of them.
  Every field is that of the row, but the two times, which are as their text has them. The libraries are relied on
  to read back paths, parameters and headers, UUIDs, and documents of a few levels without fractions.
\<close>

theorem client_lists_tree:
  assumes "path_laws C" and "query_laws C" and "header_laws C" and "document_laws C" and "uuid_laws (cl_json C)"
    and "sv_lib S = cl_lib C" and "at_root u" and "call_ok C (CallListContexts p)"
    and "request_of C (NewClient u sec) (CallListContexts p) = Inr o1"
    and "enters S (CallListContexts p) (arrived agent ip o1) w = Some (c, w1)" and "rc_principal c = Some pr"
    and "e_fault (sv_env S) (w_tick w1) = None" and "contexts_ok (w_db w1)"
    and "\<forall>x \<in> set (contexts (w_db w1)). printable (cl_json C) rt x"
  shows "\<exists>cs. send C (NewClient u sec) (net C S agent ip) (CallListContexts p) w
      = (Inr (ResContextList (map (contextResponse \<circ> as_read rt) cs)), tick w1)
    \<and> mset cs = mset (filter (\<lambda>x. cx_UserID x = pr_UserID pr \<and> (Opt_Or p False \<or> \<not> cx_IsArchived x))
        (contexts (w_db w1)))
    \<and> in_tree_order cs"
proof -
  let ?mine = "filter (\<lambda>x. cx_UserID x = pr_UserID pr \<and> (Opt_Or p False \<or> \<not> cx_IsArchived x)) (contexts (w_db w1))"
  let ?enc = "encoder_of (cl_json C) (CallListContexts p)"
  obtain cs where cs: "ListTree (sv_env S) (pr_UserID pr) (Opt_Or p False) w1 = (Inr cs, tick w1)"
    and rows: "mset cs = mset ?mine" and order: "in_tree_order cs"
    using ListTree_reads [OF assms(12), of "pr_UserID pr" "Opt_Or p False"] ListContexts_spec [OF assms(13)]
    by (auto simp: listed_params)
  let ?q = "json_response 200 (ContextList_Encode (cl_json C) (map contextResponse cs))"
  have run: "operation_of S (CallListContexts p) c w1 = (Inr (ContextList (map contextResponse cs)), tick w1)"
    using assms(11) cs
    by (simp add: Handler_ListContexts_def with_principal_def serve_def reply_def default_Opt_def Opt_Or_def NewOpt_def
        Opt_Get_def)
  have "set cs \<subseteq> set (contexts (w_db w1))" using mset_eq_setD [OF rows] by auto
  note read = context_list_readable [OF assms(13,5,14) this]
  have "?enc (ContextList (map contextResponse cs)) = Some ?q"
    and "?enc (ContextList (map (contextResponse \<circ> as_read rt) cs)) = Some ?q"
    using read(2) by simp_all
  moreover have "body_written C ?q"
    using assms(4) read(3) by (simp add: body_written_def document_laws_def json_response_def)
  ultimately have "send C (NewClient u sec) (net C S agent ip) (CallListContexts p) w
      = (Inr (heard (ContextList (map (contextResponse \<circ> as_read rt) cs))), tick w1)"
    using served_and_heard [OF assms(1-3,6-10) run] read(1) by blast
  with rows order show ?thesis by auto
qed

section \<open>A sample\<close>

text \<open>The libraries of the other samples, with documents that are written as text and read back.\<close>

definition text_lib :: client_lib where
  "text_lib = wire_lib\<lparr>cl_lib := (cl_lib wire_lib)\<lparr>ol_Document := read_document_bytes\<rparr>, cl_Bytes := document_bytes\<rparr>"

lemma Sprintf_d_valid: "ValidString (Sprintf_d n)"
proof (rule ascii_ValidString)
  show "ascii (Sprintf_d n)"
    using Sprintf_d_digits [of n] by (auto simp: ascii_def list_all_iff is_digit_def ascii_char_def)
qed

lemma text_laws:
  "path_laws text_lib" "query_laws text_lib" "header_laws text_lib" "document_laws text_lib" "uuid_laws (cl_json text_lib)"
proof -
  show "path_laws text_lib" "query_laws text_lib" "header_laws text_lib"
    using wire_laws by (simp_all add: text_lib_def path_laws_def query_laws_def header_laws_def)
  show "document_laws text_lib"
    using document_read_back by (simp add: document_laws_def writes_def text_lib_def)
  show "uuid_laws (cl_json text_lib)"
    by (simp add: uuid_laws_def uuid_ok_def text_lib_def wire_lib_def sample_lib_def digits_value_Sprintf_d Sprintf_d_valid)
qed

definition areas_server :: server where
  "areas_server = (sample_server JNull)\<lparr>sv_lib := cl_lib text_lib\<rparr>"

definition signed_in_areas :: world where
  "signed_in_areas = areas_world\<lparr>w_db := four_areas\<lparr>auth_sessions := [one_session\<lparr>as_UserID := 7\<rparr>]\<rparr>\<rparr>"

theorem client_lists_tree_witness:
  "\<exists>cs w2. send text_lib sign_out_client (net text_lib areas_server ''curl'' None)
      (CallListContexts (Opt_Reset False)) signed_in_areas
    = (Inr (ResContextList (map contextResponse cs)), w2) \<and> length cs = 4 \<and> in_tree_order cs"
proof -
  let ?u = "\<lparr>url_Path = ''/'', url_RawPath = []\<rparr>" and ?cl = "CallListContexts (Opt_Reset False)"
  obtain o1 where o1: "request_of text_lib (NewClient ?u (\<lambda>_. Token ''tok'')) ?cl = Inr o1"
    and tok: "ou_Cookies o1 = [(''warp_session'', ''tok'')]"
  proof -
    have "sanitizeCookieValue ''tok'' = ''tok''" by code_simp
    then show thesis using that
      by (simp add: requestListContexts_def client_secured_def NewClient_def new_request_def with_query_def)
  qed
  have cookie: "rq_Cookie (arrived ''curl'' None o1) ''warp_session'' = Some ''tok''"
    by (simp add: arrived_def tok unquoted_def)
  obtain c w1 pr where run: "enters areas_server ?cl (arrived ''curl'' None o1) signed_in_areas = Some (c, w1)"
    and c: "rc_principal c = Some pr" "pr_UserID pr = 7"
    and w1: "contexts (w_db w1) = contexts four_areas" "users (w_db w1) = users four_areas"
    by (simp add: areas_server_def enters_def securitySessionCookie_def HandleSessionCookie_def cookie
        AuthenticatePrincipal_def Authenticate_def call_def attempt_def best_effort_def run_query_def
        LiveSessionByTokenHash_def TouchAuthSession_def return_def signed_in_areas_def one_session_def live_def
        areas_world_def Let_def)
  have ok: "contexts_ok (w_db w1)"
    using contexts_ok_four_areas w1 by (simp add: contexts_ok_def context_row_ok_def)
  have print: "\<forall>x \<in> set (contexts (w_db w1)). printable (cl_json text_lib) (\<lambda>t. t) x"
    by (simp add: w1 contexts_four_areas area_def printable_def time_as_def int32_ok_def text_lib_def wire_lib_def
        sample_lib_def digits_value_Sprintf_d Sprintf_d_valid ascii_ValidString ascii_char_def)
  have same: "contextResponse \<circ> as_read (\<lambda>t. t) = contextResponse" by (simp add: fun_eq_iff as_read_def)
  obtain cs where cs: "send text_lib (NewClient ?u (\<lambda>_. Token ''tok'')) (net text_lib areas_server ''curl'' None)
      ?cl signed_in_areas = (Inr (ResContextList (map contextResponse cs)), tick w1)"
    and rows: "mset cs = mset (filter (\<lambda>x. cx_UserID x = 7 \<and> (Opt_Or (Opt_Reset False) False \<or> \<not> cx_IsArchived x))
      (contexts (w_db w1)))" and order: "in_tree_order cs"
    using client_lists_tree [OF text_laws _ _ _ o1 run c(1) _ ok print]
    by (auto simp: c(2) same areas_server_def at_root_def Opt_ok_def Opt_Reset_def anything_def)
  have "length cs = 4"
    using mset_eq_length [OF rows] by (simp add: w1 contexts_four_areas area_def)
  with cs order show ?thesis unfolding sign_out_client_def by blast
qed

end
