(* ===== verification/Api_Enums.thy ===== *)
theory Api_Enums
  imports Api_Client
begin

text \<open>
  The enumerations of the contract, \<^verbatim>\<open>oas_schemas_gen.go\<close> and \<^verbatim>\<open>oas_json_gen.go\<close>: a value is its text. Reading
  and writing as text refuses a value that is not listed, reading from JSON does not: there the check is
  \<^verbatim>\<open>Validate\<close>. What the four functions of an enumeration promise each other is the locale \<open>text_enum\<close>.
\<close>

section \<open>The contract of an enumeration\<close>

text \<open>\<^verbatim>\<open>errors.Errorf("invalid value: %q", s)\<close>.\<close>

datatype text_error = InvalidValue string

locale text_enum =
  fixes listed :: "string list"
    and marshal :: "string \<Rightarrow> text_error + string" and unmarshal :: "string \<Rightarrow> text_error + string"
    and decode :: "string decoder" and valid :: "string \<Rightarrow> bool"
  assumes marshal_listed: "marshal s = (if s \<in> set listed then Inr s else Inl (InvalidValue s))"
    and unmarshal_listed: "unmarshal s = (if s \<in> set listed then Inr s else Inl (InvalidValue s))"
    and decode_text: "decode j = jx_Str j"
    and valid_listed: "valid s \<longleftrightarrow> s \<in> set listed"
begin

lemma text_roundtrip: "marshal s = Inr t \<Longrightarrow> unmarshal t = Inr s"
  by (simp add: marshal_listed unmarshal_listed split: if_splits)

lemma marshal_valid: "marshal s = (if valid s then Inr s else Inl (InvalidValue s))"
  by (simp add: marshal_listed valid_listed)

lemma unmarshal_valid: "unmarshal s = (if valid s then Inr s else Inl (InvalidValue s))"
  by (simp add: unmarshal_listed valid_listed)

lemma decode_checks_nothing: "decode (JStr s) = Inr s"
  by (simp add: decode_text)

lemma some_value_invalid: "\<exists>s. decode (JStr s) = Inr s \<and> \<not> valid s"
  using ex_new_if_finite [OF infinite_UNIV_listI finite_set] by (auto simp: decode_text valid_listed)

end

text \<open>JSON keeps any text: the codec of an enumeration is the one of a string.\<close>

sublocale text_enum \<subseteq> json: json_codec JStr decode "\<lambda>_. True"
  by unfold_locales (simp_all add: decode_text)

section \<open>AccountStatus\<close>

definition AccountStatus_AllValues :: "string list" where
  "AccountStatus_AllValues = [''connected'', ''error'', ''disconnected'']"

definition AccountStatus_MarshalText :: "string \<Rightarrow> text_error + string" where
  "AccountStatus_MarshalText s =
     (if s = ''connected'' then Inr s
      else if s = ''error'' then Inr s
      else if s = ''disconnected'' then Inr s
      else Inl (InvalidValue s))"

definition AccountStatus_UnmarshalText :: "string \<Rightarrow> text_error + string" where
  "AccountStatus_UnmarshalText text =
     (if text = ''connected'' then Inr ''connected''
      else if text = ''error'' then Inr ''error''
      else if text = ''disconnected'' then Inr ''disconnected''
      else Inl (InvalidValue text))"

definition AccountStatus_Decode :: "string decoder" where
  "AccountStatus_Decode j =
     (case jx_Str j of
        Inl e \<Rightarrow> Inl e
      | Inr v \<Rightarrow>
          Inr (if v = ''connected'' then ''connected''
               else if v = ''error'' then ''error''
               else if v = ''disconnected'' then ''disconnected''
               else v))"

interpretation account_status: text_enum AccountStatus_AllValues AccountStatus_MarshalText AccountStatus_UnmarshalText AccountStatus_Decode AccountStatus_Validate
  by unfold_locales (auto simp: AccountStatus_AllValues_def AccountStatus_MarshalText_def AccountStatus_UnmarshalText_def AccountStatus_Decode_def
      AccountStatus_Validate_def split: sum.split)

section \<open>AssignedBy\<close>

definition AssignedBy_AllValues :: "string list" where
  "AssignedBy_AllValues = [''rule'', ''model'', ''manual'']"

definition AssignedBy_MarshalText :: "string \<Rightarrow> text_error + string" where
  "AssignedBy_MarshalText s =
     (if s = ''rule'' then Inr s
      else if s = ''model'' then Inr s
      else if s = ''manual'' then Inr s
      else Inl (InvalidValue s))"

definition AssignedBy_UnmarshalText :: "string \<Rightarrow> text_error + string" where
  "AssignedBy_UnmarshalText text =
     (if text = ''rule'' then Inr ''rule''
      else if text = ''model'' then Inr ''model''
      else if text = ''manual'' then Inr ''manual''
      else Inl (InvalidValue text))"

definition AssignedBy_Decode :: "string decoder" where
  "AssignedBy_Decode j =
     (case jx_Str j of
        Inl e \<Rightarrow> Inl e
      | Inr v \<Rightarrow>
          Inr (if v = ''rule'' then ''rule''
               else if v = ''model'' then ''model''
               else if v = ''manual'' then ''manual''
               else v))"

interpretation assigned_by: text_enum AssignedBy_AllValues AssignedBy_MarshalText AssignedBy_UnmarshalText AssignedBy_Decode AssignedBy_Validate
  by unfold_locales (auto simp: AssignedBy_AllValues_def AssignedBy_MarshalText_def AssignedBy_UnmarshalText_def AssignedBy_Decode_def
      AssignedBy_Validate_def split: sum.split)

section \<open>AuthProviderKind\<close>

definition AuthProviderKind_AllValues :: "string list" where
  "AuthProviderKind_AllValues = [''google'', ''zalo'', ''facebook'', ''passkey'', ''password'']"

definition AuthProviderKind_MarshalText :: "string \<Rightarrow> text_error + string" where
  "AuthProviderKind_MarshalText s =
     (if s = ''google'' then Inr s
      else if s = ''zalo'' then Inr s
      else if s = ''facebook'' then Inr s
      else if s = ''passkey'' then Inr s
      else if s = ''password'' then Inr s
      else Inl (InvalidValue s))"

definition AuthProviderKind_UnmarshalText :: "string \<Rightarrow> text_error + string" where
  "AuthProviderKind_UnmarshalText text =
     (if text = ''google'' then Inr ''google''
      else if text = ''zalo'' then Inr ''zalo''
      else if text = ''facebook'' then Inr ''facebook''
      else if text = ''passkey'' then Inr ''passkey''
      else if text = ''password'' then Inr ''password''
      else Inl (InvalidValue text))"

definition AuthProviderKind_Decode :: "string decoder" where
  "AuthProviderKind_Decode j =
     (case jx_Str j of
        Inl e \<Rightarrow> Inl e
      | Inr v \<Rightarrow>
          Inr (if v = ''google'' then ''google''
               else if v = ''zalo'' then ''zalo''
               else if v = ''facebook'' then ''facebook''
               else if v = ''passkey'' then ''passkey''
               else if v = ''password'' then ''password''
               else v))"

interpretation auth_provider_kind: text_enum AuthProviderKind_AllValues AuthProviderKind_MarshalText AuthProviderKind_UnmarshalText AuthProviderKind_Decode AuthProviderKind_Validate
  by unfold_locales (auto simp: AuthProviderKind_AllValues_def AuthProviderKind_MarshalText_def AuthProviderKind_UnmarshalText_def AuthProviderKind_Decode_def
      AuthProviderKind_Validate_def split: sum.split)

section \<open>CommitmentDirection\<close>

definition CommitmentDirection_AllValues :: "string list" where
  "CommitmentDirection_AllValues = [''i_owe'', ''owed_to_me'']"

definition CommitmentDirection_MarshalText :: "string \<Rightarrow> text_error + string" where
  "CommitmentDirection_MarshalText s =
     (if s = ''i_owe'' then Inr s
      else if s = ''owed_to_me'' then Inr s
      else Inl (InvalidValue s))"

definition CommitmentDirection_UnmarshalText :: "string \<Rightarrow> text_error + string" where
  "CommitmentDirection_UnmarshalText text =
     (if text = ''i_owe'' then Inr ''i_owe''
      else if text = ''owed_to_me'' then Inr ''owed_to_me''
      else Inl (InvalidValue text))"

definition CommitmentDirection_Decode :: "string decoder" where
  "CommitmentDirection_Decode j =
     (case jx_Str j of
        Inl e \<Rightarrow> Inl e
      | Inr v \<Rightarrow>
          Inr (if v = ''i_owe'' then ''i_owe''
               else if v = ''owed_to_me'' then ''owed_to_me''
               else v))"

interpretation commitment_direction: text_enum CommitmentDirection_AllValues CommitmentDirection_MarshalText CommitmentDirection_UnmarshalText CommitmentDirection_Decode CommitmentDirection_Validate
  by unfold_locales (auto simp: CommitmentDirection_AllValues_def CommitmentDirection_MarshalText_def CommitmentDirection_UnmarshalText_def CommitmentDirection_Decode_def
      CommitmentDirection_Validate_def split: sum.split)

section \<open>CommitmentStatus\<close>

definition CommitmentStatus_AllValues :: "string list" where
  "CommitmentStatus_AllValues = [''open'', ''fulfilled'', ''waived'', ''dropped'']"

definition CommitmentStatus_MarshalText :: "string \<Rightarrow> text_error + string" where
  "CommitmentStatus_MarshalText s =
     (if s = ''open'' then Inr s
      else if s = ''fulfilled'' then Inr s
      else if s = ''waived'' then Inr s
      else if s = ''dropped'' then Inr s
      else Inl (InvalidValue s))"

definition CommitmentStatus_UnmarshalText :: "string \<Rightarrow> text_error + string" where
  "CommitmentStatus_UnmarshalText text =
     (if text = ''open'' then Inr ''open''
      else if text = ''fulfilled'' then Inr ''fulfilled''
      else if text = ''waived'' then Inr ''waived''
      else if text = ''dropped'' then Inr ''dropped''
      else Inl (InvalidValue text))"

definition CommitmentStatus_Decode :: "string decoder" where
  "CommitmentStatus_Decode j =
     (case jx_Str j of
        Inl e \<Rightarrow> Inl e
      | Inr v \<Rightarrow>
          Inr (if v = ''open'' then ''open''
               else if v = ''fulfilled'' then ''fulfilled''
               else if v = ''waived'' then ''waived''
               else if v = ''dropped'' then ''dropped''
               else v))"

interpretation commitment_status: text_enum CommitmentStatus_AllValues CommitmentStatus_MarshalText CommitmentStatus_UnmarshalText CommitmentStatus_Decode CommitmentStatus_Validate
  by unfold_locales (auto simp: CommitmentStatus_AllValues_def CommitmentStatus_MarshalText_def CommitmentStatus_UnmarshalText_def CommitmentStatus_Decode_def
      CommitmentStatus_Validate_def split: sum.split)

section \<open>ContextColor\<close>

definition ContextColor_AllValues :: "string list" where
  "ContextColor_AllValues = [''slate'', ''blue'', ''violet'', ''green'', ''teal'', ''rose'']"

definition ContextColor_MarshalText :: "string \<Rightarrow> text_error + string" where
  "ContextColor_MarshalText s =
     (if s = ''slate'' then Inr s
      else if s = ''blue'' then Inr s
      else if s = ''violet'' then Inr s
      else if s = ''green'' then Inr s
      else if s = ''teal'' then Inr s
      else if s = ''rose'' then Inr s
      else Inl (InvalidValue s))"

definition ContextColor_UnmarshalText :: "string \<Rightarrow> text_error + string" where
  "ContextColor_UnmarshalText text =
     (if text = ''slate'' then Inr ''slate''
      else if text = ''blue'' then Inr ''blue''
      else if text = ''violet'' then Inr ''violet''
      else if text = ''green'' then Inr ''green''
      else if text = ''teal'' then Inr ''teal''
      else if text = ''rose'' then Inr ''rose''
      else Inl (InvalidValue text))"

definition ContextColor_Decode :: "string decoder" where
  "ContextColor_Decode j =
     (case jx_Str j of
        Inl e \<Rightarrow> Inl e
      | Inr v \<Rightarrow>
          Inr (if v = ''slate'' then ''slate''
               else if v = ''blue'' then ''blue''
               else if v = ''violet'' then ''violet''
               else if v = ''green'' then ''green''
               else if v = ''teal'' then ''teal''
               else if v = ''rose'' then ''rose''
               else v))"

interpretation context_color: text_enum ContextColor_AllValues ContextColor_MarshalText ContextColor_UnmarshalText ContextColor_Decode ContextColor_Validate
  by unfold_locales (auto simp: ContextColor_AllValues_def ContextColor_MarshalText_def ContextColor_UnmarshalText_def ContextColor_Decode_def
      ContextColor_Validate_def split: sum.split)

section \<open>Reliability\<close>

definition Reliability_AllValues :: "string list" where
  "Reliability_AllValues = [''official'', ''unofficial'', ''manual'']"

definition Reliability_MarshalText :: "string \<Rightarrow> text_error + string" where
  "Reliability_MarshalText s =
     (if s = ''official'' then Inr s
      else if s = ''unofficial'' then Inr s
      else if s = ''manual'' then Inr s
      else Inl (InvalidValue s))"

definition Reliability_UnmarshalText :: "string \<Rightarrow> text_error + string" where
  "Reliability_UnmarshalText text =
     (if text = ''official'' then Inr ''official''
      else if text = ''unofficial'' then Inr ''unofficial''
      else if text = ''manual'' then Inr ''manual''
      else Inl (InvalidValue text))"

definition Reliability_Decode :: "string decoder" where
  "Reliability_Decode j =
     (case jx_Str j of
        Inl e \<Rightarrow> Inl e
      | Inr v \<Rightarrow>
          Inr (if v = ''official'' then ''official''
               else if v = ''unofficial'' then ''unofficial''
               else if v = ''manual'' then ''manual''
               else v))"

interpretation reliability: text_enum Reliability_AllValues Reliability_MarshalText Reliability_UnmarshalText Reliability_Decode Reliability_Validate
  by unfold_locales (auto simp: Reliability_AllValues_def Reliability_MarshalText_def Reliability_UnmarshalText_def Reliability_Decode_def
      Reliability_Validate_def split: sum.split)

section \<open>SignalKind\<close>

definition SignalKind_AllValues :: "string list" where
  "SignalKind_AllValues = [''email'', ''message'', ''calendar_event'', ''file'']"

definition SignalKind_MarshalText :: "string \<Rightarrow> text_error + string" where
  "SignalKind_MarshalText s =
     (if s = ''email'' then Inr s
      else if s = ''message'' then Inr s
      else if s = ''calendar_event'' then Inr s
      else if s = ''file'' then Inr s
      else Inl (InvalidValue s))"

definition SignalKind_UnmarshalText :: "string \<Rightarrow> text_error + string" where
  "SignalKind_UnmarshalText text =
     (if text = ''email'' then Inr ''email''
      else if text = ''message'' then Inr ''message''
      else if text = ''calendar_event'' then Inr ''calendar_event''
      else if text = ''file'' then Inr ''file''
      else Inl (InvalidValue text))"

definition SignalKind_Decode :: "string decoder" where
  "SignalKind_Decode j =
     (case jx_Str j of
        Inl e \<Rightarrow> Inl e
      | Inr v \<Rightarrow>
          Inr (if v = ''email'' then ''email''
               else if v = ''message'' then ''message''
               else if v = ''calendar_event'' then ''calendar_event''
               else if v = ''file'' then ''file''
               else v))"

interpretation signal_kind: text_enum SignalKind_AllValues SignalKind_MarshalText SignalKind_UnmarshalText SignalKind_Decode SignalKind_Validate
  by unfold_locales (auto simp: SignalKind_AllValues_def SignalKind_MarshalText_def SignalKind_UnmarshalText_def SignalKind_Decode_def
      SignalKind_Validate_def split: sum.split)

section \<open>TaskOwner\<close>

definition TaskOwner_AllValues :: "string list" where
  "TaskOwner_AllValues = [''me'', ''agent'']"

definition TaskOwner_MarshalText :: "string \<Rightarrow> text_error + string" where
  "TaskOwner_MarshalText s =
     (if s = ''me'' then Inr s
      else if s = ''agent'' then Inr s
      else Inl (InvalidValue s))"

definition TaskOwner_UnmarshalText :: "string \<Rightarrow> text_error + string" where
  "TaskOwner_UnmarshalText text =
     (if text = ''me'' then Inr ''me''
      else if text = ''agent'' then Inr ''agent''
      else Inl (InvalidValue text))"

definition TaskOwner_Decode :: "string decoder" where
  "TaskOwner_Decode j =
     (case jx_Str j of
        Inl e \<Rightarrow> Inl e
      | Inr v \<Rightarrow>
          Inr (if v = ''me'' then ''me''
               else if v = ''agent'' then ''agent''
               else v))"

interpretation task_owner: text_enum TaskOwner_AllValues TaskOwner_MarshalText TaskOwner_UnmarshalText TaskOwner_Decode TaskOwner_Validate
  by unfold_locales (auto simp: TaskOwner_AllValues_def TaskOwner_MarshalText_def TaskOwner_UnmarshalText_def TaskOwner_Decode_def
      TaskOwner_Validate_def split: sum.split)

section \<open>TaskStatus\<close>

definition TaskStatus_AllValues :: "string list" where
  "TaskStatus_AllValues = [''open'', ''in_progress'', ''blocked'', ''done'', ''dropped'']"

definition TaskStatus_MarshalText :: "string \<Rightarrow> text_error + string" where
  "TaskStatus_MarshalText s =
     (if s = ''open'' then Inr s
      else if s = ''in_progress'' then Inr s
      else if s = ''blocked'' then Inr s
      else if s = ''done'' then Inr s
      else if s = ''dropped'' then Inr s
      else Inl (InvalidValue s))"

definition TaskStatus_UnmarshalText :: "string \<Rightarrow> text_error + string" where
  "TaskStatus_UnmarshalText text =
     (if text = ''open'' then Inr ''open''
      else if text = ''in_progress'' then Inr ''in_progress''
      else if text = ''blocked'' then Inr ''blocked''
      else if text = ''done'' then Inr ''done''
      else if text = ''dropped'' then Inr ''dropped''
      else Inl (InvalidValue text))"

definition TaskStatus_Decode :: "string decoder" where
  "TaskStatus_Decode j =
     (case jx_Str j of
        Inl e \<Rightarrow> Inl e
      | Inr v \<Rightarrow>
          Inr (if v = ''open'' then ''open''
               else if v = ''in_progress'' then ''in_progress''
               else if v = ''blocked'' then ''blocked''
               else if v = ''done'' then ''done''
               else if v = ''dropped'' then ''dropped''
               else v))"

interpretation task_status: text_enum TaskStatus_AllValues TaskStatus_MarshalText TaskStatus_UnmarshalText TaskStatus_Decode TaskStatus_Validate
  by unfold_locales (auto simp: TaskStatus_AllValues_def TaskStatus_MarshalText_def TaskStatus_UnmarshalText_def TaskStatus_Decode_def
      TaskStatus_Validate_def split: sum.split)

section \<open>All of them\<close>

text \<open>
  An enumeration is strict as text and lenient as JSON: writing and reading text give the value itself
  exactly when \<^verbatim>\<open>Validate\<close> accepts it and name it otherwise, while JSON gives back any text.
\<close>

definition strict_text_lenient_json ::
  "(string \<Rightarrow> text_error + string) \<Rightarrow> (string \<Rightarrow> text_error + string) \<Rightarrow> string decoder \<Rightarrow> (string \<Rightarrow> bool) \<Rightarrow> bool" where
  "strict_text_lenient_json marshal unmarshal decode valid \<longleftrightarrow>
     (\<forall>s. marshal s = (if valid s then Inr s else Inl (InvalidValue s))
        \<and> unmarshal s = (if valid s then Inr s else Inl (InvalidValue s))
        \<and> decode (JStr s) = Inr s)
     \<and> (\<exists>s. decode (JStr s) = Inr s \<and> \<not> valid s)"

context text_enum
begin

lemma strict_text: "strict_text_lenient_json marshal unmarshal decode valid"
  unfolding strict_text_lenient_json_def
  using marshal_valid unmarshal_valid decode_checks_nothing some_value_invalid by blast

end

text \<open>
  The text functions of every enumeration of the contract refuse exactly what its \<^verbatim>\<open>Validate\<close> refuses, and
  read back what they wrote; its JSON decoder refuses no text.
\<close>

theorem enumerations_agree:
  "strict_text_lenient_json AccountStatus_MarshalText AccountStatus_UnmarshalText AccountStatus_Decode AccountStatus_Validate
   \<and> strict_text_lenient_json AssignedBy_MarshalText AssignedBy_UnmarshalText AssignedBy_Decode AssignedBy_Validate
   \<and> strict_text_lenient_json AuthProviderKind_MarshalText AuthProviderKind_UnmarshalText AuthProviderKind_Decode AuthProviderKind_Validate
   \<and> strict_text_lenient_json CommitmentDirection_MarshalText CommitmentDirection_UnmarshalText CommitmentDirection_Decode CommitmentDirection_Validate
   \<and> strict_text_lenient_json CommitmentStatus_MarshalText CommitmentStatus_UnmarshalText CommitmentStatus_Decode CommitmentStatus_Validate
   \<and> strict_text_lenient_json ContextColor_MarshalText ContextColor_UnmarshalText ContextColor_Decode ContextColor_Validate
   \<and> strict_text_lenient_json Reliability_MarshalText Reliability_UnmarshalText Reliability_Decode Reliability_Validate
   \<and> strict_text_lenient_json SignalKind_MarshalText SignalKind_UnmarshalText SignalKind_Decode SignalKind_Validate
   \<and> strict_text_lenient_json TaskOwner_MarshalText TaskOwner_UnmarshalText TaskOwner_Decode TaskOwner_Validate
   \<and> strict_text_lenient_json TaskStatus_MarshalText TaskStatus_UnmarshalText TaskStatus_Decode TaskStatus_Validate"
  by (intro conjI account_status.strict_text
      assigned_by.strict_text
      auth_provider_kind.strict_text
      commitment_direction.strict_text
      commitment_status.strict_text
      context_color.strict_text
      reliability.strict_text
      signal_kind.strict_text
      task_owner.strict_text
      task_status.strict_text)

end
