(* ===== verification/Spec2Isabelle.thy ===== *)
theory Spec2Isabelle
  imports Domain_Routing Auth_Lockout Auth_Linking Http_Behaviour Http_Contract Http_Registration
    Http_Redirect Work_Behaviour Store_Rows Process_Safety
    Client_Contexts Api_Enums
begin

text \<open>
  Verification of Warp (\<^verbatim>\<open>warp-work\<close>): root theory.

  Warp keeps the areas of a person's life as a tree of contexts and files signals, tasks and
  commitments in it. A Go server (\<^verbatim>\<open>apps/api\<close>) answers the contract \<^verbatim>\<open>docs/api/openapi.yaml\<close> through
  code generated by ogen (\<^verbatim>\<open>apps/api/internal/api\<close>) and handlers (\<^verbatim>\<open>apps/api/internal/httpapi\<close>). These
  call two services, \<^verbatim>\<open>internal/auth\<close> and \<^verbatim>\<open>internal/contexts\<close>, which work on PostgreSQL through
  statements generated by sqlc (\<^verbatim>\<open>internal/store\<close>). A worker (\<^verbatim>\<open>apps/worker\<close>) runs periodic jobs. The
  rules of the tables, triggers and views stand in \<^verbatim>\<open>db/migrations\<close>.

  \<^bold>\<open>Ground.\<close> \<open>Go_Prelude\<close> has what Go's library does with errors, strings and times, \<open>Go_Encoding\<close>
  hexadecimal, base64 and SHA-256, \<open>Go_Strconv\<close> the reading of integers and durations, \<open>Go_Json\<close> the JSON of
  a struct of strings with a reader of whole documents, \<open>Go_Url\<close> addresses and queries, \<open>Go_Cookie\<close> the text of a
  cookie. They are executable, and what is written is shown to be read back. Errors are values of \<open>go_error\<close>, with \<open>errors_Is\<close> walking the chain of wrapped ones.

  \<^bold>\<open>Domain\<close> (\<^verbatim>\<open>internal/domain\<close>). \<open>Domain_Model\<close>: types and checks. \<open>Domain_Routing\<close>: the rules of the
  router; the lemmas show which contexts are assigned, once each, in an order that does not depend
  on the order of the rules.

  \<^bold>\<open>Store\<close> (\<^verbatim>\<open>internal/store\<close>, \<^verbatim>\<open>db/migrations\<close>). \<open>Store_Models\<close>: enumerations and rows, \<open>Store_Rows\<close>: rows no statement touches yet. \<open>Store_DB\<close>: the
  database as a record of tables; a statement is a function of it that answers a value or an error,
  run under a schedule of failures before or after it takes effect; transactions restore the
  tables. \<open>Store_Auth\<close>, \<open>Store_Contexts\<close>, \<open>Store_Work\<close>: every statement, with the keys, checks,
  references and triggers that run with it. \<open>Store_Integrity\<close> and \<open>Work_Safety\<close>: what every statement
  keeps. \<open>Work_Behaviour\<close>: what the statements on signals, accounts and tasks answer.

  \<^bold>\<open>Authentication\<close> (\<^verbatim>\<open>internal/auth\<close>). \<open>Auth_Password\<close>: argon2id hashes in text; \<open>Auth_Service\<close>:
  registration, sign-in, sessions, lock-out; \<open>Auth_Federated\<close>: Google. \<open>Auth_Safety\<close> has the invariants
  over all interleavings and failures, \<open>Auth_Behaviour\<close>, \<open>Auth_Lockout\<close> and \<open>Auth_Linking\<close> what each
  operation does.

  \<^bold>\<open>Contexts\<close> (\<^verbatim>\<open>internal/contexts\<close>). \<open>Contexts_Tree\<close>: reachability and the trigger; \<open>Contexts_View\<close>: the
  recursive view, level by level; \<open>Contexts_Service\<close>: the operations; \<open>Contexts_Safety\<close> and
  \<open>Contexts_Behaviour\<close>: the invariant of the tree and the rules each operation follows.

  \<^bold>\<open>HTTP.\<close> \<open>Api_Router\<close>: the two searches of the generated router against a table of the contract;
  \<open>Http_Errors\<close>: from an error to a status and an envelope; \<open>Api_Schemas\<close>, \<open>Api_Json\<close>, \<open>Api_Codecs\<close>,
  \<open>Api_Required\<close>, \<open>Api_Requests\<close>: types of the contract, their JSON, validators, parameters and bodies;
  \<open>Http_Handlers\<close>: the operations; \<open>Http_Server\<close>: a whole request, from the router through security,
  decoding and the operation to the response. \<open>Http_Safety\<close> carries the invariants of the services to
  sequences of requests; \<open>Http_Contract\<close> has the status and the code of every answer from a table over what happened
  to the request; \<open>Http_Behaviour\<close> and \<open>Http_Registration\<close> follow single requests from document to document, and
  \<open>Http_Redirect\<close> shows where a sign-in with Google lands.

  \<^bold>\<open>The client.\<close> \<open>Api_Codecs_Work\<close>: JSON of the responses no handler returns yet; \<open>Api_Enums\<close>: the
  enumerations as text and as JSON; \<open>Api_Client\<close>: the generated client, from a call to its request and from a reply to its
  result; \<open>Client_Server\<close> shows that a call arrives at its operation, \<open>Client_Behaviour\<close> that the answer
  arrives at the caller, and \<open>Client_Contexts\<close> follows a listing of the contexts from the tables to the caller,
  with \<open>Json_Text\<close> as a library that writes and reads documents.

  \<^bold>\<open>Processes.\<close> \<open>Config\<close>: the loading of the settings, against rules that read one variable at a time;
  \<open>Process\<close> and \<open>Process_Safety\<close>: the check of the schema version, the probes, how the two processes
  start and end, and the worker's job.

  \<^bold>\<open>State and steps.\<close> A service call is a function from a world (tables, a schedule of faults, the
  state of a transaction) to a result and a world; \<open>auth_reachable\<close>, \<open>system_reachable\<close>, \<open>api_reachable\<close>
  and the steps of \<open>Work_Safety\<close> are inductive sets of the databases that calls lead to from an empty one, under
  any environment and any faults. Statements run one after the other: a statement is atomic, and no
  other connection runs between the statements of one call, except where a property lets arbitrary
  steps come between calls.

  \<^bold>\<open>Bounds.\<close> The walk of the recursive view has the number of rows as its fuel; \<open>context_tree_walk_ends\<close>
  shows that nothing is left by then. The loop of the cycle trigger stops at its own depth limit. The
  loops over bits, digits, characters and durations are functions with a measure; the reader of a JSON
  document has twice its length as fuel, and \<open>read_document_fuel\<close> shows that more changes nothing. Times of rows count
  microseconds, as PostgreSQL keeps them, and durations of settings nanoseconds, in 64 bits where the
  code reads them; sorting keeps ties in the order of the rows.

  \<^bold>\<open>Parameters.\<close> What is not code of the repository is an argument: random bytes, clocks and
  identifiers (\<open>env\<close>), the key derivation of argon2, the verification of Google's tokens (\<open>oidc\<close>), tables of
  Unicode (\<open>unicode\<close>), the collation and the normal form of jsonb, the packages of ogen and jx (\<open>ogen\<close>,
  \<open>ogen_lib\<close>, \<open>client_lib\<close>), how a host is read in an address (\<open>parseHost\<close>), the text of errors, the pool,
  Redis and the queue (\<open>platform\<close>).

  \<^bold>\<open>Not modelled.\<close> Metrics, traces and logs; the declarations of interfaces, and the options that wire a
  client or a server together; the accessors of fields, which the selectors and updates of the records are, and
  the copies of the methods of the optional types; \<^verbatim>\<open>MarshalJSON\<close> and \<^verbatim>\<open>UnmarshalJSON\<close>, which only call \<^verbatim>\<open>Encode\<close> and
  \<^verbatim>\<open>Decode\<close>; the connection pool, the wiring of echo, the static documents and the web application.
\<close>

end
